(* ===== verification/Prelude.thy ===== *)
theory Prelude
  imports Complex_Main "HOL-Library.Sublist" "HOL-Library.List_Lexorder" "HOL-Library.Char_ord"
begin

text \<open>
  What every component of the model shares.

  \<^item> Go's \<^verbatim>\<open>error\<close> values: a text, a package-level sentinel variable, or
    \<^verbatim>\<open>fmt.Errorf("...%w", err)\<close>, which renders a message and remembers the wrapped
    error.  \<open>errors_is\<close> is \<^verbatim>\<open>errors.Is\<close> for a sentinel, \<open>error_string\<close> is
    \<^verbatim>\<open>err.Error()\<close>.
  \<^item> A fallible call over a world \<open>'w\<close> returns \<open>(goerr + 'a) \<times> 'w\<close>: the result (\<open>Inl\<close> is a
    non-nil error) and the world after the call.
  \<^item> The functions of Go's \<^verbatim>\<open>strings\<close> and \<^verbatim>\<open>strconv\<close> packages the code calls.  A Go
    string is a sequence of bytes, which is what \<open>string\<close> is here; \<^verbatim>\<open>len\<close> is \<open>length\<close>.
  \<^item> Go maps from strings, as association lists with distinct keys in some iteration order.
  \<^item> The collections \<open>go_simps\<close> (evaluation of calls) and \<open>str_simps\<close> (the string functions).
\<close>

named_theorems go_simps
named_theorems str_simps

section \<open>Errors\<close>

datatype goerr = ErrText string | ErrVar string string | ErrWrap string goerr

primrec error_string :: "goerr \<Rightarrow> string" where
  "error_string (ErrText m) = m"
| "error_string (ErrVar v m) = m"
| "error_string (ErrWrap m e) = m"

primrec errors_is :: "goerr \<Rightarrow> string \<Rightarrow> bool" where
  "errors_is (ErrText m) v = False"
| "errors_is (ErrVar u m) v = (u = v)"
| "errors_is (ErrWrap m e) v = errors_is e v"

definition errorf :: "string \<Rightarrow> goerr \<Rightarrow> goerr" where
  "errorf p e = ErrWrap (p @ '': '' @ error_string e) e"

lemma errors_is_errorf [simp]: "errors_is (errorf p e) v = errors_is e v"
  by (simp add: errorf_def)

lemma error_string_errorf [simp]: "error_string (errorf p e) = p @ '': '' @ error_string e"
  by (simp add: errorf_def)

section \<open>Fallible calls\<close>

type_synonym 'a result = "goerr + 'a"

type_synonym ('w, 'a) call = "'w \<Rightarrow> 'a result \<times> 'w"

definition is_err :: "'a result \<Rightarrow> bool" where
  "is_err r = (case r of Inl _ \<Rightarrow> True | Inr _ \<Rightarrow> False)"

lemma is_err_simps [simp, go_simps]: "is_err (Inl e)" "\<not> is_err (Inr x)"
  by (simp_all add: is_err_def)

lemma not_is_errE: "\<not> is_err r \<Longrightarrow> (\<And>x. r = Inr x \<Longrightarrow> P) \<Longrightarrow> P"
  by (cases r) auto

lemma is_errE: "is_err r \<Longrightarrow> (\<And>e. r = Inl e \<Longrightarrow> P) \<Longrightarrow> P"
  by (cases r) auto

definition wrap_err :: "string \<Rightarrow> 'a result \<times> 'w \<Rightarrow> 'a result \<times> 'w" where
  "wrap_err p rw = (case rw of (Inl e, w) \<Rightarrow> (Inl (errorf p e), w) | (Inr x, w) \<Rightarrow> (Inr x, w))"

lemma wrap_err_simps [simp, go_simps]:
  "wrap_err p (Inl e, w) = (Inl (errorf p e), w)"
  "wrap_err p (Inr x, w) = (Inr x, w)"
  by (simp_all add: wrap_err_def)

lemma snd_wrap_err [simp]: "snd (wrap_err p rw) = snd rw"
  by (cases rw; cases "fst rw") (auto simp: wrap_err_def)

lemma is_err_wrap_err [simp]: "is_err (fst (wrap_err p rw)) = is_err (fst rw)"
  by (cases rw; cases "fst rw") (auto simp: wrap_err_def)

text \<open>
  Case analysis on the outcome of a call inside a call: \<open>call_cases\<close> splits the match on its
  result, and \<open>call_keeps\<close> carries a predicate on worlds through it.
\<close>

lemma call_cases:
  assumes "\<And>e w'. rw = (Inl e, w') \<Longrightarrow> Q (f e w')" and "\<And>x w'. rw = (Inr x, w') \<Longrightarrow> Q (g x w')"
  shows "Q (case rw of (Inl e, w') \<Rightarrow> f e w' | (Inr x, w') \<Rightarrow> g x w')"
  using assms by (cases rw; cases "fst rw") auto

lemma call_keeps:
  assumes "\<And>e w'. rw = (Inl e, w') \<Longrightarrow> P w' \<Longrightarrow> P (snd (f e w'))"
    and "\<And>x w'. rw = (Inr x, w') \<Longrightarrow> P w' \<Longrightarrow> P (snd (g x w'))" and "P (snd rw)"
  shows "P (snd (case rw of (Inl e, w') \<Rightarrow> f e w' | (Inr x, w') \<Rightarrow> g x w'))"
  using assms by (cases rw; cases "fst rw") auto

section \<open>Strings\<close>

definition has_prefix :: "string \<Rightarrow> string \<Rightarrow> bool" where
  "has_prefix s p = (take (length p) s = p)"

definition has_suffix :: "string \<Rightarrow> string \<Rightarrow> bool" where
  "has_suffix s p = (length p \<le> length s \<and> drop (length s - length p) s = p)"

definition trim_prefix :: "string \<Rightarrow> string \<Rightarrow> string" where
  "trim_prefix s p = (if has_prefix s p then drop (length p) s else s)"

definition cut_prefix :: "string \<Rightarrow> string \<Rightarrow> string \<times> bool" where
  "cut_prefix s p = (if has_prefix s p then (drop (length p) s, True) else (s, False))"

fun index_byte :: "string \<Rightarrow> char \<Rightarrow> nat option" where
  "index_byte [] c = None"
| "index_byte (x # xs) c = (if x = c then Some 0 else map_option Suc (index_byte xs c))"

definition contains_any :: "string \<Rightarrow> string \<Rightarrow> bool" where
  "contains_any s cs = list_ex (\<lambda>c. c \<in> set cs) s"

fun contains_str :: "string \<Rightarrow> string \<Rightarrow> bool" where
  "contains_str [] p = (p = [])"
| "contains_str (x # xs) p = (has_prefix (x # xs) p \<or> contains_str xs p)"

fun split_byte :: "string \<Rightarrow> char \<Rightarrow> string list" where
  "split_byte [] c = [[]]"
| "split_byte (x # xs) c =
     (if x = c then [] # split_byte xs c
      else (case split_byte xs c of [] \<Rightarrow> [[x]] | l # ls \<Rightarrow> (x # l) # ls))"

fun join :: "string list \<Rightarrow> string \<Rightarrow> string" where
  "join [] sep = []"
| "join [s] sep = s"
| "join (s # ss) sep = s @ sep @ join ss sep"

lemma has_prefix_iff [str_simps]: "has_prefix s p \<longleftrightarrow> (\<exists>t. s = p @ t)"
  unfolding has_prefix_def by (metis append_eq_conv_conj append_take_drop_id)

lemma has_suffix_iff [str_simps]: "has_suffix s p \<longleftrightarrow> (\<exists>t. s = t @ p)"
  unfolding has_suffix_def
  by (metis append_eq_conv_conj append_take_drop_id diff_diff_cancel diff_le_self
      length_append length_drop add_diff_cancel_right' le_add2)

lemma has_prefix_append [simp]: "has_prefix (p @ t) p"
  by (simp add: has_prefix_def)

lemma trim_prefix_append [simp]: "trim_prefix (p @ t) p = t"
  by (simp add: trim_prefix_def)

lemma cut_prefix_append [simp]: "cut_prefix (p @ t) p = (t, True)"
  by (simp add: cut_prefix_def)

lemma cut_prefix_True: "cut_prefix s p = (t, True) \<longleftrightarrow> s = p @ t"
  by (auto simp: cut_prefix_def has_prefix_iff split: if_splits)

lemma index_byte_None: "index_byte s c = None \<longleftrightarrow> c \<notin> set s"
  by (induction s) auto

lemma index_byte_Some:
  "index_byte s c = Some i \<longleftrightarrow> i < length s \<and> s ! i = c \<and> c \<notin> set (take i s)"
proof (induction s arbitrary: i)
  case Nil
  then show ?case by simp
next
  case (Cons x xs)
  show ?case by (cases i) (auto simp: Cons.IH)
qed

lemma contains_any_iff [str_simps]: "contains_any s cs \<longleftrightarrow> (\<exists>c \<in> set s. c \<in> set cs)"
  by (auto simp: contains_any_def list_ex_iff)

lemma contains_str_iff [str_simps]: "contains_str s p \<longleftrightarrow> (\<exists>u v. s = u @ p @ v)"
proof (induction s)
  case Nil
  then show ?case by auto
next
  case (Cons x xs)
  have "(\<exists>u v. x # xs = u @ p @ v) \<longleftrightarrow> (\<exists>v. x # xs = p @ v) \<or> (\<exists>u v. xs = u @ p @ v)"
    by (metis Cons_eq_append_conv append_Cons append_Nil)
  then show ?case by (simp add: Cons.IH has_prefix_iff)
qed

section \<open>Decimal numbers\<close>

fun digits_of :: "nat \<Rightarrow> string" where
  "digits_of n = (if n < 10 then [char_of (48 + n)] else digits_of (n div 10) @ [char_of (48 + n mod 10)])"

declare digits_of.simps [simp del]

definition itoa :: "int \<Rightarrow> string" where
  "itoa i = (if i < 0 then CHR ''-'' # digits_of (nat (- i)) else digits_of (nat i))"

definition digit_val :: "char \<Rightarrow> nat option" where
  "digit_val c = (let k = of_char c :: nat in if 48 \<le> k \<and> k \<le> 57 then Some (k - 48) else None)"

fun parse_digits :: "string \<Rightarrow> nat \<Rightarrow> nat option" where
  "parse_digits [] acc = Some acc"
| "parse_digits (c # cs) acc =
     (case digit_val c of None \<Rightarrow> None | Some d \<Rightarrow> parse_digits cs (acc * 10 + d))"

text \<open>\<^verbatim>\<open>strconv.Atoi\<close> on a 64-bit platform: an optional sign, at least one digit, in range.\<close>

definition atoi :: "string \<Rightarrow> int option" where
  "atoi s =
     (let (neg, ds) = (case s of [] \<Rightarrow> (False, [])
                       | c # cs \<Rightarrow> if c = CHR ''-'' then (True, cs)
                                   else if c = CHR ''+'' then (False, cs) else (False, s))
      in if ds = [] then None
         else case parse_digits ds 0 of None \<Rightarrow> None
              | Some n \<Rightarrow> let v = (if neg then - int n else int n)
                          in if - (2 ^ 63) \<le> v \<and> v < 2 ^ 63 then Some v else None)"

lemma digit_val_digit: "d < 10 \<Longrightarrow> digit_val (char_of (48 + d :: nat)) = Some d"
  by (simp add: digit_val_def Let_def)

lemma parse_digits_append:
  "parse_digits (xs @ ys) acc =
     (case parse_digits xs acc of None \<Rightarrow> None | Some n \<Rightarrow> parse_digits ys n)"
  by (induction xs arbitrary: acc) (auto split: option.splits)

lemma parse_digits_of: "parse_digits (digits_of n) 0 = Some n"
proof (induction n rule: digits_of.induct)
  case (1 n)
  show ?case
  proof (cases "n < 10")
    case True
    then show ?thesis by (subst digits_of.simps) (simp add: digit_val_digit)
  next
    case False
    with "1.IH" have "parse_digits (digits_of (n div 10)) 0 = Some (n div 10)" by simp
    with False show ?thesis
      by (subst digits_of.simps) (simp add: parse_digits_append digit_val_digit)
  qed
qed

lemma digits_of_nonempty [simp]: "digits_of n \<noteq> []"
  by (subst digits_of.simps) simp

lemma digits_of_digit: "c \<in> set (digits_of n) \<Longrightarrow> 48 \<le> (of_char c :: nat) \<and> (of_char c :: nat) \<le> 57"
proof (induction n rule: digits_of.induct)
  case (1 n)
  then show ?case
    by (subst (asm) (2) digits_of.simps) (auto split: if_splits)
qed

lemma digits_of_hd: "hd (digits_of n) \<noteq> CHR ''-''" "hd (digits_of n) \<noteq> CHR ''+''"
  using digits_of_digit [of "hd (digits_of n)" n] by auto

lemma atoi_itoa:
  assumes "- (2 ^ 63) \<le> i" and "i < 2 ^ 63"
  shows "atoi (itoa i) = Some i"
proof (cases "i < 0")
  case True
  then show ?thesis using assms by (simp add: itoa_def atoi_def parse_digits_of)
next
  case False
  obtain c cs where d: "digits_of (nat i) = c # cs" by (cases "digits_of (nat i)") auto
  then have "c \<noteq> CHR ''-''" "c \<noteq> CHR ''+''" using digits_of_hd [of "nat i"] by auto
  then show ?thesis using False assms d parse_digits_of [of "nat i"]
    by (simp add: itoa_def atoi_def)
qed

lemma itoa_inj: "itoa i = itoa j \<Longrightarrow> i = j"
proof -
  assume eq: "itoa i = itoa j"
  have hd: "itoa k = CHR ''-'' # t \<Longrightarrow> k < 0 \<and> t = digits_of (nat (- k))" for k t
    using digits_of_hd(1) [of "nat k"] by (auto simp: itoa_def split: if_splits)
  have dig: "digits_of m = digits_of n \<Longrightarrow> m = n" for m n
    by (metis parse_digits_of option.inject)
  show "i = j"
  proof (cases "i < 0")
    case True
    then have "itoa i = CHR ''-'' # digits_of (nat (- i))" by (simp add: itoa_def)
    with eq have "itoa j = CHR ''-'' # digits_of (nat (- i))" by simp
    from hd [OF this] have "j < 0 \<and> digits_of (nat (- i)) = digits_of (nat (- j))" .
    with True dig show ?thesis by fastforce
  next
    case False
    have "\<not> j < 0"
    proof
      assume "j < 0"
      then have "itoa j = CHR ''-'' # digits_of (nat (- j))" by (simp add: itoa_def)
      with eq have "itoa i = CHR ''-'' # digits_of (nat (- j))" by simp
      from hd [OF this] False show False by simp
    qed
    with False eq dig show ?thesis by (fastforce simp: itoa_def)
  qed
qed

section \<open>Quoting\<close>

text \<open>
  \<^verbatim>\<open>fmt.Sprintf("%q", s)\<close>: quotes and backslashes are escaped, control characters are written
  as escapes; bytes above 127 are kept, which is right for printable UTF-8 text.
\<close>

definition hex_digit :: "nat \<Rightarrow> char" where
  "hex_digit n = (if n < 10 then char_of (48 + n) else char_of (87 + n))"

definition quote_char :: "char \<Rightarrow> string" where
  "quote_char c =
     (let k = of_char c :: nat in
      if k = 34 \<or> k = 92 then [CHR 0x5C, c]
      else if k = 7 then [CHR 0x5C, CHR ''a''] else if k = 8 then [CHR 0x5C, CHR ''b'']
      else if k = 9 then [CHR 0x5C, CHR ''t''] else if k = 10 then [CHR 0x5C, CHR ''n'']
      else if k = 11 then [CHR 0x5C, CHR ''v''] else if k = 12 then [CHR 0x5C, CHR ''f'']
      else if k = 13 then [CHR 0x5C, CHR ''r'']
      else if k < 32 \<or> k = 127 then [CHR 0x5C, CHR ''x'', hex_digit (k div 16), hex_digit (k mod 16)]
      else [c])"

definition quoted :: "string \<Rightarrow> string" where
  "quoted s = CHR 0x22 # concat (map quote_char s) @ [CHR 0x22]"

section \<open>Maps with string keys\<close>

type_synonym 'v gomap = "(string \<times> 'v) list"

definition gomap_ok :: "'v gomap \<Rightarrow> bool" where
  "gomap_ok m = distinct (map fst m)"

definition gomap_get :: "'v gomap \<Rightarrow> string \<Rightarrow> 'v option" where
  "gomap_get m k = map_of m k"

fun gomap_set :: "'v gomap \<Rightarrow> string \<Rightarrow> 'v \<Rightarrow> 'v gomap" where
  "gomap_set [] k v = [(k, v)]"
| "gomap_set ((k', v') # m) k v =
     (if k' = k then (k, v) # m else (k', v') # gomap_set m k v)"

definition gomap_delete :: "'v gomap \<Rightarrow> string \<Rightarrow> 'v gomap" where
  "gomap_delete m k = filter (\<lambda>(k', _). k' \<noteq> k) m"

lemma gomap_get_set [simp]:
  "gomap_get (gomap_set m k v) k' = (if k' = k then Some v else gomap_get m k')"
  by (induction m k v rule: gomap_set.induct) (auto simp: gomap_get_def)

lemma gomap_get_delete [simp]:
  "gomap_get (gomap_delete m k) k' = (if k' = k then None else gomap_get m k')"
  by (induction m) (auto simp: gomap_get_def gomap_delete_def)

lemma gomap_get_Nil [simp]: "gomap_get [] k = None"
  by (simp add: gomap_get_def)

lemma gomap_get_Cons [simp]:
  "gomap_get ((k', v) # m) k = (if k' = k then Some v else gomap_get m k)"
  by (simp add: gomap_get_def)

lemma gomap_get_None: "gomap_get m k = None \<longleftrightarrow> k \<notin> fst ` set m"
  by (simp add: gomap_get_def map_of_eq_None_iff)

lemma fst_gomap_set: "fst ` set (gomap_set m k v) = insert k (fst ` set m)"
  by (induction m k v rule: gomap_set.induct) auto

lemma gomap_ok_set: "gomap_ok m \<Longrightarrow> gomap_ok (gomap_set m k v)"
  by (induction m k v rule: gomap_set.induct) (auto simp: gomap_ok_def fst_gomap_set)

lemma gomap_ok_delete: "gomap_ok m \<Longrightarrow> gomap_ok (gomap_delete m k)"
  by (induction m) (auto simp: gomap_ok_def gomap_delete_def)

lemma gomap_get_mem: "gomap_get m k = Some v \<Longrightarrow> (k, v) \<in> set m"
  by (simp add: gomap_get_def map_of_SomeD)

section \<open>Lists\<close>

lemma distinct_map_filter_update:
  "distinct (map f xs) \<Longrightarrow> (\<And>x. f (g x) = f x) \<Longrightarrow> distinct (map f (map g xs))"
  by (simp add: o_def)

lemma find_Some_iff':
  "find P xs = Some x \<Longrightarrow> x \<in> set xs \<and> P x"
  by (auto simp: find_Some_iff)

end
