(* ===== verification/DockerManager.thy ===== *)
theory DockerManager
  imports Prelude "HOL-Library.Word"
begin

text \<open>
  \<^verbatim>\<open>apps/container-manager/internal/docker/manager.go\<close>: container lifecycle on the local
  Docker daemon and image pulls authenticated with the machine's service account.

  The Docker SDK client and the metadata server are outside the code: \<open>'w docker_cli\<close> and
  \<open>'w token_source\<close> hold one function per call the code makes, over a world \<open>'w\<close>.  The
  \<^verbatim>\<open>X-Registry-Auth\<close> value is kept as the struct that is serialised (\<open>None\<close> is the empty
  string, an unauthenticated pull); its JSON and base64 text is the standard library's.
  \<^verbatim>\<open>int64\<close> fields are 64-bit words, so the zero tests and the conversions are those of the code.
\<close>

record registry_auth =
  auth_username :: string
  auth_password :: string
  auth_server_address :: string

record create_options =
  co_image :: string
  co_env :: "string list"
  co_labels :: "string gomap"
  co_exposed_ports :: "string list"
  co_network_mode :: string
  co_memory :: "64 word"
  co_nano_cpus :: "64 word"
  co_port_bindings :: "(string \<times> string) list"
  co_log_config :: "(string \<times> string gomap) option"
  co_name :: string

record container_item =
  ci_id :: string
  ci_names :: "string list"
  ci_state :: string

record 'w docker_cli =
  cli_Ping :: "('w, unit) call"
  cli_ImageInspect :: "string \<Rightarrow> ('w, unit) call"
  cli_ImagePull :: "string \<Rightarrow> registry_auth option \<Rightarrow> ('w, nat) call"
  cli_drain :: "nat \<Rightarrow> ('w, unit) call"
  cli_ContainerCreate :: "create_options \<Rightarrow> ('w, string) call"
  cli_ContainerStart :: "string \<Rightarrow> ('w, unit) call"
  cli_ContainerList :: "(string \<times> string) list \<Rightarrow> ('w, container_item list) call"
  cli_ContainerStop :: "string \<Rightarrow> int \<Rightarrow> ('w, unit) call"
  cli_ContainerRemove :: "string \<Rightarrow> bool \<Rightarrow> ('w, unit) call"
  cli_ParsePort :: "string \<Rightarrow> string result"

type_synonym 'w token_source = "('w, string) call"

text \<open>
  \<^verbatim>\<open>MetadataTokenSource.Token\<close>: \<open>md_get\<close> queries the metadata server, \<open>decode\<close> is
  \<^verbatim>\<open>json.Unmarshal\<close> of the answer, giving the field \<^verbatim>\<open>access_token\<close> or its zero value.
\<close>

definition MetadataTokenSource_Token ::
    "(string \<Rightarrow> ('w, string) call) \<Rightarrow> (string \<Rightarrow> string result) \<Rightarrow> 'w token_source" where
  "MetadataTokenSource_Token md_get decode w =
     (case md_get ''instance/service-accounts/default/token'' w of
        (Inl e, w) \<Rightarrow> (Inl (errorf ''metadata token'' e), w)
      | (Inr tok, w) \<Rightarrow>
          (case decode tok of
             Inl e \<Rightarrow> (Inl (errorf ''decode metadata token'' e), w)
           | Inr access_token \<Rightarrow>
               if access_token = [] then (Inl (ErrText ''metadata token: empty access_token''), w)
               else (Inr access_token, w)))"

record 'w manager =
  mgr_cli :: "'w docker_cli"
  mgr_token :: "'w token_source"
  mgr_default_network :: string

definition NewManagerWithDeps :: "'w docker_cli \<Rightarrow> 'w token_source \<Rightarrow> string \<Rightarrow> 'w manager" where
  "NewManagerWithDeps cli token defaultNetwork =
     \<lparr>mgr_cli = cli, mgr_token = token,
      mgr_default_network = (if defaultNetwork = [] then ''bridge'' else defaultNetwork)\<rparr>"

definition Manager_Ping :: "'w manager \<Rightarrow> ('w, unit) call" where
  "Manager_Ping m = cli_Ping (mgr_cli m)"

record run_agent_request =
  ra_image :: string
  ra_name :: string
  ra_host_port :: int
  ra_container_port :: int
  ra_memory_bytes :: "64 word"
  ra_nano_cpus :: "64 word"
  ra_network :: string
  ra_env :: "string list"
  ra_labels :: "string gomap"

section \<open>Registries\<close>

definition registryHost :: "string \<Rightarrow> string" where
  "registryHost img =
     (case index_byte img (CHR ''/'') of
        Some i \<Rightarrow>
          if i > 0 then
            let head = take i img
            in if contains_any head ''.:'' \<or> head = ''localhost'' then head else ''docker.io''
          else ''docker.io''
      | None \<Rightarrow> ''docker.io'')"

definition needsGoogleAuth :: "string \<Rightarrow> bool" where
  "needsGoogleAuth img = has_suffix (registryHost img) ''.pkg.dev''"

definition googleRegistryAuth :: "'w manager \<Rightarrow> string \<Rightarrow> ('w, registry_auth) call" where
  "googleRegistryAuth m host w =
     (case mgr_token m w of
        (Inl e, w) \<Rightarrow> (Inl e, w)
      | (Inr tok, w) \<Rightarrow>
          (Inr \<lparr>auth_username = ''oauth2accesstoken'', auth_password = tok,
                auth_server_address = host\<rparr>, w))"

definition pullImage :: "'w manager \<Rightarrow> string \<Rightarrow> ('w, unit) call" where
  "pullImage m img w =
     (case (if needsGoogleAuth img
            then (case googleRegistryAuth m (registryHost img) w of
                    (Inl e, w) \<Rightarrow> (Inl (errorf ''registry auth'' e), w)
                  | (Inr a, w) \<Rightarrow> (Inr (Some a), w))
            else (Inr None, w)) of
        (Inl e, w) \<Rightarrow> (Inl e, w)
      | (Inr auth, w) \<Rightarrow>
          (case cli_ImagePull (mgr_cli m) img auth w of
             (Inl e, w) \<Rightarrow> (Inl e, w)
           | (Inr body, w) \<Rightarrow> wrap_err ''drain pull stream'' (cli_drain (mgr_cli m) body w)))"

definition ensureImage :: "'w manager \<Rightarrow> string \<Rightarrow> ('w, unit) call" where
  "ensureImage m img w =
     (case cli_ImageInspect (mgr_cli m) img w of
        (Inr _, w) \<Rightarrow> (Inr (), w)
      | (Inl _, w) \<Rightarrow> pullImage m img w)"

section \<open>Containers\<close>

definition gcplogsLogConfig :: "string gomap \<Rightarrow> string \<times> string gomap" where
  "gcplogsLogConfig labels =
     (''gcplogs'', [(''labels'', join (sort (map fst labels)) '','')])"

definition create_options_of :: "'w manager \<Rightarrow> string \<Rightarrow> run_agent_request \<Rightarrow> create_options" where
  "create_options_of m portProto req =
     \<lparr>co_image = ra_image req, co_env = ra_env req, co_labels = ra_labels req,
      co_exposed_ports = [portProto],
      co_network_mode = (if ra_network req = [] then mgr_default_network m else ra_network req),
      co_memory = (if ra_memory_bytes req = 0 then 512 * 1024 * 1024 else ra_memory_bytes req),
      co_nano_cpus = (if ra_nano_cpus req = 0 then 500000000 else ra_nano_cpus req),
      co_port_bindings = (if ra_host_port req > 0 then [(portProto, itoa (ra_host_port req))] else []),
      co_log_config = (if length (ra_labels req) > 0 then Some (gcplogsLogConfig (ra_labels req)) else None),
      co_name = ra_name req\<rparr>"

definition Manager_RunAgent :: "'w manager \<Rightarrow> run_agent_request \<Rightarrow> ('w, string) call" where
  "Manager_RunAgent m req w =
     (case ensureImage m (ra_image req) w of
        (Inl e, w) \<Rightarrow> (Inl (errorf (''ensure image '' @ quoted (ra_image req)) e), w)
      | (Inr _, w) \<Rightarrow>
          (case cli_ParsePort (mgr_cli m) (itoa (ra_container_port req) @ ''/tcp'') of
             Inl e \<Rightarrow> (Inl (errorf ''parse container port'' e), w)
           | Inr portProto \<Rightarrow>
               (case cli_ContainerCreate (mgr_cli m) (create_options_of m portProto req) w of
                  (Inl e, w) \<Rightarrow> (Inl (errorf (''create container '' @ quoted (ra_name req)) e), w)
                | (Inr i, w) \<Rightarrow>
                    (case cli_ContainerStart (mgr_cli m) i w of
                       (Inl e, w) \<Rightarrow>
                         (Inl (errorf (''start container '' @ quoted (ra_name req) @ '' (id='' @ i @ '')'') e), w)
                     | (Inr _, w) \<Rightarrow> (Inr i, w)))))"

definition AgentComponentLabel :: string where
  "AgentComponentLabel = ''cc-remote-agent''"

definition primaryName :: "string list \<Rightarrow> string" where
  "primaryName names = (case names of [] \<Rightarrow> [] | n # _ \<Rightarrow> trim_prefix n ''/'')"

definition Manager_ListAgents :: "'w manager \<Rightarrow> ('w, string list) call" where
  "Manager_ListAgents m w =
     (case cli_ContainerList (mgr_cli m)
             [(''label'', ''component='' @ AgentComponentLabel), (''status'', ''running'')] w of
        (Inl e, w) \<Rightarrow> (Inl (errorf ''list containers'' e), w)
      | (Inr items, w) \<Rightarrow> (Inr (map (\<lambda>c. primaryName (ci_names c)) items), w))"

definition Manager_StopAgent :: "'w manager \<Rightarrow> string \<Rightarrow> ('w, unit) call" where
  "Manager_StopAgent m name w =
     wrap_err (''stop container '' @ quoted name) (cli_ContainerStop (mgr_cli m) name 10 w)"

definition Manager_RemoveAgent :: "'w manager \<Rightarrow> string \<Rightarrow> ('w, unit) call" where
  "Manager_RemoveAgent m name w =
     wrap_err (''remove container '' @ quoted name) (cli_ContainerRemove (mgr_cli m) name True w)"

section \<open>The agent-manager interface\<close>

text \<open>
  \<^verbatim>\<open>AgentManager\<close> of the HTTP handlers, and \<^verbatim>\<open>DockerAgentLister\<close>, the adapter the
  self-reaper uses.
\<close>

record 'w agent_manager =
  am_Ping :: "('w, unit) call"
  am_RunAgent :: "run_agent_request \<Rightarrow> ('w, string) call"
  am_StopAgent :: "string \<Rightarrow> ('w, unit) call"
  am_RemoveAgent :: "string \<Rightarrow> ('w, unit) call"
  am_ListAgents :: "('w, string list) call"

definition agent_manager_of :: "'w manager \<Rightarrow> 'w agent_manager" where
  "agent_manager_of m =
     \<lparr>am_Ping = Manager_Ping m, am_RunAgent = Manager_RunAgent m, am_StopAgent = Manager_StopAgent m,
      am_RemoveAgent = Manager_RemoveAgent m, am_ListAgents = Manager_ListAgents m\<rparr>"

definition DockerAgentLister_AgentCount :: "'w manager \<Rightarrow> ('w, int) call" where
  "DockerAgentLister_AgentCount m w =
     (case Manager_ListAgents m w of
        (Inl e, w) \<Rightarrow> (Inl e, w)
      | (Inr agents, w) \<Rightarrow> (Inr (int (length agents)), w))"

section \<open>Properties\<close>

lemma registryHost_cases:
  "registryHost img = ''docker.io'' \<or>
   (\<exists>rest. img = registryHost img @ CHR ''/'' # rest \<and> CHR ''/'' \<notin> set (registryHost img))"
proof (cases "index_byte img (CHR ''/'')")
  case None
  then show ?thesis by (simp add: registryHost_def)
next
  case (Some i)
  then have i: "i < length img" "img ! i = CHR ''/''" "CHR ''/'' \<notin> set (take i img)"
    by (auto simp: index_byte_Some)
  have "img = take i img @ CHR ''/'' # drop (Suc i) img"
    using i by (metis id_take_nth_drop)
  with Some i show ?thesis by (auto simp: registryHost_def Let_def)
qed

lemma needsGoogleAuth_host:
  assumes "needsGoogleAuth img"
  shows "\<exists>host rest. img = host @ ''.pkg.dev'' @ CHR ''/'' # rest \<and>
           registryHost img = host @ ''.pkg.dev'' \<and> CHR ''/'' \<notin> set host"
proof -
  obtain host where h: "registryHost img = host @ ''.pkg.dev''"
    using assms by (auto simp: needsGoogleAuth_def has_suffix_iff)
  have "registryHost img \<noteq> ''docker.io''"
  proof
    assume "registryHost img = ''docker.io''"
    with assms show False by (simp add: needsGoogleAuth_def has_suffix_def)
  qed
  with registryHost_cases [of img] h show ?thesis by auto
qed

text \<open>
  The requests the manager may send to the daemon without exposing the machine's token: anything
  without credentials, and a pull of an image from a \<^verbatim>\<open>.pkg.dev\<close> registry with the credentials
  addressed to that registry.  A predicate \<open>P\<close> on worlds that these keep is kept by the whole
  of \<open>Manager_RunAgent\<close>.
\<close>

definition google_pull :: "string \<Rightarrow> registry_auth option \<Rightarrow> bool" where
  "google_pull img auth =
     (case auth of None \<Rightarrow> True
      | Some a \<Rightarrow> (\<exists>host rest. img = host @ ''.pkg.dev/'' @ rest \<and> CHR ''/'' \<notin> set host \<and>
                     auth_server_address a = host @ ''.pkg.dev''))"

definition token_safe_cli :: "'w manager \<Rightarrow> ('w \<Rightarrow> bool) \<Rightarrow> bool" where
  "token_safe_cli m P \<longleftrightarrow>
     (\<forall>w. P w \<longrightarrow> P (snd (mgr_token m w)) \<and>
        (\<forall>img. P (snd (cli_ImageInspect (mgr_cli m) img w))) \<and>
        (\<forall>img auth. google_pull img auth \<longrightarrow> P (snd (cli_ImagePull (mgr_cli m) img auth w))) \<and>
        (\<forall>b. P (snd (cli_drain (mgr_cli m) b w))) \<and>
        (\<forall>opts. P (snd (cli_ContainerCreate (mgr_cli m) opts w))) \<and>
        (\<forall>i. P (snd (cli_ContainerStart (mgr_cli m) i w))))"

lemma google_pull_code:
  "needsGoogleAuth img \<Longrightarrow> auth_server_address a = registryHost img \<Longrightarrow> google_pull img (Some a)"
  using needsGoogleAuth_host [of img] by (auto simp: google_pull_def)

lemma pullImage_token_safe:
  assumes safe: "token_safe_cli m P" and w: "P w"
  shows "P (snd (pullImage m img w))"
  unfolding pullImage_def
proof (rule call_keeps [where P = P])
  show "P (snd (if needsGoogleAuth img
      then case googleRegistryAuth m (registryHost img) w of
          (Inl e, w) \<Rightarrow> (Inl (errorf ''registry auth'' e), w) | (Inr a, w) \<Rightarrow> (Inr (Some a), w)
      else (Inr None, w)))"
    using safe w
    by (cases "mgr_token m w"; cases "fst (mgr_token m w)")
      (auto simp: googleRegistryAuth_def token_safe_cli_def dest!: spec [of _ w])
next
  fix auth w'
  assume r: "(if needsGoogleAuth img
      then case googleRegistryAuth m (registryHost img) w of
          (Inl e, w) \<Rightarrow> (Inl (errorf ''registry auth'' e), w) | (Inr a, w) \<Rightarrow> (Inr (Some a), w)
      else (Inr None, w)) = (Inr auth, w')" and w': "P w'"
  have "google_pull img auth"
  proof (cases "needsGoogleAuth img")
    case True
    with r show ?thesis
      by (cases "mgr_token m w"; cases "fst (mgr_token m w)")
        (auto simp: googleRegistryAuth_def intro!: google_pull_code)
  next
    case False
    with r show ?thesis by (simp add: google_pull_def)
  qed
  then have "P (snd (cli_ImagePull (mgr_cli m) img auth w'))"
    using safe w' by (simp add: token_safe_cli_def)
  then show "P (snd (case cli_ImagePull (mgr_cli m) img auth w' of
        (Inl e, w) \<Rightarrow> (Inl e, w)
      | (Inr body, w) \<Rightarrow> wrap_err ''drain pull stream'' (cli_drain (mgr_cli m) body w)))"
    using safe by (intro call_keeps [where P = P]) (auto simp: token_safe_cli_def)
qed simp

lemma ensureImage_token_safe:
  assumes safe: "token_safe_cli m P" and w: "P w"
  shows "P (snd (ensureImage m img w))"
  unfolding ensureImage_def
  by (rule call_keeps [where P = P])
    (use safe w in \<open>auto simp: token_safe_cli_def intro: pullImage_token_safe [OF safe]\<close>)

text \<open>C29: starting an agent sends the machine's service-account token only with the pull of an
  image whose reference begins with a host under \<^verbatim>\<open>.pkg.dev\<close>, addressed to that very host; the
  daemon sees every other image, and every other request, without credentials.\<close>

theorem run_agent_token_safe:
  assumes safe: "token_safe_cli m P" and w: "P w"
  shows "P (snd (Manager_RunAgent m req w))"
  unfolding Manager_RunAgent_def
proof (rule call_keeps [where P = P])
  show "P (snd (ensureImage m (ra_image req) w))" by (rule ensureImage_token_safe [OF safe w])
next
  fix u w'
  assume "P w'"
  then show "P (snd (case cli_ParsePort (mgr_cli m) (itoa (ra_container_port req) @ ''/tcp'') of
      Inl e \<Rightarrow> (Inl (errorf ''parse container port'' e), w')
    | Inr portProto \<Rightarrow>
        (case cli_ContainerCreate (mgr_cli m) (create_options_of m portProto req) w' of
           (Inl e, w) \<Rightarrow> (Inl (errorf (''create container '' @ quoted (ra_name req)) e), w)
         | (Inr i, w) \<Rightarrow>
             (case cli_ContainerStart (mgr_cli m) i w of
                (Inl e, w) \<Rightarrow>
                  (Inl (errorf (''start container '' @ quoted (ra_name req) @ '' (id='' @ i @ '')'') e), w)
              | (Inr _, w) \<Rightarrow> (Inr i, w)))))"
    using safe
    by (cases "cli_ParsePort (mgr_cli m) (itoa (ra_container_port req) @ ''/tcp'')")
      (auto intro!: call_keeps [where P = P] simp: token_safe_cli_def)
qed simp

text \<open>A daemon that records the pulls it is asked for, for the witness.\<close>

definition recording_cli :: "(string \<times> registry_auth option) list docker_cli" where
  "recording_cli =
     \<lparr>cli_Ping = (\<lambda>w. (Inr (), w)), cli_ImageInspect = (\<lambda>i w. (Inl (ErrText ''no such image''), w)),
      cli_ImagePull = (\<lambda>i a w. (Inr 0, w @ [(i, a)])), cli_drain = (\<lambda>b w. (Inr (), w)),
      cli_ContainerCreate = (\<lambda>opts w. (Inr ''id1'', w)), cli_ContainerStart = (\<lambda>i w. (Inr (), w)),
      cli_ContainerList = (\<lambda>fs w. (Inr [], w)), cli_ContainerStop = (\<lambda>i t w. (Inr (), w)),
      cli_ContainerRemove = (\<lambda>i f w. (Inr (), w)), cli_ParsePort = (\<lambda>s. Inr s)\<rparr>"

definition recording_manager :: "(string \<times> registry_auth option) list manager" where
  "recording_manager = NewManagerWithDeps recording_cli (\<lambda>w. (Inr ''secret'', w)) []"

definition pulls_safe :: "(string \<times> registry_auth option) list \<Rightarrow> bool" where
  "pulls_safe w = list_all (\<lambda>(i, a). google_pull i a) w"

theorem run_agent_token_safe_witness:
  "pulls_safe
     (snd (Manager_RunAgent recording_manager
       \<lparr>ra_image = ''us-docker.pkg.dev/p/r/agent'', ra_name = ''a'', ra_host_port = 0, ra_container_port = 9091,
        ra_memory_bytes = 0, ra_nano_cpus = 0, ra_network = [], ra_env = [], ra_labels = []\<rparr> []))"
  by (rule run_agent_token_safe)
    (auto simp: pulls_safe_def token_safe_cli_def recording_manager_def recording_cli_def NewManagerWithDeps_def)

text \<open>A container is never created without limits: a request that leaves memory or CPU at zero
  gets the 512 MiB and 0.5 CPU defaults, and the network is never empty.\<close>

theorem run_agent_limits:
  assumes "mgr_default_network m \<noteq> []"
  shows "co_memory (create_options_of m p req) \<noteq> 0 \<and> co_nano_cpus (create_options_of m p req) \<noteq> 0 \<and>
    co_network_mode (create_options_of m p req) \<noteq> [] \<and>
    (ra_memory_bytes req = 0 \<longrightarrow> co_memory (create_options_of m p req) = 536870912)"
  using assms by (simp add: create_options_of_def)

theorem run_agent_limits_witness:
  "co_memory (create_options_of recording_manager ''9091/tcp''
     \<lparr>ra_image = ''i'', ra_name = ''a'', ra_host_port = 0, ra_container_port = 9091,
        ra_memory_bytes = 0, ra_nano_cpus = 0, ra_network = [], ra_env = [], ra_labels = []\<rparr>) = 536870912"
  using run_agent_limits [of recording_manager "''9091/tcp''" "\<lparr>ra_image = ''i'', ra_name = ''a'', ra_host_port = 0, ra_container_port = 9091,
        ra_memory_bytes = 0, ra_nano_cpus = 0, ra_network = [], ra_env = [], ra_labels = []\<rparr>"]
  by (simp add: recording_manager_def NewManagerWithDeps_def)

end
