(* ===== verification/ReapClock.thy ===== *)
theory ReapClock
  imports Prelude
begin

text \<open>
  The contract the two VM reapers share.  Both keep a \<^verbatim>\<open>zero since\<close> time and decide, for each
  successful observation of the number of agents, the next value of it and whether to delete the
  machine.  The per-VM self-reaper of container-manager and the per-VM step of cc-tunnel's
  \<^verbatim>\<open>ReconcileVMs\<close> are interpretations of \<open>reap_clock\<close>; what is proved here of a history of
  observations holds for both.
\<close>

type_synonym observation = "int \<times> int"

locale reap_clock =
  fixes observe :: "int \<Rightarrow> int \<Rightarrow> int option \<Rightarrow> int option \<times> bool"
    and timeout :: int
  assumes agents_present: "count > 0 \<Longrightarrow> observe now count zs = (None, False)"
    and first_zero: "count \<le> 0 \<Longrightarrow> observe now count None = (Some now, False)"
    and still_zero: "count \<le> 0 \<Longrightarrow> observe now count (Some t) = (Some t, timeout \<le> now - t)"
begin

fun after :: "observation list \<Rightarrow> int option \<Rightarrow> int option" where
  "after [] zs = zs"
| "after ((now, count) # os) zs = after os (fst (observe now count zs))"

lemma after_append: "after (xs @ ys) zs = after ys (after xs zs)"
  by (induction xs zs rule: after.induct) simp_all

text \<open>A set clock always names an observation of zero with no agent seen since.\<close>

lemma after_Some:
  "after os None = Some t \<Longrightarrow>
     \<exists>pre c rest. os = pre @ (t, c) # rest \<and> c \<le> 0 \<and> (\<forall>(n, c') \<in> set rest. c' \<le> 0)"
proof (induction os rule: rev_induct)
  case Nil
  then show ?case by simp
next
  case (snoc x os)
  obtain now count where x: "x = (now, count)" by (cases x)
  have step: "fst (observe now count (after os None)) = Some t"
    using snoc.prems by (simp add: after_append x)
  then have zero: "count \<le> 0" using agents_present by (metis fst_conv linorder_not_less option.distinct(1))
  show ?case
  proof (cases "after os None")
    case None
    then have "t = now" using step first_zero [OF zero] by simp
    then show ?thesis using zero x by (intro exI [of _ os] exI [of _ count] exI [of _ "[]"]) simp
  next
    case (Some t')
    then have "t' = t" using step still_zero [OF zero] by simp
    with snoc.IH Some obtain pre c rest where
      "os = pre @ (t, c) # rest" "c \<le> 0" "\<forall>(n, c') \<in> set rest. c' \<le> 0" by auto
    then show ?thesis using zero x
      by (intro exI [of _ pre] exI [of _ c] exI [of _ "rest @ [x]"]) auto
  qed
qed

lemma reap_sound:
  assumes "snd (observe now count (after os None))"
  shows "count \<le> 0 \<and> (\<exists>pre t c rest. os = pre @ (t, c) # rest \<and> c \<le> 0 \<and>
     (\<forall>(n, c') \<in> set rest. c' \<le> 0) \<and> timeout \<le> now - t)"
proof -
  have zero: "count \<le> 0" using assms agents_present by (metis linorder_not_less snd_conv)
  obtain t where t: "after os None = Some t"
    using assms first_zero [OF zero] by (cases "after os None") auto
  then have "timeout \<le> now - t" using assms still_zero [OF zero] by simp
  with zero after_Some [OF t] show ?thesis by blast
qed

lemma after_zeros:
  "(\<forall>(n, c) \<in> set os. c \<le> 0) \<Longrightarrow> after os (Some t) = Some t"
  by (induction os "Some t" rule: after.induct) (auto simp: still_zero)

lemma after_zero_start:
  "(\<forall>(n, c) \<in> set ((t, c0) # os). c \<le> 0) \<Longrightarrow> \<exists>t'. after ((t, c0) # os) zs = Some t' \<and>
     (t' = t \<or> zs = Some t')"
  by (cases zs) (auto simp: first_zero still_zero after_zeros)

lemma reap_complete:
  assumes zeros: "\<forall>(n, c) \<in> set ((t, c0) # rest). c \<le> 0" and now: "timeout \<le> now - t"
    and count: "count \<le> 0" and order: "\<forall>(n, c) \<in> set pre. n \<le> t"
  shows "snd (observe now count (after (pre @ (t, c0) # rest) None))"
proof -
  obtain t' where t': "after (pre @ (t, c0) # rest) None = Some t'"
    and old: "t' = t \<or> after pre None = Some t'"
    using after_zero_start [OF zeros, of "after pre None"] by (auto simp: after_append)
  have "t' \<le> t"
    using old after_Some [of pre t'] order by fastforce
  with now count t' show ?thesis by (simp add: still_zero)
qed

end

end
