(* ===== verification/SelfReaper.thy ===== *)
theory SelfReaper
  imports DockerManager ReapClock
begin

text \<open>
  The self-termination loop of a VM, \<^verbatim>\<open>apps/container-manager/internal/selfreaper\<close>, and its
  start-up configuration in \<^verbatim>\<open>cmd/container-manager/main.go\<close>.

  The lister, the deleter, the metadata server and the clock are functions over a world.  The
  zero \<^verbatim>\<open>time.Time\<close> is \<open>None\<close>; times and durations are nanoseconds.  \<open>Run\<close> consumes a list of
  wake-ups of its \<^verbatim>\<open>select\<close>: a tick of the ticker or the end of the context; after the last one it
  still waits.
\<close>

record 'w metadata_resolver =
  md_InstanceName :: "('w, string) call"
  md_Zone :: "('w, string) call"
  md_ProjectID :: "('w, string) call"

record reaper_config =
  rc_Interval :: int
  rc_Timeout :: int

record 'w reaper =
  rp_lister :: "('w, int) call"
  rp_deleter :: "string \<Rightarrow> string \<Rightarrow> string \<Rightarrow> ('w, unit) call"
  rp_metadata :: "'w metadata_resolver"
  rp_cfg :: reaper_config
  rp_now :: "'w \<Rightarrow> int"
  rp_zeroSince :: "int option"

definition second_ns :: int where
  "second_ns = 1000000000"

definition NewReaper ::
    "('w, int) call \<Rightarrow> (string \<Rightarrow> string \<Rightarrow> string \<Rightarrow> ('w, unit) call) \<Rightarrow> 'w metadata_resolver \<Rightarrow>
     ('w \<Rightarrow> int) \<Rightarrow> reaper_config \<Rightarrow> 'w reaper" where
  "NewReaper lister deleter md clock cfg =
     (let cfg = (if rc_Interval cfg \<le> 0 then cfg\<lparr>rc_Interval := 60 * second_ns\<rparr> else cfg);
          cfg = (if rc_Timeout cfg \<le> 0 then cfg\<lparr>rc_Timeout := 10 * 60 * second_ns\<rparr> else cfg)
      in \<lparr>rp_lister = lister, rp_deleter = deleter, rp_metadata = md, rp_cfg = cfg, rp_now = clock,
          rp_zeroSince = None\<rparr>)"

definition tick ::
    "string \<Rightarrow> string \<Rightarrow> string \<Rightarrow> 'w reaper \<Rightarrow> 'w \<Rightarrow> bool result \<times> 'w reaper \<times> 'w" where
  "tick project zone name r w =
     (case rp_lister r w of
        (Inl err, w) \<Rightarrow> (Inl (errorf ''list agents'' err), r, w)
      | (Inr count, w) \<Rightarrow>
          let now = rp_now r w;
              elapsed = (case rp_zeroSince r of None \<Rightarrow> 0 | Some z \<Rightarrow> now - z)
          in if count > 0 then (Inr False, r\<lparr>rp_zeroSince := None\<rparr>, w)
             else if rp_zeroSince r = None then (Inr False, r\<lparr>rp_zeroSince := Some now\<rparr>, w)
             else if elapsed < rc_Timeout (rp_cfg r) then (Inr False, r, w)
             else (case rp_deleter r project zone name w of
                     (Inl err, w) \<Rightarrow> (Inl (errorf ''delete self instance'' err), r, w)
                   | (Inr _, w) \<Rightarrow> (Inr True, r, w)))"

datatype wakeup = CtxDone | TickerC

fun reap_loop ::
    "string \<Rightarrow> string \<Rightarrow> string \<Rightarrow> wakeup list \<Rightarrow> 'w reaper \<Rightarrow> 'w \<Rightarrow> bool \<times> 'w reaper \<times> 'w" where
  "reap_loop project zone name [] r w = (False, r, w)"
| "reap_loop project zone name (CtxDone # es) r w = (True, r, w)"
| "reap_loop project zone name (TickerC # es) r w =
     (case tick project zone name r w of
        (Inl err, r, w) \<Rightarrow> reap_loop project zone name es r w
      | (Inr finished, r, w) \<Rightarrow>
          if finished then (True, r, w) else reap_loop project zone name es r w)"

definition Run :: "wakeup list \<Rightarrow> 'w reaper \<Rightarrow> 'w \<Rightarrow> bool result \<times> 'w reaper \<times> 'w" where
  "Run es r w =
     (case md_ProjectID (rp_metadata r) w of
        (Inl err, w) \<Rightarrow> (Inl (errorf ''self-reaper: resolve project id'' err), r, w)
      | (Inr project, w) \<Rightarrow>
          (case md_Zone (rp_metadata r) w of
             (Inl err, w) \<Rightarrow> (Inl (errorf ''self-reaper: resolve zone'' err), r, w)
           | (Inr zone, w) \<Rightarrow>
               (case md_InstanceName (rp_metadata r) w of
                  (Inl err, w) \<Rightarrow> (Inl (errorf ''self-reaper: resolve instance name'' err), r, w)
                | (Inr name, w) \<Rightarrow>
                    (case reap_loop project zone name es r w of
                       (returned, r, w) \<Rightarrow> (Inr returned, r, w)))))"

text \<open>\<^verbatim>\<open>SDKDeleter.DeleteInstance\<close>: \<open>sdk_delete\<close> is the Compute API call.\<close>

definition SDKDeleter_DeleteInstance ::
    "(string \<Rightarrow> string \<Rightarrow> string \<Rightarrow> ('w, unit) call) \<Rightarrow> string \<Rightarrow> string \<Rightarrow> string \<Rightarrow> ('w, unit) call" where
  "SDKDeleter_DeleteInstance sdk_delete project zone name w =
     wrap_err (''instances.Delete('' @ project @ ''/'' @ zone @ ''/'' @ name @ '')'')
       (sdk_delete project zone name w)"

section \<open>Start-up\<close>

text \<open>\<^verbatim>\<open>os.Getenv\<close> is a function that yields the empty string for an unset variable.\<close>

type_synonym getenv_fn = "string \<Rightarrow> string"

definition getenv :: "getenv_fn \<Rightarrow> string \<Rightarrow> string \<Rightarrow> string" where
  "getenv env key dflt = (if env key \<noteq> [] then env key else dflt)"

definition getenvInt :: "getenv_fn \<Rightarrow> string \<Rightarrow> int \<Rightarrow> int" where
  "getenvInt env key dflt =
     (if env key \<noteq> [] then (case atoi (env key) of Some n \<Rightarrow> n | None \<Rightarrow> dflt) else dflt)"

definition getenvBool :: "getenv_fn \<Rightarrow> string \<Rightarrow> bool \<Rightarrow> bool" where
  "getenvBool env key dflt =
     (if env key = [] then dflt
      else if env key \<in> {''0'', ''false'', ''FALSE'', ''False'', ''no'', ''NO''} then False
      else True)"

text \<open>\<^verbatim>\<open>time.Duration(n) * time.Second\<close> on 64-bit integers.\<close>

definition duration_seconds :: "int \<Rightarrow> int" where
  "duration_seconds n = sint (word_of_int n * word_of_int second_ns :: 64 word)"

definition startSelfReaper ::
    "getenv_fn \<Rightarrow> ('w, int) call \<Rightarrow> (string \<Rightarrow> string \<Rightarrow> string \<Rightarrow> ('w, unit) call) result \<Rightarrow>
     'w metadata_resolver \<Rightarrow> ('w \<Rightarrow> int) \<Rightarrow> 'w reaper option" where
  "startSelfReaper env lister newDeleter md clock =
     (if \<not> getenvBool env ''SELF_REAP_ENABLED'' True then None
      else
        let cfg = \<lparr>rc_Interval = duration_seconds (getenvInt env ''SELF_REAP_INTERVAL_SECONDS'' 60),
                   rc_Timeout = duration_seconds (getenvInt env ''SELF_REAP_TIMEOUT_SECONDS'' 600)\<rparr>
        in case newDeleter of
             Inl err \<Rightarrow> None
           | Inr deleter \<Rightarrow> Some (NewReaper lister deleter md clock cfg))"

section \<open>The reap clock of the self-reaper\<close>

text \<open>One tick of a reaper whose lister counts \<open>count\<close> agents at time \<open>now\<close>.\<close>

definition self_observe :: "int \<Rightarrow> int \<Rightarrow> int \<Rightarrow> int option \<Rightarrow> int option \<times> bool" where
  "self_observe timeout now count zs =
     (case tick [] [] [] \<lparr>rp_lister = (\<lambda>w. (Inr count, w)), rp_deleter = (\<lambda>p z n w. (Inr (), True)),
           rp_metadata = \<lparr>md_InstanceName = Pair (Inr []), md_Zone = Pair (Inr []), md_ProjectID = Pair (Inr [])\<rparr>,
           rp_cfg = \<lparr>rc_Interval = 1, rc_Timeout = timeout\<rparr>, rp_now = (\<lambda>w. now), rp_zeroSince = zs\<rparr> False of
        (_, r, deleted) \<Rightarrow> (rp_zeroSince r, deleted))"

interpretation self: reap_clock "self_observe timeout" timeout for timeout
  by unfold_locales (simp_all add: self_observe_def tick_def)

lemma tick_cases:
  obtains (probe_error) err w1 where "rp_lister r w = (Inl err, w1)"
      "tick p z n r w = (Inl (errorf ''list agents'' err), r, w1)"
  | (keep) count w1 where "rp_lister r w = (Inr count, w1)"
      "\<not> snd (self_observe (rc_Timeout (rp_cfg r)) (rp_now r w1) count (rp_zeroSince r))"
      "tick p z n r w = (Inr False, r\<lparr>rp_zeroSince := fst (self_observe (rc_Timeout (rp_cfg r)) (rp_now r w1) count (rp_zeroSince r))\<rparr>, w1)"
  | (delete) count w1 where "rp_lister r w = (Inr count, w1)"
      "snd (self_observe (rc_Timeout (rp_cfg r)) (rp_now r w1) count (rp_zeroSince r))"
      "fst (self_observe (rc_Timeout (rp_cfg r)) (rp_now r w1) count (rp_zeroSince r)) = rp_zeroSince r"
      "tick p z n r w = (case rp_deleter r p z n w1 of
                     (Inl err, w) \<Rightarrow> (Inl (errorf ''delete self instance'' err), r, w)
                   | (Inr _, w) \<Rightarrow> (Inr True, r, w))"
proof (cases "rp_lister r w")
  case (Pair res w1)
  show ?thesis
  proof (cases res)
    case (Inl err)
    with Pair probe_error show ?thesis by (simp add: tick_def)
  next
    case (Inr count)
    define zs where "zs = rp_zeroSince r"
    show ?thesis
    proof (cases "snd (self_observe (rc_Timeout (rp_cfg r)) (rp_now r w1) count zs)")
      case True
      then obtain t where "zs = Some t" "count \<le> 0" "rc_Timeout (rp_cfg r) \<le> rp_now r w1 - t"
        using self.agents_present self.first_zero self.still_zero
        by (metis linorder_not_less option.exhaust snd_conv)
      with Pair Inr True delete show ?thesis
        by (simp add: tick_def zs_def [symmetric] self.still_zero)
    next
      case False
      have "tick p z n r w = (Inr False, r\<lparr>rp_zeroSince := fst (self_observe (rc_Timeout (rp_cfg r)) (rp_now r w1) count zs)\<rparr>, w1)"
      proof (cases "count > 0")
        case True
        with Pair Inr show ?thesis by (simp add: tick_def self.agents_present)
      next
        case pos: False
        show ?thesis
        proof (cases zs)
          case None
          with Pair Inr pos show ?thesis by (simp add: tick_def zs_def [symmetric] self.first_zero)
        next
          case (Some t)
          with pos False have "rp_now r w1 - t < rc_Timeout (rp_cfg r)" by (simp add: self.still_zero)
          with Pair Inr pos Some show ?thesis
            by (simp add: tick_def zs_def [symmetric] self.still_zero)
        qed
      qed
      with Pair Inr False keep show ?thesis by (simp add: zs_def)
    qed
  qed
qed

end
