(* ===== verification/SelfReaper_Props.thy ===== *)
theory SelfReaper_Props
  imports SelfReaper
begin

text \<open>
  What the self-reaper does against any behaviour of its surroundings.  An environment scripts
  what each probe of the daemon will find and when, and what each deletion will answer; it records
  the probes made and the times at which the machine was deleted.  As the reaper sees nothing of
  the world but these answers, the scripts cover every world.
\<close>

record reap_env =
  re_obs :: "(int \<times> int result) list"
  re_answers :: "unit result list"
  re_time :: int
  re_seen :: "(int \<times> int result) list"
  re_deleted :: "int list"

definition env_lister :: "(reap_env, int) call" where
  "env_lister w =
     (case re_obs w of
        [] \<Rightarrow> (Inl (ErrText ''daemon unreachable''),
               w\<lparr>re_seen := re_seen w @ [(re_time w, Inl (ErrText ''daemon unreachable''))]\<rparr>)
      | (t, r) # os \<Rightarrow> (r, w\<lparr>re_obs := os, re_time := t, re_seen := re_seen w @ [(t, r)]\<rparr>))"

definition env_deleter :: "string \<Rightarrow> string \<Rightarrow> string \<Rightarrow> (reap_env, unit) call" where
  "env_deleter p z n w =
     (let w' = w\<lparr>re_deleted := re_deleted w @ [re_time w]\<rparr> in
      case re_answers w of [] \<Rightarrow> (Inr (), w') | a # as \<Rightarrow> (a, w'\<lparr>re_answers := as\<rparr>))"

definition env_metadata :: "reap_env metadata_resolver" where
  "env_metadata = \<lparr>md_InstanceName = Pair (Inr ''vm''), md_Zone = Pair (Inr ''zone''), md_ProjectID = Pair (Inr ''proj'')\<rparr>"

definition env_reaper :: "reaper_config \<Rightarrow> reap_env reaper" where
  "env_reaper cfg = NewReaper env_lister env_deleter env_metadata re_time cfg"

definition fresh_env :: "(int \<times> int result) list \<Rightarrow> unit result list \<Rightarrow> reap_env" where
  "fresh_env obs answers =
     \<lparr>re_obs = obs, re_answers = answers, re_time = 0, re_seen = [], re_deleted = []\<rparr>"

text \<open>The successful probes of a history, and the justification a deletion at time \<open>d\<close> needs.\<close>

fun successes :: "(int \<times> int result) list \<Rightarrow> (int \<times> int) list" where
  "successes [] = []"
| "successes ((t, r) # os) = (case r of Inl _ \<Rightarrow> successes os | Inr c \<Rightarrow> (t, c) # successes os)"

definition no_agents :: "(int \<times> int result) list \<Rightarrow> bool" where
  "no_agents os = (\<forall>(t, r) \<in> set os. case r of Inl _ \<Rightarrow> True | Inr c \<Rightarrow> c \<le> 0)"

definition idle_proof :: "int \<Rightarrow> (int \<times> int result) list \<Rightarrow> int \<Rightarrow> bool" where
  "idle_proof timeout seen d \<longleftrightarrow>
     (\<exists>pre t c mid c' post. seen = pre @ (t, Inr c) # mid @ (d, Inr c') # post \<and>
        no_agents ((t, Inr c) # mid @ [(d, Inr c')]) \<and> timeout \<le> d - t)"

lemma successes_append: "successes (xs @ ys) = successes xs @ successes ys"
  by (induction xs rule: successes.induct) (auto split: sum.split)

lemma successes_split:
  "successes os = pre @ (t, c) # rest \<Longrightarrow>
     \<exists>xs ys. os = xs @ (t, Inr c) # ys \<and> successes xs = pre \<and> successes ys = rest"
proof (induction os arbitrary: pre rule: successes.induct)
  case 1
  then show ?case by simp
next
  case (2 t' r os)
  show ?case
  proof (cases r)
    case (Inl e)
    with "2.prems" have "successes os = pre @ (t, c) # rest" by simp
    with "2.IH"(1) [OF Inl] obtain xs ys where
      "os = xs @ (t, Inr c) # ys" "successes xs = pre" "successes ys = rest" by blast
    with Inl show ?thesis by (intro exI [of _ "(t', r) # xs"] exI [of _ ys]) simp
  next
    case (Inr c')
    show ?thesis
    proof (cases pre)
      case Nil
      with "2.prems" Inr show ?thesis by (intro exI [of _ "[]"] exI [of _ os]) simp
    next
      case (Cons p pre')
      with "2.prems" Inr have "successes os = pre' @ (t, c) # rest" by simp
      with "2.IH"(2) [OF Inr] obtain xs ys where
        "os = xs @ (t, Inr c) # ys" "successes xs = pre'" "successes ys = rest" by blast
      with Inr Cons "2.prems" show ?thesis
        by (intro exI [of _ "(t', r) # xs"] exI [of _ ys]) simp
    qed
  qed
qed

lemma no_agents_successes: "no_agents os \<longleftrightarrow> (\<forall>(t, c) \<in> set (successes os). c \<le> 0)"
  by (induction os rule: successes.induct) (auto simp: no_agents_def split: sum.split)

lemma idle_proof_append: "idle_proof timeout seen d \<Longrightarrow> idle_proof timeout (seen @ new) d"
  unfolding idle_proof_def by (metis append.assoc append_Cons)

lemma idle_proof_reap:
  assumes "snd (self_observe timeout now count (self.after timeout (successes seen) None))"
  shows "idle_proof timeout (seen @ [(now, Inr count)]) now"
proof -
  obtain pre t c rest where s: "successes seen = pre @ (t, c) # rest" "c \<le> 0"
    "\<forall>(n, c') \<in> set rest. c' \<le> 0" "timeout \<le> now - t" and zero: "count \<le> 0"
    using self.reap_sound [OF assms] by blast
  from successes_split [OF s(1)] obtain xs ys where
    os: "seen = xs @ (t, Inr c) # ys" "successes ys = rest" by blast
  have "no_agents ((t, Inr c) # ys @ [(now, Inr count)])"
    using s os zero by (simp add: no_agents_successes successes_append)
  with os s(4) show ?thesis unfolding idle_proof_def
    by (intro exI [of _ xs] exI [of _ t] exI [of _ c] exI [of _ ys] exI [of _ count] exI [of _ "[]"]) simp
qed

definition reap_inv :: "int \<Rightarrow> reap_env reaper \<Rightarrow> reap_env \<Rightarrow> bool" where
  "reap_inv timeout r w \<longleftrightarrow>
     rp_lister r = env_lister \<and> rp_deleter r = env_deleter \<and> rp_now r = re_time \<and>
     rc_Timeout (rp_cfg r) = timeout \<and>
     rp_zeroSince r = self.after timeout (successes (re_seen w)) None \<and>
     (\<forall>d \<in> set (re_deleted w). idle_proof timeout (re_seen w) d)"

lemma env_lister_Inr:
  assumes "env_lister w = (Inr count, w1)"
  shows "re_seen w1 = re_seen w @ [(re_time w1, Inr count)] \<and> re_deleted w1 = re_deleted w \<and>
    re_obs w = (re_time w1, Inr count) # re_obs w1 \<and> re_answers w1 = re_answers w"
  using assms by (auto simp: env_lister_def split: list.splits prod.splits)

lemma env_lister_Inl:
  assumes "env_lister w = (Inl err, w1)"
  shows "(\<exists>t. re_seen w1 = re_seen w @ [(t, Inl err)]) \<and> re_deleted w1 = re_deleted w"
  using assms by (auto simp: env_lister_def split: list.splits prod.splits)

lemma env_deleter_simps:
  "re_seen (snd (env_deleter p z n w)) = re_seen w"
  "re_deleted (snd (env_deleter p z n w)) = re_deleted w @ [re_time w]"
  "re_obs (snd (env_deleter p z n w)) = re_obs w"
  by (auto simp: env_deleter_def Let_def split: list.split)

lemma tick_inv:
  assumes inv: "reap_inv timeout r w" and t: "tick p z n r w = (res, r', w')"
  shows "reap_inv timeout r' w'"
proof (cases rule: tick_cases [of r w p z n])
  case (probe_error err w1)
  then have "env_lister w = (Inl err, w1)" using inv by (simp add: reap_inv_def)
  from env_lister_Inl [OF this] probe_error t inv show ?thesis
    by (auto simp: reap_inv_def successes_append idle_proof_append)
next
  case (keep count w1)
  then have l: "env_lister w = (Inr count, w1)" using inv by (simp add: reap_inv_def)
  from env_lister_Inr [OF this] keep t inv show ?thesis
    by (auto simp: reap_inv_def successes_append self.after_append idle_proof_append)
next
  case (delete count w1)
  then have l: "env_lister w = (Inr count, w1)" using inv by (simp add: reap_inv_def)
  have seen: "re_seen w1 = re_seen w @ [(re_time w1, Inr count)]"
    and dels: "re_deleted w1 = re_deleted w" using env_lister_Inr [OF l] by auto
  have "rp_now r = re_time" "rc_Timeout (rp_cfg r) = timeout" "rp_deleter r = env_deleter"
    and zs: "rp_zeroSince r = self.after timeout (successes (re_seen w)) None"
    using inv by (auto simp: reap_inv_def)
  note eqs = this(1-3)
  have just: "idle_proof timeout (re_seen w1) (re_time w1)"
    using delete(2) unfolding seen eqs zs by (rule idle_proof_reap)
  have kept: "self.after timeout (successes (re_seen w1)) None = rp_zeroSince r"
    using delete(3) by (simp add: seen successes_append self.after_append eqs zs)
  have "r' = r \<and> w' = snd (env_deleter p z n w1)"
    using delete(4) t unfolding eqs
    by (cases "env_deleter p z n w1"; cases "fst (env_deleter p z n w1)") auto
  then show ?thesis
    using inv just kept seen dels idle_proof_append
    by (auto simp: reap_inv_def env_deleter_simps)
qed

lemma reap_loop_inv:
  "reap_inv timeout r w \<Longrightarrow> reap_loop p z n es r w = (ret, r', w') \<Longrightarrow> reap_inv timeout r' w'"
proof (induction p z n es r w rule: reap_loop.induct)
  case (3 p z n es r w)
  obtain res r1 w1 where t: "tick p z n r w = (res, r1, w1)" by (cases "tick p z n r w")
  have inv: "reap_inv timeout r1 w1" by (rule tick_inv [OF "3.prems"(1) t])
  show ?case
  proof (cases res)
    case (Inl err)
    with "3.IH"(1) [OF t [symmetric] Inl refl inv] t "3.prems"(2) show ?thesis by simp
  next
    case (Inr b)
    with "3.IH"(2) [OF t [symmetric] Inr refl _ inv] t "3.prems"(2) inv show ?thesis by (cases b) simp_all
  qed
qed simp_all

lemma Run_env:
  "Run es (env_reaper cfg) w =
     (case reap_loop ''proj'' ''zone'' ''vm'' es (env_reaper cfg) w of (ret, r, w) \<Rightarrow> (Inr ret, r, w))"
  by (simp add: Run_def env_reaper_def NewReaper_def env_metadata_def Let_def)

definition reap_timeout :: "reaper_config \<Rightarrow> int" where
  "reap_timeout cfg = (if rc_Timeout cfg \<le> 0 then 10 * 60 * second_ns else rc_Timeout cfg)"

lemma env_reaper_inv: "reap_inv (reap_timeout cfg) (env_reaper cfg) (fresh_env obs answers)"
  by (simp add: reap_inv_def env_reaper_def NewReaper_def fresh_env_def reap_timeout_def Let_def)

text \<open>C11: the self-reaper never deletes a machine that works: whenever it calls the Compute API,
  the probe of this very tick found no agent, an earlier probe at least the timeout before found
  none either, and no probe between the two found one.  This holds whatever probes and deletions
  fail, and for every configuration.\<close>

theorem self_reap_safe:
  "\<forall>d \<in> set (re_deleted (snd (snd (Run es (env_reaper cfg) (fresh_env obs answers))))).
     idle_proof (reap_timeout cfg) (re_seen (snd (snd (Run es (env_reaper cfg) (fresh_env obs answers))))) d"
proof -
  obtain ret r w where l: "reap_loop ''proj'' ''zone'' ''vm'' es (env_reaper cfg) (fresh_env obs answers) = (ret, r, w)"
    by (cases "reap_loop ''proj'' ''zone'' ''vm'' es (env_reaper cfg) (fresh_env obs answers)")
  from reap_loop_inv [OF env_reaper_inv l] show ?thesis by (simp add: Run_env l reap_inv_def)
qed

lemma reap_loop_waiting:
  assumes "reap_inv timeout r w" and "re_answers w = []"
    and "re_obs w = map (\<lambda>(t, c). (t, Inr c)) os"
    and "reap_loop p z n (replicate (length os) TickerC) r w = (False, r', w')"
    and "os = xs @ (now, count) # ys"
  shows "\<not> snd (self_observe timeout now count (self.after timeout (successes (re_seen w) @ xs) None))"
  using assms
proof (induction os arbitrary: r w xs)
  case Nil
  then show ?case by simp
next
  case (Cons o1 os)
  obtain t1 c1 where o1: "o1 = (t1, c1)" by (cases o1)
  define w1 where "w1 = w\<lparr>re_obs := map (\<lambda>(t, c). (t, Inr c)) os, re_time := t1, re_seen := re_seen w @ [(t1, Inr c1)]\<rparr>"
  have l: "rp_lister r w = (Inr c1, w1)"
    using Cons.prems(1,3) by (simp add: reap_inv_def env_lister_def o1 w1_def)
  have eqs: "rp_now r = re_time" "rc_Timeout (rp_cfg r) = timeout" "rp_deleter r = env_deleter"
    "rp_zeroSince r = self.after timeout (successes (re_seen w)) None"
    using Cons.prems(1) by (auto simp: reap_inv_def)
  have w1: "re_time w1 = t1" "re_answers w1 = []" "re_obs w1 = map (\<lambda>(t, c). (t, Inr c)) os"
    "successes (re_seen w1) = successes (re_seen w) @ [(t1, c1)]"
    using Cons.prems(2) by (simp_all add: w1_def successes_append)
  show ?case
  proof (cases rule: tick_cases [of r w p z n])
    case (probe_error err w2)
    with l show ?thesis by simp
  next
    case (keep count' w2)
    then have w2: "w2 = w1" "count' = c1" using l by auto
    have inv: "reap_inv timeout (r\<lparr>rp_zeroSince := fst (self_observe (rc_Timeout (rp_cfg r)) (rp_now r w1) c1 (rp_zeroSince r))\<rparr>) w1"
      using tick_inv [OF Cons.prems(1) keep(3)] w2 by simp
    have rest: "reap_loop p z n (replicate (length os) TickerC)
        (r\<lparr>rp_zeroSince := fst (self_observe (rc_Timeout (rp_cfg r)) (rp_now r w1) c1 (rp_zeroSince r))\<rparr>) w1 = (False, r', w')"
      using Cons.prems(4) keep(3) w2 by simp
    show ?thesis
    proof (cases xs)
      case Nil
      with Cons.prems(5) o1 keep(2) w2 show ?thesis by (simp add: eqs w1)
    next
      case (Cons x xs')
      with Cons.prems(5) o1 have "x = (t1, c1)" "os = xs' @ (now, count) # ys" by auto
      with Cons.IH [OF inv w1(2,3) rest] Cons show ?thesis by (simp add: w1)
    qed
  next
    case (delete count' w2)
    then have w2: "w2 = w1" using l by auto
    have "env_deleter p z n w1 = (Inr (), snd (env_deleter p z n w1))"
      using w1(2) by (simp add: env_deleter_def Let_def)
    with delete(4) w2 Cons.prems(4) show ?thesis
      by (auto simp: eqs split: prod.splits sum.splits)
  qed
qed

text \<open>C28: an idle machine is deleted: when the probes succeed, deletions are accepted and two probes,
  the second at least the timeout after the first, find no agent and none is found between them,
  the loop has dispatched the deletion and returned by then.\<close>

theorem self_reap_live:
  assumes "\<forall>(n, c) \<in> set ((t, c0) # rest). c \<le> 0" and "c1 \<le> 0"
    and "reap_timeout cfg \<le> now - t" and "\<forall>(n, c) \<in> set pre. n \<le> t"
    and "obs = map (\<lambda>(t, c). (t, Inr c)) (pre @ (t, c0) # rest @ [(now, c1)])"
  shows "fst (Run (replicate (length obs) TickerC) (env_reaper cfg) (fresh_env obs [])) = Inr True"
proof (rule ccontr)
  let ?os = "(pre @ (t, c0) # rest) @ [(now, c1)]"
  assume neg: "\<not> ?thesis"
  obtain ret r w where l: "reap_loop ''proj'' ''zone'' ''vm'' (replicate (length ?os) TickerC) (env_reaper cfg)
      (fresh_env obs []) = (ret, r, w)"
    by (cases "reap_loop ''proj'' ''zone'' ''vm'' (replicate (length ?os) TickerC) (env_reaper cfg) (fresh_env obs [])")
  have "length obs = length ?os" using assms(5) by simp
  with neg l have "ret = False" by (simp add: Run_env)
  with l have l': "reap_loop ''proj'' ''zone'' ''vm'' (replicate (length ?os) TickerC) (env_reaper cfg)
      (fresh_env obs []) = (False, r, w)" by simp
  have obs: "re_obs (fresh_env obs []) = map (\<lambda>(t, c). (t, Inr c)) ?os"
    using assms(5) by (simp add: fresh_env_def)
  have "\<not> snd (self_observe (reap_timeout cfg) now c1 (self.after (reap_timeout cfg) (pre @ (t, c0) # rest) None))"
    using reap_loop_waiting [OF env_reaper_inv _ obs l', of "pre @ (t, c0) # rest" now c1 "[]"]
    by (simp add: fresh_env_def)
  moreover have "snd (self_observe (reap_timeout cfg) now c1 (self.after (reap_timeout cfg) (pre @ (t, c0) # rest) None))"
    by (rule self.reap_complete [OF assms(1,3,2,4)])
  ultimately show False by simp
qed

theorem self_reap_live_witness:
  "fst (Run (replicate 3 TickerC) (env_reaper \<lparr>rc_Interval = 0, rc_Timeout = 100\<rparr>)
     (fresh_env [(10, Inr 2), (60, Inr 0), (170, Inr 0)] [])) = Inr True"
  using self_reap_live [of 60 0 "[]" 0 "\<lparr>rc_Interval = 0, rc_Timeout = 100\<rparr>" 170 "[(10, 2)]"
      "[(10, Inr 2), (60, Inr 0), (170, Inr 0)]"]
  by (simp add: reap_timeout_def numeral_3_eq_3)

lemma example_run:
  "re_deleted (snd (snd (Run [TickerC, TickerC, TickerC] (env_reaper \<lparr>rc_Interval = 0, rc_Timeout = 100\<rparr>)
     (fresh_env [(10, Inr 2), (60, Inr 0), (170, Inr 0)] [])))) = [170]"
  "re_seen (snd (snd (Run [TickerC, TickerC, TickerC] (env_reaper \<lparr>rc_Interval = 0, rc_Timeout = 100\<rparr>)
     (fresh_env [(10, Inr 2), (60, Inr 0), (170, Inr 0)] [])))) = [(10, Inr 2), (60, Inr 0), (170, Inr 0)]"
  by code_simp+

theorem self_reap_safe_witness: "idle_proof (reap_timeout \<lparr>rc_Interval = 0, rc_Timeout = 100\<rparr>) [(10, Inr 2), (60, Inr 0), (170, Inr 0)] 170"
  using self_reap_safe [of "[TickerC, TickerC, TickerC]" "\<lparr>rc_Interval = 0, rc_Timeout = 100\<rparr>"
    "[(10, Inr 2), (60, Inr 0), (170, Inr 0)]" "[]"]
  by (simp add: example_run)

text \<open>Whatever the environment variables say, a reaper that starts has a positive interval and a
  positive timeout, so its ticker is valid and no machine is deleted on its first idle tick.\<close>

theorem reaper_config_positive:
  "case startSelfReaper env lister newDeleter md clock of
     None \<Rightarrow> env ''SELF_REAP_ENABLED'' \<in> {''0'', ''false'', ''FALSE'', ''False'', ''no'', ''NO''} \<or> is_err newDeleter
   | Some r \<Rightarrow> 0 < rc_Interval (rp_cfg r) \<and> 0 < rc_Timeout (rp_cfg r) \<and> rp_zeroSince r = None"
  by (auto simp: startSelfReaper_def NewReaper_def Let_def second_ns_def getenvBool_def split: sum.split if_splits)

end
