(* ===== verification/JsonValue.thy ===== *)
theory JsonValue
  imports Prelude
begin

text \<open>
  JSON values as \<^verbatim>\<open>encoding/json\<close> decodes them into \<^verbatim>\<open>interface{}\<close> and as a
  \<^verbatim>\<open>jsonb\<close> column stores them: a Go \<^verbatim>\<open>nil\<close> is \<open>JNull\<close>, numbers are exact, an object is a
  map with string keys.  \<open>jsonb_concat\<close> is Postgres' \<^verbatim>\<open>||\<close> on two objects: the keys of the
  right operand replace those of the left.
\<close>

datatype json =
    JNull
  | JBool bool
  | JNum rat
  | JStr string
  | JArr "json list"
  | JObj "(string \<times> json) list"

definition jsonb_concat :: "json gomap \<Rightarrow> json gomap \<Rightarrow> json gomap" where
  "jsonb_concat l r = fold (\<lambda>(k, v) m. gomap_set m k v) r l"

text \<open>Go's checked type assertion \<^verbatim>\<open>v.(string)\<close>, with the zero value when it fails.\<close>

definition as_string :: "json option \<Rightarrow> string" where
  "as_string v = (case v of Some (JStr s) \<Rightarrow> s | _ \<Rightarrow> [])"

lemma as_string_simps [simp, go_simps]:
  "as_string (Some (JStr s)) = s" "as_string None = []" "as_string (Some JNull) = []"
  by (simp_all add: as_string_def)

lemma jsonb_concat_Nil [simp]: "jsonb_concat l [] = l"
  by (simp add: jsonb_concat_def)

lemma jsonb_concat_Cons [simp]: "jsonb_concat l ((k, v) # r) = jsonb_concat (gomap_set l k v) r"
  by (simp add: jsonb_concat_def)

lemma gomap_get_concat_other:
  "k \<notin> fst ` set r \<Longrightarrow> gomap_get (jsonb_concat l r) k = gomap_get l k"
proof (induction r arbitrary: l)
  case Nil
  then show ?case by simp
next
  case (Cons kv r)
  obtain k' v where kv: "kv = (k', v)" by (cases kv)
  from Cons show ?case by (auto simp: kv)
qed

lemma gomap_get_concat:
  assumes "gomap_ok r"
  shows "gomap_get (jsonb_concat l r) k =
    (case gomap_get r k of Some v \<Rightarrow> Some v | None \<Rightarrow> gomap_get l k)"
  using assms
proof (induction r arbitrary: l)
  case Nil
  then show ?case by simp
next
  case (Cons kv r)
  obtain k' v where kv: "kv = (k', v)" by (cases kv)
  have ok: "gomap_ok r" and fresh: "k' \<notin> fst ` set r"
    using Cons.prems by (auto simp: gomap_ok_def kv)
  show ?case
  proof (cases "k = k'")
    case True
    with fresh show ?thesis by (simp add: kv gomap_get_concat_other)
  next
    case False
    with Cons.IH [OF ok] show ?thesis by (simp add: kv split: option.split)
  qed
qed

lemma gomap_ok_concat: "gomap_ok l \<Longrightarrow> gomap_ok (jsonb_concat l r)"
  by (induction r arbitrary: l) (auto simp: gomap_ok_set)

end
