(* ===== verification/Utf8.thy ===== *)
theory Utf8
  imports Prelude
begin

text \<open>
  Texts that are bytes, read as UTF-8: what Go's conversions to runes, \<^verbatim>\<open>strings.TrimSpace\<close> and
  \<^verbatim>\<open>encoding/json\<close> make of them.  \<open>runes\<close> cuts a text into the byte sequences of its runes, an
  invalid byte being a rune of its own; \<open>rune_string\<close> writes a rune back, the invalid byte as U+FFFD.
  \<open>utf8_coerce\<close> is a text after both, which is what \<^verbatim>\<open>json.Marshal\<close> writes and \<^verbatim>\<open>json.Unmarshal\<close>
  reads for it; it is the identity on the texts that are valid UTF-8 (\<open>utf8_valid\<close>) and makes no
  text longer than three times.
\<close>

section \<open>Runes\<close>

definition byte :: "char \<Rightarrow> nat" where
  "byte c = of_char c"

definition in_range :: "nat \<Rightarrow> nat \<Rightarrow> char \<Rightarrow> bool" where
  "in_range lo hi c = (lo \<le> byte c \<and> byte c \<le> hi)"

text \<open>The number of bytes of the first rune, 0 when the text does not begin with a valid one.\<close>

definition rune_width :: "string \<Rightarrow> nat" where
  "rune_width s =
     (case s of
        [] \<Rightarrow> 0
      | a # r \<Rightarrow>
          if in_range 0 127 a then 1
          else
            (case r of
               [] \<Rightarrow> 0
             | b # r \<Rightarrow>
                 if in_range 194 223 a \<and> in_range 128 191 b then 2
                 else
                   (case r of
                      [] \<Rightarrow> 0
                    | c # r \<Rightarrow>
                        if in_range 128 191 c \<and>
                           (byte a = 224 \<and> in_range 160 191 b \<or>
                            (in_range 225 236 a \<or> in_range 238 239 a) \<and> in_range 128 191 b \<or>
                            byte a = 237 \<and> in_range 128 159 b)
                        then 3
                        else
                          (case r of
                             [] \<Rightarrow> 0
                           | d # r \<Rightarrow>
                               if in_range 128 191 c \<and> in_range 128 191 d \<and>
                                  (byte a = 240 \<and> in_range 144 191 b \<or>
                                   in_range 241 243 a \<and> in_range 128 191 b \<or>
                                   byte a = 244 \<and> in_range 128 143 b)
                               then 4 else 0))))"

function runes :: "string \<Rightarrow> string list" where
  "runes [] = []"
| "runes (x # xs) = (let n = max 1 (rune_width (x # xs)) in take n (x # xs) # runes (drop n (x # xs)))"
  by pat_completeness auto
termination by (relation "measure length") (auto simp: Let_def)

definition rune_string :: "string \<Rightarrow> string" where
  "rune_string r = (if rune_width r = 0 then [CHR 0xEF, CHR 0xBF, CHR 0xBD] else r)"

definition unicode_space :: "string \<Rightarrow> bool" where
  "unicode_space r =
     (case map byte r of
        [a] \<Rightarrow> a \<in> {9, 10, 11, 12, 13, 32}
      | [a, b] \<Rightarrow> a = 194 \<and> b \<in> {133, 160}
      | [a, b, c] \<Rightarrow>
          a = 225 \<and> b = 154 \<and> c = 128 \<or>
          a = 226 \<and> b = 128 \<and> (128 \<le> c \<and> c \<le> 138 \<or> c \<in> {168, 169, 175}) \<or>
          a = 226 \<and> b = 129 \<and> c = 159 \<or>
          a = 227 \<and> b = 128 \<and> c = 128
      | _ \<Rightarrow> False)"

definition TrimSpace :: "string \<Rightarrow> string" where
  "TrimSpace s = concat (rev (dropWhile unicode_space (rev (dropWhile unicode_space (runes s)))))"

definition utf8_coerce :: "string \<Rightarrow> string" where
  "utf8_coerce s = concat (map rune_string (runes s))"

definition utf8_valid :: "string \<Rightarrow> bool" where
  "utf8_valid s \<longleftrightarrow> (\<forall>r \<in> set (runes s). rune_width r \<noteq> 0)"

section \<open>Properties\<close>

lemma runes_width:
  "r \<in> set (runes s) \<Longrightarrow> 1 \<le> length r \<and> length r \<le> 4"
proof (induction s rule: runes.induct)
  case 1
  then show ?case by simp
next
  case (2 x xs)
  have w: "rune_width (x # xs) \<le> 4" by (auto simp: rune_width_def split: list.split)
  from 2 w show ?case by (auto simp: Let_def)
qed

lemma concat_runes [simp]: "concat (runes s) = s"
  by (induction s rule: runes.induct) (simp_all add: Let_def)

lemma set_runes: "r \<in> set (runes s) \<Longrightarrow> set r \<subseteq> set s"
  using concat_runes [of s] by (metis Union_iff image_eqI set_concat subsetI)

lemma set_rev_dropWhile: "set (rev (dropWhile P (rev (dropWhile Q xs)))) \<subseteq> set xs"
  by (auto dest!: set_dropWhileD)

lemma set_TrimSpace: "set (TrimSpace s) \<subseteq> set s"
proof -
  define rs where "rs = rev (dropWhile unicode_space (rev (dropWhile unicode_space (runes s))))"
  have "set rs \<subseteq> set (runes s)" unfolding rs_def by (rule set_rev_dropWhile)
  then have "set (concat rs) \<subseteq> set s" using set_runes by fastforce
  then show ?thesis by (simp add: TrimSpace_def rs_def)
qed

lemma set_rune_string: "set (rune_string r) \<subseteq> set r \<union> {CHR 0xEF, CHR 0xBF, CHR 0xBD}"
  by (auto simp: rune_string_def)

lemma length_concat_bound: "(\<And>x. x \<in> set xs \<Longrightarrow> length x \<le> n) \<Longrightarrow> length (concat xs) \<le> length xs * n"
  by (induction xs) (auto intro: add_mono)

lemma runes_ascii: "\<forall>c \<in> set s. byte c < 128 \<Longrightarrow> runes s = map (\<lambda>c. [c]) s"
  by (induction s) (auto simp: rune_width_def in_range_def)

lemma unicode_space_ascii: "unicode_space [c] \<longleftrightarrow> byte c \<in> {9, 10, 11, 12, 13, 32}"
  by (simp add: unicode_space_def)

lemma TrimSpace_id:
  assumes "\<forall>c \<in> set s. byte c < 128" and "s \<noteq> []" and "\<not> unicode_space [hd s]" and "\<not> unicode_space [last s]"
  shows "TrimSpace s = s"
proof -
  have d: "dropWhile unicode_space (map (\<lambda>c. [c]) s) = map (\<lambda>c. [c]) s"
    using assms(2,3) by (cases s) auto
  obtain t l where s: "s = t @ [l]" using assms(2) by (metis rev_exhaust)
  have "dropWhile unicode_space (rev (map (\<lambda>c. [c]) s)) = rev (map (\<lambda>c. [c]) s)"
    using assms(4) by (simp add: s)
  with d show ?thesis by (simp add: TrimSpace_def runes_ascii [OF assms(1)] del: rev_map)
qed

lemma utf8_valid_coerce [simp]: "utf8_valid s \<Longrightarrow> utf8_coerce s = s"
proof -
  assume "utf8_valid s"
  then have "map rune_string (runes s) = runes s"
    by (intro map_idI) (auto simp: utf8_valid_def rune_string_def)
  then show ?thesis by (simp add: utf8_coerce_def)
qed

lemma utf8_coerce_Nil [simp]: "utf8_coerce [] = []"
  by (simp add: utf8_coerce_def)

lemma runes_Nil_iff [simp]: "runes s = [] \<longleftrightarrow> s = []"
  by (cases s) (simp_all add: Let_def)

lemma rune_string_nonempty: "r \<in> set (runes s) \<Longrightarrow> rune_string r \<noteq> []"
  using runes_width [of r s] by (auto simp: rune_string_def)

lemma utf8_coerce_eq_Nil [simp]: "utf8_coerce s = [] \<longleftrightarrow> s = []"
proof
  assume "utf8_coerce s = []"
  then have "\<forall>r \<in> set (runes s). rune_string r = []" by (simp add: utf8_coerce_def)
  then have "runes s = []" using rune_string_nonempty by (metis last_in_set)
  then show "s = []" by simp
qed simp

lemma utf8_valid_ascii: "\<forall>c \<in> set s. byte c < 128 \<Longrightarrow> utf8_valid s"
  by (auto simp: utf8_valid_def runes_ascii rune_width_def in_range_def)

text \<open>A rune depends on its own bytes only.\<close>

lemma rune_width_bounds: "rune_width s \<le> 4" "rune_width s \<le> length s"
  by (auto simp: rune_width_def split: list.split)

lemma rune_width_prefix:
  assumes "rune_width (p @ s) = length p" and "p \<noteq> []"
  shows "rune_width (p @ t) = length p"
proof -
  have "length p \<le> 4" using rune_width_bounds(1) [of "p @ s"] assms(1) by simp
  then consider a where "p = [a]" | a b where "p = [a, b]" | a b c where "p = [a, b, c]"
    | a b c d where "p = [a, b, c, d]"
    using assms(2) by (cases p; cases "tl p"; cases "tl (tl p)"; cases "tl (tl (tl p))") auto
  then show ?thesis
    using assms(1) by cases (auto simp: rune_width_def in_range_def split: list.splits if_splits)
qed

lemma length_utf8_coerce: "length (utf8_coerce s) \<le> 3 * length s"
proof -
  have "length (rune_string r) \<le> 3 * length r" if "r \<in> set (runes s)" for r
    using runes_width [OF that] by (auto simp: rune_string_def)
  then have "(\<Sum>r\<leftarrow>runes s. length (rune_string r)) \<le> (\<Sum>r\<leftarrow>runes s. 3 * length r)"
    by (intro sum_list_mono)
  also have "\<dots> = 3 * length (concat (runes s))"
    by (simp only: length_concat sum_list_const_mult)
  finally show ?thesis by (simp add: utf8_coerce_def length_concat comp_def)
qed

text \<open>A concatenation of valid runes falls apart into them, so a coerced text is valid.\<close>

lemma runes_concat:
  "(\<And>r. r \<in> set rs \<Longrightarrow> rune_width r = length r \<and> r \<noteq> []) \<Longrightarrow> runes (concat rs) = rs"
proof (induction rs)
  case (Cons r rs)
  have r: "rune_width (r @ []) = length r" "r \<noteq> []" using Cons.prems [of r] by simp_all
  then obtain x xs where c: "r @ concat rs = x # xs" by (cases r) auto
  have w: "rune_width (x # xs) = length r" using rune_width_prefix [OF r] c by metis
  have "runes (r @ concat rs) = r # runes (concat rs)"
    unfolding c using w r(2) by (simp add: Let_def max_def flip: c) (cases r; simp)
  then show ?case using Cons by simp
qed simp

lemma rune_width_rune: "r \<in> set (runes s) \<Longrightarrow> rune_width r \<noteq> 0 \<Longrightarrow> rune_width r = length r"
proof (induction s rule: runes.induct)
  case (2 x xs)
  define n where "n = rune_width (x # xs)"
  consider "r = take (max 1 n) (x # xs)" | "r \<in> set (runes (drop (max 1 n) (x # xs)))"
    using 2(2) by (auto simp: n_def Let_def)
  then show ?case
  proof cases
    case 1
    show ?thesis
    proof (cases "n = 0")
      case True
      with 1 2(3) show ?thesis using rune_width_bounds(2) [of r] by simp
    next
      case False
      then have r: "r = take n (x # xs)" "length r = n"
        using 1 rune_width_bounds(2) [of "x # xs"] by (simp_all add: n_def max_def)
      have "r @ drop n (x # xs) = x # xs" using r(1) by simp
      then have "rune_width (r @ drop n (x # xs)) = length r" using r(2) by (simp add: n_def)
      then have "rune_width (r @ []) = length r" by (rule rune_width_prefix) (use False r in auto)
      then show ?thesis by simp
    qed
  next
    case 2
    then show ?thesis using "2.IH" "2.prems"(2) by (simp add: n_def)
  qed
qed simp

lemma utf8_coerce_valid: "utf8_valid (utf8_coerce s)"
proof -
  have f: "rune_width [CHR 0xEF, CHR 0xBF, CHR 0xBD] = 3" by code_simp
  have "rune_width (rune_string r) = length (rune_string r) \<and> rune_string r \<noteq> []" if "r \<in> set (runes s)" for r
    using rune_width_rune [OF that] rune_string_nonempty [OF that] f by (auto simp: rune_string_def)
  then have "runes (utf8_coerce s) = map rune_string (runes s)"
    unfolding utf8_coerce_def by (intro runes_concat) auto
  then show ?thesis using f by (auto simp: utf8_valid_def rune_string_def)
qed

end
