(* ===== verification/Http.thy ===== *)
theory Http
  imports JsonValue Utf8 "HOL-Library.Word"
begin

text \<open>
  The part of \<^verbatim>\<open>net/http\<close> and \<^verbatim>\<open>encoding/json\<close> that the servers and clients of the three
  programs share.

  A request carries its method, the decoded segments of its path, its query parameters, the value
  of its \<^verbatim>\<open>Authorization\<close> header (empty when absent) and its body; a response its status, content
  type and body.  A body is \<open>JsonBody v\<close> when its bytes are the text of the JSON value \<open>v\<close>,
  \<open>TextBody s\<close> when they are the bytes \<open>s\<close> and no JSON text, \<open>NoBody\<close> when it is empty, and
  \<open>LinesBody ls e\<close> when it is a stream of lines, each given by its length in bytes and the JSON
  value it is the text of, if any, that ends with the read error \<open>e\<close> or the end of file.  The strings
  of \<open>v\<close> in \<open>JsonBody v\<close> are the ones a decoder gets from the text: an encoder of bytes that need not be
  valid UTF-8 writes them with \<open>enc_string\<close>, which has the bytes that are not replaced by U+FFFD as
  \<^verbatim>\<open>json.Marshal\<close> has; \<open>JStr\<close> alone encodes what is known to be valid, such as constants, numbers,
  identifiers and texts that were decoded from JSON before.  So reading \<open>v\<close> changes no string any more.

  \<open>decode_struct\<close> is \<^verbatim>\<open>json.Unmarshal\<close> into a struct, one
  member after the other: \<^verbatim>\<open>null\<close> leaves a value field alone and clears a pointer, names match
  regardless of (ASCII) case, unknown members are skipped, a wrong type or an integer that does
  not fit is an error, whose text is cut to its fixed beginning.
\<close>

datatype http_body =
    NoBody
  | TextBody string
  | JsonBody json
  | LinesBody "(nat \<times> json option) list" "goerr option"

record http_request =
  rq_method :: string
  rq_path :: "string list"
  rq_query :: "(string \<times> string) list"
  rq_authorization :: string
  rq_body :: http_body

record http_response =
  rs_status :: int
  rs_content_type :: string
  rs_body :: http_body

definition plain_request :: "string \<Rightarrow> string list \<Rightarrow> http_body \<Rightarrow> http_request" where
  "plain_request m p b =
     \<lparr>rq_method = m, rq_path = p, rq_query = [], rq_authorization = [], rq_body = b\<rparr>"

lemma plain_request_sel [simp, go_simps]:
  "rq_method (plain_request m p b) = m" "rq_path (plain_request m p b) = p"
  "rq_query (plain_request m p b) = []" "rq_authorization (plain_request m p b) = []"
  "rq_body (plain_request m p b) = b"
  by (simp_all add: plain_request_def)

definition json_response :: "int \<Rightarrow> json \<Rightarrow> http_response" where
  "json_response code v =
     \<lparr>rs_status = code, rs_content_type = ''application/json'', rs_body = JsonBody v\<rparr>"

definition status_response :: "int \<Rightarrow> http_response" where
  "status_response code =
     \<lparr>rs_status = code, rs_content_type = [], rs_body = NoBody\<rparr>"

text \<open>\<^verbatim>\<open>http.Error\<close> ends the text with a line feed.\<close>

definition http_error :: "string \<Rightarrow> int \<Rightarrow> http_response" where
  "http_error m code =
     \<lparr>rs_status = code, rs_content_type = ''text/plain; charset=utf-8'',
      rs_body = TextBody (m @ [CHR 0x0A])\<rparr>"

lemma response_sel [simp, go_simps]:
  "rs_status (json_response c v) = c" "rs_body (json_response c v) = JsonBody v"
  "rs_content_type (json_response c v) = ''application/json''"
  "rs_status (status_response c) = c" "rs_body (status_response c) = NoBody"
  "rs_status (http_error m c) = c"
  by (simp_all add: json_response_def status_response_def http_error_def)

section \<open>Lines\<close>

text \<open>
  \<^verbatim>\<open>bufio.Scanner\<close> with its defaults: the lines of a text without their line ends, and whether the
  text was read to its end.  A line of 64 KiB or more does not fit the buffer and stops the scanner
  with an error, which leaves the rest unread.
\<close>

definition MaxScanTokenSize :: nat where
  "MaxScanTokenSize = 65536"

definition ErrTooLong :: goerr where
  "ErrTooLong = ErrVar ''bufio.ErrTooLong'' ''bufio.Scanner: token too long''"

definition drop_cr :: "string \<Rightarrow> string" where
  "drop_cr l = (if l \<noteq> [] \<and> last l = CHR 0x0D then butlast l else l)"

function scan_text :: "string \<Rightarrow> string list \<times> bool" where
  "scan_text [] = ([], True)"
| "scan_text (x # xs) =
     (let l = takeWhile (\<lambda>c. c \<noteq> CHR 0x0A) (x # xs) in
      if length l \<ge> MaxScanTokenSize then ([], False)
      else (case scan_text (drop (Suc (length l)) (x # xs)) of (ls, all) \<Rightarrow> (drop_cr l # ls, all)))"
  by pat_completeness auto
termination by (relation "measure length") auto

declare scan_text.simps(2) [simp del]

lemma drop_cr_subset: "set (drop_cr l) \<subseteq> set l" "length (drop_cr l) \<le> length l"
  by (auto simp: drop_cr_def dest: in_set_butlastD)

text \<open>A line without line feed, shorter than the limit.\<close>

definition short_line :: "string \<Rightarrow> bool" where
  "short_line l \<longleftrightarrow> CHR 0x0A \<notin> set l \<and> length l < 65536"

lemma scan_text_short: "l \<in> set (fst (scan_text s)) \<Longrightarrow> short_line l"
proof (induction s rule: scan_text.induct)
  case (2 x xs)
  let ?l = "takeWhile (\<lambda>c. c \<noteq> CHR 0x0A) (x # xs)"
  have "short_line (drop_cr ?l)" if "length ?l < MaxScanTokenSize"
    using that drop_cr_subset [of ?l] by (auto simp: short_line_def MaxScanTokenSize_def dest: set_takeWhileD)
  with 2 show ?case
    by (auto simp: scan_text.simps(2) [of x xs] Let_def not_le split: prod.splits if_splits)
qed simp

lemma scan_text_line:
  "short_line l \<Longrightarrow> scan_text (l @ CHR 0x0A # s) = (drop_cr l # fst (scan_text s), snd (scan_text s))"
proof -
  assume l: "short_line l"
  then have t: "takeWhile (\<lambda>c. c \<noteq> CHR 0x0A) (l @ CHR 0x0A # s) = l"
    by (subst takeWhile_append2) (auto simp: short_line_def)
  obtain x xs where x: "l @ CHR 0x0A # s = x # xs" by (cases l) auto
  have d: "drop (Suc (length l)) (x # xs) = s" by (simp flip: x)
  show ?thesis
    using l t unfolding x
    by (simp add: scan_text.simps(2) [of x xs] Let_def d short_line_def MaxScanTokenSize_def del: drop_Suc_Cons split: prod.split)
qed

definition ndjson :: "string list \<Rightarrow> string" where
  "ndjson ls = concat (map (\<lambda>l. l @ [CHR 0x0A]) ls)"

text \<open>What one program writes line by line another gets back, up to a carriage return.\<close>

lemma scan_ndjson: "\<forall>l \<in> set ls. short_line l \<Longrightarrow> scan_text (ndjson ls) = (map drop_cr ls, True)"
  by (induction ls) (simp_all add: ndjson_def scan_text_line)

text \<open>A longer line ends it all: the line and what follows it are lost.\<close>

lemma scan_text_long:
  assumes "CHR 0x0A \<notin> set b" and "65536 \<le> length b"
  shows "scan_text (b @ r) = ([], False)"
proof -
  obtain x xs where x: "b @ r = x # xs" using assms(2) by (cases b) auto
  have "length b \<le> length (takeWhile (\<lambda>c. c \<noteq> CHR 0x0A) (b @ r))"
    using assms(1) by (subst takeWhile_append2) auto
  with assms(2) show ?thesis
    unfolding x by (simp add: scan_text.simps(2) [of x xs] Let_def MaxScanTokenSize_def del: takeWhile.simps)
qed

lemma scan_ndjson_long:
  assumes "\<forall>l \<in> set ls. short_line l" and "CHR 0x0A \<notin> set b" and "65536 \<le> length b"
  shows "scan_text (ndjson ls @ b @ r) = (map drop_cr ls, False)"
  using assms(1)
proof (induction ls)
  case Nil
  then show ?case using scan_text_long [OF assms(2,3)] by (simp add: ndjson_def)
next
  case (Cons l ls)
  have "ndjson (l # ls) @ b @ r = l @ CHR 0x0A # (ndjson ls @ b @ r)" by (simp add: ndjson_def)
  with Cons show ?case by (simp add: scan_text_line)
qed

section \<open>Decoding\<close>

definition ascii_lower :: "string \<Rightarrow> string" where
  "ascii_lower s = map (\<lambda>c. let k = of_char c :: nat in
     if 65 \<le> k \<and> k \<le> 90 then char_of (k + 32) else c) s"

definition unmarshal_error :: goerr where
  "unmarshal_error = ErrText ''json: cannot unmarshal''"

definition dec_string :: "json \<Rightarrow> string \<Rightarrow> string option" where
  "dec_string v old = (case v of JStr s \<Rightarrow> Some s | JNull \<Rightarrow> Some old | _ \<Rightarrow> None)"

definition dec_bool :: "json \<Rightarrow> bool \<Rightarrow> bool option" where
  "dec_bool v old = (case v of JBool b \<Rightarrow> Some b | JNull \<Rightarrow> Some old | _ \<Rightarrow> None)"

definition rat_int :: "rat \<Rightarrow> int option" where
  "rat_int r = (case quotient_of r of (n, d) \<Rightarrow> if d = 1 then Some n else None)"

definition dec_int :: "json \<Rightarrow> 'w::len word \<Rightarrow> 'w word option" where
  "dec_int v old =
     (case v of
        JNum r \<Rightarrow>
          (case rat_int r of
             None \<Rightarrow> None
           | Some n \<Rightarrow> if sint (word_of_int n :: 'w word) = n then Some (word_of_int n) else None)
      | JNull \<Rightarrow> Some old
      | _ \<Rightarrow> None)"

definition dec_rat :: "json \<Rightarrow> rat \<Rightarrow> rat option" where
  "dec_rat v old = (case v of JNum r \<Rightarrow> Some r | JNull \<Rightarrow> Some old | _ \<Rightarrow> None)"

text \<open>A pointer field starts from the zero value of what it points to.\<close>

definition dec_ptr :: "(json \<Rightarrow> 'a \<Rightarrow> 'a option) \<Rightarrow> 'a \<Rightarrow> json \<Rightarrow> 'a option \<Rightarrow> 'a option option" where
  "dec_ptr f zero v old =
     (if v = JNull then Some None else map_option Some (f v (case old of None \<Rightarrow> zero | Some x \<Rightarrow> x)))"

fun dec_elems :: "(json \<Rightarrow> 'a \<Rightarrow> 'a option) \<Rightarrow> 'a \<Rightarrow> json list \<Rightarrow> 'a list option" where
  "dec_elems f zero [] = Some []"
| "dec_elems f zero (v # vs) =
     (case f v zero of None \<Rightarrow> None
      | Some x \<Rightarrow> (case dec_elems f zero vs of None \<Rightarrow> None | Some xs \<Rightarrow> Some (x # xs)))"

definition dec_slice :: "(json \<Rightarrow> 'a \<Rightarrow> 'a option) \<Rightarrow> 'a \<Rightarrow> json \<Rightarrow> 'a list \<Rightarrow> 'a list option" where
  "dec_slice f zero v old =
     (case v of JArr vs \<Rightarrow> dec_elems f zero vs | JNull \<Rightarrow> Some [] | _ \<Rightarrow> None)"

fun dec_members :: "(json \<Rightarrow> 'a \<Rightarrow> 'a option) \<Rightarrow> 'a \<Rightarrow> json gomap \<Rightarrow> 'a gomap \<Rightarrow> 'a gomap option" where
  "dec_members f zero [] m = Some m"
| "dec_members f zero ((k, v) # kvs) m =
     (case f v zero of None \<Rightarrow> None | Some x \<Rightarrow> dec_members f zero kvs (gomap_set m k x))"

definition dec_map :: "(json \<Rightarrow> 'a \<Rightarrow> 'a option) \<Rightarrow> 'a \<Rightarrow> json \<Rightarrow> 'a gomap \<Rightarrow> 'a gomap option" where
  "dec_map f zero v old =
     (case v of JObj kvs \<Rightarrow> dec_members f zero kvs old | JNull \<Rightarrow> Some [] | _ \<Rightarrow> None)"

fun dec_fields :: "(string \<Rightarrow> json \<Rightarrow> 's \<Rightarrow> 's option) \<Rightarrow> json gomap \<Rightarrow> 's \<Rightarrow> 's option" where
  "dec_fields field [] s = Some s"
| "dec_fields field ((k, v) # kvs) s =
     (case field (ascii_lower k) v s of None \<Rightarrow> None | Some s \<Rightarrow> dec_fields field kvs s)"

definition dec_struct :: "(string \<Rightarrow> json \<Rightarrow> 's \<Rightarrow> 's option) \<Rightarrow> json \<Rightarrow> 's \<Rightarrow> 's option" where
  "dec_struct field v s =
     (case v of JObj kvs \<Rightarrow> dec_fields field kvs s | JNull \<Rightarrow> Some s | _ \<Rightarrow> None)"

definition decode_struct :: "(string \<Rightarrow> json \<Rightarrow> 's \<Rightarrow> 's option) \<Rightarrow> 's \<Rightarrow> http_body \<Rightarrow> 's result" where
  "decode_struct field zero b =
     (case b of
        NoBody \<Rightarrow> Inl (ErrVar ''io.EOF'' ''EOF'')
      | TextBody s \<Rightarrow> Inl (ErrText ''invalid character'')
      | LinesBody ls e \<Rightarrow> Inl (ErrText ''invalid character'')
      | JsonBody v \<Rightarrow> (case dec_struct field v zero of None \<Rightarrow> Inl unmarshal_error | Some s \<Rightarrow> Inr s))"

lemma rat_int_of_int [simp]: "rat_int (of_int n) = Some n"
  by (simp add: rat_int_def)

lemma dec_simps [simp, go_simps]:
  "dec_string (JStr s) old = Some s" "dec_string JNull old = Some old"
  "dec_bool (JBool b) bo = Some b" "dec_rat (JNum r) ro = Some r"
  by (simp_all add: dec_string_def dec_bool_def dec_rat_def)

lemma rat_int_signed [simp]: "rat_int (signed w) = Some (sint w)"
  by (metis of_int_sint rat_int_of_int)

lemma dec_int_sint [simp, go_simps]: "dec_int (JNum (signed w)) old = Some w"
  by (simp add: dec_int_def)

lemma dec_ptr_Some [simp, go_simps]:
  "v \<noteq> JNull \<Longrightarrow> dec_ptr f zero v None = map_option Some (f v zero)"
  by (simp add: dec_ptr_def)

lemma dec_elems_map:
  "(\<And>x. x \<in> set xs \<Longrightarrow> f (e x) zero = Some x) \<Longrightarrow> dec_elems f zero (map e xs) = Some xs"
  by (induction xs) auto

lemma dec_slice_map [simp, go_simps]:
  "(\<And>x. x \<in> set xs \<Longrightarrow> f (e x) zero = Some x) \<Longrightarrow> dec_slice f zero (JArr (map e xs)) old = Some xs"
  by (simp add: dec_slice_def dec_elems_map)

lemma gomap_set_fresh: "k \<notin> fst ` set m \<Longrightarrow> gomap_set m k v = m @ [(k, v)]"
  by (induction m k v rule: gomap_set.induct) auto

lemma dec_members_map:
  assumes "\<And>x. f (e x) zero = Some x" and "gomap_ok (acc @ m)"
  shows "dec_members f zero (map (\<lambda>(k, x). (k, e x)) m) acc = Some (acc @ m)"
  using assms(2)
proof (induction m arbitrary: acc)
  case Nil
  then show ?case by simp
next
  case (Cons kv m)
  obtain k v where kv: "kv = (k, v)" by (cases kv)
  have "k \<notin> fst ` set acc" using Cons.prems by (auto simp: gomap_ok_def kv)
  then have "gomap_set acc k v = acc @ [kv]" by (simp add: gomap_set_fresh kv)
  with Cons.IH [of "acc @ [kv]"] Cons.prems assms(1) show ?case by (simp add: kv)
qed

lemma dec_map_map:
  assumes "\<And>x. f (e x) zero = Some x" and "gomap_ok m"
  shows "dec_map f zero (JObj (map (\<lambda>(k, x). (k, e x)) m)) [] = Some m"
  using dec_members_map [of f e zero "[]" m] assms by (simp add: dec_map_def)

lemma dec_fields_append:
  "dec_fields field (xs @ ys) s =
     (case dec_fields field xs s of None \<Rightarrow> None | Some s' \<Rightarrow> dec_fields field ys s')"
  by (induction field xs s rule: dec_fields.induct) (auto split: option.split)

section \<open>Encoding\<close>

text \<open>A struct field with \<^verbatim>\<open>omitempty\<close>, of pointer type and of type string.\<close>

definition omit_nil :: "string \<Rightarrow> ('a \<Rightarrow> json) \<Rightarrow> 'a option \<Rightarrow> json gomap" where
  "omit_nil k e x = (case x of None \<Rightarrow> [] | Some v \<Rightarrow> [(k, e v)])"

definition omit_empty :: "string \<Rightarrow> string \<Rightarrow> json gomap" where
  "omit_empty k s = (if s = [] then [] else [(k, JStr s)])"

definition enc_string :: "string \<Rightarrow> json" where
  "enc_string s = JStr (utf8_coerce s)"

definition enc_int :: "'w::len word \<Rightarrow> json" where
  "enc_int w = JNum (of_int (sint w))"

definition enc_strings :: "string list \<Rightarrow> json" where
  "enc_strings ss = JArr (map JStr ss)"

definition enc_string_map :: "string gomap \<Rightarrow> json" where
  "enc_string_map m = JObj (map (\<lambda>(k, v). (k, JStr v)) m)"

lemma dec_enc [simp, go_simps]:
  "dec_int (enc_int w) old = Some w"
  "dec_slice dec_string [] (enc_strings ss) olds = Some ss"
  "gomap_ok m \<Longrightarrow> dec_map dec_string [] (enc_string_map m) [] = Some m"
  by (simp_all add: enc_int_def enc_strings_def enc_string_map_def dec_map_map)

lemma enc_not_null [simp]: "enc_int w \<noteq> JNull" "enc_strings ss \<noteq> JNull" "enc_string_map m \<noteq> JNull"
  by (simp_all add: enc_int_def enc_strings_def enc_string_map_def)

lemma dec_fields_omit_nil:
  "dec_fields field (omit_nil k e x) s =
     (case x of None \<Rightarrow> Some s | Some v \<Rightarrow> field (ascii_lower k) (e v) s)"
  by (auto simp: omit_nil_def split: option.split)

end
