(* ===== verification/ContainerManagerApi.thy ===== *)
theory ContainerManagerApi
  imports DockerManager Http
begin

text \<open>
  The HTTP surface of container-manager: the request and response types, the strict handlers and
  the routing of \<^verbatim>\<open>apps/container-manager/internal/api/gen.go\<close>, and the operations of
  \<^verbatim>\<open>handler.go\<close> behind them.  \<open>container_manager_http\<close> is the whole server: it turns a request
  into a response over any \<open>agent_manager\<close>.
\<close>

section \<open>Types\<close>

record create_agent_request =
  ca_container_port :: "32 word"
  ca_env :: "string list option"
  ca_host_port :: "32 word option"
  ca_image :: string
  ca_labels :: "string gomap option"
  ca_memory_mib :: "64 word option"
  ca_name :: string
  ca_nano_cpus :: "64 word option"
  ca_network :: "string option"

definition zero_create_agent_request :: create_agent_request where
  "zero_create_agent_request =
     \<lparr>ca_container_port = 0, ca_env = None, ca_host_port = None, ca_image = [], ca_labels = None,
      ca_memory_mib = None, ca_name = [], ca_nano_cpus = None, ca_network = None\<rparr>"

definition create_agent_field ::
    "string \<Rightarrow> json \<Rightarrow> create_agent_request \<Rightarrow> create_agent_request option" where
  "create_agent_field k v r =
     (if k = ''container_port'' then
        map_option (\<lambda>x. r\<lparr>ca_container_port := x\<rparr>) (dec_int v (ca_container_port r))
      else if k = ''env'' then
        map_option (\<lambda>x. r\<lparr>ca_env := x\<rparr>) (dec_ptr (dec_slice dec_string []) [] v (ca_env r))
      else if k = ''host_port'' then
        map_option (\<lambda>x. r\<lparr>ca_host_port := x\<rparr>) (dec_ptr dec_int 0 v (ca_host_port r))
      else if k = ''image'' then
        map_option (\<lambda>x. r\<lparr>ca_image := x\<rparr>) (dec_string v (ca_image r))
      else if k = ''labels'' then
        map_option (\<lambda>x. r\<lparr>ca_labels := x\<rparr>) (dec_ptr (dec_map dec_string []) [] v (ca_labels r))
      else if k = ''memory_mib'' then
        map_option (\<lambda>x. r\<lparr>ca_memory_mib := x\<rparr>) (dec_ptr dec_int 0 v (ca_memory_mib r))
      else if k = ''name'' then
        map_option (\<lambda>x. r\<lparr>ca_name := x\<rparr>) (dec_string v (ca_name r))
      else if k = ''nano_cpus'' then
        map_option (\<lambda>x. r\<lparr>ca_nano_cpus := x\<rparr>) (dec_ptr dec_int 0 v (ca_nano_cpus r))
      else if k = ''network'' then
        map_option (\<lambda>x. r\<lparr>ca_network := x\<rparr>) (dec_ptr dec_string [] v (ca_network r))
      else Some r)"

definition error_json :: "string \<Rightarrow> json" where
  "error_json m = JObj [(''error'', JStr m)]"

definition agent_info_json :: "string \<Rightarrow> json" where
  "agent_info_json name = JObj [(''name'', JStr name)]"

datatype get_healthz_response = GetHealthz200 string | GetHealthz503 string
datatype list_agents_response = ListAgents200 "string list" "32 word" | ListAgents500 string
datatype create_agent_response = CreateAgent201 string | CreateAgent400 string | CreateAgent500 string
datatype remove_agent_response = RemoveAgent204 | RemoveAgent404 string | RemoveAgent500 string
datatype stop_agent_response = StopAgent204 | StopAgent404 string | StopAgent500 string

primrec VisitGetHealthzResponse :: "get_healthz_response \<Rightarrow> http_response" where
  "VisitGetHealthzResponse (GetHealthz200 st) = json_response 200 (JObj [(''status'', JStr st)])"
| "VisitGetHealthzResponse (GetHealthz503 m) = json_response 503 (error_json m)"

primrec VisitListAgentsResponse :: "list_agents_response \<Rightarrow> http_response" where
  "VisitListAgentsResponse (ListAgents200 agents count) =
     json_response 200 (JObj [(''agents'', JArr (map agent_info_json agents)), (''count'', enc_int count)])"
| "VisitListAgentsResponse (ListAgents500 m) = json_response 500 (error_json m)"

primrec VisitCreateAgentResponse :: "create_agent_response \<Rightarrow> http_response" where
  "VisitCreateAgentResponse (CreateAgent201 i) = json_response 201 (JObj [(''id'', JStr i)])"
| "VisitCreateAgentResponse (CreateAgent400 m) = json_response 400 (error_json m)"
| "VisitCreateAgentResponse (CreateAgent500 m) = json_response 500 (error_json m)"

primrec VisitRemoveAgentResponse :: "remove_agent_response \<Rightarrow> http_response" where
  "VisitRemoveAgentResponse RemoveAgent204 = status_response 204"
| "VisitRemoveAgentResponse (RemoveAgent404 m) = json_response 404 (error_json m)"
| "VisitRemoveAgentResponse (RemoveAgent500 m) = json_response 500 (error_json m)"

primrec VisitStopAgentResponse :: "stop_agent_response \<Rightarrow> http_response" where
  "VisitStopAgentResponse StopAgent204 = status_response 204"
| "VisitStopAgentResponse (StopAgent404 m) = json_response 404 (error_json m)"
| "VisitStopAgentResponse (StopAgent500 m) = json_response 500 (error_json m)"

section \<open>Operations\<close>

definition allowedLabelKeys :: "string list" where
  "allowedLabelKeys = [''conversation_id'', ''vm_instance_id'', ''component'']"

definition filterLabels :: "string gomap \<Rightarrow> string gomap" where
  "filterLabels labels =
     fold (\<lambda>(k, v) out.
        if k \<notin> set allowedLabelKeys then out
        else gomap_set out k (if length v > 256 then take 256 v else v)) labels []"

definition isNotFound :: "goerr \<Rightarrow> bool" where
  "isNotFound err = (errors_is err ''errNotFound'' \<or> contains_str (error_string err) ''No such container'')"

definition deref :: "'a::zero option \<Rightarrow> 'a" where
  "deref p = (case p of None \<Rightarrow> 0 | Some x \<Rightarrow> x)"

definition derefSlice :: "'a list option \<Rightarrow> 'a list" where
  "derefSlice p = (case p of None \<Rightarrow> [] | Some x \<Rightarrow> x)"

definition Server_GetHealthz :: "'w agent_manager \<Rightarrow> 'w \<Rightarrow> get_healthz_response \<times> 'w" where
  "Server_GetHealthz h w =
     (case am_Ping h w of
        (Inl err, w) \<Rightarrow> (GetHealthz503 (''docker daemon unreachable: '' @ error_string err), w)
      | (Inr _, w) \<Rightarrow> (GetHealthz200 ''ok'', w))"

definition Server_ListAgents :: "'w agent_manager \<Rightarrow> 'w \<Rightarrow> list_agents_response \<times> 'w" where
  "Server_ListAgents h w =
     (case am_ListAgents h w of
        (Inl err, w) \<Rightarrow> (ListAgents500 (error_string err), w)
      | (Inr agents, w) \<Rightarrow> (ListAgents200 agents (word_of_int (int (length agents))), w))"

definition run_agent_request_of :: "create_agent_request \<Rightarrow> run_agent_request" where
  "run_agent_request_of req =
     \<lparr>ra_image = ca_image req, ra_name = ca_name req, ra_host_port = sint (deref (ca_host_port req)),
      ra_container_port = sint (ca_container_port req),
      ra_memory_bytes = deref (ca_memory_mib req) * 1024 * 1024,
      ra_nano_cpus = deref (ca_nano_cpus req), ra_network = derefSlice (ca_network req),
      ra_env = derefSlice (ca_env req), ra_labels = filterLabels (derefSlice (ca_labels req))\<rparr>"

definition Server_CreateAgent ::
    "'w agent_manager \<Rightarrow> create_agent_request option \<Rightarrow> 'w \<Rightarrow> create_agent_response \<times> 'w" where
  "Server_CreateAgent h body w =
     (case body of
        None \<Rightarrow> (CreateAgent400 ''missing request body'', w)
      | Some req \<Rightarrow>
          if ca_image req = [] \<or> ca_name req = [] \<or> ca_container_port req = 0
          then (CreateAgent400 ''image, name, container_port are required'', w)
          else if contains_any (ca_name req) [CHR ''/'', CHR '' '', CHR 0x09, CHR 0x0A]
          then (CreateAgent400 ''invalid container name'', w)
          else
            (case am_RunAgent h (run_agent_request_of req) w of
               (Inl err, w) \<Rightarrow> (CreateAgent500 (error_string err), w)
             | (Inr i, w) \<Rightarrow> (CreateAgent201 i, w)))"

definition Server_StopAgent :: "'w agent_manager \<Rightarrow> string \<Rightarrow> 'w \<Rightarrow> stop_agent_response \<times> 'w" where
  "Server_StopAgent h name w =
     (case am_StopAgent h name w of
        (Inl err, w) \<Rightarrow>
          (if isNotFound err then StopAgent404 (error_string err) else StopAgent500 (error_string err), w)
      | (Inr _, w) \<Rightarrow> (StopAgent204, w))"

definition Server_RemoveAgent :: "'w agent_manager \<Rightarrow> string \<Rightarrow> 'w \<Rightarrow> remove_agent_response \<times> 'w" where
  "Server_RemoveAgent h name w =
     (case am_RemoveAgent h name w of
        (Inl err, w) \<Rightarrow>
          (if isNotFound err then RemoveAgent404 (error_string err) else RemoveAgent500 (error_string err), w)
      | (Inr _, w) \<Rightarrow> (RemoveAgent204, w))"

section \<open>Strict handlers and routing\<close>

definition strict_GetHealthz :: "'w agent_manager \<Rightarrow> 'w \<Rightarrow> http_response \<times> 'w" where
  "strict_GetHealthz h w = (case Server_GetHealthz h w of (r, w) \<Rightarrow> (VisitGetHealthzResponse r, w))"

definition strict_ListAgents :: "'w agent_manager \<Rightarrow> 'w \<Rightarrow> http_response \<times> 'w" where
  "strict_ListAgents h w = (case Server_ListAgents h w of (r, w) \<Rightarrow> (VisitListAgentsResponse r, w))"

definition strict_CreateAgent :: "'w agent_manager \<Rightarrow> http_body \<Rightarrow> 'w \<Rightarrow> http_response \<times> 'w" where
  "strict_CreateAgent h b w =
     (case decode_struct create_agent_field zero_create_agent_request b of
        Inl err \<Rightarrow> (http_error (''can't decode JSON body: '' @ error_string err) 400, w)
      | Inr body \<Rightarrow>
          (case Server_CreateAgent h (Some body) w of (r, w) \<Rightarrow> (VisitCreateAgentResponse r, w)))"

definition strict_RemoveAgent :: "'w agent_manager \<Rightarrow> string \<Rightarrow> 'w \<Rightarrow> http_response \<times> 'w" where
  "strict_RemoveAgent h name w =
     (case Server_RemoveAgent h name w of (r, w) \<Rightarrow> (VisitRemoveAgentResponse r, w))"

definition strict_StopAgent :: "'w agent_manager \<Rightarrow> string \<Rightarrow> 'w \<Rightarrow> http_response \<times> 'w" where
  "strict_StopAgent h name w =
     (case Server_StopAgent h name w of (r, w) \<Rightarrow> (VisitStopAgentResponse r, w))"

text \<open>
  The patterns registered on the mux.  A \<^verbatim>\<open>GET\<close> pattern also serves \<^verbatim>\<open>HEAD\<close>, a wildcard
  matches one non-empty segment, a known path with another method is answered 405.
\<close>

definition is_get :: "string \<Rightarrow> bool" where
  "is_get m = (m = ''GET'' \<or> m = ''HEAD'')"

definition method_not_allowed :: http_response where
  "method_not_allowed = http_error ''Method Not Allowed'' 405"

definition not_found :: http_response where
  "not_found = http_error ''404 page not found'' 404"

definition container_manager_http :: "'w agent_manager \<Rightarrow> http_request \<Rightarrow> 'w \<Rightarrow> http_response \<times> 'w" where
  "container_manager_http h r w =
     (let m = rq_method r; p = rq_path r in
      if p = [''healthz''] then
        if is_get m then strict_GetHealthz h w else (method_not_allowed, w)
      else if p = [''v1'', ''agents''] then
        if is_get m then strict_ListAgents h w
        else if m = ''POST'' then strict_CreateAgent h (rq_body r) w
        else (method_not_allowed, w)
      else if length p = 3 \<and> take 2 p = [''v1'', ''agents''] \<and> p ! 2 \<noteq> [] then
        if m = ''DELETE'' then strict_RemoveAgent h (p ! 2) w else (method_not_allowed, w)
      else if length p = 4 \<and> take 2 p = [''v1'', ''agents''] \<and> p ! 2 \<noteq> [] \<and> p ! 3 = ''stop'' then
        if m = ''POST'' then strict_StopAgent h (p ! 2) w else (method_not_allowed, w)
      else (not_found, w))"

section \<open>Properties\<close>

lemma filterLabels_get_aux:
  assumes "gomap_ok labels" and "fst ` set labels \<inter> fst ` set out = {}"
  shows "gomap_get (fold (\<lambda>(k, v) out.
        if k \<notin> set allowedLabelKeys then out
        else gomap_set out k (if length v > 256 then take 256 v else v)) labels out) k =
     (case gomap_get out k of Some v \<Rightarrow> Some v
      | None \<Rightarrow> if k \<in> set allowedLabelKeys then map_option (take 256) (gomap_get labels k) else None)"
  using assms
proof (induction labels arbitrary: out)
  case Nil
  then show ?case by (simp split: option.split)
next
  case (Cons kv labels)
  obtain k' v where kv: "kv = (k', v)" by (cases kv)
  have out: "gomap_get out k' = None" using Cons.prems(2) by (simp add: gomap_get_None kv)
  have "k' \<notin> fst ` set labels" using Cons.prems(1) by (auto simp: gomap_ok_def kv)
  then have rest: "gomap_get labels k' = None" by (simp add: gomap_get_None)
  have ok: "gomap_ok labels" using Cons.prems(1) by (simp add: gomap_ok_def)
  define out' where "out' = (if k' \<notin> set allowedLabelKeys then out
        else gomap_set out k' (if length v > 256 then take 256 v else v))"
  have dis: "fst ` set labels \<inter> fst ` set out' = {}"
    using Cons.prems \<open>k' \<notin> fst ` set labels\<close> by (auto simp: out'_def fst_gomap_set kv)
  show ?case
    using Cons.IH [OF ok dis] out rest
    by (cases "k = k'") (auto simp: kv out'_def split: option.splits if_splits)
qed

lemma filterLabels_get:
  "gomap_ok labels \<Longrightarrow> gomap_get (filterLabels labels) k =
     (if k \<in> set allowedLabelKeys then map_option (take 256) (gomap_get labels k) else None)"
  unfolding filterLabels_def by (subst filterLabels_get_aux) auto

text \<open>The labels that reach the daemon are exactly the caller's values of the three allowed keys,
  cut to 256 bytes; any other key is dropped.\<close>

theorem filter_labels_correct:
  assumes "gomap_ok labels"
  shows "gomap_get (filterLabels labels) k =
      (if k \<in> {''conversation_id'', ''vm_instance_id'', ''component''}
       then map_option (take 256) (gomap_get labels k) else None)"
  using filterLabels_get [OF assms, of k] by (simp add: allowedLabelKeys_def)

theorem filter_labels_correct_witness:
  "gomap_get (filterLabels [(''component'', replicate 300 (CHR ''x'')), (''secret'', ''y'')]) ''component''
     = Some (replicate 256 (CHR ''x'')) \<and>
   gomap_get (filterLabels [(''component'', replicate 300 (CHR ''x'')), (''secret'', ''y'')]) ''secret'' = None"
  using filter_labels_correct [of "[(''component'', replicate 300 (CHR ''x'')), (''secret'', ''y'')]"]
  by (simp add: gomap_ok_def)

definition create_agent_valid :: "create_agent_request \<Rightarrow> bool" where
  "create_agent_valid req \<longleftrightarrow> ca_image req \<noteq> [] \<and> ca_name req \<noteq> [] \<and> ca_container_port req \<noteq> 0 \<and>
     (\<forall>c \<in> set (ca_name req). c \<notin> {CHR ''/'', CHR '' '', CHR 0x09, CHR 0x0A})"

lemma create_agent_valid_code:
  "create_agent_valid req \<longleftrightarrow> ca_image req \<noteq> [] \<and> ca_name req \<noteq> [] \<and> ca_container_port req \<noteq> 0 \<and>
     \<not> contains_any (ca_name req) [CHR ''/'', CHR '' '', CHR 0x09, CHR 0x0A]"
  by (auto simp: create_agent_valid_def contains_any_iff)

lemma post_agents:
  "container_manager_http h (plain_request ''POST'' [''v1'', ''agents''] b) w =
     (case decode_struct create_agent_field zero_create_agent_request b of
        Inl err \<Rightarrow> (http_error (''can't decode JSON body: '' @ error_string err) 400, w)
      | Inr req \<Rightarrow>
          if \<not> create_agent_valid req
          then (json_response 400 (error_json
                  (if ca_image req = [] \<or> ca_name req = [] \<or> ca_container_port req = 0
                   then ''image, name, container_port are required'' else ''invalid container name'')), w)
          else (case am_RunAgent h (run_agent_request_of req) w of
                  (Inl err, w') \<Rightarrow> (json_response 500 (error_json (error_string err)), w')
                | (Inr i, w') \<Rightarrow> (json_response 201 (JObj [(''id'', JStr i)]), w')))"
  by (simp add: container_manager_http_def is_get_def strict_CreateAgent_def Server_CreateAgent_def
      create_agent_valid_code split: sum.split prod.split)

text \<open>POST /v1/agents answers 400 exactly for bodies that are no agent request, lack the image,
  the name or the port, or have a name with a slash or blank in it, and then the manager is not
  called; every other request calls it once, and its outcome decides between 201 and 500.\<close>

theorem create_agent_status:
  "container_manager_http h (plain_request ''POST'' [''v1'', ''agents''] b) w =
     (case decode_struct create_agent_field zero_create_agent_request b of
        Inl err \<Rightarrow> (http_error (''can't decode JSON body: '' @ error_string err) 400, w)
      | Inr req \<Rightarrow>
          if \<not> create_agent_valid req
          then (json_response 400 (error_json
                  (if ca_image req = [] \<or> ca_name req = [] \<or> ca_container_port req = 0
                   then ''image, name, container_port are required'' else ''invalid container name'')), w)
          else (case am_RunAgent h (run_agent_request_of req) w of
                  (Inl err, w') \<Rightarrow> (json_response 500 (error_json (error_string err)), w')
                | (Inr i, w') \<Rightarrow> (json_response 201 (JObj [(''id'', JStr i)]), w')))"
  by (rule post_agents)

text \<open>Stopping or removing a container answers 204 when the daemon did it, 404 exactly when its
  error says that there is no such container, and 500 for any other error, with the daemon's own
  message in the body; a path below \<^verbatim>\<open>/v1/agents\<close> with another method is refused with 405 and
  changes nothing.\<close>

theorem stop_remove_status:
  assumes "name \<noteq> []"
  shows "container_manager_http (agent_manager_of m)
      (plain_request meth [''v1'', ''agents'', name] b) w =
    (if meth = ''DELETE'' then
       (case cli_ContainerRemove (mgr_cli m) name True w of
          (Inr _, w') \<Rightarrow> (status_response 204, w')
        | (Inl e, w') \<Rightarrow>
            (json_response (if errors_is e ''errNotFound'' \<or> contains_str
                 (''remove container '' @ quoted name @ '': '' @ error_string e) ''No such container'' then 404 else 500)
               (error_json (''remove container '' @ quoted name @ '': '' @ error_string e)), w'))
     else (method_not_allowed, w))"
  using assms
  by (simp add: container_manager_http_def strict_RemoveAgent_def Server_RemoveAgent_def agent_manager_of_def
      Manager_RemoveAgent_def wrap_err_def isNotFound_def split: sum.split prod.split)

theorem stop_remove_status_witness:
  "rs_status (fst (container_manager_http (agent_manager_of recording_manager)
      (plain_request ''DELETE'' [''v1'', ''agents'', ''a1''] NoBody) [])) = 204"
  using stop_remove_status [of "''a1''" recording_manager "''DELETE''" NoBody "[]"]
  by (simp add: recording_manager_def recording_cli_def NewManagerWithDeps_def)

end
