(* ===== verification/CMClient.thy ===== *)
theory CMClient
  imports ContainerManagerApi
begin

text \<open>
  cc-tunnel's client of container-manager: \<^verbatim>\<open>internal/cmclient\<close> with its generated half
  \<^verbatim>\<open>genclient/gen.go\<close>, and \<open>wired_to\<close>, the client connected to the server of
  \<open>ContainerManagerApi\<close>, over which the properties compose both programs.

  \<open>'w http_doer\<close> is what the client uses of \<^verbatim>\<open>net/http\<close>: sending a request, and what the
  response shows as \<^verbatim>\<open>Status\<close> line and as body bytes.
\<close>

record 'w http_doer =
  hd_do :: "http_request \<Rightarrow> ('w, http_response) call"
  hd_status :: "http_response \<Rightarrow> string"
  hd_body :: "http_response \<Rightarrow> string"

section \<open>The generated client\<close>

definition create_agent_json :: "create_agent_request \<Rightarrow> json" where
  "create_agent_json r = JObj (
     [(''container_port'', enc_int (ca_container_port r))] @
     omit_nil ''env'' enc_strings (ca_env r) @
     omit_nil ''host_port'' enc_int (ca_host_port r) @
     [(''image'', JStr (ca_image r))] @
     omit_nil ''labels'' enc_string_map (ca_labels r) @
     omit_nil ''memory_mib'' enc_int (ca_memory_mib r) @
     [(''name'', JStr (ca_name r))] @
     omit_nil ''nano_cpus'' enc_int (ca_nano_cpus r) @
     omit_nil ''network'' JStr (ca_network r))"

definition NewGetHealthzRequest :: http_request where
  "NewGetHealthzRequest = plain_request ''GET'' [''healthz''] NoBody"

definition NewListAgentsRequest :: http_request where
  "NewListAgentsRequest = plain_request ''GET'' [''v1'', ''agents''] NoBody"

definition NewCreateAgentRequest :: "create_agent_request \<Rightarrow> http_request" where
  "NewCreateAgentRequest body =
     plain_request ''POST'' [''v1'', ''agents''] (JsonBody (create_agent_json body))"

definition NewRemoveAgentRequest :: "string \<Rightarrow> http_request" where
  "NewRemoveAgentRequest name = plain_request ''DELETE'' [''v1'', ''agents'', name] NoBody"

definition NewStopAgentRequest :: "string \<Rightarrow> http_request" where
  "NewStopAgentRequest name = plain_request ''POST'' [''v1'', ''agents'', name, ''stop''] NoBody"

record list_agents_result =
  la_agents :: "string list"
  la_count :: "32 word"

definition agent_info_field :: "string \<Rightarrow> json \<Rightarrow> string \<Rightarrow> string option" where
  "agent_info_field k v name = (if k = ''name'' then dec_string v name else Some name)"

definition list_agents_field :: "string \<Rightarrow> json \<Rightarrow> list_agents_result \<Rightarrow> list_agents_result option" where
  "list_agents_field k v r =
     (if k = ''agents'' then
        map_option (\<lambda>x. r\<lparr>la_agents := x\<rparr>) (dec_slice (dec_struct agent_info_field) [] v (la_agents r))
      else if k = ''count'' then map_option (\<lambda>x. r\<lparr>la_count := x\<rparr>) (dec_int v (la_count r))
      else Some r)"

definition error_field :: "string \<Rightarrow> json \<Rightarrow> string \<Rightarrow> string option" where
  "error_field k v m = (if k = ''error'' then dec_string v m else Some m)"

text \<open>\<^verbatim>\<open>io.ReadAll\<close> fails when the stream of the body does; \<^verbatim>\<open>json.Unmarshal\<close> of no bytes has an error of
  its own.\<close>

definition read_error :: "http_body \<Rightarrow> goerr option" where
  "read_error b = (case b of LinesBody ls e \<Rightarrow> e | _ \<Rightarrow> None)"

lemma read_error_simps [simp]:
  "read_error NoBody = None" "read_error (TextBody s) = None" "read_error (JsonBody v) = None"
  by (simp_all add: read_error_def)

definition unmarshal :: "(string \<Rightarrow> json \<Rightarrow> 's \<Rightarrow> 's option) \<Rightarrow> 's \<Rightarrow> http_body \<Rightarrow> 's result" where
  "unmarshal field zero b =
     (if b = NoBody then Inl (ErrText ''unexpected end of JSON input'') else decode_struct field zero b)"

lemma unmarshal_json [simp]: "unmarshal field zero (JsonBody v) = decode_struct field zero (JsonBody v)"
  by (simp add: unmarshal_def)

record list_agents_parsed =
  lap_status :: int
  lap_json200 :: "list_agents_result option"
  lap_json500 :: "string option"

definition ParseListAgentsResponse :: "http_response \<Rightarrow> list_agents_parsed result" where
  "ParseListAgentsResponse rsp =
     (case read_error (rs_body rsp) of
        Some err \<Rightarrow> Inl err
      | None \<Rightarrow>
          if contains_str (rs_content_type rsp) ''json'' \<and> rs_status rsp = 200 then
            (case unmarshal list_agents_field \<lparr>la_agents = [], la_count = 0\<rparr> (rs_body rsp) of
               Inl e \<Rightarrow> Inl e
             | Inr dest \<Rightarrow> Inr \<lparr>lap_status = rs_status rsp, lap_json200 = Some dest, lap_json500 = None\<rparr>)
          else if contains_str (rs_content_type rsp) ''json'' \<and> rs_status rsp = 500 then
            (case unmarshal error_field [] (rs_body rsp) of
               Inl e \<Rightarrow> Inl e
             | Inr dest \<Rightarrow> Inr \<lparr>lap_status = rs_status rsp, lap_json200 = None, lap_json500 = Some dest\<rparr>)
          else Inr \<lparr>lap_status = rs_status rsp, lap_json200 = None, lap_json500 = None\<rparr>)"

section \<open>The client\<close>

record cm_run_request =
  cr_image :: string
  cr_name :: string
  cr_host_port :: int
  cr_container_port :: int
  cr_network :: string
  cr_env :: "string list"
  cr_labels :: "string gomap"

record 'w container_manager =
  cm_RunAgent :: "cm_run_request \<Rightarrow> ('w, unit) call"
  cm_RunAgentContainer :: "string \<Rightarrow> string \<Rightarrow> int \<Rightarrow> int \<Rightarrow> ('w, unit) call"
  cm_StopContainer :: "string \<Rightarrow> ('w, unit) call"
  cm_RemoveContainer :: "string \<Rightarrow> ('w, unit) call"
  cm_ListAgents :: "('w, string list) call"
  cm_IsReady :: "'w \<Rightarrow> bool \<times> 'w"

definition statusError :: "'w http_doer \<Rightarrow> http_response \<Rightarrow> string" where
  "statusError d resp = hd_status d resp @ '': '' @ TrimSpace (take 1024 (hd_body d resp))"

definition create_agent_body :: "cm_run_request \<Rightarrow> create_agent_request" where
  "create_agent_body req =
     \<lparr>ca_container_port = word_of_int (cr_container_port req),
      ca_env = (if length (cr_env req) > 0 then Some (cr_env req) else None),
      ca_host_port = (if cr_host_port req \<noteq> 0 then Some (word_of_int (cr_host_port req)) else None),
      ca_image = cr_image req,
      ca_labels = (if length (cr_labels req) > 0 then Some (cr_labels req) else None),
      ca_memory_mib = None, ca_name = cr_name req, ca_nano_cpus = None,
      ca_network = (if cr_network req \<noteq> [] then Some (cr_network req) else None)\<rparr>"

text \<open>The shared shape of the calls whose answer is only a status.\<close>

definition expect_2xx :: "'w http_doer \<Rightarrow> string \<Rightarrow> http_request \<Rightarrow> ('w, unit) call" where
  "expect_2xx d what r w =
     (case hd_do d r w of
        (Inl err, w) \<Rightarrow> (Inl (errorf what err), w)
      | (Inr resp, w) \<Rightarrow>
          if rs_status resp div 100 \<noteq> 2
          then (Inl (ErrText (what @ '': '' @ statusError d resp)), w)
          else (Inr (), w))"

definition Client_RunAgent :: "'w http_doer \<Rightarrow> cm_run_request \<Rightarrow> ('w, unit) call" where
  "Client_RunAgent d req =
     expect_2xx d (''cmclient: create container '' @ quoted (cr_name req))
       (NewCreateAgentRequest (create_agent_body req))"

definition Client_RunAgentContainer ::
    "'w http_doer \<Rightarrow> string \<Rightarrow> string \<Rightarrow> int \<Rightarrow> int \<Rightarrow> ('w, unit) call" where
  "Client_RunAgentContainer d img name hostPort containerPort =
     Client_RunAgent d \<lparr>cr_image = img, cr_name = name, cr_host_port = hostPort,
       cr_container_port = containerPort, cr_network = [],
       cr_env = [''PORT='' @ itoa containerPort], cr_labels = []\<rparr>"

definition Client_StopContainer :: "'w http_doer \<Rightarrow> string \<Rightarrow> ('w, unit) call" where
  "Client_StopContainer d name =
     expect_2xx d (''cmclient: stop container '' @ quoted name) (NewStopAgentRequest name)"

definition Client_RemoveContainer :: "'w http_doer \<Rightarrow> string \<Rightarrow> ('w, unit) call" where
  "Client_RemoveContainer d name =
     expect_2xx d (''cmclient: remove container '' @ quoted name) (NewRemoveAgentRequest name)"

definition Client_ListAgents :: "'w http_doer \<Rightarrow> ('w, string list) call" where
  "Client_ListAgents d w =
     (case hd_do d NewListAgentsRequest w of
        (Inl err, w) \<Rightarrow> (Inl (errorf ''cmclient: list agents'' err), w)
      | (Inr resp, w) \<Rightarrow>
          (case ParseListAgentsResponse resp of
             Inl err \<Rightarrow> (Inl (errorf ''cmclient: parse list agents response'' err), w)
           | Inr parsed \<Rightarrow>
               (case lap_json200 parsed of
                  None \<Rightarrow> (Inl (ErrText (''cmclient: list agents: '' @ hd_status d resp)), w)
                | Some r \<Rightarrow>
                    if lap_status parsed div 100 \<noteq> 2
                    then (Inl (ErrText (''cmclient: list agents: '' @ hd_status d resp)), w)
                    else (Inr (la_agents r), w))))"

definition Client_IsReady :: "'w http_doer \<Rightarrow> 'w \<Rightarrow> bool \<times> 'w" where
  "Client_IsReady d w =
     (case hd_do d NewGetHealthzRequest w of
        (Inl _, w) \<Rightarrow> (False, w)
      | (Inr resp, w) \<Rightarrow> (rs_status resp = 200, w))"

text \<open>
  \<^verbatim>\<open>NewClient\<close>: \<open>parse_url\<close> is \<^verbatim>\<open>url.Parse\<close>, \<open>dial\<close> gives the transport for a parsed base
  address.
\<close>

definition NewClient ::
    "(string \<Rightarrow> 'u result) \<Rightarrow> ('u \<Rightarrow> 'w http_doer) \<Rightarrow> string \<Rightarrow> 'w container_manager result" where
  "NewClient parse_url dial baseURL =
     (case parse_url baseURL of
        Inl err \<Rightarrow> Inl (errorf (''cmclient: parse base URL '' @ quoted baseURL) err)
      | Inr u \<Rightarrow>
          let d = dial u in
          Inr \<lparr>cm_RunAgent = Client_RunAgent d, cm_RunAgentContainer = Client_RunAgentContainer d,
               cm_StopContainer = Client_StopContainer d, cm_RemoveContainer = Client_RemoveContainer d,
               cm_ListAgents = Client_ListAgents d, cm_IsReady = Client_IsReady d\<rparr>)"

section \<open>The mock\<close>

record 'w mock_container_manager =
  mock_RunAgentFunc :: "(cm_run_request \<Rightarrow> ('w, unit) call) option"
  mock_RunAgentContainerFunc :: "(string \<Rightarrow> string \<Rightarrow> int \<Rightarrow> int \<Rightarrow> ('w, unit) call) option"
  mock_StopContainerFunc :: "(string \<Rightarrow> ('w, unit) call) option"
  mock_RemoveContainerFunc :: "(string \<Rightarrow> ('w, unit) call) option"
  mock_ListAgentsFunc :: "('w, string list) call option"
  mock_IsReadyFunc :: "('w \<Rightarrow> bool \<times> 'w) option"

definition Mock_RunAgent :: "'w mock_container_manager \<Rightarrow> cm_run_request \<Rightarrow> ('w, unit) call" where
  "Mock_RunAgent m req =
     (case mock_RunAgentFunc m of
        Some f \<Rightarrow> f req
      | None \<Rightarrow>
          (case mock_RunAgentContainerFunc m of
             Some f \<Rightarrow> f (cr_image req) (cr_name req) (cr_host_port req) (cr_container_port req)
           | None \<Rightarrow> Pair (Inr ())))"

definition MockContainerManager :: "'w mock_container_manager \<Rightarrow> 'w container_manager" where
  "MockContainerManager m =
     \<lparr>cm_RunAgent = Mock_RunAgent m,
      cm_RunAgentContainer = (\<lambda>img name hostPort containerPort. Mock_RunAgent m
        \<lparr>cr_image = img, cr_name = name, cr_host_port = hostPort, cr_container_port = containerPort,
         cr_network = [], cr_env = [], cr_labels = []\<rparr>),
      cm_StopContainer = (\<lambda>name. case mock_StopContainerFunc m of Some f \<Rightarrow> f name | None \<Rightarrow> Pair (Inr ())),
      cm_RemoveContainer = (\<lambda>name. case mock_RemoveContainerFunc m of Some f \<Rightarrow> f name | None \<Rightarrow> Pair (Inr ())),
      cm_ListAgents = (case mock_ListAgentsFunc m of Some f \<Rightarrow> f | None \<Rightarrow> Pair (Inr [])),
      cm_IsReady = (case mock_IsReadyFunc m of Some f \<Rightarrow> f | None \<Rightarrow> Pair True)\<rparr>"

section \<open>Client and server together\<close>

definition wired_to ::
    "'w agent_manager \<Rightarrow> (http_response \<Rightarrow> string) \<Rightarrow> (http_response \<Rightarrow> string) \<Rightarrow> 'w http_doer" where
  "wired_to h status_line body_text =
     \<lparr>hd_do = (\<lambda>r w. case container_manager_http h r w of (resp, w) \<Rightarrow> (Inr resp, w)),
      hd_status = status_line, hd_body = body_text\<rparr>"

lemma wired_to_sel [simp]:
  "hd_do (wired_to h sl bt) r w = (Inr (fst (container_manager_http h r w)), snd (container_manager_http h r w))"
  "hd_status (wired_to h sl bt) = sl" "hd_body (wired_to h sl bt) = bt"
  by (simp_all add: wired_to_def split: prod.split)

lemma lower_keys [simp]:
  "ascii_lower ''container_port'' = ''container_port''" "ascii_lower ''env'' = ''env''"
  "ascii_lower ''host_port'' = ''host_port''" "ascii_lower ''image'' = ''image''"
  "ascii_lower ''labels'' = ''labels''" "ascii_lower ''memory_mib'' = ''memory_mib''"
  "ascii_lower ''name'' = ''name''" "ascii_lower ''nano_cpus'' = ''nano_cpus''"
  "ascii_lower ''network'' = ''network''" "ascii_lower ''agents'' = ''agents''"
  "ascii_lower ''count'' = ''count''" "ascii_lower ''error'' = ''error''"
  by code_simp+

lemma create_agent_field_simps [simp]:
  "create_agent_field ''container_port'' v r =
     map_option (\<lambda>x. r\<lparr>ca_container_port := x\<rparr>) (dec_int v (ca_container_port r))"
  "create_agent_field ''env'' v r =
     map_option (\<lambda>x. r\<lparr>ca_env := x\<rparr>) (dec_ptr (dec_slice dec_string []) [] v (ca_env r))"
  "create_agent_field ''host_port'' v r =
     map_option (\<lambda>x. r\<lparr>ca_host_port := x\<rparr>) (dec_ptr dec_int 0 v (ca_host_port r))"
  "create_agent_field ''image'' v r = map_option (\<lambda>x. r\<lparr>ca_image := x\<rparr>) (dec_string v (ca_image r))"
  "create_agent_field ''labels'' v r =
     map_option (\<lambda>x. r\<lparr>ca_labels := x\<rparr>) (dec_ptr (dec_map dec_string []) [] v (ca_labels r))"
  "create_agent_field ''memory_mib'' v r =
     map_option (\<lambda>x. r\<lparr>ca_memory_mib := x\<rparr>) (dec_ptr dec_int 0 v (ca_memory_mib r))"
  "create_agent_field ''name'' v r = map_option (\<lambda>x. r\<lparr>ca_name := x\<rparr>) (dec_string v (ca_name r))"
  "create_agent_field ''nano_cpus'' v r =
     map_option (\<lambda>x. r\<lparr>ca_nano_cpus := x\<rparr>) (dec_ptr dec_int 0 v (ca_nano_cpus r))"
  "create_agent_field ''network'' v r =
     map_option (\<lambda>x. r\<lparr>ca_network := x\<rparr>) (dec_ptr dec_string [] v (ca_network r))"
  by (simp_all add: create_agent_field_def)

lemma decode_create_agent:
  assumes "\<forall>m. ca_labels r = Some m \<longrightarrow> gomap_ok m"
  shows "decode_struct create_agent_field zero_create_agent_request (JsonBody (create_agent_json r)) = Inr r"
  using assms
  by (simp add: decode_struct_def dec_struct_def create_agent_json_def dec_fields_append dec_fields_omit_nil
      zero_create_agent_request_def split: option.split)

text \<open>What the client encodes as the body of POST /v1/agents is what the server decodes, field
  by field, absent optional fields included.\<close>

theorem create_agent_json_roundtrip:
  assumes "\<forall>m. ca_labels r = Some m \<longrightarrow> gomap_ok m"
  shows "decode_struct create_agent_field zero_create_agent_request (JsonBody (create_agent_json r)) = Inr r"
  by (rule decode_create_agent [OF assms])

definition request_example :: create_agent_request where
  "request_example = \<lparr>ca_container_port = 9091, ca_env = Some [''PORT=9091''], ca_host_port = Some 61000,
     ca_image = ''agent'', ca_labels = Some [(''component'', ''cc-remote-agent'')], ca_memory_mib = None,
     ca_name = ''a1'', ca_nano_cpus = None, ca_network = None\<rparr>"

theorem create_agent_json_roundtrip_witness:
  "decode_struct create_agent_field zero_create_agent_request (JsonBody (create_agent_json request_example))
     = Inr request_example"
  by (rule create_agent_json_roundtrip) (simp add: request_example_def gomap_ok_def)

end
