(* ===== verification/CMClient_Props.thy ===== *)
theory CMClient_Props
  imports CMClient
begin

text \<open>
  cc-tunnel's client and container-manager's server as one system: what a call of the client does
  to the manager behind the server.
\<close>

lemma sint32_word_of_int: "- (2 ^ 31) \<le> x \<Longrightarrow> x < 2 ^ 31 \<Longrightarrow> sint (word_of_int x :: 32 word) = x"
  by (simp add: signed_of_int signed_take_bit_int_eq_self)

lemma word32_of_int_nonzero: "0 < x \<Longrightarrow> x < 2 ^ 31 \<Longrightarrow> (word_of_int x :: 32 word) \<noteq> 0"
  using sint32_word_of_int [of x] by fastforce

lemma server_create_agent:
  assumes "\<forall>m. ca_labels b = Some m \<longrightarrow> gomap_ok m" and "create_agent_valid b"
  shows "container_manager_http h (NewCreateAgentRequest b) w =
    (case am_RunAgent h (run_agent_request_of b) w of
       (Inl err, w') \<Rightarrow> (json_response 500 (error_json (error_string err)), w')
     | (Inr i, w') \<Rightarrow> (json_response 201 (JObj [(''id'', JStr i)]), w'))"
  using assms by (simp add: NewCreateAgentRequest_def post_agents decode_create_agent)

lemma filterLabels_Nil [simp]: "filterLabels [] = []"
  by (simp add: filterLabels_def)

definition cm_request_valid :: "cm_run_request \<Rightarrow> bool" where
  "cm_request_valid req \<longleftrightarrow> cr_image req \<noteq> [] \<and> cr_name req \<noteq> [] \<and>
     (\<forall>c \<in> set (cr_name req). c \<notin> {CHR ''/'', CHR '' '', CHR 0x09, CHR 0x0A}) \<and>
     0 < cr_container_port req \<and> cr_container_port req < 2 ^ 31 \<and>
     0 \<le> cr_host_port req \<and> cr_host_port req < 2 ^ 31 \<and> gomap_ok (cr_labels req)"

lemma create_agent_body_ok:
  assumes "cm_request_valid req"
  shows "create_agent_valid (create_agent_body req)"
    and "\<forall>m. ca_labels (create_agent_body req) = Some m \<longrightarrow> gomap_ok m"
    and "run_agent_request_of (create_agent_body req) =
      \<lparr>ra_image = cr_image req, ra_name = cr_name req, ra_host_port = cr_host_port req,
       ra_container_port = cr_container_port req, ra_memory_bytes = 0, ra_nano_cpus = 0,
       ra_network = cr_network req, ra_env = cr_env req, ra_labels = filterLabels (cr_labels req)\<rparr>"
  using assms
  by (auto simp: cm_request_valid_def create_agent_body_def create_agent_valid_def run_agent_request_of_def
      deref_def derefSlice_def sint32_word_of_int word32_of_int_nonzero)

text \<open>Through the client, the wire and the server, a request to run an agent reaches the manager
  with the same image, name, ports, network and environment, with the allowed labels and without
  limits of its own; the client reports success exactly when the manager started the container.\<close>

lemma run_agent_end_to_end:
  assumes "cm_request_valid req"
  shows "Client_RunAgent (wired_to h sl bt) req w =
    (case am_RunAgent h
        \<lparr>ra_image = cr_image req, ra_name = cr_name req, ra_host_port = cr_host_port req,
         ra_container_port = cr_container_port req, ra_memory_bytes = 0, ra_nano_cpus = 0,
         ra_network = cr_network req, ra_env = cr_env req, ra_labels = filterLabels (cr_labels req)\<rparr> w of
       (Inr i, w') \<Rightarrow> (Inr (), w')
     | (Inl err, w') \<Rightarrow>
         (let resp = json_response 500 (error_json (error_string err)) in
          (Inl (ErrText (''cmclient: create container '' @ quoted (cr_name req) @ '': '' @ sl resp @ '': '' @
             TrimSpace (take 1024 (bt resp)))), w')))"
  using server_create_agent [OF create_agent_body_ok(2) [OF assms] create_agent_body_ok(1) [OF assms], of h w]
  by (simp add: Client_RunAgent_def expect_2xx_def statusError_def create_agent_body_ok(3) [OF assms] Let_def
      split: sum.splits prod.splits)

definition cm_request_example :: cm_run_request where
  "cm_request_example = \<lparr>cr_image = ''agent'', cr_name = ''a1'', cr_host_port = 61000,
     cr_container_port = 9091, cr_network = [], cr_env = [''PORT=9091''],
     cr_labels = [(''component'', ''cc-remote-agent'')]\<rparr>"

lemma run_agent_end_to_end_witness:
  "fst (Client_RunAgent (wired_to (agent_manager_of recording_manager) (\<lambda>r. ''500'') (\<lambda>r. [])) cm_request_example [])
     = Inr ()"
  using run_agent_end_to_end [of cm_request_example "agent_manager_of recording_manager" "\<lambda>r. ''500''" "\<lambda>r. []" "[]"]
  by (simp add: cm_request_valid_def cm_request_example_def gomap_ok_def agent_manager_of_def
      Manager_RunAgent_def ensureImage_def pullImage_def recording_manager_def recording_cli_def
      NewManagerWithDeps_def needsGoogleAuth_def registryHost_def has_suffix_def)

text \<open>The client's list of agents is the manager's, name by name and in order, and a failure of
  the daemon reaches the caller as an error, never as an empty list.\<close>

theorem list_agents_end_to_end:
  "Client_ListAgents (wired_to h sl bt) w =
    (case am_ListAgents h w of
       (Inr names, w') \<Rightarrow> (Inr names, w')
     | (Inl err, w') \<Rightarrow>
         (Inl (ErrText (''cmclient: list agents: '' @ sl (json_response 500 (error_json (error_string err))))), w'))"
proof -
  have names: "dec_slice (dec_struct agent_info_field) [] (JArr (map agent_info_json ns)) [] = Some ns" for ns
    by (rule dec_slice_map) (simp add: dec_struct_def agent_info_json_def agent_info_field_def)
  show ?thesis
    by (simp add: Client_ListAgents_def NewListAgentsRequest_def container_manager_http_def
        is_get_def strict_ListAgents_def Server_ListAgents_def ParseListAgentsResponse_def has_prefix_def decode_struct_def
        dec_struct_def list_agents_field_def error_json_def error_field_def names
        split: sum.split prod.split)
qed

end
