(* ===== verification/GceClient.thy ===== *)
theory GceClient
  imports Prelude
begin

text \<open>
  \<^verbatim>\<open>internal/gce\<close>: the interface cc-tunnel has to Compute Engine, its implementation on the
  Compute API and its in-memory mock.  The API client is outside the code: \<open>'w gce_sdk\<close> has one
  function per call; optional protobuf fields are options.  \<^verbatim>\<open>List\<close> gives the answers its iterator
  yields before \<^verbatim>\<open>iterator.Done\<close>.
\<close>

record create_instance_request =
  gr_Project :: string
  gr_Zone :: string
  gr_Name :: string
  gr_MachineType :: string
  gr_SourceImage :: string
  gr_StartupScript :: string
  gr_Labels :: "string gomap"
  gr_Tags :: "string list"
  gr_ServiceAccountEmail :: string
  gr_Subnetwork :: string

record gce_instance =
  gi_Name :: string
  gi_Status :: string
  gi_NetworkIP :: string
  gi_Labels :: "string gomap"

record 'w gce_client =
  gce_CreateInstance :: "create_instance_request \<Rightarrow> ('w, gce_instance) call"
  gce_GetInstance :: "string \<Rightarrow> string \<Rightarrow> string \<Rightarrow> ('w, gce_instance) call"
  gce_DeleteInstance :: "string \<Rightarrow> string \<Rightarrow> string \<Rightarrow> ('w, unit) call"
  gce_ListInstances :: "string \<Rightarrow> string \<Rightarrow> ('w, gce_instance list) call"

section \<open>The Compute API\<close>

record pb_network_interface =
  ni_Network :: "string option"
  ni_Subnetwork :: "string option"
  ni_NetworkIP :: "string option"
  ni_AccessConfigs :: "(string \<times> string) list"

record pb_instance =
  pb_Name :: "string option"
  pb_Status :: "string option"
  pb_Labels :: "string gomap"
  pb_MachineType :: string
  pb_Tags :: "string list option"
  pb_ServiceAccounts :: "(string \<times> string list) list"
  pb_SourceImage :: string
  pb_NetworkInterfaces :: "pb_network_interface list"
  pb_Metadata :: "(string \<times> string) list"

record 'w gce_sdk =
  sdk_Insert :: "string \<Rightarrow> string \<Rightarrow> pb_instance \<Rightarrow> ('w, nat) call"
  sdk_Get :: "string \<Rightarrow> string \<Rightarrow> string \<Rightarrow> ('w, pb_instance) call"
  sdk_Delete :: "string \<Rightarrow> string \<Rightarrow> string \<Rightarrow> ('w, nat) call"
  sdk_Wait :: "nat \<Rightarrow> ('w, unit) call"
  sdk_List :: "string \<Rightarrow> string \<Rightarrow> 'w \<Rightarrow> pb_instance result list \<times> 'w"

definition networkInterface :: "string \<Rightarrow> pb_network_interface" where
  "networkInterface subnetwork =
     (let accessConfigs = [(''External NAT'', ''ONE_TO_ONE_NAT'')] in
      if subnetwork \<noteq> []
      then \<lparr>ni_Network = None, ni_Subnetwork = Some subnetwork, ni_NetworkIP = None,
            ni_AccessConfigs = accessConfigs\<rparr>
      else \<lparr>ni_Network = Some ''global/networks/default'', ni_Subnetwork = None, ni_NetworkIP = None,
            ni_AccessConfigs = accessConfigs\<rparr>)"

definition toInstance :: "pb_instance \<Rightarrow> gce_instance" where
  "toInstance inst =
     \<lparr>gi_Name = (case pb_Name inst of Some n \<Rightarrow> n | None \<Rightarrow> []),
      gi_Status = (case pb_Status inst of Some s \<Rightarrow> s | None \<Rightarrow> []),
      gi_NetworkIP =
        (case pb_NetworkInterfaces inst of
           [] \<Rightarrow> []
         | ni # _ \<Rightarrow> (case ni_NetworkIP ni of Some ip \<Rightarrow> ip | None \<Rightarrow> [])),
      gi_Labels = pb_Labels inst\<rparr>"

definition insert_resource :: "create_instance_request \<Rightarrow> pb_instance" where
  "insert_resource req =
     \<lparr>pb_Name = Some (gr_Name req), pb_Status = None,
      pb_Labels = (if length (gr_Labels req) > 0 then gr_Labels req else []),
      pb_MachineType = ''zones/'' @ gr_Zone req @ ''/machineTypes/'' @ gr_MachineType req,
      pb_Tags = (if length (gr_Tags req) > 0 then Some (gr_Tags req) else None),
      pb_ServiceAccounts =
        (if gr_ServiceAccountEmail req \<noteq> []
         then [(gr_ServiceAccountEmail req, [''https://www.googleapis.com/auth/cloud-platform''])] else []),
      pb_SourceImage = gr_SourceImage req,
      pb_NetworkInterfaces = [networkInterface (gr_Subnetwork req)],
      pb_Metadata = [(''startup-script'', gr_StartupScript req)]\<rparr>"

definition SDK_GetInstance :: "'w gce_sdk \<Rightarrow> string \<Rightarrow> string \<Rightarrow> string \<Rightarrow> ('w, gce_instance) call" where
  "SDK_GetInstance c project zone name w =
     (case sdk_Get c project zone name w of
        (Inl err, w) \<Rightarrow> (Inl (errorf (''get instance '' @ quoted name) err), w)
      | (Inr inst, w) \<Rightarrow> (Inr (toInstance inst), w))"

definition SDK_CreateInstance :: "'w gce_sdk \<Rightarrow> create_instance_request \<Rightarrow> ('w, gce_instance) call" where
  "SDK_CreateInstance c req w =
     (if gr_SourceImage req = [] then (Inl (ErrText ''CreateInstance: SourceImage is required''), w)
      else
        (case sdk_Insert c (gr_Project req) (gr_Zone req) (insert_resource req) w of
           (Inl err, w) \<Rightarrow> (Inl (errorf ''insert instance'' err), w)
         | (Inr opr, w) \<Rightarrow>
             (case sdk_Wait c opr w of
                (Inl err, w) \<Rightarrow> (Inl (errorf ''wait insert instance'' err), w)
              | (Inr _, w) \<Rightarrow> SDK_GetInstance c (gr_Project req) (gr_Zone req) (gr_Name req) w)))"

definition SDK_DeleteInstance :: "'w gce_sdk \<Rightarrow> string \<Rightarrow> string \<Rightarrow> string \<Rightarrow> ('w, unit) call" where
  "SDK_DeleteInstance c project zone name w =
     (case sdk_Delete c project zone name w of
        (Inl err, w) \<Rightarrow> (Inl (errorf (''delete instance '' @ quoted name) err), w)
      | (Inr opr, w) \<Rightarrow>
          (case sdk_Wait c opr w of
             (Inl err, w) \<Rightarrow> (Inl (errorf (''wait delete instance '' @ quoted name) err), w)
           | (Inr _, w) \<Rightarrow> (Inr (), w)))"

fun collect_instances :: "pb_instance result list \<Rightarrow> gce_instance list \<Rightarrow> gce_instance list result" where
  "collect_instances [] acc = Inr acc"
| "collect_instances (Inl err # rs) acc = Inl (errorf ''list instances'' err)"
| "collect_instances (Inr inst # rs) acc = collect_instances rs (acc @ [toInstance inst])"

definition SDK_ListInstances :: "'w gce_sdk \<Rightarrow> string \<Rightarrow> string \<Rightarrow> ('w, gce_instance list) call" where
  "SDK_ListInstances c project zone w =
     (case sdk_List c project zone w of (rs, w) \<Rightarrow> (collect_instances rs [], w))"

definition SDKGCEClient :: "'w gce_sdk \<Rightarrow> 'w gce_client" where
  "SDKGCEClient c =
     \<lparr>gce_CreateInstance = SDK_CreateInstance c, gce_GetInstance = SDK_GetInstance c,
      gce_DeleteInstance = SDK_DeleteInstance c, gce_ListInstances = SDK_ListInstances c\<rparr>"

section \<open>The mock\<close>

type_synonym mock_gce = "gce_instance gomap"

definition Mock_CreateInstance :: "create_instance_request \<Rightarrow> (mock_gce, gce_instance) call" where
  "Mock_CreateInstance req m =
     (let inst = \<lparr>gi_Name = gr_Name req, gi_Status = ''RUNNING'', gi_NetworkIP = ''10.0.0.1'',
                  gi_Labels = gr_Labels req\<rparr>
      in (Inr inst, gomap_set m (gr_Name req) inst))"

definition Mock_GetInstance :: "string \<Rightarrow> string \<Rightarrow> string \<Rightarrow> (mock_gce, gce_instance) call" where
  "Mock_GetInstance project zone name m =
     (case gomap_get m name of
        None \<Rightarrow> (Inl (ErrText (''instance '' @ quoted name @ '' not found'')), m)
      | Some inst \<Rightarrow> (Inr inst, m))"

definition Mock_DeleteInstance :: "string \<Rightarrow> string \<Rightarrow> string \<Rightarrow> (mock_gce, unit) call" where
  "Mock_DeleteInstance project zone name m =
     (case gomap_get m name of
        None \<Rightarrow> (Inl (ErrText (''instance '' @ quoted name @ '' not found'')), m)
      | Some inst \<Rightarrow> (Inr (), gomap_delete m name))"

definition Mock_ListInstances :: "string \<Rightarrow> string \<Rightarrow> (mock_gce, gce_instance list) call" where
  "Mock_ListInstances project zone m = (Inr (map snd m), m)"

definition MockGCEClient :: "mock_gce gce_client" where
  "MockGCEClient =
     \<lparr>gce_CreateInstance = Mock_CreateInstance, gce_GetInstance = Mock_GetInstance,
      gce_DeleteInstance = Mock_DeleteInstance, gce_ListInstances = Mock_ListInstances\<rparr>"

lemma collect_instances_Inr:
  "collect_instances rs acc = Inr xs \<Longrightarrow> \<exists>insts. rs = map Inr insts \<and> xs = acc @ map toInstance insts"
proof (induction rs acc rule: collect_instances.induct)
  case (1 acc)
  then show ?case by simp
next
  case (2 err rs acc)
  then show ?case by simp
next
  case (3 inst rs acc)
  then obtain insts where "rs = map Inr insts" "xs = (acc @ [toInstance inst]) @ map toInstance insts" by auto
  then show ?case by (intro exI [of _ "inst # insts"]) simp
qed

end
