(* ===== verification/RemoteClient.thy ===== *)
theory RemoteClient
  imports Http
begin

text \<open>
  \<^verbatim>\<open>internal/remoteclient/client.go\<close>: cc-tunnel's client of cc-remote-agent and the types of
  their protocol.

  \<open>'w agent_net\<close> is what the client uses of \<^verbatim>\<open>net/http\<close>: building a request for a base address
  (which fails for a malformed one), sending it, the bytes of a response body and its split into
  lines.  A \<^verbatim>\<open>json.RawMessage\<close> field is \<open>None\<close> when the member is absent; \<^verbatim>\<open>any\<close> is \<open>json\<close>.
\<close>

record 'w agent_net =
  an_url_error :: "string \<Rightarrow> goerr option"
  an_do :: "string \<Rightarrow> http_request \<Rightarrow> ('w, http_response) call"
  an_text :: "http_response \<Rightarrow> string"
  an_lines :: "http_response \<Rightarrow> (nat \<times> json option) list \<times> goerr option"

section \<open>Types\<close>

record auth_status =
  as_loggedIn :: bool
  as_authMethod :: string
  as_loginPending :: bool
  as_apiProvider :: "string option"
  as_email :: "string option"
  as_orgName :: "string option"
  as_subscriptionType :: "string option"
  as_apiKeySource :: "string option"
  as_loginUrl :: "string option"

record login_response =
  lr_message :: string
  lr_loginUrl :: "string option"
  lr_loggedIn :: "bool option"

record chat_message =
  cm_role :: string
  cm_content :: string

record exec_request =
  er_Prompt :: string
  er_SessionID :: string
  er_ConversationID :: string
  er_Model :: string
  er_SystemPrompt :: string
  er_ConversationHistory :: "chat_message list"
  er_IncludePartialMessages :: bool
  er_IncludeHookEvents :: bool
  er_Credentials :: string

record content_block =
  cb_Type :: string
  cb_Text :: string
  cb_Thinking :: string
  cb_ID :: string
  cb_Name :: string
  cb_ToolUseID :: string
  cb_Content :: json

record rate_limit_info =
  rl_Status :: string
  rl_ResetsAt :: "64 word"
  rl_Type :: string

record stream_event =
  se_Type :: string
  se_SubType :: string
  se_SessionID :: string
  se_Message :: "content_block list option"
  se_Event :: "json option"
  se_RateLimitInfo :: "rate_limit_info option"
  se_Result :: string
  se_IsError :: bool
  se_CostUSD :: rat
  se_DurationMs :: "64 word"
  se_Model :: string
  se_HookID :: string
  se_HookName :: string
  se_HookEvent :: string

record inner_event =
  ie_Type :: string
  ie_Index :: "64 word"
  ie_Delta :: "json option"
  ie_ContentBlock :: "json option"

text \<open>Zero values.\<close>

definition zero_auth_status :: auth_status where
  "zero_auth_status = \<lparr>as_loggedIn = False, as_authMethod = [], as_loginPending = False,
     as_apiProvider = None, as_email = None, as_orgName = None, as_subscriptionType = None,
     as_apiKeySource = None, as_loginUrl = None\<rparr>"

definition zero_content_block :: content_block where
  "zero_content_block = \<lparr>cb_Type = [], cb_Text = [], cb_Thinking = [], cb_ID = [], cb_Name = [],
     cb_ToolUseID = [], cb_Content = JNull\<rparr>"

definition zero_stream_event :: stream_event where
  "zero_stream_event = \<lparr>se_Type = [], se_SubType = [], se_SessionID = [], se_Message = None,
     se_Event = None, se_RateLimitInfo = None, se_Result = [], se_IsError = False, se_CostUSD = 0,
     se_DurationMs = 0, se_Model = [], se_HookID = [], se_HookName = [], se_HookEvent = []\<rparr>"

definition zero_inner_event :: inner_event where
  "zero_inner_event = \<lparr>ie_Type = [], ie_Index = 0, ie_Delta = None, ie_ContentBlock = None\<rparr>"

section \<open>Decoding\<close>

definition auth_status_field :: "string \<Rightarrow> json \<Rightarrow> auth_status \<Rightarrow> auth_status option" where
  "auth_status_field k v s =
     (if k = ''loggedin'' then map_option (\<lambda>x. s\<lparr>as_loggedIn := x\<rparr>) (dec_bool v (as_loggedIn s))
      else if k = ''authmethod'' then map_option (\<lambda>x. s\<lparr>as_authMethod := x\<rparr>) (dec_string v (as_authMethod s))
      else if k = ''loginpending'' then map_option (\<lambda>x. s\<lparr>as_loginPending := x\<rparr>) (dec_bool v (as_loginPending s))
      else if k = ''apiprovider'' then map_option (\<lambda>x. s\<lparr>as_apiProvider := x\<rparr>) (dec_ptr dec_string [] v (as_apiProvider s))
      else if k = ''email'' then map_option (\<lambda>x. s\<lparr>as_email := x\<rparr>) (dec_ptr dec_string [] v (as_email s))
      else if k = ''orgname'' then map_option (\<lambda>x. s\<lparr>as_orgName := x\<rparr>) (dec_ptr dec_string [] v (as_orgName s))
      else if k = ''subscriptiontype'' then map_option (\<lambda>x. s\<lparr>as_subscriptionType := x\<rparr>) (dec_ptr dec_string [] v (as_subscriptionType s))
      else if k = ''apikeysource'' then map_option (\<lambda>x. s\<lparr>as_apiKeySource := x\<rparr>) (dec_ptr dec_string [] v (as_apiKeySource s))
      else if k = ''loginurl'' then map_option (\<lambda>x. s\<lparr>as_loginUrl := x\<rparr>) (dec_ptr dec_string [] v (as_loginUrl s))
      else Some s)"

definition login_response_field :: "string \<Rightarrow> json \<Rightarrow> login_response \<Rightarrow> login_response option" where
  "login_response_field k v r =
     (if k = ''message'' then map_option (\<lambda>x. r\<lparr>lr_message := x\<rparr>) (dec_string v (lr_message r))
      else if k = ''loginurl'' then map_option (\<lambda>x. r\<lparr>lr_loginUrl := x\<rparr>) (dec_ptr dec_string [] v (lr_loginUrl r))
      else if k = ''loggedin'' then map_option (\<lambda>x. r\<lparr>lr_loggedIn := x\<rparr>) (dec_ptr dec_bool False v (lr_loggedIn r))
      else Some r)"

definition dec_any :: "json \<Rightarrow> json \<Rightarrow> json option" where
  "dec_any v old = Some v"

definition dec_raw :: "json \<Rightarrow> json option \<Rightarrow> json option option" where
  "dec_raw v old = Some (Some v)"

definition content_block_field :: "string \<Rightarrow> json \<Rightarrow> content_block \<Rightarrow> content_block option" where
  "content_block_field k v b =
     (if k = ''type'' then map_option (\<lambda>x. b\<lparr>cb_Type := x\<rparr>) (dec_string v (cb_Type b))
      else if k = ''text'' then map_option (\<lambda>x. b\<lparr>cb_Text := x\<rparr>) (dec_string v (cb_Text b))
      else if k = ''thinking'' then map_option (\<lambda>x. b\<lparr>cb_Thinking := x\<rparr>) (dec_string v (cb_Thinking b))
      else if k = ''id'' then map_option (\<lambda>x. b\<lparr>cb_ID := x\<rparr>) (dec_string v (cb_ID b))
      else if k = ''name'' then map_option (\<lambda>x. b\<lparr>cb_Name := x\<rparr>) (dec_string v (cb_Name b))
      else if k = ''tool_use_id'' then map_option (\<lambda>x. b\<lparr>cb_ToolUseID := x\<rparr>) (dec_string v (cb_ToolUseID b))
      else if k = ''content'' then map_option (\<lambda>x. b\<lparr>cb_Content := x\<rparr>) (dec_any v (cb_Content b))
      else Some b)"

definition message_field :: "string \<Rightarrow> json \<Rightarrow> content_block list \<Rightarrow> content_block list option" where
  "message_field k v m =
     (if k = ''content'' then dec_slice (dec_struct content_block_field) zero_content_block v m else Some m)"

definition rate_limit_field :: "string \<Rightarrow> json \<Rightarrow> rate_limit_info \<Rightarrow> rate_limit_info option" where
  "rate_limit_field k v r =
     (if k = ''status'' then map_option (\<lambda>x. r\<lparr>rl_Status := x\<rparr>) (dec_string v (rl_Status r))
      else if k = ''resetsat'' then map_option (\<lambda>x. r\<lparr>rl_ResetsAt := x\<rparr>) (dec_int v (rl_ResetsAt r))
      else if k = ''ratelimittype'' then map_option (\<lambda>x. r\<lparr>rl_Type := x\<rparr>) (dec_string v (rl_Type r))
      else Some r)"

definition stream_event_field :: "string \<Rightarrow> json \<Rightarrow> stream_event \<Rightarrow> stream_event option" where
  "stream_event_field k v e =
     (if k = ''type'' then map_option (\<lambda>x. e\<lparr>se_Type := x\<rparr>) (dec_string v (se_Type e))
      else if k = ''subtype'' then map_option (\<lambda>x. e\<lparr>se_SubType := x\<rparr>) (dec_string v (se_SubType e))
      else if k = ''session_id'' then map_option (\<lambda>x. e\<lparr>se_SessionID := x\<rparr>) (dec_string v (se_SessionID e))
      else if k = ''message'' then map_option (\<lambda>x. e\<lparr>se_Message := x\<rparr>) (dec_ptr (dec_struct message_field) [] v (se_Message e))
      else if k = ''event'' then map_option (\<lambda>x. e\<lparr>se_Event := x\<rparr>) (dec_raw v (se_Event e))
      else if k = ''rate_limit_info'' then map_option (\<lambda>x. e\<lparr>se_RateLimitInfo := x\<rparr>) (dec_ptr (dec_struct rate_limit_field) \<lparr>rl_Status = [], rl_ResetsAt = 0, rl_Type = []\<rparr> v (se_RateLimitInfo e))
      else if k = ''result'' then map_option (\<lambda>x. e\<lparr>se_Result := x\<rparr>) (dec_string v (se_Result e))
      else if k = ''is_error'' then map_option (\<lambda>x. e\<lparr>se_IsError := x\<rparr>) (dec_bool v (se_IsError e))
      else if k = ''total_cost_usd'' then map_option (\<lambda>x. e\<lparr>se_CostUSD := x\<rparr>) (dec_rat v (se_CostUSD e))
      else if k = ''duration_ms'' then map_option (\<lambda>x. e\<lparr>se_DurationMs := x\<rparr>) (dec_int v (se_DurationMs e))
      else if k = ''model'' then map_option (\<lambda>x. e\<lparr>se_Model := x\<rparr>) (dec_string v (se_Model e))
      else if k = ''hook_id'' then map_option (\<lambda>x. e\<lparr>se_HookID := x\<rparr>) (dec_string v (se_HookID e))
      else if k = ''hook_name'' then map_option (\<lambda>x. e\<lparr>se_HookName := x\<rparr>) (dec_string v (se_HookName e))
      else if k = ''hook_event'' then map_option (\<lambda>x. e\<lparr>se_HookEvent := x\<rparr>) (dec_string v (se_HookEvent e))
      else Some e)"

definition inner_event_field :: "string \<Rightarrow> json \<Rightarrow> inner_event \<Rightarrow> inner_event option" where
  "inner_event_field k v e =
     (if k = ''type'' then map_option (\<lambda>x. e\<lparr>ie_Type := x\<rparr>) (dec_string v (ie_Type e))
      else if k = ''index'' then map_option (\<lambda>x. e\<lparr>ie_Index := x\<rparr>) (dec_int v (ie_Index e))
      else if k = ''delta'' then map_option (\<lambda>x. e\<lparr>ie_Delta := x\<rparr>) (dec_raw v (ie_Delta e))
      else if k = ''content_block'' then map_option (\<lambda>x. e\<lparr>ie_ContentBlock := x\<rparr>) (dec_raw v (ie_ContentBlock e))
      else Some e)"

definition decode_stream_event :: "json option \<Rightarrow> stream_event option" where
  "decode_stream_event v =
     (case v of None \<Rightarrow> None | Some v \<Rightarrow> dec_struct stream_event_field v zero_stream_event)"

section \<open>Encoding\<close>

definition omit_false :: "string \<Rightarrow> bool \<Rightarrow> json gomap" where
  "omit_false k b = (if b then [(k, JBool True)] else [])"

definition chat_message_json :: "chat_message \<Rightarrow> json" where
  "chat_message_json m = JObj [(''role'', enc_string (cm_role m)), (''content'', enc_string (cm_content m))]"

text \<open>The credentials carry the tag \<^verbatim>\<open>json:"-"\<close>: they are not part of the encoding.\<close>

definition exec_request_json :: "exec_request \<Rightarrow> json" where
  "exec_request_json r = JObj (
     [(''prompt'', enc_string (er_Prompt r))] @
     omit_empty ''session_id'' (utf8_coerce (er_SessionID r)) @
     omit_empty ''conversation_id'' (utf8_coerce (er_ConversationID r)) @
     omit_empty ''model'' (utf8_coerce (er_Model r)) @
     omit_empty ''system_prompt'' (utf8_coerce (er_SystemPrompt r)) @
     (if er_ConversationHistory r = [] then []
      else [(''conversation_history'', JArr (map chat_message_json (er_ConversationHistory r)))]) @
     omit_false ''include_partial_messages'' (er_IncludePartialMessages r) @
     omit_false ''include_hook_events'' (er_IncludeHookEvents r))"

definition auth_status_json :: "auth_status \<Rightarrow> json" where
  "auth_status_json s = JObj (
     [(''loggedIn'', JBool (as_loggedIn s)), (''authMethod'', JStr (as_authMethod s)),
      (''loginPending'', JBool (as_loginPending s))] @
     omit_nil ''apiProvider'' JStr (as_apiProvider s) @ omit_nil ''email'' JStr (as_email s) @
     omit_nil ''orgName'' JStr (as_orgName s) @ omit_nil ''subscriptionType'' JStr (as_subscriptionType s) @
     omit_nil ''apiKeySource'' JStr (as_apiKeySource s) @ omit_nil ''loginUrl'' JStr (as_loginUrl s))"

definition login_response_json :: "login_response \<Rightarrow> json" where
  "login_response_json r = JObj (
     [(''message'', JStr (lr_message r))] @ omit_nil ''loginUrl'' JStr (lr_loginUrl r) @
     omit_nil ''loggedIn'' JBool (lr_loggedIn r))"

section \<open>Calls\<close>

definition ErrCredentialsNotReady :: goerr where
  "ErrCredentialsNotReady =
     ErrVar ''ErrCredentialsNotReady'' ''credentials file not ready (login not completed)''"

text \<open>\<^verbatim>\<open>http.NewRequestWithContext\<close> followed by \<^verbatim>\<open>httpClient.Do\<close>, both errors returned as they are.\<close>

definition send_request :: "'w agent_net \<Rightarrow> string \<Rightarrow> http_request \<Rightarrow> ('w, http_response) call" where
  "send_request n url r w =
     (case an_url_error n url of Some err \<Rightarrow> (Inl err, w) | None \<Rightarrow> an_do n url r w)"

definition RC_GetAuthStatus :: "'w agent_net \<Rightarrow> string \<Rightarrow> ('w, auth_status) call" where
  "RC_GetAuthStatus n url w =
     (case send_request n url (plain_request ''GET'' [''auth'', ''status''] NoBody) w of
        (Inl err, w) \<Rightarrow> (Inl err, w)
      | (Inr resp, w) \<Rightarrow>
          if rs_status resp \<noteq> 200
          then (Inl (ErrText (''cc-remote-agent returned '' @ itoa (rs_status resp))), w)
          else (decode_struct auth_status_field zero_auth_status (rs_body resp), w))"

definition RC_InitiateLogin :: "'w agent_net \<Rightarrow> string \<Rightarrow> string \<Rightarrow> ('w, login_response) call" where
  "RC_InitiateLogin n url meth w =
     (case send_request n url
             (plain_request ''POST'' [''auth'', ''login''] (JsonBody (JObj [(''method'', enc_string meth)]))) w of
        (Inl err, w) \<Rightarrow> (Inl err, w)
      | (Inr resp, w) \<Rightarrow>
          if rs_status resp \<noteq> 200
          then (Inl (ErrText (''cc-remote-agent returned '' @ itoa (rs_status resp) @ '': '' @ an_text n resp)), w)
          else (decode_struct login_response_field \<lparr>lr_message = [], lr_loginUrl = None, lr_loggedIn = None\<rparr>
                  (rs_body resp), w))"

definition message_only_field :: "string \<Rightarrow> json \<Rightarrow> string \<Rightarrow> string option" where
  "message_only_field k v m = (if k = ''message'' then dec_string v m else Some m)"

definition RC_SubmitAuthInput :: "'w agent_net \<Rightarrow> string \<Rightarrow> string \<Rightarrow> ('w, string) call" where
  "RC_SubmitAuthInput n url input w =
     (case send_request n url
             (plain_request ''POST'' [''auth'', ''pty'', ''input''] (JsonBody (JObj [(''input'', enc_string input)]))) w of
        (Inl err, w) \<Rightarrow> (Inl err, w)
      | (Inr resp, w) \<Rightarrow>
          if rs_status resp \<noteq> 200
          then (Inl (ErrText (''submit auth input: status '' @ itoa (rs_status resp) @ '': '' @ an_text n resp)), w)
          else (decode_struct message_only_field [] (rs_body resp), w))"

definition RC_GetAuthPtyStream :: "'w agent_net \<Rightarrow> string \<Rightarrow> string \<Rightarrow> ('w, http_body) call" where
  "RC_GetAuthPtyStream n url conversationID w =
     (case send_request n url
             ((plain_request ''GET'' [''auth'', ''pty'', ''stream''] NoBody)
                \<lparr>rq_query := [(''conversationId'', conversationID)]\<rparr>) w of
        (Inl err, w) \<Rightarrow> (Inl err, w)
      | (Inr resp, w) \<Rightarrow>
          if rs_status resp \<noteq> 200
          then (Inl (ErrText (''get auth pty stream: status '' @ itoa (rs_status resp))), w)
          else (Inr (rs_body resp), w))"

definition RC_CancelLogin :: "'w agent_net \<Rightarrow> string \<Rightarrow> ('w, string) call" where
  "RC_CancelLogin n url w =
     (case send_request n url (plain_request ''POST'' [''auth'', ''cancel''] NoBody) w of
        (Inl err, w) \<Rightarrow> (Inl err, w)
      | (Inr resp, w) \<Rightarrow>
          if rs_status resp \<noteq> 200
          then (Inl (ErrText (''cancel login: status '' @ itoa (rs_status resp))), w)
          else (decode_struct message_only_field [] (rs_body resp), w))"

definition RC_Logout :: "'w agent_net \<Rightarrow> string \<Rightarrow> ('w, auth_status) call" where
  "RC_Logout n url w =
     (case send_request n url (plain_request ''POST'' [''auth'', ''logout''] NoBody) w of
        (Inl err, w) \<Rightarrow> (Inl err, w)
      | (Inr resp, w) \<Rightarrow>
          if rs_status resp \<noteq> 200
          then (Inl (ErrText (''cc-remote-agent returned '' @ itoa (rs_status resp))), w)
          else (decode_struct auth_status_field zero_auth_status (rs_body resp), w))"

definition RC_InitCredentials :: "'w agent_net \<Rightarrow> string \<Rightarrow> string \<Rightarrow> ('w, unit) call" where
  "RC_InitCredentials n url credJSON w =
     (case send_request n url
             (plain_request ''POST'' [''init''] (JsonBody (JObj [(''credentialsJson'', enc_string credJSON)]))) w of
        (Inl err, w) \<Rightarrow> (Inl err, w)
      | (Inr resp, w) \<Rightarrow>
          if rs_status resp \<noteq> 200
          then (Inl (ErrText (''init credentials: status '' @ itoa (rs_status resp) @ '': '' @ an_text n resp)), w)
          else (Inr (), w))"

definition credentials_json_field :: "string \<Rightarrow> json \<Rightarrow> string \<Rightarrow> string option" where
  "credentials_json_field k v c = (if k = ''credentialsjson'' then dec_string v c else Some c)"

definition RC_FinalizeCredentials :: "'w agent_net \<Rightarrow> string \<Rightarrow> ('w, string) call" where
  "RC_FinalizeCredentials n url w =
     (case an_url_error n url of
        Some err \<Rightarrow> (Inl (errorf ''new request'' err), w)
      | None \<Rightarrow>
          (case an_do n url (plain_request ''POST'' [''auth'', ''finalize-credentials''] NoBody) w of
             (Inl err, w) \<Rightarrow> (Inl (errorf ''do request'' err), w)
           | (Inr resp, w) \<Rightarrow>
               if rs_status resp = 404 then (Inl ErrCredentialsNotReady, w)
               else if rs_status resp \<noteq> 200
               then (Inl (ErrText (''unexpected status: '' @ itoa (rs_status resp))), w)
               else
                 (case decode_struct credentials_json_field [] (rs_body resp) of
                    Inl err \<Rightarrow> (Inl (errorf ''decode response'' err), w)
                  | Inr c \<Rightarrow>
                      if c = [] then (Inl (ErrText ''empty credentialsJson in response''), w)
                      else (Inr c, w))))"

section \<open>Execute\<close>

text \<open>
  \<^verbatim>\<open>bufio.Scanner\<close> with its default buffer: a line of 64 KiB or more stops it with an error.
  \<open>scan_loop\<close> yields the events passed to the callback in order, the session id and the error of
  the scanner.
\<close>

fun scan_loop ::
    "(nat \<times> json option) list \<Rightarrow> goerr option \<Rightarrow> string \<Rightarrow> stream_event list \<times> string \<times> goerr option" where
  "scan_loop [] err sessionID = ([], sessionID, err)"
| "scan_loop ((len, v) # ls) err sessionID =
     (if len \<ge> MaxScanTokenSize then ([], sessionID, Some ErrTooLong)
      else
        (case decode_stream_event v of
           None \<Rightarrow> scan_loop ls err sessionID
         | Some event \<Rightarrow>
             (case scan_loop ls err (if se_Type event = ''result'' then se_SessionID event else sessionID) of
                (es, sid, e) \<Rightarrow> (event # es, sid, e))))"

text \<open>The result of \<open>RC_Execute\<close> comes with the events that were passed to \<^verbatim>\<open>onEvent\<close>.\<close>

definition RC_Execute ::
    "'w agent_net \<Rightarrow> string \<Rightarrow> exec_request \<Rightarrow> 'w \<Rightarrow> (string result \<times> stream_event list) \<times> 'w" where
  "RC_Execute n url req w =
     (case send_request n url (plain_request ''POST'' [''execute''] (JsonBody (exec_request_json req))) w of
        (Inl err, w) \<Rightarrow> ((Inl err, []), w)
      | (Inr resp, w) \<Rightarrow>
          if rs_status resp \<noteq> 200
          then ((Inl (ErrText (''cc-remote-agent returned '' @ itoa (rs_status resp))), []), w)
          else
            (case an_lines n resp of (ls, rerr) \<Rightarrow>
               (case scan_loop ls rerr [] of
                  (es, sid, None) \<Rightarrow> ((Inr sid, es), w)
                | (es, sid, Some err) \<Rightarrow> ((Inl err, es), w))))"

section \<open>Properties\<close>

lemma scan_loop_short:
  "\<forall>(len, v) \<in> set ls. len < MaxScanTokenSize \<Longrightarrow>
     scan_loop ls err sid =
       (List.map_filter (\<lambda>(len, v). decode_stream_event v) ls,
        foldl (\<lambda>s e. if se_Type e = ''result'' then se_SessionID e else s) sid
          (List.map_filter (\<lambda>(len, v). decode_stream_event v) ls), err)"
  by (induction ls arbitrary: sid) (auto simp: map_filter_simps split: option.split)

text \<open>When no line of the agent's answer reaches 64 KiB, the callback sees exactly the lines that
  are events, in order, lines that do not parse being skipped, and the session id returned is the
  one of the last result event (empty without one).\<close>

lemma RC_Execute_stream:
  assumes "an_url_error n url = None"
    and "an_do n url (plain_request ''POST'' [''execute''] (JsonBody (exec_request_json req))) w = (Inr resp, w')"
    and "rs_status resp = 200" and "an_lines n resp = (ls, None)"
    and "\<forall>(len, v) \<in> set ls. len < 65536"
  shows "RC_Execute n url req w =
    (let es = List.map_filter (\<lambda>(len, v). decode_stream_event v) ls in
     ((Inr (case filter (\<lambda>e. se_Type e = ''result'') (rev es) of [] \<Rightarrow> [] | e # _ \<Rightarrow> se_SessionID e), es), w'))"
proof -
  have last: "foldl (\<lambda>s e. if se_Type e = ''result'' then se_SessionID e else s) s es =
      (case filter (\<lambda>e. se_Type e = ''result'') (rev es) of [] \<Rightarrow> s | e # _ \<Rightarrow> se_SessionID e)" for s es
    by (induction es rule: rev_induct) auto
  show ?thesis
    using assms scan_loop_short [of ls None "[]"]
    by (simp add: RC_Execute_def send_request_def Let_def last MaxScanTokenSize_def)
qed

text \<open>A network on which the agent answers every request with the given response, for witnesses.\<close>

definition fixed_net :: "http_response \<Rightarrow> 'w agent_net" where
  "fixed_net resp =
     \<lparr>an_url_error = (\<lambda>u. None), an_do = (\<lambda>u r w. (Inr resp, w)), an_text = (\<lambda>r. []),
      an_lines = (\<lambda>r. case rs_body r of LinesBody ls e \<Rightarrow> (ls, e) | _ \<Rightarrow> ([], None))\<rparr>"

definition stream_response :: "(nat \<times> json option) list \<Rightarrow> goerr option \<Rightarrow> http_response" where
  "stream_response ls e =
     \<lparr>rs_status = 200, rs_content_type = ''application/x-ndjson'', rs_body = LinesBody ls e\<rparr>"

definition result_line :: "nat \<times> json option" where
  "result_line = (60, Some (JObj [(''type'', JStr ''result''), (''session_id'', JStr ''s1'')]))"

lemma decode_result_line:
  "decode_stream_event (snd result_line) = Some (zero_stream_event\<lparr>se_Type := ''result'', se_SessionID := ''s1''\<rparr>)"
proof -
  have k: "ascii_lower ''type'' = ''type''" "ascii_lower ''session_id'' = ''session_id''" by code_simp+
  show ?thesis
    by (simp add: result_line_def decode_stream_event_def dec_struct_def k stream_event_field_def)
qed

definition request_hello :: exec_request where
  "request_hello = \<lparr>er_Prompt = ''hello'', er_SessionID = [], er_ConversationID = ''c1'', er_Model = [],
     er_SystemPrompt = [], er_ConversationHistory = [], er_IncludePartialMessages = True,
     er_IncludeHookEvents = True, er_Credentials = ''secret''\<rparr>"

end
