(* ===== verification/SessionManager.thy ===== *)
theory SessionManager
  imports CMClient RemoteClient
begin

text \<open>
  Per-conversation containers on one Docker host: \<^verbatim>\<open>internal/docker\<close> (\<^verbatim>\<open>runner.go\<close>,
  \<^verbatim>\<open>sdk_runner.go\<close>, \<^verbatim>\<open>cmrunner.go\<close>, \<^verbatim>\<open>session_manager.go\<close>) and the providers of
  \<^verbatim>\<open>internal/provider/local\<close> and the mock providers.

  The session map of the manager is the first component of its world, next to a world \<open>'w\<close> that
  the runner and the network act on; the mutex makes each operation one step.  A session's idle
  timer is the time at which it fires, \<open>None\<close> when it is stopped or has fired; \<open>idle_fired\<close> is its
  callback.  A \<open>remoteclient.Client\<close> is its base address.  Time is what \<open>'w clock\<close> says: \<^verbatim>\<open>Now\<close>
  and a \<^verbatim>\<open>select\<close> between the context and a timer, which ends with the context's error or with
  the world at the end of the pause.
\<close>

section \<open>Runners\<close>

record container_create_opts =
  cc_Name :: string
  cc_Image :: string
  cc_Env :: "string list"
  cc_Network :: string
  cc_VolumeMounts :: "(string \<times> string) list"
  cc_TmpfsMounts :: "string gomap"

record container_info =
  inf_ID :: string
  inf_Name :: string
  inf_State :: string

record 'w docker_runner =
  dr_ContainerCreate :: "container_create_opts \<Rightarrow> ('w, string) call"
  dr_ContainerStart :: "string \<Rightarrow> ('w, unit) call"
  dr_ContainerStop :: "string \<Rightarrow> ('w, unit) call"
  dr_ContainerRemove :: "string \<Rightarrow> ('w, unit) call"
  dr_ContainerInspect :: "string \<Rightarrow> ('w, container_info) call"
  dr_ContainerList :: "string \<Rightarrow> bool \<Rightarrow> ('w, container_info list) call"

text \<open>The Docker SDK as \<^verbatim>\<open>SDKRunner\<close> uses it.\<close>

record sdk_create_options =
  so_Image :: string
  so_Env :: "string list"
  so_Mounts :: "(string \<times> string) list"
  so_Tmpfs :: "string gomap"
  so_Network :: "string option"
  so_Name :: string

record sdk_container =
  sdc_ID :: string
  sdc_Name :: string
  sdc_Names :: "string list"
  sdc_Status :: "string option"

record 'w docker_sdk =
  dsdk_Create :: "sdk_create_options \<Rightarrow> ('w, string) call"
  dsdk_Start :: "string \<Rightarrow> ('w, unit) call"
  dsdk_Stop :: "string \<Rightarrow> int \<Rightarrow> ('w, unit) call"
  dsdk_Remove :: "string \<Rightarrow> bool \<Rightarrow> ('w, unit) call"
  dsdk_Inspect :: "string \<Rightarrow> ('w, sdk_container) call"
  dsdk_List :: "bool \<Rightarrow> (string \<times> string) list \<Rightarrow> ('w, sdk_container list) call"

definition SDKRunner_ContainerCreate :: "'w docker_sdk \<Rightarrow> container_create_opts \<Rightarrow> ('w, string) call" where
  "SDKRunner_ContainerCreate cli opts w =
     wrap_err ''container create'' (dsdk_Create cli
       \<lparr>so_Image = cc_Image opts, so_Env = cc_Env opts, so_Mounts = cc_VolumeMounts opts,
        so_Tmpfs = cc_TmpfsMounts opts,
        so_Network = (if cc_Network opts \<noteq> [] then Some (cc_Network opts) else None),
        so_Name = cc_Name opts\<rparr> w)"

definition SDKRunner_ContainerStart :: "'w docker_sdk \<Rightarrow> string \<Rightarrow> ('w, unit) call" where
  "SDKRunner_ContainerStart cli i w = wrap_err ''container start'' (dsdk_Start cli i w)"

definition SDKRunner_ContainerStop :: "'w docker_sdk \<Rightarrow> string \<Rightarrow> ('w, unit) call" where
  "SDKRunner_ContainerStop cli i w = wrap_err ''container stop'' (dsdk_Stop cli i 10 w)"

definition SDKRunner_ContainerRemove :: "'w docker_sdk \<Rightarrow> string \<Rightarrow> ('w, unit) call" where
  "SDKRunner_ContainerRemove cli i w = wrap_err ''container remove'' (dsdk_Remove cli i True w)"

definition SDKRunner_ContainerInspect :: "'w docker_sdk \<Rightarrow> string \<Rightarrow> ('w, container_info) call" where
  "SDKRunner_ContainerInspect cli i w =
     (case dsdk_Inspect cli i w of
        (Inl err, w) \<Rightarrow> (Inl (errorf ''container inspect'' err), w)
      | (Inr c, w) \<Rightarrow>
          (Inr \<lparr>inf_ID = sdc_ID c, inf_Name = trim_prefix (sdc_Name c) ''/'',
                inf_State = (case sdc_Status c of Some s \<Rightarrow> s | None \<Rightarrow> [])\<rparr>, w))"

definition SDKRunner_ContainerList ::
    "'w docker_sdk \<Rightarrow> string \<Rightarrow> bool \<Rightarrow> ('w, container_info list) call" where
  "SDKRunner_ContainerList cli namePrefix all w =
     (case dsdk_List cli all [(''name'', namePrefix)] w of
        (Inl err, w) \<Rightarrow> (Inl (errorf ''container list'' err), w)
      | (Inr cs, w) \<Rightarrow>
          (Inr (map (\<lambda>c. \<lparr>inf_ID = sdc_ID c,
                inf_Name = (case sdc_Names c of [] \<Rightarrow> [] | n # _ \<Rightarrow> trim_prefix n ''/''),
                inf_State = (case sdc_Status c of Some s \<Rightarrow> s | None \<Rightarrow> [])\<rparr>) cs), w))"

definition SDKRunner :: "'w docker_sdk \<Rightarrow> 'w docker_runner" where
  "SDKRunner cli =
     \<lparr>dr_ContainerCreate = SDKRunner_ContainerCreate cli, dr_ContainerStart = SDKRunner_ContainerStart cli,
      dr_ContainerStop = SDKRunner_ContainerStop cli, dr_ContainerRemove = SDKRunner_ContainerRemove cli,
      dr_ContainerInspect = SDKRunner_ContainerInspect cli, dr_ContainerList = SDKRunner_ContainerList cli\<rparr>"

definition CMRunner_ContainerCreate ::
    "'w container_manager \<Rightarrow> int \<Rightarrow> container_create_opts \<Rightarrow> ('w, string) call" where
  "CMRunner_ContainerCreate cm containerPort opts w =
     (case cm_RunAgent cm \<lparr>cr_image = cc_Image opts, cr_name = cc_Name opts, cr_host_port = 0,
             cr_container_port = containerPort, cr_network = cc_Network opts, cr_env = cc_Env opts,
             cr_labels = []\<rparr> w of
        (Inl err, w) \<Rightarrow> (Inl (errorf ''cmrunner: run agent'' err), w)
      | (Inr _, w) \<Rightarrow> (Inr (cc_Name opts), w))"

definition CMRunner :: "'w container_manager \<Rightarrow> int \<Rightarrow> 'w docker_runner" where
  "CMRunner cm containerPort =
     \<lparr>dr_ContainerCreate = CMRunner_ContainerCreate cm containerPort,
      dr_ContainerStart = (\<lambda>i w. (Inr (), w)),
      dr_ContainerStop = cm_StopContainer cm,
      dr_ContainerRemove = cm_RemoveContainer cm,
      dr_ContainerInspect = (\<lambda>i w. (Inr \<lparr>inf_ID = i, inf_Name = i, inf_State = ''running''\<rparr>, w)),
      dr_ContainerList = (\<lambda>p all w. (Inr [], w))\<rparr>"

section \<open>The session manager\<close>

record 'w clock =
  ck_now :: "'w \<Rightarrow> int"
  ck_select :: "int \<Rightarrow> ('w, unit) call"

record sm_config =
  smc_Image :: string
  smc_Network :: string
  smc_ContainerPort :: string
  smc_IdleTimeout :: int
  smc_StartTimeout :: int

record session =
  ss_containerID :: string
  ss_client :: string
  ss_lastUsed :: int
  ss_idleTimer :: "int option"

record 'w session_manager =
  sm_runner :: "'w docker_runner"
  sm_config :: sm_config
  sm_net :: "'w agent_net"
  sm_clock :: "'w clock"

type_synonym sessions = "session gomap"

definition ns_second :: int where
  "ns_second = 1000000000"

definition NewSessionManager ::
    "'w docker_runner \<Rightarrow> sm_config \<Rightarrow> 'w agent_net \<Rightarrow> 'w clock \<Rightarrow> 'w session_manager \<times> sessions" where
  "NewSessionManager runner config net clock =
     (let config = (if smc_IdleTimeout config = 0 then config\<lparr>smc_IdleTimeout := 15 * 60 * ns_second\<rparr> else config);
          config = (if smc_StartTimeout config = 0 then config\<lparr>smc_StartTimeout := 30 * ns_second\<rparr> else config)
      in (\<lparr>sm_runner = runner, sm_config = config, sm_net = net, sm_clock = clock\<rparr>, []))"

text \<open>
  \<^verbatim>\<open>waitForReady\<close> polls for at most \<open>fuel\<close> rounds; \<open>None\<close> means that the fuel is used up.
  \<open>waitForReady_returns\<close> below gives a fuel that suffices.
\<close>

fun poll_ready :: "nat \<Rightarrow> 'w session_manager \<Rightarrow> string \<Rightarrow> int \<Rightarrow> 'w \<Rightarrow> (unit result \<times> 'w) option" where
  "poll_ready 0 sm client deadline w = None"
| "poll_ready (Suc fuel) sm client deadline w =
     (case RC_GetAuthStatus (sm_net sm) client w of
        (Inr _, w) \<Rightarrow> Some (Inr (), w)
      | (Inl _, w) \<Rightarrow>
          if ck_now (sm_clock sm) w > deadline
          then Some (Inl (ErrText ''timed out waiting for container to be ready''), w)
          else (case ck_select (sm_clock sm) (500 * 1000000) w of
                  (Inl err, w) \<Rightarrow> Some (Inl err, w)
                | (Inr _, w) \<Rightarrow> poll_ready fuel sm client deadline w))"

definition SM_waitForReady :: "nat \<Rightarrow> 'w session_manager \<Rightarrow> string \<Rightarrow> 'w \<Rightarrow> (unit result \<times> 'w) option" where
  "SM_waitForReady fuel sm client w =
     poll_ready fuel sm client (ck_now (sm_clock sm) w + smc_StartTimeout (sm_config sm)) w"

definition container_name_of :: "string \<Rightarrow> string" where
  "container_name_of convID =
     ''cctunnel-session-'' @ (if length convID > 8 then take 8 convID else convID)"

text \<open>Stop and remove a container whose set-up failed, both errors ignored.\<close>

definition discard_container :: "'w docker_runner \<Rightarrow> string \<Rightarrow> 'w \<Rightarrow> 'w" where
  "discard_container r i w = snd (dr_ContainerRemove r i (snd (dr_ContainerStop r i w)))"

definition create_session ::
    "nat \<Rightarrow> 'w session_manager \<Rightarrow> string \<Rightarrow> string \<Rightarrow> sessions \<Rightarrow> 'w \<Rightarrow>
     (string result \<times> sessions \<times> 'w) option" where
  "create_session fuel sm convID credentials ss w =
     (let containerName = container_name_of convID;
          r = sm_runner sm; cfg = sm_config sm;
          opts = \<lparr>cc_Name = containerName, cc_Image = smc_Image cfg,
                  cc_Env = [''PORT='' @ smc_ContainerPort cfg], cc_Network = smc_Network cfg,
                  cc_VolumeMounts = [], cc_TmpfsMounts = []\<rparr>
      in case dr_ContainerCreate r opts w of
           (Inl err, w) \<Rightarrow> Some (Inl (errorf ''container create'' err), ss, w)
         | (Inr containerID, w) \<Rightarrow>
             (case dr_ContainerStart r containerID w of
                (Inl err, w) \<Rightarrow> Some (Inl (errorf ''container start'' err), ss, w)
              | (Inr _, w) \<Rightarrow>
                  let client = ''http://'' @ containerName @ '':'' @ smc_ContainerPort cfg in
                  (case SM_waitForReady fuel sm client w of
                     None \<Rightarrow> None
                   | Some (Inl err, w) \<Rightarrow>
                       Some (Inl (errorf ''container health check'' err), ss, discard_container r containerID w)
                   | Some (Inr _, w) \<Rightarrow>
                       (case (if length credentials > 0
                              then RC_InitCredentials (sm_net sm) client credentials w else (Inr (), w)) of
                          (Inl err, w) \<Rightarrow>
                            Some (Inl (errorf ''init credentials'' err), ss, discard_container r containerID w)
                        | (Inr _, w) \<Rightarrow>
                            let now = ck_now (sm_clock sm) w in
                            Some (Inr client,
                              gomap_set ss convID
                                \<lparr>ss_containerID = containerID, ss_client = client, ss_lastUsed = now,
                                 ss_idleTimer = Some (now + smc_IdleTimeout cfg)\<rparr>, w)))))"

definition SM_GetOrCreate ::
    "nat \<Rightarrow> 'w session_manager \<Rightarrow> string \<Rightarrow> string \<Rightarrow> sessions \<Rightarrow> 'w \<Rightarrow>
     (string result \<times> sessions \<times> 'w) option" where
  "SM_GetOrCreate fuel sm convID credentials ss w =
     (case gomap_get ss convID of
        None \<Rightarrow> create_session fuel sm convID credentials ss w
      | Some s \<Rightarrow>
          (case dr_ContainerInspect (sm_runner sm) (ss_containerID s) w of
             (res, w) \<Rightarrow>
               if (case res of Inr info \<Rightarrow> inf_State info = ''running'' | Inl _ \<Rightarrow> False)
               then
                 let now = ck_now (sm_clock sm) w in
                 Some (Inr (ss_client s),
                   gomap_set ss convID (s\<lparr>ss_lastUsed := now,
                     ss_idleTimer := Some (now + smc_IdleTimeout (sm_config sm))\<rparr>), w)
               else create_session fuel sm convID credentials (gomap_delete ss convID) w))"

definition SM_GetClient :: "string \<Rightarrow> sessions \<Rightarrow> string option" where
  "SM_GetClient convID ss = map_option ss_client (gomap_get ss convID)"

definition SM_Stop :: "'w session_manager \<Rightarrow> string \<Rightarrow> sessions \<Rightarrow> 'w \<Rightarrow> unit result \<times> sessions \<times> 'w" where
  "SM_Stop sm convID ss w =
     (case gomap_get ss convID of
        None \<Rightarrow> (Inr (), ss, w)
      | Some s \<Rightarrow>
          let ss = gomap_set ss convID (s\<lparr>ss_idleTimer := None\<rparr>) in
          (case dr_ContainerStop (sm_runner sm) (ss_containerID s) w of
             (Inl err, w) \<Rightarrow> (Inl (errorf (''stop '' @ convID) err), ss, w)
           | (Inr _, w) \<Rightarrow>
               (case dr_ContainerRemove (sm_runner sm) (ss_containerID s) w of
                  (Inl err, w) \<Rightarrow> (Inl (errorf (''remove '' @ convID) err), ss, w)
                | (Inr _, w) \<Rightarrow> (Inr (), gomap_delete ss convID, w))))"

text \<open>The callback of the idle timer, once the timer has fired.\<close>

definition idle_fired :: "'w session_manager \<Rightarrow> string \<Rightarrow> sessions \<Rightarrow> 'w \<Rightarrow> sessions \<times> 'w" where
  "idle_fired sm convID ss w = snd (SM_Stop sm convID ss w)"

fun stop_each ::
    "'w session_manager \<Rightarrow> string list \<Rightarrow> goerr option \<Rightarrow> sessions \<Rightarrow> 'w \<Rightarrow> goerr option \<times> sessions \<times> 'w" where
  "stop_each sm [] lastErr ss w = (lastErr, ss, w)"
| "stop_each sm (convID # ids) lastErr ss w =
     (case SM_Stop sm convID ss w of
        (Inl err, ss, w) \<Rightarrow> stop_each sm ids (Some err) ss w
      | (Inr _, ss, w) \<Rightarrow> stop_each sm ids lastErr ss w)"

definition SM_StopAll :: "'w session_manager \<Rightarrow> sessions \<Rightarrow> 'w \<Rightarrow> unit result \<times> sessions \<times> 'w" where
  "SM_StopAll sm ss w =
     (case stop_each sm (map fst ss) None ss w of
        (None, ss, w) \<Rightarrow> (Inr (), ss, w)
      | (Some err, ss, w) \<Rightarrow> (Inl err, ss, w))"

definition SM_CleanupOrphans :: "'w session_manager \<Rightarrow> ('w, unit) call" where
  "SM_CleanupOrphans sm w =
     (case dr_ContainerList (sm_runner sm) ''cctunnel-session-'' True w of
        (Inl err, w) \<Rightarrow> (Inl (errorf ''list containers'' err), w)
      | (Inr cs, w) \<Rightarrow>
          (Inr (), fold (\<lambda>c w. if inf_State c \<noteq> ''running''
                           then snd (dr_ContainerRemove (sm_runner sm) (inf_ID c) w) else w) cs w))"

section \<open>Providers\<close>

text \<open>
  \<^verbatim>\<open>ExecutionProvider\<close>.  \<^verbatim>\<open>Execute\<close> gives the session id or error together with the events it
  passed to \<^verbatim>\<open>onEvent\<close>, in order.  Providers that may wait forever are given fuel, which their
  result type \<open>option\<close> shows.
\<close>

definition ErrSessionNotFound :: goerr where
  "ErrSessionNotFound = ErrVar ''ErrSessionNotFound'' ''session not found''"

record 'w exec_provider =
  xp_Execute :: "exec_request \<Rightarrow> 'w \<Rightarrow> ((string result \<times> stream_event list) \<times> 'w) option"
  xp_PrepareForRelogin :: "string \<Rightarrow> 'w \<Rightarrow> (unit result \<times> 'w) option"
  xp_PullCredentialsFromSession :: "string \<Rightarrow> ('w, string) call"
  xp_GetSessionClient :: "string \<Rightarrow> ('w, string) call"

definition LDP_Execute ::
    "nat \<Rightarrow> 'w session_manager \<Rightarrow> exec_request \<Rightarrow> sessions \<times> 'w \<Rightarrow>
     ((string result \<times> stream_event list) \<times> sessions \<times> 'w) option" where
  "LDP_Execute fuel sm req st =
     (case SM_GetOrCreate fuel sm (er_ConversationID req) (er_Credentials req) (fst st) (snd st) of
        None \<Rightarrow> None
      | Some (Inl err, ss, w) \<Rightarrow> Some ((Inl (errorf ''get session'' err), []), ss, w)
      | Some (Inr client, ss, w) \<Rightarrow>
          (case RC_Execute (sm_net sm) client req w of (res, w) \<Rightarrow> Some (res, ss, w)))"

definition LDP_PrepareForRelogin ::
    "nat \<Rightarrow> 'w session_manager \<Rightarrow> string \<Rightarrow> sessions \<times> 'w \<Rightarrow> (unit result \<times> sessions \<times> 'w) option" where
  "LDP_PrepareForRelogin fuel sm conversationID st =
     (case SM_GetOrCreate fuel sm conversationID [] (fst st) (snd st) of
        None \<Rightarrow> None
      | Some (Inl err, ss, w) \<Rightarrow> Some (Inl err, ss, w)
      | Some (Inr _, ss, w) \<Rightarrow> Some (Inr (), ss, w))"

definition LDP_PullCredentialsFromSession ::
    "'w session_manager \<Rightarrow> string \<Rightarrow> (sessions \<times> 'w, string) call" where
  "LDP_PullCredentialsFromSession sm conversationID st =
     (case SM_GetClient conversationID (fst st) of
        None \<Rightarrow> (Inl (ErrText ''no session container found for conversation''), st)
      | Some client \<Rightarrow>
          (case RC_FinalizeCredentials (sm_net sm) client (snd st) of (res, w) \<Rightarrow> (res, fst st, w)))"

definition LDP_GetSessionClient :: "'w session_manager \<Rightarrow> string \<Rightarrow> (sessions \<times> 'w, string) call" where
  "LDP_GetSessionClient sm conversationID st =
     (case SM_GetClient conversationID (fst st) of
        None \<Rightarrow> (Inl (ErrWrap (''session not found: conversation '' @ conversationID) ErrSessionNotFound), st)
      | Some client \<Rightarrow> (Inr client, st))"

definition LDP_Close :: "'w session_manager \<Rightarrow> (sessions \<times> 'w, unit) call" where
  "LDP_Close sm st = SM_StopAll sm (fst st) (snd st)"

definition LDP_CleanupOrphans :: "'w session_manager \<Rightarrow> (sessions \<times> 'w, unit) call" where
  "LDP_CleanupOrphans sm st = (case SM_CleanupOrphans sm (snd st) of (res, w) \<Rightarrow> (res, fst st, w))"

definition LocalDockerProvider :: "nat \<Rightarrow> 'w session_manager \<Rightarrow> (sessions \<times> 'w) exec_provider" where
  "LocalDockerProvider fuel sm =
     \<lparr>xp_Execute = LDP_Execute fuel sm, xp_PrepareForRelogin = LDP_PrepareForRelogin fuel sm,
      xp_PullCredentialsFromSession = LDP_PullCredentialsFromSession sm,
      xp_GetSessionClient = LDP_GetSessionClient sm\<rparr>"

definition LocalProvider :: "'w agent_net \<Rightarrow> string \<Rightarrow> 'w exec_provider" where
  "LocalProvider n client =
     \<lparr>xp_Execute = (\<lambda>req w. Some (RC_Execute n client req w)),
      xp_PrepareForRelogin = (\<lambda>c w. Some (Inl (ErrText ''relogin not supported by single-client local provider''), w)),
      xp_PullCredentialsFromSession =
        (\<lambda>c w. (Inl (ErrText ''relogin not supported by single-client local provider''), w)),
      xp_GetSessionClient =
        (\<lambda>c w. (Inl (ErrText ''GetSessionClient not supported by single-client local provider''), w))\<rparr>"

text \<open>The two mock providers differ in the name they give; \<open>new_uuid\<close> is \<^verbatim>\<open>uuid.New\<close>.\<close>

definition mock_events :: "string \<Rightarrow> stream_event list" where
  "mock_events name =
     [zero_stream_event\<lparr>se_Type := ''assistant'',
        se_Message := Some [zero_content_block\<lparr>cb_Type := ''text'',
          cb_Text := ''This is a mock response from '' @ name @ '' provider''\<rparr>]\<rparr>,
      zero_stream_event\<lparr>se_Type := ''result'', se_Result := ''success''\<rparr>]"

definition MockProvider :: "string \<Rightarrow> ('w \<Rightarrow> string \<times> 'w) \<Rightarrow> 'w exec_provider" where
  "MockProvider name new_uuid =
     \<lparr>xp_Execute = (\<lambda>req w. case new_uuid w of (u, w) \<Rightarrow> Some ((Inr (''mock-session-'' @ u), mock_events name), w)),
      xp_PrepareForRelogin = (\<lambda>c w. Some (Inr (), w)),
      xp_PullCredentialsFromSession = (\<lambda>c w. (Inr (''{'' @ quoted ''mock'' @ '':true}''), w)),
      xp_GetSessionClient =
        (\<lambda>c w. (Inl (ErrText (''GetSessionClient not supported by '' @ name @ '' mock provider'')), w))\<rparr>"

definition cloudrunsandbox_MockProvider :: "('w \<Rightarrow> string \<times> 'w) \<Rightarrow> 'w exec_provider" where
  "cloudrunsandbox_MockProvider = MockProvider ''cloud_run_sandbox''"

definition dockergce_MockProvider :: "('w \<Rightarrow> string \<times> 'w) \<Rightarrow> 'w exec_provider" where
  "dockergce_MockProvider = MockProvider ''docker_gce''"

end
