(* ===== verification/Repository.thy ===== *)
theory Repository
  imports JsonValue
begin

text \<open>
  The PostgreSQL persistence layer: \<^verbatim>\<open>internal/db/repository.go\<close>, the start-up clean-up of
  \<^verbatim>\<open>internal/db/db.go\<close>, and the tables of \<^verbatim>\<open>internal/db/migrations\<close>.

  A table is a list of rows in insertion order.  An operation is one SQL statement in its own
  transaction: it yields a result and the database after it, and a statement that fails changes
  nothing.  Constraints of the migrations (PRIMARY KEY, UNIQUE, CHECK, REFERENCES, ON DELETE
  CASCADE) are written out in the operation that can violate them.  Outside the code and so
  fields of the database: \<open>db_now\<close> (\<^verbatim>\<open>NOW()\<close>, nanoseconds), \<open>db_uuids\<close>
  (\<^verbatim>\<open>gen_random_uuid()\<close>, the n-th value drawn) and \<open>db_faults\<close>, which says for each
  coming statement whether the connection fails and with which error; after the last entry no
  statement fails.  Where \<^verbatim>\<open>ORDER BY\<close> leaves ties open, rows keep their insertion order.
  \<^verbatim>\<open>nil\<close> times are \<open>None\<close>.  Identifiers and contents are byte strings.

  The operations work on any extension of the record, so a component that keeps more state next
  to the database calls them on its own world.
\<close>

section \<open>Rows and tables\<close>

record vm_instance =
  vm_id :: string
  vm_gce_instance_name :: string
  vm_zone :: string
  vm_internal_ip :: string
  vm_status :: string
  vm_active_containers :: int
  vm_idle_since :: "int option"
  vm_zero_agents_since :: "int option"
  vm_created_at :: int

record session_endpoint =
  ep_id :: string
  ep_conversation_id :: string
  ep_vm_instance_id :: string
  ep_container_name :: string
  ep_port :: int
  ep_status :: string
  ep_last_activity :: int
  ep_created_at :: int

record conversation =
  conv_id :: string
  conv_title :: string
  conv_model :: string
  conv_system_prompt :: "string option"
  conv_status :: string
  conv_created_at :: int
  conv_updated_at :: int

record message =
  msg_id :: string
  msg_conversation_id :: string
  msg_role :: string
  msg_data :: "json gomap"
  msg_status :: string
  msg_created_at :: int
  msg_updated_at :: int

record pgdb =
  db_now :: int
  db_uuids :: "nat \<Rightarrow> string"
  db_drawn :: nat
  db_faults :: "goerr option list"
  db_conversations :: "conversation list"
  db_messages :: "message list"
  db_vms :: "vm_instance list"
  db_endpoints :: "session_endpoint list"

definition conv_statuses :: "string list" where
  "conv_statuses = [''idle'', ''running'', ''completed'']"

definition msg_statuses :: "string list" where
  "msg_statuses = [''streaming'', ''completed'', ''error'']"

definition msg_roles :: "string list" where
  "msg_roles = [''user'', ''assistant'', ''system'']"

definition vm_statuses :: "string list" where
  "vm_statuses = [''provisioning'', ''running'', ''terminated'']"

section \<open>Statements\<close>

definition seconds :: "int \<Rightarrow> int" where
  "seconds n = n * 1000000000"

definition pgx_no_rows :: goerr where
  "pgx_no_rows = ErrVar ''pgx.ErrNoRows'' ''no rows in result set''"

definition violates :: "string \<Rightarrow> goerr" where
  "violates c = ErrText (''violates constraint '' @ c)"

definition pg_exec :: "('z pgdb_scheme, 'a) call \<Rightarrow> ('z pgdb_scheme, 'a) call" where
  "pg_exec q d =
     (case db_faults d of
        [] \<Rightarrow> q d
      | None # fs \<Rightarrow> q (d\<lparr>db_faults := fs\<rparr>)
      | Some e # fs \<Rightarrow> (Inl e, d\<lparr>db_faults := fs\<rparr>))"

definition draw_uuid :: "'z pgdb_scheme \<Rightarrow> string \<times> 'z pgdb_scheme" where
  "draw_uuid d = (db_uuids d (db_drawn d), d\<lparr>db_drawn := Suc (db_drawn d)\<rparr>)"

definition update_where :: "('r \<Rightarrow> bool) \<Rightarrow> ('r \<Rightarrow> 'r) \<Rightarrow> 'r list \<Rightarrow> 'r list" where
  "update_where p f rows = map (\<lambda>r. if p r then f r else r) rows"

definition first_row :: "'r list \<Rightarrow> 'r result" where
  "first_row rows = (case rows of [] \<Rightarrow> Inl pgx_no_rows | r # _ \<Rightarrow> Inr r)"

section \<open>Conversations\<close>

definition CreateConversation ::
    "string \<Rightarrow> string \<Rightarrow> string option \<Rightarrow> ('z pgdb_scheme, conversation) call" where
  "CreateConversation title model systemPrompt = pg_exec (\<lambda>d.
     let (u, d) = draw_uuid d;
         c = \<lparr>conv_id = u, conv_title = title, conv_model = model,
              conv_system_prompt = systemPrompt, conv_status = ''idle'',
              conv_created_at = db_now d, conv_updated_at = db_now d\<rparr>
     in if u \<in> set (map conv_id (db_conversations d)) then (Inl (violates ''conversations_pkey''), d)
        else (Inr c, d\<lparr>db_conversations := db_conversations d @ [c]\<rparr>))"

definition GetConversation :: "string \<Rightarrow> ('z pgdb_scheme, conversation) call" where
  "GetConversation i = pg_exec (\<lambda>d.
     (first_row (filter (\<lambda>c. conv_id c = i) (db_conversations d)), d))"

definition ListConversations :: "('z pgdb_scheme, conversation list) call" where
  "ListConversations = pg_exec (\<lambda>d.
     (Inr (sort_key (\<lambda>c. - conv_updated_at c) (db_conversations d)), d))"

definition DeleteConversation :: "string \<Rightarrow> ('z pgdb_scheme, unit) call" where
  "DeleteConversation i = pg_exec (\<lambda>d.
     (Inr (), d\<lparr>db_conversations := filter (\<lambda>c. conv_id c \<noteq> i) (db_conversations d),
                db_messages := filter (\<lambda>m. msg_conversation_id m \<noteq> i) (db_messages d),
                db_endpoints := filter (\<lambda>e. ep_conversation_id e \<noteq> i) (db_endpoints d)\<rparr>))"

definition UpdateConversationUpdatedAt :: "string \<Rightarrow> ('z pgdb_scheme, unit) call" where
  "UpdateConversationUpdatedAt i = pg_exec (\<lambda>d.
     (Inr (), d\<lparr>db_conversations := update_where (\<lambda>c. conv_id c = i)
                  (\<lambda>c. c\<lparr>conv_updated_at := db_now d\<rparr>) (db_conversations d)\<rparr>))"

definition UpdateConversationTitle :: "string \<Rightarrow> string \<Rightarrow> ('z pgdb_scheme, unit) call" where
  "UpdateConversationTitle i title = pg_exec (\<lambda>d.
     (Inr (), d\<lparr>db_conversations := update_where (\<lambda>c. conv_id c = i)
                  (\<lambda>c. c\<lparr>conv_title := title, conv_updated_at := db_now d\<rparr>) (db_conversations d)\<rparr>))"

definition UpdateConversationStatus :: "string \<Rightarrow> string \<Rightarrow> ('z pgdb_scheme, unit) call" where
  "UpdateConversationStatus i status = pg_exec (\<lambda>d.
     if status \<notin> set conv_statuses \<and> i \<in> set (map conv_id (db_conversations d))
     then (Inl (violates ''conversations_status_check''), d)
     else (Inr (), d\<lparr>db_conversations := update_where (\<lambda>c. conv_id c = i)
                       (\<lambda>c. c\<lparr>conv_status := status\<rparr>) (db_conversations d)\<rparr>))"

section \<open>Messages\<close>

definition insert_message ::
    "string \<Rightarrow> string \<Rightarrow> json gomap \<Rightarrow> string \<Rightarrow> ('z pgdb_scheme, message) call" where
  "insert_message conversationID role data status d =
     (let (u, d) = draw_uuid d;
          m = \<lparr>msg_id = u, msg_conversation_id = conversationID, msg_role = role, msg_data = data,
               msg_status = status, msg_created_at = db_now d, msg_updated_at = db_now d\<rparr>
      in if role \<notin> set msg_roles then (Inl (violates ''messages_role_check''), d)
         else if conversationID \<notin> set (map conv_id (db_conversations d))
         then (Inl (violates ''messages_conversation_id_fkey''), d)
         else if u \<in> set (map msg_id (db_messages d)) then (Inl (violates ''messages_pkey''), d)
         else (Inr m, d\<lparr>db_messages := db_messages d @ [m]\<rparr>))"

text \<open>
  \<open>CreateMessage\<close> takes the column default \<^verbatim>\<open>'completed'\<close> and does not read
  \<^verbatim>\<open>status\<close> and \<^verbatim>\<open>updated_at\<close> back: the struct it returns has their zero values.
\<close>

definition CreateMessage ::
    "string \<Rightarrow> string \<Rightarrow> json gomap \<Rightarrow> ('z pgdb_scheme, message) call" where
  "CreateMessage conversationID role data = pg_exec (\<lambda>d.
     case insert_message conversationID role data ''completed'' d of
       (Inl e, d) \<Rightarrow> (Inl e, d)
     | (Inr m, d) \<Rightarrow> (Inr (m\<lparr>msg_status := [], msg_updated_at := 0\<rparr>), d))"

definition ListMessages :: "string \<Rightarrow> ('z pgdb_scheme, message list) call" where
  "ListMessages conversationID = pg_exec (\<lambda>d.
     (Inr (sort_key msg_created_at
        (filter (\<lambda>m. msg_conversation_id m = conversationID) (db_messages d))), d))"

definition CreateStreamingMessage ::
    "string \<Rightarrow> string \<Rightarrow> json gomap \<Rightarrow> ('z pgdb_scheme, message) call" where
  "CreateStreamingMessage conversationID role data =
     pg_exec (insert_message conversationID role data ''streaming'')"

definition UpdateMessageContentBlocks :: "string \<Rightarrow> json \<Rightarrow> ('z pgdb_scheme, unit) call" where
  "UpdateMessageContentBlocks messageID contentBlocks = pg_exec (\<lambda>d.
     (Inr (), d\<lparr>db_messages := update_where (\<lambda>m. msg_id m = messageID)
        (\<lambda>m. m\<lparr>msg_data := jsonb_concat (msg_data m) [(''content_blocks'', contentBlocks)],
               msg_updated_at := db_now d\<rparr>) (db_messages d)\<rparr>))"

definition UpdateMessageStatus :: "string \<Rightarrow> string \<Rightarrow> ('z pgdb_scheme, unit) call" where
  "UpdateMessageStatus messageID status = pg_exec (\<lambda>d.
     if status \<notin> set msg_statuses \<and> messageID \<in> set (map msg_id (db_messages d))
     then (Inl (violates ''messages_status_check''), d)
     else (Inr (), d\<lparr>db_messages := update_where (\<lambda>m. msg_id m = messageID)
        (\<lambda>m. m\<lparr>msg_status := status, msg_updated_at := db_now d\<rparr>) (db_messages d)\<rparr>))"

definition MergeMessageData :: "string \<Rightarrow> json gomap \<Rightarrow> ('z pgdb_scheme, unit) call" where
  "MergeMessageData messageID extra = pg_exec (\<lambda>d.
     (Inr (), d\<lparr>db_messages := update_where (\<lambda>m. msg_id m = messageID)
        (\<lambda>m. m\<lparr>msg_data := jsonb_concat (msg_data m) extra, msg_updated_at := db_now d\<rparr>)
        (db_messages d)\<rparr>))"

definition cleanupOrphanedStreamingMessages :: "'z pgdb_scheme \<Rightarrow> 'z pgdb_scheme" where
  "cleanupOrphanedStreamingMessages d = snd (pg_exec (\<lambda>d.
     (Inr (), d\<lparr>db_messages := update_where
        (\<lambda>m. msg_status m = ''streaming'' \<and> msg_created_at m < db_now d - seconds (30 * 60))
        (\<lambda>m. m\<lparr>msg_status := ''error'', msg_updated_at := db_now d\<rparr>) (db_messages d)\<rparr>)) d)"

section \<open>GCE virtual machines\<close>

definition CreateVMInstance ::
    "string \<Rightarrow> string \<Rightarrow> string \<Rightarrow> ('z pgdb_scheme, vm_instance) call" where
  "CreateVMInstance gceInstanceName zone internalIP = pg_exec (\<lambda>d.
     let (u, d) = draw_uuid d;
         v = \<lparr>vm_id = u, vm_gce_instance_name = gceInstanceName, vm_zone = zone,
              vm_internal_ip = internalIP, vm_status = ''provisioning'', vm_active_containers = 0,
              vm_idle_since = None, vm_zero_agents_since = None, vm_created_at = db_now d\<rparr>
     in if u \<in> set (map vm_id (db_vms d)) then (Inl (violates ''vm_instances_pkey''), d)
        else if gceInstanceName \<in> set (map vm_gce_instance_name (db_vms d))
        then (Inl (violates ''vm_instances_gce_instance_name_key''), d)
        else (Inr v, d\<lparr>db_vms := db_vms d @ [v]\<rparr>))"

definition GetVMInstance :: "string \<Rightarrow> ('z pgdb_scheme, vm_instance) call" where
  "GetVMInstance i = pg_exec (\<lambda>d. (first_row (filter (\<lambda>v. vm_id v = i) (db_vms d)), d))"

definition GetVMInstanceByName :: "string \<Rightarrow> ('z pgdb_scheme, vm_instance) call" where
  "GetVMInstanceByName name = pg_exec (\<lambda>d.
     (first_row (filter (\<lambda>v. vm_gce_instance_name v = name) (db_vms d)), d))"

definition UpdateVMInstanceStatus :: "string \<Rightarrow> string \<Rightarrow> ('z pgdb_scheme, unit) call" where
  "UpdateVMInstanceStatus i status = pg_exec (\<lambda>d.
     if status \<notin> set vm_statuses \<and> i \<in> set (map vm_id (db_vms d))
     then (Inl (violates ''vm_instances_status_check''), d)
     else (Inr (), d\<lparr>db_vms := update_where (\<lambda>v. vm_id v = i) (\<lambda>v. v\<lparr>vm_status := status\<rparr>)
                       (db_vms d)\<rparr>))"

definition UpdateVMInstanceIP :: "string \<Rightarrow> string \<Rightarrow> ('z pgdb_scheme, unit) call" where
  "UpdateVMInstanceIP i internalIP = pg_exec (\<lambda>d.
     (Inr (), d\<lparr>db_vms := update_where (\<lambda>v. vm_id v = i)
                  (\<lambda>v. v\<lparr>vm_internal_ip := internalIP\<rparr>) (db_vms d)\<rparr>))"

definition IncrementVMActiveContainers :: "string \<Rightarrow> ('z pgdb_scheme, unit) call" where
  "IncrementVMActiveContainers i = pg_exec (\<lambda>d.
     (Inr (), d\<lparr>db_vms := update_where (\<lambda>v. vm_id v = i)
        (\<lambda>v. v\<lparr>vm_active_containers := vm_active_containers v + 1, vm_idle_since := None\<rparr>)
        (db_vms d)\<rparr>))"

definition DecrementVMActiveContainers :: "string \<Rightarrow> ('z pgdb_scheme, unit) call" where
  "DecrementVMActiveContainers i = pg_exec (\<lambda>d.
     (Inr (), d\<lparr>db_vms := update_where (\<lambda>v. vm_id v = i)
        (\<lambda>v. v\<lparr>vm_active_containers := max (vm_active_containers v - 1) 0,
               vm_idle_since := (if vm_active_containers v - 1 \<le> 0 then Some (db_now d)
                                 else vm_idle_since v)\<rparr>)
        (db_vms d)\<rparr>))"

definition GetAvailableVMInstance :: "int \<Rightarrow> ('z pgdb_scheme, vm_instance) call" where
  "GetAvailableVMInstance maxContainers = pg_exec (\<lambda>d.
     (first_row (sort_key (\<lambda>v. - vm_active_containers v)
        (filter (\<lambda>v. vm_status v = ''running'' \<and> vm_active_containers v < maxContainers)
          (db_vms d))), d))"

definition ListVMInstances :: "('z pgdb_scheme, vm_instance list) call" where
  "ListVMInstances = pg_exec (\<lambda>d. (Inr (sort_key vm_created_at (db_vms d)), d))"

text \<open>A \<^verbatim>\<open>NULL\<close> \<^verbatim>\<open>idle_since\<close> compares as unknown, so the row is not selected.\<close>

definition ListIdleVMInstances :: "int \<Rightarrow> ('z pgdb_scheme, vm_instance list) call" where
  "ListIdleVMInstances idleThreshold = pg_exec (\<lambda>d.
     (Inr (sort_key (\<lambda>v. case vm_idle_since v of Some t \<Rightarrow> t | None \<Rightarrow> 0)
        (filter (\<lambda>v. vm_status v = ''running'' \<and> vm_active_containers v = 0 \<and>
                   (case vm_idle_since v of Some t \<Rightarrow> t < db_now d - idleThreshold | None \<Rightarrow> False))
          (db_vms d))), d))"

definition ListRunningVMInstances :: "('z pgdb_scheme, vm_instance list) call" where
  "ListRunningVMInstances = pg_exec (\<lambda>d.
     (Inr (sort_key vm_created_at (filter (\<lambda>v. vm_status v = ''running'') (db_vms d))), d))"

definition SetVMZeroAgentsSince :: "string \<Rightarrow> int option \<Rightarrow> ('z pgdb_scheme, unit) call" where
  "SetVMZeroAgentsSince i t = pg_exec (\<lambda>d.
     (Inr (), d\<lparr>db_vms := update_where (\<lambda>v. vm_id v = i)
                  (\<lambda>v. v\<lparr>vm_zero_agents_since := t\<rparr>) (db_vms d)\<rparr>))"

text \<open>\<^verbatim>\<open>session_endpoints.vm_instance_id\<close> references the row with no ON DELETE action.\<close>

definition DeleteVMInstance :: "string \<Rightarrow> ('z pgdb_scheme, unit) call" where
  "DeleteVMInstance i = pg_exec (\<lambda>d.
     if i \<in> set (map vm_id (db_vms d)) \<and> i \<in> set (map ep_vm_instance_id (db_endpoints d))
     then (Inl (violates ''session_endpoints_vm_instance_id_fkey''), d)
     else (Inr (), d\<lparr>db_vms := filter (\<lambda>v. vm_id v \<noteq> i) (db_vms d)\<rparr>))"

section \<open>Session endpoints\<close>

definition CreateSessionEndpoint ::
    "string \<Rightarrow> string \<Rightarrow> string \<Rightarrow> int \<Rightarrow> ('z pgdb_scheme, session_endpoint) call" where
  "CreateSessionEndpoint conversationID vmInstanceID containerName port = pg_exec (\<lambda>d.
     let (u, d) = draw_uuid d;
         e = \<lparr>ep_id = u, ep_conversation_id = conversationID, ep_vm_instance_id = vmInstanceID,
              ep_container_name = containerName, ep_port = port, ep_status = ''running'',
              ep_last_activity = db_now d, ep_created_at = db_now d\<rparr>
     in if conversationID \<notin> set (map conv_id (db_conversations d))
        then (Inl (violates ''session_endpoints_conversation_id_fkey''), d)
        else if vmInstanceID \<notin> set (map vm_id (db_vms d))
        then (Inl (violates ''session_endpoints_vm_instance_id_fkey''), d)
        else if u \<in> set (map ep_id (db_endpoints d))
        then (Inl (violates ''session_endpoints_pkey''), d)
        else if conversationID \<in> set (map ep_conversation_id (db_endpoints d))
        then (Inl (violates ''session_endpoints_conversation_id_key''), d)
        else if (vmInstanceID, port) \<in> set (map (\<lambda>e. (ep_vm_instance_id e, ep_port e)) (db_endpoints d))
        then (Inl (violates ''session_endpoints_vm_port_unique''), d)
        else (Inr e, d\<lparr>db_endpoints := db_endpoints d @ [e]\<rparr>))"

definition GetSessionEndpointByConversationID ::
    "string \<Rightarrow> ('z pgdb_scheme, session_endpoint) call" where
  "GetSessionEndpointByConversationID conversationID = pg_exec (\<lambda>d.
     (first_row (filter (\<lambda>e. ep_conversation_id e = conversationID) (db_endpoints d)), d))"

definition UpdateSessionEndpointStatus :: "string \<Rightarrow> string \<Rightarrow> ('z pgdb_scheme, unit) call" where
  "UpdateSessionEndpointStatus i status = pg_exec (\<lambda>d.
     if status \<notin> set vm_statuses \<and> i \<in> set (map ep_id (db_endpoints d))
     then (Inl (violates ''session_endpoints_status_check''), d)
     else (Inr (), d\<lparr>db_endpoints := update_where (\<lambda>e. ep_id e = i)
                       (\<lambda>e. e\<lparr>ep_status := status\<rparr>) (db_endpoints d)\<rparr>))"

definition UpdateSessionEndpointLastActivity :: "string \<Rightarrow> ('z pgdb_scheme, unit) call" where
  "UpdateSessionEndpointLastActivity conversationID = pg_exec (\<lambda>d.
     (Inr (), d\<lparr>db_endpoints := update_where (\<lambda>e. ep_conversation_id e = conversationID)
                  (\<lambda>e. e\<lparr>ep_last_activity := db_now d\<rparr>) (db_endpoints d)\<rparr>))"

definition ListIdleSessionEndpoints :: "int \<Rightarrow> ('z pgdb_scheme, session_endpoint list) call" where
  "ListIdleSessionEndpoints idleThreshold = pg_exec (\<lambda>d.
     (Inr (sort_key ep_last_activity
        (filter (\<lambda>e. ep_status e = ''running'' \<and> ep_last_activity e < db_now d - idleThreshold)
          (db_endpoints d))), d))"

definition DeleteSessionEndpoint :: "string \<Rightarrow> ('z pgdb_scheme, unit) call" where
  "DeleteSessionEndpoint i = pg_exec (\<lambda>d.
     (Inr (), d\<lparr>db_endpoints := filter (\<lambda>e. ep_id e \<noteq> i) (db_endpoints d)\<rparr>))"

text \<open>
  \<^verbatim>\<open>generate_series(start, end)\<close> minus the ports of the running endpoints on the machine, the
  smallest first; no row is reported as port 0.
\<close>

definition busy_ports :: "string \<Rightarrow> session_endpoint list \<Rightarrow> int list" where
  "busy_ports vmID eps =
     map ep_port (filter (\<lambda>e. ep_vm_instance_id e = vmID \<and> ep_status e = ''running'') eps)"

definition GetSmallestAvailablePortOnVM ::
    "string \<Rightarrow> int \<Rightarrow> int \<Rightarrow> ('z pgdb_scheme, int) call" where
  "GetSmallestAvailablePortOnVM vmID lo hi = pg_exec (\<lambda>d.
     case first_row (filter (\<lambda>p. p \<notin> set (busy_ports vmID (db_endpoints d))) [lo..hi]) of
       Inl e \<Rightarrow> (if errors_is e ''pgx.ErrNoRows'' then (Inr 0, d) else (Inl e, d))
     | Inr p \<Rightarrow> (Inr p, d))"

end
