(* ===== verification/DockerGCE.thy ===== *)
theory DockerGCE
  imports GceClient SessionManager Repository ReapClock "HOL-Library.Signed_Division"
begin

text \<open>
  The provider that runs agents on Compute Engine machines, \<^verbatim>\<open>internal/provider/dockergce\<close>
  (\<^verbatim>\<open>provider.go\<close>, \<^verbatim>\<open>idle_checker.go\<close>, \<^verbatim>\<open>vmscaler.go\<close>).

  The world is the database together with whatever the Compute API, the container-managers, the
  agents and the clock keep of their own (the rest of the record).  A deadline of a
  \<^verbatim>\<open>context.WithTimeout\<close> is the time at which it expires: \<open>ck_select_until\<close> is the \<^verbatim>\<open>select\<close>
  between such a context and a timer.  That a call is cut short by its context is part of what
  the call does to the world.  Loops that poll have fuel, and \<open>None\<close> says that it is used up.
  \<^verbatim>\<open>singleflight\<close> makes callers for one conversation share one run of the function it guards:
  what is modelled is that run.
\<close>

section \<open>Configuration\<close>

record gce_config =
  gc_ProjectID :: string
  gc_Zone :: string
  gc_MachineType :: string
  gc_VMImage :: string
  gc_VMServiceAccount :: string
  gc_VMSubnetwork :: string
  gc_AgentImage :: string
  gc_AgentPort :: int
  gc_IdleTimeout :: int
  gc_MaxContainers :: int
  gc_IdleCheckInterval :: int
  gc_ZeroAgentsTimeout :: int
  gc_VMReconcileInterval :: int
  gc_ContainerManagerProbeTimeout :: int
  gc_VMReadyTimeout :: int
  gc_ContainerManagerReadyTimeout :: int
  gc_AgentReadyTimeout :: int
  gc_PollInterval :: int
  gc_DockerPingTimeout :: int
  gc_ContainerNamePrefix :: string
  gc_PortRangeStart :: int
  gc_PortRangeEnd :: int
  gc_ContainerManagerPort :: int

record 'w gce_clock = "'w clock" +
  ck_select_until :: "int \<Rightarrow> int \<Rightarrow> ('w, unit) call"

record 'w gce_provider =
  gp_config :: gce_config
  gp_gce :: "'w gce_client"
  gp_net :: "'w agent_net"
  gp_newDockerClient :: "string \<Rightarrow> 'w container_manager result"
  gp_clock :: "'w gce_clock"
  gp_new_uuid :: "'w \<Rightarrow> string \<times> 'w"
  gp_idleChecker :: "int option"
  gp_vmScaler :: "int option"

definition or_default :: "int \<Rightarrow> int \<Rightarrow> int" where
  "or_default x dflt = (if x = 0 then dflt else x)"

definition gce_config_defaults :: "gce_config \<Rightarrow> gce_config" where
  "gce_config_defaults cfg =
     cfg\<lparr>gc_MachineType := (if gc_MachineType cfg = [] then ''e2-medium'' else gc_MachineType cfg),
         gc_AgentPort := or_default (gc_AgentPort cfg) 9091,
         gc_MaxContainers := or_default (gc_MaxContainers cfg) 10,
         gc_IdleTimeout := or_default (gc_IdleTimeout cfg) (seconds (15 * 60)),
         gc_VMReadyTimeout := or_default (gc_VMReadyTimeout cfg) (seconds (3 * 60)),
         gc_ContainerManagerReadyTimeout := or_default (gc_ContainerManagerReadyTimeout cfg) (seconds (5 * 60)),
         gc_AgentReadyTimeout := or_default (gc_AgentReadyTimeout cfg) (seconds 60),
         gc_PollInterval := or_default (gc_PollInterval cfg) (seconds 5),
         gc_DockerPingTimeout := or_default (gc_DockerPingTimeout cfg) (seconds 3),
         gc_ZeroAgentsTimeout := or_default (gc_ZeroAgentsTimeout cfg) (seconds (10 * 60)),
         gc_ContainerManagerProbeTimeout := or_default (gc_ContainerManagerProbeTimeout cfg) (seconds 5),
         gc_ContainerNamePrefix :=
           (if gc_ContainerNamePrefix cfg = [] then ''session'' else gc_ContainerNamePrefix cfg),
         gc_PortRangeStart := or_default (gc_PortRangeStart cfg) 61000,
         gc_PortRangeEnd := or_default (gc_PortRangeEnd cfg) 61999,
         gc_ContainerManagerPort := or_default (gc_ContainerManagerPort cfg) 9090\<rparr>"

text \<open>
  The two background goroutines are remembered by their intervals.  \<open>factory\<close> is
  \<^verbatim>\<open>ContainerManagerFactory\<close>, \<open>dflt\<close> is \<^verbatim>\<open>cmclient.NewClient\<close>.
\<close>

definition NewDockerGCEProvider ::
    "gce_config \<Rightarrow> (string \<Rightarrow> 'w container_manager result) option \<Rightarrow>
     (string \<Rightarrow> 'w container_manager result) \<Rightarrow> 'w gce_client \<Rightarrow> 'w agent_net \<Rightarrow> 'w gce_clock \<Rightarrow>
     ('w \<Rightarrow> string \<times> 'w) \<Rightarrow> 'w gce_provider" where
  "NewDockerGCEProvider cfg factory dflt gce net clock new_uuid =
     (let cfg = gce_config_defaults cfg in
      \<lparr>gp_config = cfg, gp_gce = gce, gp_net = net,
       gp_newDockerClient = (case factory of Some f \<Rightarrow> f | None \<Rightarrow> dflt),
       gp_clock = clock, gp_new_uuid = new_uuid,
       gp_idleChecker = (if gc_IdleCheckInterval cfg > 0 then Some (gc_IdleCheckInterval cfg) else None),
       gp_vmScaler = (if gc_VMReconcileInterval cfg > 0 then Some (gc_VMReconcileInterval cfg) else None)\<rparr>)"

section \<open>Addresses\<close>

definition http_url :: "string \<Rightarrow> int \<Rightarrow> string" where
  "http_url ip port = ''http://'' @ ip @ '':'' @ itoa port"

definition cm_url :: "'w gce_provider \<Rightarrow> string \<Rightarrow> string" where
  "cm_url p ip = http_url ip (gc_ContainerManagerPort (gp_config p))"

definition container_name :: "'w gce_provider \<Rightarrow> string \<Rightarrow> string" where
  "container_name p conversationID = gc_ContainerNamePrefix (gp_config p) @ ''-'' @ conversationID"

definition deadline :: "'w gce_provider \<Rightarrow> int \<Rightarrow> 'w \<Rightarrow> int" where
  "deadline p timeout w = ck_now (gp_clock p) w + timeout"

section \<open>Finding a machine\<close>

text \<open>\<open>n\<close> attempts are left; \<open>lastErr\<close> is the error of the latest one.\<close>

fun pick_attempts ::
    "nat \<Rightarrow> ('z pgdb_scheme) gce_provider \<Rightarrow> goerr option \<Rightarrow> ('z pgdb_scheme, vm_instance) call" where
  "pick_attempts 0 p lastErr w =
     (Inl (case lastErr of Some err \<Rightarrow> err | None \<Rightarrow> ErrText ''no healthy available VM after 5 attempts''), w)"
| "pick_attempts (Suc n) p lastErr w =
     (case GetAvailableVMInstance (gc_MaxContainers (gp_config p)) w of
        (Inl err, w) \<Rightarrow> (Inl err, w)
      | (Inr vm, w) \<Rightarrow>
          (case gp_newDockerClient p (cm_url p (vm_internal_ip vm)) of
             Inl err \<Rightarrow>
               pick_attempts n p
                 (Some (errorf (''create container-manager client for '' @ cm_url p (vm_internal_ip vm)) err))
                 (snd (UpdateVMInstanceStatus (vm_id vm) ''unhealthy'' w))
           | Inr dcm \<Rightarrow>
               (case cm_IsReady dcm w of
                  (ready, w) \<Rightarrow>
                    if ready then (Inr vm, w)
                    else
                      (case UpdateVMInstanceStatus (vm_id vm) ''unhealthy'' w of
                         (Inl err, w) \<Rightarrow> (Inl (errorf (''mark VM '' @ vm_id vm @ '' unhealthy'') err), w)
                       | (Inr _, w) \<Rightarrow>
                           pick_attempts n p
                             (Some (ErrText (''container-manager at '' @ cm_url p (vm_internal_ip vm) @ '' unreachable'')))
                             w))))"

definition pickHealthyAvailableVM :: "('z pgdb_scheme) gce_provider \<Rightarrow> ('z pgdb_scheme, vm_instance) call" where
  "pickHealthyAvailableVM p = pick_attempts 5 p None"

definition buildStartupScript :: string where
  "buildStartupScript =
     ''#!/bin/bash'' @ [CHR 0x0A] @ ''# managed by Packer image; nothing to do at boot.'' @ [CHR 0x0A]"

definition vm_create_request :: "gce_config \<Rightarrow> string \<Rightarrow> create_instance_request" where
  "vm_create_request cfg vmName =
     \<lparr>gr_Project = gc_ProjectID cfg, gr_Zone = gc_Zone cfg, gr_Name = vmName,
      gr_MachineType = gc_MachineType cfg, gr_SourceImage = gc_VMImage cfg,
      gr_StartupScript = buildStartupScript, gr_Labels = [(''managed-by'', ''cc-tunnel'')],
      gr_Tags = [''cc-tunnel-agent''], gr_ServiceAccountEmail = gc_VMServiceAccount cfg,
      gr_Subnetwork = gc_VMSubnetwork cfg\<rparr>"

definition createGCEVM :: "('z pgdb_scheme) gce_provider \<Rightarrow> ('z pgdb_scheme, vm_instance) call" where
  "createGCEVM p w =
     (case gp_new_uuid p w of
        (u, w) \<Rightarrow>
          (case gce_CreateInstance (gp_gce p) (vm_create_request (gp_config p) (''cc-tunnel-'' @ take 8 u)) w of
             (Inl err, w) \<Rightarrow> (Inl (errorf ''create GCE instance'' err), w)
           | (Inr inst, w) \<Rightarrow>
               wrap_err ''record VM in DB''
                 (CreateVMInstance (gi_Name inst) (gc_Zone (gp_config p)) (gi_NetworkIP inst) w)))"

section \<open>Waiting\<close>

text \<open>
  The three wait loops have one shape: probe; when that fails, wait for the pause or the end of the
  loop's context, whose error is then returned behind the text \<open>what\<close>.
\<close>

fun poll ::
    "nat \<Rightarrow> 'w gce_provider \<Rightarrow> int \<Rightarrow> string \<Rightarrow> ('w \<Rightarrow> 'a option \<times> 'w) \<Rightarrow> 'w \<Rightarrow> ('a result \<times> 'w) option" where
  "poll 0 p until what probe w = None"
| "poll (Suc fuel) p until what probe w =
     (case probe w of
        (Some x, w) \<Rightarrow> Some (Inr x, w)
      | (None, w) \<Rightarrow>
          (case ck_select_until (gp_clock p) until (gc_PollInterval (gp_config p)) w of
             (Inl err, w) \<Rightarrow> Some (Inl (errorf what err), w)
           | (Inr _, w) \<Rightarrow> poll fuel p until what probe w))"

definition probe_running :: "'w gce_provider \<Rightarrow> string \<Rightarrow> 'w \<Rightarrow> string option \<times> 'w" where
  "probe_running p name w =
     (case gce_GetInstance (gp_gce p) (gc_ProjectID (gp_config p)) (gc_Zone (gp_config p)) name w of
        (Inl _, w) \<Rightarrow> (None, w)
      | (Inr inst, w) \<Rightarrow>
          (if gi_Status inst = ''RUNNING'' \<and> gi_NetworkIP inst \<noteq> [] then Some (gi_NetworkIP inst) else None, w))"

definition probe_manager :: "'w container_manager \<Rightarrow> 'w \<Rightarrow> unit option \<times> 'w" where
  "probe_manager dcm w = (case cm_IsReady dcm w of (ready, w) \<Rightarrow> (if ready then Some () else None, w))"

definition probe_agent :: "'w gce_provider \<Rightarrow> string \<Rightarrow> 'w \<Rightarrow> unit option \<times> 'w" where
  "probe_agent p agentURL w =
     (case RC_GetAuthStatus (gp_net p) agentURL w of (Inr _, w) \<Rightarrow> (Some (), w) | (Inl _, w) \<Rightarrow> (None, w))"

definition running_timeout :: "string \<Rightarrow> string" where
  "running_timeout name = ''timeout waiting for VM '' @ quoted name @ '' to be RUNNING''"

definition manager_timeout :: "string \<Rightarrow> string" where
  "manager_timeout cmURL = ''timeout waiting for container-manager at '' @ cmURL"

definition waitForVMReady ::
    "nat \<Rightarrow> ('z pgdb_scheme) gce_provider \<Rightarrow> vm_instance \<Rightarrow> 'z pgdb_scheme \<Rightarrow>
     (string result \<times> 'z pgdb_scheme) option" where
  "waitForVMReady fuel p vm w =
     (case poll fuel p (deadline p (gc_VMReadyTimeout (gp_config p)) w)
             (running_timeout (vm_gce_instance_name vm))
             (probe_running p (vm_gce_instance_name vm)) w of
        None \<Rightarrow> None
      | Some (Inl err, w) \<Rightarrow> Some (Inl err, w)
      | Some (Inr networkIP, w) \<Rightarrow>
          let w = snd (UpdateVMInstanceIP (vm_id vm) networkIP w);
              w = snd (UpdateVMInstanceStatus (vm_id vm) ''running'' w);
              cmURL = cm_url p networkIP
          in case gp_newDockerClient p cmURL of
               Inl err \<Rightarrow> Some (Inl (errorf (''create container-manager client for '' @ cmURL) err), w)
             | Inr dcm \<Rightarrow>
                 (case poll fuel p (deadline p (gc_ContainerManagerReadyTimeout (gp_config p)) w)
                         (manager_timeout cmURL) (probe_manager dcm) w of
                    None \<Rightarrow> None
                  | Some (Inl err, w) \<Rightarrow> Some (Inl err, w)
                  | Some (Inr _, w) \<Rightarrow> Some (Inr networkIP, w)))"

definition waitForAgentReady ::
    "nat \<Rightarrow> 'w gce_provider \<Rightarrow> string \<Rightarrow> int \<Rightarrow> 'w \<Rightarrow> (unit result \<times> 'w) option" where
  "waitForAgentReady fuel p vmIP port w =
     poll fuel p (deadline p (gc_AgentReadyTimeout (gp_config p)) w)
       (''timeout waiting for cc-remote-agent at '' @ http_url vmIP port) (probe_agent p (http_url vmIP port)) w"

section \<open>Endpoints\<close>

text \<open>\<^verbatim>\<open>GetSessionEndpointByConversationID\<close> followed by \<^verbatim>\<open>err == nil && ep.Status == "running"\<close>.\<close>

definition running_endpoint ::
    "string \<Rightarrow> 'z pgdb_scheme \<Rightarrow> session_endpoint option \<times> 'z pgdb_scheme" where
  "running_endpoint conversationID w =
     (case GetSessionEndpointByConversationID conversationID w of
        (Inl _, w) \<Rightarrow> (None, w)
      | (Inr ep, w) \<Rightarrow> (if ep_status ep = ''running'' then Some ep else None, w))"

definition agent_run_request :: "'w gce_provider \<Rightarrow> string \<Rightarrow> string \<Rightarrow> int \<Rightarrow> cm_run_request" where
  "agent_run_request p conversationID vmID hostPort =
     \<lparr>cr_image = gc_AgentImage (gp_config p), cr_name = container_name p conversationID,
      cr_host_port = hostPort, cr_container_port = gc_AgentPort (gp_config p), cr_network = [],
      cr_env = [''PORT='' @ itoa (gc_AgentPort (gp_config p))],
      cr_labels = [(''component'', ''cc-remote-agent''), (''conversation_id'', conversationID),
                   (''vm_instance_id'', vmID)]\<rparr>"

text \<open>Stop and remove, both errors ignored.\<close>

definition discard_agent :: "'w container_manager \<Rightarrow> string \<Rightarrow> 'w \<Rightarrow> 'w" where
  "discard_agent dcm name w = snd (cm_RemoveContainer dcm name (snd (cm_StopContainer dcm name w)))"

text \<open>One round of the port loop: it ends the loop with an error, records the endpoint, or finds that the
  endpoint cannot be recorded.\<close>

datatype attempt = Abort goerr | Recorded session_endpoint | Collided goerr

definition try_port ::
    "nat \<Rightarrow> ('z pgdb_scheme) gce_provider \<Rightarrow> string \<Rightarrow> string \<Rightarrow> string \<Rightarrow> 'z pgdb_scheme \<Rightarrow>
     (attempt \<times> 'z pgdb_scheme) option" where
  "try_port fuel p conversationID vmID ip w =
     (case GetSmallestAvailablePortOnVM vmID (gc_PortRangeStart (gp_config p)) (gc_PortRangeEnd (gp_config p)) w of
        (Inl err, w) \<Rightarrow> Some (Abort (errorf ''get smallest available port on VM'' err), w)
      | (Inr hostPort, w) \<Rightarrow>
          if hostPort = 0
          then Some (Abort (ErrText (''VM '' @ vmID @ '': no free host port in ['' @
                 itoa (gc_PortRangeStart (gp_config p)) @ '', '' @ itoa (gc_PortRangeEnd (gp_config p)) @ '']'')), w)
          else
            (case gp_newDockerClient p (cm_url p ip) of
               Inl err \<Rightarrow> Some (Abort (errorf (''create container-manager client for '' @ cm_url p ip) err), w)
             | Inr dcm \<Rightarrow>
                 (case cm_RunAgent dcm (agent_run_request p conversationID vmID hostPort) w of
                    (Inl err, w) \<Rightarrow> Some (Abort (errorf (''run agent container on '' @ ip) err), w)
                  | (Inr _, w) \<Rightarrow>
                      (case waitForAgentReady fuel p ip hostPort w of
                         None \<Rightarrow> None
                       | Some (Inl err, w) \<Rightarrow>
                           Some (Abort (errorf ''wait for agent ready'' err),
                                 discard_agent dcm (container_name p conversationID) w)
                       | Some (Inr _, w) \<Rightarrow>
                           (case CreateSessionEndpoint conversationID vmID (container_name p conversationID) hostPort w of
                              (Inr ep, w) \<Rightarrow> Some (Recorded ep, w)
                            | (Inl err, w) \<Rightarrow>
                                Some (Collided err, discard_agent dcm (container_name p conversationID) w))))))"

text \<open>\<open>n\<close> rounds may follow this one; the code starts with \<open>n = 2\<close>.\<close>

fun port_loop ::
    "nat \<Rightarrow> ('z pgdb_scheme) gce_provider \<Rightarrow> string \<Rightarrow> string \<Rightarrow> string \<Rightarrow> nat \<Rightarrow> 'z pgdb_scheme \<Rightarrow>
     (session_endpoint result \<times> 'z pgdb_scheme) option" where
  "port_loop fuel p conversationID vmID ip n w =
     (case try_port fuel p conversationID vmID ip w of
        None \<Rightarrow> None
      | Some (Abort err, w) \<Rightarrow> Some (Inl err, w)
      | Some (Recorded ep, w) \<Rightarrow> Some (Inr ep, w)
      | Some (Collided err, w) \<Rightarrow>
          (case n of
             0 \<Rightarrow> Some (Inl (errorf ''create session endpoint after 3 attempts'' err), w)
           | Suc n \<Rightarrow>
               (case ck_select (gp_clock p) (gc_PollInterval (gp_config p) sdiv 2) w of
                  (Inl err, w) \<Rightarrow> Some (Inl err, w)
                | (Inr _, w) \<Rightarrow> port_loop fuel p conversationID vmID ip n w)))"

declare port_loop.simps [simp del]

text \<open>A machine that can be used: an available one, or a new one once it is ready.\<close>

definition obtain_vm ::
    "nat \<Rightarrow> ('z pgdb_scheme) gce_provider \<Rightarrow> 'z pgdb_scheme \<Rightarrow> (vm_instance result \<times> 'z pgdb_scheme) option" where
  "obtain_vm fuel p w =
     (case pickHealthyAvailableVM p w of
        (Inr vm, w) \<Rightarrow> Some (Inr vm, w)
      | (Inl _, w) \<Rightarrow>
          (case createGCEVM p w of
             (Inl err, w) \<Rightarrow> Some (Inl (errorf ''create GCE VM'' err), w)
           | (Inr vm, w) \<Rightarrow>
               (case waitForVMReady fuel p vm w of
                  None \<Rightarrow> None
                | Some (Inl err, w) \<Rightarrow> Some (Inl (errorf ''wait for VM ready'' err), w)
                | Some (Inr networkIP, w) \<Rightarrow> Some (Inr (vm\<lparr>vm_internal_ip := networkIP\<rparr>), w))))"

definition createEndpoint ::
    "nat \<Rightarrow> ('z pgdb_scheme) gce_provider \<Rightarrow> string \<Rightarrow> 'z pgdb_scheme \<Rightarrow>
     (session_endpoint result \<times> 'z pgdb_scheme) option" where
  "createEndpoint fuel p conversationID w =
     (case running_endpoint conversationID w of
        (Some ep, w) \<Rightarrow> Some (Inr ep, w)
      | (None, w) \<Rightarrow>
          (case obtain_vm fuel p w of
             None \<Rightarrow> None
           | Some (Inl err, w) \<Rightarrow> Some (Inl err, w)
           | Some (Inr vm, w) \<Rightarrow>
               (case port_loop fuel p conversationID (vm_id vm) (vm_internal_ip vm) 2 w of
                  None \<Rightarrow> None
                | Some (Inl err, w) \<Rightarrow> Some (Inl err, w)
                | Some (Inr ep, w) \<Rightarrow>
                    (case IncrementVMActiveContainers (vm_id vm) w of
                       (Inl err, w) \<Rightarrow> Some (Inl (errorf ''increment VM active containers'' err), w)
                     | (Inr _, w) \<Rightarrow> Some (Inr ep, w)))))"

definition getOrCreateEndpoint ::
    "nat \<Rightarrow> ('z pgdb_scheme) gce_provider \<Rightarrow> string \<Rightarrow> 'z pgdb_scheme \<Rightarrow>
     (session_endpoint result \<times> 'z pgdb_scheme) option" where
  "getOrCreateEndpoint fuel p conversationID w =
     (case running_endpoint conversationID w of
        (Some ep, w) \<Rightarrow> Some (Inr ep, w)
      | (None, w) \<Rightarrow> createEndpoint fuel p conversationID w)"

section \<open>The provider's operations\<close>

definition GCE_Execute ::
    "nat \<Rightarrow> ('z pgdb_scheme) gce_provider \<Rightarrow> exec_request \<Rightarrow> 'z pgdb_scheme \<Rightarrow>
     ((string result \<times> stream_event list) \<times> 'z pgdb_scheme) option" where
  "GCE_Execute fuel p req w =
     (case getOrCreateEndpoint fuel p (er_ConversationID req) w of
        None \<Rightarrow> None
      | Some (Inl err, w) \<Rightarrow> Some ((Inl (errorf ''get or create endpoint'' err), []), w)
      | Some (Inr ep, w) \<Rightarrow>
          (case GetVMInstance (ep_vm_instance_id ep) w of
             (Inl err, w) \<Rightarrow> Some ((Inl (errorf ''get VM instance'' err), []), w)
           | (Inr vm, w) \<Rightarrow>
               (case RC_Execute (gp_net p) (http_url (vm_internal_ip vm) (ep_port ep)) req w of
                  ((Inl err, events), w) \<Rightarrow> Some ((Inl (errorf ''remote execute'' err), events), w)
                | ((Inr sessionID, events), w) \<Rightarrow>
                    Some ((Inr sessionID, events),
                          snd (UpdateSessionEndpointLastActivity (er_ConversationID req) w)))))"

definition GCE_PrepareForRelogin ::
    "nat \<Rightarrow> ('z pgdb_scheme) gce_provider \<Rightarrow> string \<Rightarrow> 'z pgdb_scheme \<Rightarrow> (unit result \<times> 'z pgdb_scheme) option" where
  "GCE_PrepareForRelogin fuel p conversationID w =
     (case getOrCreateEndpoint fuel p conversationID w of
        None \<Rightarrow> None
      | Some (Inl err, w) \<Rightarrow> Some (Inl err, w)
      | Some (Inr _, w) \<Rightarrow> Some (Inr (), w))"

definition GCE_PullCredentialsFromSession ::
    "('z pgdb_scheme) gce_provider \<Rightarrow> string \<Rightarrow> ('z pgdb_scheme, string) call" where
  "GCE_PullCredentialsFromSession p conversationID w =
     (case GetSessionEndpointByConversationID conversationID w of
        (Inl err, w) \<Rightarrow> (Inl (errorf ''get session endpoint'' err), w)
      | (Inr ep, w) \<Rightarrow>
          (case GetVMInstance (ep_vm_instance_id ep) w of
             (Inl err, w) \<Rightarrow> (Inl (errorf ''get VM instance'' err), w)
           | (Inr vm, w) \<Rightarrow> RC_FinalizeCredentials (gp_net p) (http_url (vm_internal_ip vm) (ep_port ep)) w))"

definition GCE_GetSessionClient ::
    "('z pgdb_scheme) gce_provider \<Rightarrow> string \<Rightarrow> ('z pgdb_scheme, string) call" where
  "GCE_GetSessionClient p conversationID w =
     (case GetSessionEndpointByConversationID conversationID w of
        (Inl err, w) \<Rightarrow>
          (Inl (ErrWrap (error_string ErrSessionNotFound @ '': conversation '' @ conversationID @ '': '' @
                  error_string err) ErrSessionNotFound), w)
      | (Inr ep, w) \<Rightarrow>
          (case GetVMInstance (ep_vm_instance_id ep) w of
             (Inl err, w) \<Rightarrow> (Inl (errorf (''get VM instance for conversation '' @ conversationID) err), w)
           | (Inr vm, w) \<Rightarrow> (Inr (http_url (vm_internal_ip vm) (ep_port ep)), w)))"

definition DockerGCEProvider ::
    "nat \<Rightarrow> ('z pgdb_scheme) gce_provider \<Rightarrow> ('z pgdb_scheme) exec_provider" where
  "DockerGCEProvider fuel p =
     \<lparr>xp_Execute = GCE_Execute fuel p, xp_PrepareForRelogin = GCE_PrepareForRelogin fuel p,
      xp_PullCredentialsFromSession = GCE_PullCredentialsFromSession p,
      xp_GetSessionClient = GCE_GetSessionClient p\<rparr>"

section \<open>Cleaning up\<close>

definition release_container :: "('z pgdb_scheme) gce_provider \<Rightarrow> session_endpoint \<Rightarrow> 'z pgdb_scheme \<Rightarrow> 'z pgdb_scheme" where
  "release_container p ep w =
     (case GetVMInstance (ep_vm_instance_id ep) w of
        (Inl _, w) \<Rightarrow> w
      | (Inr vm, w) \<Rightarrow>
          if vm_internal_ip vm \<noteq> [] then
            (case gp_newDockerClient p (cm_url p (vm_internal_ip vm)) of
               Inl _ \<Rightarrow> w
             | Inr dcm \<Rightarrow> discard_agent dcm (ep_container_name ep) w)
          else w)"

fun cleanup_endpoints ::
    "('z pgdb_scheme) gce_provider \<Rightarrow> session_endpoint list \<Rightarrow> ('z pgdb_scheme, unit) call" where
  "cleanup_endpoints p [] w = (Inr (), w)"
| "cleanup_endpoints p (ep # eps) w =
     (case DeleteSessionEndpoint (ep_id ep)
             (snd (DecrementVMActiveContainers (ep_vm_instance_id ep) (release_container p ep w))) of
        (Inl err, w) \<Rightarrow> (Inl (errorf (''delete session endpoint '' @ ep_id ep) err), w)
      | (Inr _, w) \<Rightarrow> cleanup_endpoints p eps w)"

fun cleanup_vms :: "('z pgdb_scheme) gce_provider \<Rightarrow> vm_instance list \<Rightarrow> ('z pgdb_scheme, unit) call" where
  "cleanup_vms p [] w = (Inr (), w)"
| "cleanup_vms p (vm # vms) w =
     (case DeleteVMInstance (vm_id vm)
             (snd (gce_DeleteInstance (gp_gce p) (gc_ProjectID (gp_config p)) (gc_Zone (gp_config p))
                     (vm_gce_instance_name vm) w)) of
        (Inl err, w) \<Rightarrow> (Inl (errorf (''delete VM instance '' @ vm_id vm) err), w)
      | (Inr _, w) \<Rightarrow> cleanup_vms p vms w)"

definition CleanupOrphans :: "('z pgdb_scheme) gce_provider \<Rightarrow> ('z pgdb_scheme, unit) call" where
  "CleanupOrphans p w =
     (case ListIdleSessionEndpoints (gc_IdleTimeout (gp_config p)) w of
        (Inl err, w) \<Rightarrow> (Inl (errorf ''list idle session endpoints'' err), w)
      | (Inr endpoints, w) \<Rightarrow>
          (case cleanup_endpoints p endpoints w of
             (Inl err, w) \<Rightarrow> (Inl err, w)
           | (Inr _, w) \<Rightarrow>
               (case ListIdleVMInstances (gc_IdleTimeout (gp_config p)) w of
                  (Inl err, w) \<Rightarrow> (Inl (errorf ''list idle VM instances'' err), w)
                | (Inr vms, w) \<Rightarrow> cleanup_vms p vms w)))"

section \<open>Reconciling machines\<close>

text \<open>The body of the loop of \<^verbatim>\<open>ReconcileVMs\<close>; every \<^verbatim>\<open>continue\<close> is \<open>Inr ()\<close>.\<close>

definition reconcile_vm :: "('z pgdb_scheme) gce_provider \<Rightarrow> vm_instance \<Rightarrow> ('z pgdb_scheme, unit) call" where
  "reconcile_vm p vm w =
     (if vm_internal_ip vm = [] then (Inr (), w)
      else
        (case gp_newDockerClient p (cm_url p (vm_internal_ip vm)) of
           Inl _ \<Rightarrow> (Inr (), w)
         | Inr dcm \<Rightarrow>
             (case cm_ListAgents dcm w of
                (Inl _, w) \<Rightarrow> (Inr (), w)
              | (Inr agents, w) \<Rightarrow>
                  if length agents > 0 then
                    (Inr (), if vm_zero_agents_since vm \<noteq> None
                             then snd (SetVMZeroAgentsSince (vm_id vm) None w) else w)
                  else
                    (case vm_zero_agents_since vm of
                       None \<Rightarrow>
                         (Inr (), snd (SetVMZeroAgentsSince (vm_id vm) (Some (ck_now (gp_clock p) w)) w))
                     | Some since \<Rightarrow>
                         if ck_now (gp_clock p) w - since < gc_ZeroAgentsTimeout (gp_config p) then (Inr (), w)
                         else
                           (case gce_DeleteInstance (gp_gce p) (gc_ProjectID (gp_config p))
                                   (gc_Zone (gp_config p)) (vm_gce_instance_name vm) w of
                              (Inl _, w) \<Rightarrow> (Inr (), w)
                            | (Inr _, w) \<Rightarrow>
                                wrap_err (''delete VM instance '' @ vm_id vm) (DeleteVMInstance (vm_id vm) w))))))"

fun reconcile_each :: "('z pgdb_scheme) gce_provider \<Rightarrow> vm_instance list \<Rightarrow> ('z pgdb_scheme, unit) call" where
  "reconcile_each p [] w = (Inr (), w)"
| "reconcile_each p (vm # vms) w =
     (case reconcile_vm p vm w of
        (Inl err, w) \<Rightarrow> (Inl err, w)
      | (Inr _, w) \<Rightarrow> reconcile_each p vms w)"

definition ReconcileVMs :: "('z pgdb_scheme) gce_provider \<Rightarrow> ('z pgdb_scheme, unit) call" where
  "ReconcileVMs p w =
     (case ListRunningVMInstances w of
        (Inl err, w) \<Rightarrow> (Inl (errorf ''list running VM instances'' err), w)
      | (Inr vms, w) \<Rightarrow> reconcile_each p vms w)"

section \<open>Background loops\<close>

text \<open>
  \<^verbatim>\<open>IdleChecker\<close> and \<^verbatim>\<open>VMScaler\<close> have the same loop: \<open>body\<close> runs at each tick, its error is logged,
  and the loop ends when it is stopped or its context is done.  Its input is the wake-ups of its
  \<^verbatim>\<open>select\<close>; the result says whether the loop has returned.
\<close>

datatype loop_event = Ticker | StopCh | CtxIsDone

fun background_loop :: "('w, unit) call \<Rightarrow> loop_event list \<Rightarrow> 'w \<Rightarrow> bool \<times> 'w" where
  "background_loop body [] w = (False, w)"
| "background_loop body (Ticker # es) w = background_loop body es (snd (body w))"
| "background_loop body (StopCh # es) w = (True, w)"
| "background_loop body (CtxIsDone # es) w = (True, w)"

definition IdleChecker_loop :: "('z pgdb_scheme) gce_provider \<Rightarrow> loop_event list \<Rightarrow> 'z pgdb_scheme \<Rightarrow> bool \<times> 'z pgdb_scheme" where
  "IdleChecker_loop p = background_loop (CleanupOrphans p)"

definition VMScaler_run :: "('z pgdb_scheme) gce_provider \<Rightarrow> loop_event list \<Rightarrow> 'z pgdb_scheme \<Rightarrow> bool \<times> 'z pgdb_scheme" where
  "VMScaler_run p = background_loop (ReconcileVMs p)"

end
