(* ===== verification/EndpointSteps.thy ===== *)
theory EndpointSteps
  imports DockerGCE "HOL-Library.Multiset"
begin

text \<open>
  \<^verbatim>\<open>getOrCreateEndpoint\<close> cut into steps, for the requests of different conversations that run at
  the same time.  A step of a request is one call: one SQL statement, one probe and its pause, one
  request to a container-manager.  What it keeps between two calls (the machine it has found, the
  attempts left, the port, the deadline of a wait) is its state of type \<open>caller\<close>; the steps of one
  request are a function, and which request moves next is the choice of the relation \<open>serve_step\<close>.
  \<^verbatim>\<open>singleflight\<close> keeps the requests of one conversation to one run.
\<close>

section \<open>The steps of one request\<close>

datatype caller =
    Asking
  | Rechecking
  | Picking nat
  | Checking nat vm_instance
  | Unhealthy nat vm_instance
  | Creating
  | Booting vm_instance int
  | Addressed vm_instance string
  | Marking vm_instance string
  | Connecting vm_instance int
  | Placing vm_instance nat
  | Allotted vm_instance nat int
  | Agent_up vm_instance nat int int
  | Agent_ready vm_instance nat int
  | Abandoning vm_instance goerr
  | Retrying vm_instance nat goerr
  | Pausing vm_instance nat
  | Row_made string session_endpoint
  | Finished "session_endpoint result"

datatype 'a poll_round = Again | Expired goerr | Answered 'a

definition poll_once ::
    "'w gce_provider \<Rightarrow> int \<Rightarrow> string \<Rightarrow> ('w \<Rightarrow> 'a option \<times> 'w) \<Rightarrow> 'w \<Rightarrow> 'a poll_round \<times> 'w" where
  "poll_once p until what probe w =
     (case probe w of
        (Some x, w) \<Rightarrow> (Answered x, w)
      | (None, w) \<Rightarrow>
          (case ck_select_until (gp_clock p) until (gc_PollInterval (gp_config p)) w of
             (Inl err, w) \<Rightarrow> (Expired (errorf what err), w)
           | (Inr _, w) \<Rightarrow> (Again, w)))"

definition no_port_error :: "'w gce_provider \<Rightarrow> string \<Rightarrow> goerr" where
  "no_port_error p vmID = ErrText (''VM '' @ vmID @ '': no free host port in ['' @
     itoa (gc_PortRangeStart (gp_config p)) @ '', '' @ itoa (gc_PortRangeEnd (gp_config p)) @ '']'')"

fun caller_step ::
    "('z pgdb_scheme) gce_provider \<Rightarrow> string \<Rightarrow> caller \<Rightarrow> 'z pgdb_scheme \<Rightarrow> caller \<times> 'z pgdb_scheme" where
  "caller_step p c Asking w =
     (case running_endpoint c w of (Some ep, w) \<Rightarrow> (Finished (Inr ep), w) | (None, w) \<Rightarrow> (Rechecking, w))"
| "caller_step p c Rechecking w =
     (case running_endpoint c w of (Some ep, w) \<Rightarrow> (Finished (Inr ep), w) | (None, w) \<Rightarrow> (Picking 5, w))"
| "caller_step p c (Picking 0) w = (Creating, w)"
| "caller_step p c (Picking (Suc n)) w =
     (case GetAvailableVMInstance (gc_MaxContainers (gp_config p)) w of
        (Inl _, w) \<Rightarrow> (Creating, w)
      | (Inr vm, w) \<Rightarrow> (Checking n vm, w))"
| "caller_step p c (Checking n vm) w =
     (case gp_newDockerClient p (cm_url p (vm_internal_ip vm)) of
        Inl _ \<Rightarrow> (Picking n, snd (UpdateVMInstanceStatus (vm_id vm) ''unhealthy'' w))
      | Inr dcm \<Rightarrow> (case cm_IsReady dcm w of (ready, w) \<Rightarrow> (if ready then Placing vm 2 else Unhealthy n vm, w)))"
| "caller_step p c (Unhealthy n vm) w =
     (case UpdateVMInstanceStatus (vm_id vm) ''unhealthy'' w of
        (Inl _, w) \<Rightarrow> (Creating, w)
      | (Inr _, w) \<Rightarrow> (Picking n, w))"
| "caller_step p c Creating w =
     (case createGCEVM p w of
        (Inl err, w) \<Rightarrow> (Finished (Inl (errorf ''create GCE VM'' err)), w)
      | (Inr vm, w) \<Rightarrow> (Booting vm (deadline p (gc_VMReadyTimeout (gp_config p)) w), w))"
| "caller_step p c (Booting vm until) w =
     (case poll_once p until (running_timeout (vm_gce_instance_name vm)) (probe_running p (vm_gce_instance_name vm)) w of
        (Again, w) \<Rightarrow> (Booting vm until, w)
      | (Expired err, w) \<Rightarrow> (Finished (Inl (errorf ''wait for VM ready'' err)), w)
      | (Answered networkIP, w) \<Rightarrow> (Addressed vm networkIP, w))"
| "caller_step p c (Addressed vm networkIP) w = (Marking vm networkIP, snd (UpdateVMInstanceIP (vm_id vm) networkIP w))"
| "caller_step p c (Marking vm networkIP) w =
     (let w = snd (UpdateVMInstanceStatus (vm_id vm) ''running'' w) in
      case gp_newDockerClient p (cm_url p networkIP) of
        Inl err \<Rightarrow>
          (Finished (Inl (errorf ''wait for VM ready''
             (errorf (''create container-manager client for '' @ cm_url p networkIP) err))), w)
      | Inr _ \<Rightarrow>
          (Connecting (vm\<lparr>vm_internal_ip := networkIP\<rparr>)
             (deadline p (gc_ContainerManagerReadyTimeout (gp_config p)) w), w))"
| "caller_step p c (Connecting vm until) w =
     (case gp_newDockerClient p (cm_url p (vm_internal_ip vm)) of
        Inl err \<Rightarrow> (Finished (Inl err), w)
      | Inr dcm \<Rightarrow>
          (case poll_once p until (manager_timeout (cm_url p (vm_internal_ip vm))) (probe_manager dcm) w of
             (Again, w) \<Rightarrow> (Connecting vm until, w)
           | (Expired err, w) \<Rightarrow> (Finished (Inl (errorf ''wait for VM ready'' err)), w)
           | (Answered _, w) \<Rightarrow> (Placing vm 2, w)))"
| "caller_step p c (Placing vm n) w =
     (case GetSmallestAvailablePortOnVM (vm_id vm) (gc_PortRangeStart (gp_config p)) (gc_PortRangeEnd (gp_config p)) w of
        (Inl err, w) \<Rightarrow> (Finished (Inl (errorf ''get smallest available port on VM'' err)), w)
      | (Inr hostPort, w) \<Rightarrow>
          (if hostPort = 0 then Finished (Inl (no_port_error p (vm_id vm))) else Allotted vm n hostPort, w))"
| "caller_step p c (Allotted vm n hostPort) w =
     (case gp_newDockerClient p (cm_url p (vm_internal_ip vm)) of
        Inl err \<Rightarrow>
          (Finished (Inl (errorf (''create container-manager client for '' @ cm_url p (vm_internal_ip vm)) err)), w)
      | Inr dcm \<Rightarrow>
          (case cm_RunAgent dcm (agent_run_request p c (vm_id vm) hostPort) w of
             (Inl err, w) \<Rightarrow> (Finished (Inl (errorf (''run agent container on '' @ vm_internal_ip vm) err)), w)
           | (Inr _, w) \<Rightarrow>
               (Agent_up vm n hostPort (deadline p (gc_AgentReadyTimeout (gp_config p)) w), w)))"
| "caller_step p c (Agent_up vm n hostPort until) w =
     (case poll_once p until (''timeout waiting for cc-remote-agent at '' @ http_url (vm_internal_ip vm) hostPort)
             (probe_agent p (http_url (vm_internal_ip vm) hostPort)) w of
        (Again, w) \<Rightarrow> (Agent_up vm n hostPort until, w)
      | (Expired err, w) \<Rightarrow> (Abandoning vm (errorf ''wait for agent ready'' err), w)
      | (Answered _, w) \<Rightarrow> (Agent_ready vm n hostPort, w))"
| "caller_step p c (Agent_ready vm n hostPort) w =
     (case CreateSessionEndpoint c (vm_id vm) (container_name p c) hostPort w of
        (Inr ep, w) \<Rightarrow> (Row_made (vm_id vm) ep, w)
      | (Inl err, w) \<Rightarrow> (Retrying vm n err, w))"
| "caller_step p c (Abandoning vm err) w =
     (case gp_newDockerClient p (cm_url p (vm_internal_ip vm)) of
        Inl _ \<Rightarrow> (Finished (Inl err), w)
      | Inr dcm \<Rightarrow> (Finished (Inl err), discard_agent dcm (container_name p c) w))"
| "caller_step p c (Retrying vm n err) w =
     (let s = (case n of
                 0 \<Rightarrow> Finished (Inl (errorf ''create session endpoint after 3 attempts'' err))
               | Suc n \<Rightarrow> Pausing vm n)
      in case gp_newDockerClient p (cm_url p (vm_internal_ip vm)) of
           Inl _ \<Rightarrow> (s, w)
         | Inr dcm \<Rightarrow> (s, discard_agent dcm (container_name p c) w))"
| "caller_step p c (Pausing vm n) w =
     (case ck_select (gp_clock p) (gc_PollInterval (gp_config p) sdiv 2) w of
        (Inl err, w) \<Rightarrow> (Finished (Inl err), w)
      | (Inr _, w) \<Rightarrow> (Placing vm n, w))"
| "caller_step p c (Row_made vmID ep) w =
     (case IncrementVMActiveContainers vmID w of
        (Inl err, w) \<Rightarrow> (Finished (Inl (errorf ''increment VM active containers'' err)), w)
      | (Inr _, w) \<Rightarrow> (Finished (Inr ep), w))"
| "caller_step p c (Finished r) w = (Finished r, w)"

text \<open>The run of one request that nobody interrupts.\<close>

definition goes_to ::
    "('z pgdb_scheme) gce_provider \<Rightarrow> string \<Rightarrow> caller \<times> 'z pgdb_scheme \<Rightarrow> caller \<times> 'z pgdb_scheme \<Rightarrow> bool" where
  "goes_to p c = (\<lambda>(s, w) t. t = caller_step p c s w)\<^sup>*\<^sup>*"

section \<open>Requests side by side\<close>

text \<open>The requests in progress, each with its conversation, and the machines of the endpoints whose
  increment failed (a record of what happened, which no step reads).\<close>

record 'w serving =
  iv_callers :: "(string \<times> caller) multiset"
  iv_world :: 'w
  iv_uncounted :: "string list"

definition uncounted_by :: "caller \<Rightarrow> caller \<Rightarrow> string list" where
  "uncounted_by s s' = (case (s, s') of (Row_made vmID ep, Finished (Inl err)) \<Rightarrow> [vmID] | _ \<Rightarrow> [])"

inductive serve_step ::
    "('z pgdb_scheme) gce_provider \<Rightarrow> ('z \<Rightarrow> (string \<times> string) set) \<Rightarrow>
     ('z pgdb_scheme) serving \<Rightarrow> ('z pgdb_scheme) serving \<Rightarrow> bool"
  for p live where
  arrive: "c \<notin># image_mset fst (iv_callers s) \<Longrightarrow>
    serve_step p live s (s\<lparr>iv_callers := add_mset (c, Asking) (iv_callers s)\<rparr>)"
| move: "iv_callers s = add_mset (c, x) others \<Longrightarrow> caller_step p c x (iv_world s) = (y, w') \<Longrightarrow>
    serve_step p live s (s\<lparr>iv_callers := add_mset (c, y) others, iv_world := w',
      iv_uncounted := uncounted_by x y @ iv_uncounted s\<rparr>)"
| leave: "iv_callers s = add_mset (c, Finished r) others \<Longrightarrow>
    serve_step p live s (s\<lparr>iv_callers := others\<rparr>)"
| elsewhere: "db_vms w' = db_vms (iv_world s) \<Longrightarrow> db_endpoints w' = db_endpoints (iv_world s) \<Longrightarrow>
    live (pgdb.more w') = live (pgdb.more (iv_world s)) \<Longrightarrow>
    serve_step p live s (s\<lparr>iv_world := w'\<rparr>)"

inductive_cases serve_stepE: "serve_step p live s s'"

definition serves ::
    "('z pgdb_scheme) gce_provider \<Rightarrow> ('z \<Rightarrow> (string \<times> string) set) \<Rightarrow>
     ('z pgdb_scheme) serving \<Rightarrow> ('z pgdb_scheme) serving \<Rightarrow> bool" where
  "serves p live = (serve_step p live)\<^sup>*\<^sup>*"

definition idle_at :: "'w \<Rightarrow> 'w serving" where
  "idle_at w = \<lparr>iv_callers = {#}, iv_world = w, iv_uncounted = []\<rparr>"

end
