(* ===== verification/CleanupSteps.thy ===== *)
theory CleanupSteps
  imports EndpointSteps
begin

text \<open>
  \<^verbatim>\<open>CleanupOrphans\<close> cut into steps like \<^verbatim>\<open>getOrCreateEndpoint\<close> in \<open>EndpointSteps\<close>: the goroutine of
  \<^verbatim>\<open>IdleChecker\<close> makes one call per step, and the requests that are served at the same time move in
  between.  Its state is what the two loops keep between two calls: the row or machine they are at
  and the ones that follow.
\<close>

section \<open>The steps of a clean-up\<close>

datatype cleaner =
    Between_passes
  | Listing_endpoints
  | Reading_machine session_endpoint "session_endpoint list"
  | Stopping_container vm_instance session_endpoint "session_endpoint list"
  | Removing_container vm_instance session_endpoint "session_endpoint list"
  | Discounting session_endpoint "session_endpoint list"
  | Deleting_row session_endpoint "session_endpoint list"
  | Listing_machines
  | Deleting_instance vm_instance "vm_instance list"
  | Deleting_machine vm_instance "vm_instance list"
  | Swept "unit result"

fun next_endpoint :: "session_endpoint list \<Rightarrow> cleaner" where
  "next_endpoint [] = Listing_machines"
| "next_endpoint (ep # eps) = Reading_machine ep eps"

fun next_machine :: "vm_instance list \<Rightarrow> cleaner" where
  "next_machine [] = Swept (Inr ())"
| "next_machine (vm # vms) = Deleting_instance vm vms"

fun cleaner_step ::
    "('z pgdb_scheme) gce_provider \<Rightarrow> cleaner \<Rightarrow> 'z pgdb_scheme \<Rightarrow> cleaner \<times> 'z pgdb_scheme" where
  "cleaner_step p Between_passes w = (Between_passes, w)"
| "cleaner_step p Listing_endpoints w =
     (case ListIdleSessionEndpoints (gc_IdleTimeout (gp_config p)) w of
        (Inl err, w) \<Rightarrow> (Swept (Inl (errorf ''list idle session endpoints'' err)), w)
      | (Inr eps, w) \<Rightarrow> (next_endpoint eps, w))"
| "cleaner_step p (Reading_machine ep eps) w =
     (case GetVMInstance (ep_vm_instance_id ep) w of
        (Inl _, w) \<Rightarrow> (Discounting ep eps, w)
      | (Inr vm, w) \<Rightarrow>
          (if vm_internal_ip vm \<noteq> [] \<and> \<not> is_err (gp_newDockerClient p (cm_url p (vm_internal_ip vm)))
           then Stopping_container vm ep eps else Discounting ep eps, w))"
| "cleaner_step p (Stopping_container vm ep eps) w =
     (case gp_newDockerClient p (cm_url p (vm_internal_ip vm)) of
        Inl _ \<Rightarrow> (Discounting ep eps, w)
      | Inr dcm \<Rightarrow> (Removing_container vm ep eps, snd (cm_StopContainer dcm (ep_container_name ep) w)))"
| "cleaner_step p (Removing_container vm ep eps) w =
     (case gp_newDockerClient p (cm_url p (vm_internal_ip vm)) of
        Inl _ \<Rightarrow> (Discounting ep eps, w)
      | Inr dcm \<Rightarrow> (Discounting ep eps, snd (cm_RemoveContainer dcm (ep_container_name ep) w)))"
| "cleaner_step p (Discounting ep eps) w =
     (Deleting_row ep eps, snd (DecrementVMActiveContainers (ep_vm_instance_id ep) w))"
| "cleaner_step p (Deleting_row ep eps) w =
     (case DeleteSessionEndpoint (ep_id ep) w of
        (Inl err, w) \<Rightarrow> (Swept (Inl (errorf (''delete session endpoint '' @ ep_id ep) err)), w)
      | (Inr _, w) \<Rightarrow> (next_endpoint eps, w))"
| "cleaner_step p Listing_machines w =
     (case ListIdleVMInstances (gc_IdleTimeout (gp_config p)) w of
        (Inl err, w) \<Rightarrow> (Swept (Inl (errorf ''list idle VM instances'' err)), w)
      | (Inr vms, w) \<Rightarrow> (next_machine vms, w))"
| "cleaner_step p (Deleting_instance vm vms) w =
     (Deleting_machine vm vms, snd (gce_DeleteInstance (gp_gce p) (gc_ProjectID (gp_config p)) (gc_Zone (gp_config p))
        (vm_gce_instance_name vm) w))"
| "cleaner_step p (Deleting_machine vm vms) w =
     (case DeleteVMInstance (vm_id vm) w of
        (Inl err, w) \<Rightarrow> (Swept (Inl (errorf (''delete VM instance '' @ vm_id vm) err)), w)
      | (Inr _, w) \<Rightarrow> (next_machine vms, w))"
| "cleaner_step p (Swept r) w = (Swept r, w)"

definition sweeps_to ::
    "('z pgdb_scheme) gce_provider \<Rightarrow> cleaner \<times> 'z pgdb_scheme \<Rightarrow> cleaner \<times> 'z pgdb_scheme \<Rightarrow> bool" where
  "sweeps_to p = (\<lambda>(k, w) t. t = cleaner_step p k w)\<^sup>*\<^sup>*"

section \<open>Requests and clean-up side by side\<close>

text \<open>
  A pass of the clean-up may begin when none is under way; a user may delete a conversation at any
  time, which takes its endpoint row along.  The row whose deletion fails after its machine has been
  discounted is recorded like a failed increment (\<open>iv_uncounted\<close>).
\<close>

definition discounted_by :: "cleaner \<Rightarrow> cleaner \<Rightarrow> string list" where
  "discounted_by k k' = (case (k, k') of (Deleting_row ep eps, Swept (Inl err)) \<Rightarrow> [ep_vm_instance_id ep] | _ \<Rightarrow> [])"

inductive tend_step ::
    "('z pgdb_scheme) gce_provider \<Rightarrow> ('z \<Rightarrow> (string \<times> string) set) \<Rightarrow>
     ('z pgdb_scheme) serving \<times> cleaner \<Rightarrow> ('z pgdb_scheme) serving \<times> cleaner \<Rightarrow> bool"
  for p live where
  serve: "serve_step p live s s' \<Longrightarrow> tend_step p live (s, k) (s', k)"
| wake: "k = Between_passes \<or> k = Swept r \<Longrightarrow> tend_step p live (s, k) (s, Listing_endpoints)"
| sweep: "cleaner_step p k (iv_world s) = (k', w') \<Longrightarrow>
    tend_step p live (s, k) (s\<lparr>iv_world := w', iv_uncounted := discounted_by k k' @ iv_uncounted s\<rparr>, k')"
| drop: "DeleteConversation c (iv_world s) = (r, w') \<Longrightarrow>
    tend_step p live (s, k) (s\<lparr>iv_world := w'\<rparr>, k)"

inductive_cases tend_stepE: "tend_step p live s s'"

definition tends ::
    "('z pgdb_scheme) gce_provider \<Rightarrow> ('z \<Rightarrow> (string \<times> string) set) \<Rightarrow>
     ('z pgdb_scheme) serving \<times> cleaner \<Rightarrow> ('z pgdb_scheme) serving \<times> cleaner \<Rightarrow> bool" where
  "tends p live = (tend_step p live)\<^sup>*\<^sup>*"

end
