(* ===== verification/Repository_Props.thy ===== *)
theory Repository_Props
  imports Repository
begin

text \<open>
  Properties of the persistence layer: the integrity invariant \<open>pg_ok\<close> that the constraints of
  the migrations promise and every statement keeps; the port allocator; the container counter;
  what the two constraints on \<^verbatim>\<open>vm_instances\<close> refuse.
\<close>

named_theorems sql_defs

lemmas [sql_defs] =
  CreateConversation_def GetConversation_def ListConversations_def DeleteConversation_def
  UpdateConversationUpdatedAt_def UpdateConversationTitle_def UpdateConversationStatus_def
  CreateMessage_def ListMessages_def CreateStreamingMessage_def UpdateMessageContentBlocks_def
  UpdateMessageStatus_def MergeMessageData_def CreateVMInstance_def GetVMInstance_def
  GetVMInstanceByName_def UpdateVMInstanceStatus_def UpdateVMInstanceIP_def
  IncrementVMActiveContainers_def DecrementVMActiveContainers_def GetAvailableVMInstance_def
  ListVMInstances_def ListIdleVMInstances_def ListRunningVMInstances_def SetVMZeroAgentsSince_def
  DeleteVMInstance_def CreateSessionEndpoint_def GetSessionEndpointByConversationID_def
  UpdateSessionEndpointStatus_def UpdateSessionEndpointLastActivity_def
  ListIdleSessionEndpoints_def DeleteSessionEndpoint_def GetSmallestAvailablePortOnVM_def

section \<open>Statements and rows\<close>

lemma pg_exec_no_fault [simp]: "db_faults d = [] \<Longrightarrow> pg_exec q d = q d"
  by (simp add: pg_exec_def)

lemma pg_exec_cases:
  obtains (runs) d' where "pg_exec q d = q d'" "d' = d \<or> (\<exists>fs. d' = d\<lparr>db_faults := fs\<rparr>)"
  | (fails) e fs where "pg_exec q d = (Inl e, d\<lparr>db_faults := fs\<rparr>)"
proof (cases "db_faults d")
  case Nil
  then have "pg_exec q d = q d" by simp
  then show ?thesis by (rule runs) simp
next
  case (Cons f fs)
  show ?thesis
  proof (cases f)
    case None
    then have "pg_exec q d = q (d\<lparr>db_faults := fs\<rparr>)" by (simp add: pg_exec_def Cons)
    then show ?thesis by (rule runs) blast
  next
    case (Some e)
    then have "pg_exec q d = (Inl e, d\<lparr>db_faults := fs\<rparr>)" by (simp add: pg_exec_def Cons)
    then show ?thesis by (rule fails)
  qed
qed

lemma pg_exec_inv:
  assumes "P d" and "\<And>d fs. P d \<Longrightarrow> P (d\<lparr>db_faults := fs\<rparr>)" and "\<And>d. P d \<Longrightarrow> P (snd (q d))"
  shows "P (snd (pg_exec q d))"
  by (rule pg_exec_cases [of q d]) (use assms in auto)

lemma map_update_where:
  "(\<And>r. f (g r) = f r) \<Longrightarrow> map f (update_where p g rows) = map f rows"
  by (induction rows) (auto simp: update_where_def)

lemma mem_update_where:
  "r \<in> set (update_where p g rows) \<longleftrightarrow> (\<exists>s \<in> set rows. r = (if p s then g s else s))"
  by (auto simp: update_where_def)

lemma update_where_ball:
  "(\<And>r. r \<in> set rows \<Longrightarrow> Q r) \<Longrightarrow> (\<And>r. r \<in> set rows \<Longrightarrow> Q r \<Longrightarrow> p r \<Longrightarrow> Q (g r)) \<Longrightarrow>
   \<forall>r \<in> set (update_where p g rows). Q r"
  by (auto simp: mem_update_where)

lemma first_row_Inr: "first_row rows = Inr r \<Longrightarrow> r \<in> set rows"
  by (auto simp: first_row_def split: list.splits)

section \<open>The integrity invariant\<close>

definition conversations_ok :: "'z pgdb_scheme \<Rightarrow> bool" where
  "conversations_ok d \<longleftrightarrow> distinct (map conv_id (db_conversations d)) \<and>
     (\<forall>c \<in> set (db_conversations d). conv_status c \<in> set conv_statuses)"

definition messages_ok :: "'z pgdb_scheme \<Rightarrow> bool" where
  "messages_ok d \<longleftrightarrow> distinct (map msg_id (db_messages d)) \<and>
     (\<forall>m \<in> set (db_messages d). msg_status m \<in> set msg_statuses \<and> msg_role m \<in> set msg_roles \<and>
        msg_conversation_id m \<in> conv_id ` set (db_conversations d))"

definition vms_ok :: "'z pgdb_scheme \<Rightarrow> bool" where
  "vms_ok d \<longleftrightarrow> distinct (map vm_id (db_vms d)) \<and> distinct (map vm_gce_instance_name (db_vms d)) \<and>
     (\<forall>v \<in> set (db_vms d). vm_status v \<in> set vm_statuses \<and> 0 \<le> vm_active_containers v)"

definition endpoints_ok :: "'z pgdb_scheme \<Rightarrow> bool" where
  "endpoints_ok d \<longleftrightarrow> distinct (map ep_id (db_endpoints d)) \<and>
     distinct (map ep_conversation_id (db_endpoints d)) \<and>
     distinct (map (\<lambda>e. (ep_vm_instance_id e, ep_port e)) (db_endpoints d)) \<and>
     (\<forall>e \<in> set (db_endpoints d). ep_status e \<in> set vm_statuses \<and>
        ep_conversation_id e \<in> conv_id ` set (db_conversations d) \<and>
        ep_vm_instance_id e \<in> vm_id ` set (db_vms d))"

definition pg_ok :: "'z pgdb_scheme \<Rightarrow> bool" where
  "pg_ok d \<longleftrightarrow> conversations_ok d \<and> messages_ok d \<and> vms_ok d \<and> endpoints_ok d"

lemmas pg_ok_defs = pg_ok_def conversations_ok_def messages_ok_def vms_ok_def endpoints_ok_def

lemma pg_ok_faults [simp]: "pg_ok (d\<lparr>db_faults := fs\<rparr>) = pg_ok d"
  by (simp add: pg_ok_defs)

lemma pg_ok_drawn [simp]: "pg_ok (d\<lparr>db_drawn := n\<rparr>) = pg_ok d"
  by (simp add: pg_ok_defs)

lemma pg_ok_now [simp]: "pg_ok (d\<lparr>db_now := t\<rparr>) = pg_ok d"
  by (simp add: pg_ok_defs)

text \<open>Replacing a table by one with the same keys and valid rows keeps the invariant.\<close>

lemma pg_ok_conversations_update:
  assumes "pg_ok d" and "\<And>c. conv_id (g c) = conv_id c"
    and "\<And>c. c \<in> set (db_conversations d) \<Longrightarrow> p c \<Longrightarrow> conv_status (g c) \<in> set conv_statuses"
  shows "pg_ok (d\<lparr>db_conversations := update_where p g (db_conversations d)\<rparr>)"
proof -
  have m: "map conv_id (update_where p g (db_conversations d)) = map conv_id (db_conversations d)"
    using assms(2) by (rule map_update_where)
  then have s: "conv_id ` set (update_where p g (db_conversations d)) = conv_id ` set (db_conversations d)"
    by (metis list.set_map)
  have "\<forall>c \<in> set (update_where p g (db_conversations d)). conv_status c \<in> set conv_statuses"
    using assms(1,3) by (intro update_where_ball) (auto simp: pg_ok_defs)
  with assms(1) m s show ?thesis by (simp add: pg_ok_defs)
qed

lemma pg_ok_messages_update:
  assumes "pg_ok d" and "\<And>m. msg_id (g m) = msg_id m"
    and "\<And>m. m \<in> set (db_messages d) \<Longrightarrow> p m \<Longrightarrow> msg_status (g m) \<in> set msg_statuses \<and>
          msg_role (g m) = msg_role m \<and> msg_conversation_id (g m) = msg_conversation_id m"
  shows "pg_ok (d\<lparr>db_messages := update_where p g (db_messages d)\<rparr>)"
proof -
  have m: "map msg_id (update_where p g (db_messages d)) = map msg_id (db_messages d)"
    using assms(2) by (rule map_update_where)
  have "\<forall>m \<in> set (update_where p g (db_messages d)). msg_status m \<in> set msg_statuses \<and>
      msg_role m \<in> set msg_roles \<and> msg_conversation_id m \<in> conv_id ` set (db_conversations d)"
    using assms(1,3) by (intro update_where_ball) (auto simp: pg_ok_defs)
  with assms(1) m show ?thesis by (simp add: pg_ok_defs)
qed

lemma pg_ok_vms_update:
  assumes "pg_ok d" and "\<And>v. vm_id (g v) = vm_id v"
    and "\<And>v. vm_gce_instance_name (g v) = vm_gce_instance_name v"
    and "\<And>v. v \<in> set (db_vms d) \<Longrightarrow> p v \<Longrightarrow> 0 \<le> vm_active_containers v \<Longrightarrow>
          vm_status v \<in> set vm_statuses \<Longrightarrow>
          vm_status (g v) \<in> set vm_statuses \<and> 0 \<le> vm_active_containers (g v)"
  shows "pg_ok (d\<lparr>db_vms := update_where p g (db_vms d)\<rparr>)"
proof -
  have m: "map vm_id (update_where p g (db_vms d)) = map vm_id (db_vms d)"
    using assms(2) by (rule map_update_where)
  have n: "map vm_gce_instance_name (update_where p g (db_vms d)) = map vm_gce_instance_name (db_vms d)"
    using assms(3) by (rule map_update_where)
  from m have s: "vm_id ` set (update_where p g (db_vms d)) = vm_id ` set (db_vms d)"
    by (metis list.set_map)
  have "\<forall>v \<in> set (update_where p g (db_vms d)). vm_status v \<in> set vm_statuses \<and> 0 \<le> vm_active_containers v"
    using assms(1,4) by (intro update_where_ball) (auto simp: pg_ok_defs)
  with assms(1) m n s show ?thesis by (simp add: pg_ok_defs)
qed

lemma pg_ok_endpoints_update:
  assumes "pg_ok d" and "\<And>e. ep_id (g e) = ep_id e"
    and "\<And>e. ep_conversation_id (g e) = ep_conversation_id e"
    and "\<And>e. ep_vm_instance_id (g e) = ep_vm_instance_id e" and "\<And>e. ep_port (g e) = ep_port e"
    and "\<And>e. e \<in> set (db_endpoints d) \<Longrightarrow> p e \<Longrightarrow> ep_status (g e) \<in> set vm_statuses"
  shows "pg_ok (d\<lparr>db_endpoints := update_where p g (db_endpoints d)\<rparr>)"
proof -
  let ?k = "\<lambda>e. (ep_vm_instance_id e, ep_port e)"
  have "map ep_id (update_where p g (db_endpoints d)) = map ep_id (db_endpoints d)"
    "map ep_conversation_id (update_where p g (db_endpoints d)) = map ep_conversation_id (db_endpoints d)"
    "map ?k (update_where p g (db_endpoints d)) = map ?k (db_endpoints d)"
    using assms(2-5) by (auto intro!: map_update_where)
  moreover have "\<forall>e \<in> set (update_where p g (db_endpoints d)). ep_status e \<in> set vm_statuses \<and>
        ep_conversation_id e \<in> conv_id ` set (db_conversations d) \<and>
        ep_vm_instance_id e \<in> vm_id ` set (db_vms d)"
    using assms by (intro update_where_ball) (auto simp: pg_ok_defs)
  ultimately show ?thesis using assms(1) by (simp add: pg_ok_defs)
qed

lemma pg_ok_rows:
  assumes "pg_ok d"
  shows "c \<in> set (db_conversations d) \<Longrightarrow> conv_status c \<in> set conv_statuses"
    and "m \<in> set (db_messages d) \<Longrightarrow> msg_status m \<in> set msg_statuses"
    and "e \<in> set (db_endpoints d) \<Longrightarrow> ep_status e \<in> set vm_statuses"
  using assms by (auto simp: pg_ok_defs)

lemma msg_statuses_mem [simp]:
  "''streaming'' \<in> set msg_statuses" "''completed'' \<in> set msg_statuses" "''error'' \<in> set msg_statuses"
  by (simp_all add: msg_statuses_def)

lemmas pg_ok_updates =
  pg_ok_conversations_update pg_ok_messages_update pg_ok_vms_update pg_ok_endpoints_update

section \<open>Every statement keeps the invariant\<close>

lemma pg_ok_exec: "pg_ok d \<Longrightarrow> (\<And>d. pg_ok d \<Longrightarrow> pg_ok (snd (q d))) \<Longrightarrow> pg_ok (snd (pg_exec q d))"
  by (rule pg_exec_inv) simp_all

lemma pg_ok_insert_message:
  "pg_ok d \<Longrightarrow> status \<in> set msg_statuses \<Longrightarrow> pg_ok (snd (insert_message c role data status d))"
  by (auto simp: insert_message_def draw_uuid_def Let_def pg_ok_defs)

lemma CreateConversation_ok: "pg_ok d \<Longrightarrow> pg_ok (snd (CreateConversation t m sp d))"
  unfolding sql_defs
  by (rule pg_ok_exec) (auto simp: draw_uuid_def Let_def pg_ok_defs conv_statuses_def)

lemma DeleteConversation_ok: "pg_ok d \<Longrightarrow> pg_ok (snd (DeleteConversation i d))"
  unfolding sql_defs
  by (rule pg_ok_exec) (auto simp: pg_ok_defs distinct_map_filter)

lemma CreateMessage_ok: "pg_ok d \<Longrightarrow> pg_ok (snd (CreateMessage c r m d))"
proof -
  assume "pg_ok d"
  moreover have "pg_ok (snd (case insert_message c r m ''completed'' d of
      (Inl e, d) \<Rightarrow> (Inl e, d) | (Inr m, d) \<Rightarrow> (Inr (m\<lparr>msg_status := [], msg_updated_at := 0\<rparr>), d)))"
    if "pg_ok d" for d :: "'a pgdb_scheme"
    using pg_ok_insert_message [OF that, of "''completed''" c r m]
    by (auto simp: msg_statuses_def split: prod.split sum.split)
  ultimately show ?thesis unfolding CreateMessage_def by (rule pg_ok_exec)
qed

lemma CreateStreamingMessage_ok: "pg_ok d \<Longrightarrow> pg_ok (snd (CreateStreamingMessage c r m d))"
  unfolding sql_defs
  by (rule pg_ok_exec) (simp_all add: pg_ok_insert_message msg_statuses_def)

lemma conversation_updates_ok:
  assumes "pg_ok d"
  shows "pg_ok (snd (UpdateConversationUpdatedAt i d))"
    and "pg_ok (snd (UpdateConversationTitle i t d))"
    and "pg_ok (snd (UpdateConversationStatus i st d))"
  unfolding sql_defs
  by (rule pg_ok_exec [OF assms], auto intro!: pg_ok_updates intro: pg_ok_rows)+

lemma message_updates_ok:
  assumes "pg_ok d"
  shows "pg_ok (snd (UpdateMessageContentBlocks i b d))"
    and "pg_ok (snd (UpdateMessageStatus i st d))"
    and "pg_ok (snd (MergeMessageData i x d))"
    and "pg_ok (cleanupOrphanedStreamingMessages d)"
  unfolding sql_defs cleanupOrphanedStreamingMessages_def
  by (rule pg_ok_exec [OF assms], auto intro!: pg_ok_updates intro: pg_ok_rows)+

lemma CreateVMInstance_ok: "pg_ok d \<Longrightarrow> pg_ok (snd (CreateVMInstance n z a d))"
  unfolding sql_defs
  by (rule pg_ok_exec) (auto simp: draw_uuid_def Let_def pg_ok_defs vm_statuses_def)

lemma vm_updates_ok:
  assumes "pg_ok d"
  shows "pg_ok (snd (UpdateVMInstanceStatus i st d))"
    and "pg_ok (snd (UpdateVMInstanceIP i a d))"
    and "pg_ok (snd (IncrementVMActiveContainers i d))"
    and "pg_ok (snd (DecrementVMActiveContainers i d))"
    and "pg_ok (snd (SetVMZeroAgentsSince i z d))"
  unfolding sql_defs
  by (rule pg_ok_exec [OF assms], auto intro!: pg_ok_updates intro: pg_ok_rows)+

lemma pg_ok_delete_vm:
  assumes ok: "pg_ok d" and free: "i \<notin> ep_vm_instance_id ` set (db_endpoints d)"
  shows "pg_ok (d\<lparr>db_vms := filter (\<lambda>v. vm_id v \<noteq> i) (db_vms d)\<rparr>)"
proof -
  have "ep_vm_instance_id e \<in> vm_id ` {v \<in> set (db_vms d). vm_id v \<noteq> i}"
    if "e \<in> set (db_endpoints d)" for e
    using that ok free by (force simp: pg_ok_defs)
  with ok show ?thesis by (auto simp: pg_ok_defs distinct_map_filter)
qed

lemma DeleteVMInstance_ok: "pg_ok d \<Longrightarrow> pg_ok (snd (DeleteVMInstance i d))"
  unfolding sql_defs
proof (rule pg_ok_exec)
  fix d :: "'a pgdb_scheme"
  assume ok: "pg_ok d"
  show "pg_ok (snd (if i \<in> set (map vm_id (db_vms d)) \<and> i \<in> set (map ep_vm_instance_id (db_endpoints d))
     then (Inl (violates ''session_endpoints_vm_instance_id_fkey''), d)
     else (Inr (), d\<lparr>db_vms := filter (\<lambda>v. vm_id v \<noteq> i) (db_vms d)\<rparr>)))"
  proof (cases "i \<in> ep_vm_instance_id ` set (db_endpoints d)")
    case True
    with ok have "i \<in> set (map vm_id (db_vms d))" by (auto simp: pg_ok_defs)
    with True ok show ?thesis by simp
  next
    case False
    then show ?thesis using pg_ok_delete_vm [OF ok False] by auto
  qed
qed simp

lemma CreateSessionEndpoint_ok: "pg_ok d \<Longrightarrow> pg_ok (snd (CreateSessionEndpoint c v n p d))"
  unfolding sql_defs
  by (rule pg_ok_exec) (auto simp: draw_uuid_def Let_def pg_ok_defs vm_statuses_def)

lemma endpoint_updates_ok:
  assumes "pg_ok d"
  shows "pg_ok (snd (UpdateSessionEndpointStatus i st d))"
    and "pg_ok (snd (UpdateSessionEndpointLastActivity c d))"
  unfolding sql_defs
  by (rule pg_ok_exec [OF assms], auto intro!: pg_ok_updates intro: pg_ok_rows)+

lemma DeleteSessionEndpoint_ok: "pg_ok d \<Longrightarrow> pg_ok (snd (DeleteSessionEndpoint i d))"
  unfolding sql_defs
  by (rule pg_ok_exec) (auto simp: pg_ok_defs distinct_map_filter)

text \<open>The statements that write, and a history of them.\<close>

datatype pg_stmt =
    SCreateConversation string string "string option"
  | SDeleteConversation string
  | SUpdateConversationUpdatedAt string
  | SUpdateConversationTitle string string
  | SUpdateConversationStatus string string
  | SCreateMessage string string "json gomap"
  | SCreateStreamingMessage string string "json gomap"
  | SUpdateMessageContentBlocks string json
  | SUpdateMessageStatus string string
  | SMergeMessageData string "json gomap"
  | SCleanupStreaming
  | SCreateVMInstance string string string
  | SUpdateVMInstanceStatus string string
  | SUpdateVMInstanceIP string string
  | SIncrementVMActiveContainers string
  | SDecrementVMActiveContainers string
  | SSetVMZeroAgentsSince string "int option"
  | SDeleteVMInstance string
  | SCreateSessionEndpoint string string string int
  | SUpdateSessionEndpointStatus string string
  | SUpdateSessionEndpointLastActivity string
  | SDeleteSessionEndpoint string
  | SClock int

fun run_stmt :: "pg_stmt \<Rightarrow> 'z pgdb_scheme \<Rightarrow> 'z pgdb_scheme" where
  "run_stmt (SCreateConversation t m sp) d = snd (CreateConversation t m sp d)"
| "run_stmt (SDeleteConversation i) d = snd (DeleteConversation i d)"
| "run_stmt (SUpdateConversationUpdatedAt i) d = snd (UpdateConversationUpdatedAt i d)"
| "run_stmt (SUpdateConversationTitle i t) d = snd (UpdateConversationTitle i t d)"
| "run_stmt (SUpdateConversationStatus i st) d = snd (UpdateConversationStatus i st d)"
| "run_stmt (SCreateMessage c r m) d = snd (CreateMessage c r m d)"
| "run_stmt (SCreateStreamingMessage c r m) d = snd (CreateStreamingMessage c r m d)"
| "run_stmt (SUpdateMessageContentBlocks i b) d = snd (UpdateMessageContentBlocks i b d)"
| "run_stmt (SUpdateMessageStatus i st) d = snd (UpdateMessageStatus i st d)"
| "run_stmt (SMergeMessageData i x) d = snd (MergeMessageData i x d)"
| "run_stmt SCleanupStreaming d = cleanupOrphanedStreamingMessages d"
| "run_stmt (SCreateVMInstance n z a) d = snd (CreateVMInstance n z a d)"
| "run_stmt (SUpdateVMInstanceStatus i st) d = snd (UpdateVMInstanceStatus i st d)"
| "run_stmt (SUpdateVMInstanceIP i a) d = snd (UpdateVMInstanceIP i a d)"
| "run_stmt (SIncrementVMActiveContainers i) d = snd (IncrementVMActiveContainers i d)"
| "run_stmt (SDecrementVMActiveContainers i) d = snd (DecrementVMActiveContainers i d)"
| "run_stmt (SSetVMZeroAgentsSince i z) d = snd (SetVMZeroAgentsSince i z d)"
| "run_stmt (SDeleteVMInstance i) d = snd (DeleteVMInstance i d)"
| "run_stmt (SCreateSessionEndpoint c v n p) d = snd (CreateSessionEndpoint c v n p d)"
| "run_stmt (SUpdateSessionEndpointStatus i st) d = snd (UpdateSessionEndpointStatus i st d)"
| "run_stmt (SUpdateSessionEndpointLastActivity c) d = snd (UpdateSessionEndpointLastActivity c d)"
| "run_stmt (SDeleteSessionEndpoint i) d = snd (DeleteSessionEndpoint i d)"
| "run_stmt (SClock t) d = d\<lparr>db_now := t\<rparr>"

definition empty_db :: "(nat \<Rightarrow> string) \<Rightarrow> goerr option list \<Rightarrow> pgdb" where
  "empty_db uuids faults =
     \<lparr>db_now = 0, db_uuids = uuids, db_drawn = 0, db_faults = faults, db_conversations = [],
      db_messages = [], db_vms = [], db_endpoints = []\<rparr>"

lemmas stmt_ok =
  CreateConversation_ok DeleteConversation_ok conversation_updates_ok CreateMessage_ok
  CreateStreamingMessage_ok message_updates_ok CreateVMInstance_ok vm_updates_ok
  DeleteVMInstance_ok CreateSessionEndpoint_ok endpoint_updates_ok DeleteSessionEndpoint_ok

lemma run_stmt_ok: "pg_ok d \<Longrightarrow> pg_ok (run_stmt q d)"
  by (cases q) (simp_all add: stmt_ok)

lemma run_stmts_ok: "pg_ok d \<Longrightarrow> pg_ok (fold run_stmt qs d)"
  by (induction qs arbitrary: d) (simp_all add: run_stmt_ok)

lemma empty_db_ok: "pg_ok (empty_db uuids faults)"
  by (simp add: empty_db_def pg_ok_defs)

section \<open>Properties\<close>

text \<open>C12: whatever statements the program issues, in whatever order, with whatever connection
  failures and whatever values \<^verbatim>\<open>gen_random_uuid()\<close> yields, the tables keep unique keys, valid
  statuses and roles, no dangling reference, one endpoint per conversation, no host port used
  twice on a machine and no negative container count.\<close>

theorem repository_integrity: "pg_ok (fold run_stmt qs (empty_db uuids faults))"
  by (rule run_stmts_ok) (rule empty_db_ok)

lemma smallest_free:
  assumes f: "filter (\<lambda>p. p \<notin> B) [lo..hi] = q # qs"
  shows "lo \<le> q \<and> q \<le> hi \<and> q \<notin> B \<and> (\<forall>r. lo \<le> r \<and> r < q \<longrightarrow> r \<in> B)"
proof -
  have mem: "q \<in> set (filter (\<lambda>p. p \<notin> B) [lo..hi])" using f by simp
  have "sorted_wrt (<) (filter (\<lambda>p. p \<notin> B) [lo..hi])"
    by (rule sorted_wrt_filter) (rule sorted_wrt_upto)
  then have least: "\<forall>r \<in> set qs. q < r" using f by simp
  have "r \<in> B" if "lo \<le> r" "r < q" for r
  proof (rule ccontr)
    assume "r \<notin> B"
    with that mem have "r \<in> set (filter (\<lambda>p. p \<notin> B) [lo..hi])" by simp
    with f least that show False by auto
  qed
  with mem show ?thesis by simp
qed

text \<open>The port query returns the smallest port of the range that no running endpoint of the
  machine holds, and 0 exactly when every port of the range is held.\<close>

theorem smallest_port_correct:
  assumes "db_faults d = []" and "0 < lo"
  shows "\<exists>p. GetSmallestAvailablePortOnVM vm lo hi d = (Inr p, d) \<and>
    (p = 0 \<longleftrightarrow> (\<forall>q. lo \<le> q \<and> q \<le> hi \<longrightarrow> q \<in> set (busy_ports vm (db_endpoints d)))) \<and>
    (p \<noteq> 0 \<longrightarrow> lo \<le> p \<and> p \<le> hi \<and> p \<notin> set (busy_ports vm (db_endpoints d)) \<and>
       (\<forall>q. lo \<le> q \<and> q < p \<longrightarrow> q \<in> set (busy_ports vm (db_endpoints d))))"
proof (cases "filter (\<lambda>p. p \<notin> set (busy_ports vm (db_endpoints d))) [lo..hi]")
  case Nil
  then have "\<forall>q. lo \<le> q \<and> q \<le> hi \<longrightarrow> q \<in> set (busy_ports vm (db_endpoints d))"
    by (auto simp: filter_empty_conv)
  with Nil assms(1) show ?thesis
    by (simp add: GetSmallestAvailablePortOnVM_def first_row_def pgx_no_rows_def)
next
  case (Cons q qs)
  from smallest_free [OF Cons] assms Cons show ?thesis
    by (auto simp: GetSmallestAvailablePortOnVM_def first_row_def)
qed

definition db_example :: pgdb where
  "db_example = \<lparr>db_now = 5, db_uuids = (\<lambda>n. ''u'' @ itoa (int n)), db_drawn = 7, db_faults = [],
     db_conversations = [\<lparr>conv_id = ''c1'', conv_title = [], conv_model = ''m'',
         conv_system_prompt = None, conv_status = ''idle'', conv_created_at = 0, conv_updated_at = 0\<rparr>,
       \<lparr>conv_id = ''c2'', conv_title = [], conv_model = ''m'',
         conv_system_prompt = None, conv_status = ''idle'', conv_created_at = 1, conv_updated_at = 1\<rparr>],
     db_messages = [],
     db_vms = [\<lparr>vm_id = ''v1'', vm_gce_instance_name = ''g1'', vm_zone = ''z'', vm_internal_ip = ''10.0.0.2'',
         vm_status = ''running'', vm_active_containers = 1, vm_idle_since = None,
         vm_zero_agents_since = None, vm_created_at = 0\<rparr>],
     db_endpoints = [\<lparr>ep_id = ''e1'', ep_conversation_id = ''c1'', ep_vm_instance_id = ''v1'',
         ep_container_name = ''n1'', ep_port = 61000, ep_status = ''running'', ep_last_activity = 0,
         ep_created_at = 0\<rparr>]\<rparr>"

lemma db_example_ok: "pg_ok db_example"
  by (simp add: db_example_def pg_ok_defs conv_statuses_def vm_statuses_def)

lemma db_example_faults [simp]: "db_faults db_example = []"
  by (simp add: db_example_def)

lemma db_example_busy: "busy_ports ''v1'' (db_endpoints db_example) = [61000]"
  by (simp add: db_example_def busy_ports_def)

theorem smallest_port_correct_witness:
  "\<exists>p. GetSmallestAvailablePortOnVM ''v1'' 61000 61999 db_example = (Inr p, db_example) \<and>
    (p = 0 \<longleftrightarrow> (\<forall>q. 61000 \<le> q \<and> q \<le> 61999 \<longrightarrow> q \<in> set (busy_ports ''v1'' (db_endpoints db_example))))"
  using smallest_port_correct [of db_example 61000 "''v1''" 61999] by auto

lemma GetSmallest_Inr:
  assumes "db_faults d = []" and "0 < lo" and "GetSmallestAvailablePortOnVM vm lo hi d = (Inr p, d')"
    and "p \<noteq> 0"
  shows "lo \<le> p \<and> p \<le> hi \<and> p \<notin> set (busy_ports vm (db_endpoints d)) \<and> d' = d"
  using assms
  by (auto simp: GetSmallestAvailablePortOnVM_def first_row_def pgx_no_rows_def
      dest!: smallest_free split: list.splits)

text \<open>A port the query hands out is accepted: on a machine whose endpoints are all running, a
  conversation without endpoint gets one at that port (the UNIQUE constraints do not object), and
  the lookup by conversation then returns exactly this endpoint.\<close>

theorem allocated_port_accepted:
  assumes "pg_ok d" and "db_faults d = []" and "0 < lo"
    and "GetSmallestAvailablePortOnVM vm lo hi d = (Inr p, d')" and "p \<noteq> 0"
    and "\<forall>e \<in> set (db_endpoints d). ep_vm_instance_id e = vm \<longrightarrow> ep_status e = ''running''"
    and "c \<in> conv_id ` set (db_conversations d)" and "vm \<in> vm_id ` set (db_vms d)"
    and "c \<notin> ep_conversation_id ` set (db_endpoints d)"
    and "db_uuids d (db_drawn d) \<notin> ep_id ` set (db_endpoints d)"
  shows "\<exists>e d2. CreateSessionEndpoint c vm n p d' = (Inr e, d2) \<and> pg_ok d2 \<and>
    GetSessionEndpointByConversationID c d2 = (Inr e, d2) \<and>
    ep_port e = p \<and> ep_vm_instance_id e = vm \<and> ep_status e = ''running'' \<and>
    db_endpoints d2 = db_endpoints d @ [e]"
proof -
  have free: "p \<notin> set (busy_ports vm (db_endpoints d))" and d': "d' = d"
    using GetSmallest_Inr [OF assms(2-5)] by auto
  have "(vm, p) \<notin> set (map (\<lambda>e. (ep_vm_instance_id e, ep_port e)) (db_endpoints d))"
    using free assms(6) by (force simp: busy_ports_def)
  moreover have "filter (\<lambda>e. ep_conversation_id e = c) (db_endpoints d) = []"
    using assms(9) by (auto simp: filter_empty_conv)
  ultimately show ?thesis
    using assms d' CreateSessionEndpoint_ok [OF assms(1), of c vm n p]
    by (auto simp: CreateSessionEndpoint_def GetSessionEndpointByConversationID_def draw_uuid_def
        Let_def first_row_def)
qed

theorem allocated_port_accepted_witness:
  "\<exists>e d2. CreateSessionEndpoint ''c2'' ''v1'' ''n2'' 61001 db_example = (Inr e, d2) \<and>
     ep_port e = 61001 \<and> db_endpoints d2 = db_endpoints db_example @ [e]"
proof -
  have p: "GetSmallestAvailablePortOnVM ''v1'' 61000 61003 db_example = (Inr 61001, db_example)"
    unfolding GetSmallestAvailablePortOnVM_def
    by (simp add: db_example_busy first_row_def upto.simps)
  have u: "itoa 7 = ''7''" by code_simp
  show ?thesis
    using allocated_port_accepted [OF db_example_ok db_example_faults _ p, of "''c2''" "''n2''"] u
    by (auto simp: db_example_def)
qed

text \<open>A new session is offered the fullest running machine that still has room, and there is
  none exactly when every running machine is full.\<close>

theorem available_vm_correct:
  assumes "db_faults d = []"
  shows "case GetAvailableVMInstance n d of
      (Inr v, d') \<Rightarrow> d' = d \<and> v \<in> set (db_vms d) \<and> vm_status v = ''running'' \<and> vm_active_containers v < n \<and>
        (\<forall>u \<in> set (db_vms d). vm_status u = ''running'' \<and> vm_active_containers u < n \<longrightarrow>
           vm_active_containers u \<le> vm_active_containers v)
    | (Inl e, d') \<Rightarrow> d' = d \<and>
        (\<forall>u \<in> set (db_vms d). vm_status u = ''running'' \<longrightarrow> n \<le> vm_active_containers u)"
proof -
  define xs where "xs = filter (\<lambda>v. vm_status v = ''running'' \<and> vm_active_containers v < n) (db_vms d)"
  have q: "GetAvailableVMInstance n d = (first_row (sort_key (\<lambda>v. - vm_active_containers v) xs), d)"
    using assms by (simp add: GetAvailableVMInstance_def xs_def)
  show ?thesis
  proof (cases "sort_key (\<lambda>v. - vm_active_containers v) xs")
    case Nil
    then have "xs = []" by (metis set_empty set_sort)
    with Nil q show ?thesis
      by (auto simp: first_row_def xs_def filter_empty_conv not_less)
  next
    case (Cons v vs)
    have "sorted (map (\<lambda>v. - vm_active_containers v) (v # vs))"
      using sorted_sort_key [of "\<lambda>v. - vm_active_containers v" xs] Cons by simp
    then have "\<forall>u \<in> set (v # vs). vm_active_containers u \<le> vm_active_containers v" by auto
    moreover have "set (v # vs) = set xs" using Cons by (metis set_sort)
    ultimately show ?thesis using q Cons by (auto simp: first_row_def xs_def)
  qed
qed

theorem available_vm_correct_witness:
  "case GetAvailableVMInstance 10 db_example of
      (Inr v, d') \<Rightarrow> vm_id v = ''v1'' | (Inl e, d') \<Rightarrow> False"
proof -
  have "case GetAvailableVMInstance 10 db_example of
      (Inr v, d') \<Rightarrow> v \<in> set (db_vms db_example) | (Inl e, d') \<Rightarrow>
        (\<forall>u \<in> set (db_vms db_example). vm_status u = ''running'' \<longrightarrow> 10 \<le> vm_active_containers u)"
    using available_vm_correct [of db_example 10] by (auto split: sum.splits prod.splits)
  then show ?thesis by (auto simp: db_example_def split: sum.splits prod.splits)
qed

text \<open>The schema knows the machine statuses provisioning, running and terminated only, so
  marking an existing machine \<^verbatim>\<open>unhealthy\<close> is always refused and changes no row.\<close>

theorem mark_unhealthy_refused:
  assumes "i \<in> vm_id ` set (db_vms d)"
  shows "is_err (fst (UpdateVMInstanceStatus i ''unhealthy'' d)) \<and>
         db_vms (snd (UpdateVMInstanceStatus i ''unhealthy'' d)) = db_vms d"
proof -
  have u: "''unhealthy'' \<notin> set vm_statuses" by (simp add: vm_statuses_def)
  show ?thesis
    unfolding UpdateVMInstanceStatus_def
    by (rule pg_exec_cases [where d = d and q = "\<lambda>d.
          if ''unhealthy'' \<notin> set vm_statuses \<and> i \<in> set (map vm_id (db_vms d))
          then (Inl (violates ''vm_instances_status_check''), d)
          else (Inr (), d\<lparr>db_vms := update_where (\<lambda>v. vm_id v = i)
                 (\<lambda>v. v\<lparr>vm_status := ''unhealthy''\<rparr>) (db_vms d)\<rparr>)"])
      (use assms u in auto)
qed

theorem mark_unhealthy_refused_witness:
  "is_err (fst (UpdateVMInstanceStatus ''v1'' ''unhealthy'' db_example)) \<and>
   db_vms (snd (UpdateVMInstanceStatus ''v1'' ''unhealthy'' db_example)) = db_vms db_example"
  by (rule mark_unhealthy_refused) (simp add: db_example_def)

end
