(* ===== verification/DockerGCE_Props.thy ===== *)
theory DockerGCE_Props
  imports DockerGCE Repository_Props
begin

text \<open>
  Properties of the Compute Engine provider.  \<open>gce_outside\<close> states what the provider relies on
  outside the database: the other parties do not write the tables, starting an agent container is
  all or nothing, and removing one removes it.  \<open>gce_time\<close> states that time does not run
  backwards and that a wait past the end of its context fails.
\<close>

section \<open>What the statements leave alone\<close>

lemma pg_exec_frame:
  assumes "\<And>d fs. f (d\<lparr>db_faults := fs\<rparr>) = f d" and "\<And>d. f (snd (q d)) = f d"
  shows "f (snd (pg_exec q d)) = f d"
  by (rule pg_exec_inv [where P = "\<lambda>d'. f d' = f d"]) (simp_all add: assms)

definition vm_count :: "'z pgdb_scheme \<Rightarrow> string \<Rightarrow> int" where
  "vm_count w i = (case find (\<lambda>v. vm_id v = i) (db_vms w) of Some v \<Rightarrow> vm_active_containers v | None \<Rightarrow> 0)"

lemma vm_count_faults [simp]: "vm_count (d\<lparr>db_faults := fs\<rparr>) i = vm_count d i"
  by (simp add: vm_count_def)

lemma find_update_key:
  assumes "\<And>r. key (f r) = key r"
  shows "find (\<lambda>r. key r = i) (update_where (\<lambda>r. key r = j) f rows) =
    (if i = j then map_option f (find (\<lambda>r. key r = i) rows) else find (\<lambda>r. key r = i) rows)"
  by (induction rows) (auto simp: update_where_def assms)

lemma find_append: "find P (xs @ ys) = (case find P xs of Some x \<Rightarrow> Some x | None \<Rightarrow> find P ys)"
  by (induction xs) auto

lemma reads_keep [simp]:
  "db_vms (snd (GetSessionEndpointByConversationID c d)) = db_vms d"
  "db_endpoints (snd (GetSessionEndpointByConversationID c d)) = db_endpoints d"
  "pgdb.more (snd (GetSessionEndpointByConversationID c d)) = pgdb.more d"
  "db_vms (snd (GetAvailableVMInstance n d)) = db_vms d"
  "db_endpoints (snd (GetAvailableVMInstance n d)) = db_endpoints d"
  "pgdb.more (snd (GetAvailableVMInstance n d)) = pgdb.more d"
  "db_vms (snd (GetSmallestAvailablePortOnVM v lo hi d)) = db_vms d"
  "db_endpoints (snd (GetSmallestAvailablePortOnVM v lo hi d)) = db_endpoints d"
  "pgdb.more (snd (GetSmallestAvailablePortOnVM v lo hi d)) = pgdb.more d"
  unfolding GetSessionEndpointByConversationID_def GetAvailableVMInstance_def GetSmallestAvailablePortOnVM_def
  by (rule pg_exec_frame; simp split: sum.split)+

lemma vm_writes_keep [simp]:
  "db_endpoints (snd (UpdateVMInstanceStatus i s d)) = db_endpoints d"
  "pgdb.more (snd (UpdateVMInstanceStatus i s d)) = pgdb.more d"
  "db_endpoints (snd (UpdateVMInstanceIP i a d)) = db_endpoints d"
  "pgdb.more (snd (UpdateVMInstanceIP i a d)) = pgdb.more d"
  "db_endpoints (snd (CreateVMInstance n z a d)) = db_endpoints d"
  "pgdb.more (snd (CreateVMInstance n z a d)) = pgdb.more d"
  "db_endpoints (snd (IncrementVMActiveContainers i d)) = db_endpoints d"
  "pgdb.more (snd (IncrementVMActiveContainers i d)) = pgdb.more d"
  unfolding UpdateVMInstanceStatus_def UpdateVMInstanceIP_def CreateVMInstance_def IncrementVMActiveContainers_def
  by (rule pg_exec_frame; simp add: draw_uuid_def Let_def)+

lemma vm_count_keep [simp]:
  "vm_count (snd (UpdateVMInstanceStatus i s d)) j = vm_count d j"
  "vm_count (snd (UpdateVMInstanceIP i a d)) j = vm_count d j"
  "vm_count (snd (CreateVMInstance n z a d)) j = vm_count d j"
  unfolding UpdateVMInstanceStatus_def UpdateVMInstanceIP_def CreateVMInstance_def
  by (rule pg_exec_frame; auto simp: vm_count_def find_update_key find_append draw_uuid_def Let_def
      split: option.splits)+

lemma vm_count_cong: "db_vms w' = db_vms w \<Longrightarrow> vm_count w' i = vm_count w i"
  by (simp add: vm_count_def)

lemma Increment_Inr:
  assumes "IncrementVMActiveContainers i d = (Inr u, d')" and "i \<in> vm_id ` set (db_vms d)"
  shows "vm_count d' j = vm_count d j + (if j = i then 1 else 0)"
proof -
  have "find (\<lambda>v. vm_id v = i) (db_vms d) \<noteq> None" using assms(2) by (auto simp: find_None_iff)
  then show ?thesis
    using assms(1)
    by (auto simp: IncrementVMActiveContainers_def pg_exec_def vm_count_def find_update_key
        split: list.splits option.splits)
qed

lemma CreateSessionEndpoint_Inr:
  assumes "CreateSessionEndpoint c v n port d = (Inr e, d')"
  shows "db_endpoints d' = db_endpoints d @ [e] \<and> db_vms d' = db_vms d \<and> pgdb.more d' = pgdb.more d \<and>
    ep_conversation_id e = c \<and> ep_vm_instance_id e = v \<and> ep_container_name e = n \<and> ep_port e = port \<and>
    ep_status e = ''running'' \<and> v \<in> vm_id ` set (db_vms d) \<and> ep_id e \<notin> ep_id ` set (db_endpoints d)"
  using assms
  by (auto simp: CreateSessionEndpoint_def pg_exec_def draw_uuid_def Let_def split: list.splits option.splits if_splits)

lemma CreateSessionEndpoint_Inl:
  assumes "CreateSessionEndpoint c v n port d = (Inl e, d')"
  shows "db_endpoints d' = db_endpoints d \<and> db_vms d' = db_vms d \<and> pgdb.more d' = pgdb.more d"
  using assms
  by (auto simp: CreateSessionEndpoint_def pg_exec_def draw_uuid_def Let_def split: list.splits option.splits if_splits)

lemma GetSmallest_bounds:
  assumes "GetSmallestAvailablePortOnVM v lo hi d = (Inr port, d')" and "port \<noteq> 0"
  shows "lo \<le> port \<and> port \<le> hi \<and> port \<notin> set (busy_ports v (db_endpoints d))"
  using assms
  by (auto simp: GetSmallestAvailablePortOnVM_def pg_exec_def first_row_def pgx_no_rows_def
      dest!: smallest_free split: list.splits option.splits if_splits)

section \<open>The other parties\<close>

definition quiet :: "('z \<Rightarrow> 'l set) \<Rightarrow> 'z pgdb_scheme \<Rightarrow> 'z pgdb_scheme \<Rightarrow> bool" where
  "quiet live w w' \<longleftrightarrow> db_vms w' = db_vms w \<and> db_endpoints w' = db_endpoints w \<and>
     live (pgdb.more w') = live (pgdb.more w)"

lemma quiet_refl [simp]: "quiet live w w"
  by (simp add: quiet_def)

lemma quiet_trans: "quiet live w w1 \<Longrightarrow> quiet live w1 w2 \<Longrightarrow> quiet live w w2"
  by (simp add: quiet_def)

text \<open>What surrounds the provider, seen through a projection \<open>live\<close> of the rest of the world. The clock, the
  network, Compute Engine and the source of uuids leave the two tables and the view alone, and so do the
  calls of a container-manager that only look at an agent or stop it.\<close>

definition gce_apart :: "('z pgdb_scheme) gce_provider \<Rightarrow> ('z \<Rightarrow> 'l set) \<Rightarrow> bool" where
  "gce_apart p live \<longleftrightarrow>
     (\<forall>w. quiet live w (snd (gp_new_uuid p w))) \<and>
     (\<forall>req w. quiet live w (snd (gce_CreateInstance (gp_gce p) req w))) \<and>
     (\<forall>pr z n w. quiet live w (snd (gce_GetInstance (gp_gce p) pr z n w))) \<and>
     (\<forall>u r w. quiet live w (snd (an_do (gp_net p) u r w))) \<and>
     (\<forall>t w. quiet live w (snd (ck_select (gp_clock p) t w))) \<and>
     (\<forall>d t w. quiet live w (snd (ck_select_until (gp_clock p) d t w))) \<and>
     (\<forall>url dcm. gp_newDockerClient p url = Inr dcm \<longrightarrow>
        (\<forall>w. quiet live w (snd (cm_IsReady dcm w))) \<and> (\<forall>n w. quiet live w (snd (cm_StopContainer dcm n w))))"

text \<open>The calls that start and remove agents. The contract says what they do to the view it is read with: a
  start that succeeds adds its agent, a start that fails adds none, and an agent whose removal was asked for
  is gone from the view; no other agent is touched. The view need not be the set of the containers that
  exist, for which this is too much, since a start may fail after the container was created and a removal
  may fail; it can leave out those whose start or removal failed (\<open>gce_reports\<close> below).\<close>

definition manager_contract :: "('z \<Rightarrow> (string \<times> string) set) \<Rightarrow> string \<Rightarrow> ('z pgdb_scheme) container_manager \<Rightarrow> bool" where
  "manager_contract live url dcm \<longleftrightarrow>
     (\<forall>req w. case cm_RunAgent dcm req w of (r, w') \<Rightarrow>
        db_vms w' = db_vms w \<and> db_endpoints w' = db_endpoints w \<and>
        (case r of
           Inl e \<Rightarrow> live (pgdb.more w) - {(url, cr_name req)} \<subseteq> live (pgdb.more w') \<and>
             live (pgdb.more w') \<subseteq> live (pgdb.more w)
         | Inr u \<Rightarrow> live (pgdb.more w') = insert (url, cr_name req) (live (pgdb.more w)))) \<and>
     (\<forall>n w. case cm_RemoveContainer dcm n w of (r, w') \<Rightarrow>
        db_vms w' = db_vms w \<and> db_endpoints w' = db_endpoints w \<and>
        live (pgdb.more w') = live (pgdb.more w) - {(url, n)})"

definition gce_outside :: "('z pgdb_scheme) gce_provider \<Rightarrow> ('z \<Rightarrow> (string \<times> string) set) \<Rightarrow> bool" where
  "gce_outside p live \<longleftrightarrow> gce_apart p live \<and>
     (\<forall>url dcm. gp_newDockerClient p url = Inr dcm \<longrightarrow> manager_contract live url dcm)"

text \<open>The same with the containers themselves. \<open>there\<close> is the set of agent containers that exist, by the
  address of their container-manager and their name; \<open>lost\<close> holds those whose last start or removal was
  answered with an error. Nothing is promised of these: the container-manager leaves the container it created
  when Docker cannot start it, an answer can be lost after the container was started, and a removal can
  fail. Docker's names are unique, so that a name stands for one container.\<close>

definition manager_reports ::
    "('z \<Rightarrow> (string \<times> string) set) \<Rightarrow> ('z \<Rightarrow> (string \<times> string) set) \<Rightarrow> string \<Rightarrow> ('z pgdb_scheme) container_manager \<Rightarrow> bool" where
  "manager_reports there lost url dcm \<longleftrightarrow>
     (\<forall>req w. case cm_RunAgent dcm req w of (r, w') \<Rightarrow>
        db_vms w' = db_vms w \<and> db_endpoints w' = db_endpoints w \<and>
        (let a = (url, cr_name req); z = pgdb.more w; z' = pgdb.more w' in
         case r of
           Inl e \<Rightarrow> there z \<subseteq> there z' \<and> there z' \<subseteq> insert a (there z) \<and> lost z' = insert a (lost z)
         | Inr u \<Rightarrow> there z' = insert a (there z) \<and> lost z' = lost z - {a})) \<and>
     (\<forall>n w. case cm_RemoveContainer dcm n w of (r, w') \<Rightarrow>
        db_vms w' = db_vms w \<and> db_endpoints w' = db_endpoints w \<and>
        (let a = (url, n); z = pgdb.more w; z' = pgdb.more w' in
         case r of
           Inl e \<Rightarrow> there z - {a} \<subseteq> there z' \<and> there z' \<subseteq> there z \<and> lost z' = insert a (lost z)
         | Inr u \<Rightarrow> there z' = there z - {a} \<and> lost z' = lost z - {a}))"

definition gce_reports ::
    "('z pgdb_scheme) gce_provider \<Rightarrow> ('z \<Rightarrow> (string \<times> string) set) \<Rightarrow> ('z \<Rightarrow> (string \<times> string) set) \<Rightarrow> bool" where
  "gce_reports p there lost \<longleftrightarrow> gce_apart p there \<and> gce_apart p lost \<and>
     (\<forall>url dcm. gp_newDockerClient p url = Inr dcm \<longrightarrow> manager_reports there lost url dcm)"

definition kept_track :: "('z \<Rightarrow> 'l set) \<Rightarrow> ('z \<Rightarrow> 'l set) \<Rightarrow> 'z \<Rightarrow> 'l set" where
  "kept_track there lost z = there z - lost z"

lemma manager_reports_contract:
  assumes "manager_reports there lost url dcm"
  shows "manager_contract (kept_track there lost) url dcm"
  unfolding manager_contract_def
proof (intro conjI allI)
  show "case cm_RunAgent dcm req w of (r, w') \<Rightarrow>
      db_vms w' = db_vms w \<and> db_endpoints w' = db_endpoints w \<and>
      (case r of
         Inl e \<Rightarrow> kept_track there lost (pgdb.more w) - {(url, cr_name req)} \<subseteq> kept_track there lost (pgdb.more w') \<and>
           kept_track there lost (pgdb.more w') \<subseteq> kept_track there lost (pgdb.more w)
       | Inr u \<Rightarrow> kept_track there lost (pgdb.more w') = insert (url, cr_name req) (kept_track there lost (pgdb.more w)))"
    for req w
    using assms [unfolded manager_reports_def, THEN conjunct1, rule_format, of w req]
    by (auto simp: kept_track_def Let_def split: prod.splits sum.splits)
  show "case cm_RemoveContainer dcm n w of (r, w') \<Rightarrow>
      db_vms w' = db_vms w \<and> db_endpoints w' = db_endpoints w \<and>
      kept_track there lost (pgdb.more w') = kept_track there lost (pgdb.more w) - {(url, n)}"
    for n w
    using assms [unfolded manager_reports_def, THEN conjunct2, rule_format, of w n]
    by (auto simp: kept_track_def Let_def split: prod.splits sum.splits)
qed

lemma quiet_kept_track: "quiet there w w' \<Longrightarrow> quiet lost w w' \<Longrightarrow> quiet (kept_track there lost) w w'"
  by (simp add: quiet_def kept_track_def)

lemma gce_reports_outside: "gce_reports p there lost \<Longrightarrow> gce_outside p (kept_track there lost)"
  by (simp add: gce_reports_def gce_outside_def gce_apart_def quiet_kept_track manager_reports_contract)

lemma RC_GetAuthStatus_quiet:
  assumes "gce_outside p live"
  shows "quiet live w (snd (RC_GetAuthStatus (gp_net p) url w))"
  using assms
  by (auto simp: RC_GetAuthStatus_def send_request_def gce_outside_def gce_apart_def
      split: option.splits sum.splits prod.splits)
    (metis snd_conv)+

lemma poll_quiet:
  assumes "gce_outside p live" and "\<And>w. quiet live w (snd (probe w))"
  shows "poll fuel p until what probe w = Some (r, w') \<Longrightarrow> quiet live w w'"
proof (induction fuel arbitrary: w)
  case 0
  then show ?case by simp
next
  case (Suc fuel)
  obtain x w1 where p: "probe w = (x, w1)" by (cases "probe w")
  obtain q w2 where q: "ck_select_until (gp_clock p) until (gc_PollInterval (gp_config p)) w1 = (q, w2)"
    by (cases "ck_select_until (gp_clock p) until (gc_PollInterval (gp_config p)) w1")
  have 1: "quiet live w w1" using assms(2) [of w] p by simp
  have "quiet live w1 (snd (ck_select_until (gp_clock p) until (gc_PollInterval (gp_config p)) w1))"
    using assms(1) unfolding gce_outside_def gce_apart_def by blast
  then have 2: "quiet live w1 w2" using q by simp
  show ?case
  proof (cases x)
    case (Some y)
    with Suc.prems p 1 show ?thesis by simp
  next
    case None
    with Suc.prems p q 1 2 Suc.IH [of w2] show ?thesis
      by (cases q) (auto intro: quiet_trans)
  qed
qed

lemma gce_outsideD:
  assumes "gce_outside p live"
  shows "gp_new_uuid p w = (u, w') \<Longrightarrow> quiet live w w'"
    and "gce_CreateInstance (gp_gce p) req w = (r, w') \<Longrightarrow> quiet live w w'"
    and "ck_select (gp_clock p) t w = (r2, w') \<Longrightarrow> quiet live w w'"
    and "gp_newDockerClient p url = Inr dcm \<Longrightarrow> manager_contract live url dcm"
    and "gp_newDockerClient p url = Inr dcm \<Longrightarrow> quiet live w (snd (cm_IsReady dcm w))"
    and "gp_newDockerClient p url = Inr dcm \<Longrightarrow> quiet live w (snd (cm_StopContainer dcm n w))"
  using assms unfolding gce_outside_def gce_apart_def by (metis snd_conv)+

lemma manager_contract_Remove:
  assumes "manager_contract live url dcm"
  shows "db_vms (snd (cm_RemoveContainer dcm n w)) = db_vms w"
    and "db_endpoints (snd (cm_RemoveContainer dcm n w)) = db_endpoints w"
    and "live (pgdb.more (snd (cm_RemoveContainer dcm n w))) = live (pgdb.more w) - {(url, n)}"
  using assms [unfolded manager_contract_def, THEN conjunct2, rule_format, of w n]
  by (simp_all add: case_prod_unfold)

lemma discard_agent_contract:
  assumes "gce_outside p live" and "gp_newDockerClient p url = Inr dcm"
  shows "db_vms (discard_agent dcm n w) = db_vms w \<and> db_endpoints (discard_agent dcm n w) = db_endpoints w \<and>
    live (pgdb.more (discard_agent dcm n w)) = live (pgdb.more w) - {(url, n)}"
  using manager_contract_Remove [OF gce_outsideD(4) [OF assms], of n "snd (cm_StopContainer dcm n w)"]
    gce_outsideD(6) [OF assms, of w n]
  by (simp add: discard_agent_def quiet_def)

lemma manager_contract_RunAgent:
  assumes "manager_contract live url dcm" and "cm_RunAgent dcm req w = (r, w')"
  shows "db_vms w' = db_vms w" and "db_endpoints w' = db_endpoints w"
    and "case r of Inl e \<Rightarrow> live (pgdb.more w') \<subseteq> live (pgdb.more w)
      | Inr u \<Rightarrow> live (pgdb.more w') = insert (url, cr_name req) (live (pgdb.more w))"
  using assms(1) [unfolded manager_contract_def, THEN conjunct1, rule_format, of w req] assms(2)
  by (simp_all split: sum.splits)

lemma waitForAgentReady_quiet:
  assumes "gce_outside p live" and "waitForAgentReady fuel p ip port w = Some (r, w')"
  shows "quiet live w w'"
proof -
  have "quiet live w (snd (probe_agent p url w))" for url w
    using RC_GetAuthStatus_quiet [OF assms(1), of w url]
    by (auto simp: probe_agent_def split: prod.splits sum.splits)
  from poll_quiet [OF assms(1) this assms(2) [unfolded waitForAgentReady_def]] show ?thesis .
qed

text \<open>What recording an endpoint leaves: one new row, one new container, both for the conversation.\<close>

definition recorded_at ::
    "('z pgdb_scheme) gce_provider \<Rightarrow> ('z \<Rightarrow> (string \<times> string) set) \<Rightarrow> string \<Rightarrow> string \<Rightarrow> string \<Rightarrow>
     session_endpoint \<Rightarrow> 'z pgdb_scheme \<Rightarrow> 'z pgdb_scheme \<Rightarrow> bool" where
  "recorded_at p live c v ip ep w w' \<longleftrightarrow>
     db_endpoints w' = db_endpoints w @ [ep] \<and> db_vms w' = db_vms w \<and>
     live (pgdb.more w') = insert (cm_url p ip, container_name p c) (live (pgdb.more w)) \<and>
     ep_conversation_id ep = c \<and> ep_vm_instance_id ep = v \<and> ep_container_name ep = container_name p c \<and>
     ep_status ep = ''running'' \<and> v \<in> vm_id ` set (db_vms w) \<and>
     gc_PortRangeStart (gp_config p) \<le> ep_port ep \<and> ep_port ep \<le> gc_PortRangeEnd (gp_config p) \<and>
     ep_port ep \<notin> set (busy_ports v (db_endpoints w))"

definition nothing_kept :: "('z \<Rightarrow> 'l set) \<Rightarrow> 'z pgdb_scheme \<Rightarrow> 'z pgdb_scheme \<Rightarrow> bool" where
  "nothing_kept live w w' \<longleftrightarrow> db_vms w' = db_vms w \<and> db_endpoints w' = db_endpoints w \<and>
     live (pgdb.more w') \<subseteq> live (pgdb.more w)"

lemma quiet_nothing_kept: "quiet live w w' \<Longrightarrow> nothing_kept live w w'"
  by (simp add: quiet_def nothing_kept_def)

lemma nothing_kept_trans: "nothing_kept live w w1 \<Longrightarrow> nothing_kept live w1 w2 \<Longrightarrow> nothing_kept live w w2"
  by (auto simp: nothing_kept_def)

text \<open>What \<^verbatim>\<open>getOrCreateEndpoint\<close> does once the container runs: wait for the agent, write the row, and take
  the container away again when either fails.\<close>

definition settle_agent ::
    "nat \<Rightarrow> ('z pgdb_scheme) gce_provider \<Rightarrow> string \<Rightarrow> string \<Rightarrow> string \<Rightarrow> int \<Rightarrow> ('z pgdb_scheme) container_manager \<Rightarrow>
     'z pgdb_scheme \<Rightarrow> (attempt \<times> 'z pgdb_scheme) option" where
  "settle_agent fuel p c v ip port dcm w =
     (case waitForAgentReady fuel p ip port w of
        None \<Rightarrow> None
      | Some (Inl err, w) \<Rightarrow> Some (Abort (errorf ''wait for agent ready'' err), discard_agent dcm (container_name p c) w)
      | Some (Inr _, w) \<Rightarrow>
          (case CreateSessionEndpoint c v (container_name p c) port w of
             (Inr ep, w) \<Rightarrow> Some (Recorded ep, w)
           | (Inl err, w) \<Rightarrow> Some (Collided err, discard_agent dcm (container_name p c) w)))"

lemma try_port_settles:
  assumes "GetSmallestAvailablePortOnVM v (gc_PortRangeStart (gp_config p)) (gc_PortRangeEnd (gp_config p)) w = (Inr port, w1)"
    and "port \<noteq> 0" and "gp_newDockerClient p (cm_url p ip) = Inr dcm"
    and "cm_RunAgent dcm (agent_run_request p c v port) w1 = (Inr u, w2)"
  shows "try_port fuel p c v ip w = settle_agent fuel p c v ip port dcm w2"
  using assms by (simp add: try_port_def settle_agent_def)

lemma settle_agent_outcome:
  assumes out: "gce_outside p live" and d: "gp_newDockerClient p (cm_url p ip) = Inr dcm"
    and run: "settle_agent fuel p c v ip port dcm w2 = Some (a, w')"
    and k2: "db_vms w2 = db_vms w" "db_endpoints w2 = db_endpoints w"
      "live (pgdb.more w2) = insert (cm_url p ip, container_name p c) (live (pgdb.more w))"
    and port: "gc_PortRangeStart (gp_config p) \<le> port \<and> port \<le> gc_PortRangeEnd (gp_config p) \<and>
      port \<notin> set (busy_ports v (db_endpoints w))"
  shows "case a of Recorded ep \<Rightarrow> recorded_at p live c v ip ep w w' | _ \<Rightarrow> nothing_kept live w w'"
proof -
  note D = discard_agent_contract [OF out d, of "container_name p c"]
  obtain q3 w3 where 3: "waitForAgentReady fuel p ip port w2 = Some (q3, w3)"
    using run by (auto simp: settle_agent_def split: option.splits)
  have k3: "quiet live w2 w3" using waitForAgentReady_quiet [OF out 3] .
  obtain q4 w4 where 4: "CreateSessionEndpoint c v (container_name p c) port w3 = (q4, w4)"
    by (cases "CreateSessionEndpoint c v (container_name p c) port w3")
  note res = run [unfolded settle_agent_def 3 4 option.case prod.case]
  show ?thesis
  proof (cases q3)
    case (Inl e)
    with res D [of w3] k2 k3 show ?thesis by (auto simp: nothing_kept_def quiet_def)
  next
    case q3: (Inr x)
    show ?thesis
    proof (cases q4)
      case (Inl e)
      with res q3 D [of w4] k2 k3 CreateSessionEndpoint_Inl [OF 4 [unfolded Inl]] show ?thesis
        by (auto simp: nothing_kept_def quiet_def)
    next
      case q4: (Inr ep)
      then have "a = Recorded ep" "w' = w4" using res q3 by simp_all
      then show ?thesis
        using k2 k3 CreateSessionEndpoint_Inr [OF 4 [unfolded q4]] port by (simp add: recorded_at_def quiet_def)
    qed
  qed
qed

lemma try_port_outcome:
  assumes out: "gce_outside p live" and run: "try_port fuel p c v ip w = Some (a, w')"
  shows "case a of Recorded ep \<Rightarrow> recorded_at p live c v ip ep w w' | _ \<Rightarrow> nothing_kept live w w'"
proof -
  obtain q1 w1 where 1: "GetSmallestAvailablePortOnVM v (gc_PortRangeStart (gp_config p)) (gc_PortRangeEnd (gp_config p)) w = (q1, w1)"
    by (cases "GetSmallestAvailablePortOnVM v (gc_PortRangeStart (gp_config p)) (gc_PortRangeEnd (gp_config p)) w")
  have k1: "db_vms w1 = db_vms w" "db_endpoints w1 = db_endpoints w" "pgdb.more w1 = pgdb.more w"
    using reads_keep(7-9) [of v "gc_PortRangeStart (gp_config p)" "gc_PortRangeEnd (gp_config p)" w] 1 by simp_all
  then have n1: "nothing_kept live w w1" by (simp add: nothing_kept_def)
  show ?thesis
  proof (cases "\<exists>port dcm. q1 = Inr port \<and> port \<noteq> 0 \<and> gp_newDockerClient p (cm_url p ip) = Inr dcm")
    case False
    with run 1 n1 show ?thesis by (auto simp: try_port_def split: sum.splits if_splits)
  next
    case True
    then obtain port dcm where q1: "q1 = Inr port" "port \<noteq> 0" and d: "gp_newDockerClient p (cm_url p ip) = Inr dcm"
      by blast
    have con: "manager_contract live (cm_url p ip) dcm" using gce_outsideD(4) [OF out d] .
    obtain q2 w2 where 2: "cm_RunAgent dcm (agent_run_request p c v port) w1 = (q2, w2)"
      by (cases "cm_RunAgent dcm (agent_run_request p c v port) w1")
    note ran = manager_contract_RunAgent [OF con 2]
    show ?thesis
    proof (cases q2)
      case (Inl e)
      with ran have "nothing_kept live w1 w2" by (simp add: nothing_kept_def)
      with run 1 q1 d 2 Inl n1 show ?thesis by (auto simp: try_port_def intro: nothing_kept_trans)
    next
      case (Inr u)
      have k2: "db_vms w2 = db_vms w" "db_endpoints w2 = db_endpoints w"
        "live (pgdb.more w2) = insert (cm_url p ip, container_name p c) (live (pgdb.more w))"
        using ran Inr k1 by (simp_all add: agent_run_request_def)
      note tail = run [unfolded try_port_settles [OF 1 [unfolded q1(1)] q1(2) d 2 [unfolded Inr]]]
      show ?thesis by (rule settle_agent_outcome [OF out d tail k2 GetSmallest_bounds [OF 1 [unfolded q1(1)] q1(2)]])
    qed
  qed
qed

lemma port_loop_outcome:
  assumes out: "gce_outside p live"
  shows "port_loop fuel p c v ip n w = Some (r, w') \<Longrightarrow>
    case r of Inr ep \<Rightarrow> \<exists>w0. nothing_kept live w w0 \<and> recorded_at p live c v ip ep w0 w'
    | Inl e \<Rightarrow> nothing_kept live w w'"
proof (induction n arbitrary: w)
  case n: (0 w)
  then obtain a w1 where t: "try_port fuel p c v ip w = Some (a, w1)"
    by (auto simp: port_loop.simps split: option.splits)
  have "nothing_kept live w w" by (simp add: nothing_kept_def)
  with try_port_outcome [OF out t] n t show ?case
    by (cases a) (auto simp: port_loop.simps)
next
  case (Suc n w)
  then obtain a w1 where t: "try_port fuel p c v ip w = Some (a, w1)"
    by (auto simp: port_loop.simps split: option.splits)
  obtain q w2 where s: "ck_select (gp_clock p) (gc_PollInterval (gp_config p) sdiv 2) w1 = (q, w2)"
    by (cases "ck_select (gp_clock p) (gc_PollInterval (gp_config p) sdiv 2) w1")
  have refl: "nothing_kept live w w" by (simp add: nothing_kept_def)
  have 2: "nothing_kept live w1 w2" using gce_outsideD(3) [OF out s] by (rule quiet_nothing_kept)
  show ?case
  proof (cases a)
    case (Collided e)
    with try_port_outcome [OF out t] have "nothing_kept live w w1" by simp
    then have 3: "nothing_kept live w w2" using 2 by (rule nothing_kept_trans)
    show ?thesis
    proof (cases q)
      case (Inl e)
      with Suc.prems t s Collided 3 show ?thesis by (auto simp: port_loop.simps [of _ _ _ _ _ "Suc n"])
    next
      case (Inr u)
      with Suc.prems t s Collided have "port_loop fuel p c v ip n w2 = Some (r, w')"
        by (simp add: port_loop.simps [of _ _ _ _ _ "Suc n"])
      from Suc.IH [OF this] 3 show ?thesis by (auto split: sum.splits intro: nothing_kept_trans)
    qed
  next
    case (Abort e)
    with try_port_outcome [OF out t] Suc.prems t refl show ?thesis by (auto simp: port_loop.simps)
  next
    case (Recorded ep)
    with try_port_outcome [OF out t] Suc.prems t refl show ?thesis by (auto simp: port_loop.simps)
  qed
qed

text \<open>Finding a machine changes neither endpoints nor containers nor counters.\<close>

definition vm_only :: "('z \<Rightarrow> 'l set) \<Rightarrow> 'z pgdb_scheme \<Rightarrow> 'z pgdb_scheme \<Rightarrow> bool" where
  "vm_only live w w' \<longleftrightarrow> db_endpoints w' = db_endpoints w \<and> live (pgdb.more w') = live (pgdb.more w) \<and>
     (\<forall>i. vm_count w' i = vm_count w i)"

lemma vm_only_refl [simp]: "vm_only live w w"
  by (simp add: vm_only_def)

lemma vm_only_trans: "vm_only live w w1 \<Longrightarrow> vm_only live w1 w2 \<Longrightarrow> vm_only live w w2"
  by (simp add: vm_only_def)

lemma quiet_vm_only: "quiet live w w' \<Longrightarrow> vm_only live w w'"
  by (simp add: quiet_def vm_only_def vm_count_def)

lemma vm_only_statements:
  "GetAvailableVMInstance n w = (r1, w') \<Longrightarrow> vm_only live w w'"
  "UpdateVMInstanceStatus i st w = (r2, w') \<Longrightarrow> vm_only live w w'"
  "UpdateVMInstanceIP i a w = (r2, w') \<Longrightarrow> vm_only live w w'"
  "CreateVMInstance nm z a w = (r1, w') \<Longrightarrow> vm_only live w w'"
  "GetSessionEndpointByConversationID c w = (r3, w') \<Longrightarrow> vm_only live w w'"
  using reads_keep(4-6) [of n w] vm_writes_keep(1,2) [of i st w] vm_writes_keep(3,4) [of i a w]
    vm_writes_keep(5,6) [of nm z a w] vm_count_keep [where d = w] reads_keep(1-3) [of c w]
  by (auto simp: vm_only_def vm_count_def) (metis snd_conv)+

lemma pick_attempts_vm_only:
  assumes out: "gce_outside p live"
  shows "pick_attempts n p lastErr w = (r, w') \<Longrightarrow> vm_only live w w'"
proof (induction n arbitrary: w lastErr)
  case 0
  then show ?case by simp
next
  case (Suc n)
  obtain q1 w1 where 1: "GetAvailableVMInstance (gc_MaxContainers (gp_config p)) w = (q1, w1)"
    by (cases "GetAvailableVMInstance (gc_MaxContainers (gp_config p)) w")
  note k1 = vm_only_statements(1) [OF 1, of live]
  show ?case
  proof (cases q1)
    case (Inl e)
    with Suc.prems 1 k1 show ?thesis by simp
  next
    case q1: (Inr vm)
    show ?thesis
    proof (cases "gp_newDockerClient p (cm_url p (vm_internal_ip vm))")
      case (Inl e)
      obtain q2 w2 where 2: "UpdateVMInstanceStatus (vm_id vm) ''unhealthy'' w1 = (q2, w2)"
        by (cases "UpdateVMInstanceStatus (vm_id vm) ''unhealthy'' w1")
      from Suc.prems 1 q1 Inl 2 Suc.IH have "vm_only live w2 w'" by simp
      with k1 vm_only_statements(2) [OF 2, of live] show ?thesis by (blast intro: vm_only_trans)
    next
      case d: (Inr dcm)
      obtain ready w2 where 2: "cm_IsReady dcm w1 = (ready, w2)" by (cases "cm_IsReady dcm w1")
      have k2: "vm_only live w1 w2"
        using gce_outsideD(5) [OF out d, of w1] 2 by (simp add: quiet_vm_only)
      obtain q3 w3 where 3: "UpdateVMInstanceStatus (vm_id vm) ''unhealthy'' w2 = (q3, w3)"
        by (cases "UpdateVMInstanceStatus (vm_id vm) ''unhealthy'' w2")
      note k3 = vm_only_statements(2) [OF 3, of live]
      show ?thesis
      proof (cases "ready \<or> is_err q3")
        case True
        with Suc.prems 1 q1 d 2 3 have "w' = w2 \<or> w' = w3" by (auto split: if_splits elim: is_errE)
        with k1 k2 k3 show ?thesis by (blast intro: vm_only_trans)
      next
        case False
        then obtain u where "q3 = Inr u" by (auto elim: not_is_errE)
        with False Suc.prems 1 q1 d 2 3 Suc.IH have "vm_only live w3 w'" by auto
        with k1 k2 k3 show ?thesis by (blast intro: vm_only_trans)
      qed
    qed
  qed
qed

lemma createGCEVM_vm_only:
  assumes out: "gce_outside p live" and "createGCEVM p w = (r, w')"
  shows "vm_only live w w'"
proof -
  obtain u w1 where 1: "gp_new_uuid p w = (u, w1)" by (cases "gp_new_uuid p w")
  obtain q w2 where 2: "gce_CreateInstance (gp_gce p) (vm_create_request (gp_config p) (''cc-tunnel-'' @ take 8 u)) w1 = (q, w2)"
    by (cases "gce_CreateInstance (gp_gce p) (vm_create_request (gp_config p) (''cc-tunnel-'' @ take 8 u)) w1")
  have k: "vm_only live w w2"
    using quiet_vm_only [OF gce_outsideD(1) [OF out 1]] quiet_vm_only [OF gce_outsideD(2) [OF out 2]]
    by (rule vm_only_trans)
  show ?thesis
  proof (cases q)
    case (Inl e)
    with assms(2) 1 2 k show ?thesis by (simp add: createGCEVM_def)
  next
    case (Inr inst)
    with assms(2) 1 2
    have "wrap_err ''record VM in DB''
        (CreateVMInstance (gi_Name inst) (gc_Zone (gp_config p)) (gi_NetworkIP inst) w2) = (r, w')"
      by (simp add: createGCEVM_def)
    then have w': "w' = snd (CreateVMInstance (gi_Name inst) (gc_Zone (gp_config p)) (gi_NetworkIP inst) w2)"
      by (metis snd_conv snd_wrap_err)
    have "vm_only live w2 w'" unfolding w' by (simp add: vm_only_def)
    with k show ?thesis by (rule vm_only_trans)
  qed
qed

lemma waitForVMReady_vm_only:
  assumes out: "gce_outside p live" and run: "waitForVMReady fuel p vm w = Some (r, w')"
  shows "vm_only live w w'"
proof -
  define what where "what = running_timeout (vm_gce_instance_name vm)"
  define until where "until = deadline p (gc_VMReadyTimeout (gp_config p)) w"
  from run obtain q1 w1 where 1: "poll fuel p until what (probe_running p (vm_gce_instance_name vm)) w = Some (q1, w1)"
    by (auto simp: waitForVMReady_def what_def until_def split: option.splits)
  have "quiet live v (snd (gce_GetInstance (gp_gce p) pr z n v))" for pr z n v
    using out unfolding gce_outside_def gce_apart_def by blast
  then have "quiet live v (snd (probe_running p n v))" for n v
    by (auto simp: probe_running_def split: prod.splits sum.splits) (metis snd_conv)+
  from poll_quiet [OF out this 1] have k1: "vm_only live w w1" by (rule quiet_vm_only)
  show ?thesis
  proof (cases q1)
    case (Inl e)
    with run 1 k1 show ?thesis by (simp add: waitForVMReady_def what_def until_def)
  next
    case q1: (Inr ip)
    define w2 where "w2 = snd (UpdateVMInstanceStatus (vm_id vm) ''running'' (snd (UpdateVMInstanceIP (vm_id vm) ip w1)))"
    have k2: "vm_only live w w2" using k1 by (simp add: w2_def vm_only_def)
    show ?thesis
    proof (cases "gp_newDockerClient p (cm_url p ip)")
      case (Inl e)
      with run 1 q1 k2 show ?thesis by (simp add: waitForVMReady_def what_def until_def Let_def w2_def)
    next
      case d: (Inr dcm)
      have run': "(case poll fuel p (deadline p (gc_ContainerManagerReadyTimeout (gp_config p)) w2)
          (manager_timeout (cm_url p ip)) (probe_manager dcm) w2 of
            None \<Rightarrow> None | Some (Inl err, w) \<Rightarrow> Some (Inl err, w) | Some (Inr _, w) \<Rightarrow> Some (Inr ip, w)) = Some (r, w')"
        using run 1 q1 d by (simp add: waitForVMReady_def what_def until_def Let_def w2_def)
      then obtain q3 where 3: "poll fuel p (deadline p (gc_ContainerManagerReadyTimeout (gp_config p)) w2)
          (manager_timeout (cm_url p ip)) (probe_manager dcm) w2 = Some (q3, w')"
        by (auto split: option.splits sum.splits)
      have "quiet live v (snd (probe_manager dcm v))" for v
        using gce_outsideD(5) [OF out d, of v] by (auto simp: probe_manager_def split: prod.splits)
      from poll_quiet [OF out this 3] have "vm_only live w2 w'" by (rule quiet_vm_only)
      with k2 show ?thesis by (rule vm_only_trans)
    qed
  qed
qed

lemma obtain_vm_vm_only:
  assumes out: "gce_outside p live" and run: "obtain_vm fuel p w = Some (r, w')"
  shows "vm_only live w w'"
proof -
  obtain q1 w1 where 1: "pickHealthyAvailableVM p w = (q1, w1)" by (cases "pickHealthyAvailableVM p w")
  have k1: "vm_only live w w1"
    using pick_attempts_vm_only [OF out] 1 by (simp add: pickHealthyAvailableVM_def)
  obtain q2 w2 where 2: "createGCEVM p w1 = (q2, w2)" by (cases "createGCEVM p w1")
  note k2 = createGCEVM_vm_only [OF out 2]
  show ?thesis
  proof (cases q1)
    case (Inr vm)
    with run 1 k1 show ?thesis by (simp add: obtain_vm_def)
  next
    case q1: (Inl e)
    show ?thesis
    proof (cases q2)
      case (Inl e')
      with run 1 q1 2 k1 k2 show ?thesis by (auto simp: obtain_vm_def intro: vm_only_trans)
    next
      case (Inr vm)
      with run 1 q1 2 obtain q3 where "waitForVMReady fuel p vm w2 = Some (q3, w')"
        by (auto simp: obtain_vm_def split: option.splits sum.splits)
      from waitForVMReady_vm_only [OF out this] k1 k2 show ?thesis by (blast intro: vm_only_trans)
    qed
  qed
qed

lemma running_endpoint_outcome:
  assumes "running_endpoint c w = (r, w')"
  shows "vm_only live w w' \<and>
    (case r of None \<Rightarrow> True
     | Some ep \<Rightarrow> ep \<in> set (db_endpoints w) \<and> ep_conversation_id ep = c \<and> ep_status ep = ''running'')"
proof -
  obtain q w1 where 1: "GetSessionEndpointByConversationID c w = (q, w1)"
    by (cases "GetSessionEndpointByConversationID c w")
  note k = vm_only_statements(5) [OF 1, of live]
  have "ep \<in> set (db_endpoints w) \<and> ep_conversation_id ep = c" if "q = Inr ep" for ep
    using 1 that
    by (auto simp: GetSessionEndpointByConversationID_def pg_exec_def first_row_def filter_eq_Cons_iff
        split: list.splits option.splits)
  with assms 1 k show ?thesis
    by (auto simp: running_endpoint_def split: sum.splits if_splits)
qed

text \<open>The two ways an endpoint is obtained.\<close>

definition reused :: "('z \<Rightarrow> (string \<times> string) set) \<Rightarrow> string \<Rightarrow> session_endpoint \<Rightarrow> 'z pgdb_scheme \<Rightarrow> 'z pgdb_scheme \<Rightarrow> bool" where
  "reused live c ep w w' \<longleftrightarrow> ep \<in> set (db_endpoints w) \<and> ep_status ep = ''running'' \<and>
     ep_conversation_id ep = c \<and> vm_only live w w'"

definition provisioned ::
    "('z pgdb_scheme) gce_provider \<Rightarrow> ('z \<Rightarrow> (string \<times> string) set) \<Rightarrow> string \<Rightarrow> session_endpoint \<Rightarrow>
     'z pgdb_scheme \<Rightarrow> 'z pgdb_scheme \<Rightarrow> bool" where
  "provisioned p live c ep w w' \<longleftrightarrow>
     db_endpoints w' = db_endpoints w @ [ep] \<and> ep_conversation_id ep = c \<and> ep_status ep = ''running'' \<and>
     ep_container_name ep = container_name p c \<and>
     gc_PortRangeStart (gp_config p) \<le> ep_port ep \<and> ep_port ep \<le> gc_PortRangeEnd (gp_config p) \<and>
     ep_port ep \<notin> set (busy_ports (ep_vm_instance_id ep) (db_endpoints w)) \<and>
     (\<exists>url. (url, container_name p c) \<in> live (pgdb.more w') \<and>
        live (pgdb.more w') \<subseteq> insert (url, container_name p c) (live (pgdb.more w))) \<and>
     (\<forall>i. vm_count w' i = vm_count w i + (if i = ep_vm_instance_id ep then 1 else 0))"

text \<open>The state before the increment of the counter, on every path that ends in an error.\<close>

definition left_behind :: "('z \<Rightarrow> (string \<times> string) set) \<Rightarrow> 'z pgdb_scheme \<Rightarrow> 'z pgdb_scheme \<Rightarrow> bool" where
  "left_behind live w w' \<longleftrightarrow>
     (db_endpoints w' = db_endpoints w \<and> live (pgdb.more w') \<subseteq> live (pgdb.more w)) \<or>
     (\<exists>ep url. db_endpoints w' = db_endpoints w @ [ep] \<and>
        live (pgdb.more w') \<subseteq> insert (url, ep_container_name ep) (live (pgdb.more w)))"

text \<open>The count of a row that was recorded.\<close>

lemma recorded_counted:
  assumes before: "vm_only live w w2" "nothing_kept live w2 w0"
    and rec: "recorded_at p live c (vm_id vm) (vm_internal_ip vm) ep w0 w3"
    and inc: "IncrementVMActiveContainers (vm_id vm) w3 = (q4, w4)"
  shows "case q4 of Inr _ \<Rightarrow> provisioned p live c ep w w4 | Inl _ \<Rightarrow> left_behind live w w4"
proof -
  let ?x = "(cm_url p (vm_internal_ip vm), container_name p c)"
  have k4: "db_endpoints w4 = db_endpoints w3" "pgdb.more w4 = pgdb.more w3"
    using vm_writes_keep(7,8) [of "vm_id vm" w3] inc by simp_all
  have l4: "?x \<in> live (pgdb.more w4)" "live (pgdb.more w4) \<subseteq> insert ?x (live (pgdb.more w))"
    using before rec k4 by (auto simp: nothing_kept_def recorded_at_def vm_only_def)
  have e4: "db_endpoints w4 = db_endpoints w @ [ep]"
    using before rec k4 by (simp add: nothing_kept_def recorded_at_def vm_only_def)
  have n: "ep_container_name ep = container_name p c" using rec by (simp add: recorded_at_def)
  show ?thesis
  proof (cases q4)
    case (Inl e)
    have "left_behind live w w4" unfolding left_behind_def using e4 l4(2) n by metis
    with Inl show ?thesis by simp
  next
    case q4: (Inr u)
    have "vm_id vm \<in> vm_id ` set (db_vms w3)" using rec by (simp add: recorded_at_def)
    note counted = Increment_Inr [OF inc [unfolded q4] this]
    have cnt: "vm_count w3 i = vm_count w i" for i
      using before rec vm_count_cong [of w3 w2 i] by (simp add: recorded_at_def nothing_kept_def vm_only_def)
    have "busy_ports (vm_id vm) (db_endpoints w0) = busy_ports (vm_id vm) (db_endpoints w)"
      using before by (simp add: nothing_kept_def vm_only_def)
    then have "provisioned p live c ep w w4"
      unfolding provisioned_def using rec e4 counted cnt
      by (intro conjI exI [of _ "cm_url p (vm_internal_ip vm)"] l4) (simp_all add: recorded_at_def)
    with q4 show ?thesis by simp
  qed
qed

lemma createEndpoint_outcome:
  assumes out: "gce_outside p live" and run: "createEndpoint fuel p c w = Some (r, w')"
  shows "case r of Inr ep \<Rightarrow> reused live c ep w w' \<or> provisioned p live c ep w w' | Inl e \<Rightarrow> left_behind live w w'"
proof -
  obtain q1 w1 where 1: "running_endpoint c w = (q1, w1)" by (cases "running_endpoint c w")
  have k1: "vm_only live w w1" using running_endpoint_outcome [OF 1, of live] by simp
  show ?thesis
  proof (cases q1)
    case (Some ep)
    with run 1 running_endpoint_outcome [OF 1, of live] show ?thesis
      by (auto simp: createEndpoint_def reused_def)
  next
    case None
    with run 1 obtain q2 w2 where 2: "obtain_vm fuel p w1 = Some (q2, w2)"
      by (auto simp: createEndpoint_def split: option.splits)
    have k2: "vm_only live w w2" using k1 obtain_vm_vm_only [OF out 2] by (rule vm_only_trans)
    show ?thesis
    proof (cases q2)
      case (Inl e)
      with run 1 None 2 k2 show ?thesis by (auto simp: createEndpoint_def left_behind_def vm_only_def)
    next
      case q2: (Inr vm)
      with run 1 None 2 obtain q3 w3
        where 3: "port_loop fuel p c (vm_id vm) (vm_internal_ip vm) 2 w2 = Some (q3, w3)"
        by (auto simp: createEndpoint_def split: option.splits)
      note k3 = port_loop_outcome [OF out 3]
      show ?thesis
      proof (cases q3)
        case (Inl e)
        with run 1 None 2 q2 3 k2 k3 show ?thesis
          by (auto simp: createEndpoint_def left_behind_def vm_only_def nothing_kept_def)
      next
        case q3: (Inr ep)
        obtain q4 w4 where 4: "IncrementVMActiveContainers (vm_id vm) w3 = (q4, w4)"
          by (cases "IncrementVMActiveContainers (vm_id vm) w3")
        from k3 q3 obtain w0 where "nothing_kept live w2 w0"
          "recorded_at p live c (vm_id vm) (vm_internal_ip vm) ep w0 w3" by auto
        from recorded_counted [OF k2 this 4] run 1 None 2 q2 3 q3 4 show ?thesis
          by (cases q4) (auto simp: createEndpoint_def)
      qed
    qed
  qed
qed

lemma outcome_from:
  assumes "vm_only live w w1"
  shows "reused live c ep w1 w' \<Longrightarrow> reused live c ep w w'"
    and "provisioned p live c ep w1 w' \<Longrightarrow> provisioned p live c ep w w'"
    and "left_behind live w1 w' \<Longrightarrow> left_behind live w w'"
  using assms by (auto simp only: reused_def provisioned_def left_behind_def vm_only_def)

lemma getOrCreateEndpoint_outcome:
  assumes out: "gce_outside p live" and run: "getOrCreateEndpoint fuel p c w = Some (r, w')"
  shows "case r of Inr ep \<Rightarrow> reused live c ep w w' \<or> provisioned p live c ep w w' | Inl e \<Rightarrow> left_behind live w w'"
proof -
  obtain q1 w1 where 1: "running_endpoint c w = (q1, w1)" by (cases "running_endpoint c w")
  have k1: "vm_only live w w1" using running_endpoint_outcome [OF 1, of live] by simp
  show ?thesis
  proof (cases q1)
    case (Some ep)
    with run 1 running_endpoint_outcome [OF 1, of live] show ?thesis
      by (auto simp: getOrCreateEndpoint_def reused_def)
  next
    case None
    with run 1 have "createEndpoint fuel p c w1 = Some (r, w')" by (simp add: getOrCreateEndpoint_def)
    from createEndpoint_outcome [OF out this] show ?thesis
      by (cases r) (use outcome_from [OF k1] in auto)
  qed
qed

text \<open>C2: an endpoint that is handed out is the conversation's running one, with nothing started and
  no counter touched, or a new one: then exactly one row is added, at a port of the configured range
  that no running endpoint of the machine held, its container exists, no other container is
  left over, and the counter of its machine - and of no other - has gone up by one.\<close>

theorem endpoint_provisioned:
  assumes "gce_outside p live" and "getOrCreateEndpoint fuel p c w = Some (Inr ep, w')"
  shows "reused live c ep w w' \<or> provisioned p live c ep w w'"
  using getOrCreateEndpoint_outcome [OF assms] by simp

definition accounted :: "('z \<Rightarrow> (string \<times> string) set) \<Rightarrow> 'z pgdb_scheme \<Rightarrow> bool" where
  "accounted live w \<longleftrightarrow> snd ` live (pgdb.more w) \<subseteq> ep_container_name ` set (db_endpoints w)"

lemma accounted_same:
  assumes "accounted live w" and "db_endpoints w' = db_endpoints w" and "live (pgdb.more w') \<subseteq> live (pgdb.more w)"
  shows "accounted live w'"
  using assms(1) image_mono [OF assms(3), of snd] by (simp add: accounted_def assms(2))

lemma accounted_new:
  assumes "accounted live w" and "db_endpoints w' = db_endpoints w @ [ep]"
    and "live (pgdb.more w') \<subseteq> insert (url, ep_container_name ep) (live (pgdb.more w))"
  shows "accounted live w'"
proof -
  have "snd ` live (pgdb.more w') \<subseteq> insert (ep_container_name ep) (snd ` live (pgdb.more w))"
    using image_mono [OF assms(3), of snd] by simp
  also have "\<dots> \<subseteq> insert (ep_container_name ep) (ep_container_name ` set (db_endpoints w))"
    using assms(1) by (intro insert_mono) (simp add: accounted_def)
  finally show ?thesis by (simp add: accounted_def assms(2))
qed

lemma outcome_accounted:
  assumes "gce_outside p live" and "getOrCreateEndpoint fuel p c w = Some (r, w')" and "accounted live w"
  shows "accounted live w'"
proof (cases r)
  case (Inl e)
  with getOrCreateEndpoint_outcome [OF assms(1,2)] have "left_behind live w w'" by simp
  then show ?thesis
    unfolding left_behind_def using accounted_same [OF assms(3)] accounted_new [OF assms(3)] by blast
next
  case (Inr ep)
  with getOrCreateEndpoint_outcome [OF assms(1,2)] have "reused live c ep w w' \<or> provisioned p live c ep w w'"
    by simp
  then show ?thesis
  proof
    assume "reused live c ep w w'"
    then show ?thesis by (intro accounted_same [OF assms(3)]) (simp_all add: reused_def vm_only_def)
  next
    assume "provisioned p live c ep w w'"
    then show ?thesis unfolding provisioned_def using accounted_new [OF assms(3)] by metis
  qed
qed

text \<open>C7: an operation orphans no agent container that the container-managers let it know of. When, before
  it, every container that exists either belongs to an endpoint row or had its last start or removal
  answered with an error, this is still so after it, however it ends: no port, an agent that never
  answers, collisions of ports, lost database connections, a counter that cannot be incremented, a start
  or a removal that fails. The containers of a failed start or removal are excepted, because the provider
  does not go back to them: container-manager leaves the container it created when Docker cannot start it,
  and the error of a removal is dropped.\<close>

theorem no_orphan_agents:
  assumes "gce_reports p there lost" and "getOrCreateEndpoint fuel p c w = Some (r, w')"
    and "\<And>url n. (url, n) \<in> there (pgdb.more w) \<Longrightarrow>
      n \<in> ep_container_name ` set (db_endpoints w) \<or> (url, n) \<in> lost (pgdb.more w)"
    and "(url, n) \<in> there (pgdb.more w')"
  shows "n \<in> ep_container_name ` set (db_endpoints w') \<or> (url, n) \<in> lost (pgdb.more w')"
proof -
  have "accounted (kept_track there lost) w" using assms(3) by (fastforce simp: accounted_def kept_track_def)
  from outcome_accounted [OF gce_reports_outside [OF assms(1)] assms(2) this] assms(4) show ?thesis
    by (force simp: accounted_def kept_track_def)
qed

section \<open>Termination\<close>

definition gce_time :: "'w gce_provider \<Rightarrow> bool" where
  "gce_time p \<longleftrightarrow>
     (\<forall>pr z n w. ck_now (gp_clock p) w \<le> ck_now (gp_clock p) (snd (gce_GetInstance (gp_gce p) pr z n w))) \<and>
     (\<forall>u r w. ck_now (gp_clock p) w \<le> ck_now (gp_clock p) (snd (an_do (gp_net p) u r w))) \<and>
     (\<forall>url dcm w. gp_newDockerClient p url = Inr dcm \<longrightarrow>
        ck_now (gp_clock p) w \<le> ck_now (gp_clock p) (snd (cm_IsReady dcm w))) \<and>
     (\<forall>d t w u w'. ck_select_until (gp_clock p) d t w = (Inr u, w') \<longrightarrow>
        ck_now (gp_clock p) w < d \<and> ck_now (gp_clock p) w + t \<le> ck_now (gp_clock p) w')"

definition fuel_enough :: "'w gce_provider \<Rightarrow> nat \<Rightarrow> bool" where
  "fuel_enough p fuel \<longleftrightarrow>
     (let q = gc_PollInterval (gp_config p) in 0 < q \<and>
      (\<forall>t \<in> {gc_VMReadyTimeout (gp_config p), gc_ContainerManagerReadyTimeout (gp_config p),
              gc_AgentReadyTimeout (gp_config p)}. 0 \<le> t \<and> nat (t div q + 2) \<le> fuel))"

lemma poll_returns:
  assumes "gce_time p" and "0 < gc_PollInterval (gp_config p)"
    and "\<And>w. ck_now (gp_clock p) w \<le> ck_now (gp_clock p) (snd (probe w))"
  shows "until \<le> ck_now (gp_clock p) w + int n * gc_PollInterval (gp_config p) \<Longrightarrow>
    poll (Suc n) p until what probe w \<noteq> None"
proof (induction n arbitrary: w)
  case (0 w)
  obtain x w1 where p: "probe w = (x, w1)" by (cases "probe w")
  have "ck_now (gp_clock p) w \<le> ck_now (gp_clock p) w1" using assms(3) [of w] p by simp
  with 0 assms(1) have "fst (ck_select_until (gp_clock p) until t w1) \<noteq> Inr u" for t u
    by (cases "ck_select_until (gp_clock p) until t w1") (fastforce simp: gce_time_def)
  then show ?case using p by (auto split: option.split sum.split prod.split) (metis fst_conv)
next
  case (Suc n w)
  obtain x w1 where p: "probe w = (x, w1)" by (cases "probe w")
  obtain q w2 where q: "ck_select_until (gp_clock p) until (gc_PollInterval (gp_config p)) w1 = (q, w2)"
    by (cases "ck_select_until (gp_clock p) until (gc_PollInterval (gp_config p)) w1")
  have 1: "ck_now (gp_clock p) w \<le> ck_now (gp_clock p) w1" using assms(3) [of w] p by simp
  show ?case
  proof (cases "x = None \<and> \<not> is_err q")
    case False
    then show ?thesis using p q by (auto simp: is_err_def split: option.splits sum.splits)
  next
    case True
    then obtain u where u: "q = Inr u" by (auto elim: not_is_errE)
    then have "ck_now (gp_clock p) w1 + gc_PollInterval (gp_config p) \<le> ck_now (gp_clock p) w2"
      using assms(1) q unfolding gce_time_def by blast
    with 1 Suc.prems have "until \<le> ck_now (gp_clock p) w2 + int n * gc_PollInterval (gp_config p)"
      by (simp add: algebra_simps)
    from Suc.IH [OF this] show ?thesis using True p q u by simp
  qed
qed

lemma poll_within:
  assumes "gce_time p" and "0 < gc_PollInterval (gp_config p)" and "0 \<le> t"
    and "nat (t div gc_PollInterval (gp_config p) + 2) \<le> fuel"
    and "\<And>w. ck_now (gp_clock p) w \<le> ck_now (gp_clock p) (snd (probe w))"
  obtains r w' where "poll fuel p (deadline p t w) what probe w = Some (r, w')"
proof -
  let ?q = "gc_PollInterval (gp_config p)"
  have pos: "0 \<le> t div ?q" using assms(2,3) by (simp add: pos_imp_zdiv_nonneg_iff)
  then obtain f where f: "fuel = Suc f" "t div ?q + 1 \<le> int f" using assms(4) by (cases fuel) auto
  have "t < (t div ?q + 1) * ?q" using assms(2) by (simp add: mult.commute distrib_left zmod_trivial_iff)
      (metis add.commute add_less_cancel_left div_mult_mod_eq mult.commute pos_mod_bound)
  also have "\<dots> \<le> int f * ?q" using f(2) assms(2) by (simp add: mult_right_mono)
  finally have "deadline p t w \<le> ck_now (gp_clock p) w + int f * ?q" by (simp add: deadline_def)
  from poll_returns [where probe = probe, OF assms(1,2,5) this] f(1) that show ?thesis by (metis not_Some_eq surj_pair)
qed

lemma probes_mono:
  assumes "gce_time p"
  shows "ck_now (gp_clock p) w \<le> ck_now (gp_clock p) (snd (probe_running p n w))"
    and "ck_now (gp_clock p) w \<le> ck_now (gp_clock p) (snd (probe_agent p url w))"
    and "gp_newDockerClient p url = Inr dcm \<Longrightarrow> ck_now (gp_clock p) w \<le> ck_now (gp_clock p) (snd (probe_manager dcm w))"
proof -
  have a: "ck_now (gp_clock p) w \<le> ck_now (gp_clock p) (snd (gce_GetInstance (gp_gce p) pr z n w))" for pr z n w
    using assms by (simp add: gce_time_def)
  have b: "ck_now (gp_clock p) w \<le> ck_now (gp_clock p) (snd (an_do (gp_net p) u r w))" for u r w
    using assms by (simp add: gce_time_def)
  show "ck_now (gp_clock p) w \<le> ck_now (gp_clock p) (snd (probe_running p n w))"
    using a [of w] by (auto simp: probe_running_def split: prod.splits sum.splits) (metis snd_conv)+
  show "ck_now (gp_clock p) w \<le> ck_now (gp_clock p) (snd (probe_agent p url w))"
    using b [of w] by (auto simp: probe_agent_def RC_GetAuthStatus_def send_request_def split: prod.splits sum.splits
        option.splits if_splits) (metis snd_conv order_refl)+
  show "gp_newDockerClient p url = Inr dcm \<Longrightarrow> ck_now (gp_clock p) w \<le> ck_now (gp_clock p) (snd (probe_manager dcm w))"
    using assms by (auto simp: gce_time_def probe_manager_def split: prod.splits) (metis snd_conv)
qed

lemma waits_return:
  assumes "gce_time p" and "fuel_enough p fuel"
  shows "\<exists>r. waitForAgentReady fuel p ip port w = Some r" and "\<exists>r. waitForVMReady fuel p vm w' = Some r"
proof -
  note f = assms(2) [unfolded fuel_enough_def Let_def, simplified]
  have "\<exists>r. poll fuel p (deadline p (gc_AgentReadyTimeout (gp_config p)) w) what (probe_agent p url) w = Some r" for what url w
    by (rule poll_within [OF assms(1), of "gc_AgentReadyTimeout (gp_config p)" fuel "probe_agent p url" w what])
      (use f probes_mono(2) [OF assms(1)] in auto)
  then show "\<exists>r. waitForAgentReady fuel p ip port w = Some r" unfolding waitForAgentReady_def by blast
  have 1: "\<exists>r w'. poll fuel p (deadline p (gc_VMReadyTimeout (gp_config p)) w) what (probe_running p n) w = Some (r, w')" for what n w
    by (rule poll_within [OF assms(1), of "gc_VMReadyTimeout (gp_config p)" fuel "probe_running p n" w what])
      (use f probes_mono(1) [OF assms(1)] in auto)
  have 2: "\<exists>r w'. poll fuel p (deadline p (gc_ContainerManagerReadyTimeout (gp_config p)) w) what (probe_manager dcm) w = Some (r, w')"
    if "gp_newDockerClient p url = Inr dcm" for what url dcm w
    by (rule poll_within [OF assms(1), of "gc_ContainerManagerReadyTimeout (gp_config p)" fuel "probe_manager dcm" w what])
      (use f probes_mono(3) [OF assms(1) that] in auto)
  obtain r1 w1 where p1: "poll fuel p (deadline p (gc_VMReadyTimeout (gp_config p)) w')
      (running_timeout (vm_gce_instance_name vm))
      (probe_running p (vm_gce_instance_name vm)) w' = Some (r1, w1)"
    using 1 by blast
  show "\<exists>r. waitForVMReady fuel p vm w' = Some r"
  proof (cases r1)
    case (Inl e)
    then show ?thesis by (simp add: waitForVMReady_def p1)
  next
    case (Inr ip)
    define w2 where "w2 = snd (UpdateVMInstanceStatus (vm_id vm) ''running'' (snd (UpdateVMInstanceIP (vm_id vm) ip w1)))"
    show ?thesis
    proof (cases "gp_newDockerClient p (cm_url p ip)")
      case (Inl e)
      then show ?thesis by (simp add: waitForVMReady_def p1 Inr Let_def)
    next
      case d: (Inr dcm)
      obtain r3 w3 where "poll fuel p (deadline p (gc_ContainerManagerReadyTimeout (gp_config p)) w2)
          (manager_timeout (cm_url p ip)) (probe_manager dcm) w2 = Some (r3, w3)"
        using 2 [OF d] by blast
      then show ?thesis
        by (cases r3) (simp_all add: waitForVMReady_def p1 Inr Let_def d w2_def)
    qed
  qed
qed

lemma port_loop_returns:
  assumes "gce_time p" and "fuel_enough p fuel"
  shows "\<exists>r. port_loop fuel p c v ip n w = Some r"
proof (induction n arbitrary: w)
  case (0 w)
  have "\<exists>a w'. try_port fuel p c v ip w = Some (a, w')"
    using waits_return(1) [OF assms] unfolding try_port_def
    by (auto split: prod.split sum.split option.split) (metis not_Some_eq)+
  then obtain a w' where "try_port fuel p c v ip w = Some (a, w')" by blast
  then show ?case by (cases a) (simp_all add: port_loop.simps)
next
  case (Suc n w)
  have "\<exists>a w'. try_port fuel p c v ip w = Some (a, w')"
    using waits_return(1) [OF assms] unfolding try_port_def
    by (auto split: prod.split sum.split option.split) (metis not_Some_eq)+
  then obtain a w' where "try_port fuel p c v ip w = Some (a, w')" by blast
  then show ?case
    using Suc.IH by (cases a) (auto simp: port_loop.simps [of _ _ _ _ _ "Suc n"] split: prod.split sum.split)
qed

lemma obtain_vm_returns:
  assumes "gce_time p" and "fuel_enough p fuel"
  shows "\<exists>r. obtain_vm fuel p w = Some r"
proof -
  have "\<exists>r. waitForVMReady fuel p vm w = Some r" for vm w using waits_return(2) [OF assms] .
  then show ?thesis unfolding obtain_vm_def
    by (auto split: prod.split sum.split option.split) (metis not_Some_eq)+
qed

text \<open>C8: obtaining an endpoint always comes to an end: when time does not run backwards and a wait past
  the end of its context fails, as many polls as the longest of the three timeouts holds pauses, and
  two more, suffice.\<close>

theorem get_or_create_returns:
  assumes "gce_time p" and "fuel_enough p fuel"
  shows "\<exists>r w'. getOrCreateEndpoint fuel p c w = Some (r, w')"
proof -
  have c: "\<exists>r. createEndpoint fuel p c w = Some r" for w
  proof -
    obtain q1 w1 where 1: "running_endpoint c w = (q1, w1)" by (cases "running_endpoint c w")
    obtain q2 w2 where 2: "obtain_vm fuel p w1 = Some (q2, w2)" using obtain_vm_returns [OF assms] by force
    show ?thesis
    proof (cases "q1 = None \<and> \<not> is_err q2")
      case False
      then show ?thesis using 1 2 by (auto simp: createEndpoint_def is_err_def split: option.split sum.splits)
    next
      case True
      then obtain vm where q2: "q2 = Inr vm" by (auto elim: not_is_errE)
      obtain q3 w3 where 3: "port_loop fuel p c (vm_id vm) (vm_internal_ip vm) 2 w2 = Some (q3, w3)"
        using port_loop_returns [OF assms] by force
      show ?thesis using True 1 2 q2 3
        by (auto simp: createEndpoint_def split: option.split sum.split prod.split)
    qed
  qed
  show ?thesis using c by (auto simp: getOrCreateEndpoint_def split: option.split prod.split)
qed

end
