(* ===== verification/EndpointSteps_Props.thy ===== *)
theory EndpointSteps_Props
  imports EndpointSteps DockerGCE_Props
begin

text \<open>
  What holds of the steps of \<^verbatim>\<open>getOrCreateEndpoint\<close>: an uninterrupted run is the operation itself;
  whatever the order in which the requests of different conversations move, no agent container is
  forgotten and every endpoint is counted on its machine.
\<close>

section \<open>An uninterrupted run\<close>

lemma goes_to_refl: "goes_to p c s s"
  by (simp add: goes_to_def)

lemma goes_to_trans: "goes_to p c s t \<Longrightarrow> goes_to p c t u \<Longrightarrow> goes_to p c s u"
  unfolding goes_to_def by (rule rtranclp_trans)

lemma goes_to_step: "goes_to p c (caller_step p c s w) t \<Longrightarrow> goes_to p c (s, w) t"
  unfolding goes_to_def by (rule converse_rtranclp_into_rtranclp) auto

lemma goes_to_one: "caller_step p c s w = t \<Longrightarrow> goes_to p c (s, w) t"
  by (rule goes_to_step) (simp add: goes_to_refl)

lemma poll_goes_to:
  assumes step: "\<And>w. caller_step p c s w = (case poll_once p until what probe w of
      (Again, w) \<Rightarrow> (s, w) | (Expired err, w) \<Rightarrow> (f err, w) | (Answered x, w) \<Rightarrow> (g x, w))"
  shows "poll fuel p until what probe w = Some (r, w') \<Longrightarrow>
    goes_to p c (s, w) (case r of Inl err \<Rightarrow> f err | Inr x \<Rightarrow> g x, w')"
proof (induction fuel arbitrary: w)
  case 0
  then show ?case by simp
next
  case (Suc fuel)
  show ?case
  proof (cases "fst (poll_once p until what probe w)")
    case Again
    then have "\<exists>w1. poll_once p until what probe w = (Again, w1) \<and> poll fuel p until what probe w1 = Some (r, w')"
      using Suc.prems by (auto simp: poll_once_def split: prod.splits option.splits sum.splits)
    then obtain w1 where 1: "poll_once p until what probe w = (Again, w1)" "poll fuel p until what probe w1 = Some (r, w')"
      by blast
    show ?thesis by (rule goes_to_step) (use Suc.IH [OF 1(2)] in \<open>simp add: step 1\<close>)
  next
    case (Expired err)
    then show ?thesis using Suc.prems
      by (intro goes_to_one) (auto simp: step poll_once_def split: prod.splits option.splits sum.splits)
  next
    case (Answered x)
    then show ?thesis using Suc.prems
      by (intro goes_to_one) (auto simp: step poll_once_def split: prod.splits option.splits sum.splits)
  qed
qed

lemma pick_goes_to:
  "pick_attempts n p lastErr w = (r, w') \<Longrightarrow>
    goes_to p c (Picking n, w) (case r of Inl _ \<Rightarrow> Creating | Inr vm \<Rightarrow> Placing vm 2, w')"
proof (induction n arbitrary: w lastErr)
  case 0
  then show ?case by (intro goes_to_one) auto
next
  case (Suc n)
  obtain q w1 where q: "GetAvailableVMInstance (gc_MaxContainers (gp_config p)) w = (q, w1)"
    by (cases "GetAvailableVMInstance (gc_MaxContainers (gp_config p)) w")
  show ?case
  proof (cases q)
    case (Inl e)
    with Suc.prems q show ?thesis by (intro goes_to_one) auto
  next
    case q': (Inr vm)
    show ?thesis
    proof (cases "gp_newDockerClient p (cm_url p (vm_internal_ip vm))")
      case (Inl e)
      show ?thesis
        by (rule goes_to_step, simp add: q q', rule goes_to_step)
          (use Suc.prems q q' Inl in \<open>auto intro: Suc.IH\<close>)
    next
      case (Inr dcm)
      obtain b w2 where b: "cm_IsReady dcm w1 = (b, w2)" by (cases "cm_IsReady dcm w1")
      obtain u w3 where u: "UpdateVMInstanceStatus (vm_id vm) ''unhealthy'' w2 = (u, w3)"
        by (cases "UpdateVMInstanceStatus (vm_id vm) ''unhealthy'' w2")
      have r: "if b then r = Inr vm \<and> w' = w2
          else if is_err u then (\<exists>e. r = Inl e) \<and> w' = w3
          else (\<exists>l. pick_attempts n p l w3 = (r, w'))"
        using Suc.prems by (cases b; cases u) (auto simp: q q' Inr b u)
      have "goes_to p c (Picking (Suc n), w) (Checking n vm, w1)"
        by (rule goes_to_one) (simp add: q q')
      moreover have "goes_to p c (Checking n vm, w1) (if b then Placing vm 2 else Unhealthy n vm, w2)"
        by (rule goes_to_one) (simp add: Inr b)
      moreover have "goes_to p c (Unhealthy n vm, w2) (case u of Inl _ \<Rightarrow> Creating | Inr _ \<Rightarrow> Picking n, w3)"
        by (rule goes_to_one) (simp add: u split: sum.split)
      moreover have "goes_to p c (Picking n, w3) (case r of Inl _ \<Rightarrow> Creating | Inr vm \<Rightarrow> Placing vm 2, w')"
        if "\<not> b" "\<not> is_err u"
        using r that Suc.IH by auto
      ultimately show ?thesis
        using r by (cases u; cases b) (auto intro: goes_to_trans)
    qed
  qed
qed

lemma wait_vm_goes_to:
  assumes "waitForVMReady fuel p vm w = Some (r, w')"
  shows "goes_to p c (Booting vm (deadline p (gc_VMReadyTimeout (gp_config p)) w), w)
    (case r of Inl err \<Rightarrow> Finished (Inl (errorf ''wait for VM ready'' err))
     | Inr ip \<Rightarrow> Placing (vm\<lparr>vm_internal_ip := ip\<rparr>) 2, w')"
proof -
  let ?until = "deadline p (gc_VMReadyTimeout (gp_config p)) w"
  obtain q w1 where 1: "poll fuel p ?until (running_timeout (vm_gce_instance_name vm))
      (probe_running p (vm_gce_instance_name vm)) w = Some (q, w1)"
    using assms by (auto simp: waitForVMReady_def split: option.splits)
  have g1: "goes_to p c (Booting vm ?until, w)
      (case q of Inl err \<Rightarrow> Finished (Inl (errorf ''wait for VM ready'' err)) | Inr ip \<Rightarrow> Addressed vm ip, w1)"
    by (rule poll_goes_to [OF _ 1]) simp
  show ?thesis
  proof (cases q)
    case (Inl e)
    with assms 1 g1 show ?thesis by (auto simp: waitForVMReady_def)
  next
    case (Inr ip)
    let ?vm = "vm\<lparr>vm_internal_ip := ip\<rparr>"
    let ?until2 = "deadline p (gc_ContainerManagerReadyTimeout (gp_config p))"
    define w2 where "w2 = snd (UpdateVMInstanceStatus (vm_id vm) ''running'' (snd (UpdateVMInstanceIP (vm_id vm) ip w1)))"
    have g2: "goes_to p c (Addressed vm ip, w1) (Marking vm ip, snd (UpdateVMInstanceIP (vm_id vm) ip w1))"
      by (rule goes_to_one) simp
    show ?thesis
    proof (cases "gp_newDockerClient p (cm_url p ip)")
      case d: (Inl e)
      have "goes_to p c (Marking vm ip, snd (UpdateVMInstanceIP (vm_id vm) ip w1))
          (Finished (Inl (errorf ''wait for VM ready''
             (errorf (''create container-manager client for '' @ cm_url p ip) e))), w2)"
        by (rule goes_to_one) (simp add: d w2_def)
      moreover have "r = Inl (errorf (''create container-manager client for '' @ cm_url p ip) e) \<and> w' = w2"
        using assms by (auto simp: waitForVMReady_def 1 Inr d w2_def Let_def)
      ultimately show ?thesis using g1 g2 Inr by (auto intro: goes_to_trans)
    next
      case d: (Inr dcm)
      obtain q2 w3 where 2: "poll fuel p (?until2 w2) (manager_timeout (cm_url p ip)) (probe_manager dcm) w2 = Some (q2, w3)"
        using assms by (auto simp: waitForVMReady_def 1 Inr d w2_def [symmetric] Let_def split: option.splits)
      have g3: "goes_to p c (Marking vm ip, snd (UpdateVMInstanceIP (vm_id vm) ip w1)) (Connecting ?vm (?until2 w2), w2)"
        by (rule goes_to_one) (simp add: d w2_def Let_def)
      have g4: "goes_to p c (Connecting ?vm (?until2 w2), w2)
          (case q2 of Inl err \<Rightarrow> Finished (Inl (errorf ''wait for VM ready'' err)) | Inr _ \<Rightarrow> Placing ?vm 2, w3)"
        by (rule poll_goes_to [OF _ 2]) (simp add: d)
      have "w' = w3 \<and> (case q2 of Inl e \<Rightarrow> r = Inl e | Inr _ \<Rightarrow> r = Inr ip)"
        using assms by (auto simp: waitForVMReady_def 1 Inr d w2_def [symmetric] Let_def 2 split: sum.splits)
      with g1 g2 g3 g4 Inr show ?thesis by (auto split: sum.splits intro: goes_to_trans)
    qed
  qed
qed

lemma obtain_vm_goes_to:
  assumes "obtain_vm fuel p w = Some (r, w')"
  shows "goes_to p c (Picking 5, w) (case r of Inl err \<Rightarrow> Finished (Inl err) | Inr vm \<Rightarrow> Placing vm 2, w')"
proof -
  obtain q1 w1 where 1: "pickHealthyAvailableVM p w = (q1, w1)" by (cases "pickHealthyAvailableVM p w")
  note g1 = pick_goes_to [OF 1 [unfolded pickHealthyAvailableVM_def], of c]
  show ?thesis
  proof (cases q1)
    case (Inr vm)
    with assms 1 g1 show ?thesis by (auto simp: obtain_vm_def)
  next
    case q1: (Inl e)
    obtain q2 w2 where 2: "createGCEVM p w1 = (q2, w2)" by (cases "createGCEVM p w1")
    show ?thesis
    proof (cases q2)
      case (Inl e2)
      have "goes_to p c (Creating, w1) (Finished (Inl (errorf ''create GCE VM'' e2)), w2)"
        by (rule goes_to_one) (simp add: 2 Inl)
      moreover have "r = Inl (errorf ''create GCE VM'' e2) \<and> w' = w2"
        using assms by (auto simp: obtain_vm_def 1 q1 2 Inl)
      ultimately show ?thesis using g1 q1 by (auto intro: goes_to_trans)
    next
      case (Inr vm)
      obtain q3 w3 where 3: "waitForVMReady fuel p vm w2 = Some (q3, w3)"
        using assms by (auto simp: obtain_vm_def 1 q1 2 Inr split: option.splits)
      have "goes_to p c (Creating, w1) (Booting vm (deadline p (gc_VMReadyTimeout (gp_config p)) w2), w2)"
        by (rule goes_to_one) (simp add: 2 Inr)
      moreover have "w' = w3 \<and> (case q3 of Inl e \<Rightarrow> r = Inl (errorf ''wait for VM ready'' e)
          | Inr ip \<Rightarrow> r = Inr (vm\<lparr>vm_internal_ip := ip\<rparr>))"
        using assms by (auto simp: obtain_vm_def 1 q1 2 Inr 3 split: sum.splits)
      ultimately show ?thesis using g1 q1 wait_vm_goes_to [OF 3, of c]
        by (auto split: sum.splits intro: goes_to_trans)
    qed
  qed
qed

lemma settle_agent_goes_to:
  assumes d: "gp_newDockerClient p (cm_url p (vm_internal_ip vm)) = Inr dcm"
    and run: "settle_agent fuel p c (vm_id vm) (vm_internal_ip vm) port dcm w2 = Some (a, w')"
  shows "goes_to p c (Agent_up vm n port (deadline p (gc_AgentReadyTimeout (gp_config p)) w2), w2)
    (case a of Abort err \<Rightarrow> Finished (Inl err)
     | Recorded ep \<Rightarrow> Row_made (vm_id vm) ep
     | Collided err \<Rightarrow> (case n of
           0 \<Rightarrow> Finished (Inl (errorf ''create session endpoint after 3 attempts'' err))
         | Suc n \<Rightarrow> Pausing vm n), w')"
proof -
  obtain q3 w3 where 3: "waitForAgentReady fuel p (vm_internal_ip vm) port w2 = Some (q3, w3)"
    using run by (auto simp: settle_agent_def split: option.splits)
  have g3: "goes_to p c (Agent_up vm n port (deadline p (gc_AgentReadyTimeout (gp_config p)) w2), w2)
      (case q3 of Inl e \<Rightarrow> Abandoning vm (errorf ''wait for agent ready'' e) | Inr _ \<Rightarrow> Agent_ready vm n port, w3)"
    by (rule poll_goes_to [OF _ 3 [unfolded waitForAgentReady_def]]) simp
  obtain q4 w4 where 4: "CreateSessionEndpoint c (vm_id vm) (container_name p c) port w3 = (q4, w4)"
    by (cases "CreateSessionEndpoint c (vm_id vm) (container_name p c) port w3")
  note res = run [unfolded settle_agent_def 3 4 option.case prod.case]
  show ?thesis
  proof (cases q3)
    case (Inl e)
    have "goes_to p c (Abandoning vm (errorf ''wait for agent ready'' e), w3)
        (Finished (Inl (errorf ''wait for agent ready'' e)), discard_agent dcm (container_name p c) w3)"
      by (rule goes_to_one) (simp add: d)
    with g3 res Inl show ?thesis by (auto intro: goes_to_trans)
  next
    case q3: (Inr x)
    have g4: "goes_to p c (Agent_ready vm n port, w3)
        (case q4 of Inr ep \<Rightarrow> Row_made (vm_id vm) ep | Inl err \<Rightarrow> Retrying vm n err, w4)"
      by (rule goes_to_one) (simp add: 4 split: sum.split)
    have g5: "goes_to p c (Retrying vm n err, w4)
        (case n of 0 \<Rightarrow> Finished (Inl (errorf ''create session endpoint after 3 attempts'' err))
         | Suc n \<Rightarrow> Pausing vm n, discard_agent dcm (container_name p c) w4)" for err
      by (rule goes_to_one) (simp add: d)
    show ?thesis
      using g3 g4 g5 q3 res by (cases q4) (auto intro: goes_to_trans)
  qed
qed

lemma try_port_goes_to:
  assumes "try_port fuel p c (vm_id vm) (vm_internal_ip vm) w = Some (a, w')"
  shows "goes_to p c (Placing vm n, w)
    (case a of Abort err \<Rightarrow> Finished (Inl err)
     | Recorded ep \<Rightarrow> Row_made (vm_id vm) ep
     | Collided err \<Rightarrow> (case n of
           0 \<Rightarrow> Finished (Inl (errorf ''create session endpoint after 3 attempts'' err))
         | Suc n \<Rightarrow> Pausing vm n), w')"
proof -
  obtain q1 w1 where 1: "GetSmallestAvailablePortOnVM (vm_id vm) (gc_PortRangeStart (gp_config p))
      (gc_PortRangeEnd (gp_config p)) w = (q1, w1)"
    by (cases "GetSmallestAvailablePortOnVM (vm_id vm) (gc_PortRangeStart (gp_config p)) (gc_PortRangeEnd (gp_config p)) w")
  show ?thesis
  proof (cases "\<exists>port. q1 = Inr port \<and> port \<noteq> 0")
    case False
    with assms 1 show ?thesis
      by (intro goes_to_one) (auto simp: try_port_def no_port_error_def split: sum.splits if_splits)
  next
    case True
    then obtain port where q1: "q1 = Inr port" "port \<noteq> 0" by blast
    have g1: "goes_to p c (Placing vm n, w) (Allotted vm n port, w1)"
      by (rule goes_to_one) (simp add: 1 q1)
    show ?thesis
    proof (cases "gp_newDockerClient p (cm_url p (vm_internal_ip vm))")
      case (Inl e)
      have "goes_to p c (Allotted vm n port, w1)
          (Finished (Inl (errorf (''create container-manager client for '' @ cm_url p (vm_internal_ip vm)) e)), w1)"
        by (rule goes_to_one) (simp add: Inl)
      moreover have "a = Abort (errorf (''create container-manager client for '' @ cm_url p (vm_internal_ip vm)) e) \<and> w' = w1"
        using assms by (auto simp: try_port_def 1 q1 Inl)
      ultimately show ?thesis using g1 by (auto intro: goes_to_trans)
    next
      case d: (Inr dcm)
      obtain q2 w2 where 2: "cm_RunAgent dcm (agent_run_request p c (vm_id vm) port) w1 = (q2, w2)"
        by (cases "cm_RunAgent dcm (agent_run_request p c (vm_id vm) port) w1")
      have g2: "goes_to p c (Allotted vm n port, w1)
          (case q2 of Inl e \<Rightarrow> Finished (Inl (errorf (''run agent container on '' @ vm_internal_ip vm) e))
           | Inr _ \<Rightarrow> Agent_up vm n port (deadline p (gc_AgentReadyTimeout (gp_config p)) w2), w2)"
        by (rule goes_to_one) (simp add: d 2 split: sum.split)
      show ?thesis
      proof (cases q2)
        case (Inl e)
        have "a = Abort (errorf (''run agent container on '' @ vm_internal_ip vm) e) \<and> w' = w2"
          using assms by (auto simp: try_port_def 1 q1 d 2 Inl)
        with g1 g2 Inl show ?thesis by (auto intro: goes_to_trans)
      next
        case (Inr u)
        note tail = assms [unfolded try_port_settles [OF 1 [unfolded q1(1)] q1(2) d 2 [unfolded Inr]]]
        from goes_to_trans [OF g1 goes_to_trans [OF g2 [unfolded Inr sum.case] settle_agent_goes_to [OF d tail]]]
        show ?thesis .
      qed
    qed
  qed
qed

lemma port_loop_goes_to:
  "port_loop fuel p c (vm_id vm) (vm_internal_ip vm) n w = Some (r, w') \<Longrightarrow>
    goes_to p c (Placing vm n, w) (case r of Inl err \<Rightarrow> Finished (Inl err) | Inr ep \<Rightarrow> Row_made (vm_id vm) ep, w')"
proof (induction n arbitrary: w)
  case (0 w)
  then obtain a w1 where t: "try_port fuel p c (vm_id vm) (vm_internal_ip vm) w = Some (a, w1)"
    by (auto simp: port_loop.simps split: option.splits)
  from try_port_goes_to [OF t, of 0] 0 t show ?case by (cases a) (auto simp: port_loop.simps)
next
  case (Suc n w)
  then obtain a w1 where t: "try_port fuel p c (vm_id vm) (vm_internal_ip vm) w = Some (a, w1)"
    by (auto simp: port_loop.simps split: option.splits)
  note g = try_port_goes_to [OF t, of "Suc n"]
  show ?case
  proof (cases a)
    case (Collided e)
    obtain q w2 where s: "ck_select (gp_clock p) (gc_PollInterval (gp_config p) sdiv 2) w1 = (q, w2)"
      by (cases "ck_select (gp_clock p) (gc_PollInterval (gp_config p) sdiv 2) w1")
    have g2: "goes_to p c (Pausing vm n, w1) (case q of Inl err \<Rightarrow> Finished (Inl err) | Inr _ \<Rightarrow> Placing vm n, w2)"
      by (rule goes_to_one) (simp add: s split: sum.split)
    from Suc.prems t s Collided have "case q of Inl e \<Rightarrow> r = Inl e \<and> w' = w2
        | Inr _ \<Rightarrow> port_loop fuel p c (vm_id vm) (vm_internal_ip vm) n w2 = Some (r, w')"
      by (auto simp: port_loop.simps [of _ _ _ _ _ "Suc n"] split: sum.splits)
    with Suc.IH [of w2] g g2 Collided show ?thesis by (auto split: sum.splits intro: goes_to_trans)
  qed (use g Suc.prems t in \<open>auto simp: port_loop.simps [of _ _ _ _ _ "Suc n"]\<close>)
qed

lemma create_goes_to:
  assumes "createEndpoint fuel p c w = Some (r, w')"
  shows "goes_to p c (Rechecking, w) (Finished r, w')"
proof -
  obtain o1 w1 where 1: "running_endpoint c w = (o1, w1)" by (cases "running_endpoint c w")
  show ?thesis
  proof (cases o1)
    case (Some ep)
    with assms 1 show ?thesis by (intro goes_to_one) (auto simp: createEndpoint_def)
  next
    case None
    have g1: "goes_to p c (Rechecking, w) (Picking 5, w1)" by (rule goes_to_one) (simp add: 1 None)
    obtain q w2 where 2: "obtain_vm fuel p w1 = Some (q, w2)"
      using assms by (auto simp: createEndpoint_def 1 None split: option.splits)
    note g2 = obtain_vm_goes_to [OF 2, of c]
    show ?thesis
    proof (cases q)
      case (Inl e)
      with assms 1 None 2 g1 g2 show ?thesis by (auto simp: createEndpoint_def intro: goes_to_trans)
    next
      case (Inr vm)
      obtain q3 w3 where 3: "port_loop fuel p c (vm_id vm) (vm_internal_ip vm) 2 w2 = Some (q3, w3)"
        using assms by (auto simp: createEndpoint_def 1 None 2 Inr split: option.splits)
      note g3 = port_loop_goes_to [OF 3]
      show ?thesis
      proof (cases q3)
        case (Inl e)
        then have "r = Inl e \<and> w' = w3" using assms by (auto simp: createEndpoint_def 1 None 2 Inr 3)
        with g1 g2 g3 Inr Inl show ?thesis by (auto intro: goes_to_trans)
      next
        case q3: (Inr ep)
        obtain q4 w4 where 4: "IncrementVMActiveContainers (vm_id vm) w3 = (q4, w4)"
          by (cases "IncrementVMActiveContainers (vm_id vm) w3")
        have "goes_to p c (Row_made (vm_id vm) ep, w3) (Finished r, w')"
          using assms by (intro goes_to_one) (auto simp: createEndpoint_def 1 None 2 Inr 3 q3 4 split: sum.splits)
        with g1 g2 g3 Inr q3 show ?thesis by (auto intro: goes_to_trans)
      qed
    qed
  qed
qed

lemma getOrCreate_goes_to:
  assumes "getOrCreateEndpoint fuel p c w = Some (r, w')"
  shows "goes_to p c (Asking, w) (Finished r, w')"
proof -
  obtain o1 w1 where 1: "running_endpoint c w = (o1, w1)" by (cases "running_endpoint c w")
  show ?thesis
  proof (cases o1)
    case (Some ep)
    with assms 1 show ?thesis by (intro goes_to_one) (auto simp: getOrCreateEndpoint_def)
  next
    case None
    have "goes_to p c (Asking, w) (Rechecking, w1)" by (rule goes_to_one) (simp add: 1 None)
    moreover have "goes_to p c (Rechecking, w1) (Finished r, w')"
      using assms by (intro create_goes_to) (simp add: getOrCreateEndpoint_def 1 None)
    ultimately show ?thesis by (rule goes_to_trans)
  qed
qed

text \<open>C3: the steps are those of \<^verbatim>\<open>getOrCreateEndpoint\<close>: run without interruption from the question
  for a running endpoint they end with the operation's own result - the endpoint or the same error -
  in the operation's own world.\<close>

theorem steps_refine_operation:
  assumes "getOrCreateEndpoint fuel p c w = Some (r, w')"
  shows "goes_to p c (Asking, w) (Finished r, w')"
  using assms by (rule getOrCreate_goes_to)

section \<open>What one step does\<close>

text \<open>The machine on which a request has an agent that no row records yet.\<close>

fun agent_machine :: "caller \<Rightarrow> vm_instance option" where
  "agent_machine (Agent_up vm n port until) = Some vm"
| "agent_machine (Agent_ready vm n port) = Some vm"
| "agent_machine (Abandoning vm err) = Some vm"
| "agent_machine (Retrying vm n err) = Some vm"
| "agent_machine _ = None"

definition held :: "'w gce_provider \<Rightarrow> string \<Rightarrow> caller \<Rightarrow> (string \<times> string) set" where
  "held p c x = (case agent_machine x of
     Some vm \<Rightarrow> {(cm_url p (vm_internal_ip vm), container_name p c)} | None \<Rightarrow> {})"

definition client_ok :: "'w gce_provider \<Rightarrow> caller \<Rightarrow> bool" where
  "client_ok p x \<longleftrightarrow> (case agent_machine x of
     Some vm \<Rightarrow> \<not> is_err (gp_newDockerClient p (cm_url p (vm_internal_ip vm))) | None \<Rightarrow> True)"

fun pending :: "caller \<Rightarrow> string \<Rightarrow> int" where
  "pending (Row_made v ep) i = (if v = i then 1 else 0)"
| "pending _ i = 0"

fun row_on :: "caller \<Rightarrow> string set" where
  "row_on (Row_made v ep) = {v}"
| "row_on _ = {}"

definition vm_ids :: "'z pgdb_scheme \<Rightarrow> string set" where
  "vm_ids w = vm_id ` set (db_vms w)"

definition rows_at :: "'z pgdb_scheme \<Rightarrow> string \<Rightarrow> int" where
  "rows_at w i = int (length (filter (\<lambda>e. ep_vm_instance_id e = i) (db_endpoints w)))"

definition unrecorded :: "('z \<Rightarrow> (string \<times> string) set) \<Rightarrow> 'z pgdb_scheme \<Rightarrow> (string \<times> string) set" where
  "unrecorded live w = {a \<in> live (pgdb.more w). snd a \<notin> ep_container_name ` set (db_endpoints w)}"

text \<open>A step adds at most one row, with an id of its own, on a machine of the table.\<close>

definition grows :: "'z pgdb_scheme \<Rightarrow> 'z pgdb_scheme \<Rightarrow> bool" where
  "grows w w' \<longleftrightarrow> db_endpoints w' = db_endpoints w \<or>
     (\<exists>e. db_endpoints w' = db_endpoints w @ [e] \<and> ep_id e \<notin> ep_id ` set (db_endpoints w) \<and>
        ep_vm_instance_id e \<in> vm_ids w')"

definition step_ok ::
    "('z pgdb_scheme) gce_provider \<Rightarrow> ('z \<Rightarrow> (string \<times> string) set) \<Rightarrow> string \<Rightarrow>
     caller \<Rightarrow> 'z pgdb_scheme \<Rightarrow> caller \<Rightarrow> 'z pgdb_scheme \<Rightarrow> bool" where
  "step_ok p live c x w y w' \<longleftrightarrow>
     vm_ids w \<subseteq> vm_ids w' \<and> grows w w' \<and> row_on y \<subseteq> vm_ids w' \<union> row_on x \<and> client_ok p y \<and>
     unrecorded live w' - held p c y \<subseteq> unrecorded live w - held p c x \<and>
     (\<forall>i. vm_count w' i + pending y i + int (count_list (uncounted_by x y) i) - rows_at w' i =
          vm_count w i + pending x i - rows_at w i)"

lemma vm_ids_faults [simp]: "vm_ids (d\<lparr>db_faults := fs\<rparr>) = vm_ids d"
  by (simp add: vm_ids_def)

lemma vm_ids_update [simp]:
  assumes "\<And>v. vm_id (f v) = vm_id v"
  shows "vm_id ` set (update_where P f vms) = vm_id ` set vms"
  using map_update_where [of vm_id f P vms] assms by (metis list.set_map)

lemma vm_ids_statements:
  "vm_ids (snd (UpdateVMInstanceStatus i st w)) = vm_ids w"
  "vm_ids (snd (UpdateVMInstanceIP i a w)) = vm_ids w"
  "vm_ids (snd (IncrementVMActiveContainers i w)) = vm_ids w"
  unfolding UpdateVMInstanceStatus_def UpdateVMInstanceIP_def IncrementVMActiveContainers_def
  by (rule pg_exec_frame; simp; simp add: vm_ids_def)+

lemma vm_ids_create: "vm_ids w \<subseteq> vm_ids (snd (CreateVMInstance nm z a w))"
  by (auto simp: vm_ids_def CreateVMInstance_def pg_exec_def draw_uuid_def Let_def split: list.split option.split)

definition finds :: "('z \<Rightarrow> 'l set) \<Rightarrow> 'z pgdb_scheme \<Rightarrow> 'z pgdb_scheme \<Rightarrow> bool" where
  "finds live w w' \<longleftrightarrow> vm_only live w w' \<and> vm_ids w \<subseteq> vm_ids w'"

lemma finds_trans: "finds live w w1 \<Longrightarrow> finds live w1 w2 \<Longrightarrow> finds live w w2"
  by (auto simp: finds_def intro: vm_only_trans)

lemma quiet_finds: "quiet live w w' \<Longrightarrow> finds live w w'"
  by (auto simp: finds_def vm_ids_def intro: quiet_vm_only) (simp add: quiet_def)

lemma finds_refl: "finds live w w"
  by (simp add: finds_def)

lemma finds_statements:
  "finds live w (snd (UpdateVMInstanceStatus i st w))"
  "finds live w (snd (UpdateVMInstanceIP i a w))"
  "finds live w (snd (CreateVMInstance nm z a w))"
  using vm_ids_create [of w]
  by (auto simp: finds_def vm_only_def vm_ids_statements)

lemma db_vms_reads:
  "db_vms (snd (GetAvailableVMInstance n w)) = db_vms w"
  "db_vms (snd (GetSmallestAvailablePortOnVM v lo hi w)) = db_vms w"
  by simp_all

lemma finds_reads:
  "finds live w (snd (GetAvailableVMInstance n w))"
  "finds live w (snd (GetSmallestAvailablePortOnVM v lo hi w))"
  "finds live w (snd (running_endpoint c w))"
  by (rule quiet_finds; simp add: quiet_def running_endpoint_def split: prod.split sum.split;
      metis reads_keep(1-3) snd_conv)+

lemma finds_create:
  assumes "gce_outside p live"
  shows "finds live w (snd (createGCEVM p w))"
proof -
  obtain u w1 where 1: "gp_new_uuid p w = (u, w1)" by (cases "gp_new_uuid p w")
  obtain q w2 where 2: "gce_CreateInstance (gp_gce p) (vm_create_request (gp_config p) (''cc-tunnel-'' @ take 8 u)) w1 = (q, w2)"
    by (cases "gce_CreateInstance (gp_gce p) (vm_create_request (gp_config p) (''cc-tunnel-'' @ take 8 u)) w1")
  have k: "finds live w w2"
    using quiet_finds [OF gce_outsideD(1) [OF assms 1]] quiet_finds [OF gce_outsideD(2) [OF assms 2]]
    by (rule finds_trans)
  show ?thesis
  proof (cases q)
    case (Inl e)
    with 2 k show ?thesis by (simp add: createGCEVM_def 1)
  next
    case (Inr inst)
    with 2 show ?thesis by (simp add: createGCEVM_def 1 finds_trans [OF k finds_statements(3)])
  qed
qed

lemma step_ok_finds:
  assumes "finds live w w'" and "held p c y = held p c x" and "client_ok p y"
    and "pending x = (\<lambda>i. 0)" and "row_on y = {}" and "pending y = (\<lambda>i. 0)" and "uncounted_by x y = []"
  shows "step_ok p live c x w y w'"
  using assms by (simp add: step_ok_def grows_def finds_def vm_only_def unrecorded_def rows_at_def)

lemma poll_once_finds:
  assumes "gce_outside p live" and "\<And>w. quiet live w (snd (probe w))"
  shows "finds live w (snd (poll_once p until what probe w))"
proof -
  obtain x w1 where p: "probe w = (x, w1)" by (cases "probe w")
  obtain q w2 where q: "ck_select_until (gp_clock p) until (gc_PollInterval (gp_config p)) w1 = (q, w2)"
    by (cases "ck_select_until (gp_clock p) until (gc_PollInterval (gp_config p)) w1")
  have 1: "quiet live w w1" using assms(2) [of w] p by simp
  have "quiet live w1 (snd (ck_select_until (gp_clock p) until (gc_PollInterval (gp_config p)) w1))"
    using assms(1) unfolding gce_outside_def gce_apart_def by blast
  then have 2: "quiet live w1 w2" using q by simp
  show ?thesis
    using 1 quiet_trans [OF 1 2] by (intro quiet_finds) (auto simp: poll_once_def p q split: option.split sum.split)
qed

lemma probes_quiet:
  assumes "gce_outside p live"
  shows "quiet live w (snd (probe_running p nm w))"
    and "gp_newDockerClient p url = Inr dcm \<Longrightarrow> quiet live w (snd (probe_manager dcm w))"
    and "quiet live w (snd (probe_agent p url w))"
proof -
  have "quiet live w (snd (gce_GetInstance (gp_gce p) pr z nm w))" for pr z
    using assms by (simp add: gce_outside_def gce_apart_def)
  then show "quiet live w (snd (probe_running p nm w))"
    by (simp add: probe_running_def split: prod.split sum.split) (metis snd_conv)
  show "quiet live w (snd (probe_manager dcm w))" if "gp_newDockerClient p url = Inr dcm"
    using gce_outsideD(5) [OF assms that, of w] by (auto simp: probe_manager_def split: prod.split)
  show "quiet live w (snd (probe_agent p url w))"
    using RC_GetAuthStatus_quiet [OF assms, of w url]
    by (simp add: probe_agent_def split: prod.split sum.split) (metis snd_conv)
qed

lemmas caller_sets = held_def client_ok_def uncounted_by_def

lemma step_ok_looking:
  assumes out: "gce_outside p live" and step: "caller_step p c x w = (y, w')"
    and x: "x \<in> {Asking, Rechecking, Creating} \<or> (\<exists>n vm. x \<in> {Picking n, Checking n vm, Unhealthy n vm})"
  shows "step_ok p live c x w y w'"
proof -
  have "finds live w w' \<and> agent_machine y = None \<and> row_on y = {} \<and> pending y = (\<lambda>i. 0)"
  proof (cases "\<exists>n vm. x = Checking n vm")
    case True
    then obtain n vm where c: "x = Checking n vm" by blast
    show ?thesis
    proof (cases "gp_newDockerClient p (cm_url p (vm_internal_ip vm))")
      case (Inl e)
      with step c show ?thesis by (auto intro: finds_statements)
    next
      case (Inr dcm)
      then have "quiet live w (snd (cm_IsReady dcm w))"
        by (rule gce_outsideD(5) [OF out])
      with step c Inr show ?thesis by (auto intro: quiet_finds split: prod.splits if_splits)
    qed
  next
    case False
    with x step show ?thesis
      using finds_reads(3) [of live w c] finds_reads(1) [of live w "gc_MaxContainers (gp_config p)"]
        finds_create [OF out, of w] finds_statements(1) [of live w _ "''unhealthy''"]
      by (cases x; (cases "case x of Picking n \<Rightarrow> n | _ \<Rightarrow> 0")?)
        (auto simp: finds_refl split: prod.splits option.splits sum.splits; metis snd_conv)+
  qed
  with x show ?thesis by (intro step_ok_finds) (auto simp: caller_sets split: caller.split)
qed

lemma step_ok_waiting:
  assumes out: "gce_outside p live" and step: "caller_step p c x w = (y, w')"
    and x: "\<exists>vm n t ip. x \<in> {Booting vm t, Addressed vm ip, Marking vm ip, Connecting vm t, Placing vm n, Pausing vm n}"
  shows "step_ok p live c x w y w'"
proof -
  have "finds live w w' \<and> agent_machine y = None \<and> row_on y = {} \<and> pending y = (\<lambda>i. 0)"
  proof (cases x)
    case (Booting vm t)
    have "finds live w (snd (poll_once p t (running_timeout (vm_gce_instance_name vm))
        (probe_running p (vm_gce_instance_name vm)) w))"
      by (rule poll_once_finds [OF out probes_quiet(1) [OF out]])
    with step Booting show ?thesis by (auto split: prod.splits poll_round.splits)
  next
    case (Connecting vm t)
    show ?thesis
    proof (cases "gp_newDockerClient p (cm_url p (vm_internal_ip vm))")
      case (Inl e)
      with step Connecting show ?thesis by (auto simp: finds_refl)
    next
      case (Inr dcm)
      have "finds live w (snd (poll_once p t (manager_timeout (cm_url p (vm_internal_ip vm))) (probe_manager dcm) w))"
        by (rule poll_once_finds [OF out probes_quiet(2) [OF out Inr]])
      with step Connecting Inr show ?thesis by (auto split: prod.splits poll_round.splits)
    qed
  next
    case (Placing vm n)
    with step show ?thesis
      using finds_reads(2) [of live w "vm_id vm" "gc_PortRangeStart (gp_config p)" "gc_PortRangeEnd (gp_config p)"]
      by (auto split: prod.splits sum.splits if_splits)
  next
    case (Pausing vm n)
    obtain q w1 where q: "ck_select (gp_clock p) (gc_PollInterval (gp_config p) sdiv 2) w = (q, w1)"
      by (cases "ck_select (gp_clock p) (gc_PollInterval (gp_config p) sdiv 2) w")
    show ?thesis
      using step Pausing q quiet_finds [OF gce_outsideD(3) [OF out q]] by (auto split: sum.splits)
  next
    case (Marking vm ip)
    with step show ?thesis
      using finds_statements(1) [of live w "vm_id vm" "''running''"] by (auto simp: Let_def split: sum.splits)
  qed (use x step finds_statements(2) [of live w] in auto)
  with x show ?thesis by (intro step_ok_finds) (auto simp: caller_sets split: caller.split)
qed

lemma step_ok_run:
  assumes out: "gce_outside p live" and step: "caller_step p c (Allotted vm n port) w = (y, w')"
  shows "step_ok p live c (Allotted vm n port) w y w'"
proof (cases "gp_newDockerClient p (cm_url p (vm_internal_ip vm))")
  case (Inl e)
  with step show ?thesis by (intro step_ok_finds) (auto simp: finds_refl caller_sets)
next
  case d: (Inr dcm)
  obtain q w1 where q: "cm_RunAgent dcm (agent_run_request p c (vm_id vm) port) w = (q, w1)"
    by (cases "cm_RunAgent dcm (agent_run_request p c (vm_id vm) port) w")
  note ran = manager_contract_RunAgent [OF gce_outsideD(4) [OF out d] q]
  show ?thesis
  proof (cases q)
    case (Inl e)
    with step d q obtain err where "y = Finished (Inl err)" "w' = w1" by auto
    with ran Inl show ?thesis
      by (auto simp: step_ok_def grows_def vm_ids_def caller_sets unrecorded_def rows_at_def vm_count_def)
  next
    case (Inr u)
    with ran have w1: "db_vms w1 = db_vms w" "db_endpoints w1 = db_endpoints w"
      "live (pgdb.more w1) = insert (cm_url p (vm_internal_ip vm), container_name p c) (live (pgdb.more w))"
      by (simp_all add: agent_run_request_def)
    from step d q Inr have "y = Agent_up vm n port (deadline p (gc_AgentReadyTimeout (gp_config p)) w1)" "w' = w1"
      by auto
    with w1 d show ?thesis
      by (auto simp: step_ok_def grows_def vm_ids_def caller_sets unrecorded_def rows_at_def vm_count_def)
  qed
qed

lemma step_ok_agent:
  assumes out: "gce_outside p live" and step: "caller_step p c x w = (y, w')" and ok: "client_ok p x"
    and x: "agent_machine x = Some vm"
  shows "step_ok p live c x w y w'"
proof -
  obtain dcm where d: "gp_newDockerClient p (cm_url p (vm_internal_ip vm)) = Inr dcm"
    using ok x by (auto simp: client_ok_def elim: not_is_errE)
  note D = discard_agent_contract [OF out d, of "container_name p c" w]
  show ?thesis
  proof (cases x)
    case (Agent_up vm' n port t)
    have "finds live w (snd (poll_once p t (''timeout waiting for cc-remote-agent at '' @ http_url (vm_internal_ip vm) port)
        (probe_agent p (http_url (vm_internal_ip vm) port)) w))"
      by (rule poll_once_finds [OF out probes_quiet(3) [OF out]])
    with Agent_up x step have "finds live w w' \<and> agent_machine y = Some vm \<and> row_on y = {} \<and> pending y = (\<lambda>i. 0)"
      by (auto split: prod.splits poll_round.splits)
    with x d Agent_up show ?thesis by (intro step_ok_finds) (auto simp: caller_sets)
  next
    case (Agent_ready vm' n port)
    obtain q w1 where q: "CreateSessionEndpoint c (vm_id vm) (container_name p c) port w = (q, w1)"
      by (cases "CreateSessionEndpoint c (vm_id vm) (container_name p c) port w")
    show ?thesis
    proof (cases q)
      case (Inl e)
      have "finds live w w1"
        using CreateSessionEndpoint_Inl [OF q [unfolded Inl]] by (intro quiet_finds) (simp add: quiet_def)
      with Agent_ready x step q Inl d show ?thesis by (intro step_ok_finds) (auto simp: caller_sets)
    next
      case (Inr ep)
      note e = CreateSessionEndpoint_Inr [OF q [unfolded Inr]]
      from Agent_ready x step q Inr have "y = Row_made (vm_id vm) ep" "w' = w1" by auto
      with Agent_ready x e show ?thesis
        by (auto simp: step_ok_def grows_def vm_ids_def caller_sets unrecorded_def rows_at_def vm_count_def)
    qed
  next
    case (Abandoning vm' e)
    with x step d have "y = Finished (Inl e)" "w' = discard_agent dcm (container_name p c) w" by auto
    with Abandoning x D show ?thesis
      by (auto simp: step_ok_def grows_def vm_ids_def caller_sets unrecorded_def rows_at_def vm_count_def)
  next
    case (Retrying vm' n e)
    with x step d have "w' = discard_agent dcm (container_name p c) w"
      "y = (case n of 0 \<Rightarrow> Finished (Inl (errorf ''create session endpoint after 3 attempts'' e)) | Suc n \<Rightarrow> Pausing vm n)"
      by (auto simp: Let_def)
    with Retrying x D show ?thesis
      by (cases n) (auto simp: step_ok_def grows_def vm_ids_def caller_sets unrecorded_def rows_at_def vm_count_def)
  qed (use x in auto)
qed

lemma step_ok_count:
  assumes step: "caller_step p c (Row_made v ep) w = (y, w')" and v: "v \<in> vm_ids w"
  shows "step_ok p live c (Row_made v ep) w y w'"
proof -
  obtain q w1 where q: "IncrementVMActiveContainers v w = (q, w1)" by (cases "IncrementVMActiveContainers v w")
  have w1: "vm_ids w1 = vm_ids w" "db_endpoints w1 = db_endpoints w" "pgdb.more w1 = pgdb.more w"
    using vm_ids_statements(3) [of v w] vm_writes_keep(7,8) [of v w] q by simp_all
  show ?thesis
  proof (cases q)
    case (Inl e)
    have "vm_count w1 i = vm_count w i" for i
      using q Inl by (auto simp: IncrementVMActiveContainers_def pg_exec_def vm_count_def split: list.splits option.splits)
    with Inl step q w1 show ?thesis
      by (auto simp: step_ok_def grows_def caller_sets unrecorded_def rows_at_def)
  next
    case (Inr u)
    note Increment_Inr [OF q [unfolded Inr] v [unfolded vm_ids_def]]
    with Inr step q w1 show ?thesis
      by (auto simp: step_ok_def grows_def caller_sets unrecorded_def rows_at_def)
  qed
qed

lemma caller_step_ok:
  assumes "gce_outside p live" and "caller_step p c x w = (y, w')" and "client_ok p x" and "row_on x \<subseteq> vm_ids w"
  shows "step_ok p live c x w y w'"
proof (cases "agent_machine x")
  case (Some vm)
  show ?thesis by (rule step_ok_agent [OF assms(1-3) Some])
next
  case None
  show ?thesis
  proof (cases x)
    case (Row_made v ep)
    with assms(2,4) show ?thesis by (auto intro: step_ok_count)
  next
    case (Allotted vm n port)
    with assms(1,2) show ?thesis by (auto intro: step_ok_run)
  next
    case (Finished r)
    with assms(2) show ?thesis
      by (auto simp: step_ok_def grows_def caller_sets)
  qed (use None assms(1,2) in \<open>auto intro: step_ok_looking step_ok_waiting\<close>)
qed

section \<open>Any interleaving\<close>

definition pending_on :: "(string \<times> caller) multiset \<Rightarrow> string \<Rightarrow> int" where
  "pending_on callers i = (\<Sum>cx \<in># callers. pending (snd cx) i)"

definition in_hand :: "'w gce_provider \<Rightarrow> (string \<times> caller) multiset \<Rightarrow> (string \<times> string) set" where
  "in_hand p callers = (\<Union>cx \<in> set_mset callers. held p (fst cx) (snd cx))"

definition serving_inv ::
    "('z pgdb_scheme) gce_provider \<Rightarrow> ('z \<Rightarrow> (string \<times> string) set) \<Rightarrow> 'z pgdb_scheme \<Rightarrow>
     ('z pgdb_scheme) serving \<Rightarrow> bool" where
  "serving_inv p live w0 s \<longleftrightarrow>
     (\<forall>cx \<in># iv_callers s. client_ok p (snd cx) \<and> row_on (snd cx) \<subseteq> vm_ids (iv_world s)) \<and>
     (\<forall>i. vm_count (iv_world s) i + pending_on (iv_callers s) i + int (count_list (iv_uncounted s) i) -
        rows_at (iv_world s) i = vm_count w0 i - rows_at w0 i) \<and>
     unrecorded live (iv_world s) \<subseteq> unrecorded live w0 \<union> in_hand p (iv_callers s)"

lemma pending_on_simps [simp]:
  "pending_on {#} i = 0"
  "pending_on (add_mset cx M) i = pending (snd cx) i + pending_on M i"
  by (simp_all add: pending_on_def)

lemma in_hand_simps [simp]:
  "in_hand p {#} = {}"
  "in_hand p (add_mset cx M) = held p (fst cx) (snd cx) \<union> in_hand p M"
  by (auto simp: in_hand_def)

lemma serving_inv_start: "serving_inv p live w (idle_at w)"
  by (simp add: serving_inv_def idle_at_def)

lemma serving_inv_move:
  assumes out: "gce_outside p live" and inv: "serving_inv p live w0 s"
    and cs: "iv_callers s = add_mset (c, x) others" and step: "caller_step p c x (iv_world s) = (y, w')"
  shows "serving_inv p live w0 (s\<lparr>iv_callers := add_mset (c, y) others, iv_world := w',
    iv_uncounted := uncounted_by x y @ iv_uncounted s\<rparr>)"
proof -
  have "client_ok p x" "row_on x \<subseteq> vm_ids (iv_world s)" using inv cs by (auto simp: serving_inv_def)
  from caller_step_ok [OF out step this] have ok: "step_ok p live c x (iv_world s) y w'" .
  have rows: "\<forall>cx \<in># add_mset (c, y) others. client_ok p (snd cx) \<and> row_on (snd cx) \<subseteq> vm_ids w'"
  proof
    fix cx
    assume "cx \<in># add_mset (c, y) others"
    then consider "cx = (c, y)" | "cx \<in># others" by auto
    then show "client_ok p (snd cx) \<and> row_on (snd cx) \<subseteq> vm_ids w'"
    proof cases
      case 1
      then show ?thesis using ok \<open>row_on x \<subseteq> vm_ids (iv_world s)\<close> by (auto simp: step_ok_def)
    next
      case 2
      then have "client_ok p (snd cx) \<and> row_on (snd cx) \<subseteq> vm_ids (iv_world s)"
        using inv cs by (simp add: serving_inv_def)
      then show ?thesis using ok by (auto simp: step_ok_def)
    qed
  qed
  have counts: "vm_count w' i + pending_on (add_mset (c, y) others) i +
      int (count_list (uncounted_by x y @ iv_uncounted s) i) - rows_at w' i = vm_count w0 i - rows_at w0 i" for i
  proof -
    have "vm_count w' i + pending y i + int (count_list (uncounted_by x y) i) - rows_at w' i =
        vm_count (iv_world s) i + pending x i - rows_at (iv_world s) i"
      using ok by (simp add: step_ok_def grows_def)
    moreover have "vm_count (iv_world s) i + (pending x i + pending_on others i) + int (count_list (iv_uncounted s) i) -
        rows_at (iv_world s) i = vm_count w0 i - rows_at w0 i"
      using inv cs by (simp add: serving_inv_def)
    ultimately show ?thesis by simp
  qed
  have "unrecorded live w' - held p c y \<subseteq> unrecorded live (iv_world s) - held p c x"
    "unrecorded live (iv_world s) \<subseteq> unrecorded live w0 \<union> (held p c x \<union> in_hand p others)"
    using ok inv cs by (simp_all add: step_ok_def serving_inv_def)
  then have "unrecorded live w' \<subseteq> unrecorded live w0 \<union> in_hand p (add_mset (c, y) others)"
    by auto
  with rows counts show ?thesis by (simp add: serving_inv_def)
qed

lemma serving_inv_step:
  assumes "gce_outside p live" and "serving_inv p live w0 s" and "serve_step p live s s'"
  shows "serving_inv p live w0 s'"
  using assms(3)
proof (cases rule: serve_step.cases)
  case (arrive c)
  with assms(2) show ?thesis by (simp add: serving_inv_def caller_sets)
next
  case (move c x others y w')
  show ?thesis unfolding move(1) by (rule serving_inv_move [OF assms(1,2) move(2,3)])
next
  case (leave c r others)
  with assms(2) show ?thesis by (simp add: serving_inv_def caller_sets)
next
  case (elsewhere w')
  then have "vm_ids w' = vm_ids (iv_world s)" "\<And>i. vm_count w' i = vm_count (iv_world s) i"
    "\<And>i. rows_at w' i = rows_at (iv_world s) i" "unrecorded live w' = unrecorded live (iv_world s)"
    by (simp_all add: vm_ids_def vm_count_def rows_at_def unrecorded_def)
  with elsewhere(1) assms(2) show ?thesis by (simp add: serving_inv_def)
qed

lemma serving_inv_serves:
  assumes "gce_outside p live" and "serves p live (idle_at w) s"
  shows "serving_inv p live w s"
  using assms(2) unfolding serves_def
  by (induction rule: rtranclp_induct) (auto intro: serving_inv_start serving_inv_step [OF assms(1)])

text \<open>Whatever the order in which the requests of different conversations move, the counters and
  the endpoint rows of every machine stay in step: each endpoint row made so far is counted on its
  own machine, is about to be counted by the request that made it, or is one whose increment
  failed.\<close>

theorem endpoints_counted_concurrently:
  assumes "gce_outside p live" and "serves p live (idle_at w) s"
  shows "rows_at (iv_world s) i - rows_at w i =
    vm_count (iv_world s) i - vm_count w i + pending_on (iv_callers s) i + int (count_list (iv_uncounted s) i)"
proof -
  have "vm_count (iv_world s) i + pending_on (iv_callers s) i + int (count_list (iv_uncounted s) i) -
      rows_at (iv_world s) i = vm_count w i - rows_at w i"
    using serving_inv_serves [OF assms] unfolding serving_inv_def by blast
  then show ?thesis by simp
qed

text \<open>C4: requests for endpoints, in any interleaving with one another and with whatever else leaves the
  agents and their rows alone, forget no agent that the container-managers let them know of: a container
  that exists and belongs to no endpoint row was there before without a row, or is in the hands of a request
  in progress, which will record or remove it, or its last start or removal was answered with an error. The
  clean-up and the deletion of conversations are not among the interleaved operations: both take rows
  away, the latter without touching the container.\<close>

theorem no_agent_forgotten_concurrently:
  assumes "gce_reports p there lost" and "serves p (kept_track there lost) (idle_at w) s"
  shows "unrecorded there (iv_world s) \<subseteq>
    unrecorded there w \<union> in_hand p (iv_callers s) \<union> lost (pgdb.more (iv_world s))"
proof -
  have "unrecorded (kept_track there lost) (iv_world s) \<subseteq> unrecorded (kept_track there lost) w \<union> in_hand p (iv_callers s)"
    using serving_inv_serves [OF gce_reports_outside [OF assms(1)] assms(2)] unfolding serving_inv_def by blast
  then show ?thesis by (auto simp: unrecorded_def kept_track_def)
qed

end
