(* ===== verification/DockerGCE_Reconcile.thy ===== *)
theory DockerGCE_Reconcile
  imports DockerGCE_Props
begin

text \<open>
  Removing machines: \<open>ReconcileVMs\<close> over a whole history.  Its per-machine decision is an
  interpretation of \<open>reap_clock\<close>, whose state is the column \<^verbatim>\<open>zero_agents_since\<close>.  \<open>seen\<close> is the log
  of the successful answers of each container-manager (time and number of agents), \<open>deletions\<close> the
  log of the calls of the Compute API, and \<open>addr\<close> the address of each machine, which no two share.
\<close>

definition reconcile_observe :: "int \<Rightarrow> int \<Rightarrow> int \<Rightarrow> int option \<Rightarrow> int option \<times> bool" where
  "reconcile_observe timeout now count since =
     (if count > 0 then (None, False)
      else (case since of None \<Rightarrow> (Some now, False) | Some t \<Rightarrow> (Some t, \<not> now - t < timeout)))"

interpretation reconcile: reap_clock "reconcile_observe timeout" timeout for timeout
  by unfold_locales (auto simp: reconcile_observe_def)

definition reconcile_outside ::
    "('z pgdb_scheme) gce_provider \<Rightarrow> ('z \<Rightarrow> string \<Rightarrow> observation list) \<Rightarrow> ('z \<Rightarrow> (string \<times> int) list) \<Rightarrow> bool" where
  "reconcile_outside p seen deletions \<longleftrightarrow>
     (\<forall>url dcm w r w'. gp_newDockerClient p url = Inr dcm \<and> cm_ListAgents dcm w = (r, w') \<longrightarrow>
        db_vms w' = db_vms w \<and> db_faults w' = db_faults w \<and> deletions (pgdb.more w') = deletions (pgdb.more w) \<and>
        seen (pgdb.more w') = (case r of Inl _ \<Rightarrow> seen (pgdb.more w)
          | Inr agents \<Rightarrow> (seen (pgdb.more w))
              (url := seen (pgdb.more w) url @ [(ck_now (gp_clock p) w', int (length agents))]))) \<and>
     (\<forall>pr z n w r w'. gce_DeleteInstance (gp_gce p) pr z n w = (r, w') \<longrightarrow>
        db_vms w' = db_vms w \<and> db_faults w' = db_faults w \<and> seen (pgdb.more w') = seen (pgdb.more w) \<and>
        deletions (pgdb.more w') = deletions (pgdb.more w) @ [(n, ck_now (gp_clock p) w)])"

text \<open>The rows of the machines have ids, names and addresses of their own; \<open>machines_ok\<close> says besides that no
  statement of the database is lost.\<close>

definition machines_named :: "(string \<Rightarrow> string) \<Rightarrow> 'z pgdb_scheme \<Rightarrow> bool" where
  "machines_named addr w \<longleftrightarrow> distinct (map vm_id (db_vms w)) \<and>
     distinct (map vm_gce_instance_name (db_vms w)) \<and>
     (\<forall>v \<in> set (db_vms w). vm_internal_ip v = [] \<or> vm_internal_ip v = addr (vm_gce_instance_name v))"

definition machines_ok :: "(string \<Rightarrow> string) \<Rightarrow> 'z pgdb_scheme \<Rightarrow> bool" where
  "machines_ok addr w \<longleftrightarrow> db_faults w = [] \<and> distinct (map vm_id (db_vms w)) \<and>
     distinct (map vm_gce_instance_name (db_vms w)) \<and>
     (\<forall>v \<in> set (db_vms w). vm_internal_ip v = [] \<or> vm_internal_ip v = addr (vm_gce_instance_name v))"

lemma machines_ok_named: "machines_ok addr w \<longleftrightarrow> db_faults w = [] \<and> machines_named addr w"
  by (simp add: machines_ok_def machines_named_def)

text \<open>Between two reconciliations the other operations may add, change and drop machines, but they leave
  the clock column of a machine with an address alone and give a new machine a fresh address.\<close>

definition others_act ::
    "('z pgdb_scheme) gce_provider \<Rightarrow> (string \<Rightarrow> string) \<Rightarrow> ('z \<Rightarrow> string \<Rightarrow> observation list) \<Rightarrow>
     ('z \<Rightarrow> (string \<times> int) list) \<Rightarrow> 'z pgdb_scheme \<Rightarrow> 'z pgdb_scheme \<Rightarrow> bool" where
  "others_act p addr seen deletions w w' \<longleftrightarrow> machines_ok addr w' \<and>
     seen (pgdb.more w') = seen (pgdb.more w) \<and> deletions (pgdb.more w') = deletions (pgdb.more w) \<and>
     (\<forall>v' \<in> set (db_vms w'). vm_internal_ip v' \<noteq> [] \<longrightarrow>
        (\<exists>v \<in> set (db_vms w). vm_internal_ip v = vm_internal_ip v' \<and>
           vm_zero_agents_since v = vm_zero_agents_since v') \<or>
        (vm_zero_agents_since v' = None \<and> seen (pgdb.more w) (cm_url p (vm_internal_ip v')) = []))"

inductive reconcile_history ::
    "('z pgdb_scheme) gce_provider \<Rightarrow> (string \<Rightarrow> string) \<Rightarrow> ('z \<Rightarrow> string \<Rightarrow> observation list) \<Rightarrow>
     ('z \<Rightarrow> (string \<times> int) list) \<Rightarrow> 'z pgdb_scheme \<Rightarrow> bool"
  for p addr seen deletions where
    start: "machines_ok addr w \<Longrightarrow> (\<forall>v \<in> set (db_vms w). vm_zero_agents_since v = None) \<Longrightarrow>
      (\<forall>u. seen (pgdb.more w) u = []) \<Longrightarrow> deletions (pgdb.more w) = [] \<Longrightarrow>
      reconcile_history p addr seen deletions w"
  | tick: "reconcile_history p addr seen deletions w \<Longrightarrow>
      reconcile_history p addr seen deletions (snd (ReconcileVMs p w))"
  | others: "reconcile_history p addr seen deletions w \<Longrightarrow> others_act p addr seen deletions w w' \<Longrightarrow>
      reconcile_history p addr seen deletions w'"

definition idle_evidence :: "int \<Rightarrow> observation list \<Rightarrow> int \<Rightarrow> bool" where
  "idle_evidence timeout obs d \<longleftrightarrow>
     (\<exists>pre t c rest c' post. obs = pre @ (t, c) # rest @ (d, c') # post \<and> c \<le> 0 \<and> c' \<le> 0 \<and>
        (\<forall>(n, k) \<in> set rest. k \<le> 0) \<and> timeout \<le> d - t)"

lemma idle_evidence_append: "idle_evidence timeout obs d \<Longrightarrow> idle_evidence timeout (obs @ later) d"
  unfolding idle_evidence_def by (metis append.assoc append_Cons)

lemma idle_evidence_reap:
  assumes "snd (reconcile_observe timeout now count (reconcile.after timeout os None))"
  shows "idle_evidence timeout (os @ [(now, count)]) now"
proof -
  from reconcile.reap_sound [OF assms] obtain pre t c rest where
    "count \<le> 0" "os = pre @ (t, c) # rest" "c \<le> 0" "\<forall>(n, c') \<in> set rest. c' \<le> 0" "timeout \<le> now - t"
    by blast
  then have "os @ [(now, count)] = pre @ (t, c) # rest @ (now, count) # []" by simp
  with \<open>count \<le> 0\<close> \<open>c \<le> 0\<close> \<open>\<forall>(n, c') \<in> set rest. c' \<le> 0\<close> \<open>timeout \<le> now - t\<close>
  show ?thesis unfolding idle_evidence_def by blast
qed

lemma cm_url_inj: "cm_url p a = cm_url p b \<longleftrightarrow> a = b"
  by (simp add: cm_url_def http_url_def)

text \<open>The invariant of a history: the columns agree with the logs, and each deletion has its evidence.\<close>

definition clocks_agree ::
    "('z pgdb_scheme) gce_provider \<Rightarrow> (string \<Rightarrow> string) \<Rightarrow> ('z \<Rightarrow> string \<Rightarrow> observation list) \<Rightarrow>
     ('z \<Rightarrow> (string \<times> int) list) \<Rightarrow> 'z pgdb_scheme \<Rightarrow> bool" where
  "clocks_agree p addr seen deletions w \<longleftrightarrow> machines_ok addr w \<and>
     (\<forall>v \<in> set (db_vms w). vm_internal_ip v \<noteq> [] \<longrightarrow>
        vm_zero_agents_since v = reconcile.after (gc_ZeroAgentsTimeout (gp_config p))
          (seen (pgdb.more w) (cm_url p (vm_internal_ip v))) None) \<and>
     (\<forall>(n, t) \<in> set (deletions (pgdb.more w)).
        idle_evidence (gc_ZeroAgentsTimeout (gp_config p)) (seen (pgdb.more w) (cm_url p (addr n))) t)"

lemma machines_ok_addr:
  assumes "machines_ok addr w" and "inj addr" and "u \<in> set (db_vms w)" and "v \<in> set (db_vms w)"
    and "vm_internal_ip u \<noteq> []" and "vm_internal_ip u = vm_internal_ip v"
  shows "u = v"
proof -
  have "addr (vm_gce_instance_name u) = addr (vm_gce_instance_name v)"
    using assms unfolding machines_ok_def by metis
  then have "vm_gce_instance_name u = vm_gce_instance_name v" using assms(2) by (simp add: inj_eq)
  then show ?thesis
    using assms(1,3,4) unfolding machines_ok_def by (metis distinct_map inj_onD)
qed

lemma machines_ok_id:
  "machines_ok addr w \<Longrightarrow> u \<in> set (db_vms w) \<Longrightarrow> v \<in> set (db_vms w) \<Longrightarrow> vm_id u = vm_id v \<longleftrightarrow> u = v"
  by (auto simp: machines_ok_def distinct_map inj_on_eq_iff)

lemma SetVMZeroAgentsSince_rows:
  assumes "machines_ok addr w" and "v \<in> set (db_vms w)" and "SetVMZeroAgentsSince (vm_id v) t w = (r, w')"
  shows "machines_ok addr w' \<and> pgdb.more w' = pgdb.more w \<and>
    (\<forall>u. u \<in> set (db_vms w') \<longleftrightarrow> (u \<in> set (db_vms w) \<and> u \<noteq> v) \<or> u = v\<lparr>vm_zero_agents_since := t\<rparr>)"
proof -
  have w': "w' = w\<lparr>db_vms := update_where (\<lambda>u. vm_id u = vm_id v) (\<lambda>u. u\<lparr>vm_zero_agents_since := t\<rparr>) (db_vms w)\<rparr>"
    using assms(1,3) by (auto simp: SetVMZeroAgentsSince_def machines_ok_def)
  have rows: "update_where (\<lambda>u. vm_id u = vm_id v) (\<lambda>u. u\<lparr>vm_zero_agents_since := t\<rparr>) (db_vms w) =
      map (\<lambda>u. if u = v then v\<lparr>vm_zero_agents_since := t\<rparr> else u) (db_vms w)"
    using machines_ok_id [OF assms(1) _ assms(2)] by (auto simp: update_where_def)
  have "machines_ok addr w'"
    using assms(1) unfolding w'
    by (auto simp: machines_ok_def map_update_where mem_update_where)
      (auto simp: update_where_def split: if_splits)
  then show ?thesis using assms(2) by (auto simp: w' rows)
qed

lemma DeleteVMInstance_rows:
  assumes "machines_ok addr w" and "DeleteVMInstance i w = (r, w')"
  shows "machines_ok addr w' \<and> pgdb.more w' = pgdb.more w \<and> set (db_vms w') \<subseteq> set (db_vms w) \<and>
    (\<forall>u \<in> set (db_vms w). vm_id u \<noteq> i \<longrightarrow> u \<in> set (db_vms w'))"
  using assms
  by (auto simp: DeleteVMInstance_def machines_ok_def distinct_map_filter split: if_splits)

lemma clocks_agree_delete:
  assumes "clocks_agree p addr seen deletions w" and "DeleteVMInstance i w = (r, w')"
  shows "clocks_agree p addr seen deletions w'"
  using DeleteVMInstance_rows [of addr w i r w'] assms by (auto simp: clocks_agree_def)

text \<open>An answer of a container-manager is entered in its log: every other machine still agrees.\<close>

lemma one_answer:
  assumes out: "reconcile_outside p seen deletions" and inj: "inj addr"
    and agree: "clocks_agree p addr seen deletions w" and v: "v \<in> set (db_vms w)" "vm_internal_ip v \<noteq> []"
    and d: "gp_newDockerClient p (cm_url p (vm_internal_ip v)) = Inr dcm"
    and l: "cm_ListAgents dcm w = (Inr agents, w1)"
  defines "T \<equiv> gc_ZeroAgentsTimeout (gp_config p)"
  shows "machines_ok addr w1" and "db_vms w1 = db_vms w"
    and "seen (pgdb.more w1) (cm_url p (vm_internal_ip v)) =
      seen (pgdb.more w) (cm_url p (vm_internal_ip v)) @ [(ck_now (gp_clock p) w1, int (length agents))]"
    and "\<forall>u \<in> set (db_vms w1). u \<noteq> v \<longrightarrow> vm_internal_ip u \<noteq> [] \<longrightarrow>
      vm_zero_agents_since u = reconcile.after T (seen (pgdb.more w1) (cm_url p (vm_internal_ip u))) None"
    and "reconcile.after T (seen (pgdb.more w1) (cm_url p (vm_internal_ip v))) None =
      fst (reconcile_observe T (ck_now (gp_clock p) w1) (int (length agents)) (vm_zero_agents_since v))"
    and "\<forall>(n, t) \<in> set (deletions (pgdb.more w1)). idle_evidence T (seen (pgdb.more w1) (cm_url p (addr n))) t"
proof -
  let ?url = "cm_url p (vm_internal_ip v)"
  have o: "db_vms w1 = db_vms w" "db_faults w1 = db_faults w" "deletions (pgdb.more w1) = deletions (pgdb.more w)"
    and s: "seen (pgdb.more w1) = (seen (pgdb.more w))
      (?url := seen (pgdb.more w) ?url @ [(ck_now (gp_clock p) w1, int (length agents))])"
    using out d l unfolding reconcile_outside_def by fastforce+
  have ok: "machines_ok addr w" using agree by (simp add: clocks_agree_def)
  then show "machines_ok addr w1" using o by (simp add: machines_ok_def)
  show "db_vms w1 = db_vms w" by (rule o)
  show "seen (pgdb.more w1) ?url = seen (pgdb.more w) ?url @ [(ck_now (gp_clock p) w1, int (length agents))]"
    by (simp add: s)
  show "\<forall>u \<in> set (db_vms w1). u \<noteq> v \<longrightarrow> vm_internal_ip u \<noteq> [] \<longrightarrow>
      vm_zero_agents_since u = reconcile.after T (seen (pgdb.more w1) (cm_url p (vm_internal_ip u))) None"
    using agree machines_ok_addr [OF ok inj _ v(1)] by (auto simp: o s clocks_agree_def cm_url_inj T_def)
  show "reconcile.after T (seen (pgdb.more w1) ?url) None =
      fst (reconcile_observe T (ck_now (gp_clock p) w1) (int (length agents)) (vm_zero_agents_since v))"
    using agree v by (simp add: s reconcile.after_append clocks_agree_def T_def)
  show "\<forall>(n, t) \<in> set (deletions (pgdb.more w1)). idle_evidence T (seen (pgdb.more w1) (cm_url p (addr n))) t"
  proof (intro ballI case_prodI2)
    fix x n t
    assume "x \<in> set (deletions (pgdb.more w1))" and "x = (n, t)"
    then have "idle_evidence T (seen (pgdb.more w) (cm_url p (addr n))) t"
      using agree o(3) by (auto simp: clocks_agree_def T_def)
    then show "idle_evidence T (seen (pgdb.more w1) (cm_url p (addr n))) t"
      by (cases "cm_url p (addr n) = ?url") (simp_all add: s idle_evidence_append)
  qed
qed

lemma clocks_agree_set:
  assumes "machines_ok addr w1" and "v \<in> set (db_vms w1)" and "vm_internal_ip v \<noteq> []"
    and "SetVMZeroAgentsSince (vm_id v) t w1 = (r, w')"
    and "t = reconcile.after (gc_ZeroAgentsTimeout (gp_config p)) (seen (pgdb.more w1) (cm_url p (vm_internal_ip v))) None"
    and "\<forall>u \<in> set (db_vms w1). u \<noteq> v \<longrightarrow> vm_internal_ip u \<noteq> [] \<longrightarrow>
      vm_zero_agents_since u = reconcile.after (gc_ZeroAgentsTimeout (gp_config p))
        (seen (pgdb.more w1) (cm_url p (vm_internal_ip u))) None"
    and "\<forall>(n, t) \<in> set (deletions (pgdb.more w1)).
      idle_evidence (gc_ZeroAgentsTimeout (gp_config p)) (seen (pgdb.more w1) (cm_url p (addr n))) t"
  shows "clocks_agree p addr seen deletions w' \<and> (\<forall>u \<in> set (db_vms w1). u \<noteq> v \<longrightarrow> u \<in> set (db_vms w'))"
  using SetVMZeroAgentsSince_rows [OF assms(1,2,4)] assms(3,5,6,7)
  by (auto simp: clocks_agree_def)

text \<open>The step for one machine, on an answer of its container-manager, acts on the decision of the
  \<open>reap_clock\<close>: it deletes the machine, or stores the new clock when it differs from the old one.\<close>

lemma reconcile_vm_acts:
  assumes "vm_internal_ip v \<noteq> []" and "gp_newDockerClient p (cm_url p (vm_internal_ip v)) = Inr dcm"
    and "cm_ListAgents dcm w = (Inr agents, w1)" and "reconcile_vm p v w = (r, w')"
    and "reconcile_observe (gc_ZeroAgentsTimeout (gp_config p)) (ck_now (gp_clock p) w1) (int (length agents))
      (vm_zero_agents_since v) = (since, reap)"
  shows "w' = (if reap
     then (case gce_DeleteInstance (gp_gce p) (gc_ProjectID (gp_config p)) (gc_Zone (gp_config p)) (vm_gce_instance_name v) w1 of
             (Inl _, w2) \<Rightarrow> w2 | (Inr _, w2) \<Rightarrow> snd (DeleteVMInstance (vm_id v) w2))
     else if since = vm_zero_agents_since v then w1 else snd (SetVMZeroAgentsSince (vm_id v) since w1))"
    and "reap \<Longrightarrow> since = vm_zero_agents_since v \<and> agents = []"
  using assms
  by (auto simp: reconcile_vm_def reconcile_observe_def wrap_err_def
      split: if_splits option.splits prod.splits sum.splits)

text \<open>A machine whose clock has run long enough is deleted; the deletion is entered with its evidence.\<close>

lemma clocks_agree_reap:
  assumes out: "reconcile_outside p seen deletions" and agree: "clocks_agree p addr seen deletions w"
    and agree1: "clocks_agree p addr seen deletions w1"
    and v: "v \<in> set (db_vms w)" "v \<in> set (db_vms w1)" "vm_internal_ip v \<noteq> []"
    and seen: "seen (pgdb.more w1) (cm_url p (vm_internal_ip v)) =
      seen (pgdb.more w) (cm_url p (vm_internal_ip v)) @ [(ck_now (gp_clock p) w1, 0)]"
    and reap: "snd (reconcile_observe (gc_ZeroAgentsTimeout (gp_config p)) (ck_now (gp_clock p) w1) 0 (vm_zero_agents_since v))"
    and g: "gce_DeleteInstance (gp_gce p) (gc_ProjectID (gp_config p)) (gc_Zone (gp_config p)) (vm_gce_instance_name v) w1 = (q, w2)"
  shows "clocks_agree p addr seen deletions w2 \<and> db_vms w2 = db_vms w1"
proof -
  let ?T = "gc_ZeroAgentsTimeout (gp_config p)"
  have o: "db_vms w2 = db_vms w1" "db_faults w2 = db_faults w1" "seen (pgdb.more w2) = seen (pgdb.more w1)"
    "deletions (pgdb.more w2) = deletions (pgdb.more w1) @ [(vm_gce_instance_name v, ck_now (gp_clock p) w1)]"
    using out g unfolding reconcile_outside_def by blast+
  have addr: "addr (vm_gce_instance_name v) = vm_internal_ip v"
    using agree1 v(2,3) unfolding clocks_agree_def machines_ok_def by metis
  have "vm_zero_agents_since v = reconcile.after ?T (seen (pgdb.more w) (cm_url p (vm_internal_ip v))) None"
    using agree v(1,3) by (simp add: clocks_agree_def)
  with idle_evidence_reap [of ?T "ck_now (gp_clock p) w1" 0] reap have "idle_evidence ?T
      (seen (pgdb.more w1) (cm_url p (addr (vm_gce_instance_name v)))) (ck_now (gp_clock p) w1)"
    by (simp add: seen addr)
  then show ?thesis using agree1 o by (auto simp: clocks_agree_def machines_ok_def)
qed

lemma clocks_agree_delete_row:
  assumes "clocks_agree p addr seen deletions w" and "v \<in> set (db_vms w)"
  shows "clocks_agree p addr seen deletions (snd (DeleteVMInstance (vm_id v) w)) \<and>
    (\<forall>u \<in> set (db_vms w). u \<noteq> v \<longrightarrow> u \<in> set (db_vms (snd (DeleteVMInstance (vm_id v) w))))"
proof -
  obtain q w' where d: "DeleteVMInstance (vm_id v) w = (q, w')" by (cases "DeleteVMInstance (vm_id v) w")
  have ok: "machines_ok addr w" using assms(1) by (simp add: clocks_agree_def)
  from DeleteVMInstance_rows [OF ok d] clocks_agree_delete [OF assms(1) d] machines_ok_id [OF ok _ assms(2)] d
  show ?thesis by simp
qed

lemma reconcile_vm_silent:
  assumes out: "reconcile_outside p seen deletions" and agree: "clocks_agree p addr seen deletions w"
    and none: "\<nexists>dcm agents w1. vm_internal_ip v \<noteq> [] \<and> gp_newDockerClient p (cm_url p (vm_internal_ip v)) = Inr dcm \<and>
      cm_ListAgents dcm w = (Inr agents, w1)"
    and run: "reconcile_vm p v w = (r, w')"
  shows "clocks_agree p addr seen deletions w' \<and> db_vms w' = db_vms w"
proof -
  consider "w' = w" | dcm e where "gp_newDockerClient p (cm_url p (vm_internal_ip v)) = Inr dcm" "cm_ListAgents dcm w = (Inl e, w')"
    using run none by (auto simp: reconcile_vm_def split: if_splits sum.splits prod.splits)
  then show ?thesis
  proof cases
    case 2
    then have "db_vms w' = db_vms w" "db_faults w' = db_faults w" "deletions (pgdb.more w') = deletions (pgdb.more w)"
      "seen (pgdb.more w') = seen (pgdb.more w)"
      using out unfolding reconcile_outside_def by fastforce+
    then show ?thesis using agree by (simp add: clocks_agree_def machines_ok_def)
  qed (use agree in simp)
qed

lemma reconcile_vm_keeps:
  assumes out: "reconcile_outside p seen deletions" and inj: "inj addr"
    and agree: "clocks_agree p addr seen deletions w" and v: "v \<in> set (db_vms w)"
    and run: "reconcile_vm p v w = (r, w')"
  shows "clocks_agree p addr seen deletions w' \<and> (\<forall>u \<in> set (db_vms w). u \<noteq> v \<longrightarrow> u \<in> set (db_vms w'))"
proof (cases "\<exists>dcm agents w1. vm_internal_ip v \<noteq> [] \<and> gp_newDockerClient p (cm_url p (vm_internal_ip v)) = Inr dcm \<and>
    cm_ListAgents dcm w = (Inr agents, w1)")
  case False
  from reconcile_vm_silent [OF out agree False run] show ?thesis by simp
next
  case True
  then obtain dcm agents w1 where ip: "vm_internal_ip v \<noteq> []"
    and d: "gp_newDockerClient p (cm_url p (vm_internal_ip v)) = Inr dcm" and l: "cm_ListAgents dcm w = (Inr agents, w1)"
    by blast
  let ?T = "gc_ZeroAgentsTimeout (gp_config p)" and ?url = "cm_url p (vm_internal_ip v)"
  note A = one_answer [OF out inj agree v ip d l]
  have v1: "v \<in> set (db_vms w1)" using v A(2) by simp
  obtain since reap where o: "reconcile_observe ?T (ck_now (gp_clock p) w1) (int (length agents)) (vm_zero_agents_since v) =
      (since, reap)" by fastforce
  note act = reconcile_vm_acts [OF ip d l run o]
  have after: "reconcile.after ?T (seen (pgdb.more w1) ?url) None = since" using A(5) o by simp
  have keep: "clocks_agree p addr seen deletions w1" if "since = vm_zero_agents_since v"
  proof -
    have "\<forall>u \<in> set (db_vms w1). vm_internal_ip u \<noteq> [] \<longrightarrow>
        vm_zero_agents_since u = reconcile.after ?T (seen (pgdb.more w1) (cm_url p (vm_internal_ip u))) None"
      using A(4) that after by metis
    then show ?thesis using A(1,6) by (simp add: clocks_agree_def)
  qed
  consider "reap" | "\<not> reap" "since = vm_zero_agents_since v" | "\<not> reap" "since \<noteq> vm_zero_agents_since v" by blast
  then show ?thesis
  proof cases
    case 1
    note k = keep [OF act(2) [OF 1, THEN conjunct1]]
    obtain q w2 where g: "gce_DeleteInstance (gp_gce p) (gc_ProjectID (gp_config p)) (gc_Zone (gp_config p))
        (vm_gce_instance_name v) w1 = (q, w2)" by fastforce
    have "snd (reconcile_observe ?T (ck_now (gp_clock p) w1) 0 (vm_zero_agents_since v))"
      using o act(2) 1 by simp
    from clocks_agree_reap [OF out agree k v v1 ip _ this g] A(3) act(2) [OF 1]
    have k2: "clocks_agree p addr seen deletions w2" "db_vms w2 = db_vms w1" by simp_all
    with clocks_agree_delete_row [OF k2(1), of v] v1 A(2) act(1) 1 g show ?thesis by (cases q) auto
  next
    case 2
    with act(1) keep A(2) show ?thesis by simp
  next
    case 3
    obtain q where "SetVMZeroAgentsSince (vm_id v) since w1 = (q, w')"
      using act(1) 3 by (cases "SetVMZeroAgentsSince (vm_id v) since w1") simp
    from clocks_agree_set [where p = p and seen = seen and deletions = deletions, OF A(1) v1 ip this after [symmetric] A(4) A(6)] A(2)
    show ?thesis by simp
  qed
qed

lemma reconcile_each_keeps:
  assumes out: "reconcile_outside p seen deletions" and inj: "inj addr"
  shows "clocks_agree p addr seen deletions w \<Longrightarrow> set vms \<subseteq> set (db_vms w) \<Longrightarrow> distinct vms \<Longrightarrow>
    clocks_agree p addr seen deletions (snd (reconcile_each p vms w))"
proof (induction vms arbitrary: w)
  case Nil
  then show ?case by simp
next
  case (Cons v vms)
  obtain r w1 where 1: "reconcile_vm p v w = (r, w1)" by (cases "reconcile_vm p v w")
  from reconcile_vm_keeps [OF out inj Cons.prems(1) _ 1] Cons.prems(2)
  have k: "clocks_agree p addr seen deletions w1" "\<forall>u \<in> set (db_vms w). u \<noteq> v \<longrightarrow> u \<in> set (db_vms w1)"
    by simp_all
  moreover have "set vms \<subseteq> set (db_vms w1)" using Cons.prems(2,3) k(2) by auto
  ultimately show ?case using Cons.IH [of w1] Cons.prems(3) by (cases r) (simp_all add: 1)
qed

lemma ReconcileVMs_keeps:
  assumes "reconcile_outside p seen deletions" and "inj addr" and "clocks_agree p addr seen deletions w"
  shows "clocks_agree p addr seen deletions (snd (ReconcileVMs p w))"
proof -
  have f: "db_faults w = []" and d: "distinct (db_vms w)"
    using assms(3) by (auto simp: clocks_agree_def machines_ok_def distinct_map)
  have "ReconcileVMs p w =
      reconcile_each p (sort_key vm_created_at (filter (\<lambda>v. vm_status v = ''running'') (db_vms w))) w"
    using f by (simp add: ReconcileVMs_def ListRunningVMInstances_def)
  then show ?thesis
    using reconcile_each_keeps [OF assms, of "sort_key vm_created_at (filter (\<lambda>v. vm_status v = ''running'') (db_vms w))"] d
    by auto
qed

lemma history_agrees:
  assumes "reconcile_history p addr seen deletions w" and "reconcile_outside p seen deletions" and "inj addr"
  shows "clocks_agree p addr seen deletions w"
  using assms(1)
proof (induction rule: reconcile_history.induct)
  case (start w)
  then show ?case by (simp add: clocks_agree_def)
next
  case (tick w)
  then show ?case using ReconcileVMs_keeps [OF assms(2,3)] by simp
next
  case (others w w')
  then show ?case unfolding clocks_agree_def others_act_def by fastforce
qed

text \<open>Reconciliation never deletes a machine that works: whenever it asks the Compute API to delete
  one, the container-manager of that machine has just answered that it has no agents, it had none
  at least the timeout before, and it never answered otherwise in between - whatever machines come
  and go, whatever probes and deletions fail, over any history without lost database statements.\<close>

theorem reconcile_safe:
  assumes "reconcile_history p addr seen deletions w" and "reconcile_outside p seen deletions" and "inj addr"
    and "(n, t) \<in> set (deletions (pgdb.more w))"
  shows "idle_evidence (gc_ZeroAgentsTimeout (gp_config p)) (seen (pgdb.more w) (cm_url p (addr n))) t"
  using history_agrees [OF assms(1-3)] assms(4) by (auto simp: clocks_agree_def)

text \<open>A machine that still has endpoint rows is stranded by its own deletion: once the Compute API has
  accepted it, the row cannot be deleted, reconciliation stops with that error, the machines after
  it are not looked at, and the row stays as it was, running.\<close>

theorem reconcile_strands_machine:
  assumes "vm_internal_ip v \<noteq> []" and "gp_newDockerClient p (cm_url p (vm_internal_ip v)) = Inr dcm"
    and "cm_ListAgents dcm w = (Inr [], w1)" and "vm_zero_agents_since v = Some since"
    and "gc_ZeroAgentsTimeout (gp_config p) \<le> ck_now (gp_clock p) w1 - since"
    and "gce_DeleteInstance (gp_gce p) (gc_ProjectID (gp_config p)) (gc_Zone (gp_config p))
          (vm_gce_instance_name v) w1 = (Inr (), w2)"
    and "db_faults w2 = []" and "vm_id v \<in> vm_id ` set (db_vms w2)"
    and "e \<in> set (db_endpoints w2)" and "ep_vm_instance_id e = vm_id v"
  shows "\<exists>err. reconcile_each p (v # vms) w = (Inl err, w2)"
proof -
  have "DeleteVMInstance (vm_id v) w2 = (Inl (violates ''session_endpoints_vm_instance_id_fkey''), w2)"
    using assms(7-10) by (force simp: DeleteVMInstance_def)
  then show ?thesis using assms(1-6) by (simp add: reconcile_vm_def)
qed

end
