(* ===== verification/DockerGCE_Examples.thy ===== *)
theory DockerGCE_Examples
  imports DockerGCE_Reconcile
begin

text \<open>
  Concrete runs of the Compute Engine provider: a world in which every party answers and time
  passes while the provider waits or asks for agents, and the properties of the provider at it.
\<close>

record gce_env =
  ge_now :: int
  ge_live :: "(string \<times> string) set"
  ge_seen :: "string \<Rightarrow> observation list"
  ge_deleted :: "(string \<times> int) list"

definition env_map :: "('z \<Rightarrow> 'z) \<Rightarrow> 'z pgdb_scheme \<Rightarrow> 'z pgdb_scheme" where
  "env_map f w = pgdb.more_update f w"

lemma env_map_sel [simp]:
  "db_vms (env_map f w) = db_vms w" "db_endpoints (env_map f w) = db_endpoints w"
  "db_conversations (env_map f w) = db_conversations w" "db_faults (env_map f w) = db_faults w"
  "db_uuids (env_map f w) = db_uuids w" "db_drawn (env_map f w) = db_drawn w"
  "pgdb.more (env_map f w) = f (pgdb.more w)"
  by (cases w; simp add: env_map_def)+

definition env_manager :: "string \<Rightarrow> (gce_env pgdb_scheme) container_manager" where
  "env_manager url =
     \<lparr>cm_RunAgent = (\<lambda>req w. (Inr (), env_map (\<lambda>z. z\<lparr>ge_live := insert (url, cr_name req) (ge_live z)\<rparr>) w)),
      cm_RunAgentContainer = (\<lambda>i n h c w. (Inr (), w)),
      cm_StopContainer = (\<lambda>n w. (Inr (), w)),
      cm_RemoveContainer = (\<lambda>n w. (Inr (), env_map (\<lambda>z. z\<lparr>ge_live := ge_live z - {(url, n)}\<rparr>) w)),
      cm_ListAgents = (\<lambda>w. (Inr [], env_map (\<lambda>z. z\<lparr>ge_now := ge_now z + seconds 700,
         ge_seen := (ge_seen z)(url := ge_seen z url @ [(ge_now z + seconds 700, 0)])\<rparr>) w)),
      cm_IsReady = (\<lambda>w. (True, w))\<rparr>"

definition env_clock :: "(gce_env pgdb_scheme) gce_clock" where
  "env_clock =
     \<lparr>ck_now = (\<lambda>w. ge_now (pgdb.more w)),
      ck_select = (\<lambda>t w. (Inr (), env_map (\<lambda>z. z\<lparr>ge_now := ge_now z + t\<rparr>) w)),
      ck_select_until = (\<lambda>d t w. if ge_now (pgdb.more w) < d
         then (Inr (), env_map (\<lambda>z. z\<lparr>ge_now := ge_now z + t\<rparr>) w)
         else (Inl (ErrVar ''context.DeadlineExceeded'' ''context deadline exceeded''), w))\<rparr>"

definition env_gce :: "(gce_env pgdb_scheme) gce_client" where
  "env_gce =
     \<lparr>gce_CreateInstance = (\<lambda>req w. (Inr \<lparr>gi_Name = gr_Name req, gi_Status = ''STAGING'', gi_NetworkIP = [],
         gi_Labels = gr_Labels req\<rparr>, w)),
      gce_GetInstance = (\<lambda>pr z n w. (Inr \<lparr>gi_Name = n, gi_Status = ''RUNNING'', gi_NetworkIP = ''10.0.0.2'',
         gi_Labels = []\<rparr>, w)),
      gce_DeleteInstance = (\<lambda>pr z n w. (Inr (),
         env_map (\<lambda>e. e\<lparr>ge_deleted := ge_deleted e @ [(n, ge_now e)]\<rparr>) w)),
      gce_ListInstances = (\<lambda>pr z w. (Inr [], w))\<rparr>"

definition env_config :: gce_config where
  "env_config = gce_config_defaults
     \<lparr>gc_ProjectID = ''proj'', gc_Zone = ''zone'', gc_MachineType = [], gc_VMImage = ''image'',
      gc_VMServiceAccount = [], gc_VMSubnetwork = [], gc_AgentImage = ''agent'', gc_AgentPort = 0,
      gc_IdleTimeout = 0, gc_MaxContainers = 0, gc_IdleCheckInterval = 0, gc_ZeroAgentsTimeout = 0,
      gc_VMReconcileInterval = 0, gc_ContainerManagerProbeTimeout = 0, gc_VMReadyTimeout = 0,
      gc_ContainerManagerReadyTimeout = 0, gc_AgentReadyTimeout = 0, gc_PollInterval = 0,
      gc_DockerPingTimeout = 0, gc_ContainerNamePrefix = [], gc_PortRangeStart = 61000, gc_PortRangeEnd = 61001,
      gc_ContainerManagerPort = 0\<rparr>"

definition env_provider :: "(gce_env pgdb_scheme) gce_provider" where
  "env_provider = NewDockerGCEProvider env_config (Some (\<lambda>url. Inr (env_manager url))) (\<lambda>url. Inl (ErrText []))
     env_gce (fixed_net (json_response 200 (JObj []))) env_clock (\<lambda>w. (''12345678-0000'', w))"

lemma env_provider_sel [simp]:
  "gp_gce env_provider = env_gce" "gp_clock env_provider = env_clock"
  "gp_net env_provider = fixed_net (json_response 200 (JObj []))"
  "gp_newDockerClient env_provider = (\<lambda>url. Inr (env_manager url))"
  "gp_new_uuid env_provider = (\<lambda>w. (''12345678-0000'', w))"
  by (simp_all add: env_provider_def NewDockerGCEProvider_def Let_def)

lemma env_config_sel [simp]:
  "gc_PollInterval (gp_config env_provider) = 5000000000"
  "gc_VMReadyTimeout (gp_config env_provider) = 180000000000"
  "gc_ContainerManagerReadyTimeout (gp_config env_provider) = 300000000000"
  "gc_AgentReadyTimeout (gp_config env_provider) = 60000000000"
  "gc_ZeroAgentsTimeout (gp_config env_provider) = 600000000000"
  "gc_PortRangeStart (gp_config env_provider) = 61000" "gc_PortRangeEnd (gp_config env_provider) = 61001"
  "gc_MaxContainers (gp_config env_provider) = 10"
  by (simp_all add: env_provider_def NewDockerGCEProvider_def Let_def env_config_def gce_config_defaults_def
      or_default_def seconds_def)

lemma env_outside: "gce_outside env_provider ge_live"
  by (auto simp: gce_outside_def gce_apart_def manager_contract_def quiet_def env_manager_def env_clock_def env_gce_def
      fixed_net_def)

lemma env_reports: "gce_reports env_provider ge_live (\<lambda>z. {})"
  by (auto simp: gce_reports_def gce_apart_def manager_reports_def quiet_def env_manager_def env_clock_def env_gce_def
      fixed_net_def)

lemma env_time: "gce_time env_provider"
  by (auto simp: gce_time_def env_manager_def env_clock_def env_gce_def fixed_net_def split: if_splits)

lemma env_fuel: "fuel_enough env_provider 62"
  by (simp add: fuel_enough_def Let_def)

lemma env_reconcile: "reconcile_outside env_provider ge_seen ge_deleted"
  by (auto simp: reconcile_outside_def env_manager_def env_gce_def env_clock_def)

definition env_world :: "vm_instance list \<Rightarrow> gce_env pgdb_scheme" where
  "env_world vms =
     \<lparr>db_now = 9, db_uuids = (\<lambda>n. itoa (int n)), db_drawn = 0, db_faults = [],
      db_conversations = [\<lparr>conv_id = ''c1'', conv_title = [], conv_model = ''m'',
         conv_system_prompt = None, conv_status = ''idle'', conv_created_at = 0, conv_updated_at = 0\<rparr>],
      db_messages = [], db_vms = vms, db_endpoints = [],
      \<dots> = \<lparr>ge_now = 0, ge_live = {}, ge_seen = (\<lambda>u. []), ge_deleted = []\<rparr>\<rparr>"

theorem get_or_create_returns_witness:
  "\<exists>r w'. getOrCreateEndpoint 62 env_provider ''c1'' (env_world []) = Some (r, w')"
  by (rule get_or_create_returns [OF env_time env_fuel])

definition env_vm :: "int option \<Rightarrow> vm_instance" where
  "env_vm since = \<lparr>vm_id = ''v1'', vm_gce_instance_name = ''vm-1'', vm_zone = ''zone'', vm_internal_ip = ''10.0.0.2'',
     vm_status = ''running'', vm_active_containers = 3, vm_idle_since = None, vm_zero_agents_since = since,
     vm_created_at = 0\<rparr>"

lemma env_agent_ready: "waitForAgentReady (Suc f) env_provider ip port w = Some (Inr (), w)"
  by (simp add: waitForAgentReady_def probe_agent_def RC_GetAuthStatus_def send_request_def fixed_net_def
      decode_struct_def dec_struct_def)

lemma env_pick: "pickHealthyAvailableVM env_provider (env_world [env_vm None]) = (Inr (env_vm None), env_world [env_vm None])"
  by (simp add: pickHealthyAvailableVM_def eval_nat_numeral GetAvailableVMInstance_def env_world_def env_vm_def
      first_row_def env_manager_def)

lemma env_running: "running_endpoint ''c1'' (env_world vms) = (None, env_world vms)"
  by (simp add: running_endpoint_def GetSessionEndpointByConversationID_def env_world_def first_row_def)

lemma env_port: "GetSmallestAvailablePortOnVM ''v1'' 61000 61001 (env_world vms) = (Inr 61000, env_world vms)"
  by (simp add: GetSmallestAvailablePortOnVM_def env_world_def busy_ports_def first_row_def upto.simps)

lemma env_endpoint:
  "\<exists>ep w'. getOrCreateEndpoint (Suc 0) env_provider ''c1'' (env_world [env_vm None]) = Some (Inr ep, w')"
proof -
  have "\<exists>ep w'. port_loop (Suc 0) env_provider ''c1'' ''v1'' ''10.0.0.2'' 2 (env_world [env_vm None]) = Some (Inr ep, w') \<and>
      db_faults w' = []"
    by (simp add: port_loop.simps try_port_def env_port env_agent_ready)
      (simp add: env_agent_ready env_manager_def CreateSessionEndpoint_def env_world_def env_map_def draw_uuid_def Let_def env_vm_def)
  then obtain ep w' where l: "port_loop (Suc 0) env_provider ''c1'' ''v1'' ''10.0.0.2'' 2 (env_world [env_vm None]) = Some (Inr ep, w')"
    "db_faults w' = []" by blast
  have v: "vm_id (env_vm None) = ''v1''" "vm_internal_ip (env_vm None) = ''10.0.0.2''" by (simp_all add: env_vm_def)
  show ?thesis
    by (simp add: getOrCreateEndpoint_def createEndpoint_def env_running obtain_vm_def env_pick v l IncrementVMActiveContainers_def)
qed

theorem endpoint_provisioned_witness:
  "\<exists>ep w'. getOrCreateEndpoint (Suc 0) env_provider ''c1'' (env_world [env_vm None]) = Some (Inr ep, w') \<and>
     provisioned env_provider ge_live ''c1'' ep (env_world [env_vm None]) w'"
proof -
  obtain ep w' where e: "getOrCreateEndpoint (Suc 0) env_provider ''c1'' (env_world [env_vm None]) = Some (Inr ep, w')"
    using env_endpoint by blast
  have "\<not> reused ge_live ''c1'' ep (env_world [env_vm None]) w'" by (simp add: reused_def env_world_def)
  with endpoint_provisioned [OF env_outside e] e show ?thesis by blast
qed

theorem no_orphan_agents_witness:
  "\<exists>ep w'. getOrCreateEndpoint (Suc 0) env_provider ''c1'' (env_world [env_vm None]) = Some (Inr ep, w') \<and>
     (\<forall>u n. (u, n) \<in> ge_live (pgdb.more w') \<longrightarrow> n \<in> ep_container_name ` set (db_endpoints w'))"
proof -
  obtain ep w' where e: "getOrCreateEndpoint (Suc 0) env_provider ''c1'' (env_world [env_vm None]) = Some (Inr ep, w')"
    using env_endpoint by blast
  have "(u, n) \<in> ge_live (pgdb.more (env_world [env_vm None])) \<Longrightarrow>
      n \<in> ep_container_name ` set (db_endpoints (env_world [env_vm None])) \<or> (u, n) \<in> {}" for u n
    by (simp add: env_world_def)
  from no_orphan_agents [OF env_reports e this] e show ?thesis by blast
qed

definition env_addr :: "string \<Rightarrow> string" where
  "env_addr n = (if n = ''vm-1'' then ''10.0.0.2'' else if n = ''10.0.0.2'' then ''vm-1'' else n)"

lemma env_addr_inj: "inj env_addr"
  by (rule injI) (auto simp: env_addr_def split: if_splits)

lemma env_reconcile_once:
  "snd (ReconcileVMs env_provider w) =
     (let w1 = snd (cm_ListAgents (env_manager (cm_url env_provider ''10.0.0.2'')) w) in
      case since of
        None \<Rightarrow> snd (SetVMZeroAgentsSince ''v1'' (Some (ge_now (pgdb.more w1))) w1)
      | Some t \<Rightarrow> (if ge_now (pgdb.more w1) - t < 600000000000 then w1
          else snd (DeleteVMInstance ''v1'' (snd (gce_DeleteInstance env_gce [] [] ''vm-1'' w1)))))"
  if "db_faults w = []" "db_vms w = [env_vm since]"
proof -
  have "snd (ReconcileVMs env_provider w) = snd (reconcile_each env_provider [env_vm since] w)"
    using that by (simp add: ReconcileVMs_def ListRunningVMInstances_def env_vm_def)
  also have "\<dots> = snd (reconcile_vm env_provider (env_vm since) w)"
    by (simp split: prod.split sum.split)
  finally show ?thesis
    by (simp add: env_vm_def reconcile_vm_def env_manager_def Let_def env_clock_def env_gce_def split: option.split)
qed

theorem reconcile_safe_witness:
  "\<exists>w. reconcile_history env_provider env_addr ge_seen ge_deleted w \<and>
     ge_deleted (pgdb.more w) = [(''vm-1'', 1400000000000)] \<and>
     idle_evidence 600000000000 (ge_seen (pgdb.more w) (cm_url env_provider ''10.0.0.2'')) 1400000000000"
proof -
  let ?h = "reconcile_history env_provider env_addr ge_seen ge_deleted"
  define w1 where "w1 = snd (ReconcileVMs env_provider (env_world [env_vm None]))"
  define w2 where "w2 = snd (ReconcileVMs env_provider w1)"
  have "?h (env_world [env_vm None])"
    by (rule reconcile_history.start)
      (simp_all add: machines_ok_def env_world_def env_vm_def env_addr_def)
  then have h: "?h w2" unfolding w2_def w1_def by (intro reconcile_history.tick)
  have w1: "db_faults w1 = []" "db_vms w1 = [env_vm (Some 700000000000)]" "ge_now (pgdb.more w1) = 700000000000"
    "ge_deleted (pgdb.more w1) = []"
    unfolding w1_def
    by (subst env_reconcile_once [where since = None];
      simp add: env_world_def env_manager_def SetVMZeroAgentsSince_def seconds_def update_where_def env_vm_def Let_def)+
  have d: "ge_deleted (pgdb.more w2) = [(''vm-1'', 1400000000000)]"
    unfolding w2_def env_reconcile_once [OF w1(1,2)]
    by (simp add: w1 env_manager_def seconds_def env_gce_def DeleteVMInstance_def Let_def)
  have a: "env_addr ''vm-1'' = ''10.0.0.2''" by (simp add: env_addr_def)
  from reconcile_safe [OF h env_reconcile env_addr_inj, of "''vm-1''" 1400000000000] d a h show ?thesis by auto
qed

definition stranding_world :: "gce_env pgdb_scheme" where
  "stranding_world = (env_world [env_vm (Some 0)])\<lparr>db_endpoints :=
     [\<lparr>ep_id = ''e1'', ep_conversation_id = ''c1'', ep_vm_instance_id = ''v1'', ep_container_name = ''session-c1'',
       ep_port = 61000, ep_status = ''running'', ep_last_activity = 0, ep_created_at = 0\<rparr>]\<rparr>"

theorem reconcile_strands_machine_witness:
  "\<exists>err w'. reconcile_each env_provider [env_vm (Some 0)] stranding_world = (Inl err, w') \<and>
     ge_deleted (pgdb.more w') = [(''vm-1'', 700000000000)] \<and> db_vms w' = [env_vm (Some 0)]"
proof -
  define w1 where "w1 = snd (cm_ListAgents (env_manager (cm_url env_provider ''10.0.0.2'')) stranding_world)"
  define w2 where "w2 = snd (gce_DeleteInstance env_gce [] [] ''vm-1'' w1)"
  have w2: "db_faults w2 = []" "db_vms w2 = [env_vm (Some 0)]" "ge_deleted (pgdb.more w2) = [(''vm-1'', 700000000000)]"
    "map ep_vm_instance_id (db_endpoints w2) = [''v1'']"
    by (simp_all add: w2_def w1_def env_gce_def env_manager_def stranding_world_def env_world_def seconds_def)
  then obtain e where e: "e \<in> set (db_endpoints w2)" "ep_vm_instance_id e = ''v1''" by auto
  have "\<exists>err. reconcile_each env_provider [env_vm (Some 0)] stranding_world = (Inl err, w2)"
    by (rule reconcile_strands_machine [where dcm = "env_manager (cm_url env_provider ''10.0.0.2'')" and ?w1.0 = w1
        and since = 0 and e = e])
      (use w2 e in \<open>simp_all add: env_vm_def w1_def w2_def env_manager_def env_gce_def env_clock_def
        stranding_world_def env_world_def seconds_def\<close>)
  with w2 show ?thesis by blast
qed

end
