(* ===== verification/DockerGCE_Cleanup.thy ===== *)
theory DockerGCE_Cleanup
  imports DockerGCE_Reconcile DockerGCE_Examples
begin

text \<open>
  \<^verbatim>\<open>CleanupOrphans\<close>: what it leaves alone and what it takes away.  An endpoint is idle by its column
  \<^verbatim>\<open>last_activity\<close> at the time the list is made.  \<open>deletion_contract\<close> states what deleting an instance
  does outside the database: the containers of that machine go, and nothing else.
\<close>

definition idle_endpoint :: "'w gce_provider \<Rightarrow> 'z pgdb_scheme \<Rightarrow> session_endpoint \<Rightarrow> bool" where
  "idle_endpoint p w e \<longleftrightarrow> ep_status e = ''running'' \<and> ep_last_activity e < db_now w - gc_IdleTimeout (gp_config p)"

definition deletion_contract ::
    "('z pgdb_scheme) gce_provider \<Rightarrow> ('z \<Rightarrow> (string \<times> string) set) \<Rightarrow> (string \<Rightarrow> string) \<Rightarrow> bool" where
  "deletion_contract p live addr \<longleftrightarrow>
     (\<forall>pr z n w w' r. gce_DeleteInstance (gp_gce p) pr z n w = (r, w') \<longrightarrow>
        db_vms w' = db_vms w \<and> db_endpoints w' = db_endpoints w \<and> live (pgdb.more w') \<subseteq> live (pgdb.more w) \<and>
        (\<forall>u c. (u, c) \<in> live (pgdb.more w) \<longrightarrow> (u, c) \<in> live (pgdb.more w') \<or> u = cm_url p (addr n)))"

definition vm_face :: "vm_instance \<Rightarrow> string \<times> string \<times> string \<times> string" where
  "vm_face v = (vm_id v, vm_gce_instance_name v, vm_internal_ip v, vm_status v)"

section \<open>The statements\<close>

lemma read_vm_keeps [simp]:
  "db_vms (snd (GetVMInstance i d)) = db_vms d" "db_endpoints (snd (GetVMInstance i d)) = db_endpoints d"
  "pgdb.more (snd (GetVMInstance i d)) = pgdb.more d"
  "db_vms (snd (ListIdleVMInstances t d)) = db_vms d" "db_endpoints (snd (ListIdleVMInstances t d)) = db_endpoints d"
  "pgdb.more (snd (ListIdleVMInstances t d)) = pgdb.more d"
  "db_vms (snd (ListIdleSessionEndpoints t d)) = db_vms d" "db_endpoints (snd (ListIdleSessionEndpoints t d)) = db_endpoints d"
  "pgdb.more (snd (ListIdleSessionEndpoints t d)) = pgdb.more d"
  unfolding GetVMInstance_def ListIdleVMInstances_def ListIdleSessionEndpoints_def
  by (rule pg_exec_frame; simp)+

lemma decrement_keeps [simp]:
  "db_endpoints (snd (DecrementVMActiveContainers i d)) = db_endpoints d"
  "pgdb.more (snd (DecrementVMActiveContainers i d)) = pgdb.more d"
  "map vm_face (db_vms (snd (DecrementVMActiveContainers i d))) = map vm_face (db_vms d)"
  unfolding DecrementVMActiveContainers_def
  by (rule pg_exec_frame; simp add: map_update_where vm_face_def)+

lemma decrement_count:
  shows "vm_count d j - (if j = i then 1 else 0) \<le> vm_count (snd (DecrementVMActiveContainers i d)) j"
    and "\<forall>v \<in> set (db_vms d). 0 \<le> vm_active_containers v \<Longrightarrow>
      \<forall>v \<in> set (db_vms (snd (DecrementVMActiveContainers i d))). 0 \<le> vm_active_containers v"
proof -
  let ?f = "\<lambda>v t. v\<lparr>vm_active_containers := max (vm_active_containers v - 1) 0,
      vm_idle_since := (if vm_active_containers v - 1 \<le> 0 then Some t else vm_idle_since v)\<rparr>"
  have cases: "db_vms (snd (DecrementVMActiveContainers i d)) = db_vms d \<or>
      (\<exists>t. db_vms (snd (DecrementVMActiveContainers i d)) = update_where (\<lambda>v. vm_id v = i) (\<lambda>v. ?f v t) (db_vms d))"
    by (auto simp: DecrementVMActiveContainers_def pg_exec_def split: list.split option.split)
  have "find (\<lambda>v. vm_id v = j) (update_where (\<lambda>v. vm_id v = i) (\<lambda>v. ?f v t) (db_vms d)) =
      (if j = i then map_option (\<lambda>v. ?f v t) (find (\<lambda>v. vm_id v = j) (db_vms d)) else find (\<lambda>v. vm_id v = j) (db_vms d))" for t
    by (rule find_update_key) simp
  then show "vm_count d j - (if j = i then 1 else 0) \<le> vm_count (snd (DecrementVMActiveContainers i d)) j"
    using cases by (auto simp: vm_count_def split: option.split)
  show "\<forall>v \<in> set (db_vms (snd (DecrementVMActiveContainers i d))). 0 \<le> vm_active_containers v"
    if "\<forall>v \<in> set (db_vms d). 0 \<le> vm_active_containers v"
    using cases that by (auto simp: update_where_def)
qed

lemma delete_endpoint:
  assumes "DeleteSessionEndpoint i d = (r, d')"
  shows "db_vms d' = db_vms d \<and> pgdb.more d' = pgdb.more d \<and>
    (if is_err r then db_endpoints d' = db_endpoints d else db_endpoints d' = filter (\<lambda>e. ep_id e \<noteq> i) (db_endpoints d))"
  using assms by (auto simp: DeleteSessionEndpoint_def pg_exec_def split: list.splits option.splits)

lemma delete_vm:
  assumes "DeleteVMInstance i d = (r, d')"
  shows "db_endpoints d' = db_endpoints d \<and> pgdb.more d' = pgdb.more d \<and>
    (db_vms d' = db_vms d \<or> db_vms d' = filter (\<lambda>v. vm_id v \<noteq> i) (db_vms d))"
  using assms by (auto simp: DeleteVMInstance_def pg_exec_def split: list.splits option.splits if_splits)

lemma release_keeps:
  assumes "gce_outside p live"
  shows "db_vms (release_container p ep w) = db_vms w \<and> db_endpoints (release_container p ep w) = db_endpoints w \<and>
    live (pgdb.more (release_container p ep w)) \<subseteq> live (pgdb.more w) \<and>
    (\<forall>u n. (u, n) \<in> live (pgdb.more w) \<longrightarrow> (u, n) \<in> live (pgdb.more (release_container p ep w)) \<or> n = ep_container_name ep)"
proof -
  obtain q w1 where q: "GetVMInstance (ep_vm_instance_id ep) w = (q, w1)"
    by (cases "GetVMInstance (ep_vm_instance_id ep) w")
  then have w1: "db_vms w1 = db_vms w" "db_endpoints w1 = db_endpoints w" "pgdb.more w1 = pgdb.more w"
    using read_vm_keeps(1-3) [of "ep_vm_instance_id ep" w] by simp_all
  consider "release_container p ep w = w1"
    | url dcm where "gp_newDockerClient p url = Inr dcm"
        "release_container p ep w = discard_agent dcm (ep_container_name ep) w1"
  proof (cases "\<exists>vm dcm. q = Inr vm \<and> vm_internal_ip vm \<noteq> [] \<and> gp_newDockerClient p (cm_url p (vm_internal_ip vm)) = Inr dcm")
    case True
    with that(2) q show thesis by (auto simp: release_container_def)
  next
    case False
    then have "release_container p ep w = w1" using q by (auto simp: release_container_def split: sum.split)
    with that(1) show thesis .
  qed
  then show ?thesis
  proof cases
    case 1
    with w1 show ?thesis by simp
  next
    case 2
    with w1 discard_agent_contract [OF assms 2(1), of "ep_container_name ep" w1]
    show ?thesis by auto
  qed
qed

section \<open>The two loops\<close>

definition rows_among :: "string \<Rightarrow> session_endpoint list \<Rightarrow> int" where
  "rows_among i eps = int (length (filter (\<lambda>e. ep_vm_instance_id e = i) eps))"

lemma rows_among_simps [simp]:
  "rows_among i [] = 0"
  "rows_among i (e # eps) = (if ep_vm_instance_id e = i then 1 else 0) + rows_among i eps"
  by (simp_all add: rows_among_def)

lemma rows_among_nonneg [simp]: "0 \<le> rows_among i eps"
  by (simp add: rows_among_def)

definition counted :: "'z pgdb_scheme \<Rightarrow> bool" where
  "counted w \<longleftrightarrow> (\<forall>i. rows_among i (db_endpoints w) \<le> vm_count w i)"

definition endpoints_taken ::
    "('z \<Rightarrow> (string \<times> string) set) \<Rightarrow> session_endpoint list \<Rightarrow> 'z pgdb_scheme \<Rightarrow> 'z pgdb_scheme \<Rightarrow> bool" where
  "endpoints_taken live eps w w' \<longleftrightarrow>
     set (db_endpoints w') \<subseteq> set (db_endpoints w) \<and>
     (\<forall>e \<in> set (db_endpoints w). e \<in> set (db_endpoints w') \<or> ep_id e \<in> ep_id ` set eps) \<and>
     map vm_face (db_vms w') = map vm_face (db_vms w) \<and>
     (\<forall>v \<in> set (db_vms w'). 0 \<le> vm_active_containers v) \<and>
     (\<forall>i. vm_count w i - rows_among i eps \<le> vm_count w' i) \<and>
     (\<forall>u n. (u, n) \<in> live (pgdb.more w) \<longrightarrow> (u, n) \<in> live (pgdb.more w') \<or> n \<in> ep_container_name ` set eps)"

lemma endpoints_taken_step:
  assumes "gce_outside p live" and "\<forall>v \<in> set (db_vms w). 0 \<le> vm_active_containers v"
    and "DeleteSessionEndpoint (ep_id ep)
      (snd (DecrementVMActiveContainers (ep_vm_instance_id ep) (release_container p ep w))) = (r, w')"
  shows "endpoints_taken live [ep] w w'" and "\<not> is_err r \<Longrightarrow> \<forall>e \<in> set (db_endpoints w'). ep_id e \<noteq> ep_id ep"
proof -
  let ?w1 = "release_container p ep w"
  let ?w2 = "snd (DecrementVMActiveContainers (ep_vm_instance_id ep) ?w1)"
  have k: "db_vms ?w1 = db_vms w" "db_endpoints ?w1 = db_endpoints w"
    "\<And>u n. (u, n) \<in> live (pgdb.more w) \<Longrightarrow> (u, n) \<in> live (pgdb.more ?w1) \<or> n = ep_container_name ep"
    using release_keeps [OF assms(1), of ep w] by blast+
  have pos: "\<forall>v \<in> set (db_vms ?w1). 0 \<le> vm_active_containers v" using k(1) assms(2) by simp
  have d: "db_vms w' = db_vms ?w2" "pgdb.more w' = pgdb.more ?w1"
    "db_endpoints w' = (if is_err r then db_endpoints w else filter (\<lambda>e. ep_id e \<noteq> ep_id ep) (db_endpoints w))"
    using delete_endpoint [OF assms(3)] k(2) by (simp_all split: if_splits)
  have count: "vm_count w i - rows_among i [ep] \<le> vm_count w' i" for i
  proof -
    have "vm_count ?w1 i = vm_count w i" "vm_count w' i = vm_count ?w2 i" using k(1) d(1) by (simp_all add: vm_count_def)
    moreover have "rows_among i [ep] = (if i = ep_vm_instance_id ep then 1 else 0)" by simp
    ultimately show ?thesis using decrement_count(1) [of ?w1 i "ep_vm_instance_id ep"] by simp
  qed
  have faces: "map vm_face (db_vms w') = map vm_face (db_vms w)" using k(1) d(1) by simp
  have nonneg: "\<forall>v \<in> set (db_vms w'). 0 \<le> vm_active_containers v"
    using decrement_count(2) [OF pos, of "ep_vm_instance_id ep"] by (simp add: d(1))
  have rows: "set (db_endpoints w') \<subseteq> set (db_endpoints w)"
    "\<forall>e \<in> set (db_endpoints w). e \<in> set (db_endpoints w') \<or> ep_id e \<in> ep_id ` set [ep]"
    by (auto simp: d(3))
  have lives: "\<forall>u n. (u, n) \<in> live (pgdb.more w) \<longrightarrow> (u, n) \<in> live (pgdb.more w') \<or> n \<in> ep_container_name ` set [ep]"
    using k(3) by (auto simp: d(2))
  show "endpoints_taken live [ep] w w'"
    unfolding endpoints_taken_def using rows faces nonneg count lives by blast
  show "\<forall>e \<in> set (db_endpoints w'). ep_id e \<noteq> ep_id ep" if "\<not> is_err r"
    using that by (simp add: d(3))
qed

lemma endpoints_taken_count: "endpoints_taken live eps w w' \<Longrightarrow> vm_count w i - rows_among i eps \<le> vm_count w' i"
  by (simp add: endpoints_taken_def)

lemma endpoints_taken_live:
  "endpoints_taken live eps w w' \<Longrightarrow> (u, n) \<in> live (pgdb.more w) \<Longrightarrow>
    (u, n) \<in> live (pgdb.more w') \<or> n \<in> ep_container_name ` set eps"
  by (simp add: endpoints_taken_def)

lemma endpoints_taken_Cons:
  assumes 1: "endpoints_taken live [ep] w w1" and 2: "endpoints_taken live eps w1 w'"
  shows "endpoints_taken live (ep # eps) w w'"
proof -
  have "vm_count w i - rows_among i (ep # eps) \<le> vm_count w' i" for i
    using endpoints_taken_count [OF 1, of i] endpoints_taken_count [OF 2, of i]
    by (simp only: rows_among_simps)
  moreover have "set (db_endpoints w') \<subseteq> set (db_endpoints w)"
    "map vm_face (db_vms w') = map vm_face (db_vms w)"
    "\<forall>v \<in> set (db_vms w'). 0 \<le> vm_active_containers v"
    using 1 2 by (auto simp: endpoints_taken_def)
  moreover have "e \<in> set (db_endpoints w') \<or> ep_id e \<in> ep_id ` set (ep # eps)" if "e \<in> set (db_endpoints w)" for e
    using that 1 2 by (auto simp: endpoints_taken_def)
  moreover have "(u, n) \<in> live (pgdb.more w') \<or> n \<in> ep_container_name ` set (ep # eps)"
    if "(u, n) \<in> live (pgdb.more w)" for u n
    using endpoints_taken_live [OF 1 that] endpoints_taken_live [OF 2, of u n] by auto
  ultimately show ?thesis unfolding endpoints_taken_def by blast
qed

lemma endpoints_taken_more:
  assumes 1: "endpoints_taken live [ep] w w'"
  shows "endpoints_taken live (ep # eps) w w'"
proof -
  have "vm_count w i - rows_among i (ep # eps) \<le> vm_count w' i" for i
    using endpoints_taken_count [OF 1, of i] rows_among_nonneg [of i eps] by (simp only: rows_among_simps)
  with 1 show ?thesis by (auto simp: endpoints_taken_def simp del: rows_among_simps)
qed

lemma cleanup_endpoints_taken:
  assumes out: "gce_outside p live"
  shows "cleanup_endpoints p eps w = (r, w') \<Longrightarrow> \<forall>v \<in> set (db_vms w). 0 \<le> vm_active_containers v \<Longrightarrow>
    endpoints_taken live eps w w' \<and> (\<not> is_err r \<longrightarrow> (\<forall>e \<in> set (db_endpoints w'). ep_id e \<notin> ep_id ` set eps))"
proof (induction eps arbitrary: w)
  case Nil
  then show ?case by (auto simp: endpoints_taken_def)
next
  case (Cons ep eps)
  obtain q w1 where q: "DeleteSessionEndpoint (ep_id ep)
      (snd (DecrementVMActiveContainers (ep_vm_instance_id ep) (release_container p ep w))) = (q, w1)"
    by (cases "DeleteSessionEndpoint (ep_id ep)
      (snd (DecrementVMActiveContainers (ep_vm_instance_id ep) (release_container p ep w)))")
  note t = endpoints_taken_step [OF out Cons.prems(2) q]
  show ?case
  proof (cases q)
    case (Inl e)
    with Cons.prems(1) q t(1) show ?thesis by (auto intro: endpoints_taken_more)
  next
    case (Inr u)
    then have run: "cleanup_endpoints p eps w1 = (r, w')" using Cons.prems(1) q by simp
    have "\<forall>v \<in> set (db_vms w1). 0 \<le> vm_active_containers v" using t(1) by (simp add: endpoints_taken_def)
    from Cons.IH [OF run this] have rest: "endpoints_taken live eps w1 w'"
      "\<not> is_err r \<longrightarrow> (\<forall>e \<in> set (db_endpoints w'). ep_id e \<notin> ep_id ` set eps)" by auto
    have "set (db_endpoints w') \<subseteq> set (db_endpoints w1)" using rest(1) by (simp add: endpoints_taken_def)
    with rest t(2) Inr endpoints_taken_Cons [OF t(1) rest(1)] show ?thesis by auto
  qed
qed

lemma cleanup_vms_taken:
  assumes del: "deletion_contract p live addr"
  shows "cleanup_vms p vms w = (r, w') \<Longrightarrow>
    db_endpoints w' = db_endpoints w \<and> set (db_vms w') \<subseteq> set (db_vms w) \<and>
    (\<forall>v \<in> set (db_vms w). v \<in> set (db_vms w') \<or> vm_id v \<in> vm_id ` set vms) \<and>
    (\<forall>u n. (u, n) \<in> live (pgdb.more w) \<longrightarrow> (u, n) \<in> live (pgdb.more w') \<or>
       (\<exists>v \<in> set vms. u = cm_url p (addr (vm_gce_instance_name v))))"
proof (induction vms arbitrary: w)
  case Nil
  then show ?case by simp
next
  case (Cons vm vms)
  obtain q1 w1 where 1: "gce_DeleteInstance (gp_gce p) (gc_ProjectID (gp_config p)) (gc_Zone (gp_config p))
      (vm_gce_instance_name vm) w = (q1, w1)"
    by (cases "gce_DeleteInstance (gp_gce p) (gc_ProjectID (gp_config p)) (gc_Zone (gp_config p))
      (vm_gce_instance_name vm) w")
  obtain q2 w2 where 2: "DeleteVMInstance (vm_id vm) w1 = (q2, w2)" by (cases "DeleteVMInstance (vm_id vm) w1")
  have k1: "db_vms w1 = db_vms w" "db_endpoints w1 = db_endpoints w"
    "\<And>u c. (u, c) \<in> live (pgdb.more w) \<Longrightarrow> (u, c) \<in> live (pgdb.more w1) \<or> u = cm_url p (addr (vm_gce_instance_name vm))"
    using del 1 unfolding deletion_contract_def by blast+
  note k2 = delete_vm [OF 2]
  show ?case
  proof (cases q2)
    case (Inl e)
    with Cons.prems 1 2 k1 k2 show ?thesis by fastforce
  next
    case (Inr u)
    then have "cleanup_vms p vms w2 = (r, w')" using Cons.prems 1 2 by simp
    note ih = Cons.IH [OF this]
    from ih k1 k2 show ?thesis by (fastforce simp: image_iff)
  qed
qed

lemma cleanup_vms_rows:
  assumes "deletion_contract p live addr" and "cleanup_vms p vms w = (r, w')"
  shows "db_endpoints w' = db_endpoints w"
  using cleanup_vms_taken [OF assms] by simp

section \<open>What is not idle stays\<close>

lemma find_vm:
  "distinct (map vm_id vms) \<Longrightarrow> v \<in> set vms \<Longrightarrow> find (\<lambda>x. vm_id x = vm_id v) vms = Some v"
  by (induction vms) (auto simp: image_iff)

lemma face_member: "map vm_face xs = map vm_face ys \<Longrightarrow> x \<in> set xs \<Longrightarrow> \<exists>y \<in> set ys. vm_face y = vm_face x"
  by (metis (no_types, opaque_lifting) image_iff list.set_map)

lemma listed_endpoints:
  assumes "ListIdleSessionEndpoints (gc_IdleTimeout (gp_config p)) w = (Inr eps, w1)"
  shows "eps = sort_key ep_last_activity (filter (idle_endpoint p w) (db_endpoints w))"
proof -
  have "(\<lambda>e. ep_status e = ''running'' \<and> ep_last_activity e < db_now w - gc_IdleTimeout (gp_config p)) =
      idle_endpoint p w"
    by (simp add: fun_eq_iff idle_endpoint_def)
  with assms show ?thesis
    by (auto simp: ListIdleSessionEndpoints_def pg_exec_def split: list.splits option.splits)
qed

lemma listed_machines:
  assumes "ListIdleVMInstances t w = (Inr vms, w1)" and "v \<in> set vms"
  shows "v \<in> set (db_vms w)" and "vm_active_containers v = 0"
  using assms by (auto simp: ListIdleVMInstances_def pg_exec_def split: list.splits option.splits)

lemma rows_among_sort: "rows_among i (sort_key f xs) = rows_among i xs"
  by (simp add: rows_among_def filter_sort)

lemma rows_among_other:
  assumes "e \<in> set eps" and "\<not> P e"
  shows "rows_among (ep_vm_instance_id e) (filter P eps) < rows_among (ep_vm_instance_id e) eps"
proof -
  have le: "rows_among i (filter P xs) \<le> rows_among i xs" for i xs by (induction xs) auto
  show ?thesis using assms(1)
  proof (induction eps)
    case (Cons x xs)
    show ?case
    proof (cases "x = e")
      case True
      with assms(2) le [of "ep_vm_instance_id e" xs] show ?thesis by simp
    next
      case False
      with Cons show ?thesis by auto
    qed
  qed simp
qed

text \<open>The first loop: a row that is not idle stays, with its container, and its machine keeps a positive
  counter, because the counter was at least the number of rows and only the listed rows are deducted.\<close>

lemma endpoint_pass_spares:
  assumes out: "gce_outside p live" and rows: "endpoints_ok w" "counted w"
      "distinct (map ep_container_name (db_endpoints w))"
    and pos: "\<forall>v \<in> set (db_vms w). 0 \<le> vm_active_containers v"
    and 1: "ListIdleSessionEndpoints (gc_IdleTimeout (gp_config p)) w = (Inr eps, w1)"
    and 2: "cleanup_endpoints p eps w1 = (r, w2)"
    and e: "e \<in> set (db_endpoints w)" "\<not> idle_endpoint p w e"
  shows "e \<in> set (db_endpoints w2)" and "map vm_face (db_vms w2) = map vm_face (db_vms w)"
    and "(u, ep_container_name e) \<in> live (pgdb.more w) \<Longrightarrow> (u, ep_container_name e) \<in> live (pgdb.more w2)"
    and "0 < vm_count w2 (ep_vm_instance_id e)"
proof -
  have w1: "db_vms w1 = db_vms w" "db_endpoints w1 = db_endpoints w" "pgdb.more w1 = pgdb.more w"
    using 1 read_vm_keeps(7-9) [of "gc_IdleTimeout (gp_config p)" w] by simp_all
  note listed = listed_endpoints [OF 1]
  then have eps: "set eps = {x \<in> set (db_endpoints w). idle_endpoint p w x}" by simp
  have "\<forall>v \<in> set (db_vms w1). 0 \<le> vm_active_containers v" using pos w1 by simp
  from cleanup_endpoints_taken [OF out 2 this] have t: "endpoints_taken live eps w1 w2" ..
  have "inj_on ep_id (set (db_endpoints w))" using rows(1) by (simp add: endpoints_ok_def distinct_map)
  then have "ep_id e \<notin> ep_id ` set eps" using e by (auto simp: eps dest: inj_onD)
  then show "e \<in> set (db_endpoints w2)" using t e(1) w1 by (auto simp: endpoints_taken_def)
  show "map vm_face (db_vms w2) = map vm_face (db_vms w)" using t w1 by (simp add: endpoints_taken_def)
  have "inj_on ep_container_name (set (db_endpoints w))" using rows(3) by (simp add: distinct_map)
  then have "ep_container_name e \<notin> ep_container_name ` set eps" using e by (auto simp: eps dest: inj_onD)
  then show "(u, ep_container_name e) \<in> live (pgdb.more w2)" if "(u, ep_container_name e) \<in> live (pgdb.more w)"
    using endpoints_taken_live [OF t, of u "ep_container_name e"] that w1 by auto
  let ?i = "ep_vm_instance_id e"
  have "rows_among ?i (filter (idle_endpoint p w) (db_endpoints w)) < rows_among ?i (db_endpoints w)"
    using e by (rule rows_among_other)
  then have "rows_among ?i eps < rows_among ?i (db_endpoints w)" by (simp only: listed rows_among_sort)
  moreover have "rows_among ?i (db_endpoints w) \<le> vm_count w ?i" using rows(2) by (simp add: counted_def)
  moreover have "vm_count w ?i - rows_among ?i eps \<le> vm_count w2 ?i"
    using endpoints_taken_count [OF t, of ?i] w1 by (simp add: vm_count_def)
  ultimately show "0 < vm_count w2 ?i" by simp
qed

text \<open>The second loop: a machine whose counter is positive is not listed, and no other machine has its address.\<close>

lemma machine_pass_spares:
  assumes del: "deletion_contract p live addr" and ok: "machines_named addr w" and inj: "inj addr"
    and faces: "map vm_face (db_vms w2) = map vm_face (db_vms w)"
    and v: "v \<in> set (db_vms w)" "vm_internal_ip v \<noteq> []" "0 < vm_count w2 (vm_id v)"
    and 3: "ListIdleVMInstances t w2 = (Inr vms, w3)" and 4: "cleanup_vms p vms w3 = (r, w')"
  shows "db_endpoints w' = db_endpoints w2" and "\<exists>v' \<in> set (db_vms w'). vm_face v' = vm_face v"
    and "(cm_url p (vm_internal_ip v), c) \<in> live (pgdb.more w2) \<Longrightarrow>
      (cm_url p (vm_internal_ip v), c) \<in> live (pgdb.more w')"
proof -
  have w3: "db_vms w3 = db_vms w2" "db_endpoints w3 = db_endpoints w2" "pgdb.more w3 = pgdb.more w2"
    using 3 read_vm_keeps(4-6) [of t w2] by simp_all
  note k = cleanup_vms_taken [OF del 4]
  note idle = listed_machines [OF 3]
  show "db_endpoints w' = db_endpoints w2" using k w3 by simp
  obtain v2 where v2: "v2 \<in> set (db_vms w2)" "vm_face v2 = vm_face v"
    using face_member [OF faces [symmetric] v(1)] by auto
  have ids: "distinct (map vm_id (db_vms w2))"
  proof -
    have "map vm_id (db_vms w2) = map fst (map vm_face (db_vms w2))" by (simp add: vm_face_def)
    also have "\<dots> = map vm_id (db_vms w)" unfolding faces by (simp add: vm_face_def)
    finally show ?thesis using ok by (simp add: machines_named_def)
  qed
  have kept: "vm_id v \<noteq> vm_id x" if x: "x \<in> set vms" for x
  proof
    assume "vm_id v = vm_id x"
    then have "vm_count w2 (vm_id v) = 0"
      using find_vm [OF ids idle(1) [OF x]] idle(2) [OF x] by (simp add: vm_count_def)
    with v(3) show False by simp
  qed
  then have "vm_id v2 \<notin> vm_id ` set vms" using v2(2) by (auto simp: vm_face_def)
  then have "v2 \<in> set (db_vms w')" using k v2(1) w3 by auto
  with v2(2) show "\<exists>v' \<in> set (db_vms w'). vm_face v' = vm_face v" by blast
  have other: "cm_url p (vm_internal_ip v) \<noteq> cm_url p (addr (vm_gce_instance_name x))" if x: "x \<in> set vms" for x
  proof
    assume "cm_url p (vm_internal_ip v) = cm_url p (addr (vm_gce_instance_name x))"
    then have name: "vm_gce_instance_name v = vm_gce_instance_name x"
      using ok v(1,2) inj by (auto simp: cm_url_inj machines_named_def inj_eq)
    obtain y where y: "y \<in> set (db_vms w)" "vm_face y = vm_face x"
      using face_member [OF faces idle(1) [OF x]] by auto
    have "inj_on vm_gce_instance_name (set (db_vms w))" using ok by (simp add: machines_named_def distinct_map)
    moreover have "vm_gce_instance_name y = vm_gce_instance_name v" using y(2) name by (simp add: vm_face_def)
    ultimately have "y = v" using y(1) v(1) by (rule inj_onD)
    with y(2) kept [OF x] show False by (simp add: vm_face_def)
  qed
  show "(cm_url p (vm_internal_ip v), c) \<in> live (pgdb.more w')"
    if "(cm_url p (vm_internal_ip v), c) \<in> live (pgdb.more w2)"
  proof -
    from k that have "(cm_url p (vm_internal_ip v), c) \<in> live (pgdb.more w') \<or>
        (\<exists>x \<in> set vms. cm_url p (vm_internal_ip v) = cm_url p (addr (vm_gce_instance_name x)))"
      unfolding w3 by blast
    with other show ?thesis by blast
  qed
qed

lemma CleanupOrphans_cases:
  assumes "CleanupOrphans p w = (r, w')"
  obtains (unlisted) err where "ListIdleSessionEndpoints (gc_IdleTimeout (gp_config p)) w = (Inl err, w')" "is_err r"
  | (half) eps w1 where "ListIdleSessionEndpoints (gc_IdleTimeout (gp_config p)) w = (Inr eps, w1)"
      "\<exists>w2 q. cleanup_endpoints p eps w1 = (q, w2) \<and>
        (w' = w2 \<or> w' = snd (ListIdleVMInstances (gc_IdleTimeout (gp_config p)) w2))" "is_err r"
  | (passed) eps w1 w2 vms w3 where "ListIdleSessionEndpoints (gc_IdleTimeout (gp_config p)) w = (Inr eps, w1)"
      "cleanup_endpoints p eps w1 = (Inr (), w2)"
      "ListIdleVMInstances (gc_IdleTimeout (gp_config p)) w2 = (Inr vms, w3)" "cleanup_vms p vms w3 = (r, w')"
  using assms by (auto simp: CleanupOrphans_def split: prod.splits sum.splits)

lemma cleanup_spares:
  assumes out: "gce_outside p live" and del: "deletion_contract p live addr"
    and ok: "machines_named addr w" and inj: "inj addr" and rows: "endpoints_ok w" "counted w"
      "distinct (map ep_container_name (db_endpoints w))"
    and pos: "\<forall>v \<in> set (db_vms w). 0 \<le> vm_active_containers v"
    and run: "CleanupOrphans p w = (r, w')"
    and e: "e \<in> set (db_endpoints w)" "\<not> idle_endpoint p w e"
    and v: "v \<in> set (db_vms w)" "vm_id v = ep_vm_instance_id e" "vm_internal_ip v \<noteq> []"
  shows "e \<in> set (db_endpoints w') \<and> (\<exists>v' \<in> set (db_vms w'). vm_face v' = vm_face v) \<and>
    ((cm_url p (vm_internal_ip v), ep_container_name e) \<in> live (pgdb.more w) \<longrightarrow>
     (cm_url p (vm_internal_ip v), ep_container_name e) \<in> live (pgdb.more w'))"
  using run
proof (cases rule: CleanupOrphans_cases)
  case (unlisted err)
  with e(1) v(1) read_vm_keeps(7-9) [of "gc_IdleTimeout (gp_config p)" w] show ?thesis by auto
next
  case (half eps w1)
  then obtain w2 q where 2: "cleanup_endpoints p eps w1 = (q, w2)"
    and w': "w' = w2 \<or> w' = snd (ListIdleVMInstances (gc_IdleTimeout (gp_config p)) w2)" by blast
  note pass = endpoint_pass_spares [OF out rows pos half(1) 2 e]
  have same: "db_vms w' = db_vms w2" "db_endpoints w' = db_endpoints w2" "pgdb.more w' = pgdb.more w2"
    using w' by auto
  have "\<exists>v' \<in> set (db_vms w'). vm_face v' = vm_face v"
    unfolding same by (rule face_member [OF pass(2) [symmetric] v(1)])
  with pass(1,3) show ?thesis by (simp add: same)
next
  case (passed eps w1 w2 vms w3)
  note pass = endpoint_pass_spares [OF out rows pos passed(1,2) e]
  have "0 < vm_count w2 (vm_id v)" using pass(4) by (simp add: v(2))
  note kept = machine_pass_spares [OF del ok inj pass(2) v(1,3) this passed(3,4)]
  show ?thesis
  proof (intro conjI impI)
    show "e \<in> set (db_endpoints w')" using pass(1) by (simp only: kept(1))
  qed (use kept(2) in \<open>blast intro: kept(3) pass(3)\<close>)+
qed

text \<open>C10: whether it succeeds or fails half way, at a lost statement of the database, at Compute Engine or
  at a container-manager, a clean-up that runs with nothing else in between takes nothing that is in use.
  The tables are as the other operations keep them: ids, container names, machine names and addresses are
  distinct, the addresses are those Compute Engine gave, and each machine's counter is at least its number
  of endpoint rows. Deleting an instance takes away no container of another machine. Then an endpoint that
  is not idle when the list is made keeps its row, its machine and its container.\<close>

theorem cleanup_spares_active:
  assumes "gce_reports p there lost" and "deletion_contract p (kept_track there lost) addr"
    and "machines_named addr w" and "inj addr" and "endpoints_ok w" and "counted w"
    and "distinct (map ep_container_name (db_endpoints w))"
    and "\<forall>v \<in> set (db_vms w). 0 \<le> vm_active_containers v"
    and "CleanupOrphans p w = (r, w')"
    and "e \<in> set (db_endpoints w)" and "\<not> idle_endpoint p w e"
    and "v \<in> set (db_vms w)" and "vm_id v = ep_vm_instance_id e" and "vm_internal_ip v \<noteq> []"
  shows "e \<in> set (db_endpoints w') \<and> (\<exists>v' \<in> set (db_vms w'). vm_face v' = vm_face v) \<and>
    ((cm_url p (vm_internal_ip v), ep_container_name e) \<in> kept_track there lost (pgdb.more w) \<longrightarrow>
     (cm_url p (vm_internal_ip v), ep_container_name e) \<in> kept_track there lost (pgdb.more w'))"
  by (rule cleanup_spares [OF gce_reports_outside [OF assms(1)] assms(2-)])

lemma first_row_only: "(\<And>x. x \<in> set xs \<Longrightarrow> x = y) \<Longrightarrow> y \<in> set xs \<Longrightarrow> first_row xs = Inr y"
proof (cases xs)
  case (Cons z zs)
  moreover assume "\<And>x. x \<in> set xs \<Longrightarrow> x = y"
  ultimately have "z = y" by simp
  with Cons show ?thesis by (simp add: first_row_def)
qed (simp add: first_row_def)

lemma running_endpoint_found:
  assumes "endpoints_ok w" and "db_faults w = []" and "ep \<in> set (db_endpoints w)" and "ep_status ep = ''running''"
  shows "running_endpoint (ep_conversation_id ep) w = (Some ep, w)"
proof -
  have "inj_on ep_conversation_id (set (db_endpoints w))" using assms(1) by (simp add: endpoints_ok_def distinct_map)
  then have "first_row (filter (\<lambda>e. ep_conversation_id e = ep_conversation_id ep) (db_endpoints w)) = Inr ep"
    using assms(3) by (intro first_row_only) (auto dest: inj_onD)
  then show ?thesis
    using assms(2,4) by (simp add: running_endpoint_def GetSessionEndpointByConversationID_def pg_exec_def)
qed

text \<open>An endpoint handed to a run is not protected by that: getOrCreateEndpoint returns a running
  endpoint as it is, without touching its last activity, so that an endpoint whose last completed run
  is longer ago than the idle timeout is given to a new run and removed by the clean-up that comes
  next, while the run is under way.\<close>

theorem reused_endpoint_unprotected:
  assumes "gce_outside p live" and "deletion_contract p live addr" and "endpoints_ok w" and "db_faults w = []"
    and "\<forall>v \<in> set (db_vms w). 0 \<le> vm_active_containers v"
    and "ep \<in> set (db_endpoints w)" and "idle_endpoint p w ep"
  shows "getOrCreateEndpoint fuel p (ep_conversation_id ep) w = Some (Inr ep, w) \<and>
    (\<forall>w'. CleanupOrphans p w = (Inr (), w') \<longrightarrow> ep_id ep \<notin> ep_id ` set (db_endpoints w'))"
proof (intro conjI allI impI)
  show "getOrCreateEndpoint fuel p (ep_conversation_id ep) w = Some (Inr ep, w)"
    using running_endpoint_found [OF assms(3,4,6)] assms(7)
    by (simp add: getOrCreateEndpoint_def idle_endpoint_def)
  fix w'
  assume "CleanupOrphans p w = (Inr (), w')"
  then show "ep_id ep \<notin> ep_id ` set (db_endpoints w')"
  proof (cases rule: CleanupOrphans_cases)
    case (passed eps w1 w2 vms w3)
    have "db_vms w1 = db_vms w" using passed(1) read_vm_keeps(7) [of "gc_IdleTimeout (gp_config p)" w] by simp
    then have "\<forall>e \<in> set (db_endpoints w2). ep_id e \<notin> ep_id ` set eps"
      using cleanup_endpoints_taken [OF assms(1) passed(2)] assms(5) by simp
    moreover have "ep \<in> set eps" using assms(6,7) by (simp add: listed_endpoints [OF passed(1)])
    moreover have "db_endpoints w' = db_endpoints w2"
      using cleanup_vms_rows [OF assms(2) passed(4)] passed(3) read_vm_keeps(5) [of "gc_IdleTimeout (gp_config p)" w2]
      by simp
    ultimately show ?thesis by (force simp: image_iff)
  qed simp_all
qed

section \<open>A clean-up of two endpoints\<close>

text \<open>Two conversations on one machine: the first was last served an hour ago, the second just now.\<close>

definition env_row :: "string \<Rightarrow> string \<Rightarrow> int \<Rightarrow> int \<Rightarrow> session_endpoint" where
  "env_row i c port active =
     \<lparr>ep_id = i, ep_conversation_id = c, ep_vm_instance_id = ''v1'', ep_container_name = ''session-'' @ c,
      ep_port = port, ep_status = ''running'', ep_last_activity = active, ep_created_at = 0\<rparr>"

definition cleanup_world :: "gce_env pgdb_scheme" where
  "cleanup_world =
     (env_world [(env_vm None)\<lparr>vm_active_containers := 2\<rparr>])
       \<lparr>db_now := seconds 3600,
        db_conversations := [\<lparr>conv_id = ''c1'', conv_title = [], conv_model = ''m'', conv_system_prompt = None,
            conv_status = ''idle'', conv_created_at = 0, conv_updated_at = 0\<rparr>,
          \<lparr>conv_id = ''c2'', conv_title = [], conv_model = ''m'', conv_system_prompt = None,
            conv_status = ''idle'', conv_created_at = 0, conv_updated_at = 0\<rparr>],
        db_endpoints := [env_row ''e1'' ''c1'' 61000 0, env_row ''e2'' ''c2'' 61001 (seconds 3600)]\<rparr>"

lemma env_deletion: "deletion_contract env_provider ge_live addr"
  by (auto simp: deletion_contract_def env_gce_def)

lemma env_idle_timeout [simp]: "gc_IdleTimeout (gp_config env_provider) = seconds 900"
  by (simp add: env_provider_def NewDockerGCEProvider_def Let_def env_config_def gce_config_defaults_def
      or_default_def seconds_def)

lemma cleanup_world_rows:
  "db_endpoints cleanup_world = [env_row ''e1'' ''c1'' 61000 0, env_row ''e2'' ''c2'' 61001 (seconds 3600)]"
  "db_vms cleanup_world = [(env_vm None)\<lparr>vm_active_containers := 2\<rparr>]" "db_faults cleanup_world = []"
  "db_now cleanup_world = seconds 3600"
  by (simp_all add: cleanup_world_def env_world_def)

lemma cleanup_world_ok:
  "endpoints_ok cleanup_world" "machines_ok env_addr cleanup_world" "counted cleanup_world"
  "distinct (map ep_container_name (db_endpoints cleanup_world))"
  "\<forall>v \<in> set (db_vms cleanup_world). 0 \<le> vm_active_containers v"
  by (simp_all add: endpoints_ok_def machines_ok_def counted_def cleanup_world_def env_world_def env_row_def env_vm_def
      env_addr_def vm_count_def vm_statuses_def)

text \<open>While the database answers, a clean-up of this world succeeds.\<close>

lemma env_release_faults: "db_faults w = [] \<Longrightarrow> db_faults (release_container env_provider ep w) = []"
  by (auto simp: release_container_def GetVMInstance_def discard_agent_def env_manager_def Let_def
      split: sum.split)

lemma env_cleanup_endpoints:
  "db_faults w = [] \<Longrightarrow> \<exists>w'. cleanup_endpoints env_provider eps w = (Inr (), w') \<and> db_faults w' = []"
proof (induction eps arbitrary: w)
  case (Cons ep eps)
  from env_release_faults [OF Cons.prems, of ep] Cons.IH show ?case
    by (simp add: DecrementVMActiveContainers_def DeleteSessionEndpoint_def)
qed simp

lemma env_cleanup: "\<exists>w'. CleanupOrphans env_provider cleanup_world = (Inr (), w')"
proof -
  let ?t = "gc_IdleTimeout (gp_config env_provider)"
  obtain eps where 1: "ListIdleSessionEndpoints ?t cleanup_world = (Inr eps, cleanup_world)"
    by (simp add: ListIdleSessionEndpoints_def cleanup_world_rows)
  obtain w2 where 2: "cleanup_endpoints env_provider eps cleanup_world = (Inr (), w2)" "db_faults w2 = []"
    using env_cleanup_endpoints [OF cleanup_world_rows(3)] by blast
  note pass = endpoint_pass_spares [OF env_outside cleanup_world_ok(1,3,4,5) 1 2(1),
      of "env_row ''e2'' ''c2'' 61001 (seconds 3600)"]
  have "map vm_face (db_vms w2) = map vm_face (db_vms cleanup_world)"
    by (rule pass(2)) (simp_all add: cleanup_world_rows idle_endpoint_def env_row_def seconds_def)
  then obtain x where x: "db_vms w2 = [x]" "vm_id x = ''v1''"
    by (auto simp: cleanup_world_rows vm_face_def env_vm_def)
  have "0 < vm_count w2 (ep_vm_instance_id (env_row ''e2'' ''c2'' 61001 (seconds 3600)))"
    by (rule pass(4)) (simp_all add: cleanup_world_rows idle_endpoint_def env_row_def seconds_def)
  then have "vm_active_containers x \<noteq> 0" using x by (simp add: vm_count_def env_row_def)
  then have "ListIdleVMInstances ?t w2 = (Inr [], w2)" using 2(2) x by (simp add: ListIdleVMInstances_def)
  with 1 2(1) show ?thesis by (simp add: CleanupOrphans_def del: env_idle_timeout)
qed

text \<open>The same world when the connection is lost at the second statement of the clean-up.\<close>

definition interrupted_world :: "gce_env pgdb_scheme" where
  "interrupted_world = cleanup_world\<lparr>db_faults := [None, Some (ErrText ''connection lost'')]\<rparr>"

lemma interrupted_world_ok:
  "endpoints_ok interrupted_world" "machines_named env_addr interrupted_world" "counted interrupted_world"
  using cleanup_world_ok(1-3)
  by (simp_all add: interrupted_world_def endpoints_ok_def machines_ok_def machines_named_def counted_def vm_count_def)

theorem cleanup_spares_active_witness:
  "\<exists>r w'. CleanupOrphans env_provider interrupted_world = (r, w') \<and>
     env_row ''e2'' ''c2'' 61001 (seconds 3600) \<in> set (db_endpoints w')"
proof -
  obtain r w' where run: "CleanupOrphans env_provider interrupted_world = (r, w')"
    by (cases "CleanupOrphans env_provider interrupted_world")
  have del: "deletion_contract env_provider (kept_track ge_live (\<lambda>z. {})) env_addr"
    using env_deletion by (simp add: kept_track_def [abs_def])
  have "env_row ''e2'' ''c2'' 61001 (seconds 3600) \<in> set (db_endpoints w')"
    using cleanup_spares_active [OF env_reports del interrupted_world_ok(2) env_addr_inj interrupted_world_ok(1,3) _ _ run,
        of "env_row ''e2'' ''c2'' 61001 (seconds 3600)" "(env_vm None)\<lparr>vm_active_containers := 2\<rparr>"]
      cleanup_world_ok(4,5)
    by (simp add: interrupted_world_def cleanup_world_rows idle_endpoint_def env_row_def env_vm_def seconds_def)
  with run show ?thesis by blast
qed

theorem reused_endpoint_unprotected_witness:
  "getOrCreateEndpoint 0 env_provider ''c1'' cleanup_world = Some (Inr (env_row ''e1'' ''c1'' 61000 0), cleanup_world) \<and>
   (\<exists>w'. CleanupOrphans env_provider cleanup_world = (Inr (), w') \<and> ''e1'' \<notin> ep_id ` set (db_endpoints w'))"
proof -
  obtain w' where run: "CleanupOrphans env_provider cleanup_world = (Inr (), w')"
    using env_cleanup by blast
  have "idle_endpoint env_provider cleanup_world (env_row ''e1'' ''c1'' 61000 0)"
    by (simp add: idle_endpoint_def cleanup_world_rows env_row_def seconds_def)
  from reused_endpoint_unprotected [OF env_outside env_deletion cleanup_world_ok(1) cleanup_world_rows(3) cleanup_world_ok(5)
      _ this, of 0] run
  show ?thesis by (simp add: cleanup_world_rows) (simp add: env_row_def)
qed

end
