(* ===== verification/CleanupSteps_Props.thy ===== *)
theory CleanupSteps_Props
  imports CleanupSteps EndpointSteps_Props DockerGCE_Cleanup
begin

text \<open>
  What holds of the steps of \<^verbatim>\<open>CleanupOrphans\<close>: uninterrupted they are the operation, and whatever
  requests and conversation deletions happen in between, no endpoint row is lost from the counters of
  its machine.
\<close>

section \<open>An uninterrupted pass\<close>

lemma sweeps_to_refl: "sweeps_to p s s"
  by (simp add: sweeps_to_def)

lemma sweeps_to_step: "sweeps_to p (cleaner_step p k w) t \<Longrightarrow> sweeps_to p (k, w) t"
  unfolding sweeps_to_def by (rule converse_rtranclp_into_rtranclp) auto

lemma sweeps_to_trans: "sweeps_to p s t \<Longrightarrow> sweeps_to p t u \<Longrightarrow> sweeps_to p s u"
  unfolding sweeps_to_def by (rule rtranclp_trans)

lemma sweeps_release:
  "sweeps_to p (Reading_machine ep eps, w) (Discounting ep eps, release_container p ep w)"
proof -
  obtain q w1 where 1: "GetVMInstance (ep_vm_instance_id ep) w = (q, w1)"
    by (cases "GetVMInstance (ep_vm_instance_id ep) w")
  show ?thesis
  proof (cases "\<exists>vm dcm. q = Inr vm \<and> vm_internal_ip vm \<noteq> [] \<and> gp_newDockerClient p (cm_url p (vm_internal_ip vm)) = Inr dcm")
    case True
    then obtain vm dcm where q: "q = Inr vm" "vm_internal_ip vm \<noteq> []"
        "gp_newDockerClient p (cm_url p (vm_internal_ip vm)) = Inr dcm" by blast
    have "cleaner_step p (Reading_machine ep eps) w = (Stopping_container vm ep eps, w1)" by (simp add: 1 q)
    moreover have "release_container p ep w = discard_agent dcm (ep_container_name ep) w1"
      by (simp add: release_container_def 1 q)
    ultimately show ?thesis
      by (intro sweeps_to_step) (simp add: q sweeps_to_refl discard_agent_def sweeps_to_step)
  next
    case False
    then have "cleaner_step p (Reading_machine ep eps) w = (Discounting ep eps, w1)" "release_container p ep w = w1"
      by (auto simp: 1 release_container_def is_err_def split: sum.split)
    then show ?thesis by (intro sweeps_to_step) (simp add: sweeps_to_refl)
  qed
qed

lemma sweeps_endpoints:
  "cleanup_endpoints p eps w = (r, w') \<Longrightarrow>
    sweeps_to p (next_endpoint eps, w) (case r of Inl err \<Rightarrow> Swept (Inl err) | Inr _ \<Rightarrow> Listing_machines, w')"
proof (induction eps arbitrary: w)
  case Nil
  then show ?case by (auto simp: sweeps_to_refl)
next
  case (Cons ep eps)
  let ?w1 = "snd (DecrementVMActiveContainers (ep_vm_instance_id ep) (release_container p ep w))"
  obtain q w2 where q: "DeleteSessionEndpoint (ep_id ep) ?w1 = (q, w2)" by (cases "DeleteSessionEndpoint (ep_id ep) ?w1")
  have rest: "sweeps_to p (Deleting_row ep eps, ?w1) (case r of Inl err \<Rightarrow> Swept (Inl err) | Inr _ \<Rightarrow> Listing_machines, w')"
    using Cons q by (intro sweeps_to_step) (auto simp: sweeps_to_refl split: sum.splits)
  have "sweeps_to p (Discounting ep eps, release_container p ep w)
      (case r of Inl err \<Rightarrow> Swept (Inl err) | Inr _ \<Rightarrow> Listing_machines, w')"
    by (rule sweeps_to_step) (simp add: rest)
  then show ?case unfolding next_endpoint.simps by (rule sweeps_to_trans [OF sweeps_release])
qed

lemma sweeps_machines:
  "cleanup_vms p vms w = (r, w') \<Longrightarrow> sweeps_to p (next_machine vms, w) (Swept r, w')"
proof (induction vms arbitrary: w)
  case Nil
  then show ?case by (auto simp: sweeps_to_refl)
next
  case (Cons vm vms)
  let ?w1 = "snd (gce_DeleteInstance (gp_gce p) (gc_ProjectID (gp_config p)) (gc_Zone (gp_config p)) (vm_gce_instance_name vm) w)"
  obtain q w2 where q: "DeleteVMInstance (vm_id vm) ?w1 = (q, w2)" by (cases "DeleteVMInstance (vm_id vm) ?w1")
  have "sweeps_to p (Deleting_machine vm vms, ?w1) (Swept r, w')"
    using Cons q by (intro sweeps_to_step) (auto simp: sweeps_to_refl split: sum.splits)
  then show ?case by (intro sweeps_to_step) simp_all
qed

text \<open>C6: the steps of the clean-up are \<^verbatim>\<open>CleanupOrphans\<close>: a pass that no request interrupts ends with the
  operation's own result in the operation's own world.\<close>

theorem sweep_refines_cleanup:
  assumes "CleanupOrphans p w = (r, w')"
  shows "sweeps_to p (Listing_endpoints, w) (Swept r, w')"
proof -
  obtain q1 w1 where 1: "ListIdleSessionEndpoints (gc_IdleTimeout (gp_config p)) w = (q1, w1)"
    by (cases "ListIdleSessionEndpoints (gc_IdleTimeout (gp_config p)) w")
  show ?thesis
  proof (cases q1)
    case (Inl e)
    with assms 1 show ?thesis by (intro sweeps_to_step) (auto simp: CleanupOrphans_def sweeps_to_refl)
  next
    case (Inr eps)
    obtain q2 w2 where 2: "cleanup_endpoints p eps w1 = (q2, w2)" by (cases "cleanup_endpoints p eps w1")
    have g: "sweeps_to p (Listing_endpoints, w) (case q2 of Inl err \<Rightarrow> Swept (Inl err) | Inr _ \<Rightarrow> Listing_machines, w2)"
      by (rule sweeps_to_step) (use sweeps_endpoints [OF 2] in \<open>simp add: 1 Inr\<close>)
    have "sweeps_to p (Listing_machines, w2) (Swept r, w')" if "q2 = Inr ()"
      using assms 1 Inr 2 that sweeps_machines
      by (intro sweeps_to_step) (auto simp: CleanupOrphans_def sweeps_to_refl split: prod.splits sum.splits)
    with g assms 1 Inr 2 show ?thesis
      by (cases q2) (auto simp: CleanupOrphans_def intro: sweeps_to_trans)
  qed
qed

section \<open>What the cleaner has at hand\<close>

text \<open>The rows a pass has listed and not yet discounted; the row it has discounted and not yet deleted.\<close>

fun listed :: "cleaner \<Rightarrow> session_endpoint list" where
  "listed (Reading_machine ep eps) = ep # eps"
| "listed (Stopping_container vm ep eps) = ep # eps"
| "listed (Removing_container vm ep eps) = ep # eps"
| "listed (Discounting ep eps) = ep # eps"
| "listed (Deleting_row ep eps) = eps"
| "listed _ = []"

fun discounted :: "cleaner \<Rightarrow> session_endpoint list" where
  "discounted (Deleting_row ep eps) = [ep]"
| "discounted _ = []"

definition ids_on :: "session_endpoint list \<Rightarrow> string \<Rightarrow> string set" where
  "ids_on eps i = ep_id ` {e \<in> set eps. ep_vm_instance_id e = i}"

lemma ids_on_simps [simp]:
  "ids_on [] i = {}" "ids_on (e # eps) i = (if ep_vm_instance_id e = i then insert (ep_id e) (ids_on eps i) else ids_on eps i)"
  "ids_on (xs @ ys) i = ids_on xs i \<union> ids_on ys i"
  by (auto simp: ids_on_def)

lemma finite_ids_on [simp]: "finite (ids_on eps i)"
  by (simp add: ids_on_def)

lemma ids_on_mono: "set xs \<subseteq> set ys \<Longrightarrow> ids_on xs i \<subseteq> ids_on ys i"
  by (auto simp: ids_on_def)

lemma ids_on_ids: "ids_on eps i \<subseteq> ep_id ` set eps"
  by (auto simp: ids_on_def)

lemma next_endpoint_at_hand [simp]: "listed (next_endpoint eps) = eps" "discounted (next_endpoint eps) = []"
  by (cases eps; simp)+

lemma next_machine_at_hand [simp]: "listed (next_machine vms) = []" "discounted (next_machine vms) = []"
  by (cases vms; simp)+

definition slack :: "'z pgdb_scheme \<Rightarrow> cleaner \<Rightarrow> string \<Rightarrow> int" where
  "slack w k i = int (card (ids_on (discounted k) i \<inter> ids_on (db_endpoints w) i))"

definition weight :: "'z pgdb_scheme \<Rightarrow> cleaner \<Rightarrow> string \<Rightarrow> int" where
  "weight w k i = int (card (ids_on (db_endpoints w @ listed k) i))"

definition table_ok :: "'z pgdb_scheme \<Rightarrow> bool" where
  "table_ok w \<longleftrightarrow> distinct (map ep_id (db_endpoints w)) \<and>
     (\<forall>e \<in> set (db_endpoints w). ep_vm_instance_id e \<in> vm_ids w)"

definition cleaner_ok :: "'z pgdb_scheme \<Rightarrow> cleaner \<Rightarrow> bool" where
  "cleaner_ok w k \<longleftrightarrow> distinct (map ep_id (discounted k @ listed k)) \<and>
     (\<forall>e \<in> set (discounted k @ listed k). ep_vm_instance_id e \<in> vm_ids w)"

lemma slack_nonneg [simp]: "0 \<le> slack w k i"
  by (simp add: slack_def)

lemma slack_none [simp]: "discounted k = [] \<Longrightarrow> slack w k i = 0"
  by (simp add: slack_def)

lemma slack_Deleting_row: "slack w (Deleting_row ep eps) i \<le> (if ep_vm_instance_id ep = i then 1 else 0)"
  by (simp add: slack_def Int_insert_left)

lemma weight_no_machine:
  assumes "table_ok w" and "cleaner_ok w k" and "i \<notin> vm_ids w"
  shows "weight w k i = 0"
proof -
  have "ids_on (db_endpoints w @ listed k) i = {}"
    using assms by (auto simp: ids_on_def table_ok_def cleaner_ok_def)
  then show ?thesis by (simp add: weight_def)
qed

lemma vm_count_no_machine:
  assumes "i \<notin> vm_ids w"
  shows "vm_count w i = 0"
proof -
  have "find (\<lambda>v. vm_id v = i) (db_vms w) = None" using assms by (auto simp: vm_ids_def find_None_iff)
  then show ?thesis by (simp add: vm_count_def)
qed

text \<open>Rows that vanish make the machine lighter by at least what they take off the slack.\<close>

lemma weight_shrink:
  assumes "set (db_endpoints w') \<subseteq> set (db_endpoints w)" and "cleaner_ok w k"
  shows "weight w' k i - slack w' k i \<le> weight w k i - slack w k i"
proof -
  let ?A = "ids_on (db_endpoints w) i" and ?A' = "ids_on (db_endpoints w') i"
  let ?D = "ids_on (discounted k) i" and ?L = "ids_on (listed k) i"
  have sub: "?A' \<subseteq> ?A" by (rule ids_on_mono [OF assms(1)])
  have apart: "?D \<inter> ?L = {}"
    using assms(2) ids_on_ids [of "discounted k" i] ids_on_ids [of "listed k" i] by (auto simp: cleaner_ok_def)
  let ?gone = "?D \<inter> ?A - ?D \<inter> ?A'"
  have "card (?D \<inter> ?A) = card (?D \<inter> ?A') + card ?gone"
    using sub by (subst card_Un_disjoint [symmetric]) (auto intro: arg_cong [where f = card])
  moreover have "card (?A' \<union> ?L) + card ?gone \<le> card (?A \<union> ?L)"
    using sub apart by (subst card_Un_disjoint [symmetric]) (auto intro!: card_mono)
  ultimately show ?thesis by (simp add: weight_def slack_def)
qed

definition tending_inv :: "('z pgdb_scheme) gce_provider \<Rightarrow> ('z pgdb_scheme) serving \<times> cleaner \<Rightarrow> bool" where
  "tending_inv p = (\<lambda>(s, k).
     (\<forall>cx \<in># iv_callers s. client_ok p (snd cx)) \<and> table_ok (iv_world s) \<and> cleaner_ok (iv_world s) k \<and>
     (\<forall>i. weight (iv_world s) k i \<le>
        vm_count (iv_world s) i + pending_on (iv_callers s) i + int (count_list (iv_uncounted s) i) + slack (iv_world s) k i))"

lemma pending_nonneg [simp]: "0 \<le> pending x i"
  by (cases x) auto

lemma pending_on_nonneg [simp]: "0 \<le> pending_on M i"
  by (induction M) auto

lemma find_filter_other:
  "find (\<lambda>v. f v = i) (filter (\<lambda>v. f v \<noteq> j) xs) = (if i = j then None else find (\<lambda>v. f v = i) xs)"
  by (induction xs) auto

section \<open>Every step keeps the balance\<close>

lemma grows_step:
  assumes "grows w w'" and "table_ok w" and "cleaner_ok w k" and "vm_ids w \<subseteq> vm_ids w'"
  shows "table_ok w'" and "cleaner_ok w' k"
    and "weight w' k i \<le> weight w k i + (rows_at w' i - rows_at w i)" and "slack w k i \<le> slack w' k i"
proof -
  consider "db_endpoints w' = db_endpoints w"
    | e where "db_endpoints w' = db_endpoints w @ [e]" "ep_id e \<notin> ep_id ` set (db_endpoints w)"
        "ep_vm_instance_id e \<in> vm_ids w'"
    using assms(1) by (auto simp: grows_def)
  note new = this
  show "table_ok w'"
    using new
  proof cases
    case 1
    then show ?thesis using assms(2,4) by (auto simp: table_ok_def)
  next
    case (2 e)
    then show ?thesis using assms(2,4) by (auto simp: table_ok_def)
  qed
  show "cleaner_ok w' k" using assms(3,4) by (auto simp: cleaner_ok_def)
  have rows: "set (db_endpoints w) \<subseteq> set (db_endpoints w')" using assms(1) by (auto simp: grows_def)
  show "slack w k i \<le> slack w' k i"
    unfolding slack_def using ids_on_mono [OF rows, of i] by (auto intro!: card_mono)
  show "weight w' k i \<le> weight w k i + (rows_at w' i - rows_at w i)"
    using new
  proof cases
    case 1
    then show ?thesis by (simp add: weight_def rows_at_def)
  next
    case (2 e)
    then show ?thesis by (auto simp: weight_def rows_at_def card_insert_if)
  qed
qed

lemma update_where_none: "\<forall>x \<in> set xs. \<not> P x \<Longrightarrow> update_where P f xs = xs"
  by (induction xs) (auto simp: update_where_def)

lemma increment_no_machine:
  assumes "v \<notin> vm_ids w"
  shows "vm_count (snd (IncrementVMActiveContainers v w)) i = vm_count w i"
proof -
  have "update_where (\<lambda>u. vm_id u = v) f (db_vms w) = db_vms w" for f
    using assms by (intro update_where_none) (auto simp: vm_ids_def)
  then show ?thesis
    by (simp add: IncrementVMActiveContainers_def pg_exec_def vm_count_def split: list.split option.split)
qed

lemma caller_keeps_balance:
  assumes out: "gce_outside p live" and step: "caller_step p c x w = (y, w')" and x: "client_ok p x"
    and t: "table_ok w" and k: "cleaner_ok w k" and n: "0 \<le> n"
    and bal: "weight w k i \<le> vm_count w i + (pending x i + n) + slack w k i"
  shows "client_ok p y" and "table_ok w'" and "cleaner_ok w' k"
    and "weight w' k i \<le> vm_count w' i + (pending y i + n) + int (count_list (uncounted_by x y) i) + slack w' k i"
proof -
  have "client_ok p y \<and> table_ok w' \<and> cleaner_ok w' k \<and>
    weight w' k i \<le> vm_count w' i + (pending y i + n) + int (count_list (uncounted_by x y) i) + slack w' k i"
  proof (cases "row_on x \<subseteq> vm_ids w")
    case True
    note ok = caller_step_ok [OF out step x True]
    then have g: "grows w w'" "vm_ids w \<subseteq> vm_ids w'" "client_ok p y" by (simp_all add: step_ok_def)
    have "vm_count w' i + pending y i + int (count_list (uncounted_by x y) i) - rows_at w' i =
        vm_count w i + pending x i - rows_at w i"
      using ok by (simp add: step_ok_def)
    with bal grows_step(3,4) [OF g(1) t k g(2), of i] grows_step(1,2) [OF g(1) t k g(2)] g(3)
    show ?thesis by linarith
  next
    case False
    then obtain v ep where v: "x = Row_made v ep" "v \<notin> vm_ids w" by (cases x) auto
    obtain q w1 where q: "IncrementVMActiveContainers v w = (q, w1)" by (cases "IncrementVMActiveContainers v w")
    have w1: "vm_ids w1 = vm_ids w" "db_endpoints w1 = db_endpoints w"
      using vm_ids_statements(3) [of v w] vm_writes_keep(7) [of v w] q by simp_all
    have cnt: "vm_count w1 i = vm_count w i" using increment_no_machine [OF v(2)] q by simp
    obtain r where y: "y = Finished r" "w' = w1" using step v(1) q by (cases q) auto
    have same: "table_ok w'" "cleaner_ok w' k" "weight w' k i = weight w k i" "slack w' k i = slack w k i"
      using t k w1 y(2) by (simp_all add: table_ok_def cleaner_ok_def weight_def slack_def)
    have "weight w' k i \<le> vm_count w' i + (pending y i + n) + int (count_list (uncounted_by x y) i) + slack w' k i"
    proof (cases "i = v")
      case True
      with weight_no_machine [OF t k v(2)] vm_count_no_machine [OF v(2)] same n cnt y(2) show ?thesis by simp
    next
      case False
      with bal same cnt y v(1) show ?thesis by simp
    qed
    with same y(1) show ?thesis by (simp add: caller_sets)
  qed
  then show "client_ok p y" and "table_ok w'" and "cleaner_ok w' k"
    and "weight w' k i \<le> vm_count w' i + (pending y i + n) + int (count_list (uncounted_by x y) i) + slack w' k i"
    by blast+
qed

text \<open>A step of the cleaner that leaves the two tables alone, and what it has at hand.\<close>

lemma cleaner_same:
  assumes "db_vms w' = db_vms w" and "db_endpoints w' = db_endpoints w"
    and "listed k' = listed k" and "discounted k' = discounted k"
  shows "table_ok w' = table_ok w" and "cleaner_ok w' k' = cleaner_ok w k"
    and "weight w' k' i = weight w k i" and "slack w' k' i = slack w k i" and "vm_count w' i = vm_count w i"
  using assms by (simp_all add: table_ok_def cleaner_ok_def weight_def slack_def vm_count_def vm_ids_def)

definition clean_ok :: "'z pgdb_scheme \<Rightarrow> cleaner \<Rightarrow> 'z pgdb_scheme \<Rightarrow> cleaner \<Rightarrow> bool" where
  "clean_ok w k w' k' \<longleftrightarrow> table_ok w' \<and> cleaner_ok w' k' \<and>
     (\<forall>i n. 0 \<le> n \<longrightarrow> weight w k i \<le> vm_count w i + n + slack w k i \<longrightarrow>
        weight w' k' i \<le> vm_count w' i + n + int (count_list (discounted_by k k') i) + slack w' k' i)"

lemma clean_ok_lighter:
  assumes "table_ok w'" and "cleaner_ok w' k'" and "db_vms w' = db_vms w"
    and "\<And>i. weight w' k' i \<le> weight w k i - slack w k i + int (count_list (discounted_by k k') i) + slack w' k' i"
  shows "clean_ok w k w' k'"
proof -
  have "weight w' k' i \<le> vm_count w' i + n + int (count_list (discounted_by k k') i) + slack w' k' i"
    if "weight w k i \<le> vm_count w i + n + slack w k i" for i n
    using that assms(4) [of i] vm_count_cong [OF assms(3), of i] by linarith
  with assms(1,2) show ?thesis by (simp add: clean_ok_def)
qed

lemma clean_ok_same:
  assumes "table_ok w" and "cleaner_ok w k" and "db_vms w' = db_vms w" and "db_endpoints w' = db_endpoints w"
    and "listed k' = listed k" and "discounted k' = discounted k"
  shows "clean_ok w k w' k'"
  using cleaner_same [OF assms(3-6)] assms(1,2) by (simp add: clean_ok_def)

lemma clean_ok_listing:
  assumes t: "table_ok w" and step: "cleaner_step p Listing_endpoints w = (k', w')"
  shows "clean_ok w Listing_endpoints w' k'"
proof -
  obtain q w1 where q: "ListIdleSessionEndpoints (gc_IdleTimeout (gp_config p)) w = (q, w1)"
    by (cases "ListIdleSessionEndpoints (gc_IdleTimeout (gp_config p)) w")
  have w1: "db_vms w1 = db_vms w" "db_endpoints w1 = db_endpoints w"
    using q read_vm_keeps(7,8) [of "gc_IdleTimeout (gp_config p)" w] by simp_all
  show ?thesis
  proof (cases q)
    case (Inl e)
    then show ?thesis using step q w1 t by (auto intro!: clean_ok_same simp: cleaner_ok_def)
  next
    case (Inr eps)
    then have k: "k' = next_endpoint eps" "w' = w1" using step q by auto
    have sub: "set eps \<subseteq> set (db_endpoints w)" and "distinct (map ep_id eps)"
      using t by (auto simp: listed_endpoints [OF q [unfolded Inr]] table_ok_def distinct_map intro: inj_on_subset)
    then have "cleaner_ok w' k'" using t w1 by (auto simp: cleaner_ok_def table_ok_def k vm_ids_def)
    moreover have "weight w' k' i = weight w Listing_endpoints i" for i
      using ids_on_mono [OF sub, of i] by (simp add: weight_def k w1 Un_absorb2)
    ultimately show ?thesis using t w1 by (simp add: clean_ok_def k table_ok_def vm_ids_def vm_count_def)
  qed
qed

lemma clean_ok_discounting:
  assumes t: "table_ok w" and c: "cleaner_ok w (Discounting ep eps)"
    and step: "cleaner_step p (Discounting ep eps) w = (k', w')"
  shows "clean_ok w (Discounting ep eps) w' k'"
proof -
  have k: "k' = Deleting_row ep eps" "w' = snd (DecrementVMActiveContainers (ep_vm_instance_id ep) w)"
    using step by simp_all
  have "db_endpoints w' = db_endpoints w" by (simp add: k)
  moreover have "set (map vm_face (db_vms w')) = set (map vm_face (db_vms w))"
    by (simp only: k decrement_keeps)
  moreover have "vm_ids d = fst ` set (map vm_face (db_vms d))" for d :: "'a pgdb_scheme"
    by (simp add: vm_ids_def vm_face_def image_image)
  ultimately have same: "db_endpoints w' = db_endpoints w" "vm_ids w' = vm_ids w" by (simp_all only:)
  have count: "vm_count w i - (if i = ep_vm_instance_id ep then 1 else 0) \<le> vm_count w' i" for i
    unfolding k(2) by (rule decrement_count)
  have w: "weight w (Discounting ep eps) i + slack w' k' i =
      weight w' k' i + (if i = ep_vm_instance_id ep then 1 else 0)" for i
  proof -
    have "ep_id ep \<notin> ids_on eps j" for j using c ids_on_ids [of eps j] by (auto simp: cleaner_ok_def)
    then show ?thesis by (auto simp: weight_def slack_def k(1) same(1) card_insert_if)
  qed
  have "weight w' k' i \<le> vm_count w' i + n + slack w' k' i"
    if "weight w (Discounting ep eps) i \<le> vm_count w i + n" for i n
    using that w [of i] count [of i] by (auto split: if_splits)
  then show ?thesis using t c same by (auto simp: clean_ok_def table_ok_def cleaner_ok_def k(1) discounted_by_def)
qed

lemma clean_ok_deleting_row:
  assumes t: "table_ok w" and c: "cleaner_ok w (Deleting_row ep eps)"
    and step: "cleaner_step p (Deleting_row ep eps) w = (k', w')"
  shows "clean_ok w (Deleting_row ep eps) w' k'"
proof -
  let ?k = "Deleting_row ep eps"
  obtain q w1 where q: "DeleteSessionEndpoint (ep_id ep) w = (q, w1)" by (cases "DeleteSessionEndpoint (ep_id ep) w")
  note d = delete_endpoint [OF q]
  show ?thesis
  proof (cases q)
    case (Inl e)
    then have k: "k' = Swept (Inl (errorf (''delete session endpoint '' @ ep_id ep) e))" "w' = w1"
      using step q by simp_all
    have same: "db_vms w' = db_vms w" "db_endpoints w' = db_endpoints w" using d Inl k(2) by simp_all
    have "weight w' k' i \<le> weight w ?k i" for i
      by (auto simp: weight_def k(1) same intro!: card_mono)
    moreover have "slack w ?k i \<le> int (count_list (discounted_by ?k k') i)" for i
      using card_mono [of "{ep_id ep}" "{ep_id ep} \<inter> ids_on (db_endpoints w) i"]
      by (simp add: slack_def discounted_by_def k(1))
    ultimately have "weight w' k' i \<le> weight w ?k i - slack w ?k i + int (count_list (discounted_by ?k k') i) + slack w' k' i"
      for i
      using slack_nonneg [of w' k' i] by (smt (verit))
    then show ?thesis using t same
      by (intro clean_ok_lighter) (auto simp: table_ok_def cleaner_ok_def vm_ids_def k(1))
  next
    case (Inr u)
    then have k: "k' = next_endpoint eps" "w' = w1" using step q by simp_all
    have same: "db_vms w' = db_vms w" and rows: "db_endpoints w' = filter (\<lambda>e. ep_id e \<noteq> ep_id ep) (db_endpoints w)"
      using d Inr k(2) by simp_all
    have "ep_id ep \<notin> ids_on (db_endpoints w') i" for i by (auto simp: rows ids_on_def)
    then have "slack w' ?k i = 0" for i by (simp add: slack_def)
    then have "weight w' k' i \<le> weight w ?k i - slack w ?k i + int (count_list (discounted_by ?k k') i) + slack w' k' i"
      for i
      using weight_shrink [OF _ c, of w' i] slack_nonneg [of w' k' i] rows by (simp add: weight_def k(1))
    moreover have "table_ok w'" using t by (auto simp: table_ok_def rows same vm_ids_def distinct_map_filter)
    ultimately show ?thesis using c same
      by (intro clean_ok_lighter) (simp_all add: cleaner_ok_def vm_ids_def k(1))
  qed
qed

lemma clean_ok_deleting_machine:
  assumes t: "table_ok w" and step: "cleaner_step p (Deleting_machine vm vms) w = (k', w')"
  shows "clean_ok w (Deleting_machine vm vms) w' k'"
proof -
  let ?k = "Deleting_machine vm vms"
  obtain q w1 where q: "DeleteVMInstance (vm_id vm) w = (q, w1)" by (cases "DeleteVMInstance (vm_id vm) w")
  have k: "listed k' = []" "discounted k' = []" "w' = w1" "discounted_by ?k k' = []"
    using step q by (cases q; auto simp: discounted_by_def)+
  show ?thesis
  proof (cases "db_vms w1 = db_vms w")
    case True
    with t k delete_vm [OF q] show ?thesis by (intro clean_ok_same) (simp_all add: cleaner_ok_def)
  next
    case False
    then have gone: "db_vms w' = filter (\<lambda>v. vm_id v \<noteq> vm_id vm) (db_vms w)" "db_endpoints w' = db_endpoints w"
      using delete_vm [OF q] k(3) by simp_all
    have free: "vm_id vm \<notin> ep_vm_instance_id ` set (db_endpoints w)"
      using q False t
      by (auto simp: DeleteVMInstance_def pg_exec_def table_ok_def vm_ids_def split: list.splits option.splits if_splits)
    have count: "vm_count w' i = (if i = vm_id vm then 0 else vm_count w i)" for i
      by (simp add: vm_count_def gone(1) find_filter_other)
    have "ids_on (db_endpoints w) (vm_id vm) = {}" using free by (force simp: ids_on_def)
    then have "weight w' k' i = (if i = vm_id vm then 0 else weight w ?k i)" for i
      by (simp add: weight_def k(1) gone(2))
    moreover have "table_ok w'" using t free by (force simp: table_ok_def gone vm_ids_def)
    ultimately show ?thesis by (simp add: clean_ok_def cleaner_ok_def k(1,2,4) count)
  qed
qed

lemma cleaner_step_ok:
  assumes out: "gce_outside p live" and del: "deletion_contract p live addr"
    and t: "table_ok w" and c: "cleaner_ok w k" and step: "cleaner_step p k w = (k', w')"
  shows "clean_ok w k w' k'"
proof (cases k)
  case (Reading_machine ep eps)
  obtain q w1 where q: "GetVMInstance (ep_vm_instance_id ep) w = (q, w1)" by (cases "GetVMInstance (ep_vm_instance_id ep) w")
  have "db_vms w1 = db_vms w" "db_endpoints w1 = db_endpoints w"
    using q read_vm_keeps(1,2) [of "ep_vm_instance_id ep" w] by simp_all
  with t c step Reading_machine q show ?thesis
    by (intro clean_ok_same) (auto split: sum.splits if_splits)
next
  case (Stopping_container vm ep eps)
  show ?thesis
  proof (cases "gp_newDockerClient p (cm_url p (vm_internal_ip vm))")
    case (Inr dcm)
    have "quiet live w (snd (cm_StopContainer dcm (ep_container_name ep) w))"
      by (rule gce_outsideD(6) [OF out Inr])
    with t c step Stopping_container Inr show ?thesis
      by (intro clean_ok_same) (auto simp: quiet_def)
  qed (use t c step Stopping_container in \<open>auto intro!: clean_ok_same\<close>)
next
  case (Removing_container vm ep eps)
  show ?thesis
  proof (cases "gp_newDockerClient p (cm_url p (vm_internal_ip vm))")
    case (Inr dcm)
    have "db_vms (snd (cm_RemoveContainer dcm (ep_container_name ep) w)) = db_vms w \<and>
        db_endpoints (snd (cm_RemoveContainer dcm (ep_container_name ep) w)) = db_endpoints w"
      using manager_contract_Remove(1,2) [OF gce_outsideD(4) [OF out Inr]] by simp
    with t c step Removing_container Inr show ?thesis by (intro clean_ok_same) auto
  qed (use t c step Removing_container in \<open>auto intro!: clean_ok_same\<close>)
next
  case Listing_machines
  obtain q w1 where q: "ListIdleVMInstances (gc_IdleTimeout (gp_config p)) w = (q, w1)"
    by (cases "ListIdleVMInstances (gc_IdleTimeout (gp_config p)) w")
  have "db_vms w1 = db_vms w" "db_endpoints w1 = db_endpoints w"
    using q read_vm_keeps(4,5) [of "gc_IdleTimeout (gp_config p)" w] by simp_all
  with t c step Listing_machines q show ?thesis by (intro clean_ok_same) (auto split: sum.splits)
next
  case (Deleting_instance vm vms)
  obtain r w1 where g: "gce_DeleteInstance (gp_gce p) (gc_ProjectID (gp_config p)) (gc_Zone (gp_config p))
      (vm_gce_instance_name vm) w = (r, w1)"
    by (cases "gce_DeleteInstance (gp_gce p) (gc_ProjectID (gp_config p)) (gc_Zone (gp_config p)) (vm_gce_instance_name vm) w")
  with del have "db_vms w1 = db_vms w" "db_endpoints w1 = db_endpoints w"
    unfolding deletion_contract_def by blast+
  with t c step Deleting_instance g show ?thesis by (intro clean_ok_same) auto
qed (use t c step in \<open>auto intro: clean_ok_listing clean_ok_discounting clean_ok_deleting_row clean_ok_deleting_machine
      clean_ok_same\<close>)

section \<open>Any interleaving\<close>

lemma rows_are_ids:
  assumes "table_ok w"
  shows "rows_among i (db_endpoints w) = int (card (ids_on (db_endpoints w) i))"
proof -
  have "inj_on ep_id {e \<in> set (db_endpoints w). ep_vm_instance_id e = i}"
    using assms by (auto simp: table_ok_def distinct_map inj_on_def)
  then have "card (ids_on (db_endpoints w) i) = card (set (filter (\<lambda>e. ep_vm_instance_id e = i) (db_endpoints w)))"
    by (simp add: ids_on_def card_image)
  also have "\<dots> = length (filter (\<lambda>e. ep_vm_instance_id e = i) (db_endpoints w))"
    using assms by (intro distinct_card) (auto simp: table_ok_def distinct_map)
  finally show ?thesis by (simp add: rows_among_def)
qed

lemma tending_inv_start:
  assumes "table_ok w" and "counted w"
  shows "tending_inv p (idle_at w, Between_passes)"
proof -
  have "weight w Between_passes i = rows_among i (db_endpoints w)" for i
    by (simp add: weight_def rows_are_ids [OF assms(1)])
  with assms show ?thesis by (simp add: tending_inv_def idle_at_def cleaner_ok_def counted_def)
qed

lemma tending_inv_serve:
  assumes out: "gce_outside p live" and inv: "tending_inv p (s, k)" and step: "serve_step p live s s'"
  shows "tending_inv p (s', k)"
  using step
proof (cases rule: serve_step.cases)
  case (move c x others y w')
  have x: "client_ok p x" and t: "table_ok (iv_world s)" and k: "cleaner_ok (iv_world s) k"
    and others: "\<forall>cx \<in># others. client_ok p (snd cx)"
    using inv move(2) by (auto simp: tending_inv_def)
  have n: "0 \<le> pending_on others i + int (count_list (iv_uncounted s) i)" for i
    using pending_on_nonneg [of others i] by simp
  have "weight (iv_world s) k i \<le> vm_count (iv_world s) i +
      (pending x i + (pending_on others i + int (count_list (iv_uncounted s) i))) + slack (iv_world s) k i" for i
    using inv move(2) by (simp add: tending_inv_def add.assoc)
  note keeps = caller_keeps_balance [OF out move(3) x t k n this]
  have "weight w' k i \<le> vm_count w' i + pending_on (add_mset (c, y) others) i +
      int (count_list (uncounted_by x y @ iv_uncounted s) i) + slack w' k i" for i
    using keeps(4) [of i] by simp
  with keeps(1-3) others show ?thesis unfolding move(1) by (simp add: tending_inv_def)
next
  case (elsewhere w')
  then have "vm_ids w' = vm_ids (iv_world s)" "\<And>i. vm_count w' i = vm_count (iv_world s) i"
    by (simp_all add: vm_ids_def vm_count_def)
  with elsewhere inv show ?thesis
    by (simp add: tending_inv_def table_ok_def cleaner_ok_def weight_def slack_def)
qed (use inv in \<open>auto simp: tending_inv_def caller_sets\<close>)

lemma tending_inv_step:
  assumes out: "gce_outside p live" and del: "deletion_contract p live addr" and inv: "tending_inv p S"
    and step: "tend_step p live S S'"
  shows "tending_inv p S'"
  using step
proof (cases rule: tend_step.cases)
  case (serve s s' k)
  with tending_inv_serve [OF out _ serve(3)] inv show ?thesis by simp
next
  case (wake k r s)
  have "weight (iv_world s) Listing_endpoints i = weight (iv_world s) k i" for i
    using wake(3) by (auto simp: weight_def)
  with inv wake show ?thesis by (auto simp: tending_inv_def cleaner_ok_def)
next
  case (sweep k s k' w')
  have "clean_ok (iv_world s) k w' k'"
    using inv sweep(1,3) by (intro cleaner_step_ok [OF out del]) (auto simp: tending_inv_def)
  then have ok: "table_ok w'" "cleaner_ok w' k'"
    "\<And>i n. 0 \<le> n \<Longrightarrow> weight (iv_world s) k i \<le> vm_count (iv_world s) i + n + slack (iv_world s) k i \<Longrightarrow>
        weight w' k' i \<le> vm_count w' i + n + int (count_list (discounted_by k k') i) + slack w' k' i"
    by (auto simp: clean_ok_def)
  have "weight w' k' i \<le> vm_count w' i + pending_on (iv_callers s) i +
      int (count_list (discounted_by k k' @ iv_uncounted s) i) + slack w' k' i" for i
  proof -
    let ?n = "pending_on (iv_callers s) i + int (count_list (iv_uncounted s) i)"
    have "weight (iv_world s) k i \<le> vm_count (iv_world s) i + ?n + slack (iv_world s) k i"
      using inv sweep(1) by (simp add: tending_inv_def add.assoc)
    from ok(3) [OF _ this] show ?thesis by simp
  qed
  with ok(1,2) inv sweep(1,2) show ?thesis by (simp add: tending_inv_def)
next
  case (drop c s r w' k)
  have d: "db_vms w' = db_vms (iv_world s)" "set (db_endpoints w') \<subseteq> set (db_endpoints (iv_world s))"
      "table_ok (iv_world s) \<Longrightarrow> table_ok w'"
    using drop(3)
    by (auto simp: DeleteConversation_def pg_exec_def table_ok_def vm_ids_def distinct_map_filter
        split: list.splits option.splits)
  have c: "cleaner_ok (iv_world s) k" using inv drop(1) by (simp add: tending_inv_def)
  have "weight w' k i \<le> vm_count w' i + pending_on (iv_callers s) i + int (count_list (iv_uncounted s) i) + slack w' k i" for i
    using weight_shrink [OF d(2) c, of i] inv drop(1) vm_count_cong [OF d(1), of i]
    by (simp add: tending_inv_def) (smt (verit))
  with d c inv drop(1,2) show ?thesis by (simp add: tending_inv_def cleaner_ok_def vm_ids_def)
qed

lemma tending_inv_tends:
  assumes "gce_outside p live" and "deletion_contract p live addr" and "table_ok w" and "counted w"
    and "tends p live (idle_at w, Between_passes) S"
  shows "tending_inv p S"
  using assms(5) unfolding tends_def
  by (induction rule: rtranclp_induct) (auto intro: tending_inv_start assms tending_inv_step [OF assms(1,2)])

text \<open>C5: requests, the clean-up and deletions of conversations, in any order: every endpoint row stays
  counted on its machine, except for the rows of requests that are about to count them, the row the
  clean-up is deleting, and the rows whose increment, or whose deletion after the decrement, the
  database refused.\<close>

theorem counted_while_cleaning:
  assumes "gce_outside p live" and "deletion_contract p live addr" and "table_ok w" and "counted w"
    and "tends p live (idle_at w, Between_passes) (s, k)"
  shows "rows_among i (db_endpoints (iv_world s)) \<le>
    vm_count (iv_world s) i + pending_on (iv_callers s) i + int (count_list (iv_uncounted s) i) +
    (case k of Deleting_row ep eps \<Rightarrow> if ep_vm_instance_id ep = i then 1 else 0 | _ \<Rightarrow> 0)"
proof -
  have inv: "tending_inv p (s, k)" by (rule tending_inv_tends [OF assms])
  then have "table_ok (iv_world s)" by (simp add: tending_inv_def)
  then have "rows_among i (db_endpoints (iv_world s)) \<le> weight (iv_world s) k i"
    by (auto simp: rows_are_ids weight_def intro!: card_mono)
  moreover have "slack (iv_world s) k i \<le>
      (case k of Deleting_row ep eps \<Rightarrow> if ep_vm_instance_id ep = i then 1 else 0 | _ \<Rightarrow> 0)"
    using slack_Deleting_row [of "iv_world s" _ _ i] by (cases k) simp_all
  ultimately show ?thesis using inv unfolding tending_inv_def by (smt (verit) case_prod_conv)
qed

end
