(* ===== verification/EndpointSteps_Examples.thy ===== *)
theory EndpointSteps_Examples
  imports EndpointSteps_Props DockerGCE_Examples
begin

text \<open>
  Two requests side by side: runs of the steps of \<^verbatim>\<open>getOrCreateEndpoint\<close> that no single request has.
\<close>

section \<open>Letting a request move\<close>

lemma serves_trans: "serves p live s t \<Longrightarrow> serves p live t u \<Longrightarrow> serves p live s u"
  unfolding serves_def by (rule rtranclp_trans)

lemma serves_arrive:
  "c \<notin># image_mset fst M \<Longrightarrow> serves p live \<lparr>iv_callers = M, iv_world = w, iv_uncounted = u\<rparr>
    \<lparr>iv_callers = add_mset (c, Asking) M, iv_world = w, iv_uncounted = u\<rparr>"
  unfolding serves_def
  by (rule r_into_rtranclp) (use serve_step.arrive [of c "\<lparr>iv_callers = M, iv_world = w, iv_uncounted = u\<rparr>" p live] in simp)

lemma serves_move:
  assumes "caller_step p c x w = (y, w')" and "uncounted_by x y = []"
  shows "serves p live \<lparr>iv_callers = add_mset (c, x) M, iv_world = w, iv_uncounted = u\<rparr>
    \<lparr>iv_callers = add_mset (c, y) M, iv_world = w', iv_uncounted = u\<rparr>"
  unfolding serves_def
  by (rule r_into_rtranclp)
    (use serve_step.move [of "\<lparr>iv_callers = add_mset (c, x) M, iv_world = w, iv_uncounted = u\<rparr>" c x M p y w' live]
      assms in simp)

lemma serves_next:
  assumes "caller_step p c x w = (y, w')" and "uncounted_by x y = []"
    and "serves p live \<lparr>iv_callers = add_mset (c, y) M, iv_world = w', iv_uncounted = u\<rparr> s"
  shows "serves p live \<lparr>iv_callers = add_mset (c, x) M, iv_world = w, iv_uncounted = u\<rparr> s"
  using serves_move [OF assms(1,2)] assms(3) by (rule serves_trans)

lemma serves_refl: "serves p live s s"
  by (simp add: serves_def)

section \<open>More agents than a machine may have\<close>

definition conv_named :: "string \<Rightarrow> conversation" where
  "conv_named c = \<lparr>conv_id = c, conv_title = [], conv_model = ''m'', conv_system_prompt = None,
     conv_status = ''idle'', conv_created_at = 0, conv_updated_at = 0\<rparr>"

text \<open>One machine that has room for one more agent, and two conversations.\<close>

definition nearly_full_vm :: vm_instance where
  "nearly_full_vm = (env_vm None)\<lparr>vm_active_containers := 9\<rparr>"

definition two_world :: "vm_instance list \<Rightarrow> session_endpoint list \<Rightarrow> nat \<Rightarrow> (string \<times> string) set \<Rightarrow> gce_env pgdb_scheme" where
  "two_world vms eps n live =
     \<lparr>db_now = 9, db_uuids = (\<lambda>n. itoa (int n)), db_drawn = n, db_faults = [],
      db_conversations = [conv_named ''c1'', conv_named ''c2''], db_messages = [], db_vms = vms, db_endpoints = eps,
      \<dots> = \<lparr>ge_now = 0, ge_live = live, ge_seen = (\<lambda>u. []), ge_deleted = []\<rparr>\<rparr>"

abbreviation serving_two :: "caller \<Rightarrow> caller \<Rightarrow> 'w \<Rightarrow> 'w serving" where
  "serving_two x y w \<equiv> \<lparr>iv_callers = {#(''c1'', x), (''c2'', y)#}, iv_world = w, iv_uncounted = []\<rparr>"

lemma two_requests:
  "serves p live (idle_at w) (serving_two Asking Asking w)"
proof -
  have "serves p live (idle_at w) \<lparr>iv_callers = {#(''c2'', Asking)#}, iv_world = w, iv_uncounted = []\<rparr>"
    unfolding idle_at_def by (rule serves_arrive) simp
  moreover have "serves p live \<lparr>iv_callers = {#(''c2'', Asking)#}, iv_world = w, iv_uncounted = []\<rparr> (serving_two Asking Asking w)"
    by (rule serves_arrive) simp
  ultimately show ?thesis by (rule serves_trans)
qed

lemma looks_up:
  assumes "running_endpoint c w = (None, w)"
    and "GetAvailableVMInstance (gc_MaxContainers (gp_config p)) w = (Inr vm, w)"
    and "gp_newDockerClient p (cm_url p (vm_internal_ip vm)) = Inr dcm" and "cm_IsReady dcm w = (True, w)"
  shows "serves p live \<lparr>iv_callers = add_mset (c, Asking) M, iv_world = w, iv_uncounted = u\<rparr>
    \<lparr>iv_callers = add_mset (c, Placing vm 2) M, iv_world = w, iv_uncounted = u\<rparr>"
  by (rule serves_next [where y = Rechecking and w' = w], simp add: assms, simp add: uncounted_by_def,
      rule serves_next [where y = "Picking 5" and w' = w], simp add: assms, simp add: uncounted_by_def,
      rule serves_next [where y = "Checking 4 vm" and w' = w], simp add: eval_nat_numeral assms, simp add: uncounted_by_def,
      rule serves_move) (simp_all add: uncounted_by_def assms)

lemma both_look_up:
  assumes "\<And>c. running_endpoint c w = (None, w)"
    and "GetAvailableVMInstance (gc_MaxContainers (gp_config p)) w = (Inr vm, w)"
    and "gp_newDockerClient p (cm_url p (vm_internal_ip vm)) = Inr dcm" and "cm_IsReady dcm w = (True, w)"
  shows "serves p live (idle_at w) (serving_two (Placing vm 2) (Placing vm 2) w)"
proof -
  have "serves p live (serving_two Asking Asking w) (serving_two (Placing vm 2) Asking w)"
    by (rule looks_up [OF assms])
  moreover have "serves p live (serving_two (Placing vm 2) Asking w) (serving_two (Placing vm 2) (Placing vm 2) w)"
    using looks_up [OF assms, of live "''c2''" "{#(''c1'', Placing vm 2)#}"] by (simp add: add_mset_commute)
  ultimately show ?thesis using two_requests serves_trans by blast
qed

lemma two_world_nobody: "running_endpoint c (two_world vms [] n live) = (None, two_world vms [] n live)"
  by (simp add: running_endpoint_def GetSessionEndpointByConversationID_def two_world_def first_row_def)

lemma two_world_room:
  "GetAvailableVMInstance 10 (two_world [nearly_full_vm] eps n live) = (Inr nearly_full_vm, two_world [nearly_full_vm] eps n live)"
  by (simp add: GetAvailableVMInstance_def two_world_def first_row_def nearly_full_vm_def env_vm_def)

definition counted_once :: "vm_instance \<Rightarrow> vm_instance" where
  "counted_once v = v\<lparr>vm_active_containers := vm_active_containers v + 1, vm_idle_since := None\<rparr>"

lemma env_agent_once:
  "poll_once env_provider t what (probe_agent env_provider url) w = (Answered (), w)"
  by (simp add: poll_once_def probe_agent_def RC_GetAuthStatus_def send_request_def fixed_net_def
      decode_struct_def dec_struct_def)

text \<open>The way of a request from a machine to its endpoint row.\<close>

lemma takes_row:
  assumes port: "GetSmallestAvailablePortOnVM (vm_id v) 61000 61001 (two_world [v] eps n live) =
      (Inr port, two_world [v] eps n live)" "port \<noteq> 0"
    and fresh: "c \<notin> ep_conversation_id ` set eps" "itoa (int n) \<notin> ep_id ` set eps"
      "(vm_id v, port) \<notin> (\<lambda>e. (ep_vm_instance_id e, ep_port e)) ` set eps" and c: "c \<in> {''c1'', ''c2''}"
    and vm: "vm_id vm = vm_id v"
  shows "\<exists>ep live'. serves env_provider ge_live
      \<lparr>iv_callers = add_mset (c, Placing vm 2) M, iv_world = two_world [v] eps n live, iv_uncounted = u\<rparr>
      \<lparr>iv_callers = add_mset (c, Row_made (vm_id v) ep) M,
       iv_world = two_world [v] (eps @ [ep]) (Suc n) live', iv_uncounted = u\<rparr> \<and>
    ep_conversation_id ep = c \<and> ep_vm_instance_id ep = vm_id v \<and> ep_port ep = port \<and> ep_id ep = itoa (int n) \<and>
    ep_status ep = ''running'' \<and> ep_last_activity ep = 9"
proof -
  let ?w = "two_world [v] eps n live"
  obtain live1 where run: "cm_RunAgent (env_manager (cm_url env_provider (vm_internal_ip vm)))
      (agent_run_request env_provider c (vm_id vm) port) ?w = (Inr (), two_world [v] eps n live1)"
    by (simp add: env_manager_def env_map_def two_world_def)
  obtain ep where new: "CreateSessionEndpoint c (vm_id vm) (container_name env_provider c) port (two_world [v] eps n live1) =
      (Inr ep, two_world [v] (eps @ [ep]) (Suc n) live1)"
    and ep: "ep_conversation_id ep = c" "ep_vm_instance_id ep = vm_id v" "ep_port ep = port" "ep_id ep = itoa (int n)"
      "ep_status ep = ''running''" "ep_last_activity ep = 9"
    using fresh c vm
    by (auto simp: CreateSessionEndpoint_def two_world_def draw_uuid_def Let_def conv_named_def)
  let ?t = "deadline env_provider (gc_AgentReadyTimeout (gp_config env_provider)) (two_world [v] eps n live1)"
  have "serves env_provider ge_live
      \<lparr>iv_callers = add_mset (c, Placing vm 2) M, iv_world = ?w, iv_uncounted = u\<rparr>
      \<lparr>iv_callers = add_mset (c, Row_made (vm_id vm) ep) M,
       iv_world = two_world [v] (eps @ [ep]) (Suc n) live1, iv_uncounted = u\<rparr>"
    by (rule serves_next [where y = "Allotted vm 2 port" and w' = ?w], simp add: port vm, simp add: uncounted_by_def,
        rule serves_next [where y = "Agent_up vm 2 port ?t" and w' = "two_world [v] eps n live1"],
        simp add: run, simp add: uncounted_by_def,
        rule serves_next [where y = "Agent_ready vm 2 port" and w' = "two_world [v] eps n live1"],
        simp add: env_agent_once, simp add: uncounted_by_def, rule serves_move)
      (simp_all add: new uncounted_by_def)
  with ep vm show ?thesis by auto
qed

lemma takes_place:
  assumes "GetSmallestAvailablePortOnVM (vm_id v) 61000 61001 (two_world [v] eps n live) =
      (Inr port, two_world [v] eps n live)" "port \<noteq> 0"
    and "c \<notin> ep_conversation_id ` set eps" "itoa (int n) \<notin> ep_id ` set eps"
      "(vm_id v, port) \<notin> (\<lambda>e. (ep_vm_instance_id e, ep_port e)) ` set eps" and "c \<in> {''c1'', ''c2''}"
    and "vm_id vm = vm_id v"
  shows "\<exists>ep live'. serves env_provider ge_live
      \<lparr>iv_callers = add_mset (c, Placing vm 2) M, iv_world = two_world [v] eps n live, iv_uncounted = u\<rparr>
      \<lparr>iv_callers = add_mset (c, Finished (Inr ep)) M,
       iv_world = two_world [counted_once v] (eps @ [ep]) (Suc n) live', iv_uncounted = u\<rparr> \<and>
    ep_conversation_id ep = c \<and> ep_vm_instance_id ep = vm_id v \<and> ep_port ep = port \<and> ep_id ep = itoa (int n) \<and>
    ep_status ep = ''running''"
proof -
  obtain ep live1 where row: "serves env_provider ge_live
      \<lparr>iv_callers = add_mset (c, Placing vm 2) M, iv_world = two_world [v] eps n live, iv_uncounted = u\<rparr>
      \<lparr>iv_callers = add_mset (c, Row_made (vm_id v) ep) M,
       iv_world = two_world [v] (eps @ [ep]) (Suc n) live1, iv_uncounted = u\<rparr>"
    and ep: "ep_conversation_id ep = c" "ep_vm_instance_id ep = vm_id v" "ep_port ep = port" "ep_id ep = itoa (int n)"
      "ep_status ep = ''running''"
    using takes_row [OF assms, of M u] by blast
  have inc: "IncrementVMActiveContainers (vm_id v) (two_world [v] (eps @ [ep]) (Suc n) live1) =
      (Inr (), two_world [counted_once v] (eps @ [ep]) (Suc n) live1)"
    by (simp add: IncrementVMActiveContainers_def two_world_def update_where_def counted_once_def)
  have "serves env_provider ge_live
      \<lparr>iv_callers = add_mset (c, Row_made (vm_id v) ep) M,
       iv_world = two_world [v] (eps @ [ep]) (Suc n) live1, iv_uncounted = u\<rparr>
      \<lparr>iv_callers = add_mset (c, Finished (Inr ep)) M,
       iv_world = two_world [counted_once v] (eps @ [ep]) (Suc n) live1, iv_uncounted = u\<rparr>"
    by (rule serves_move) (simp_all add: inc uncounted_by_def)
  with serves_trans [OF row] ep show ?thesis by blast
qed

lemma two_world_ports:
  "GetSmallestAvailablePortOnVM ''v1'' 61000 61001 (two_world vms [] n live) = (Inr 61000, two_world vms [] n live)"
  "ep_vm_instance_id e = ''v1'' \<Longrightarrow> ep_port e = 61000 \<Longrightarrow> ep_status e = ''running'' \<Longrightarrow>
    GetSmallestAvailablePortOnVM ''v1'' 61000 61001 (two_world vms [e] n live) = (Inr 61001, two_world vms [e] n live)"
proof -
  have two: "[61000..61001] = [61000, 61001 :: int]" by (simp add: upto.simps)
  show "GetSmallestAvailablePortOnVM ''v1'' 61000 61001 (two_world vms [] n live) = (Inr 61000, two_world vms [] n live)"
    by (simp add: GetSmallestAvailablePortOnVM_def two_world_def busy_ports_def first_row_def two)
  show "GetSmallestAvailablePortOnVM ''v1'' 61000 61001 (two_world vms [e] n live) = (Inr 61001, two_world vms [e] n live)"
    if "ep_vm_instance_id e = ''v1''" "ep_port e = 61000" "ep_status e = ''running''"
  proof -
    have "busy_ports ''v1'' [e] = [61000]" using that by (simp add: busy_ports_def)
    then show ?thesis by (simp add: GetSmallestAvailablePortOnVM_def two_world_def first_row_def two)
  qed
qed

lemma two_world_count [simp]: "vm_count (two_world [v] eps n live) (vm_id v) = vm_active_containers v"
  by (simp add: vm_count_def two_world_def)

lemma last_place_taken_twice:
  "\<exists>ep1 ep2 live. serves env_provider ge_live (idle_at (two_world [nearly_full_vm] [] 0 {}))
    (serving_two (Finished (Inr ep1)) (Finished (Inr ep2))
       (two_world [counted_once (counted_once nearly_full_vm)] [ep1, ep2] 2 live)) \<and>
    ep_vm_instance_id ep1 = ''v1'' \<and> ep_vm_instance_id ep2 = ''v1''"
proof -
  let ?v = nearly_full_vm
  let ?w = "two_world [?v] [] 0 {}"
  have v: "vm_id ?v = ''v1''" "vm_active_containers ?v = 9" by (simp_all add: nearly_full_vm_def env_vm_def)
  have both: "serves env_provider ge_live (idle_at ?w) (serving_two (Placing ?v 2) (Placing ?v 2) ?w)"
    by (rule both_look_up [OF two_world_nobody, where dcm = "env_manager (cm_url env_provider (vm_internal_ip ?v))"])
      (simp_all add: two_world_room env_manager_def)
  obtain ep1 live1 where 1: "serves env_provider ge_live (serving_two (Placing ?v 2) (Placing ?v 2) ?w)
      (serving_two (Finished (Inr ep1)) (Placing ?v 2) (two_world [counted_once ?v] [ep1] 1 live1))"
    and ep1: "ep_conversation_id ep1 = ''c1''" "ep_vm_instance_id ep1 = ''v1''" "ep_port ep1 = 61000"
      "ep_id ep1 = itoa 0" "ep_status ep1 = ''running''"
    using takes_place [of ?v "[]" 0 "{}" 61000 "''c1''" ?v "{#(''c2'', Placing ?v 2)#}" "[]"] v two_world_ports(1)
    by auto
  have "itoa 1 \<noteq> itoa 0" by (auto dest: itoa_inj)
  then obtain ep2 live2 where 2: "serves env_provider ge_live
      (serving_two (Finished (Inr ep1)) (Placing ?v 2) (two_world [counted_once ?v] [ep1] 1 live1))
      (serving_two (Finished (Inr ep1)) (Finished (Inr ep2))
         (two_world [counted_once (counted_once ?v)] [ep1, ep2] 2 live2))"
    and ep2: "ep_vm_instance_id ep2 = ''v1''"
    using takes_place [of "counted_once ?v" "[ep1]" 1 live1 61001 "''c2''" ?v "{#(''c1'', Finished (Inr ep1))#}" "[]"]
      two_world_ports(2) [OF ep1(2,3,5)] v(1) ep1
    by (auto simp: add_mset_commute counted_once_def numeral_2_eq_2)
  show ?thesis
    using serves_trans [OF serves_trans [OF both 1] 2] ep1(2) ep2 by blast
qed

lemma full_counts:
  "vm_count (two_world [nearly_full_vm] eps n live) ''v1'' = 9"
  "vm_count (two_world [counted_once (counted_once nearly_full_vm)] eps n live) ''v1'' = 11"
  using two_world_count [of nearly_full_vm eps n live] two_world_count [of "counted_once (counted_once nearly_full_vm)" eps n live]
  by (simp_all add: counted_once_def nearly_full_vm_def env_vm_def)

text \<open>C37: the capacity of a machine is not enforced: the number of its agents is read when a machine is
  picked and raised when an endpoint has been recorded, so two requests that look for a machine at the
  same time both take the last place of one machine, and it ends with more agents than
  \<^verbatim>\<open>MaxContainers\<close>.\<close>

theorem capacity_exceeded:
  "\<exists>w s. vm_count w ''v1'' < gc_MaxContainers (gp_config env_provider) \<and> serves env_provider ge_live (idle_at w) s \<and>
     (\<exists>ep1 ep2. iv_callers s = {#(''c1'', Finished (Inr ep1)), (''c2'', Finished (Inr ep2))#}) \<and>
     vm_count (iv_world s) ''v1'' > gc_MaxContainers (gp_config env_provider)"
proof -
  obtain ep1 ep2 live where "serves env_provider ge_live (idle_at (two_world [nearly_full_vm] [] 0 {}))
    (serving_two (Finished (Inr ep1)) (Finished (Inr ep2))
       (two_world [counted_once (counted_once nearly_full_vm)] [ep1, ep2] 2 live))"
    using last_place_taken_twice by blast
  then show ?thesis by (intro exI conjI) (auto simp: full_counts)
qed

section \<open>Two requests, one port\<close>

text \<open>A machine whose ports can be published once, as Docker's can: \<^verbatim>\<open>RunAgent\<close> fails for a port that
  another container has.  \<open>ge_live\<close> holds the ports in use.\<close>

definition strict_manager :: "string \<Rightarrow> (gce_env pgdb_scheme) container_manager" where
  "strict_manager url = (env_manager url)\<lparr>cm_RunAgent := (\<lambda>req w.
     if (url, itoa (cr_host_port req)) \<in> ge_live (pgdb.more w)
     then (Inl (ErrText ''port is already allocated''), w)
     else (Inr (), env_map (\<lambda>z. z\<lparr>ge_live := insert (url, itoa (cr_host_port req)) (ge_live z)\<rparr>) w))\<rparr>"

definition strict_provider :: "(gce_env pgdb_scheme) gce_provider" where
  "strict_provider = env_provider\<lparr>gp_newDockerClient := (\<lambda>url. Inr (strict_manager url))\<rparr>"

lemma strict_provider_sel [simp]:
  "gp_newDockerClient strict_provider = (\<lambda>url. Inr (strict_manager url))"
  "gp_config strict_provider = gp_config env_provider"
  by (simp_all add: strict_provider_def)

text \<open>The loop that retries on a taken port does not help the loser of a race for one: two requests
  that ask for the smallest free port at the same time get the same one; the machine refuses the
  second container, and its request fails at once, although the machine has another free port - the
  retry is reached only by a refusal of the database.\<close>

theorem simultaneous_start_fails:
  "\<exists>w s err. serves strict_provider ge_live (idle_at w) s \<and> (''c2'', Finished (Inl err)) \<in># iv_callers s \<and>
     (''c1'', Agent_up nearly_full_vm 2 61000 60000000000) \<in># iv_callers s \<and>
     (cm_url strict_provider (vm_internal_ip nearly_full_vm), itoa 61001) \<notin> ge_live (pgdb.more (iv_world s))"
proof -
  let ?v = nearly_full_vm
  let ?p = strict_provider
  let ?url = "cm_url strict_provider (vm_internal_ip nearly_full_vm)"
  let ?w = "two_world [?v] [] 0 {}"
  let ?w1 = "two_world [?v] [] 0 {(?url, itoa 61000)}"
  have both: "serves ?p ge_live (idle_at ?w) (serving_two (Placing ?v 2) (Placing ?v 2) ?w)"
    by (rule both_look_up [OF two_world_nobody, where dcm = "strict_manager ?url"])
      (simp_all add: two_world_room strict_manager_def env_manager_def)
  have v: "vm_id ?v = ''v1''" by (simp add: nearly_full_vm_def env_vm_def)
  have place: "caller_step ?p c (Placing ?v 2) ?w = (Allotted ?v 2 61000, ?w)" for c
    by (simp add: v two_world_ports)
  have run1: "caller_step ?p ''c1'' (Allotted ?v 2 61000) ?w = (Agent_up ?v 2 61000 60000000000, ?w1)"
    by (simp add: strict_manager_def agent_run_request_def env_map_def two_world_def deadline_def
        env_clock_def strict_provider_def)
  obtain err where run2: "caller_step ?p ''c2'' (Allotted ?v 2 61000) ?w1 = (Finished (Inl err), ?w1)"
    by (simp add: strict_manager_def agent_run_request_def two_world_def)
  have "serves ?p ge_live (serving_two (Placing ?v 2) (Placing ?v 2) ?w) (serving_two (Allotted ?v 2 61000) (Placing ?v 2) ?w)"
    by (rule serves_move [OF place]) (simp add: uncounted_by_def)
  note 1 = serves_trans [OF both this]
  have "serves ?p ge_live (serving_two (Allotted ?v 2 61000) (Placing ?v 2) ?w) (serving_two (Allotted ?v 2 61000) (Allotted ?v 2 61000) ?w)"
    using serves_move [OF place, of ge_live "''c2''" "{#(''c1'', Allotted ?v 2 61000)#}"]
    by (simp add: uncounted_by_def add_mset_commute)
  note 2 = serves_trans [OF 1 this]
  have "serves ?p ge_live (serving_two (Allotted ?v 2 61000) (Allotted ?v 2 61000) ?w)
      (serving_two (Agent_up ?v 2 61000 60000000000) (Allotted ?v 2 61000) ?w1)"
    by (rule serves_move [OF run1]) (simp add: uncounted_by_def)
  note 3 = serves_trans [OF 2 this]
  have "serves ?p ge_live (serving_two (Agent_up ?v 2 61000 60000000000) (Allotted ?v 2 61000) ?w1)
      (serving_two (Agent_up ?v 2 61000 60000000000) (Finished (Inl err)) ?w1)"
    using serves_move [OF run2, of ge_live "{#(''c1'', Agent_up ?v 2 61000 60000000000)#}"]
    by (simp add: uncounted_by_def add_mset_commute)
  note 4 = serves_trans [OF 3 this]
  have "itoa 61001 \<noteq> itoa 61000" by (auto dest: itoa_inj)
  then have "(?url, itoa 61001) \<notin> ge_live (pgdb.more ?w1)" by (simp add: two_world_def)
  with 4 show ?thesis by (intro exI conjI) auto
qed

section \<open>Witnesses\<close>

theorem steps_refine_operation_witness:
  "\<exists>ep w'. goes_to env_provider ''c1'' (Asking, env_world [env_vm None]) (Finished (Inr ep), w')"
proof -
  obtain ep w' where "getOrCreateEndpoint (Suc 0) env_provider ''c1'' (env_world [env_vm None]) = Some (Inr ep, w')"
    using env_endpoint by blast
  from steps_refine_operation [OF this] show ?thesis by blast
qed

theorem endpoints_counted_concurrently_witness:
  "\<exists>w s. serves env_provider ge_live (idle_at w) s \<and> rows_at (iv_world s) ''v1'' - rows_at w ''v1'' = 2"
proof -
  obtain ep1 ep2 live where s: "serves env_provider ge_live (idle_at (two_world [nearly_full_vm] [] 0 {}))
    (serving_two (Finished (Inr ep1)) (Finished (Inr ep2))
       (two_world [counted_once (counted_once nearly_full_vm)] [ep1, ep2] 2 live))"
    using last_place_taken_twice by blast
  from endpoints_counted_concurrently [OF env_outside s, of "''v1''"] s show ?thesis
    by (intro exI conjI) (auto simp: full_counts)
qed

theorem no_agent_forgotten_concurrently_witness:
  "\<exists>w s. serves env_provider ge_live (idle_at w) s \<and> length (db_endpoints (iv_world s)) = 2 \<and> unrecorded ge_live (iv_world s) = {}"
proof -
  obtain ep1 ep2 live where s: "serves env_provider ge_live (idle_at (two_world [nearly_full_vm] [] 0 {}))
    (serving_two (Finished (Inr ep1)) (Finished (Inr ep2))
       (two_world [counted_once (counted_once nearly_full_vm)] [ep1, ep2] 2 live))"
    using last_place_taken_twice by blast
  have same: "serves env_provider (kept_track ge_live (\<lambda>z. {})) = serves env_provider ge_live"
    by (simp add: kept_track_def [abs_def])
  from no_agent_forgotten_concurrently [OF env_reports, unfolded same, OF s] s show ?thesis
    by (intro exI conjI) (auto simp: unrecorded_def two_world_def held_def)
qed

end
