(* ===== verification/CleanupSteps_Examples.thy ===== *)
theory CleanupSteps_Examples
  imports CleanupSteps_Props EndpointSteps_Examples
begin

text \<open>
  Requests and the clean-up side by side: a run in which the clean-up deletes the machine on which a
  request has just started its agent, and the properties of \<open>CleanupSteps_Props\<close> at concrete runs.
\<close>

section \<open>Letting the cleaner move\<close>

lemma tends_trans: "tends p live S T \<Longrightarrow> tends p live T U \<Longrightarrow> tends p live S U"
  unfolding tends_def by (rule rtranclp_trans)

lemma tends_serves: "serves p live s t \<Longrightarrow> tends p live (s, k) (t, k)"
  unfolding serves_def
proof (induction rule: rtranclp_induct)
  case (step t u)
  from step(2) have "tend_step p live (t, k) (u, k)" by (rule tend_step.serve)
  with step(3) show ?case unfolding tends_def by (rule rtranclp.rtrancl_into_rtrancl)
qed (simp add: tends_def)

lemma tends_sweep:
  assumes "cleaner_step p k w = (k', w')" and "discounted_by k k' = []"
  shows "tends p live (\<lparr>iv_callers = M, iv_world = w, iv_uncounted = u\<rparr>, k)
    (\<lparr>iv_callers = M, iv_world = w', iv_uncounted = u\<rparr>, k')"
  using tend_step.sweep [of p k "\<lparr>iv_callers = M, iv_world = w, iv_uncounted = u\<rparr>" k' w' live] assms
  unfolding tends_def by (intro r_into_rtranclp) simp

lemma tends_wake: "tends p live (s, Between_passes) (s, Listing_endpoints)"
  unfolding tends_def by (intro r_into_rtranclp tend_step.wake) simp

section \<open>A machine deleted under a new agent\<close>

text \<open>One machine that has had no agent for an hour.\<close>

definition idle_vm :: vm_instance where
  "idle_vm = (env_vm None)\<lparr>vm_active_containers := 0, vm_idle_since := Some (- seconds 3600)\<rparr>"

lemma idle_vm_sel [simp]:
  "vm_id idle_vm = ''v1''" "vm_gce_instance_name idle_vm = ''vm-1''" "vm_active_containers idle_vm = 0"
  "vm_status idle_vm = ''running''" "vm_idle_since idle_vm = Some (- seconds 3600)"
  by (simp_all add: idle_vm_def env_vm_def)

lemma idle_world_room:
  "GetAvailableVMInstance 10 (two_world [idle_vm] eps n live) = (Inr idle_vm, two_world [idle_vm] eps n live)"
  by (simp add: GetAvailableVMInstance_def two_world_def first_row_def)

lemma idle_world_sel [simp]:
  "db_vms (two_world vms eps n live) = vms" "db_endpoints (two_world vms eps n live) = eps"
  "db_faults (two_world vms eps n live) = []" "db_now (two_world vms eps n live) = 9"
  by (simp_all add: two_world_def)

text \<open>The request has made its row; the cleaner lists the machine, whose counter is still zero.\<close>

lemma row_made_on_idle_machine:
  "\<exists>ep live. ep_vm_instance_id ep = ''v1'' \<and> ep_last_activity ep = 9 \<and>
    tends env_provider ge_live (idle_at (two_world [idle_vm] [] 0 {}), Between_passes)
      (\<lparr>iv_callers = {#(''c1'', Row_made ''v1'' ep)#}, iv_world = two_world [idle_vm] [ep] 1 live, iv_uncounted = []\<rparr>,
       Deleting_instance idle_vm [])"
proof -
  let ?w = "two_world [idle_vm] [] 0 {}"
  let ?one = "\<lambda>x w. \<lparr>iv_callers = {#(''c1'', x)#}, iv_world = w, iv_uncounted = []\<rparr>"
  have "serves env_provider ge_live (idle_at ?w) (?one Asking ?w)"
    unfolding idle_at_def by (rule serves_arrive) simp
  moreover have "serves env_provider ge_live (?one Asking ?w) (?one (Placing idle_vm 2) ?w)"
    by (rule looks_up [where dcm = "env_manager (cm_url env_provider (vm_internal_ip idle_vm))"])
      (simp_all add: two_world_nobody idle_world_room env_manager_def)
  ultimately have start: "serves env_provider ge_live (idle_at ?w) (?one (Placing idle_vm 2) ?w)"
    by (rule serves_trans)
  obtain ep live where row: "serves env_provider ge_live (?one (Placing idle_vm 2) ?w)
      (?one (Row_made ''v1'' ep) (two_world [idle_vm] [ep] 1 live))"
    and ep: "ep_vm_instance_id ep = ''v1''" "ep_last_activity ep = 9"
    using takes_row [of idle_vm "[]" 0 "{}" 61000 "''c1''" idle_vm "{#}" "[]"] two_world_ports(1) by auto
  let ?w1 = "two_world [idle_vm] [ep] 1 live"
  have 1: "tends env_provider ge_live (idle_at ?w, Between_passes) (?one (Row_made ''v1'' ep) ?w1, Listing_endpoints)"
    using tends_serves [OF serves_trans [OF start row]] tends_wake by (rule tends_trans)
  have "cleaner_step env_provider Listing_endpoints ?w1 = (Listing_machines, ?w1)"
    by (simp add: ListIdleSessionEndpoints_def ep seconds_def)
  then have 2: "tends env_provider ge_live (?one (Row_made ''v1'' ep) ?w1, Listing_endpoints)
      (?one (Row_made ''v1'' ep) ?w1, Listing_machines)"
    by (rule tends_sweep) (simp add: discounted_by_def)
  have "cleaner_step env_provider Listing_machines ?w1 = (Deleting_instance idle_vm [], ?w1)"
    by (simp add: ListIdleVMInstances_def seconds_def)
  then have "tends env_provider ge_live (?one (Row_made ''v1'' ep) ?w1, Listing_machines)
      (?one (Row_made ''v1'' ep) ?w1, Deleting_instance idle_vm [])"
    by (rule tends_sweep) (simp add: discounted_by_def)
  with tends_trans [OF 1 2] ep show ?thesis by (blast intro: tends_trans)
qed

text \<open>C38: the clean-up can delete a machine under the agent that was just started on it: the counter is
  raised only after the endpoint row is made, so a pass in between still lists the machine as idle
  and deletes it; the request returns the endpoint, and the rows of endpoint and machine stay, for a
  machine that is gone.\<close>

theorem sweep_takes_new_machine:
  "\<exists>w s ep err. table_ok w \<and> counted w \<and> tends env_provider ge_live (idle_at w, Between_passes) (s, Swept (Inl err)) \<and>
     (''c1'', Finished (Inr ep)) \<in># iv_callers s \<and> ep \<in> set (db_endpoints (iv_world s)) \<and>
     (\<exists>v \<in> set (db_vms (iv_world s)). vm_id v = ep_vm_instance_id ep \<and> vm_status v = ''running'' \<and>
        vm_gce_instance_name v \<in> fst ` set (ge_deleted (pgdb.more (iv_world s))))"
proof -
  let ?w = "two_world [idle_vm] [] 0 {}"
  let ?one = "\<lambda>x w. \<lparr>iv_callers = {#(''c1'', x)#}, iv_world = w, iv_uncounted = []\<rparr>"
  obtain ep live where ep: "ep_vm_instance_id ep = ''v1''"
    and 1: "tends env_provider ge_live (idle_at ?w, Between_passes)
      (?one (Row_made ''v1'' ep) (two_world [idle_vm] [ep] 1 live), Deleting_instance idle_vm [])"
    using row_made_on_idle_machine by blast
  define w2 where "w2 = snd (cleaner_step env_provider (Deleting_instance idle_vm []) (two_world [idle_vm] [ep] 1 live))"
  have w2: "db_vms w2 = [idle_vm]" "db_endpoints w2 = [ep]" "db_faults w2 = []"
    "ge_deleted (pgdb.more w2) = [(''vm-1'', 0)]"
    by (simp_all add: w2_def env_gce_def) (simp add: two_world_def)
  have "tends env_provider ge_live (?one (Row_made ''v1'' ep) (two_world [idle_vm] [ep] 1 live), Deleting_instance idle_vm [])
      (?one (Row_made ''v1'' ep) w2, Deleting_machine idle_vm [])"
    by (rule tends_sweep) (simp_all add: w2_def discounted_by_def)
  note 2 = tends_trans [OF 1 this]
  define w3 where "w3 = w2\<lparr>db_vms := [counted_once idle_vm]\<rparr>"
  have "caller_step env_provider ''c1'' (Row_made ''v1'' ep) w2 = (Finished (Inr ep), w3)"
    by (simp add: IncrementVMActiveContainers_def w2 w3_def update_where_def counted_once_def)
  then have "serves env_provider ge_live (?one (Row_made ''v1'' ep) w2) (?one (Finished (Inr ep)) w3)"
    by (rule serves_move) (simp add: uncounted_by_def)
  note 3 = tends_trans [OF 2 tends_serves [OF this]]
  obtain err where "cleaner_step env_provider (Deleting_machine idle_vm []) w3 = (Swept (Inl err), w3)"
    by (simp add: DeleteVMInstance_def w3_def w2 counted_once_def ep)
  then have "tends env_provider ge_live (?one (Finished (Inr ep)) w3, Deleting_machine idle_vm [])
      (?one (Finished (Inr ep)) w3, Swept (Inl err))"
    by (rule tends_sweep) (simp add: discounted_by_def)
  note 4 = tends_trans [OF 3 this]
  have "table_ok ?w" "counted ?w" by (simp_all add: table_ok_def counted_def vm_count_def)
  moreover have "db_vms w3 = [counted_once idle_vm]" "db_endpoints w3 = [ep]" "ge_deleted (pgdb.more w3) = [(''vm-1'', 0)]"
    by (simp_all add: w3_def w2)
  ultimately show ?thesis using 4 ep by (intro exI conjI) (auto simp: counted_once_def)
qed

section \<open>Witnesses\<close>

theorem sweep_refines_cleanup_witness:
  "\<exists>w'. sweeps_to env_provider (Listing_endpoints, cleanup_world) (Swept (Inr ()), w')"
proof -
  obtain w' where "CleanupOrphans env_provider cleanup_world = (Inr (), w')" using env_cleanup by blast
  from sweep_refines_cleanup [OF this] show ?thesis ..
qed

theorem counted_while_cleaning_witness:
  "\<exists>s k. tends env_provider ge_live (idle_at (two_world [idle_vm] [] 0 {}), Between_passes) (s, k) \<and>
     length (db_endpoints (iv_world s)) = 1 \<and> vm_count (iv_world s) ''v1'' = 0 \<and> pending_on (iv_callers s) ''v1'' \<ge> 1"
proof -
  obtain ep live where ep: "ep_vm_instance_id ep = ''v1''"
    and run: "tends env_provider ge_live (idle_at (two_world [idle_vm] [] 0 {}), Between_passes)
      (\<lparr>iv_callers = {#(''c1'', Row_made ''v1'' ep)#}, iv_world = two_world [idle_vm] [ep] 1 live, iv_uncounted = []\<rparr>,
       Deleting_instance idle_vm [])"
    using row_made_on_idle_machine by blast
  have "table_ok (two_world [idle_vm] [] 0 {})" "counted (two_world [idle_vm] [] 0 {})"
    by (simp_all add: table_ok_def counted_def vm_count_def)
  from counted_while_cleaning [OF env_outside env_deletion this run, of "''v1''"] run show ?thesis
    by (intro exI conjI) (auto simp: ep vm_count_def)
qed

end
