(* ===== verification/KeyedStore.thy ===== *)
theory KeyedStore
  imports Prelude
begin

text \<open>
  The contract of the stores cc-tunnel keeps under a key: application sessions under a token and
  encrypted credentials under a user name.  A client of such a store relies on nothing but what a
  lookup gives after a put and after a deletion; what follows for whole histories of operations,
  its own and those of other keys, is proved here once.
\<close>

datatype ('k, 'v) store_op = Put 'k 'v | Del 'k

primrec op_key :: "('k, 'v) store_op \<Rightarrow> 'k" where
  "op_key (Put k v) = k"
| "op_key (Del k) = k"

locale keyed_store =
  fixes ok :: "'s \<Rightarrow> bool" and lookup :: "'s \<Rightarrow> 'k \<Rightarrow> 'v option"
    and put :: "'k \<Rightarrow> 'v \<Rightarrow> 's \<Rightarrow> 's" and del :: "'k \<Rightarrow> 's \<Rightarrow> 's"
  assumes ok_put: "ok s \<Longrightarrow> ok (put k v s)"
    and ok_del: "ok s \<Longrightarrow> ok (del k s)"
    and lookup_put: "ok s \<Longrightarrow> lookup (put k v s) k' = (if k' = k then Some v else lookup s k')"
    and lookup_del: "ok s \<Longrightarrow> lookup (del k s) k' = (if k' = k then None else lookup s k')"
begin

primrec apply_op :: "('k, 'v) store_op \<Rightarrow> 's \<Rightarrow> 's" where
  "apply_op (Put k v) s = put k v s"
| "apply_op (Del k) s = del k s"

lemma ok_apply: "ok s \<Longrightarrow> ok (apply_op x s)"
  by (cases x) (simp_all add: ok_put ok_del)

lemma ok_history: "ok s \<Longrightarrow> ok (fold apply_op xs s)"
  by (induction xs arbitrary: s) (simp_all add: ok_apply)

lemma lookup_other: "ok s \<Longrightarrow> op_key x \<noteq> k \<Longrightarrow> lookup (apply_op x s) k = lookup s k"
  by (cases x) (auto simp: lookup_put lookup_del)

lemma lookup_history_other:
  "ok s \<Longrightarrow> \<forall>x \<in> set xs. op_key x \<noteq> k \<Longrightarrow> lookup (fold apply_op xs s) k = lookup s k"
  by (induction xs arbitrary: s) (auto simp: lookup_other ok_apply)

lemma lookup_after_put:
  "ok s \<Longrightarrow> \<forall>x \<in> set xs. op_key x \<noteq> k \<Longrightarrow> lookup (fold apply_op xs (put k v s)) k = Some v"
  by (simp add: lookup_history_other lookup_put ok_put)

lemma lookup_after_del:
  "ok s \<Longrightarrow> \<forall>x \<in> set xs. op_key x \<noteq> k \<Longrightarrow> lookup (fold apply_op xs (del k s)) k = None"
  by (simp add: lookup_history_other lookup_del ok_del)

end

interpretation gomap: keyed_store "\<lambda>_. True" gomap_get "\<lambda>k v m. gomap_set m k v" "\<lambda>k m. gomap_delete m k"
  by unfold_locales simp_all

end
