(* ===== verification/SessionManager_Props.thy ===== *)
theory SessionManager_Props
  imports SessionManager KeyedStore
begin

text \<open>
  What the session manager guarantees: waiting for a container ends, every container it created
  is either registered or removed, an operation on one conversation leaves the others alone, and
  \<^verbatim>\<open>StopAll\<close> empties the map.

  \<open>clock_ok\<close> and \<open>runner_tracks\<close> state what time, the network and the Docker daemon do, in terms of
  any observation \<open>live\<close> of the set of existing containers.
\<close>

definition clock_ok :: "'w session_manager \<Rightarrow> bool" where
  "clock_ok sm \<longleftrightarrow>
     (\<forall>d w w'. ck_select (sm_clock sm) d w = (Inr (), w') \<longrightarrow>
        ck_now (sm_clock sm) w + d \<le> ck_now (sm_clock sm) w') \<and>
     (\<forall>u w. ck_now (sm_clock sm) w \<le> ck_now (sm_clock sm) (snd (RC_GetAuthStatus (sm_net sm) u w)))"

definition runner_tracks :: "'w session_manager \<Rightarrow> ('w \<Rightarrow> string set) \<Rightarrow> bool" where
  "runner_tracks sm live \<longleftrightarrow>
     (\<forall>opts w. case dr_ContainerCreate (sm_runner sm) opts w of
        (Inl _, w') \<Rightarrow> live w' = live w | (Inr i, w') \<Rightarrow> live w' = insert i (live w)) \<and>
     (\<forall>i w. is_err (fst (dr_ContainerStart (sm_runner sm) i w)) = False) \<and>
     (\<forall>i w. live (snd (dr_ContainerStart (sm_runner sm) i w)) = live w) \<and>
     (\<forall>i w. live (snd (dr_ContainerStop (sm_runner sm) i w)) = live w) \<and>
     (\<forall>i w. live (snd (dr_ContainerRemove (sm_runner sm) i w)) = live w - {i}) \<and>
     (\<forall>i w. live (snd (dr_ContainerInspect (sm_runner sm) i w)) = live w) \<and>
     (\<forall>u w. live (snd (RC_GetAuthStatus (sm_net sm) u w)) = live w) \<and>
     (\<forall>u c w. live (snd (RC_InitCredentials (sm_net sm) u c w)) = live w) \<and>
     (\<forall>d w. live (snd (ck_select (sm_clock sm) d w)) = live w)"

lemma runner_tracksD:
  assumes "runner_tracks sm live"
  shows "dr_ContainerCreate (sm_runner sm) opts w = (Inl e, w1) \<Longrightarrow> live w1 = live w"
    and "dr_ContainerCreate (sm_runner sm) opts w = (Inr i, w1) \<Longrightarrow> live w1 = insert i (live w)"
    and "dr_ContainerStart (sm_runner sm) i w = (r1, w1) \<Longrightarrow> \<not> is_err r1 \<and> live w1 = live w"
    and "dr_ContainerInspect (sm_runner sm) i w = (r2, w1) \<Longrightarrow> live w1 = live w"
    and "RC_GetAuthStatus (sm_net sm) u w = (r3, w1) \<Longrightarrow> live w1 = live w"
    and "RC_InitCredentials (sm_net sm) u c w = (r4, w1) \<Longrightarrow> live w1 = live w"
    and "ck_select (sm_clock sm) d w = (r5, w1) \<Longrightarrow> live w1 = live w"
    and "live (discard_container (sm_runner sm) i w) = live w - {i}"
proof -
  note A = assms [unfolded runner_tracks_def]
  show "dr_ContainerCreate (sm_runner sm) opts w = (Inl e, w1) \<Longrightarrow> live w1 = live w"
    using A by (metis (mono_tags, lifting) case_prod_conv sum.case(1))
  show "dr_ContainerCreate (sm_runner sm) opts w = (Inr i, w1) \<Longrightarrow> live w1 = insert i (live w)"
    using A by (metis (mono_tags, lifting) case_prod_conv sum.case(2))
  show "dr_ContainerStart (sm_runner sm) i w = (r1, w1) \<Longrightarrow> \<not> is_err r1 \<and> live w1 = live w"
    using A by (metis fst_conv snd_conv)
  show "dr_ContainerInspect (sm_runner sm) i w = (r2, w1) \<Longrightarrow> live w1 = live w" using A by (metis snd_conv)
  show "RC_GetAuthStatus (sm_net sm) u w = (r3, w1) \<Longrightarrow> live w1 = live w" using A by (metis snd_conv)
  show "RC_InitCredentials (sm_net sm) u c w = (r4, w1) \<Longrightarrow> live w1 = live w" using A by (metis snd_conv)
  show "ck_select (sm_clock sm) d w = (r5, w1) \<Longrightarrow> live w1 = live w" using A by (metis snd_conv)
  show "live (discard_container (sm_runner sm) i w) = live w - {i}"
    using A by (simp add: discard_container_def)
qed

lemma poll_ready_returns:
  assumes ok: "clock_ok sm"
  shows "deadline - ck_now (sm_clock sm) w < int fuel * 500000000 \<Longrightarrow>
    \<exists>r. poll_ready (Suc fuel) sm client deadline w = Some r"
proof (induction fuel arbitrary: w)
  case 0
  obtain r w1 where s: "RC_GetAuthStatus (sm_net sm) client w = (r, w1)"
    by (cases "RC_GetAuthStatus (sm_net sm) client w")
  have "ck_now (sm_clock sm) w \<le> ck_now (sm_clock sm) w1"
    using ok s unfolding clock_ok_def by (metis snd_conv)
  with 0 s show ?case by (cases r) auto
next
  case (Suc fuel)
  obtain r w1 where s: "RC_GetAuthStatus (sm_net sm) client w = (r, w1)"
    by (cases "RC_GetAuthStatus (sm_net sm) client w")
  have n1: "ck_now (sm_clock sm) w \<le> ck_now (sm_clock sm) w1"
    using ok s unfolding clock_ok_def by (metis snd_conv)
  show ?case
  proof (cases r)
    case (Inr x)
    with s show ?thesis by simp
  next
    case (Inl e)
    obtain q w2 where q: "ck_select (sm_clock sm) 500000000 w1 = (q, w2)"
      by (cases "ck_select (sm_clock sm) 500000000 w1")
    show ?thesis
    proof (cases q)
      case (Inl e')
      with s q \<open>r = Inl e\<close> show ?thesis by simp
    next
      case (Inr u)
      then have "ck_now (sm_clock sm) w1 + 500000000 \<le> ck_now (sm_clock sm) w2"
        using ok q unfolding clock_ok_def by (metis old.unit.exhaust)
      with Suc.prems n1 have "deadline - ck_now (sm_clock sm) w2 < int fuel * 500000000" by simp
      from Suc.IH [OF this] s q Inr \<open>r = Inl e\<close> show ?thesis by simp
    qed
  qed
qed

text \<open>Waiting for a new container ends: when time passes while the code waits, the number of polls
  is bounded by the start timeout over the pause of 500 ms, plus one.\<close>

theorem waitForReady_returns:
  assumes "clock_ok sm" and "0 \<le> smc_StartTimeout (sm_config sm)"
    and "nat (smc_StartTimeout (sm_config sm) div 500000000 + 2) \<le> fuel"
  shows "\<exists>r w'. SM_waitForReady fuel sm client w = Some (r, w')"
proof -
  obtain f where f: "fuel = Suc f" using assms(2,3) by (cases fuel) auto
  define t where "t = smc_StartTimeout (sm_config sm)"
  have "t < (t div 500000000 + 1) * 500000000" by presburger
  also have "\<dots> \<le> int f * 500000000" using assms(2,3) f unfolding t_def by simp
  finally show ?thesis
    using poll_ready_returns [OF assms(1), of "ck_now (sm_clock sm) w + t" w f client] f
    by (simp add: SM_waitForReady_def t_def)
qed

lemma poll_ready_live:
  assumes "runner_tracks sm live"
  shows "poll_ready fuel sm client deadline w = Some (r, w') \<Longrightarrow> live w' = live w"
proof (induction fuel arbitrary: w)
  case 0
  then show ?case by simp
next
  case (Suc fuel)
  note D = runner_tracksD [OF assms]
  obtain r1 w1 where s: "RC_GetAuthStatus (sm_net sm) client w = (r1, w1)"
    by (cases "RC_GetAuthStatus (sm_net sm) client w")
  obtain q w2 where q: "ck_select (sm_clock sm) 500000000 w1 = (q, w2)"
    by (cases "ck_select (sm_clock sm) 500000000 w1")
  have l: "live w1 = live w" "live w2 = live w1" using D(5) [OF s] D(7) [OF q] by auto
  show ?case
  proof (cases r1)
    case (Inr x)
    with Suc.prems s l show ?thesis by simp
  next
    case (Inl e)
    with Suc.prems s q l Suc.IH [of w2] show ?thesis
      by (cases q) (auto split: if_splits)
  qed
qed

definition registered :: "string \<Rightarrow> sessions \<Rightarrow> string set" where
  "registered convID ss = (case gomap_get ss convID of None \<Rightarrow> {} | Some s \<Rightarrow> {ss_containerID s})"

text \<open>\<^verbatim>\<open>GetOrCreate\<close> once the container \<open>i\<close> is started: wait for the agent, inject the credentials, and
  take the container away again when either fails.\<close>

definition settle_session ::
    "nat \<Rightarrow> 'w session_manager \<Rightarrow> string \<Rightarrow> string \<Rightarrow> string \<Rightarrow> string \<Rightarrow> session gomap \<Rightarrow> 'w \<Rightarrow>
     (string result \<times> session gomap \<times> 'w) option" where
  "settle_session fuel sm convID creds client i ss w =
     (case SM_waitForReady fuel sm client w of
        None \<Rightarrow> None
      | Some (Inl err, w) \<Rightarrow> Some (Inl (errorf ''container health check'' err), ss, discard_container (sm_runner sm) i w)
      | Some (Inr _, w) \<Rightarrow>
          (case (if length creds > 0 then RC_InitCredentials (sm_net sm) client creds w else (Inr (), w)) of
             (Inl err, w) \<Rightarrow> Some (Inl (errorf ''init credentials'' err), ss, discard_container (sm_runner sm) i w)
           | (Inr _, w) \<Rightarrow>
               Some (Inr client, gomap_set ss convID
                   \<lparr>ss_containerID = i, ss_client = client, ss_lastUsed = ck_now (sm_clock sm) w,
                    ss_idleTimer = Some (ck_now (sm_clock sm) w + smc_IdleTimeout (sm_config sm))\<rparr>, w)))"

lemma settle_session_effect:
  assumes tracks: "runner_tracks sm live" and none: "gomap_get ss convID = None"
    and started: "live w2 = insert i (live w)"
    and run: "settle_session fuel sm convID creds client i ss w2 = Some (r, ss', w')"
  shows "live w' \<subseteq> live w \<union> registered convID ss' \<and>
    (\<forall>c. c \<noteq> convID \<longrightarrow> gomap_get ss' c = gomap_get ss c) \<and>
    SM_GetClient convID ss' = (case r of Inr client \<Rightarrow> Some client | Inl _ \<Rightarrow> None)"
proof -
  note D = runner_tracksD [OF tracks]
  obtain q3 w3 where p: "SM_waitForReady fuel sm client w2 = Some (q3, w3)"
    using run by (auto simp: settle_session_def split: option.splits)
  have l3: "live w3 = live w2" using poll_ready_live [OF tracks] p by (auto simp: SM_waitForReady_def)
  obtain q4 w4 where q4: "(if creds \<noteq> [] then RC_InitCredentials (sm_net sm) client creds w3 else (Inr (), w3)) = (q4, w4)"
    by (cases "if creds \<noteq> [] then RC_InitCredentials (sm_net sm) client creds w3 else (Inr (), w3)")
  have l4: "live w4 = live w3" using q4 D(6) [of client creds w3 q4 w4] by (auto split: if_splits)
  show ?thesis
  proof (cases q3)
    case (Inl e)
    with run p none started l3 show ?thesis by (auto simp: settle_session_def D(8) SM_GetClient_def)
  next
    case q3: (Inr v)
    with run p q4 none started l3 l4 show ?thesis
      by (cases q4) (auto simp: settle_session_def D(8) registered_def SM_GetClient_def)
  qed
qed

lemma create_session_effect:
  assumes tracks: "runner_tracks sm live" and none: "gomap_get ss convID = None"
    and res: "create_session fuel sm convID creds ss w = Some (r, ss', w')"
  shows "live w' \<subseteq> live w \<union> registered convID ss' \<and>
    (\<forall>c. c \<noteq> convID \<longrightarrow> gomap_get ss' c = gomap_get ss c) \<and>
    SM_GetClient convID ss' = (case r of Inr client \<Rightarrow> Some client | Inl _ \<Rightarrow> None)"
proof -
  note D = runner_tracksD [OF tracks]
  define opts where "opts = \<lparr>cc_Name = container_name_of convID, cc_Image = smc_Image (sm_config sm),
      cc_Env = [''PORT='' @ smc_ContainerPort (sm_config sm)], cc_Network = smc_Network (sm_config sm),
      cc_VolumeMounts = [], cc_TmpfsMounts = []\<rparr>"
  define client where "client = ''http://'' @ container_name_of convID @ '':'' @ smc_ContainerPort (sm_config sm)"
  obtain q1 w1 where c: "dr_ContainerCreate (sm_runner sm) opts w = (q1, w1)"
    by (cases "dr_ContainerCreate (sm_runner sm) opts w")
  have unfold: "create_session fuel sm convID creds ss w =
     (case dr_ContainerCreate (sm_runner sm) opts w of
        (Inl err, w) \<Rightarrow> Some (Inl (errorf ''container create'' err), ss, w)
      | (Inr i, w) \<Rightarrow>
          (case dr_ContainerStart (sm_runner sm) i w of
             (Inl err, w) \<Rightarrow> Some (Inl (errorf ''container start'' err), ss, w)
           | (Inr _, w) \<Rightarrow> settle_session fuel sm convID creds client i ss w))"
    by (simp only: create_session_def settle_session_def Let_def opts_def client_def)
  show ?thesis
  proof (cases q1)
    case (Inl e)
    with res none show ?thesis using D(1) [OF c [unfolded Inl]]
      by (auto simp: unfold c SM_GetClient_def)
  next
    case (Inr i)
    obtain q2 w2 where s: "dr_ContainerStart (sm_runner sm) i w1 = (q2, w2)"
      by (cases "dr_ContainerStart (sm_runner sm) i w1")
    have "live w2 = live w1" and "\<not> is_err q2" using D(3) [OF s] by auto
    then obtain u where q2: "q2 = Inr u" and l2: "live w2 = insert i (live w)"
      using D(2) [OF c [unfolded Inr]] by (auto elim: not_is_errE)
    have "settle_session fuel sm convID creds client i ss w2 = Some (r, ss', w')"
      using res by (simp add: unfold c Inr s q2)
    with settle_session_effect [OF tracks none l2] show ?thesis .
  qed
qed

text \<open>C26: no container leaks and no session is touched but its own: after \<^verbatim>\<open>GetOrCreate\<close>, with a daemon
  whose starts and removals succeed, every container that did not exist before is the registered
  one of the conversation; a returned client is the one \<^verbatim>\<open>GetClient\<close> gives from then on, an error
  leaves the conversation without session, and all other conversations keep theirs.\<close>

theorem get_or_create_accounted:
  assumes tracks: "runner_tracks sm live"
    and res: "SM_GetOrCreate fuel sm convID creds ss w = Some (r, ss', w')"
  shows "live w' \<subseteq> live w \<union> registered convID ss' \<and>
    (\<forall>c. c \<noteq> convID \<longrightarrow> gomap_get ss' c = gomap_get ss c) \<and>
    SM_GetClient convID ss' = (case r of Inr client \<Rightarrow> Some client | Inl _ \<Rightarrow> None)"
proof (cases "gomap_get ss convID")
  case None
  with res create_session_effect [OF tracks None] show ?thesis by (simp add: SM_GetOrCreate_def)
next
  case (Some s)
  obtain q w1 where i: "dr_ContainerInspect (sm_runner sm) (ss_containerID s) w = (q, w1)"
    by (cases "dr_ContainerInspect (sm_runner sm) (ss_containerID s) w")
  have l: "live w1 = live w" using runner_tracksD(4) [OF tracks i] .
  show ?thesis
  proof (cases "case q of Inr info \<Rightarrow> inf_State info = ''running'' | Inl _ \<Rightarrow> False")
    case True
    with res Some i l show ?thesis by (auto simp: SM_GetOrCreate_def Let_def SM_GetClient_def)
  next
    case False
    have none: "gomap_get (gomap_delete ss convID) convID = None" by simp
    from False res Some i have
      "create_session fuel sm convID creds (gomap_delete ss convID) w1 = Some (r, ss', w')"
      by (simp add: SM_GetOrCreate_def)
    from create_session_effect [OF tracks none this] l show ?thesis by auto
  qed
qed

lemma stop_each_all:
  assumes "\<forall>i w. \<not> is_err (fst (dr_ContainerStop (sm_runner sm) i w))"
    and "\<forall>i w. \<not> is_err (fst (dr_ContainerRemove (sm_runner sm) i w))"
  shows "stop_each sm ids None ss w = (e, ss', w') \<Longrightarrow>
    e = None \<and> (\<forall>c. gomap_get ss' c = (if c \<in> set ids then None else gomap_get ss c))"
proof (induction ids arbitrary: ss w)
  case Nil
  then show ?case by simp
next
  case (Cons c ids)
  obtain r ss1 w1 where s: "SM_Stop sm c ss w = (r, ss1, w1)" by (cases "SM_Stop sm c ss w")
  have "r = Inr () \<and> (\<forall>c'. gomap_get ss1 c' = (if c' = c then None else gomap_get ss c'))"
  proof (cases "gomap_get ss c")
    case None
    with s show ?thesis by (auto simp: SM_Stop_def)
  next
    case (Some x)
    obtain q1 w2 where q1: "dr_ContainerStop (sm_runner sm) (ss_containerID x) w = (q1, w2)"
      by (cases "dr_ContainerStop (sm_runner sm) (ss_containerID x) w")
    obtain q2 w3 where q2: "dr_ContainerRemove (sm_runner sm) (ss_containerID x) w2 = (q2, w3)"
      by (cases "dr_ContainerRemove (sm_runner sm) (ss_containerID x) w2")
    have "\<not> is_err q1" "\<not> is_err q2" using assms q1 q2 by (metis fst_conv)+
    with s Some q1 q2 show ?thesis
      by (auto simp: SM_Stop_def Let_def elim!: not_is_errE)
  qed
  with Cons.prems Cons.IH [of ss1 w1] s show ?case by auto
qed

text \<open>A graceful shutdown whose stops and removals succeed leaves no session behind and reports no
  error.\<close>

theorem stop_all_empties:
  assumes "\<forall>i w. \<not> is_err (fst (dr_ContainerStop (sm_runner sm) i w))"
    and "\<forall>i w. \<not> is_err (fst (dr_ContainerRemove (sm_runner sm) i w))"
  shows "\<exists>ss' w'. SM_StopAll sm ss w = (Inr (), ss', w') \<and> (\<forall>c. SM_GetClient c ss' = None)"
proof -
  obtain e ss' w' where s: "stop_each sm (map fst ss) None ss w = (e, ss', w')"
    by (cases "stop_each sm (map fst ss) None ss w")
  have "e = None" and g: "\<forall>c. gomap_get ss' c = (if c \<in> set (map fst ss) then None else gomap_get ss c)"
    using stop_each_all [OF assms s] by auto
  have "gomap_get ss' c = None" for c
    using g gomap_get_None [of ss c] by auto
  with s \<open>e = None\<close> show ?thesis by (simp add: SM_StopAll_def SM_GetClient_def)
qed

text \<open>When the daemon fails to stop an idle container, its session stays in the map without a
  timer: no later idle check will try again, only a new use of the conversation rearms it.\<close>

theorem failed_stop_disarms:
  assumes "gomap_get ss convID = Some s"
    and "is_err (fst (dr_ContainerStop (sm_runner sm) (ss_containerID s) w))"
  shows "is_err (fst (SM_Stop sm convID ss w)) \<and>
    gomap_get (fst (idle_fired sm convID ss w)) convID = Some (s\<lparr>ss_idleTimer := None\<rparr>)"
  using assms
  by (cases "dr_ContainerStop (sm_runner sm) (ss_containerID s) w")
    (auto simp: idle_fired_def SM_Stop_def Let_def elim!: is_errE)

section \<open>Witnesses\<close>

text \<open>A host with one clock and a set of containers, on which the agent is ready on the second poll.\<close>

record host =
  ho_now :: int
  ho_live :: "string list"
  ho_polls :: nat

definition host_runner :: "host docker_runner" where
  "host_runner =
     \<lparr>dr_ContainerCreate = (\<lambda>opts h. (Inr (cc_Name opts), h\<lparr>ho_live := cc_Name opts # ho_live h\<rparr>)),
      dr_ContainerStart = (\<lambda>i h. (Inr (), h)), dr_ContainerStop = (\<lambda>i h. (Inr (), h)),
      dr_ContainerRemove = (\<lambda>i h. (Inr (), h\<lparr>ho_live := filter (\<lambda>x. x \<noteq> i) (ho_live h)\<rparr>)),
      dr_ContainerInspect = (\<lambda>i h. (Inr \<lparr>inf_ID = i, inf_Name = i, inf_State = ''running''\<rparr>, h)),
      dr_ContainerList = (\<lambda>p all h. (Inr [], h))\<rparr>"

definition host_net :: "host agent_net" where
  "host_net =
     \<lparr>an_url_error = (\<lambda>u. None),
      an_do = (\<lambda>u r h. if ho_polls h = 0 then (Inl (ErrText ''refused''), h\<lparr>ho_polls := 1\<rparr>)
                       else (Inr (json_response 200 (JObj [])), h)),
      an_text = (\<lambda>r. []), an_lines = (\<lambda>r. ([], None))\<rparr>"

definition host_manager :: "host session_manager" where
  "host_manager = fst (NewSessionManager host_runner
     \<lparr>smc_Image = ''agent'', smc_Network = ''n'', smc_ContainerPort = ''9091'', smc_IdleTimeout = 0,
      smc_StartTimeout = 0\<rparr> host_net
     \<lparr>ck_now = ho_now, ck_select = (\<lambda>d h. (Inr (), h\<lparr>ho_now := ho_now h + d\<rparr>))\<rparr>)"

lemma host_net_frame:
  "ho_now (snd (RC_GetAuthStatus host_net u h)) = ho_now h"
  "ho_live (snd (RC_GetAuthStatus host_net u h)) = ho_live h"
  "ho_live (snd (RC_InitCredentials host_net u c h)) = ho_live h"
  by (auto simp: RC_GetAuthStatus_def RC_InitCredentials_def send_request_def host_net_def)

lemma host_manager_sel [simp]:
  "sm_runner host_manager = host_runner" "sm_net host_manager = host_net"
  "sm_clock host_manager = \<lparr>ck_now = ho_now, ck_select = (\<lambda>d h. (Inr (), h\<lparr>ho_now := ho_now h + d\<rparr>))\<rparr>"
  "smc_StartTimeout (sm_config host_manager) = 30000000000"
  by (simp_all add: host_manager_def NewSessionManager_def Let_def ns_second_def)

lemma host_clock_ok: "clock_ok host_manager"
  by (simp add: clock_ok_def host_net_frame)

lemma host_tracks: "runner_tracks host_manager (\<lambda>h. set (ho_live h))"
  unfolding runner_tracks_def
  by (auto simp: host_runner_def host_net_frame)

theorem waitForReady_returns_witness:
  "\<exists>r w'. SM_waitForReady 62 host_manager ''u'' \<lparr>ho_now = 0, ho_live = [], ho_polls = 0\<rparr> = Some (r, w')"
  by (rule waitForReady_returns [OF host_clock_ok]) simp_all

lemma host_get_or_create:
  "\<exists>ss' w'. SM_GetOrCreate 62 host_manager ''conv1'' [] [] \<lparr>ho_now = 0, ho_live = [], ho_polls = 1\<rparr> =
     Some (Inr ''http://cctunnel-session-conv1:9091'', ss', w')"
  by (simp add: SM_GetOrCreate_def create_session_def container_name_of_def host_runner_def
      SM_waitForReady_def RC_GetAuthStatus_def send_request_def host_net_def decode_struct_def dec_struct_def
      Let_def numeral_eq_Suc)
    (simp add: host_manager_def NewSessionManager_def Let_def)

theorem get_or_create_accounted_witness:
  "\<exists>ss' w'. SM_GetOrCreate 62 host_manager ''conv1'' [] [] \<lparr>ho_now = 0, ho_live = [], ho_polls = 1\<rparr> =
     Some (Inr ''http://cctunnel-session-conv1:9091'', ss', w') \<and>
     SM_GetClient ''conv1'' ss' = Some ''http://cctunnel-session-conv1:9091''"
  using host_get_or_create get_or_create_accounted [OF host_tracks] by fastforce

theorem stop_all_empties_witness:
  "\<exists>ss' w'. SM_StopAll host_manager [(''c'', \<lparr>ss_containerID = ''i'', ss_client = ''u'', ss_lastUsed = 0, ss_idleTimer = None\<rparr>)]
     \<lparr>ho_now = 0, ho_live = [''i''], ho_polls = 1\<rparr> = (Inr (), ss', w') \<and> SM_GetClient ''c'' ss' = None"
  using stop_all_empties [of host_manager "[(''c'', \<lparr>ss_containerID = ''i'', ss_client = ''u'', ss_lastUsed = 0, ss_idleTimer = None\<rparr>)]"
      "\<lparr>ho_now = 0, ho_live = [''i''], ho_polls = 1\<rparr>"]
  by (fastforce simp: host_runner_def)

definition broken_manager :: "host session_manager" where
  "broken_manager = host_manager\<lparr>sm_runner := host_runner\<lparr>dr_ContainerStop := (\<lambda>i h. (Inl (ErrText ''timeout''), h))\<rparr>\<rparr>"

theorem failed_stop_disarms_witness:
  "is_err (fst (SM_Stop broken_manager ''c''
     [(''c'', \<lparr>ss_containerID = ''i'', ss_client = ''u'', ss_lastUsed = 0, ss_idleTimer = None\<rparr>)]
     \<lparr>ho_now = 0, ho_live = [''i''], ho_polls = 1\<rparr>))"
  using failed_stop_disarms [of "[(''c'', \<lparr>ss_containerID = ''i'', ss_client = ''u'', ss_lastUsed = 0, ss_idleTimer = None\<rparr>)]"
      "''c''" "\<lparr>ss_containerID = ''i'', ss_client = ''u'', ss_lastUsed = 0, ss_idleTimer = None\<rparr>" broken_manager
      "\<lparr>ho_now = 0, ho_live = [''i''], ho_polls = 1\<rparr>"]
  by (simp add: broken_manager_def)

end
