(* ===== verification/SessionTimers.thy ===== *)
theory SessionTimers
  imports SessionManager_Props
begin

text \<open>
  The idle timers of \<^verbatim>\<open>internal/docker/session_manager.go\<close> as a step relation.  A timer made by
  \<^verbatim>\<open>time.AfterFunc\<close> lives on its own: when it expires its function starts as a goroutine that waits
  for the session manager's lock (\<open>ts_pending\<close>), and it is not stopped when \<^verbatim>\<open>GetOrCreate\<close> drops the
  entry of a dead container (\<open>ts_stale\<close>: the conversations and deadlines of such timers).  The
  operations themselves hold the lock and are single steps; time and the containers may change
  between them.
\<close>

record 'w timed_sessions =
  ts_sessions :: sessions
  ts_world :: 'w
  ts_stale :: "(string \<times> int) list"
  ts_pending :: "string list"

definition timer_left :: "'w session_manager \<Rightarrow> string \<Rightarrow> sessions \<Rightarrow> 'w \<Rightarrow> (string \<times> int) list" where
  "timer_left sm convID ss w =
     (case gomap_get ss convID of
        None \<Rightarrow> []
      | Some s \<Rightarrow>
          (case fst (dr_ContainerInspect (sm_runner sm) (ss_containerID s) w) of
             Inr info \<Rightarrow> if inf_State info = ''running'' then []
               else (case ss_idleTimer s of Some t \<Rightarrow> [(convID, t)] | None \<Rightarrow> [])
           | Inl _ \<Rightarrow> (case ss_idleTimer s of Some t \<Rightarrow> [(convID, t)] | None \<Rightarrow> [])))"

definition sm_now :: "'w session_manager \<Rightarrow> 'w \<Rightarrow> int" where
  "sm_now sm w = ck_now (sm_clock sm) w"

inductive timer_step :: "nat \<Rightarrow> 'w session_manager \<Rightarrow> 'w timed_sessions \<Rightarrow> 'w timed_sessions \<Rightarrow> bool"
  for fuel sm where
  use: "SM_GetOrCreate fuel sm c creds (ts_sessions s) (ts_world s) = Some (r, ss', w') \<Longrightarrow>
    timer_step fuel sm s (s\<lparr>ts_sessions := ss', ts_world := w',
      ts_stale := timer_left sm c (ts_sessions s) (ts_world s) @ ts_stale s\<rparr>)"
| use_fires: "SM_GetOrCreate fuel sm c creds (ts_sessions s) (ts_world s) = Some (r, ss', w') \<Longrightarrow>
    gomap_get (ts_sessions s) c = Some x \<Longrightarrow> ss_idleTimer x = Some t \<Longrightarrow> t \<le> sm_now sm w' \<Longrightarrow>
    timer_step fuel sm s (s\<lparr>ts_sessions := ss', ts_world := w', ts_pending := c # ts_pending s\<rparr>)"
| stop: "SM_Stop sm c (ts_sessions s) (ts_world s) = (r, ss', w') \<Longrightarrow>
    timer_step fuel sm s (s\<lparr>ts_sessions := ss', ts_world := w'\<rparr>)"
| expire: "gomap_get (ts_sessions s) c = Some x \<Longrightarrow> ss_idleTimer x = Some t \<Longrightarrow> t \<le> sm_now sm (ts_world s) \<Longrightarrow>
    timer_step fuel sm s (s\<lparr>ts_sessions := gomap_set (ts_sessions s) c (x\<lparr>ss_idleTimer := None\<rparr>),
      ts_pending := c # ts_pending s\<rparr>)"
| expire_stale: "(c, t) \<in> set (ts_stale s) \<Longrightarrow> t \<le> sm_now sm (ts_world s) \<Longrightarrow>
    timer_step fuel sm s (s\<lparr>ts_stale := remove1 (c, t) (ts_stale s), ts_pending := c # ts_pending s\<rparr>)"
| fire: "c \<in> set (ts_pending s) \<Longrightarrow> idle_fired sm c (ts_sessions s) (ts_world s) = (ss', w') \<Longrightarrow>
    timer_step fuel sm s (s\<lparr>ts_sessions := ss', ts_world := w', ts_pending := remove1 c (ts_pending s)\<rparr>)"
| outside: "sm_now sm (ts_world s) \<le> sm_now sm w' \<Longrightarrow> timer_step fuel sm s (s\<lparr>ts_world := w'\<rparr>)"

inductive_cases timer_stepE: "timer_step fuel sm s s'"

inductive timer_reach :: "nat \<Rightarrow> 'w session_manager \<Rightarrow> 'w timed_sessions \<Rightarrow> bool" for fuel sm where
  start: "timer_reach fuel sm \<lparr>ts_sessions = [], ts_world = w, ts_stale = [], ts_pending = []\<rparr>"
| step: "timer_reach fuel sm s \<Longrightarrow> timer_step fuel sm s s' \<Longrightarrow> timer_reach fuel sm s'"

section \<open>No session is forgotten\<close>

text \<open>A session is watched when its timer is armed for the end of its idle time, or its stop waits
  for the lock.\<close>

definition watched :: "'w session_manager \<Rightarrow> string list \<Rightarrow> string \<Rightarrow> session \<Rightarrow> bool" where
  "watched sm pending c x \<longleftrightarrow>
     (case ss_idleTimer x of
        Some t \<Rightarrow> t = ss_lastUsed x + smc_IdleTimeout (sm_config sm)
      | None \<Rightarrow> c \<in> set pending)"

definition all_watched :: "'w session_manager \<Rightarrow> 'w timed_sessions \<Rightarrow> bool" where
  "all_watched sm s \<longleftrightarrow>
     (\<forall>c x. gomap_get (ts_sessions s) c = Some x \<longrightarrow> watched sm (ts_pending s) c x)"

definition daemon_obeys :: "'w session_manager \<Rightarrow> bool" where
  "daemon_obeys sm \<longleftrightarrow>
     (\<forall>i w. \<not> is_err (fst (dr_ContainerStop (sm_runner sm) i w))) \<and>
     (\<forall>i w. \<not> is_err (fst (dr_ContainerRemove (sm_runner sm) i w)))"

lemma watched_mono: "watched sm p c x \<Longrightarrow> set p \<subseteq> set p' \<Longrightarrow> watched sm p' c x"
  by (auto simp: watched_def split: option.splits)

lemma create_session_watched:
  assumes "create_session fuel sm convID creds ss w = Some (r, ss', w')"
    and "gomap_get ss' c = Some x"
  shows "gomap_get ss c = Some x \<or> (c = convID \<and> (\<forall>p. watched sm p c x))"
  using assms
  by (auto simp: create_session_def Let_def watched_def split: sum.splits prod.splits option.splits if_splits)

lemma use_watched:
  assumes "SM_GetOrCreate fuel sm convID creds ss w = Some (r, ss', w')"
    and "gomap_get ss' c = Some x"
  shows "(c \<noteq> convID \<and> gomap_get ss c = Some x) \<or> (c = convID \<and> (\<forall>p. watched sm p c x))"
proof (cases "gomap_get ss convID")
  case None
  with assms create_session_watched show ?thesis by (fastforce simp: SM_GetOrCreate_def)
next
  case (Some y)
  obtain q w1 where i: "dr_ContainerInspect (sm_runner sm) (ss_containerID y) w = (q, w1)"
    by (cases "dr_ContainerInspect (sm_runner sm) (ss_containerID y) w")
  show ?thesis
  proof (cases "case q of Inr info \<Rightarrow> inf_State info = ''running'' | Inl _ \<Rightarrow> False")
    case True
    with assms Some i show ?thesis by (auto simp: SM_GetOrCreate_def Let_def watched_def split: if_splits)
  next
    case False
    with assms(1) Some i have
      "create_session fuel sm convID creds (gomap_delete ss convID) w1 = Some (r, ss', w')"
      by (simp add: SM_GetOrCreate_def)
    from create_session_watched [OF this assms(2)] show ?thesis by (auto split: if_splits)
  qed
qed

lemma stop_watched:
  assumes "daemon_obeys sm" and "SM_Stop sm convID ss w = (r, ss', w')"
  shows "gomap_get ss' c = (if c = convID then None else gomap_get ss c)"
proof (cases "gomap_get ss convID")
  case None
  with assms(2) show ?thesis by (auto simp: SM_Stop_def)
next
  case (Some x)
  obtain q1 w2 where q1: "dr_ContainerStop (sm_runner sm) (ss_containerID x) w = (q1, w2)"
    by (cases "dr_ContainerStop (sm_runner sm) (ss_containerID x) w")
  obtain q2 w3 where q2: "dr_ContainerRemove (sm_runner sm) (ss_containerID x) w2 = (q2, w3)"
    by (cases "dr_ContainerRemove (sm_runner sm) (ss_containerID x) w2")
  have "\<not> is_err q1" "\<not> is_err q2" using assms(1) q1 q2 unfolding daemon_obeys_def by (metis fst_conv)+
  with assms(2) Some q1 q2 show ?thesis by (auto simp: SM_Stop_def Let_def elim!: not_is_errE)
qed

lemma fired_watched:
  assumes "daemon_obeys sm" and "idle_fired sm convID ss w = (ss', w')"
  shows "gomap_get ss' c = (if c = convID then None else gomap_get ss c)"
  using stop_watched [OF assms(1), of convID ss w "fst (SM_Stop sm convID ss w)" ss' w'] assms(2)
  by (simp add: idle_fired_def prod_eq_iff)

lemma all_watched_step:
  assumes obeys: "daemon_obeys sm" and ok: "all_watched sm s" and st: "timer_step fuel sm s s'"
  shows "all_watched sm s'"
  using st
proof (cases rule: timer_step.cases)
  case (use c creds r ss' w')
  have "watched sm (ts_pending s) d y" if "gomap_get ss' d = Some y" for d y
    using use_watched [OF use(2) that] ok by (auto simp: all_watched_def)
  then show ?thesis using use(1) by (simp add: all_watched_def)
next
  case (use_fires c creds r ss' w' x t)
  have "watched sm (c # ts_pending s) d y" if "gomap_get ss' d = Some y" for d y
    using use_watched [OF use_fires(2) that] ok
    by (auto simp: all_watched_def intro: watched_mono [where p = "ts_pending s"])
  then show ?thesis using use_fires(1) by (simp add: all_watched_def)
next
  case (stop c r ss' w')
  then show ?thesis using ok stop_watched [OF obeys stop(2)] by (simp add: all_watched_def)
next
  case (expire c x t)
  have "watched sm (c # ts_pending s) d y" if "gomap_get (ts_sessions s) d = Some y" for d y
    using ok that by (auto simp: all_watched_def intro: watched_mono [where p = "ts_pending s"])
  then show ?thesis using expire(1) by (simp add: all_watched_def watched_def)
next
  case (expire_stale c t)
  then show ?thesis
    using ok by (auto simp: all_watched_def intro: watched_mono [where p = "ts_pending s"])
next
  case (fire c ss' w')
  have "watched sm (remove1 c (ts_pending s)) d x" if "watched sm (ts_pending s) d x" "d \<noteq> c" for d x
    using that by (auto simp: watched_def split: option.splits)
  then show ?thesis using fire ok fired_watched [OF obeys fire(3)] by (simp add: all_watched_def)
next
  case (outside w')
  then show ?thesis using ok by (simp add: all_watched_def)
qed

text \<open>C27: no session is forgotten: as long as the daemon stops and removes what it is told to, every
  session, at every moment of every history of uses, stops, expiries and outside events, has its
  timer armed for exactly its last use plus the idle timeout, or its stop already waits for the
  lock.\<close>

theorem sessions_always_watched:
  assumes "daemon_obeys sm" and "timer_reach fuel sm s" and "gomap_get (ts_sessions s) c = Some x"
  shows "ss_idleTimer x = Some (ss_lastUsed x + smc_IdleTimeout (sm_config sm)) \<or>
    ss_idleTimer x = None \<and> c \<in> set (ts_pending s)"
proof -
  from assms(2) have "all_watched sm s"
  proof induction
    case (start w)
    then show ?case by (simp add: all_watched_def)
  next
    case (step s s')
    with all_watched_step [OF assms(1)] show ?case by blast
  qed
  with assms(3) have "watched sm (ts_pending s) c x" by (simp add: all_watched_def)
  then show ?thesis by (cases "ss_idleTimer x") (auto simp: watched_def)
qed

section \<open>Timers that outlive their session\<close>

lemma create_session_session:
  assumes "create_session fuel sm convID creds ss w = Some (Inr client, ss', w')"
  shows "\<exists>y. gomap_get ss' convID = Some y \<and> ss_client y = client \<and> ss_lastUsed y = sm_now sm w'"
  using assms
  by (auto simp: create_session_def sm_now_def Let_def split: sum.splits prod.splits option.splits if_splits)

lemma use_dead:
  assumes "timer_left sm c ss w = [(c, t)]" and "SM_GetOrCreate fuel sm c creds ss w = Some (Inr client, ss', w')"
  shows "\<exists>y. gomap_get ss' c = Some y \<and> ss_client y = client \<and> ss_lastUsed y = sm_now sm w'"
proof -
  obtain x where x: "gomap_get ss c = Some x" using assms(1) by (cases "gomap_get ss c") (auto simp: timer_left_def)
  obtain q w1 where i: "dr_ContainerInspect (sm_runner sm) (ss_containerID x) w = (q, w1)"
    by (cases "dr_ContainerInspect (sm_runner sm) (ss_containerID x) w")
  have "\<not> (case q of Inr info \<Rightarrow> inf_State info = ''running'' | Inl _ \<Rightarrow> False)"
    using assms(1) x i by (auto simp: timer_left_def split: sum.splits)
  with assms(2) x i have "create_session fuel sm c creds (gomap_delete ss c) w1 = Some (Inr client, ss', w')"
    by (simp add: SM_GetOrCreate_def)
  then show ?thesis by (rule create_session_session)
qed

text \<open>C40: a session can be stopped while it is in use: when the container of a conversation has died and
  the conversation gets a new one, the timer of the old session still runs, and its expiry stops the
  new session, however recently that was used.\<close>

theorem stale_timer_stops_successor:
  assumes "daemon_obeys sm" and reach: "timer_reach fuel sm s"
    and dead: "timer_left sm c (ts_sessions s) (ts_world s) = [(c, t)]"
    and use: "SM_GetOrCreate fuel sm c creds (ts_sessions s) (ts_world s) = Some (Inr client, ss', w')"
    and later: "sm_now sm w' \<le> sm_now sm w''" "t \<le> sm_now sm w''"
  shows "\<exists>s1 s2 y. timer_reach fuel sm s1 \<and> ts_world s1 = w'' \<and>
    gomap_get (ts_sessions s1) c = Some y \<and> ss_client y = client \<and> ss_lastUsed y = sm_now sm w' \<and>
    timer_step fuel sm s1 s2 \<and> gomap_get (ts_sessions s2) c = None"
proof -
  define s0 where "s0 = s\<lparr>ts_sessions := ss', ts_world := w', ts_stale := [(c, t)] @ ts_stale s\<rparr>"
  have r0: "timer_reach fuel sm s0"
    using timer_step.use [OF use] dead reach by (auto simp: s0_def intro: timer_reach.step)
  define s0' where "s0' = s0\<lparr>ts_world := w''\<rparr>"
  have r0': "timer_reach fuel sm s0'"
    unfolding s0'_def using later(1) by (intro timer_reach.step [OF r0] timer_step.outside) (simp add: s0_def)
  define s1 where "s1 = s0'\<lparr>ts_stale := remove1 (c, t) (ts_stale s0'), ts_pending := c # ts_pending s0'\<rparr>"
  have "(c, t) \<in> set (ts_stale s0')" "t \<le> sm_now sm (ts_world s0')"
    using later(2) by (simp_all add: s0'_def s0_def)
  then have r1: "timer_reach fuel sm s1"
    unfolding s1_def by (intro timer_reach.step [OF r0'] timer_step.expire_stale)
  obtain ss2 w2 where f: "idle_fired sm c (ts_sessions s1) (ts_world s1) = (ss2, w2)"
    by (cases "idle_fired sm c (ts_sessions s1) (ts_world s1)")
  have "timer_step fuel sm s1 (s1\<lparr>ts_sessions := ss2, ts_world := w2, ts_pending := remove1 c (ts_pending s1)\<rparr>)"
    using f by (intro timer_step.fire) (simp_all add: s1_def)
  moreover have "gomap_get ss2 c = None" using fired_watched [OF assms(1) f, of c] by simp
  moreover have "ts_sessions s1 = ss'" "ts_world s1 = w''" by (simp_all add: s1_def s0'_def s0_def)
  ultimately show ?thesis using r1 use_dead [OF dead use] by fastforce
qed

section \<open>Witnesses\<close>

text \<open>A host whose containers can die: one that is not in the list is reported as exited.\<close>

definition mortal_manager :: "host session_manager" where
  "mortal_manager = host_manager\<lparr>sm_runner := host_runner\<lparr>dr_ContainerInspect :=
     (\<lambda>i h. (Inr \<lparr>inf_ID = i, inf_Name = i, inf_State = if i \<in> set (ho_live h) then ''running'' else ''exited''\<rparr>, h))\<rparr>\<rparr>"

definition host_at :: "int \<Rightarrow> string list \<Rightarrow> host" where
  "host_at t live = \<lparr>ho_now = t, ho_live = live, ho_polls = 1\<rparr>"

definition mortal_session :: "int \<Rightarrow> session" where
  "mortal_session t = \<lparr>ss_containerID = ''cctunnel-session-c1'', ss_client = ''http://cctunnel-session-c1:9091'',
     ss_lastUsed = t, ss_idleTimer = Some (t + 900000000000)\<rparr>"

lemma mortal_obeys: "daemon_obeys mortal_manager"
  by (simp add: daemon_obeys_def mortal_manager_def host_runner_def)

lemma mortal_create:
  "create_session 62 mortal_manager ''c1'' [] [] (host_at t []) =
     Some (Inr ''http://cctunnel-session-c1:9091'', [(''c1'', mortal_session t)], host_at t [''cctunnel-session-c1''])"
  by (simp add: create_session_def container_name_of_def host_runner_def host_at_def mortal_manager_def
      SM_waitForReady_def RC_GetAuthStatus_def send_request_def host_net_def decode_struct_def dec_struct_def
      Let_def numeral_eq_Suc mortal_session_def)
    (simp add: host_manager_def NewSessionManager_def Let_def ns_second_def)

lemma mortal_reach:
  "timer_reach 62 mortal_manager
     \<lparr>ts_sessions = [(''c1'', mortal_session 0)], ts_world = host_at 600000000000 [], ts_stale = [], ts_pending = []\<rparr>"
proof -
  let ?s = "\<lparr>ts_sessions = [], ts_world = host_at 0 [], ts_stale = [], ts_pending = []\<rparr> :: host timed_sessions"
  have "SM_GetOrCreate 62 mortal_manager ''c1'' [] (ts_sessions ?s) (ts_world ?s) =
      Some (Inr ''http://cctunnel-session-c1:9091'', [(''c1'', mortal_session 0)], host_at 0 [''cctunnel-session-c1''])"
    by (simp add: SM_GetOrCreate_def mortal_create)
  from timer_reach.step [OF timer_reach.start timer_step.use [OF this]]
  have "timer_reach 62 mortal_manager
     \<lparr>ts_sessions = [(''c1'', mortal_session 0)], ts_world = host_at 0 [''cctunnel-session-c1''], ts_stale = [], ts_pending = []\<rparr>"
    by (simp add: timer_left_def)
  from timer_reach.step [OF this timer_step.outside, of "host_at 600000000000 []"] show ?thesis
    by (simp add: sm_now_def mortal_manager_def host_at_def)
qed

lemma mortal_use:
  "SM_GetOrCreate 62 mortal_manager ''c1'' [] [(''c1'', mortal_session 0)] (host_at 600000000000 []) =
     Some (Inr ''http://cctunnel-session-c1:9091'', [(''c1'', mortal_session 600000000000)],
       host_at 600000000000 [''cctunnel-session-c1''])"
proof -
  have "dr_ContainerInspect (sm_runner mortal_manager) i (host_at t []) =
      (Inr \<lparr>inf_ID = i, inf_Name = i, inf_State = ''exited''\<rparr>, host_at t [])" for i t
    by (simp add: mortal_manager_def host_at_def)
  then show ?thesis
    using mortal_create [of 600000000000] by (simp add: SM_GetOrCreate_def gomap_delete_def)
qed

theorem sessions_always_watched_witness:
  "ss_idleTimer (mortal_session 0) = Some (ss_lastUsed (mortal_session 0) + smc_IdleTimeout (sm_config mortal_manager))"
  using sessions_always_watched [OF mortal_obeys mortal_reach, of "''c1''" "mortal_session 0"]
  by (simp add: mortal_session_def)

theorem stale_timer_stops_successor_witness:
  "\<exists>s1 s2 y. timer_step 62 mortal_manager s1 s2 \<and> sm_now mortal_manager (ts_world s1) = 900000000000 \<and>
     gomap_get (ts_sessions s1) ''c1'' = Some y \<and> ss_lastUsed y = 600000000000 \<and>
     gomap_get (ts_sessions s2) ''c1'' = None"
proof -
  have dead: "timer_left mortal_manager ''c1'' [(''c1'', mortal_session 0)] (host_at 600000000000 []) =
      [(''c1'', 900000000000)]"
    by (simp add: timer_left_def mortal_manager_def host_at_def mortal_session_def)
  have now: "sm_now mortal_manager (host_at t l) = t" for t l
    by (simp add: sm_now_def mortal_manager_def host_at_def)
  show ?thesis
    using stale_timer_stops_successor [OF mortal_obeys mortal_reach, of "''c1''" 900000000000 "[]"
        "''http://cctunnel-session-c1:9091''" "[(''c1'', mortal_session 600000000000)]"
        "host_at 600000000000 [''cctunnel-session-c1'']" "host_at 900000000000 [''cctunnel-session-c1'']"]
    by (simp add: dead mortal_use now) (metis now)
qed

end
