(* ===== verification/Credential.thy ===== *)
theory Credential
  imports Repository KeyedStore
begin

text \<open>
  \<^verbatim>\<open>internal/credential\<close>: users' encrypted credentials.

  The table \<^verbatim>\<open>credentials\<close> (migration 007) extends the database record, with the source of
  \<^verbatim>\<open>crypto/rand\<close> next to it: the n-th read of k bytes gives \<open>cred_rand n k\<close>.  AES-GCM is
  outside the code: \<open>aead\<close> has \<^verbatim>\<open>Seal\<close> (nonce, plaintext, additional data) and \<^verbatim>\<open>Open\<close>, and
  \<open>aead_correct\<close>, \<open>aead_binds\<close> state what they promise: what is opened with the same key, nonce and
  additional data is what was sealed, and with other additional data it does not open.
\<close>

record credential =
  cred_id :: string
  cred_username :: string
  cred_encrypted_data :: string
  cred_nonce :: string
  cred_key_version :: int
  cred_is_valid :: bool
  cred_last_validated :: "int option"
  cred_created_at :: int
  cred_updated_at :: int

record cred_db = pgdb +
  db_credentials :: "credential list"
  cred_rand :: "nat \<Rightarrow> nat \<Rightarrow> string result"
  cred_rand_drawn :: nat

section \<open>Encryptor\<close>

record aead =
  aead_Seal :: "string \<Rightarrow> string \<Rightarrow> string \<Rightarrow> string"
  aead_Open :: "string \<Rightarrow> string \<Rightarrow> string \<Rightarrow> string option"

record encryptor =
  enc_aead :: aead
  enc_keyVersion :: int

definition KeyLength :: nat where
  "KeyLength = 32"

definition NonceLength :: nat where
  "NonceLength = 12"

definition ErrInvalidKeyLength :: goerr where
  "ErrInvalidKeyLength = ErrVar ''ErrInvalidKeyLength'' ''encryption key must be 32 bytes''"

definition ErrDecryptionFailed :: goerr where
  "ErrDecryptionFailed =
     ErrVar ''ErrDecryptionFailed'' ''decryption failed (auth tag mismatch or corrupted ciphertext)''"

text \<open>\<open>new_cipher\<close> is \<^verbatim>\<open>aes.NewCipher\<close>, \<open>new_gcm\<close> is \<^verbatim>\<open>cipher.NewGCM\<close>.\<close>

definition NewEncryptor ::
    "(string \<Rightarrow> 'b result) \<Rightarrow> ('b \<Rightarrow> aead result) \<Rightarrow> string \<Rightarrow> int \<Rightarrow> encryptor result" where
  "NewEncryptor new_cipher new_gcm key keyVersion =
     (if length key \<noteq> KeyLength then Inl ErrInvalidKeyLength
      else
        (case new_cipher key of
           Inl err \<Rightarrow> Inl (errorf ''aes.NewCipher'' err)
         | Inr block \<Rightarrow>
             (case new_gcm block of
                Inl err \<Rightarrow> Inl (errorf ''cipher.NewGCM'' err)
              | Inr a \<Rightarrow> Inr \<lparr>enc_aead = a, enc_keyVersion = keyVersion\<rparr>)))"

definition rand_Read :: "nat \<Rightarrow> ('z cred_db_scheme, string) call" where
  "rand_Read k d = (cred_rand d (cred_rand_drawn d) k, d\<lparr>cred_rand_drawn := Suc (cred_rand_drawn d)\<rparr>)"

definition Encryptor_Seal ::
    "encryptor \<Rightarrow> string \<Rightarrow> string \<Rightarrow> ('z cred_db_scheme, string \<times> string) call" where
  "Encryptor_Seal e plaintext username d =
     (case rand_Read NonceLength d of
        (Inl err, d) \<Rightarrow> (Inl (errorf ''rand.Read'' err), d)
      | (Inr nonce, d) \<Rightarrow> (Inr (aead_Seal (enc_aead e) nonce plaintext username, nonce), d))"

definition Encryptor_Open :: "encryptor \<Rightarrow> string \<Rightarrow> string \<Rightarrow> string \<Rightarrow> string result" where
  "Encryptor_Open e ciphertext nonce username =
     (case aead_Open (enc_aead e) nonce ciphertext username of
        None \<Rightarrow> Inl ErrDecryptionFailed
      | Some plaintext \<Rightarrow> Inr plaintext)"

section \<open>Repository\<close>

definition ErrNotFound :: goerr where
  "ErrNotFound = ErrVar ''ErrNotFound'' ''credential not found''"

definition GetByUsername :: "string \<Rightarrow> ('z cred_db_scheme, credential) call" where
  "GetByUsername username d =
     (case pg_exec (\<lambda>d. (first_row (filter (\<lambda>c. cred_username c = username) (db_credentials d)), d)) d of
        (Inl err, d) \<Rightarrow> (Inl (if errors_is err ''pgx.ErrNoRows'' then ErrNotFound else err), d)
      | (Inr c, d) \<Rightarrow> (Inr c, d))"

definition CredRepo_MarkInvalid :: "string \<Rightarrow> ('z cred_db_scheme, unit) call" where
  "CredRepo_MarkInvalid username = pg_exec (\<lambda>d.
     (Inr (), d\<lparr>db_credentials := update_where (\<lambda>c. cred_username c = username)
        (\<lambda>c. c\<lparr>cred_is_valid := False, cred_updated_at := db_now d\<rparr>) (db_credentials d)\<rparr>))"

text \<open>\<^verbatim>\<open>Upsert\<close> reads the user name, the data, the nonce and the key version of its argument.\<close>

definition Upsert :: "string \<Rightarrow> string \<Rightarrow> string \<Rightarrow> int \<Rightarrow> ('z cred_db_scheme, unit) call" where
  "Upsert username encryptedData nonce keyVersion = pg_exec (\<lambda>d.
     if username \<in> set (map cred_username (db_credentials d))
     then (Inr (), d\<lparr>db_credentials := update_where (\<lambda>c. cred_username c = username)
             (\<lambda>c. c\<lparr>cred_encrypted_data := encryptedData, cred_nonce := nonce,
                    cred_key_version := keyVersion, cred_is_valid := True, cred_updated_at := db_now d\<rparr>)
             (db_credentials d)\<rparr>)
     else
       let (u, d) = draw_uuid d in
       if u \<in> set (map cred_id (db_credentials d)) then (Inl (violates ''credentials_pkey''), d)
       else (Inr (), d\<lparr>db_credentials := db_credentials d @
          [\<lparr>cred_id = u, cred_username = username, cred_encrypted_data = encryptedData,
            cred_nonce = nonce, cred_key_version = keyVersion, cred_is_valid = True,
            cred_last_validated = None, cred_created_at = db_now d, cred_updated_at = db_now d\<rparr>]\<rparr>))"

definition CredRepo_Delete :: "string \<Rightarrow> ('z cred_db_scheme, unit) call" where
  "CredRepo_Delete username = pg_exec (\<lambda>d.
     (Inr (), d\<lparr>db_credentials := filter (\<lambda>c. cred_username c \<noteq> username) (db_credentials d)\<rparr>))"

section \<open>Service\<close>

definition ErrCredentialsInvalid :: goerr where
  "ErrCredentialsInvalid =
     ErrVar ''ErrCredentialsInvalid'' ''credentials are invalid (re-login required)''"

definition ErrKeyVersionMismatch :: goerr where
  "ErrKeyVersionMismatch = ErrVar ''ErrKeyVersionMismatch'' ''key version mismatch''"

definition FetchAndDecrypt :: "encryptor \<Rightarrow> string \<Rightarrow> ('z cred_db_scheme, string) call" where
  "FetchAndDecrypt e username d =
     (case GetByUsername username d of
        (Inl err, d) \<Rightarrow> (Inl err, d)
      | (Inr cred, d) \<Rightarrow>
          if \<not> cred_is_valid cred then (Inl ErrCredentialsInvalid, d)
          else if cred_key_version cred \<noteq> enc_keyVersion e then (Inl ErrKeyVersionMismatch, d)
          else (Encryptor_Open e (cred_encrypted_data cred) (cred_nonce cred) username, d))"

definition CredService_MarkInvalid :: "string \<Rightarrow> ('z cred_db_scheme, unit) call" where
  "CredService_MarkInvalid username = CredRepo_MarkInvalid username"

definition StoreCredential :: "encryptor \<Rightarrow> string \<Rightarrow> string \<Rightarrow> ('z cred_db_scheme, unit) call" where
  "StoreCredential e username credJSON d =
     (case Encryptor_Seal e credJSON username d of
        (Inl err, d) \<Rightarrow> (Inl err, d)
      | (Inr (ciphertext, nonce), d) \<Rightarrow> Upsert username ciphertext nonce (enc_keyVersion e) d)"

section \<open>The table as a keyed store\<close>

text \<open>What of a row matters to the service: the data, the nonce, the key version and the flag.\<close>

type_synonym secret = "string \<times> string \<times> int \<times> bool"

definition secret_of :: "credential \<Rightarrow> secret" where
  "secret_of c = (cred_encrypted_data c, cred_nonce c, cred_key_version c, cred_is_valid c)"

text \<open>
  States in which every statement succeeds: no fault is scheduled and \<^verbatim>\<open>gen_random_uuid()\<close> only
  draws fresh values.
\<close>

definition cred_ready :: "'z cred_db_scheme \<Rightarrow> bool" where
  "cred_ready d \<longleftrightarrow> db_faults d = [] \<and> inj (db_uuids d) \<and>
     (\<forall>c \<in> set (db_credentials d). \<exists>n < db_drawn d. cred_id c = db_uuids d n)"

definition cred_lookup :: "'z cred_db_scheme \<Rightarrow> string \<Rightarrow> secret option" where
  "cred_lookup d u = (case fst (GetByUsername u d) of Inl _ \<Rightarrow> None | Inr c \<Rightarrow> Some (secret_of c))"

definition cred_put :: "string \<Rightarrow> secret \<Rightarrow> 'z cred_db_scheme \<Rightarrow> 'z cred_db_scheme" where
  "cred_put u v d = (case v of (ct, nonce, kv, valid) \<Rightarrow>
     let d = snd (Upsert u ct nonce kv d) in if valid then d else snd (CredRepo_MarkInvalid u d))"

definition cred_del :: "string \<Rightarrow> 'z cred_db_scheme \<Rightarrow> 'z cred_db_scheme" where
  "cred_del u d = snd (CredRepo_Delete u d)"

definition first_cred :: "string \<Rightarrow> credential list \<Rightarrow> credential option" where
  "first_cred u cs = find (\<lambda>c. cred_username c = u) cs"

lemma first_row_filter:
  "first_row (filter P xs) = (case find P xs of None \<Rightarrow> Inl pgx_no_rows | Some x \<Rightarrow> Inr x)"
  by (induction xs) (auto simp: first_row_def)

lemma GetByUsername_ready:
  "db_faults d = [] \<Longrightarrow> GetByUsername u d =
     (case first_cred u (db_credentials d) of None \<Rightarrow> (Inl ErrNotFound, d) | Some c \<Rightarrow> (Inr c, d))"
  by (auto simp: GetByUsername_def pg_exec_def first_row_filter first_cred_def pgx_no_rows_def
      split: option.split)

lemma cred_lookup_ready:
  "db_faults d = [] \<Longrightarrow> cred_lookup d u = map_option secret_of (first_cred u (db_credentials d))"
  by (simp add: cred_lookup_def GetByUsername_ready split: option.split)

lemma first_cred_append:
  "first_cred u (xs @ ys) = (case first_cred u xs of None \<Rightarrow> first_cred u ys | Some c \<Rightarrow> Some c)"
  by (induction xs) (auto simp: first_cred_def)

lemma first_cred_update:
  assumes "\<And>c. cred_username (f c) = cred_username c"
  shows "first_cred u' (update_where (\<lambda>c. cred_username c = u) f cs) =
    (if u' = u then map_option f (first_cred u cs) else first_cred u' cs)"
  using assms by (induction cs) (auto simp: first_cred_def update_where_def)

lemma first_cred_single: "first_cred u [c] = (if cred_username c = u then Some c else None)"
  by (simp add: first_cred_def)

lemma set_update_where: "set (update_where p f xs) = (\<lambda>r. if p r then f r else r) ` set xs"
  by (simp add: update_where_def)

lemma first_cred_delete:
  "first_cred u' (filter (\<lambda>c. cred_username c \<noteq> u) cs) = (if u' = u then None else first_cred u' cs)"
  by (induction cs) (auto simp: first_cred_def)

lemma first_cred_None: "first_cred u cs = None \<longleftrightarrow> u \<notin> set (map cred_username cs)"
  by (auto simp: first_cred_def find_None_iff)

lemma cred_ready_fresh:
  "cred_ready d \<Longrightarrow> db_uuids d (db_drawn d) \<notin> set (map cred_id (db_credentials d))"
  by (force simp: cred_ready_def inj_def)

lemma Upsert_ready:
  assumes "cred_ready d"
  shows "fst (Upsert u ct n kv d) = Inr () \<and> cred_ready (snd (Upsert u ct n kv d)) \<and>
    cred_lookup (snd (Upsert u ct n kv d)) u' = (if u' = u then Some (ct, n, kv, True) else cred_lookup d u')"
proof (cases "u \<in> set (map cred_username (db_credentials d))")
  case True
  then obtain c where "first_cred u (db_credentials d) = Some c" using first_cred_None by blast
  with True assms show ?thesis
    by (auto simp: Upsert_def pg_exec_def cred_ready_def cred_lookup_ready first_cred_update secret_of_def
        set_update_where)
next
  case False
  then have none: "first_cred u (db_credentials d) = None" using first_cred_None by blast
  have drawn: "\<exists>n < Suc (db_drawn d). cred_id c = db_uuids d n" if "c \<in> set (db_credentials d)" for c
    using assms that unfolding cred_ready_def by (meson less_SucI)
  from False none assms cred_ready_fresh [OF assms] drawn show ?thesis
    by (auto simp: Upsert_def pg_exec_def cred_ready_def cred_lookup_ready draw_uuid_def Let_def
        first_cred_append first_cred_single secret_of_def split: option.split)
qed

lemma MarkInvalid_ready:
  assumes "cred_ready d"
  shows "cred_ready (snd (CredRepo_MarkInvalid u d)) \<and>
    cred_lookup (snd (CredRepo_MarkInvalid u d)) u' =
      (if u' = u then map_option (\<lambda>(ct, n, kv, v). (ct, n, kv, False)) (cred_lookup d u) else cred_lookup d u')"
  using assms
  by (auto simp: CredRepo_MarkInvalid_def pg_exec_def cred_ready_def cred_lookup_ready first_cred_update
      secret_of_def set_update_where option.map_comp o_def)

lemma Delete_ready:
  assumes "cred_ready d"
  shows "cred_ready (snd (CredRepo_Delete u d)) \<and>
    cred_lookup (snd (CredRepo_Delete u d)) u' = (if u' = u then None else cred_lookup d u')"
  using assms
  by (auto simp: CredRepo_Delete_def pg_exec_def cred_ready_def cred_lookup_ready first_cred_delete)

interpretation creds: keyed_store cred_ready cred_lookup cred_put cred_del
  by unfold_locales
    (auto simp: cred_put_def cred_del_def Let_def Upsert_ready MarkInvalid_ready Delete_ready
      split: prod.split)

end
