(* ===== verification/Title.thy ===== *)
theory Title
  imports Utf8
begin

text \<open>
  \<^verbatim>\<open>internal/api/title.go\<close>: the title of a conversation from the assistant's text.

  The text is bytes.  The regular expressions only look for ASCII characters, and their
  leftmost-first matches are unique, so each \<^verbatim>\<open>ReplaceAllString\<close> is a scanner over bytes.
  \<^verbatim>\<open>[]rune\<close> and \<^verbatim>\<open>strings.TrimSpace\<close> are those of \<open>Utf8\<close>.
\<close>

section \<open>Rewriting steps\<close>

fun normalize_newlines :: "string \<Rightarrow> string" where
  "normalize_newlines [] = []"
| "normalize_newlines [x] = [if x = CHR 0x0D then CHR 0x0A else x]"
| "normalize_newlines (x # y # ys) =
     (if x = CHR 0x0D
      then (if y = CHR 0x0A then CHR 0x0A # normalize_newlines ys
            else CHR 0x0A # normalize_newlines (y # ys))
      else x # normalize_newlines (y # ys))"

definition strip_heading :: "string \<Rightarrow> string" where
  "strip_heading line =
     (let stripped = dropWhile (\<lambda>c. c = CHR ''#'') line
      in if length stripped < length line then dropWhile (\<lambda>c. c = CHR '' '') stripped else stripped)"

text \<open>
  \<open>strip_marks c m\<close>: replace \<open>c{1,m}([^c\n]+)c{1,m}\<close> by the group, \<open>m\<close> being 1 or 2.
\<close>

definition marks :: "char \<Rightarrow> nat \<Rightarrow> string \<Rightarrow> nat" where
  "marks c m s = min m (length (takeWhile (\<lambda>x. x = c) s))"

function strip_marks :: "char \<Rightarrow> nat \<Rightarrow> string \<Rightarrow> string" where
  "strip_marks c m [] = []"
| "strip_marks c m (x # xs) =
     (let rest = drop (marks c m (x # xs)) (x # xs);
          body = takeWhile (\<lambda>y. y \<noteq> c \<and> y \<noteq> CHR 0x0A) rest;
          after = drop (length body) rest
      in if x = c \<and> body \<noteq> [] \<and> after \<noteq> [] \<and> hd after = c
         then body @ strip_marks c m (drop (max 1 (marks c m after)) after)
         else x # strip_marks c m xs)"
  by pat_completeness auto
termination
  by (relation "measure (\<lambda>(c, m, s). length s)") (auto simp: Let_def)

definition re_space :: "char \<Rightarrow> bool" where
  "re_space c = (c \<in> {CHR 0x09, CHR 0x0A, CHR 0x0C, CHR 0x0D, CHR '' ''})"

function collapse_spaces :: "string \<Rightarrow> string" where
  "collapse_spaces [] = []"
| "collapse_spaces (x # xs) =
     (if re_space x then CHR '' '' # collapse_spaces (dropWhile re_space xs) else x # collapse_spaces xs)"
  by pat_completeness auto
termination
  by (relation "measure length") (auto simp: less_Suc_eq_le length_dropWhile_le)

definition title_text :: "string \<Rightarrow> string" where
  "title_text text =
     (let text = normalize_newlines text;
          text = join (map strip_heading (split_byte text (CHR 0x0A))) [CHR 0x0A];
          text = strip_marks (CHR ''*'') 2 text;
          text = strip_marks (CHR ''_'') 2 text;
          text = strip_marks (CHR 0x60) 1 text;
          text = map (\<lambda>c. if c = CHR 0x0A then CHR '' '' else c) text;
          text = collapse_spaces text
      in TrimSpace text)"

definition generateTitle :: "string \<Rightarrow> string" where
  "generateTitle text =
     (let text = title_text text in
      if text = [] then ''New Conversation''
      else
        let rs = runes text in
        if length rs > 60 then concat (map rune_string (take 60 rs)) @ ''...'' else text)"

section \<open>Properties\<close>

lemma collapse_no_space: "c \<in> set (collapse_spaces s) \<Longrightarrow> re_space c \<Longrightarrow> c = CHR '' ''"
  by (induction s rule: collapse_spaces.induct) (auto split: if_splits)

lemma title_text_no_newline: "c \<in> set (title_text s) \<Longrightarrow> re_space c \<Longrightarrow> c = CHR '' ''"
  using set_TrimSpace collapse_no_space unfolding title_text_def Let_def by blast

text \<open>A title is never empty, is one line without tabs, and is at most 60 runes (240 bytes) and an
  ellipsis long, whatever the assistant wrote.\<close>

theorem title_bounds:
  "generateTitle text \<noteq> [] \<and>
   (\<forall>c \<in> set (generateTitle text). c \<notin> {CHR 0x09, CHR 0x0A, CHR 0x0C, CHR 0x0D}) \<and>
   (\<exists>rs. length rs \<le> 60 \<and> (\<forall>r \<in> set rs. 1 \<le> length r \<and> length r \<le> 4) \<and>
      (generateTitle text = concat rs \<or> generateTitle text = concat rs @ ''...''))"
proof (cases "title_text text = []")
  case True
  then have g: "generateTitle text = ''New Conversation''" by (simp add: generateTitle_def)
  have "''New Conversation'' = concat (map (\<lambda>c. [c]) ''New Conversation'')" by simp
  then show ?thesis unfolding g
    by (intro conjI exI [of _ "map (\<lambda>c. [c]) ''New Conversation''"]) simp_all
next
  case False
  define rs where "rs = runes (title_text text)"
  have w: "\<forall>r \<in> set rs. 1 \<le> length r \<and> length r \<le> 4" using runes_width by (simp add: rs_def)
  have sub: "\<forall>r \<in> set rs. set r \<subseteq> set (title_text text)" using set_runes by (simp add: rs_def)
  have sp: "\<forall>c \<in> set (title_text text). c \<notin> {CHR 0x09, CHR 0x0A, CHR 0x0C, CHR 0x0D}"
    using title_text_no_newline by (fastforce simp: re_space_def)
  show ?thesis
  proof (cases "length rs > 60")
    case False
    with \<open>title_text text \<noteq> []\<close> have "generateTitle text = title_text text"
      by (simp add: generateTitle_def rs_def)
    moreover have "title_text text = concat rs" by (simp add: rs_def)
    ultimately show ?thesis
      using False w sp \<open>title_text text \<noteq> []\<close> by (metis not_le_imp_less)
  next
    case True
    define us where "us = map rune_string (take 60 rs)"
    have g: "generateTitle text = concat us @ ''...''"
      using True \<open>title_text text \<noteq> []\<close> by (simp add: generateTitle_def rs_def us_def)
    have us: "\<forall>r \<in> set us. 1 \<le> length r \<and> length r \<le> 4"
      using w by (auto simp: us_def rune_string_def dest: in_set_takeD)
    have "\<forall>r \<in> set us. \<forall>c \<in> set r. c \<notin> {CHR 0x09, CHR 0x0A, CHR 0x0C, CHR 0x0D}"
      using sub sp set_rune_string by (fastforce simp: us_def dest: in_set_takeD)
    then show ?thesis unfolding g
      using us by (intro conjI exI [of _ us]) (auto simp: us_def)
  qed
qed

lemma normalize_newlines_id: "CHR 0x0D \<notin> set s \<Longrightarrow> normalize_newlines s = s"
  by (induction s rule: normalize_newlines.induct) auto

lemma split_byte_id: "c \<notin> set s \<Longrightarrow> split_byte s c = [s]"
  by (induction s) auto

lemma strip_marks_id: "c \<notin> set s \<Longrightarrow> strip_marks c m s = s"
  by (induction s) (auto simp: Let_def)

lemma collapse_spaces_id:
  "(\<forall>c \<in> set s. re_space c \<longrightarrow> c = CHR '' '') \<Longrightarrow> (\<forall>u v. s \<noteq> u @ ''  '' @ v) \<Longrightarrow> collapse_spaces s = s"
proof (induction s)
  case Nil
  then show ?case by simp
next
  case (Cons x xs)
  have tl: "\<forall>u v. xs \<noteq> u @ ''  '' @ v" using Cons.prems(2) by (metis append_Cons)
  have hd: "x = CHR '' '' \<Longrightarrow> xs = y # ys \<Longrightarrow> y \<noteq> CHR '' ''" for y ys
    using Cons.prems(2) by (metis append_Cons append_Nil)
  have IH: "collapse_spaces xs = xs" using Cons.IH Cons.prems(1) tl by simp
  show ?case
  proof (cases "re_space x")
    case False
    with IH show ?thesis by simp
  next
    case True
    then have x: "x = CHR '' ''" using Cons.prems(1) by simp
    have "dropWhile re_space xs = xs"
      using hd [OF x] Cons.prems(1) by (cases xs) auto
    with True IH x show ?thesis by simp
  qed
qed

lemma byte_32: "byte c = 32 \<Longrightarrow> c = CHR '' ''"
proof -
  assume "byte c = 32"
  moreover have "byte (CHR '' '') = 32" by (simp add: byte_def)
  ultimately have "of_char c = (of_char (CHR '' '') :: nat)" by (simp only: byte_def)
  then show "c = CHR '' ''" by (simp only: of_char_eq_iff)
qed

definition plain_text :: "string \<Rightarrow> bool" where
  "plain_text s \<longleftrightarrow>
     (\<forall>c \<in> set s. 32 \<le> byte c \<and> byte c < 128 \<and> c \<notin> {CHR ''#'', CHR ''*'', CHR ''_'', CHR 0x60}) \<and>
     (\<forall>u v. s \<noteq> u @ ''  '' @ v) \<and> s \<noteq> [] \<and> hd s \<noteq> CHR '' '' \<and> last s \<noteq> CHR '' ''"

text \<open>A plain text - printable ASCII without Markdown signs, without doubled, leading or trailing
  blanks - is its own title when it has at most 60 characters, and is cut after 60 otherwise.\<close>

theorem title_of_plain_text:
  assumes "plain_text s"
  shows "generateTitle s = (if length s \<le> 60 then s else take 60 s @ ''...'')"
proof -
  have cs: "\<forall>c \<in> set s. 32 \<le> byte c \<and> byte c < 128"
    and mk: "CHR ''#'' \<notin> set s" "CHR ''*'' \<notin> set s" "CHR ''_'' \<notin> set s" "CHR 0x60 \<notin> set s"
    and dbl: "\<forall>u v. s \<noteq> u @ ''  '' @ v" and ne: "s \<noteq> []" and e: "hd s \<noteq> CHR '' ''" "last s \<noteq> CHR '' ''"
    using assms by (auto simp: plain_text_def)
  have nl: "CHR 0x0D \<notin> set s" "CHR 0x0A \<notin> set s" using cs by (auto simp: byte_def)
  have h: "strip_heading s = s"
    using mk(1) by (cases s) (auto simp: strip_heading_def)
  have sp: "\<forall>c \<in> set s. re_space c \<longrightarrow> c = CHR '' ''" using cs by (auto simp: re_space_def byte_def)
  have m: "map (\<lambda>c. if c = CHR 0x0A then CHR '' '' else c) s = s"
    using nl(2) by (intro map_idI) auto
  have "\<not> unicode_space [c]" if "c \<in> set s" "c \<noteq> CHR '' ''" for c
    using that cs byte_32 by (fastforce simp: unicode_space_ascii)
  then have "TrimSpace s = s"
    using cs ne e by (intro TrimSpace_id) auto
  then have "title_text s = s"
    using nl mk h m collapse_spaces_id [OF sp dbl]
    by (simp add: title_text_def normalize_newlines_id split_byte_id strip_marks_id)
  moreover have "runes s = map (\<lambda>c. [c]) s" using cs by (intro runes_ascii) auto
  moreover have "concat (map rune_string (take 60 (map (\<lambda>c. [c]) s))) = take 60 s"
  proof -
    have take: "\<forall>c \<in> set (take 60 s). byte c < 128" using cs by (meson in_set_takeD)
    have "map rune_string (map (\<lambda>c. [c]) (take 60 s)) = map (\<lambda>c. [c]) (take 60 s)"
      using take by (auto simp: rune_string_def rune_width_def in_range_def)
    then show ?thesis by (simp only: take_map concat_map_singleton) (simp add: take_map)
  qed
  ultimately show ?thesis using ne by (simp add: generateTitle_def)
qed

theorem title_of_plain_text_witness:
  "generateTitle ''Hello world'' = ''Hello world'' \<and>
   generateTitle (replicate 70 (CHR ''a'')) = replicate 60 (CHR ''a'') @ ''...''"
proof -
  have "plain_text ''Hello world''"
    by (auto simp: plain_text_def byte_def Cons_eq_append_conv)
  moreover have "plain_text (replicate 70 (CHR ''a''))"
  proof -
    have "replicate 70 (CHR ''a'') \<noteq> u @ ''  '' @ v" for u v
    proof
      assume "replicate 70 (CHR ''a'') = u @ ''  '' @ v"
      then have "CHR '' '' \<in> set (replicate 70 (CHR ''a''))" by simp
      then show False by simp
    qed
    then show ?thesis by (auto simp: plain_text_def byte_def)
  qed
  ultimately show ?thesis
    using title_of_plain_text [of "''Hello world''"] title_of_plain_text [of "replicate 70 (CHR ''a'')"]
    by simp
qed

theorem title_bounds_witness:
  "generateTitle (replicate 70 (CHR ''a'')) \<noteq> [] \<and> CHR 0x0A \<notin> set (generateTitle (replicate 70 (CHR ''a'')))"
  using title_bounds [of "replicate 70 (CHR ''a'')"] by blast

end
