(* ===== verification/MessageService.thy ===== *)
theory MessageService
  imports Repository SessionManager Title
begin

text \<open>
  \<^verbatim>\<open>internal/api/message_service.go\<close>: from the events of an execution to the stored assistant
  message, and from the stored messages to the next execution request.

  A Go slice that was never appended to is \<^verbatim>\<open>nil\<close>, which JSON writes as \<^verbatim>\<open>null\<close>: \<open>slice_json\<close>.
  \<open>executeAndPersist\<close> is one run of the goroutine.  The aggregator's lock makes each \<^verbatim>\<open>Handle\<close> and
  each \<^verbatim>\<open>Snapshot\<close> atomic, so a firing of the batch ticker is determined by how many events were
  handled before it: \<open>ticks\<close> lists these numbers, for any schedule of the ticker.  The batch writes
  touch the assistant's row only and are made after the provider's own steps.  \<open>None\<close> means that the
  provider never returned.  Panics, which the code recovers from, do not occur here.
\<close>

section \<open>The aggregator\<close>

record tool_call =
  tc_ToolUseId :: string
  tc_ToolName :: string
  tc_InputJson :: string
  tc_Result :: "string option"

record stream_aggregator =
  sa_contentBlocks :: "json gomap list"
  sa_toolCalls :: "tool_call list"
  sa_assistantContent :: string
  sa_thinkingContent :: string
  sa_thinkingBlocks :: "string list"
  sa_modelName :: string
  sa_costUSD :: rat
  sa_durationMs :: "64 word"
  sa_hookEvents :: "json list"

definition new_aggregator :: stream_aggregator where
  "new_aggregator = \<lparr>sa_contentBlocks = [], sa_toolCalls = [], sa_assistantContent = [],
     sa_thinkingContent = [], sa_thinkingBlocks = [], sa_modelName = [], sa_costUSD = 0,
     sa_durationMs = 0, sa_hookEvents = []\<rparr>"

definition result_text :: "json \<Rightarrow> string" where
  "result_text content =
     (case content of
        JStr s \<Rightarrow> s
      | JArr (JObj m # _) \<Rightarrow> as_string (gomap_get m ''text'')
      | _ \<Rightarrow> [])"

definition truncate_result :: "nat \<Rightarrow> string \<Rightarrow> string" where
  "truncate_result maxLen text =
     (if length text > maxLen then take maxLen text @ ''...[truncated]'' else text)"

fun set_result :: "string \<Rightarrow> string \<Rightarrow> tool_call list \<Rightarrow> tool_call list" where
  "set_result toolUseID text [] = []"
| "set_result toolUseID text (c # cs) =
     (if tc_ToolUseId c = toolUseID then c\<lparr>tc_Result := Some text\<rparr> # cs
      else c # set_result toolUseID text cs)"

definition attachToolResult ::
    "string \<Rightarrow> json \<Rightarrow> nat \<Rightarrow> stream_aggregator \<Rightarrow> stream_aggregator" where
  "attachToolResult toolUseID content maxLen a =
     a\<lparr>sa_toolCalls := set_result toolUseID (truncate_result maxLen (result_text content)) (sa_toolCalls a)\<rparr>"

record cb_inner =
  ci_Type :: string
  ci_ID :: string
  ci_Name :: string

definition cb_inner_field :: "string \<Rightarrow> json \<Rightarrow> cb_inner \<Rightarrow> cb_inner option" where
  "cb_inner_field k v c =
     (if k = ''type'' then map_option (\<lambda>x. c\<lparr>ci_Type := x\<rparr>) (dec_string v (ci_Type c))
      else if k = ''id'' then map_option (\<lambda>x. c\<lparr>ci_ID := x\<rparr>) (dec_string v (ci_ID c))
      else if k = ''name'' then map_option (\<lambda>x. c\<lparr>ci_Name := x\<rparr>) (dec_string v (ci_Name c))
      else Some c)"

definition map_index :: "string gomap \<Rightarrow> string \<Rightarrow> string" where
  "map_index m k = (case gomap_get m k of Some s \<Rightarrow> s | None \<Rightarrow> [])"

definition append_last :: "string \<Rightarrow> string list \<Rightarrow> string list" where
  "append_last s xs = butlast xs @ [last xs @ s]"

definition handleStreamEvent :: "stream_event \<Rightarrow> stream_aggregator \<Rightarrow> stream_aggregator" where
  "handleStreamEvent event a =
     (case Option.bind (se_Event event) (\<lambda>v. dec_struct inner_event_field v zero_inner_event) of
        None \<Rightarrow> a
      | Some inner \<Rightarrow>
          if ie_Type inner = ''content_block_start'' then
            (case Option.bind (ie_ContentBlock inner)
                    (\<lambda>v. dec_struct cb_inner_field v \<lparr>ci_Type = [], ci_ID = [], ci_Name = []\<rparr>) of
               None \<Rightarrow> a
             | Some cb \<Rightarrow>
                 if ci_Type cb = ''tool_use'' \<and> ci_Name cb \<noteq> []
                 then a\<lparr>sa_toolCalls := sa_toolCalls a @
                        [\<lparr>tc_ToolUseId = ci_ID cb, tc_ToolName = ci_Name cb, tc_InputJson = [],
                          tc_Result = None\<rparr>]\<rparr>
                 else a)
          else if ie_Type inner = ''content_block_delta'' then
            (case Option.bind (ie_Delta inner) (\<lambda>v. dec_map dec_string [] v []) of
               None \<Rightarrow> a
             | Some delta \<Rightarrow>
                 if map_index delta ''type'' = ''thinking_delta'' then
                   (if map_index delta ''thinking'' \<noteq> []
                    then a\<lparr>sa_thinkingBlocks :=
                           append_last (map_index delta ''thinking'')
                             (if sa_thinkingBlocks a = [] then [[]] else sa_thinkingBlocks a)\<rparr>
                    else a)
                 else if map_index delta ''type'' = ''input_json_delta'' then
                   (if map_index delta ''partial_json'' \<noteq> [] \<and> sa_toolCalls a \<noteq> []
                    then a\<lparr>sa_toolCalls := butlast (sa_toolCalls a) @
                           [(last (sa_toolCalls a))\<lparr>tc_InputJson :=
                              tc_InputJson (last (sa_toolCalls a)) @ map_index delta ''partial_json''\<rparr>]\<rparr>
                    else a)
                 else a)
          else a)"

definition handle_block :: "content_block \<Rightarrow> stream_aggregator \<Rightarrow> stream_aggregator" where
  "handle_block block a =
     (if cb_Type block = ''thinking'' \<and> cb_Thinking block \<noteq> [] then
        a\<lparr>sa_contentBlocks := sa_contentBlocks a @
            [[(''type'', JStr ''thinking''), (''content'', JStr (cb_Thinking block))]],
          sa_thinkingContent := sa_thinkingContent a @ cb_Thinking block\<rparr>
      else if cb_Type block = ''text'' \<and> cb_Text block \<noteq> [] then
        a\<lparr>sa_contentBlocks := sa_contentBlocks a @
            [[(''type'', JStr ''text''), (''content'', JStr (cb_Text block))]],
          sa_assistantContent := sa_assistantContent a @ cb_Text block\<rparr>
      else if cb_Type block = ''tool_use'' \<and> cb_ID block \<noteq> [] then
        a\<lparr>sa_contentBlocks := sa_contentBlocks a @
            [[(''type'', JStr ''tool_use''), (''tool_use_id'', JStr (cb_ID block))]]\<rparr>
      else if cb_Type block = ''tool_result'' then
        attachToolResult (cb_ToolUseID block) (cb_Content block) 1000 a
      else a)"

definition handle_user_block :: "content_block \<Rightarrow> stream_aggregator \<Rightarrow> stream_aggregator" where
  "handle_user_block block a =
     (if cb_Type block = ''tool_result''
      then attachToolResult (cb_ToolUseID block) (cb_Content block) 2000 a else a)"

definition hook_event_json :: "stream_event \<Rightarrow> json" where
  "hook_event_json event =
     JObj [(''subtype'', JStr (se_SubType event)), (''hook_id'', JStr (se_HookID event)),
           (''hook_name'', JStr (se_HookName event)), (''hook_event'', JStr (se_HookEvent event))]"

definition Handle :: "stream_event \<Rightarrow> stream_aggregator \<Rightarrow> stream_aggregator" where
  "Handle event a =
     (if se_Type event = ''assistant'' then
        (case se_Message event of None \<Rightarrow> a | Some blocks \<Rightarrow> fold handle_block blocks a)
      else if se_Type event = ''user'' then
        (case se_Message event of None \<Rightarrow> a | Some blocks \<Rightarrow> fold handle_user_block blocks a)
      else if se_Type event = ''system'' then
        (if se_SubType event = ''init'' then
           (if se_Model event \<noteq> [] then a\<lparr>sa_modelName := se_Model event\<rparr> else a)
         else if se_SubType event \<in> {''hook_started'', ''hook_response'', ''notification'', ''status''} then
           a\<lparr>sa_hookEvents := sa_hookEvents a @ [hook_event_json event]\<rparr>
         else a)
      else if se_Type event = ''stream_event'' then handleStreamEvent event a
      else if se_Type event = ''result'' then
        a\<lparr>sa_costUSD := se_CostUSD event, sa_durationMs := se_DurationMs event\<rparr>
      else a)"

definition slice_json :: "json list \<Rightarrow> json" where
  "slice_json xs = (if xs = [] then JNull else JArr xs)"

definition blocks_json :: "json gomap list \<Rightarrow> json" where
  "blocks_json bs = slice_json (map JObj bs)"

text \<open>The result of a tool call may have been cut in the middle of a rune; the other texts of the
  aggregator were decoded from JSON.\<close>

definition tool_call_json :: "tool_call \<Rightarrow> json" where
  "tool_call_json c = JObj (
     [(''input_json'', enc_string (tc_InputJson c))] @ omit_nil ''result'' enc_string (tc_Result c) @
     [(''tool_name'', enc_string (tc_ToolName c)), (''tool_use_id'', enc_string (tc_ToolUseId c))])"

definition calls_json :: "tool_call list \<Rightarrow> json" where
  "calls_json cs = slice_json (map tool_call_json cs)"

definition Snapshot :: "stream_aggregator \<Rightarrow> json \<times> json" where
  "Snapshot a = (blocks_json (sa_contentBlocks a), calls_json (sa_toolCalls a))"

definition Finalize :: "stream_aggregator \<Rightarrow> string \<Rightarrow> json \<times> json gomap \<times> string" where
  "Finalize a newSessionID =
     (blocks_json (sa_contentBlocks a),
      [(''session_id'', JStr newSessionID)] @
      (if sa_assistantContent a \<noteq> [] then [(''content'', JStr (sa_assistantContent a))] else []) @
      (if length (sa_thinkingBlocks a) > 0 then [(''thinking'', enc_strings (sa_thinkingBlocks a))]
       else if sa_thinkingContent a \<noteq> [] then [(''thinking'', enc_strings [sa_thinkingContent a])]
       else []) @
      (if sa_modelName a \<noteq> [] then [(''model'', JStr (sa_modelName a))] else []) @
      (if sa_costUSD a > 0 then [(''cost_usd'', JNum (sa_costUSD a))] else []) @
      (if sint (sa_durationMs a) > 0 then [(''duration_ms'', enc_int (sa_durationMs a))] else []) @
      (if length (sa_hookEvents a) > 0 then [(''hook_events'', JArr (sa_hookEvents a))] else []) @
      (if length (sa_toolCalls a) > 0 then [(''tool_calls'', calls_json (sa_toolCalls a))] else []),
      sa_assistantContent a)"

section \<open>The next request\<close>

fun find_resume :: "message list \<Rightarrow> string" where
  "find_resume [] = []"
| "find_resume (m # ms) =
     (if msg_role m \<noteq> ''assistant'' then find_resume ms
      else if as_string (gomap_get (msg_data m) ''session_id'') \<noteq> []
      then as_string (gomap_get (msg_data m) ''session_id'')
      else find_resume ms)"

definition findResumeSessionID :: "message list \<Rightarrow> string" where
  "findResumeSessionID history = find_resume (rev history)"

definition block_text :: "json \<Rightarrow> string" where
  "block_text cb =
     (case cb of
        JObj block \<Rightarrow>
          if gomap_get block ''type'' = Some (JStr ''text'')
          then as_string (gomap_get block ''content'') else []
      | _ \<Rightarrow> [])"

definition history_content :: "message \<Rightarrow> string" where
  "history_content m =
     (if msg_role m = ''user'' then as_string (gomap_get (msg_data m) ''content'')
      else if msg_role m = ''assistant'' then
        (case gomap_get (msg_data m) ''content_blocks'' of
           Some (JArr cbs) \<Rightarrow> concat (map block_text cbs)
         | _ \<Rightarrow> [])
      else [])"

definition buildConversationHistory :: "message list \<Rightarrow> chat_message list" where
  "buildConversationHistory history =
     map (\<lambda>m. \<lparr>cm_role = msg_role m, cm_content = history_content m\<rparr>) history"

definition buildExecuteRequest ::
    "string \<Rightarrow> string \<Rightarrow> conversation \<Rightarrow> message list \<Rightarrow> string \<Rightarrow> exec_request" where
  "buildExecuteRequest prompt convIDStr conv history credJSON =
     \<lparr>er_Prompt = prompt, er_SessionID = findResumeSessionID history,
      er_ConversationID = convIDStr, er_Model = conv_model conv,
      er_SystemPrompt = (case conv_system_prompt conv of None \<Rightarrow> [] | Some p \<Rightarrow> p),
      er_ConversationHistory = buildConversationHistory history,
      er_IncludePartialMessages = True, er_IncludeHookEvents = True, er_Credentials = credJSON\<rparr>"

section \<open>Executing and persisting\<close>

definition aggregate :: "stream_event list \<Rightarrow> stream_aggregator" where
  "aggregate es = fold Handle es new_aggregator"

definition batch_tick :: "string \<Rightarrow> stream_aggregator \<Rightarrow> 'z pgdb_scheme \<Rightarrow> 'z pgdb_scheme" where
  "batch_tick assistantMsgID agg d =
     (case Snapshot agg of (blocks, calls) \<Rightarrow>
        snd (MergeMessageData assistantMsgID [(''tool_calls'', calls)]
          (snd (UpdateMessageContentBlocks assistantMsgID blocks d))))"

definition run_ticks ::
    "string \<Rightarrow> stream_event list \<Rightarrow> nat list \<Rightarrow> 'z pgdb_scheme \<Rightarrow> 'z pgdb_scheme" where
  "run_ticks assistantMsgID es ticks d =
     fold (\<lambda>k. batch_tick assistantMsgID (aggregate (take k es))) ticks d"

definition final_writes ::
    "string \<Rightarrow> string \<Rightarrow> stream_aggregator \<Rightarrow> string \<Rightarrow> 'z pgdb_scheme \<Rightarrow> 'z pgdb_scheme" where
  "final_writes convIDStr assistantMsgID agg newSessionID d =
     (case Finalize agg newSessionID of (finalBlocks, extra, assistantText) \<Rightarrow>
        let d = snd (UpdateMessageContentBlocks assistantMsgID finalBlocks d);
            d = snd (MergeMessageData assistantMsgID extra d);
            d = snd (UpdateMessageStatus assistantMsgID ''completed'' d);
            d = (if assistantText \<noteq> []
                 then snd (UpdateConversationTitle convIDStr (generateTitle assistantText) d) else d)
        in snd (UpdateConversationUpdatedAt convIDStr d))"

definition executeAndPersist ::
    "'z pgdb_scheme exec_provider \<Rightarrow> exec_request \<Rightarrow> string \<Rightarrow> string \<Rightarrow> nat list \<Rightarrow>
     'z pgdb_scheme \<Rightarrow> 'z pgdb_scheme option" where
  "executeAndPersist p executeReq convIDStr assistantMsgID ticks d =
     (let d = snd (UpdateConversationStatus convIDStr ''running'' d) in
      case xp_Execute p executeReq d of
        None \<Rightarrow> None
      | Some ((res, es), d) \<Rightarrow>
          let d = run_ticks assistantMsgID es ticks d;
              d = (case res of
                     Inl err \<Rightarrow> snd (UpdateMessageStatus assistantMsgID ''error'' d)
                   | Inr newSessionID \<Rightarrow> final_writes convIDStr assistantMsgID (aggregate es) newSessionID d)
          in Some (snd (UpdateConversationStatus convIDStr ''completed'' d)))"

end
