(* ===== verification/ApiServer.thy ===== *)
theory ApiServer
  imports Credential MessageService
begin

text \<open>
  cc-tunnel's HTTP API: the handlers of \<^verbatim>\<open>apps/cc-tunnel/internal/api\<close> (\<^verbatim>\<open>handler.go\<close>,
  \<^verbatim>\<open>helpers.go\<close>, \<^verbatim>\<open>mapping.go\<close>, \<^verbatim>\<open>app_session.go\<close>, \<^verbatim>\<open>app_auth_handler.go\<close>,
  \<^verbatim>\<open>conversation_handler.go\<close>, \<^verbatim>\<open>credentials_handler.go\<close>, \<^verbatim>\<open>auth_handler.go\<close>,
  \<^verbatim>\<open>message_handler.go\<close>) with the types, parameter binding and routes of \<^verbatim>\<open>gen.go\<close>.

  The world is the database with the credentials table, the source of randomness and, as its own
  part, the token map of \<^verbatim>\<open>AppSession\<close>, whose lock makes each access atomic; the execution
  provider acts on the same world and may keep more in it.  A handler gives the response it wrote
  and the world; \<open>SendMessage\<close> also gives the goroutine it starts, as the arguments of
  \<open>executeAndPersist\<close>.  \<open>parse_uuid\<close> is \<^verbatim>\<open>uuid.Parse\<close> followed by \<^verbatim>\<open>String\<close>, \<open>time_text\<close> the JSON
  text of a time, \<open>new_uuid\<close> the n-th value of \<^verbatim>\<open>uuid.New\<close>.
\<close>

record app_user =
  au_Id :: string
  au_Name :: string

record api_state = cred_db +
  st_session :: "app_user gomap"
  st_uuids_drawn :: nat

record 'w credential_service =
  cs_FetchAndDecrypt :: "string \<Rightarrow> ('w, string) call"
  cs_MarkInvalid :: "string \<Rightarrow> ('w, unit) call"

record 'w server =
  sv_provider :: "'w exec_provider"
  sv_net :: "'w agent_net"
  sv_credService :: "'w credential_service option"
  sv_credStorer :: "(string \<Rightarrow> string \<Rightarrow> ('w, unit) call) option"
  sv_parse_uuid :: "string \<Rightarrow> string option"
  sv_time_text :: "int \<Rightarrow> string"
  sv_new_uuid :: "nat \<Rightarrow> string"

definition nil_uuid :: string where
  "nil_uuid = ''00000000-0000-0000-0000-000000000000''"

definition NewHandler ::
    "'w exec_provider \<Rightarrow> 'w agent_net \<Rightarrow> (string \<Rightarrow> string option) \<Rightarrow> (int \<Rightarrow> string) \<Rightarrow> (nat \<Rightarrow> string) \<Rightarrow>
     'w server" where
  "NewHandler p n pu tt nu = \<lparr>sv_provider = p, sv_net = n, sv_credService = None, sv_credStorer = None,
     sv_parse_uuid = pu, sv_time_text = tt, sv_new_uuid = nu\<rparr>"

definition NewHandlerWithCredentials ::
    "'w exec_provider \<Rightarrow> 'w agent_net \<Rightarrow> (string \<Rightarrow> string option) \<Rightarrow> (int \<Rightarrow> string) \<Rightarrow> (nat \<Rightarrow> string) \<Rightarrow>
     'w credential_service \<Rightarrow> 'w server" where
  "NewHandlerWithCredentials p n pu tt nu credSvc = (NewHandler p n pu tt nu)\<lparr>sv_credService := Some credSvc\<rparr>"

definition NewHandlerFull ::
    "'w exec_provider \<Rightarrow> 'w agent_net \<Rightarrow> (string \<Rightarrow> string option) \<Rightarrow> (int \<Rightarrow> string) \<Rightarrow> (nat \<Rightarrow> string) \<Rightarrow>
     'w credential_service \<Rightarrow> (string \<Rightarrow> string \<Rightarrow> ('w, unit) call) \<Rightarrow> 'w server" where
  "NewHandlerFull p n pu tt nu credSvc credStore =
     (NewHandler p n pu tt nu)\<lparr>sv_credService := Some credSvc, sv_credStorer := Some credStore\<rparr>"

text \<open>\<^verbatim>\<open>CredentialService\<close> behind the interfaces of the handlers.\<close>

definition credential_service_of :: "encryptor \<Rightarrow> ('z cred_db_scheme) credential_service" where
  "credential_service_of e =
     \<lparr>cs_FetchAndDecrypt = FetchAndDecrypt e, cs_MarkInvalid = CredService_MarkInvalid\<rparr>"

section \<open>Responses\<close>

definition writeJSON :: "int \<Rightarrow> json \<Rightarrow> http_response" where
  "writeJSON code v = json_response code v"

definition writeError :: "int \<Rightarrow> string \<Rightarrow> http_response" where
  "writeError code m = writeJSON code (JObj [(''error'', JStr m)])"

definition app_auth_error :: http_response where
  "app_auth_error = writeJSON 401 (JObj [(''message'', JStr ''unauthorized'')])"

definition app_user_json :: "app_user \<Rightarrow> json" where
  "app_user_json u = JObj [(''id'', JStr (au_Id u)), (''name'', JStr (au_Name u))]"

definition uuid_of :: "'w server \<Rightarrow> string \<Rightarrow> string" where
  "uuid_of h s = (case sv_parse_uuid h s of Some u \<Rightarrow> u | None \<Rightarrow> nil_uuid)"

definition newConversation :: "'w server \<Rightarrow> conversation \<Rightarrow> json" where
  "newConversation h c = JObj (
     [(''created_at'', JStr (sv_time_text h (conv_created_at c))), (''id'', JStr (uuid_of h (conv_id c))),
      (''model'', JStr (conv_model c)), (''status'', JStr (conv_status c))] @
     omit_nil ''system_prompt'' JStr (conv_system_prompt c) @
     [(''title'', JStr (conv_title c)), (''updated_at'', JStr (sv_time_text h (conv_updated_at c)))])"

definition newMessage :: "'w server \<Rightarrow> message \<Rightarrow> json" where
  "newMessage h m = JObj (
     [(''conversation_id'', JStr (uuid_of h (msg_conversation_id m))),
      (''created_at'', JStr (sv_time_text h (msg_created_at m))), (''id'', JStr (uuid_of h (msg_id m)))] @
     (if length (msg_data m) > 0 then [(''message_data'', JObj (msg_data m))] else []) @
     [(''role'', JStr (msg_role m))] @
     (if msg_status m \<noteq> [] then [(''status'', JStr (msg_status m))] else []))"

definition newConversationDetail :: "'w server \<Rightarrow> conversation \<Rightarrow> message list \<Rightarrow> json" where
  "newConversationDetail h conv msgs = JObj (
     [(''created_at'', JStr (sv_time_text h (conv_created_at conv))),
      (''id'', JStr (uuid_of h (conv_id conv))),
      (''messages'', JArr (map (newMessage h) msgs)),
      (''model'', JStr (conv_model conv)), (''status'', JStr (conv_status conv))] @
     omit_nil ''system_prompt'' JStr (conv_system_prompt conv) @
     [(''title'', JStr (conv_title conv)), (''updated_at'', JStr (sv_time_text h (conv_updated_at conv)))])"

section \<open>Application sessions\<close>

definition session_set :: "string \<Rightarrow> app_user \<Rightarrow> 'z api_state_scheme \<Rightarrow> 'z api_state_scheme" where
  "session_set token user w = w\<lparr>st_session := gomap_set (st_session w) token user\<rparr>"

definition session_get :: "string \<Rightarrow> 'z api_state_scheme \<Rightarrow> app_user option" where
  "session_get token w = gomap_get (st_session w) token"

definition session_delete :: "string \<Rightarrow> 'z api_state_scheme \<Rightarrow> 'z api_state_scheme" where
  "session_delete token w = w\<lparr>st_session := gomap_delete (st_session w) token\<rparr>"

interpretation app_session:
  keyed_store "\<lambda>_. True" "\<lambda>w t. session_get t w" session_set session_delete
  by unfold_locales (simp_all add: session_get_def session_set_def session_delete_def)

definition bearerToken :: "http_request \<Rightarrow> string option" where
  "bearerToken r =
     (case cut_prefix (rq_authorization r) ''Bearer '' of
        (token, found) \<Rightarrow> if \<not> found \<or> token = [] then None else Some token)"

text \<open>\<open>Inl\<close> is the response with which the request is refused.\<close>

definition requireAppAuthIfEnabled ::
    "('z api_state_scheme) server \<Rightarrow> http_request \<Rightarrow> 'z api_state_scheme \<Rightarrow> http_response + app_user" where
  "requireAppAuthIfEnabled h r w =
     (if sv_credService h = None then Inr \<lparr>au_Id = [], au_Name = []\<rparr>
      else
        (case bearerToken r of
           None \<Rightarrow> Inl (writeError 401 ''unauthorized'')
         | Some token \<Rightarrow>
             (case session_get token w of
                None \<Rightarrow> Inl app_auth_error
              | Some user \<Rightarrow> Inr user)))"

text \<open>\<^verbatim>\<open>hex.EncodeToString\<close>.\<close>

definition hex_encode :: "string \<Rightarrow> string" where
  "hex_encode bs = concat (map (\<lambda>c. let k = of_char c :: nat in [hex_digit (k div 16), hex_digit (k mod 16)]) bs)"

definition string_field :: "string \<Rightarrow> string \<Rightarrow> json \<Rightarrow> string \<Rightarrow> string option" where
  "string_field name k v s = (if k = name then dec_string v s else Some s)"

definition AppAuthLogin ::
    "('z api_state_scheme) server \<Rightarrow> http_request \<Rightarrow> 'z api_state_scheme \<Rightarrow> http_response \<times> 'z api_state_scheme" where
  "AppAuthLogin h r w =
     (case decode_struct (string_field ''username'') [] (rq_body r) of
        Inl err \<Rightarrow> (writeError 400 ''invalid request body'', w)
      | Inr username \<Rightarrow>
          if username = [] then (writeError 400 ''username is required'', w)
          else
            (case rand_Read 32 w of
               (Inl err, w) \<Rightarrow> (writeError 500 ''failed to generate token'', w)
             | (Inr tokenBytes, w) \<Rightarrow>
                 let token = hex_encode tokenBytes;
                     user = \<lparr>au_Id = sv_new_uuid h (st_uuids_drawn w), au_Name = username\<rparr>;
                     w = session_set token user (w\<lparr>st_uuids_drawn := Suc (st_uuids_drawn w)\<rparr>)
                 in (writeJSON 200 (JObj [(''token'', JStr token), (''user'', app_user_json user)]), w)))"

definition AppAuthLogout :: "http_request \<Rightarrow> 'z api_state_scheme \<Rightarrow> http_response \<times> 'z api_state_scheme" where
  "AppAuthLogout r w =
     (case bearerToken r of
        None \<Rightarrow> (app_auth_error, w)
      | Some token \<Rightarrow> (status_response 204, session_delete token w))"

definition AppAuthGetMe :: "http_request \<Rightarrow> 'z api_state_scheme \<Rightarrow> http_response \<times> 'z api_state_scheme" where
  "AppAuthGetMe r w =
     (case bearerToken r of
        None \<Rightarrow> (app_auth_error, w)
      | Some token \<Rightarrow>
          (case session_get token w of
             None \<Rightarrow> (app_auth_error, w)
           | Some user \<Rightarrow> (writeJSON 200 (JObj [(''user'', app_user_json user)]), w)))"

text \<open>
  \<^verbatim>\<open>AppAuthUpdateMe\<close> looks the user up, reads and decodes the body, and only then writes the session: the
  store is locked for each of the two, not between them.  The first part gives the token and the
  user found, or the refusal; \<open>AppAuthUpdateMe\<close> is both parts with nothing in between.
\<close>

definition update_me_get ::
    "http_request \<Rightarrow> 'z api_state_scheme \<Rightarrow> http_response + (string \<times> app_user)" where
  "update_me_get r w =
     (case bearerToken r of
        None \<Rightarrow> Inl app_auth_error
      | Some token \<Rightarrow>
          (case session_get token w of
             None \<Rightarrow> Inl app_auth_error
           | Some user \<Rightarrow> Inr (token, user)))"

definition update_me_set ::
    "http_request \<Rightarrow> string \<times> app_user \<Rightarrow> 'z api_state_scheme \<Rightarrow> http_response \<times> 'z api_state_scheme" where
  "update_me_set r found w =
     (case found of (token, user) \<Rightarrow>
        (case decode_struct (string_field ''nickname'') [] (rq_body r) of
           Inl err \<Rightarrow> (writeError 400 ''invalid request body'', w)
         | Inr nickname \<Rightarrow>
             let user = user\<lparr>au_Name := nickname\<rparr> in
             (writeJSON 200 (JObj [(''user'', app_user_json user)]), session_set token user w)))"

definition AppAuthUpdateMe :: "http_request \<Rightarrow> 'z api_state_scheme \<Rightarrow> http_response \<times> 'z api_state_scheme" where
  "AppAuthUpdateMe r w =
     (case update_me_get r w of Inl resp \<Rightarrow> (resp, w) | Inr found \<Rightarrow> update_me_set r found w)"

lemmas update_me_defs = AppAuthUpdateMe_def update_me_get_def update_me_set_def

section \<open>Conversations\<close>

record create_conversation_request =
  ccr_ExecutionMode :: "string option"
  ccr_Model :: "string option"
  ccr_SystemPrompt :: "string option"
  ccr_Title :: "string option"

definition create_conversation_field ::
    "string \<Rightarrow> json \<Rightarrow> create_conversation_request \<Rightarrow> create_conversation_request option" where
  "create_conversation_field k v r =
     (if k = ''execution_mode'' then
        map_option (\<lambda>x. r\<lparr>ccr_ExecutionMode := x\<rparr>) (dec_ptr dec_string [] v (ccr_ExecutionMode r))
      else if k = ''model'' then map_option (\<lambda>x. r\<lparr>ccr_Model := x\<rparr>) (dec_ptr dec_string [] v (ccr_Model r))
      else if k = ''system_prompt'' then
        map_option (\<lambda>x. r\<lparr>ccr_SystemPrompt := x\<rparr>) (dec_ptr dec_string [] v (ccr_SystemPrompt r))
      else if k = ''title'' then map_option (\<lambda>x. r\<lparr>ccr_Title := x\<rparr>) (dec_ptr dec_string [] v (ccr_Title r))
      else Some r)"

text \<open>A server-side \<^verbatim>\<open>r.Body\<close> is never \<^verbatim>\<open>nil\<close>: an empty body is decoded, and refused.\<close>

definition Server_CreateConversation ::
    "('z api_state_scheme) server \<Rightarrow> http_request \<Rightarrow> 'z api_state_scheme \<Rightarrow> http_response \<times> 'z api_state_scheme" where
  "Server_CreateConversation h r w =
     (case requireAppAuthIfEnabled h r w of
        Inl resp \<Rightarrow> (resp, w)
      | Inr _ \<Rightarrow>
          (case decode_struct create_conversation_field
                  \<lparr>ccr_ExecutionMode = None, ccr_Model = None, ccr_SystemPrompt = None, ccr_Title = None\<rparr>
                  (rq_body r) of
             Inl err \<Rightarrow> (writeError 400 ''invalid request body'', w)
           | Inr req \<Rightarrow>
               let title = (case ccr_Title req of Some t \<Rightarrow> t | None \<Rightarrow> []);
                   model = (case ccr_Model req of Some m \<Rightarrow> m | None \<Rightarrow> ''claude-sonnet-4-6'')
               in case CreateConversation title model (ccr_SystemPrompt req) w of
                    (Inl err, w) \<Rightarrow> (writeError 500 (error_string err), w)
                  | (Inr conv, w) \<Rightarrow> (writeJSON 201 (newConversation h conv), w)))"

definition Server_ListConversations ::
    "('z api_state_scheme) server \<Rightarrow> http_request \<Rightarrow> 'z api_state_scheme \<Rightarrow> http_response \<times> 'z api_state_scheme" where
  "Server_ListConversations h r w =
     (case requireAppAuthIfEnabled h r w of
        Inl resp \<Rightarrow> (resp, w)
      | Inr _ \<Rightarrow>
          (case ListConversations w of
             (Inl err, w) \<Rightarrow> (writeError 500 (error_string err), w)
           | (Inr convs, w) \<Rightarrow> (writeJSON 200 (JArr (map (newConversation h) convs)), w)))"

definition Server_GetConversation ::
    "('z api_state_scheme) server \<Rightarrow> http_request \<Rightarrow> string \<Rightarrow> 'z api_state_scheme \<Rightarrow>
     http_response \<times> 'z api_state_scheme" where
  "Server_GetConversation h r conversationId w =
     (case requireAppAuthIfEnabled h r w of
        Inl resp \<Rightarrow> (resp, w)
      | Inr _ \<Rightarrow>
          (case GetConversation conversationId w of
             (Inl err, w) \<Rightarrow> (writeError 404 ''conversation not found'', w)
           | (Inr conv, w) \<Rightarrow>
               (case ListMessages conversationId w of
                  (Inl err, w) \<Rightarrow> (writeError 500 (error_string err), w)
                | (Inr msgs, w) \<Rightarrow> (writeJSON 200 (newConversationDetail h conv msgs), w))))"

definition Server_DeleteConversation ::
    "('z api_state_scheme) server \<Rightarrow> http_request \<Rightarrow> string \<Rightarrow> 'z api_state_scheme \<Rightarrow>
     http_response \<times> 'z api_state_scheme" where
  "Server_DeleteConversation h r conversationId w =
     (case requireAppAuthIfEnabled h r w of
        Inl resp \<Rightarrow> (resp, w)
      | Inr _ \<Rightarrow>
          (case DeleteConversation conversationId w of
             (Inl err, w) \<Rightarrow> (writeError 404 ''conversation not found'', w)
           | (Inr _, w) \<Rightarrow> (writeJSON 200 (JObj [(''status'', JStr ''ok'')]), w)))"

section \<open>Credentials\<close>

definition credentials_status_json :: "bool \<Rightarrow> bool \<Rightarrow> json" where
  "credentials_status_json isValid registered =
     JObj [(''isValid'', JBool isValid), (''registered'', JBool registered)]"

definition GetCredentialsStatus ::
    "('z api_state_scheme) server \<Rightarrow> http_request \<Rightarrow> 'z api_state_scheme \<Rightarrow> http_response \<times> 'z api_state_scheme" where
  "GetCredentialsStatus h r w =
     (case sv_credService h of
        None \<Rightarrow> (writeJSON 200 (credentials_status_json True True), w)
      | Some svc \<Rightarrow>
          (case requireAppAuthIfEnabled h r w of
             Inl resp \<Rightarrow> (resp, w)
           | Inr user \<Rightarrow>
               (case cs_FetchAndDecrypt svc (au_Name user) w of
                  (Inr _, w) \<Rightarrow> (writeJSON 200 (credentials_status_json True True), w)
                | (Inl err, w) \<Rightarrow>
                    if errors_is err ''ErrNotFound''
                    then (writeJSON 200 (credentials_status_json False False), w)
                    else if errors_is err ''ErrCredentialsInvalid''
                    then (writeJSON 200 (credentials_status_json False True), w)
                    else (writeError 500 (error_string err), w))))"

text \<open>The bearer check of the relogin handlers, which holds in every mode.\<close>

definition relogin_user :: "http_request \<Rightarrow> 'z api_state_scheme \<Rightarrow> app_user option" where
  "relogin_user r w = (case bearerToken r of None \<Rightarrow> None | Some token \<Rightarrow> session_get token w)"

text \<open>A UUID member: its text must parse; absent or \<^verbatim>\<open>null\<close>, it stays the nil UUID.\<close>

definition dec_uuid :: "'w server \<Rightarrow> json \<Rightarrow> string \<Rightarrow> string option" where
  "dec_uuid h v old = (case v of JStr s \<Rightarrow> sv_parse_uuid h s | JNull \<Rightarrow> Some old | _ \<Rightarrow> None)"

definition conversation_id_field :: "'w server \<Rightarrow> string \<Rightarrow> json \<Rightarrow> string \<Rightarrow> string option" where
  "conversation_id_field h k v u = (if k = ''conversationid'' then dec_uuid h v u else Some u)"

definition PostReloginStart ::
    "('z api_state_scheme) server \<Rightarrow> http_request \<Rightarrow> 'z api_state_scheme \<Rightarrow>
     (http_response \<times> 'z api_state_scheme) option" where
  "PostReloginStart h r w =
     (case relogin_user r w of
        None \<Rightarrow> Some (writeError 401 ''unauthorized'', w)
      | Some _ \<Rightarrow>
          (case decode_struct (conversation_id_field h) nil_uuid (rq_body r) of
             Inl err \<Rightarrow> Some (writeError 400 ''invalid body'', w)
           | Inr convIDStr \<Rightarrow>
               if convIDStr = nil_uuid then Some (writeError 400 ''conversationId is required'', w)
               else
                 (case xp_PrepareForRelogin (sv_provider h) convIDStr w of
                    None \<Rightarrow> None
                  | Some (Inl err, w) \<Rightarrow> Some (writeError 500 (error_string err), w)
                  | Some (Inr _, w) \<Rightarrow>
                      Some (writeJSON 200 (JObj [(''ready'', JBool True)]),
                            snd (UpdateSessionEndpointLastActivity convIDStr w)))))"

definition PostReloginFinalize ::
    "('z api_state_scheme) server \<Rightarrow> http_request \<Rightarrow> 'z api_state_scheme \<Rightarrow> http_response \<times> 'z api_state_scheme" where
  "PostReloginFinalize h r w =
     (case relogin_user r w of
        None \<Rightarrow> (writeError 401 ''unauthorized'', w)
      | Some user \<Rightarrow>
          (case decode_struct (conversation_id_field h) nil_uuid (rq_body r) of
             Inl err \<Rightarrow> (writeError 400 ''invalid body'', w)
           | Inr convIDStr \<Rightarrow>
               if convIDStr = nil_uuid then (writeError 400 ''conversationId is required'', w)
               else
                 (case (case xp_PullCredentialsFromSession (sv_provider h) convIDStr w of
                          (Inl err, w) \<Rightarrow>
                            if errors_is err ''ErrCredentialsNotReady''
                            then (writeJSON 400 (JObj [(''error'',
                                    JStr ''credentials not ready, complete /auth/login first'')]), w)
                            else (writeError 502 (error_string err), w)
                        | (Inr credJSON, w) \<Rightarrow>
                            (case sv_credStorer h of
                               None \<Rightarrow> (writeError 500 ''credential storage not configured'', w)
                             | Some store \<Rightarrow>
                                 (case store (au_Name user) credJSON w of
                                    (Inl err, w) \<Rightarrow> (writeError 500 (error_string err), w)
                                  | (Inr _, w) \<Rightarrow> (writeJSON 200 (credentials_status_json True True), w)))) of
                    (resp, w) \<Rightarrow> (resp, snd (UpdateSessionEndpointLastActivity convIDStr w)))))"

section \<open>The login terminal of a session container\<close>

text \<open>\<open>getSessionClientOrRespond\<close>, \<open>Inl\<close> being the response already written.\<close>

definition getSessionClientOrRespond ::
    "'w server \<Rightarrow> string \<Rightarrow> 'w \<Rightarrow> (http_response + string) \<times> 'w" where
  "getSessionClientOrRespond h convID w =
     (case xp_GetSessionClient (sv_provider h) convID w of
        (Inl err, w) \<Rightarrow>
          (Inl (if errors_is err ''ErrSessionNotFound''
                then writeError 404 (''session not found for conversation '' @ convID)
                else writeError 500 (error_string err)), w)
      | (Inr client, w) \<Rightarrow> (Inr client, w))"

text \<open>Resolve the client, call it, answer 502 on failure: the shape of the proxied calls.\<close>

definition proxy_call ::
    "'w server \<Rightarrow> string \<Rightarrow> (string \<Rightarrow> ('w, 'a) call) \<Rightarrow> ('a \<Rightarrow> http_response) \<Rightarrow> 'w \<Rightarrow> http_response \<times> 'w" where
  "proxy_call h convID f answer w =
     (case getSessionClientOrRespond h convID w of
        (Inl resp, w) \<Rightarrow> (resp, w)
      | (Inr client, w) \<Rightarrow>
          (case f client w of
             (Inl err, w) \<Rightarrow> (writeError 502 (error_string err), w)
           | (Inr x, w) \<Rightarrow> (answer x, w)))"

definition Server_GetAuthStatus :: "'w server \<Rightarrow> string \<Rightarrow> 'w \<Rightarrow> http_response \<times> 'w" where
  "Server_GetAuthStatus h convID =
     proxy_call h convID (RC_GetAuthStatus (sv_net h)) (\<lambda>status. writeJSON 200 (auth_status_json status))"

record login_request =
  lq_ConversationId :: string
  lq_Method :: "string option"

definition login_request_field :: "'w server \<Rightarrow> string \<Rightarrow> json \<Rightarrow> login_request \<Rightarrow> login_request option" where
  "login_request_field h k v r =
     (if k = ''conversationid'' then
        map_option (\<lambda>x. r\<lparr>lq_ConversationId := x\<rparr>) (dec_uuid h v (lq_ConversationId r))
      else if k = ''method'' then
        map_option (\<lambda>x. r\<lparr>lq_Method := x\<rparr>) (dec_ptr dec_string [] v (lq_Method r))
      else Some r)"

definition Server_InitiateLogin :: "'w server \<Rightarrow> http_request \<Rightarrow> 'w \<Rightarrow> http_response \<times> 'w" where
  "Server_InitiateLogin h r w =
     (case decode_struct (login_request_field h) \<lparr>lq_ConversationId = nil_uuid, lq_Method = None\<rparr> (rq_body r) of
        Inl err \<Rightarrow> (writeError 400 ''invalid request body'', w)
      | Inr req \<Rightarrow>
          proxy_call h (lq_ConversationId req)
            (\<lambda>client. RC_InitiateLogin (sv_net h) client (case lq_Method req of Some m \<Rightarrow> m | None \<Rightarrow> []))
            (\<lambda>resp. writeJSON 200 (login_response_json resp)) w)"

definition Server_Logout :: "'w server \<Rightarrow> string \<Rightarrow> 'w \<Rightarrow> http_response \<times> 'w" where
  "Server_Logout h convID =
     proxy_call h convID (RC_Logout (sv_net h)) (\<lambda>status. writeJSON 200 (auth_status_json status))"

definition message_json :: "string \<Rightarrow> json" where
  "message_json m = JObj [(''message'', JStr m)]"

definition Server_CancelLogin :: "'w server \<Rightarrow> string \<Rightarrow> 'w \<Rightarrow> http_response \<times> 'w" where
  "Server_CancelLogin h convID =
     proxy_call h convID (RC_CancelLogin (sv_net h)) (\<lambda>m. writeJSON 200 (message_json m))"

record auth_input_request =
  aq_ConversationId :: string
  aq_Input :: string

definition auth_input_field :: "'w server \<Rightarrow> string \<Rightarrow> json \<Rightarrow> auth_input_request \<Rightarrow> auth_input_request option" where
  "auth_input_field h k v r =
     (if k = ''conversationid'' then
        map_option (\<lambda>x. r\<lparr>aq_ConversationId := x\<rparr>) (dec_uuid h v (aq_ConversationId r))
      else if k = ''input'' then map_option (\<lambda>x. r\<lparr>aq_Input := x\<rparr>) (dec_string v (aq_Input r))
      else Some r)"

definition Server_SubmitAuthPtyInput :: "'w server \<Rightarrow> http_request \<Rightarrow> 'w \<Rightarrow> http_response \<times> 'w" where
  "Server_SubmitAuthPtyInput h r w =
     (case decode_struct (auth_input_field h) \<lparr>aq_ConversationId = nil_uuid, aq_Input = []\<rparr> (rq_body r) of
        Inl err \<Rightarrow> (writeError 400 ''invalid request body'', w)
      | Inr req \<Rightarrow>
          proxy_call h (aq_ConversationId req)
            (\<lambda>client. RC_SubmitAuthInput (sv_net h) client (aq_Input req))
            (\<lambda>m. writeJSON 200 (message_json m)) w)"

text \<open>The stream is copied to the response as it comes, until a read or a write fails.\<close>

definition Server_GetAuthPtyStream :: "'w server \<Rightarrow> string \<Rightarrow> 'w \<Rightarrow> http_response \<times> 'w" where
  "Server_GetAuthPtyStream h convID =
     proxy_call h convID (\<lambda>client. RC_GetAuthPtyStream (sv_net h) client convID)
       (\<lambda>stream. \<lparr>rs_status = 200, rs_content_type = ''text/event-stream'', rs_body = stream\<rparr>)"

section \<open>Sending a message\<close>

definition redirect_json :: "string \<Rightarrow> string \<Rightarrow> string \<Rightarrow> json" where
  "redirect_json err reason convIDStr =
     JObj [(''error'', JStr err),
           (''redirect'', JStr (''/login/credentials?reason='' @ reason @ ''&conversationId='' @ convIDStr))]"

definition fetchCredentialOrRespond ::
    "('z api_state_scheme) server \<Rightarrow> http_request \<Rightarrow> string \<Rightarrow> 'z api_state_scheme \<Rightarrow>
     (http_response + string) \<times> 'z api_state_scheme" where
  "fetchCredentialOrRespond h r convIDStr w =
     (case sv_credService h of
        None \<Rightarrow> (Inr [], w)
      | Some svc \<Rightarrow>
          (case bearerToken r of
             None \<Rightarrow> (Inl (writeError 401 ''unauthorized''), w)
           | Some token \<Rightarrow>
               (case session_get token w of
                  None \<Rightarrow> (Inl app_auth_error, w)
                | Some user \<Rightarrow>
                    (case cs_FetchAndDecrypt svc (au_Name user) w of
                       (Inr credJSON, w) \<Rightarrow> (Inr credJSON, w)
                     | (Inl err, w) \<Rightarrow>
                         if errors_is err ''ErrNotFound''
                         then (Inl (writeJSON 401 (redirect_json ''credentials_required'' ''missing'' convIDStr)), w)
                         else if errors_is err ''ErrCredentialsInvalid''
                         then (Inl (writeJSON 401 (redirect_json ''credentials_invalid'' ''expired'' convIDStr)), w)
                         else (Inl (writeError 500 (error_string err)), w)))))"

type_synonym goroutine = "exec_request \<times> string \<times> string"

definition SendMessage ::
    "('z api_state_scheme) server \<Rightarrow> http_request \<Rightarrow> string \<Rightarrow> 'z api_state_scheme \<Rightarrow>
     (http_response \<times> goroutine option) \<times> 'z api_state_scheme" where
  "SendMessage h r convIDStr w =
     (case decode_struct (string_field ''content'') [] (rq_body r) of
        Inl err \<Rightarrow> ((writeError 400 ''invalid request body'', None), w)
      | Inr content \<Rightarrow>
          if content = [] then ((writeError 400 ''content is required'', None), w)
          else
            (case fetchCredentialOrRespond h r convIDStr w of
               (Inl resp, w) \<Rightarrow> ((resp, None), w)
             | (Inr credJSON, w) \<Rightarrow>
                 (case GetConversation convIDStr w of
                    (Inl err, w) \<Rightarrow> ((writeError 404 ''conversation not found'', None), w)
                  | (Inr conv, w) \<Rightarrow>
                      (case ListMessages convIDStr w of
                         (Inl err, w) \<Rightarrow> ((writeError 500 (error_string err), None), w)
                       | (Inr history, w) \<Rightarrow>
                           (case CreateMessage convIDStr ''user'' [(''content'', JStr content)] w of
                              (Inl err, w) \<Rightarrow> ((writeError 500 (error_string err), None), w)
                            | (Inr _, w) \<Rightarrow>
                                (case CreateStreamingMessage convIDStr ''assistant'' [] w of
                                   (Inl err, w) \<Rightarrow> ((writeError 500 (error_string err), None), w)
                                 | (Inr assistantMsg, w) \<Rightarrow>
                                     ((writeJSON 202 (JObj [(''message_id'',
                                         JStr (uuid_of h (msg_id assistantMsg)))]),
                                       Some (buildExecuteRequest content convIDStr conv history credJSON,
                                             convIDStr, msg_id assistantMsg)), w)))))))"

section \<open>Routes\<close>

definition required_param :: "string \<Rightarrow> http_response" where
  "required_param name = http_error (''Query argument '' @ name @ '' is required, but not found'') 400"

text \<open>Only the beginning of the text of a malformed parameter is fixed.\<close>

definition invalid_param :: "string \<Rightarrow> http_response" where
  "invalid_param name = http_error (''Invalid format for parameter '' @ name @ '': '') 400"

definition query_get :: "http_request \<Rightarrow> string \<Rightarrow> string" where
  "query_get r k = (case map_of (rq_query r) k of Some v \<Rightarrow> v | None \<Rightarrow> [])"

definition query_values :: "(string \<times> string) list \<Rightarrow> string \<Rightarrow> string list" where
  "query_values q k = map snd (filter (\<lambda>(k', v). k' = k) q)"

text \<open>A parameter that is given more than once is refused as one that does not parse.\<close>

definition with_query_conversation ::
    "'w server \<Rightarrow> http_request \<Rightarrow> (string \<Rightarrow> 'w \<Rightarrow> http_response \<times> 'w) \<Rightarrow> 'w \<Rightarrow> http_response \<times> 'w" where
  "with_query_conversation h r f w =
     (if query_get r ''conversationId'' = [] then (required_param ''conversationId'', w)
      else if length (query_values (rq_query r) ''conversationId'') \<noteq> 1 then (invalid_param ''conversationId'', w)
      else (case sv_parse_uuid h (query_get r ''conversationId'') of
              None \<Rightarrow> (invalid_param ''conversationId'', w)
            | Some u \<Rightarrow> f u w))"

definition with_path_conversation ::
    "'w server \<Rightarrow> string \<Rightarrow> (string \<Rightarrow> 'w \<Rightarrow> 'r \<times> 'w) \<Rightarrow> (http_response \<Rightarrow> 'r) \<Rightarrow> 'w \<Rightarrow> 'r \<times> 'w" where
  "with_path_conversation h seg f refuse w =
     (case sv_parse_uuid h seg of
        None \<Rightarrow> (refuse (invalid_param ''conversationId''), w)
      | Some u \<Rightarrow> f u w)"

definition plain :: "http_response \<times> 'w \<Rightarrow> ((http_response \<times> goroutine option) \<times> 'w) option" where
  "plain rw = (case rw of (resp, w) \<Rightarrow> Some ((resp, None), w))"

definition api_http ::
    "('z api_state_scheme) server \<Rightarrow> http_request \<Rightarrow> 'z api_state_scheme \<Rightarrow>
     ((http_response \<times> goroutine option) \<times> 'z api_state_scheme) option" where
  "api_http h r w =
     (let m = rq_method r; p = rq_path r; wrong = plain (http_error ''Method Not Allowed'' 405, w) in
      if p = [''app-auth'', ''login''] then
        if m = ''POST'' then plain (AppAuthLogin h r w) else wrong
      else if p = [''app-auth'', ''logout''] then
        if m = ''POST'' then plain (AppAuthLogout r w) else wrong
      else if p = [''app-auth'', ''me''] then
        if m = ''GET'' \<or> m = ''HEAD'' then plain (AppAuthGetMe r w)
        else if m = ''PATCH'' then plain (AppAuthUpdateMe r w) else wrong
      else if p = [''auth'', ''cancel''] then
        if m = ''POST'' then plain (with_query_conversation h r (Server_CancelLogin h) w) else wrong
      else if p = [''auth'', ''login''] then
        if m = ''POST'' then plain (Server_InitiateLogin h r w) else wrong
      else if p = [''auth'', ''logout''] then
        if m = ''POST'' then plain (with_query_conversation h r (Server_Logout h) w) else wrong
      else if p = [''auth'', ''pty'', ''input''] then
        if m = ''POST'' then plain (Server_SubmitAuthPtyInput h r w) else wrong
      else if p = [''auth'', ''pty'', ''stream''] then
        if m = ''GET'' \<or> m = ''HEAD''
        then plain (with_query_conversation h r (Server_GetAuthPtyStream h) w) else wrong
      else if p = [''auth'', ''status''] then
        if m = ''GET'' \<or> m = ''HEAD''
        then plain (with_query_conversation h r (Server_GetAuthStatus h) w) else wrong
      else if p = [''conversations''] then
        if m = ''GET'' \<or> m = ''HEAD'' then plain (Server_ListConversations h r w)
        else if m = ''POST'' then plain (Server_CreateConversation h r w) else wrong
      else if length p = 2 \<and> p ! 0 = ''conversations'' \<and> p ! 1 \<noteq> [] then
        if m = ''DELETE''
        then plain (with_path_conversation h (p ! 1) (Server_DeleteConversation h r) id w)
        else if m = ''GET'' \<or> m = ''HEAD''
        then plain (with_path_conversation h (p ! 1) (Server_GetConversation h r) id w)
        else wrong
      else if length p = 3 \<and> p ! 0 = ''conversations'' \<and> p ! 1 \<noteq> [] \<and> p ! 2 = ''messages'' then
        if m = ''POST''
        then Some (with_path_conversation h (p ! 1) (SendMessage h r) (\<lambda>resp. (resp, None)) w)
        else wrong
      else if p = [''credentials'', ''relogin'', ''finalize''] then
        if m = ''POST'' then plain (PostReloginFinalize h r w) else wrong
      else if p = [''credentials'', ''relogin'', ''start''] then
        if m = ''POST''
        then (case PostReloginStart h r w of None \<Rightarrow> None | Some rw \<Rightarrow> plain rw) else wrong
      else if p = [''credentials'', ''status''] then
        if m = ''GET'' \<or> m = ''HEAD'' then plain (GetCredentialsStatus h r w) else wrong
      else plain (http_error ''404 page not found'' 404, w))"

end
