(* ===== verification/MessageService_Props.thy ===== *)
theory MessageService_Props
  imports MessageService
begin

text \<open>
  What the message service guarantees: the aggregated text is the text blocks in order, tool
  results are bounded, the stored message after a run depends on the events alone and not on the
  schedule of the batch ticker, and the next turn resumes the session the last one stored.
\<close>

section \<open>The aggregator\<close>

definition res_ok :: "tool_call \<Rightarrow> bool" where
  "res_ok c = (case tc_Result c of None \<Rightarrow> True | Some r \<Rightarrow> length r \<le> 2014)"

definition agg_inv :: "stream_aggregator \<Rightarrow> bool" where
  "agg_inv a \<longleftrightarrow>
     concat (map (block_text \<circ> JObj) (sa_contentBlocks a)) = sa_assistantContent a \<and>
     (\<forall>c \<in> set (sa_toolCalls a). res_ok c)"

lemma length_truncate_result: "length (truncate_result n t) \<le> n + 14"
  by (simp add: truncate_result_def)

lemma set_result_bound:
  "\<forall>c \<in> set cs. res_ok c \<Longrightarrow> length t \<le> 2014 \<Longrightarrow> c \<in> set (set_result i t cs) \<Longrightarrow> res_ok c"
  by (induction cs) (auto simp: res_ok_def split: if_splits)

lemma res_ok_simps [simp]:
  "res_ok \<lparr>tc_ToolUseId = i, tc_ToolName = n, tc_InputJson = j, tc_Result = None\<rparr>"
  "res_ok (c\<lparr>tc_InputJson := j\<rparr>) = res_ok c"
  by (simp_all add: res_ok_def)

lemma attachToolResult_inv:
  assumes "agg_inv a" and "n \<le> 2000"
  shows "agg_inv (attachToolResult i c n a)"
proof -
  have "length (truncate_result n (result_text c)) \<le> 2014"
    using length_truncate_result [of n "result_text c"] assms(2) by simp
  with assms(1) set_result_bound show ?thesis
    unfolding agg_inv_def attachToolResult_def by fastforce
qed

lemma block_text_simps [simp]:
  "block_text (JObj [(''type'', JStr t), (''content'', JStr s)]) = (if t = ''text'' then s else [])"
  "block_text (JObj [(''type'', JStr ''tool_use''), (''tool_use_id'', JStr s)]) = []"
  by (simp_all add: block_text_def)

lemma handle_block_inv: "agg_inv a \<Longrightarrow> agg_inv (handle_block b a)"
  by (auto simp: handle_block_def attachToolResult_inv) (auto simp: agg_inv_def)

lemma handle_user_block_inv: "agg_inv a \<Longrightarrow> agg_inv (handle_user_block b a)"
  by (simp add: handle_user_block_def attachToolResult_inv)

lemma fold_inv: "(\<And>x a. P a \<Longrightarrow> P (f x a)) \<Longrightarrow> P a \<Longrightarrow> P (fold f xs a)"
  by (induction xs arbitrary: a) auto

lemma handleStreamEvent_inv: "agg_inv a \<Longrightarrow> agg_inv (handleStreamEvent e a)"
  by (auto simp: handleStreamEvent_def agg_inv_def dest!: in_set_butlastD last_in_set split: option.split)

lemma Handle_inv: "agg_inv a \<Longrightarrow> agg_inv (Handle e a)"
  by (auto simp: Handle_def intro!: fold_inv [where P = agg_inv] handle_block_inv handle_user_block_inv
      handleStreamEvent_inv split: option.split) (auto simp: agg_inv_def)

lemma aggregate_inv: "agg_inv (aggregate es)"
  unfolding aggregate_def
  by (rule fold_inv [where P = agg_inv]) (auto simp: Handle_inv, simp add: agg_inv_def new_aggregator_def)

lemma result_of_call_json:
  "tool_call_json c = JObj kvs \<Longrightarrow> gomap_get kvs ''result'' = map_option enc_string (tc_Result c)"
  by (auto simp: tool_call_json_def omit_nil_def split: option.split)

text \<open>C19: whatever an agent streams, the aggregated assistant text, which becomes the content of the message
  and the source of its title, is the concatenation of the aggregated text blocks, in order.  No tool
  result in the aggregator is longer than 2000 bytes and the truncation mark; the JSON that is stored
  can be longer, because a rune cut in the middle is written as U+FFFD, three bytes for one, but not
  longer than three times that.\<close>

theorem aggregate_consistent:
  "concat (map (block_text \<circ> JObj) (sa_contentBlocks (aggregate es))) = sa_assistantContent (aggregate es) \<and>
   (\<forall>c \<in> set (sa_toolCalls (aggregate es)).
      (case tc_Result c of None \<Rightarrow> True | Some r \<Rightarrow> length r \<le> 2014) \<and>
      (case tool_call_json c of
         JObj kvs \<Rightarrow> (case gomap_get kvs ''result'' of None \<Rightarrow> tc_Result c = None
            | Some v \<Rightarrow> \<exists>s. v = JStr s \<and> utf8_valid s \<and> length s \<le> 6042)
       | _ \<Rightarrow> False))"
proof -
  have "case tool_call_json c of
         JObj kvs \<Rightarrow> (case gomap_get kvs ''result'' of None \<Rightarrow> tc_Result c = None
            | Some v \<Rightarrow> \<exists>s. v = JStr s \<and> utf8_valid s \<and> length s \<le> 6042)
       | _ \<Rightarrow> False" if "res_ok c" for c
  proof (cases "tc_Result c")
    case (Some r)
    then have "length (utf8_coerce r) \<le> 6042"
      using that length_utf8_coerce [of r] by (simp add: res_ok_def)
    then show ?thesis using Some result_of_call_json [of c] utf8_coerce_valid [of r]
      by (auto simp: enc_string_def tool_call_json_def omit_nil_def split: json.split)
  qed (auto simp: tool_call_json_def omit_nil_def split: json.split)
  then show ?thesis using aggregate_inv [of es] by (auto simp: agg_inv_def res_ok_def)
qed

section \<open>Rows\<close>

definition msg_row :: "string \<Rightarrow> 'z pgdb_scheme \<Rightarrow> message option" where
  "msg_row i d = find (\<lambda>m. msg_id m = i) (db_messages d)"

definition conv_row :: "string \<Rightarrow> 'z pgdb_scheme \<Rightarrow> conversation option" where
  "conv_row i d = find (\<lambda>c. conv_id c = i) (db_conversations d)"

lemma find_update_where:
  assumes "\<And>r. key (f r) = key r"
  shows "find (\<lambda>r. key r = i) (update_where (\<lambda>r. key r = j) f rows) =
    (if i = j then map_option f (find (\<lambda>r. key r = i) rows) else find (\<lambda>r. key r = i) rows)"
  using assms by (induction rows) (auto simp: update_where_def)

lemma msg_updates:
  assumes "db_faults d = []"
  shows "msg_row i (snd (UpdateMessageContentBlocks j b d)) =
      (if i = j then map_option (\<lambda>m. m\<lparr>msg_data := jsonb_concat (msg_data m) [(''content_blocks'', b)],
         msg_updated_at := db_now d\<rparr>) (msg_row i d) else msg_row i d)"
    and "msg_row i (snd (MergeMessageData j x d)) =
      (if i = j then map_option (\<lambda>m. m\<lparr>msg_data := jsonb_concat (msg_data m) x,
         msg_updated_at := db_now d\<rparr>) (msg_row i d) else msg_row i d)"
    and "st \<in> set msg_statuses \<Longrightarrow> msg_row i (snd (UpdateMessageStatus j st d)) =
      (if i = j then map_option (\<lambda>m. m\<lparr>msg_status := st, msg_updated_at := db_now d\<rparr>) (msg_row i d)
       else msg_row i d)"
  using assms
  by (simp_all add: msg_row_def UpdateMessageContentBlocks_def MergeMessageData_def UpdateMessageStatus_def
      pg_exec_def find_update_where)

lemma msg_row_conv_updates:
  assumes "db_faults d = []"
  shows "msg_row i (snd (UpdateConversationStatus c st d)) = msg_row i d"
    and "msg_row i (snd (UpdateConversationTitle c t d)) = msg_row i d"
    and "msg_row i (snd (UpdateConversationUpdatedAt c d)) = msg_row i d"
  using assms
  by (simp_all add: msg_row_def UpdateConversationStatus_def UpdateConversationTitle_def
      UpdateConversationUpdatedAt_def pg_exec_def)

lemma conv_updates:
  assumes "db_faults d = []"
  shows "st \<in> set conv_statuses \<Longrightarrow> conv_row i (snd (UpdateConversationStatus c st d)) =
      (if i = c then map_option (\<lambda>r. r\<lparr>conv_status := st\<rparr>) (conv_row i d) else conv_row i d)"
    and "conv_row i (snd (UpdateConversationTitle c t d)) =
      (if i = c then map_option (\<lambda>r. r\<lparr>conv_title := t, conv_updated_at := db_now d\<rparr>) (conv_row i d) else conv_row i d)"
    and "conv_row i (snd (UpdateConversationUpdatedAt c d)) =
      (if i = c then map_option (\<lambda>r. r\<lparr>conv_updated_at := db_now d\<rparr>) (conv_row i d) else conv_row i d)"
    and "conv_row i (snd (UpdateMessageContentBlocks j b d)) = conv_row i d"
    and "conv_row i (snd (MergeMessageData j x d)) = conv_row i d"
    and "conv_row i (snd (UpdateMessageStatus j st d)) = conv_row i d"
  using assms
  by (simp_all add: conv_row_def UpdateConversationStatus_def UpdateConversationTitle_def
      UpdateConversationUpdatedAt_def UpdateMessageContentBlocks_def MergeMessageData_def
      UpdateMessageStatus_def pg_exec_def find_update_where)

lemma no_faults:
  assumes "db_faults d = []"
  shows "db_faults (snd (UpdateMessageContentBlocks j b d)) = []"
    and "db_faults (snd (MergeMessageData j x d)) = []"
    and "db_faults (snd (UpdateMessageStatus j st d)) = []"
    and "db_faults (snd (UpdateConversationStatus c st d)) = []"
    and "db_faults (snd (UpdateConversationTitle c t d)) = []"
    and "db_faults (snd (UpdateConversationUpdatedAt c d)) = []"
  using assms
  by (simp_all add: UpdateConversationStatus_def UpdateConversationTitle_def
      UpdateConversationUpdatedAt_def UpdateMessageContentBlocks_def MergeMessageData_def
      UpdateMessageStatus_def pg_exec_def)

lemmas row_simps = msg_updates msg_row_conv_updates conv_updates no_faults

lemma batch_tick_row:
  assumes "db_faults d = []"
  shows "db_faults (batch_tick i a d) = []"
    and "conv_row c (batch_tick i a d) = conv_row c d"
    and "msg_row i d = Some m \<Longrightarrow> \<exists>m'. msg_row i (batch_tick i a d) = Some m' \<and>
      gomap_get (msg_data m') ''content_blocks'' = Some (blocks_json (sa_contentBlocks a)) \<and>
      msg_role m' = msg_role m"
  using assms by (auto simp: batch_tick_def Snapshot_def row_simps gomap_get_concat gomap_ok_def)

lemma run_ticks_row:
  assumes "db_faults d = []" and "msg_row i d = Some m"
  shows "db_faults (run_ticks i es ticks d) = [] \<and> conv_row c (run_ticks i es ticks d) = conv_row c d \<and>
    (\<exists>m'. msg_row i (run_ticks i es ticks d) = Some m' \<and> msg_role m' = msg_role m \<and>
       (ticks \<noteq> [] \<longrightarrow> gomap_get (msg_data m') ''content_blocks'' =
          Some (blocks_json (sa_contentBlocks (aggregate (take (last ticks) es))))))"
proof (induction ticks rule: rev_induct)
  case Nil
  with assms show ?case by (simp add: run_ticks_def)
next
  case (snoc k ticks)
  then obtain m' where f: "db_faults (run_ticks i es ticks d) = []"
    and c: "conv_row c (run_ticks i es ticks d) = conv_row c d"
    and m': "msg_row i (run_ticks i es ticks d) = Some m'" "msg_role m' = msg_role m" by blast
  have step: "run_ticks i es (ticks @ [k]) d = batch_tick i (aggregate (take k es)) (run_ticks i es ticks d)"
    by (simp add: run_ticks_def)
  from batch_tick_row(1,2) [OF f] batch_tick_row(3) [OF f m'(1)] c m'(2) show ?case
    unfolding step by fastforce
qed

lemma Finalize_extra:
  assumes "Finalize a sid = (blocks, extra, atext)"
  shows "gomap_ok extra" and "gomap_get extra ''content_blocks'' = None"
    and "gomap_get extra ''session_id'' = Some (JStr sid)"
    and "sa_assistantContent a \<noteq> [] \<Longrightarrow> gomap_get extra ''content'' = Some (JStr (sa_assistantContent a))"
    and "sa_toolCalls a \<noteq> [] \<Longrightarrow> gomap_get extra ''tool_calls'' = Some (calls_json (sa_toolCalls a))"
    and "blocks = blocks_json (sa_contentBlocks a)" and "atext = sa_assistantContent a"
  using assms by (auto simp: Finalize_def gomap_ok_def gomap_get_def map_add_def)

section \<open>A run\<close>

definition stored_result :: "string \<Rightarrow> stream_aggregator \<Rightarrow> json gomap \<Rightarrow> bool" where
  "stored_result sid a data \<longleftrightarrow>
     gomap_get data ''content_blocks'' = Some (blocks_json (sa_contentBlocks a)) \<and>
     gomap_get data ''session_id'' = Some (JStr sid) \<and>
     (sa_assistantContent a \<noteq> [] \<longrightarrow> gomap_get data ''content'' = Some (JStr (sa_assistantContent a))) \<and>
     (sa_toolCalls a \<noteq> [] \<longrightarrow> gomap_get data ''tool_calls'' = Some (calls_json (sa_toolCalls a)))"

lemma final_writes_row:
  assumes f: "db_faults d = []" and m: "msg_row i d = Some m" and c: "conv_row cid d = Some r"
  shows "db_faults (final_writes cid i a sid d) = [] \<and>
    (\<exists>m'. msg_row i (final_writes cid i a sid d) = Some m' \<and> msg_status m' = ''completed'' \<and>
       msg_role m' = msg_role m \<and> stored_result sid a (msg_data m')) \<and>
    (\<exists>r'. conv_row cid (final_writes cid i a sid d) = Some r' \<and>
       conv_title r' = (if sa_assistantContent a = [] then conv_title r else generateTitle (sa_assistantContent a)))"
proof -
  obtain blocks extra atext where fin: "Finalize a sid = (blocks, extra, atext)" by (cases "Finalize a sid")
  note X = Finalize_extra [OF fin]
  have st: "''completed'' \<in> set msg_statuses" by (simp add: msg_statuses_def)
  show ?thesis
    using f m c X st
    by (auto simp: final_writes_def fin Let_def row_simps stored_result_def gomap_get_concat gomap_ok_def)
qed

lemma run_success:
  assumes "xp_Execute p req (snd (UpdateConversationStatus cid ''running'' d)) = Some ((Inr sid, es), d1)"
    and "db_faults d1 = []" and "msg_row mid d1 = Some m" and "conv_row cid d1 = Some r"
  shows "\<exists>d' m' r'. executeAndPersist p req cid mid ticks d = Some d' \<and>
    msg_row mid d' = Some m' \<and> msg_status m' = ''completed'' \<and> msg_role m' = msg_role m \<and>
    stored_result sid (aggregate es) (msg_data m') \<and>
    conv_row cid d' = Some r' \<and> conv_status r' = ''completed'' \<and>
    conv_title r' = (if sa_assistantContent (aggregate es) = [] then conv_title r
                     else generateTitle (sa_assistantContent (aggregate es)))"
proof -
  define d2 where "d2 = run_ticks mid es ticks d1"
  have f2: "db_faults d2 = []" and c2: "conv_row cid d2 = conv_row cid d1"
    and "\<exists>m'. msg_row mid d2 = Some m' \<and> msg_role m' = msg_role m"
    using run_ticks_row [OF assms(2,3), where es = es and ticks = ticks and c = cid] by (auto simp: d2_def)
  then obtain m2 where m2: "msg_row mid d2 = Some m2" "msg_role m2 = msg_role m" by blast
  define d3 where "d3 = final_writes cid mid (aggregate es) sid d2"
  have st: "''completed'' \<in> set conv_statuses" by (simp add: conv_statuses_def)
  have "executeAndPersist p req cid mid ticks d = Some (snd (UpdateConversationStatus cid ''completed'' d3))"
    using assms(1) by (simp add: executeAndPersist_def Let_def d2_def d3_def)
  with final_writes_row [OF f2 m2(1), of cid r "aggregate es" sid] c2 assms(4) m2(2) st show ?thesis
    by (auto simp: d3_def [symmetric] row_simps)
qed

text \<open>C15: after a successful run the assistant's row is completed and holds the blocks, the text, the
  tool calls and the session id of the whole stream, whenever the batch ticker fired and whatever
  it wrote; the conversation is completed and titled by the text.\<close>

theorem run_persists_result:
  assumes "xp_Execute p req (snd (UpdateConversationStatus cid ''running'' d)) = Some ((Inr sid, es), d1)"
    and "db_faults d1 = []" and "msg_row mid d1 = Some m" and "conv_row cid d1 = Some r"
  shows "\<exists>d' m' r'. executeAndPersist p req cid mid ticks d = Some d' \<and>
    msg_row mid d' = Some m' \<and> msg_status m' = ''completed'' \<and> msg_role m' = msg_role m \<and>
    stored_result sid (aggregate es) (msg_data m') \<and>
    conv_row cid d' = Some r' \<and> conv_status r' = ''completed'' \<and>
    conv_title r' = (if sa_assistantContent (aggregate es) = [] then conv_title r
                     else generateTitle (sa_assistantContent (aggregate es)))"
  using assms by (rule run_success)

text \<open>After a failed run the row is in error, not streaming, and keeps the blocks of the last batch
  write; the conversation is completed all the same, with its old title.\<close>

lemma run_failure:
  assumes "xp_Execute p req (snd (UpdateConversationStatus cid ''running'' d)) = Some ((Inl err, es), d1)"
    and "db_faults d1 = []" and "msg_row mid d1 = Some m" and "conv_row cid d1 = Some r"
  shows "\<exists>d' m' r'. executeAndPersist p req cid mid ticks d = Some d' \<and>
    msg_row mid d' = Some m' \<and> msg_status m' = ''error'' \<and>
    (ticks \<noteq> [] \<longrightarrow> gomap_get (msg_data m') ''content_blocks'' =
       Some (blocks_json (sa_contentBlocks (aggregate (take (last ticks) es))))) \<and>
    conv_row cid d' = Some r' \<and> conv_status r' = ''completed'' \<and> conv_title r' = conv_title r"
proof -
  define d2 where "d2 = run_ticks mid es ticks d1"
  have f2: "db_faults d2 = []" and c2: "conv_row cid d2 = conv_row cid d1"
    and "\<exists>m'. msg_row mid d2 = Some m' \<and> (ticks \<noteq> [] \<longrightarrow> gomap_get (msg_data m') ''content_blocks'' =
          Some (blocks_json (sa_contentBlocks (aggregate (take (last ticks) es)))))"
    using run_ticks_row [OF assms(2,3), where es = es and ticks = ticks and c = cid] by (auto simp: d2_def)
  then obtain m2 where m2: "msg_row mid d2 = Some m2" "ticks \<noteq> [] \<longrightarrow> gomap_get (msg_data m2) ''content_blocks'' =
          Some (blocks_json (sa_contentBlocks (aggregate (take (last ticks) es))))" by blast
  have st: "''completed'' \<in> set conv_statuses" "''error'' \<in> set msg_statuses"
    by (simp_all add: conv_statuses_def msg_statuses_def)
  have "executeAndPersist p req cid mid ticks d =
      Some (snd (UpdateConversationStatus cid ''completed'' (snd (UpdateMessageStatus mid ''error'' d2))))"
    using assms(1) by (simp add: executeAndPersist_def Let_def d2_def)
  with f2 m2 c2 assms(4) st show ?thesis by (auto simp: row_simps)
qed

section \<open>The next turn\<close>

lemma find_resume_skip: "\<forall>m \<in> set ms. msg_role m \<noteq> ''assistant'' \<Longrightarrow> find_resume (ms @ rest) = find_resume rest"
  by (induction ms) auto

text \<open>The next turn continues the last one: when the last assistant message holds the result of a
  run, the request resumes the session of that run, and the fallback history shows, for that
  message, exactly the text the agent had written.\<close>

theorem next_turn_resumes:
  assumes "stored_result sid (aggregate es) (msg_data m)" and "sid \<noteq> []" and "msg_role m = ''assistant''"
    and "\<forall>x \<in> set post. msg_role x \<noteq> ''assistant''"
  shows "er_SessionID (buildExecuteRequest prompt cid conv (pre @ m # post) cred) = sid \<and>
    er_ConversationHistory (buildExecuteRequest prompt cid conv (pre @ m # post) cred) ! length pre =
      \<lparr>cm_role = ''assistant'', cm_content = sa_assistantContent (aggregate es)\<rparr>"
proof -
  have "find_resume (rev post @ m # rev pre) = sid"
    using assms by (subst find_resume_skip) (auto simp: stored_result_def)
  moreover have "history_content m = sa_assistantContent (aggregate es)"
    using assms(1,3) aggregate_inv [of es]
    by (auto simp: history_content_def stored_result_def blocks_json_def slice_json_def agg_inv_def comp_def)
  ultimately show ?thesis
    using assms(3)
    by (simp add: buildExecuteRequest_def findResumeSessionID_def buildConversationHistory_def nth_append)
qed

section \<open>Witnesses\<close>

definition text_event :: "string \<Rightarrow> stream_event" where
  "text_event t = zero_stream_event\<lparr>se_Type := ''assistant'',
     se_Message := Some [zero_content_block\<lparr>cb_Type := ''text'', cb_Text := t\<rparr>]\<rparr>"

definition scripted_provider :: "string result \<Rightarrow> stream_event list \<Rightarrow> 'w exec_provider" where
  "scripted_provider res es =
     \<lparr>xp_Execute = (\<lambda>req w. Some ((res, es), w)), xp_PrepareForRelogin = (\<lambda>c w. Some (Inr (), w)),
      xp_PullCredentialsFromSession = (\<lambda>c w. (Inr ''{}'', w)), xp_GetSessionClient = (\<lambda>c w. (Inr ''u'', w))\<rparr>"

definition run_db :: pgdb where
  "run_db =
     \<lparr>db_now = 5, db_uuids = (\<lambda>n. itoa (int n)), db_drawn = 0, db_faults = [],
      db_conversations = [\<lparr>conv_id = ''c1'', conv_title = ''old'', conv_model = ''m'',
         conv_system_prompt = None, conv_status = ''idle'', conv_created_at = 0, conv_updated_at = 0\<rparr>],
      db_messages = [\<lparr>msg_id = ''m1'', msg_conversation_id = ''c1'', msg_role = ''assistant'', msg_data = [],
         msg_status = ''streaming'', msg_created_at = 0, msg_updated_at = 0\<rparr>],
      db_vms = [], db_endpoints = []\<rparr>"

lemma run_db_rows:
  "db_faults (snd (UpdateConversationStatus ''c1'' ''running'' run_db)) = []"
  "\<exists>m. msg_row ''m1'' (snd (UpdateConversationStatus ''c1'' ''running'' run_db)) = Some m"
  "\<exists>r. conv_row ''c1'' (snd (UpdateConversationStatus ''c1'' ''running'' run_db)) = Some r"
  by (simp_all add: run_db_def UpdateConversationStatus_def pg_exec_def conv_statuses_def msg_row_def
      conv_row_def update_where_def)

theorem aggregate_consistent_witness:
  "concat (map (block_text \<circ> JObj) (sa_contentBlocks (aggregate [text_event ''hi'']))) = ''hi''"
proof -
  have "sa_assistantContent (aggregate [text_event ''hi'']) = ''hi''"
    by (simp add: aggregate_def Handle_def text_event_def handle_block_def new_aggregator_def zero_content_block_def
        zero_stream_event_def)
  then show ?thesis using aggregate_consistent [of "[text_event ''hi'']"] by simp
qed

theorem run_persists_result_witness:
  "\<exists>d' m'. executeAndPersist (scripted_provider (Inr ''s1'') [text_event ''hi'']) request_hello ''c1'' ''m1'' [0, 1] run_db = Some d' \<and>
     msg_row ''m1'' d' = Some m' \<and> msg_status m' = ''completed''"
proof -
  obtain m r where rows: "msg_row ''m1'' (snd (UpdateConversationStatus ''c1'' ''running'' run_db)) = Some m"
    "conv_row ''c1'' (snd (UpdateConversationStatus ''c1'' ''running'' run_db)) = Some r"
    using run_db_rows by blast
  have "xp_Execute (scripted_provider (Inr ''s1'') [text_event ''hi'']) request_hello
      (snd (UpdateConversationStatus ''c1'' ''running'' run_db)) =
      Some ((Inr ''s1'', [text_event ''hi'']), snd (UpdateConversationStatus ''c1'' ''running'' run_db))"
    by (simp add: scripted_provider_def)
  from run_persists_result [OF this run_db_rows(1) rows, of "[0, 1]"] show ?thesis by blast
qed

definition stored_message :: message where
  "stored_message = \<lparr>msg_id = ''m1'', msg_conversation_id = ''c1'', msg_role = ''assistant'',
     msg_data = [(''content_blocks'', blocks_json (sa_contentBlocks (aggregate [text_event ''hi'']))),
                 (''session_id'', JStr ''s1''), (''content'', JStr (sa_assistantContent (aggregate [text_event ''hi''])))],
     msg_status = ''completed'', msg_created_at = 0, msg_updated_at = 0\<rparr>"

theorem next_turn_resumes_witness:
  "er_SessionID (buildExecuteRequest ''go on'' ''c1''
     \<lparr>conv_id = ''c1'', conv_title = [], conv_model = ''m'', conv_system_prompt = None,
      conv_status = ''idle'', conv_created_at = 0, conv_updated_at = 0\<rparr> [stored_message] []) = ''s1''"
proof -
  have "sa_toolCalls (aggregate [text_event ''hi'']) = []"
    by (simp add: aggregate_def Handle_def text_event_def handle_block_def new_aggregator_def zero_content_block_def
        zero_stream_event_def)
  then have "stored_result ''s1'' (aggregate [text_event ''hi'']) (msg_data stored_message)"
    by (simp add: stored_result_def stored_message_def)
  from next_turn_resumes [OF this, of "[]" "''go on''" "''c1''" _ "[]" "[]"] show ?thesis
    by (simp add: stored_message_def)
qed

end
