(* ===== verification/Credential_Props.thy ===== *)
theory Credential_Props
  imports Credential
begin

text \<open>
  What the credential service promises: a user reads back what was stored for him, whatever is
  done for other users in between; a row never decrypts for another user; every way to be refused
  has its own error, in a fixed order.
\<close>

definition aead_correct :: "aead \<Rightarrow> bool" where
  "aead_correct a = (\<forall>nonce p ad. length nonce = 12 \<longrightarrow> aead_Open a nonce (aead_Seal a nonce p ad) ad = Some p)"

definition aead_binds :: "aead \<Rightarrow> bool" where
  "aead_binds a = (\<forall>nonce p ad ad'. ad' \<noteq> ad \<longrightarrow> aead_Open a nonce (aead_Seal a nonce p ad) ad' = None)"

text \<open>\<^verbatim>\<open>rand.Read\<close> fills the whole buffer.\<close>

definition rand_ok :: "'z cred_db_scheme \<Rightarrow> bool" where
  "rand_ok d = (\<forall>n k. \<exists>bs. cred_rand d n k = Inr bs \<and> length bs = k)"

lemma rand_update [simp]:
  "cred_ready (d\<lparr>cred_rand_drawn := n\<rparr>) = cred_ready d"
  "db_faults (d\<lparr>cred_rand_drawn := n\<rparr>) = db_faults d"
  by (simp_all add: cred_ready_def)

lemma cred_lookup_rand: "cred_ready d \<Longrightarrow> cred_lookup (d\<lparr>cred_rand_drawn := n\<rparr>) u = cred_lookup d u"
  by (simp add: cred_lookup_ready cred_ready_def)

lemma FetchAndDecrypt_lookup:
  assumes "cred_ready d"
  shows "fst (FetchAndDecrypt e u d) =
    (case cred_lookup d u of
       None \<Rightarrow> Inl ErrNotFound
     | Some (ct, nonce, kv, valid) \<Rightarrow>
         if \<not> valid then Inl ErrCredentialsInvalid
         else if kv \<noteq> enc_keyVersion e then Inl ErrKeyVersionMismatch
         else Encryptor_Open e ct nonce u)"
proof -
  have f: "db_faults d = []" using assms by (simp add: cred_ready_def)
  show ?thesis
    by (auto simp: FetchAndDecrypt_def GetByUsername_ready [OF f] cred_lookup_ready [OF f] secret_of_def
        split: option.split)
qed

lemma StoreCredential_ready:
  assumes "cred_ready d" and "rand_ok d"
  obtains nonce where "length nonce = 12" "fst (StoreCredential e u c d) = Inr ()"
    "cred_ready (snd (StoreCredential e u c d))"
    "\<And>u'. cred_lookup (snd (StoreCredential e u c d)) u' =
       (if u' = u then Some (aead_Seal (enc_aead e) nonce c u, nonce, enc_keyVersion e, True) else cred_lookup d u')"
proof -
  obtain nonce where n: "cred_rand d (cred_rand_drawn d) 12 = Inr nonce" "length nonce = 12"
    using assms(2) unfolding rand_ok_def by blast
  define d1 where "d1 = d\<lparr>cred_rand_drawn := Suc (cred_rand_drawn d)\<rparr>"
  have s: "StoreCredential e u c d = Upsert u (aead_Seal (enc_aead e) nonce c u) nonce (enc_keyVersion e) d1"
    using n by (simp add: StoreCredential_def Encryptor_Seal_def rand_Read_def NonceLength_def d1_def)
  have r: "cred_ready d1" using assms(1) by (simp add: d1_def)
  from n(2) show ?thesis
    by (rule that) (use Upsert_ready [OF r] cred_lookup_rand [OF assms(1)] in \<open>auto simp: s d1_def\<close>)
qed

text \<open>Operations other requests may perform between a store and a fetch.\<close>

lemma cred_rand_ops [simp]:
  "cred_rand (snd (Upsert u ct n kv d)) = cred_rand d"
  "cred_rand (snd (CredRepo_MarkInvalid u d)) = cred_rand d"
  "cred_rand (snd (CredRepo_Delete u d)) = cred_rand d"
  by (auto simp: Upsert_def CredRepo_MarkInvalid_def CredRepo_Delete_def pg_exec_def draw_uuid_def Let_def
      split: list.split option.split)

text \<open>C13: what is stored for a user is what he gets back, byte for byte, after any number of stores,
  invalidations and deletions for other users (a new login also cancels an earlier invalidation).\<close>

theorem credential_roundtrip:
  assumes "cred_ready d" and "rand_ok d" and "aead_correct (enc_aead e)"
    and "\<forall>x \<in> set ops. op_key x \<noteq> u"
  shows "fst (StoreCredential e u c d) = Inr () \<and>
    fst (FetchAndDecrypt e u (fold (\<lambda>x d. case x of Put k v \<Rightarrow> cred_put k v d | Del k \<Rightarrow> cred_del k d) ops
      (snd (StoreCredential e u c d)))) = Inr c"
proof -
  obtain nonce where n: "length nonce = 12" and r: "fst (StoreCredential e u c d) = Inr ()"
    and ok: "cred_ready (snd (StoreCredential e u c d))"
    and l: "\<And>u'. cred_lookup (snd (StoreCredential e u c d)) u' =
       (if u' = u then Some (aead_Seal (enc_aead e) nonce c u, nonce, enc_keyVersion e, True) else cred_lookup d u')"
    using StoreCredential_ready [OF assms(1,2)] by metis
  have ops: "(\<lambda>x d. case x of Put k v \<Rightarrow> cred_put k v d | Del k \<Rightarrow> cred_del k d) = creds.apply_op"
    by (rule ext, rule ext) (simp split: store_op.split)
  have "cred_lookup (fold creds.apply_op ops (snd (StoreCredential e u c d))) u =
      Some (aead_Seal (enc_aead e) nonce c u, nonce, enc_keyVersion e, True)"
    using creds.lookup_history_other [OF ok assms(4)] l by simp
  moreover have "cred_ready (fold creds.apply_op ops (snd (StoreCredential e u c d)))"
    by (rule creds.ok_history [OF ok])
  ultimately show ?thesis
    using r n assms(3) by (simp add: ops FetchAndDecrypt_lookup Encryptor_Open_def aead_correct_def)
qed

text \<open>C14: credentials are bound to their user: the row of one user, put under the name of another one,
  does not decrypt for him, and storing for one user never changes what another one gets.\<close>

theorem credential_isolation:
  assumes "cred_ready d" and "rand_ok d" and "aead_binds (enc_aead e)" and "u' \<noteq> u"
  shows "fst (FetchAndDecrypt e u' (snd (StoreCredential e u c d))) = fst (FetchAndDecrypt e u' d) \<and>
    (\<forall>s. cred_lookup (snd (StoreCredential e u c d)) u = Some s \<longrightarrow>
       fst (FetchAndDecrypt e u' (cred_put u' s (snd (StoreCredential e u c d)))) = Inl ErrDecryptionFailed)"
proof -
  obtain nonce where ok: "cred_ready (snd (StoreCredential e u c d))"
    and l: "\<And>u'. cred_lookup (snd (StoreCredential e u c d)) u' =
       (if u' = u then Some (aead_Seal (enc_aead e) nonce c u, nonce, enc_keyVersion e, True) else cred_lookup d u')"
    using StoreCredential_ready [OF assms(1,2)] by metis
  have other: "fst (FetchAndDecrypt e u' (snd (StoreCredential e u c d))) = fst (FetchAndDecrypt e u' d)"
    using assms(4) by (simp add: FetchAndDecrypt_lookup [OF ok] FetchAndDecrypt_lookup [OF assms(1)] l)
  have "fst (FetchAndDecrypt e u' (cred_put u' s (snd (StoreCredential e u c d)))) = Inl ErrDecryptionFailed"
    if "cred_lookup (snd (StoreCredential e u c d)) u = Some s" for s
    using that l assms(3,4)
    by (auto simp: FetchAndDecrypt_lookup [OF creds.ok_put [OF ok]] creds.lookup_put [OF ok] Encryptor_Open_def
        aead_binds_def)
  with other show ?thesis by blast
qed

text \<open>A fetch is refused in a fixed order: no row, then an invalidated row, then a row of another
  key version, and only then a decryption; after an invalidation the error is the one that asks for
  a new login, for every version and every ciphertext.\<close>

theorem fetch_error_order:
  assumes "cred_ready d"
  shows "fst (FetchAndDecrypt e u (snd (CredRepo_Delete u d))) = Inl ErrNotFound \<and>
    (cred_lookup d u \<noteq> None \<longrightarrow>
       fst (FetchAndDecrypt e u (snd (CredService_MarkInvalid u d))) = Inl ErrCredentialsInvalid) \<and>
    (\<forall>ct nonce kv. kv \<noteq> enc_keyVersion e \<longrightarrow>
       fst (FetchAndDecrypt e u (snd (Upsert u ct nonce kv d))) = Inl ErrKeyVersionMismatch)"
  using Delete_ready [OF assms] MarkInvalid_ready [OF assms] Upsert_ready [OF assms]
  by (auto simp: FetchAndDecrypt_lookup CredService_MarkInvalid_def)

section \<open>Witnesses\<close>

text \<open>A cipher that writes the additional data in front, each byte marked.\<close>

definition mark_ad :: "string \<Rightarrow> string" where
  "mark_ad ad = concat (map (\<lambda>c. [CHR 0x01, c]) ad) @ [CHR 0x00]"

definition plain_aead :: aead where
  "plain_aead =
     \<lparr>aead_Seal = (\<lambda>nonce p ad. mark_ad ad @ p),
      aead_Open = (\<lambda>nonce c ad. if has_prefix c (mark_ad ad) then Some (drop (length (mark_ad ad)) c) else None)\<rparr>"

lemma mark_ad_prefix: "mark_ad ad @ p = mark_ad ad' @ t \<Longrightarrow> ad' = ad"
proof (induction ad arbitrary: ad')
  case Nil
  then show ?case by (cases ad') (auto simp: mark_ad_def)
next
  case (Cons c ad)
  then show ?case by (cases ad') (auto simp: mark_ad_def)
qed

lemma plain_aead_laws: "aead_correct plain_aead" "aead_binds plain_aead"
  using mark_ad_prefix by (auto simp: aead_correct_def aead_binds_def plain_aead_def has_prefix_iff)

definition cred_db_example :: cred_db where
  "cred_db_example =
     \<lparr>db_now = 9, db_uuids = (\<lambda>n. itoa (int n)), db_drawn = 0, db_faults = [], db_conversations = [],
      db_messages = [], db_vms = [], db_endpoints = [], db_credentials = [],
      cred_rand = (\<lambda>n k. Inr (replicate k (CHR ''r''))), cred_rand_drawn = 0\<rparr>"

lemma cred_db_example_ok: "cred_ready cred_db_example" "rand_ok cred_db_example"
  by (auto simp: cred_ready_def rand_ok_def cred_db_example_def inj_def dest!: itoa_inj)

definition enc_example :: encryptor where
  "enc_example = \<lparr>enc_aead = plain_aead, enc_keyVersion = 1\<rparr>"

lemma enc_example_aead [simp]: "enc_aead enc_example = plain_aead"
  by (simp add: enc_example_def)

theorem credential_roundtrip_witness:
  "fst (FetchAndDecrypt enc_example ''alice'' (cred_del ''bob''
     (snd (StoreCredential enc_example ''alice'' ''{}'' cred_db_example)))) = Inr ''{}''"
  using credential_roundtrip [OF cred_db_example_ok, of enc_example "[Del ''bob'']" "''alice''" "''{}''"]
  by (simp add: plain_aead_laws)

theorem credential_isolation_witness:
  "fst (FetchAndDecrypt enc_example ''bob'' (snd (StoreCredential enc_example ''alice'' ''{}'' cred_db_example)))
     = fst (FetchAndDecrypt enc_example ''bob'' cred_db_example)"
  using credential_isolation [OF cred_db_example_ok, of enc_example "''bob''" "''alice''" "''{}''"]
  by (simp add: plain_aead_laws)

theorem fetch_error_order_witness:
  "fst (FetchAndDecrypt enc_example ''bob'' (snd (CredRepo_Delete ''bob'' cred_db_example))) = Inl ErrNotFound"
  using fetch_error_order [OF cred_db_example_ok(1), of enc_example "''bob''"] by simp

end
