(* ===== verification/ApiServer_Props.thy ===== *)
theory ApiServer_Props
  imports ApiServer Repository_Props MessageService_Props Credential_Props
begin

text \<open>
  What the API guarantees its callers: a token identifies its user until it is logged out, no
  conversation is read or changed without a valid token when authentication is on, and an
  execution is started exactly when the answer is 202, for a streaming message that is stored.
\<close>

definition bearer :: "string \<Rightarrow> string" where
  "bearer token = ''Bearer '' @ token"

lemma bearerToken_bearer [simp]:
  "token \<noteq> [] \<Longrightarrow> bearerToken (r\<lparr>rq_authorization := bearer token\<rparr>) = Some token"
  using cut_prefix_append [of "''Bearer ''" token] by (simp add: bearerToken_def bearer_def)

lemma hex_encode_nonempty: "bs \<noteq> [] \<Longrightarrow> hex_encode bs \<noteq> []"
  by (cases bs) (simp_all add: hex_encode_def Let_def)

section \<open>Sessions\<close>

text \<open>
  The sessions while requests run side by side, as the store sees them, together with the \<^verbatim>\<open>PATCH\<close>
  requests that have looked up their user and not written him back.  \<open>session_step t names\<close> is any step but
  a logout of token \<open>t\<close>, a login that draws \<open>t\<close> again, and a renaming under \<open>t\<close> to a nickname that is not
  in \<open>names\<close>; what leaves the store alone, and be it another program part, is \<open>other\<close>.
\<close>

inductive session_step ::
    "string \<Rightarrow> string set \<Rightarrow> 'z api_state_scheme \<times> (string \<times> app_user) list \<Rightarrow>
     'z api_state_scheme \<times> (string \<times> app_user) list \<Rightarrow> bool" for t :: string and names :: "string set" where
  login: "token \<noteq> t \<Longrightarrow> st_session w' = gomap_set (st_session w) token user \<Longrightarrow>
    session_step t names (w, fl) (w', fl)"
| logout: "token \<noteq> t \<Longrightarrow> st_session w' = gomap_delete (st_session w) token \<Longrightarrow>
    session_step t names (w, fl) (w', fl)"
| patch_get: "update_me_get r w = Inr found \<Longrightarrow> session_step t names (w, fl) (w, found # fl)"
| patch_set: "found \<in> set fl \<Longrightarrow>
    fst found = t \<longrightarrow> (\<forall>n. decode_struct (string_field ''nickname'') [] (rq_body r) = Inr n \<longrightarrow> n \<in> names) \<Longrightarrow>
    session_step t names (w, fl) (snd (update_me_set r found w), remove1 found fl)"
| other: "st_session w' = st_session w \<Longrightarrow> session_step t names (w, fl) (w', fl)"

text \<open>The other handlers of the store are such steps.\<close>

lemma AppAuthLogin_step:
  assumes "\<forall>bs. cred_rand w (cred_rand_drawn w) 32 = Inr bs \<longrightarrow> hex_encode bs \<noteq> t"
  shows "session_step t names (w, fl) (snd (AppAuthLogin h r w), fl)"
  using assms
  by (auto simp: AppAuthLogin_def rand_Read_def session_set_def Let_def split: sum.split prod.split
      intro: session_step.login session_step.other)

lemma AppAuthLogout_step:
  "bearerToken r \<noteq> Some t \<Longrightarrow> session_step t names (w, fl) (snd (AppAuthLogout r w), fl)"
  by (auto simp: AppAuthLogout_def session_delete_def split: option.split intro: session_step.logout session_step.other)

lemma AppAuthGetMe_step: "session_step t names (w, fl) (snd (AppAuthGetMe r w), fl)"
  by (auto simp: AppAuthGetMe_def split: option.split intro: session_step.other)

text \<open>Until \<open>t\<close> is logged out, it and every renaming under it in flight stand for one user; once it is
  gone and nothing is in flight, it stays gone.\<close>

definition stands_for :: "string \<Rightarrow> string set \<Rightarrow> string \<Rightarrow> 'z api_state_scheme \<times> (string \<times> app_user) list \<Rightarrow> bool" where
  "stands_for t names i s \<longleftrightarrow>
     (\<exists>u. session_get t (fst s) = Some u \<and> au_Id u = i \<and> au_Name u \<in> names) \<and>
     (\<forall>(tok, u) \<in> set (snd s). tok = t \<longrightarrow> au_Id u = i \<and> au_Name u \<in> names)"

definition gone :: "string \<Rightarrow> 'z api_state_scheme \<times> (string \<times> app_user) list \<Rightarrow> bool" where
  "gone t s \<longleftrightarrow> session_get t (fst s) = None \<and> t \<notin> fst ` set (snd s)"

lemma update_me_get_Inr: "update_me_get r w = Inr (tok, u) \<Longrightarrow> session_get tok w = Some u"
  by (auto simp: update_me_get_def split: option.splits)

lemma session_get_set: "session_get t (session_set tok u w) = (if t = tok then Some u else session_get t w)"
  by (simp add: app_session.lookup_put)

lemma session_get_delete: "session_get t (session_delete tok w) = (if t = tok then None else session_get t w)"
  by (simp add: app_session.lookup_del)

lemma update_me_set_get:
  "session_get t (snd (update_me_set r (tok, u) w)) =
     (case decode_struct (string_field ''nickname'') [] (rq_body r) of
        Inl err \<Rightarrow> session_get t w
      | Inr n \<Rightarrow> if t = tok then Some (u\<lparr>au_Name := n\<rparr>) else session_get t w)"
  by (simp add: update_me_set_def Let_def session_get_set split: sum.split)

lemma stands_for_step: "session_step t names s s' \<Longrightarrow> stands_for t (insert nm names) i s \<Longrightarrow> stands_for t (insert nm names) i s'"
proof (induction rule: session_step.induct)
  case (patch_get r w found fl)
  then show ?case
    using update_me_get_Inr [of r w "fst found" "snd found"] by (auto simp: stands_for_def)
next
  case (patch_set found fl r w)
  obtain tok u where f: "found = (tok, u)" by (cases found)
  have sub: "set (remove1 found fl) \<subseteq> set fl" by (rule set_remove1_subset)
  from patch_set sub show ?case
    unfolding stands_for_def f by (auto simp: update_me_set_get split: sum.split)
qed (auto simp: stands_for_def session_get_def)

lemma gone_step: "session_step t names s s' \<Longrightarrow> gone t s \<Longrightarrow> gone t s'"
proof (induction rule: session_step.induct)
  case (patch_get r w found fl)
  then show ?case
    using update_me_get_Inr [of r w "fst found" "snd found"] by (auto simp: gone_def)
next
  case (patch_set found fl r w)
  obtain tok u where f: "found = (tok, u)" by (cases found)
  have sub: "set (remove1 found fl) \<subseteq> set fl" by (rule set_remove1_subset)
  from patch_set sub show ?case
    unfolding gone_def f by (auto simp: update_me_set_get image_iff split: sum.split)
qed (auto simp: gone_def session_get_def)

lemma kept_by_steps:
  "(session_step t names)\<^sup>*\<^sup>* s s' \<Longrightarrow> (\<And>x y. session_step t names x y \<Longrightarrow> P x \<Longrightarrow> P y) \<Longrightarrow> P s \<Longrightarrow> P s'"
  by (induction rule: rtranclp_induct) auto

lemma GetMe_of_get:
  "t \<noteq> [] \<Longrightarrow> AppAuthGetMe (q\<lparr>rq_authorization := bearer t\<rparr>) w =
     (case session_get t w of
        None \<Rightarrow> (app_auth_error, w)
      | Some u \<Rightarrow> (json_response 200 (JObj [(''user'', app_user_json u)]), w))"
  by (simp add: AppAuthGetMe_def writeJSON_def split: option.split)

text \<open>C25: a login returns a token with which its user - and no other - is seen, whatever logins, renamings
  and logouts come in between and however their steps interleave, until the token itself is logged out;
  his name is the one he logged in with, or one he gave himself in a \<^verbatim>\<open>PATCH\<close>.  From the logout on the
  token is refused, unless a \<^verbatim>\<open>PATCH\<close> with the same token was under way when it was logged out.\<close>

theorem login_identifies_until_logout:
  assumes "decode_struct (string_field ''username'') [] (rq_body r) = Inr username" and "username \<noteq> []"
    and "cred_rand w (cred_rand_drawn w) 32 = Inr bytes" and "bytes \<noteq> []"
    and "hex_encode bytes \<notin> fst ` set fl"
  shows "\<exists>user w1. AppAuthLogin h r w =
      (json_response 200 (JObj [(''token'', JStr (hex_encode bytes)), (''user'', app_user_json user)]), w1) \<and>
    au_Name user = username \<and>
    (\<forall>w2 fl2. (session_step (hex_encode bytes) names)\<^sup>*\<^sup>* (w1, fl) (w2, fl2) \<longrightarrow>
       (\<exists>me. AppAuthGetMe (q\<lparr>rq_authorization := bearer (hex_encode bytes)\<rparr>) w2 =
          (json_response 200 (JObj [(''user'', app_user_json me)]), w2) \<and>
        au_Id me = au_Id user \<and> au_Name me \<in> insert username names) \<and>
       (hex_encode bytes \<notin> fst ` set fl2 \<longrightarrow>
        (\<forall>w3 fl3. (session_step (hex_encode bytes) names)\<^sup>*\<^sup>*
             (snd (AppAuthLogout (q\<lparr>rq_authorization := bearer (hex_encode bytes)\<rparr>) w2), fl2) (w3, fl3) \<longrightarrow>
           AppAuthGetMe (q\<lparr>rq_authorization := bearer (hex_encode bytes)\<rparr>) w3 = (app_auth_error, w3))))"
proof -
  define t where "t = hex_encode bytes"
  define user where "user = \<lparr>au_Id = sv_new_uuid h (st_uuids_drawn w), au_Name = username\<rparr>"
  define w1 where "w1 = session_set t user (w\<lparr>cred_rand_drawn := Suc (cred_rand_drawn w), st_uuids_drawn := Suc (st_uuids_drawn w)\<rparr>)"
  have t: "t \<noteq> []" using hex_encode_nonempty [OF assms(4)] by (simp add: t_def)
  have l: "AppAuthLogin h r w = (json_response 200 (JObj [(''token'', JStr t), (''user'', app_user_json user)]), w1)"
    using assms(1-3) by (simp add: AppAuthLogin_def rand_Read_def writeJSON_def Let_def t_def user_def w1_def)
  have start: "stands_for t (insert username names) (au_Id user) (w1, fl)"
    using assms(5) by (auto simp: stands_for_def w1_def session_get_set user_def t_def [symmetric] image_iff)
  have seen: "\<exists>me. AppAuthGetMe (q\<lparr>rq_authorization := bearer t\<rparr>) w2 = (json_response 200 (JObj [(''user'', app_user_json me)]), w2) \<and>
      au_Id me = au_Id user \<and> au_Name me \<in> insert username names"
    if "(session_step t names)\<^sup>*\<^sup>* (w1, fl) (w2, fl2)" for w2 fl2
  proof -
    have "stands_for t (insert username names) (au_Id user) (w2, fl2)"
      by (rule kept_by_steps [where P = "stands_for t (insert username names) (au_Id user)", OF that])
        (use start in \<open>blast intro: stands_for_step\<close>)+
    then obtain me where "session_get t w2 = Some me" "au_Id me = au_Id user" "au_Name me \<in> insert username names"
      by (auto simp: stands_for_def)
    then show ?thesis by (auto simp: GetMe_of_get [OF t])
  qed
  have refused: "AppAuthGetMe (q\<lparr>rq_authorization := bearer t\<rparr>) w3 = (app_auth_error, w3)"
    if "t \<notin> fst ` set fl2"
      "(session_step t names)\<^sup>*\<^sup>* (snd (AppAuthLogout (q\<lparr>rq_authorization := bearer t\<rparr>) w2), fl2) (w3, fl3)"
    for w2 fl2 w3 fl3
  proof -
    have "gone t (snd (AppAuthLogout (q\<lparr>rq_authorization := bearer t\<rparr>) w2), fl2)"
      using that(1) by (simp add: gone_def AppAuthLogout_def t session_get_delete)
    then have "gone t (w3, fl3)" using kept_by_steps [OF that(2), of "gone t"] gone_step by blast
    then show ?thesis by (simp add: gone_def GetMe_of_get [OF t])
  qed
  have "au_Name user = username" by (simp add: user_def)
  with l seen refused show ?thesis unfolding t_def [symmetric] by blast
qed

text \<open>C36: a logout can be undone: when a \<^verbatim>\<open>PATCH\<close> has looked its user up and the token is logged out before
  it writes, the token is refused in between and is good again afterwards.\<close>

theorem patch_revives_token:
  assumes "token \<noteq> []" and "session_get token w = Some user"
    and "decode_struct (string_field ''nickname'') [] (rq_body r) = Inr nickname"
  defines "q \<equiv> r\<lparr>rq_authorization := bearer token\<rparr>"
  shows "\<exists>found w1. update_me_get q w = Inr found \<and> AppAuthLogout q w = (status_response 204, w1) \<and>
    AppAuthGetMe q w1 = (app_auth_error, w1) \<and>
    (let w2 = snd (update_me_set q found w1) in
     AppAuthGetMe q w2 = (json_response 200 (JObj [(''user'', app_user_json (user\<lparr>au_Name := nickname\<rparr>))]), w2))"
proof -
  show ?thesis
    using assms
    by (simp add: update_me_get_def AppAuthLogout_def GetMe_of_get update_me_set_def Let_def session_get_set
        session_get_delete)
qed

lemma requireAppAuth_cases:
  assumes "sv_credService h \<noteq> None" and "relogin_user r w = None"
  shows "\<exists>resp. requireAppAuthIfEnabled h r w = Inl resp \<and> rs_status resp = 401"
  using assms
  by (auto simp: requireAppAuthIfEnabled_def relogin_user_def writeError_def writeJSON_def app_auth_error_def
      split: option.splits)

text \<open>C21: with a credential service configured, a request below \<^verbatim>\<open>/conversations\<close> or
  \<^verbatim>\<open>/credentials\<close> without the token of a live session changes nothing, starts nothing and never
  succeeds: it is answered 401, or 400, 404 or 405 where the path, the method, a parameter or the body of a
  message is refused before the token is looked at.\<close>

theorem unauthenticated_changes_nothing:
  assumes "sv_credService h \<noteq> None" and "relogin_user r w = None"
    and "rq_path r \<noteq> []" and "rq_path r ! 0 \<in> {''conversations'', ''credentials''}"
  shows "\<exists>resp. api_http h r w = Some ((resp, None), w) \<and> rs_status resp \<in> {400, 401, 404, 405}"
proof -
  obtain resp where a: "requireAppAuthIfEnabled h r w = Inl resp" "rs_status resp = 401"
    using requireAppAuth_cases [OF assms(1,2)] by blast
  have send: "\<exists>resp. SendMessage h r u w = ((resp, None), w) \<and> rs_status resp \<in> {400, 401}" for u
    using assms(1,2)
    by (auto simp: SendMessage_def fetchCredentialOrRespond_def relogin_user_def writeError_def writeJSON_def
        app_auth_error_def split: option.splits sum.splits)
  have handlers: "Server_ListConversations h r w = (resp, w)" "Server_CreateConversation h r w = (resp, w)"
    "Server_GetConversation h r u w = (resp, w)" "Server_DeleteConversation h r u w = (resp, w)"
    "GetCredentialsStatus h r w = (resp, w)" for u
    using a(1) assms(1)
    by (auto simp: Server_ListConversations_def Server_CreateConversation_def Server_GetConversation_def
        Server_DeleteConversation_def GetCredentialsStatus_def)
  have relogin: "PostReloginFinalize h r w = (writeError 401 ''unauthorized'', w)"
    "PostReloginStart h r w = Some (writeError 401 ''unauthorized'', w)"
    using assms(2) by (simp_all add: PostReloginFinalize_def PostReloginStart_def)
  obtain p ps where p: "rq_path r = p # ps" using assms(3) by (cases "rq_path r") auto
  consider (conv) "p = ''conversations''" | (cred) "p = ''credentials''" using assms(4) p by auto
  then show ?thesis
  proof cases
    case conv
    show ?thesis
      using send a(2)
      by (auto simp: api_http_def p conv Let_def plain_def handlers with_path_conversation_def invalid_param_def
          split: option.split)
  next
    case cred
    show ?thesis
      using a(2)
      by (auto simp: api_http_def p cred Let_def plain_def handlers relogin writeError_def writeJSON_def)
  qed
qed

lemma CreateStreamingMessage_Inr:
  assumes "CreateStreamingMessage c role data d = (Inr m, d')"
  shows "m \<in> set (db_messages d') \<and> msg_status m = ''streaming'' \<and> msg_role m = role \<and>
    msg_conversation_id m = c \<and> msg_data m = data"
  using assms
  by (auto simp: CreateStreamingMessage_def pg_exec_def insert_message_def draw_uuid_def Let_def
      split: list.splits option.splits if_splits)

text \<open>C20: an execution is started exactly with the answer 202, and then for a stored assistant message
  that is streaming, in the conversation of the request, with the user's text as the prompt;
  every other answer starts nothing.\<close>

theorem send_message_starts_iff_accepted:
  assumes "SendMessage h r cid w = ((resp, g), w')"
  shows "(g = None \<longleftrightarrow> rs_status resp \<noteq> 202) \<and>
    (\<forall>req c mid. g = Some (req, c, mid) \<longrightarrow>
       c = cid \<and> er_ConversationID req = cid \<and> er_Prompt req \<noteq> [] \<and>
       decode_struct (string_field ''content'') [] (rq_body r) = Inr (er_Prompt req) \<and>
       (\<exists>m \<in> set (db_messages w'). msg_id m = mid \<and> msg_status m = ''streaming'' \<and>
          msg_role m = ''assistant'' \<and> msg_conversation_id m = cid))"
proof -
  have refuse: "rs_status resp' \<noteq> 202" if "fetchCredentialOrRespond h r cid v = (Inl resp', v')" for resp' v v'
    using that
    by (auto simp: fetchCredentialOrRespond_def writeError_def writeJSON_def app_auth_error_def
        split: option.splits sum.splits prod.splits if_splits)
  show ?thesis
    using assms refuse CreateStreamingMessage_Inr
    by (fastforce simp: SendMessage_def buildExecuteRequest_def writeError_def writeJSON_def
        split: option.splits sum.splits prod.splits if_splits)
qed

section \<open>Witnesses\<close>

definition api_example :: api_state where
  "api_example =
     \<lparr>db_now = 9, db_uuids = (\<lambda>n. itoa (int n)), db_drawn = 0, db_faults = [],
      db_conversations = [\<lparr>conv_id = ''c1'', conv_title = ''old'', conv_model = ''m'',
         conv_system_prompt = None, conv_status = ''idle'', conv_created_at = 0, conv_updated_at = 0\<rparr>],
      db_messages = [], db_vms = [], db_endpoints = [], db_credentials = [],
      cred_rand = (\<lambda>n k. Inr (replicate k (CHR ''r''))), cred_rand_drawn = 0,
      st_session = [], st_uuids_drawn = 0\<rparr>"

definition server_example :: "api_state server" where
  "server_example = NewHandler (scripted_provider (Inr ''s1'') [text_event ''hi'']) (fixed_net (status_response 204))
     Some itoa (\<lambda>n. itoa (int n))"

definition locked_server :: "api_state server" where
  "locked_server = server_example\<lparr>sv_credService := Some (credential_service_of enc_example)\<rparr>"

definition login_example :: http_request where
  "login_example = plain_request ''POST'' [''app-auth'', ''login''] (JsonBody (JObj [(''username'', JStr ''alice'')]))"

definition send_example :: http_request where
  "send_example = plain_request ''POST'' [''conversations'', ''c1'', ''messages'']
     (JsonBody (JObj [(''content'', JStr ''hello'')]))"

definition example_token :: string where
  "example_token = hex_encode (replicate 32 (CHR ''r''))"

definition nick_example :: http_request where
  "nick_example = plain_request ''PATCH'' [''app-auth'', ''me''] (JsonBody (JObj [(''nickname'', JStr ''al'')]))"

definition nick_state :: api_state where
  "nick_state = api_example\<lparr>st_session := [(''t1'', \<lparr>au_Id = ''u1'', au_Name = ''alice''\<rparr>)]\<rparr>"

theorem login_identifies_until_logout_witness:
  "\<exists>user w1. AppAuthLogin server_example login_example api_example =
      (json_response 200 (JObj [(''token'', JStr example_token), (''user'', app_user_json user)]), w1) \<and>
    au_Name user = ''alice'' \<and>
    (\<exists>me. AppAuthGetMe (login_example\<lparr>rq_authorization := bearer example_token\<rparr>) (session_delete ''t2'' w1) =
      (json_response 200 (JObj [(''user'', app_user_json me)]), session_delete ''t2'' w1) \<and> au_Name me = ''alice'')"
proof -
  have d: "decode_struct (string_field ''username'') [] (rq_body login_example) = Inr ''alice''" by code_simp
  have r: "cred_rand api_example (cred_rand_drawn api_example) 32 = Inr (replicate 32 (CHR ''r''))"
    by (simp add: api_example_def)
  have t: "''t2'' \<noteq> example_token" unfolding example_token_def by code_simp
  have s: "(session_step example_token {})\<^sup>*\<^sup>* (w, []) (session_delete ''t2'' w, [])" for w :: api_state
    by (rule r_into_rtranclp, rule session_step.logout [OF t]) (simp add: session_delete_def)
  show ?thesis
    using login_identifies_until_logout [OF d _ r, of "[]" server_example "{}" login_example] s
    unfolding example_token_def by fastforce
qed

theorem patch_revives_token_witness:
  "\<exists>found w1. update_me_get (nick_example\<lparr>rq_authorization := bearer ''t1''\<rparr>) nick_state = Inr found \<and>
     AppAuthLogout (nick_example\<lparr>rq_authorization := bearer ''t1''\<rparr>) nick_state = (status_response 204, w1) \<and>
     (let w2 = snd (update_me_set (nick_example\<lparr>rq_authorization := bearer ''t1''\<rparr>) found w1) in
      rs_status (fst (AppAuthGetMe (nick_example\<lparr>rq_authorization := bearer ''t1''\<rparr>) w2)) = 200)"
proof -
  have d: "decode_struct (string_field ''nickname'') [] (rq_body nick_example) = Inr ''al''" by code_simp
  have g: "session_get ''t1'' nick_state = Some \<lparr>au_Id = ''u1'', au_Name = ''alice''\<rparr>"
    by (simp add: session_get_def nick_state_def)
  show ?thesis using patch_revives_token [OF _ g d] by (auto simp: Let_def)
qed


theorem unauthenticated_changes_nothing_witness:
  "\<exists>resp. api_http locked_server send_example api_example = Some ((resp, None), api_example) \<and>
     rs_status resp \<in> {400, 401, 404, 405}"
  by (rule unauthenticated_changes_nothing)
    (simp_all add: locked_server_def send_example_def relogin_user_def bearerToken_def cut_prefix_def has_prefix_def)

lemma send_accepted:
  "\<exists>resp req mid w'. SendMessage server_example send_example ''c1'' api_example = ((resp, Some (req, ''c1'', mid)), w')"
proof -
  have d: "decode_struct (string_field ''content'') [] (rq_body send_example) = Inr ''hello''" by code_simp
  have u: "itoa 1 \<noteq> itoa 0" by code_simp
  show ?thesis
    using u
    by (simp add: SendMessage_def d server_example_def NewHandler_def fetchCredentialOrRespond_def
        GetConversation_def ListMessages_def CreateMessage_def CreateStreamingMessage_def pg_exec_def
        insert_message_def draw_uuid_def Let_def api_example_def first_row_def msg_roles_def)
qed

theorem send_message_starts_iff_accepted_witness:
  "\<exists>resp g w'. SendMessage server_example send_example ''c1'' api_example = ((resp, g), w') \<and> g \<noteq> None \<and> rs_status resp = 202"
proof -
  obtain resp req mid w' where
    s: "SendMessage server_example send_example ''c1'' api_example = ((resp, Some (req, ''c1'', mid)), w')"
    using send_accepted by blast
  from send_message_starts_iff_accepted [OF s] s show ?thesis by auto
qed

end
