(* ===== verification/ConversationTurn.thy ===== *)
theory ConversationTurn
  imports ApiServer_Props
begin

text \<open>
  One turn of a conversation, from \<^verbatim>\<open>SendMessage\<close> through \<^verbatim>\<open>executeAndPersist\<close> to the next
  \<^verbatim>\<open>SendMessage\<close>: which rows each step leaves in the messages table, and in which order
  \<^verbatim>\<open>ListMessages\<close> returns them.
\<close>

section \<open>Which rows a run touches\<close>

definition same_but :: "string \<Rightarrow> message \<Rightarrow> message \<Rightarrow> bool" where
  "same_but mid m m' \<longleftrightarrow>
     msg_id m' = msg_id m \<and> msg_conversation_id m' = msg_conversation_id m \<and> msg_role m' = msg_role m \<and>
     msg_created_at m' = msg_created_at m \<and> (msg_id m \<noteq> mid \<longrightarrow> m' = m)"

definition only_row :: "string \<Rightarrow> 'y pgdb_scheme \<Rightarrow> 'z pgdb_scheme \<Rightarrow> bool" where
  "only_row mid d d' \<longleftrightarrow> list_all2 (same_but mid) (db_messages d) (db_messages d')"

lemma same_but_refl [simp]: "same_but mid m m" by (simp add: same_but_def)

lemma same_but_trans: "same_but mid a b \<Longrightarrow> same_but mid b c \<Longrightarrow> same_but mid a c"
  by (auto simp: same_but_def)

lemma only_row_refl [simp]: "only_row mid d d"
  by (simp add: only_row_def list.rel_refl)

lemma only_row_trans: "only_row mid a b \<Longrightarrow> only_row mid b c \<Longrightarrow> only_row mid a c"
  unfolding only_row_def by (rule list_all2_trans [OF same_but_trans])

lemma only_row_update:
  assumes "\<And>m. msg_id m = mid \<Longrightarrow> same_but mid m (f m)"
  shows "list_all2 (same_but mid) ms (update_where (\<lambda>m. msg_id m = mid) f ms)"
  using assms by (auto simp: update_where_def list_all2_conv_all_nth)

lemma only_row_statements:
  "only_row mid d (snd (UpdateMessageContentBlocks mid b d))"
  "only_row mid d (snd (MergeMessageData mid x d))"
  "only_row mid d (snd (UpdateMessageStatus mid st d))"
  "only_row mid d (snd (UpdateConversationStatus c st d))"
  "only_row mid d (snd (UpdateConversationTitle c t d))"
  "only_row mid d (snd (UpdateConversationUpdatedAt c d))"
  by (auto simp: only_row_def UpdateMessageContentBlocks_def MergeMessageData_def UpdateMessageStatus_def
      UpdateConversationStatus_def UpdateConversationTitle_def UpdateConversationUpdatedAt_def pg_exec_def
      same_but_def list.rel_refl split: list.split option.split intro!: only_row_update)

lemma only_row_batch_tick: "only_row mid d (batch_tick mid a d)"
  unfolding batch_tick_def Snapshot_def
  by (auto intro: only_row_trans only_row_statements)

lemma only_row_run_ticks: "only_row mid d (run_ticks mid es ticks d)"
  unfolding run_ticks_def
proof (induction ticks arbitrary: d)
  case (Cons k ticks)
  show ?case using only_row_trans [OF only_row_batch_tick Cons.IH] by simp
qed simp

lemmas only_row_then = only_row_trans [OF _ only_row_statements(1)] only_row_trans [OF _ only_row_statements(2)]
  only_row_trans [OF _ only_row_statements(3)] only_row_trans [OF _ only_row_statements(5)]
  only_row_trans [OF _ only_row_statements(6)]

lemma only_row_final_writes: "only_row mid d (final_writes cid mid a sid d)"
proof -
  obtain b x t where "Finalize a sid = (b, x, t)" by (cases "Finalize a sid")
  then show ?thesis by (simp add: final_writes_def Let_def) (intro conjI impI only_row_then only_row_refl)
qed

lemma only_row_execute:
  assumes "xp_Execute p req (snd (UpdateConversationStatus cid ''running'' d)) = Some ((res, es), d1)"
    and "db_messages d1 = db_messages d"
    and "executeAndPersist p req cid mid ticks d = Some d'"
  shows "only_row mid d d'"
proof -
  have "only_row mid d d1" using assms(2) by (simp add: only_row_def list.rel_refl)
  moreover have "only_row mid d1 d'"
  proof (cases res)
    case (Inl err)
    then have "d' = snd (UpdateConversationStatus cid ''completed''
        (snd (UpdateMessageStatus mid ''error'' (run_ticks mid es ticks d1))))"
      using assms(1,3) by (simp add: executeAndPersist_def Let_def)
    then show ?thesis
      by (simp add: only_row_trans [OF only_row_run_ticks only_row_trans [OF only_row_statements(3,4)]])
  next
    case (Inr sid)
    then have "d' = snd (UpdateConversationStatus cid ''completed''
        (final_writes cid mid (aggregate es) sid (run_ticks mid es ticks d1)))"
      using assms(1,3) by (simp add: executeAndPersist_def Let_def)
    then show ?thesis
      by (simp add: only_row_trans [OF only_row_run_ticks only_row_trans [OF only_row_final_writes only_row_statements(4)]])
  qed
  ultimately show ?thesis by (rule only_row_trans)
qed

section \<open>The order of the messages\<close>

lemma insort_last: "\<forall>y \<in> set xs. f y \<le> f z \<Longrightarrow> f a \<le> f z \<Longrightarrow>
    insort_key f a (xs @ [z]) = insort_key f a xs @ [z]"
  for f :: "'a \<Rightarrow> 'b::linorder"
  by (induction xs) auto

lemma sort_last: "\<forall>y \<in> set xs. f y \<le> f z \<Longrightarrow> sort_key f (xs @ [z]) = sort_key f xs @ [z]"
  for f :: "'a \<Rightarrow> 'b::linorder"
  by (induction xs) (simp_all add: insort_last)

definition history_of :: "string \<Rightarrow> message list \<Rightarrow> message list" where
  "history_of cid ms = sort_key msg_created_at (filter (\<lambda>m. msg_conversation_id m = cid) ms)"

lemma history_of_latest:
  assumes "\<forall>m \<in> set ms. msg_created_at m \<le> msg_created_at z" and "msg_conversation_id z = cid"
  shows "history_of cid (ms @ [z]) = history_of cid ms @ [z]"
  using assms by (simp add: history_of_def sort_last)

section \<open>Sending\<close>

definition credentials_apart :: "('z api_state_scheme) server \<Rightarrow> bool" where
  "credentials_apart h \<longleftrightarrow>
     (\<forall>svc u w. sv_credService h = Some svc \<longrightarrow>
        (let w' = snd (cs_FetchAndDecrypt svc u w) in
         db_messages w' = db_messages w \<and> db_now w' = db_now w \<and> (db_faults w = [] \<longrightarrow> db_faults w' = [])))"

lemma credential_service_apart:
  "sv_credService h = Some (credential_service_of e) \<Longrightarrow> credentials_apart h"
  by (auto simp: credentials_apart_def credential_service_of_def FetchAndDecrypt_def GetByUsername_def
      pg_exec_def Let_def split: sum.splits prod.splits list.splits option.splits if_splits)

lemma fetch_apart:
  assumes "credentials_apart h" and "fetchCredentialOrRespond h r cid w = (res, w')"
  shows "db_messages w' = db_messages w \<and> db_now w' = db_now w \<and> (db_faults w = [] \<longrightarrow> db_faults w' = [])"
proof (cases "sv_credService h")
  case None
  with assms(2) show ?thesis by (simp add: fetchCredentialOrRespond_def)
next
  case (Some svc)
  have "db_messages v' = db_messages w \<and> db_now v' = db_now w \<and> (db_faults w = [] \<longrightarrow> db_faults v' = [])"
    if "cs_FetchAndDecrypt svc u w = (q, v')" for u q v'
    using assms(1) Some that unfolding credentials_apart_def by (metis snd_conv)
  with assms(2) Some show ?thesis
    by (auto simp: fetchCredentialOrRespond_def split: option.splits sum.splits prod.splits if_splits)
qed

lemma insert_message_rows:
  assumes "insert_message cid role data st d = (Inr m, d')"
  shows "db_messages d' = db_messages d @ [m] \<and> msg_id m \<notin> msg_id ` set (db_messages d) \<and>
    msg_conversation_id m = cid \<and> msg_role m = role \<and> msg_data m = data \<and> msg_status m = st \<and> msg_created_at m = db_now d \<and>
    db_now d' = db_now d \<and> db_faults d' = db_faults d \<and> db_conversations d' = db_conversations d"
  using assms by (auto simp: insert_message_def draw_uuid_def Let_def split: if_splits)

lemma SendMessage_rows:
  assumes "credentials_apart h" and "db_faults w = []"
    and "SendMessage h r cid w = ((resp, Some (req, c, mid)), w')"
  shows "\<exists>u a. db_messages w' = db_messages w @ [u, a] \<and> msg_id a = mid \<and>
    mid \<notin> msg_id ` set (db_messages w) \<and> msg_id u \<noteq> mid \<and>
    msg_conversation_id u = cid \<and> msg_conversation_id a = cid \<and> msg_role u = ''user'' \<and> msg_role a = ''assistant'' \<and>
    msg_data u = [(''content'', JStr (er_Prompt req))] \<and> msg_created_at u = db_now w \<and> msg_created_at a = db_now w \<and>
    msg_data a = [] \<and> msg_status a = ''streaming'' \<and> db_faults w' = [] \<and> c = cid \<and> conv_row cid w' \<noteq> None \<and> er_ConversationID req = cid \<and>
    er_SessionID req = findResumeSessionID (history_of cid (db_messages w)) \<and>
    er_ConversationHistory req = buildConversationHistory (history_of cid (db_messages w))"
proof -
  obtain content where d: "decode_struct (string_field ''content'') [] (rq_body r) = Inr content"
    and "content \<noteq> []"
    using assms(3) by (auto simp: SendMessage_def split: sum.splits if_splits)
  obtain cred w1 where f: "fetchCredentialOrRespond h r cid w = (Inr cred, w1)"
    using assms(3) d \<open>content \<noteq> []\<close>
    by (auto simp: SendMessage_def split: sum.splits prod.splits)
  have w1: "db_messages w1 = db_messages w" "db_now w1 = db_now w" "db_faults w1 = []"
    using fetch_apart [OF assms(1) f] assms(2) by auto
  obtain conv where g: "GetConversation cid w1 = (Inr conv, w1)"
    using assms(3) d \<open>content \<noteq> []\<close> f w1(3)
    by (auto simp: SendMessage_def GetConversation_def pg_exec_def split: sum.splits prod.splits)
  then have known: "conv_row cid w1 \<noteq> None"
    using w1(3) by (auto simp: GetConversation_def first_row_def conv_row_def find_None_iff split: list.splits)
      (metis (mono_tags, lifting) filter_False list.distinct(1))
  have l: "ListMessages cid w1 = (Inr (history_of cid (db_messages w)), w1)"
    using w1 by (simp add: ListMessages_def pg_exec_def history_of_def)
  obtain u w2 where m1: "insert_message cid ''user'' [(''content'', JStr content)] ''completed'' w1 = (Inr u, w2)"
    using assms(3) d \<open>content \<noteq> []\<close> f g l w1(3)
    by (auto simp: SendMessage_def CreateMessage_def pg_exec_def split: sum.splits prod.splits)
  note u = insert_message_rows [OF m1]
  have f2: "db_faults w2 = []" using u w1(3) by simp
  obtain a w3 where m2: "insert_message cid ''assistant'' [] ''streaming'' w2 = (Inr a, w3)"
    using assms(3) d \<open>content \<noteq> []\<close> f g l w1(3) m1 f2
    by (auto simp: SendMessage_def CreateMessage_def CreateStreamingMessage_def pg_exec_def
        split: sum.splits prod.splits)
  note a = insert_message_rows [OF m2]
  have "w' = w3 \<and> mid = msg_id a \<and> c = cid \<and>
      req = buildExecuteRequest content cid conv (history_of cid (db_messages w)) cred"
    using assms(3) d \<open>content \<noteq> []\<close> f g l w1(3) m1 f2 m2
    by (auto simp add: SendMessage_def CreateMessage_def CreateStreamingMessage_def pg_exec_def)
  moreover have "conv_row cid w3 = conv_row cid w1" using u a by (simp add: conv_row_def)
  ultimately show ?thesis using u a w1 f2 known
    by (intro exI [of _ u] exI [of _ a]) (auto simp: buildExecuteRequest_def)
qed

section \<open>The next turn\<close>

lemma resume_last:
  assumes "msg_role a = ''assistant''" and "stored_result sid (aggregate es) (msg_data a)" and "sid \<noteq> []"
  shows "findResumeSessionID (hs @ [u, a]) = sid"
    and "history_content a = sa_assistantContent (aggregate es)"
  using assms aggregate_inv [of es]
  by (auto simp: findResumeSessionID_def stored_result_def history_content_def blocks_json_def slice_json_def
      agg_inv_def comp_def)

lemma only_row_split:
  assumes "list_all2 (same_but mid) (ms @ [u, a]) ms'" and "mid \<notin> msg_id ` set ms" and "msg_id u \<noteq> mid"
    and "msg_id a = mid"
  shows "\<exists>a'. ms' = ms @ [u, a'] \<and> same_but mid a a' \<and> find (\<lambda>m. msg_id m = mid) ms' = Some a'"
proof -
  obtain xs u' a' where ms': "ms' = xs @ [u', a']" and xs: "list_all2 (same_but mid) ms xs"
    and u': "same_but mid u u'" and a': "same_but mid a a'"
    using assms(1) by (auto simp: list_all2_append1 list_all2_Cons1)
  have "xs = ms"
    using xs assms(2) by (induction rule: list_all2_induct) (auto simp: same_but_def)
  moreover have "u' = u" using u' assms(3) by (simp add: same_but_def)
  moreover have "find (\<lambda>m. msg_id m = mid) (ms @ [u, a']) = Some a'"
    using assms(2-4) a' by (induction ms) (auto simp: same_but_def)
  ultimately show ?thesis using ms' a' by auto
qed

lemma turn_history:
  assumes apart: "credentials_apart h" and ready: "db_faults w = []"
    and past: "\<forall>m \<in> set (db_messages w). msg_created_at m \<le> db_now w"
    and send: "SendMessage h r cid w = ((resp, Some (req, c, mid)), w')"
    and run: "xp_Execute p req (snd (UpdateConversationStatus cid ''running'' w')) = Some ((res, es), d1)"
    and keeps: "db_messages d1 = db_messages w'"
    and finished: "executeAndPersist p req c mid ticks w' = Some d'"
  shows "c = cid \<and> msg_row mid d1 \<noteq> None \<and> (\<exists>u a. history_of cid (db_messages d') = history_of cid (db_messages w) @ [u, a] \<and>
    history_content u = er_Prompt req \<and> msg_role u = ''user'' \<and> msg_role a = ''assistant'' \<and> msg_row mid d' = Some a)"
proof -
  obtain u a where rows: "db_messages w' = db_messages w @ [u, a]" "msg_id a = mid"
      "mid \<notin> msg_id ` set (db_messages w)" "msg_id u \<noteq> mid"
    and u: "msg_conversation_id u = cid" "msg_role u = ''user''" "msg_data u = [(''content'', JStr (er_Prompt req))]"
      "msg_created_at u = db_now w"
    and a: "msg_conversation_id a = cid" "msg_role a = ''assistant''" "msg_created_at a = db_now w"
    and c: "c = cid"
    using SendMessage_rows [OF apart ready send] by blast
  have "list_all2 (same_but mid) (db_messages w @ [u, a]) (db_messages d')"
    using only_row_execute [OF run keeps finished [unfolded c]] rows(1) by (simp add: only_row_def)
  from only_row_split [OF this rows(3,4,2)] obtain a' where
    ms: "db_messages d' = db_messages w @ [u, a']" and a': "same_but mid a a'"
    and row: "msg_row mid d' = Some a'"
    by (auto simp: msg_row_def)
  have m: "msg_row mid d1 \<noteq> None"
    using keeps rows(1,2) by (auto simp: msg_row_def find_None_iff)
  have created: "msg_created_at a' = db_now w" "msg_conversation_id a' = cid" "msg_role a' = ''assistant''"
    using a' a by (simp_all add: same_but_def)
  have "history_of cid (db_messages d') = history_of cid ((db_messages w @ [u]) @ [a'])" by (simp add: ms)
  also have "\<dots> = history_of cid (db_messages w @ [u]) @ [a']"
    using past u created by (intro history_of_latest) auto
  also have "history_of cid (db_messages w @ [u]) = history_of cid (db_messages w) @ [u]"
    using past u by (intro history_of_latest) auto
  finally have "history_of cid (db_messages d') = history_of cid (db_messages w) @ [u, a']" by simp
  moreover have "history_content u = er_Prompt req" using u by (simp add: history_content_def)
  ultimately show ?thesis using c m created row u(2) by blast
qed

lemma turn_rows:
  assumes "credentials_apart h" and "db_faults w = []"
    and "\<forall>m \<in> set (db_messages w). msg_created_at m \<le> db_now w"
    and "SendMessage h r cid w = ((resp, Some (req, c, mid)), w')"
    and run: "xp_Execute p req (snd (UpdateConversationStatus cid ''running'' w')) = Some ((Inr sid, es), d1)"
    and keeps: "db_messages d1 = db_messages w'" "db_faults d1 = []" "conv_row cid d1 = Some cr"
    and finished: "executeAndPersist p req c mid ticks w' = Some d'"
  shows "\<exists>u a. history_of cid (db_messages d') = history_of cid (db_messages w) @ [u, a] \<and>
    history_content u = er_Prompt req \<and> msg_role u = ''user'' \<and> msg_role a = ''assistant'' \<and>
    stored_result sid (aggregate es) (msg_data a) \<and> msg_status a = ''completed''"
proof -
  from turn_history [OF assms(1-4) run keeps(1) finished] obtain u a m where
    h: "history_of cid (db_messages d') = history_of cid (db_messages w) @ [u, a]" "history_content u = er_Prompt req"
      "msg_role u = ''user''" "msg_role a = ''assistant''"
    and a: "msg_row mid d' = Some a" and m: "msg_row mid d1 = Some m" and c: "c = cid" by blast
  from run_success [OF run keeps(2) m keeps(3), of ticks] finished a c
  have "stored_result sid (aggregate es) (msg_data a)" "msg_status a = ''completed''" by auto
  with h show ?thesis by blast
qed

text \<open>C18: the conversation goes on after a turn that succeeded: when an accepted turn ran without an error,
  its events named a session, no statement of the database was lost in it, nothing else wrote the messages
  while the agent ran, and no stored message is from the future, then the next accepted turn of the
  conversation resumes the agent's session, and the history it sends as a fallback is the history of the
  turn before, the user's prompt of that turn and the assistant's whole text, in that order. In between the
  messages of this conversation are left alone; whatever else happens. A turn that ends in an error, or
  without a session, promises nothing of the kind.\<close>

theorem next_message_continues:
  assumes apart: "credentials_apart h" and ready: "db_faults w = []" "db_faults v = []"
    and past: "\<forall>m \<in> set (db_messages w). msg_created_at m \<le> db_now w"
    and send: "SendMessage h r cid w = ((resp, Some (req, c, mid)), w')"
    and run: "xp_Execute p req (snd (UpdateConversationStatus cid ''running'' w')) = Some ((Inr sid, es), d1)"
    and keeps: "db_messages d1 = db_messages w'" "db_faults d1 = []" "conv_row cid d1 = Some cr"
    and finished: "executeAndPersist p req c mid ticks w' = Some d'"
    and later: "history_of cid (db_messages v) = history_of cid (db_messages d')"
    and again: "SendMessage h r2 cid v = ((resp2, Some (req2, c2, mid2)), v')"
    and session: "sid \<noteq> []"
  shows "er_SessionID req2 = sid \<and>
    er_ConversationHistory req2 = er_ConversationHistory req @
      [\<lparr>cm_role = ''user'', cm_content = er_Prompt req\<rparr>,
       \<lparr>cm_role = ''assistant'', cm_content = sa_assistantContent (aggregate es)\<rparr>]"
proof -
  from turn_rows [OF apart ready(1) past send run keeps finished] obtain u a where
    h: "history_of cid (db_messages d') = history_of cid (db_messages w) @ [u, a]"
    and u: "history_content u = er_Prompt req" "msg_role u = ''user''"
    and a: "msg_role a = ''assistant''" "stored_result sid (aggregate es) (msg_data a)" by blast
  have "er_ConversationHistory req = buildConversationHistory (history_of cid (db_messages w))"
    using SendMessage_rows [OF apart ready(1) send] by blast
  moreover have "er_SessionID req2 = findResumeSessionID (history_of cid (db_messages d'))"
    "er_ConversationHistory req2 = buildConversationHistory (history_of cid (db_messages d'))"
    using SendMessage_rows [OF apart ready(2) again] later by auto
  ultimately show ?thesis
    using resume_last [OF a session] h u a(1) by (simp add: buildConversationHistory_def)
qed

section \<open>Witnesses\<close>

definition turn_state :: "string \<Rightarrow> string \<Rightarrow> message list \<Rightarrow> api_state" where
  "turn_state u a ms = api_example\<lparr>db_messages := ms, db_uuids := (\<lambda>n. if n = 0 then u else a)\<rparr>"

lemma send_from:
  assumes "u \<notin> msg_id ` set ms" and "a \<notin> msg_id ` set ms" and "a \<noteq> u"
  shows "\<exists>resp req w'. SendMessage server_example send_example ''c1'' (turn_state u a ms) =
      ((resp, Some (req, ''c1'', a)), w') \<and> map msg_id (db_messages w') = map msg_id ms @ [u, a] \<and>
    db_faults w' = [] \<and> db_conversations w' = db_conversations api_example"
proof -
  have d: "decode_struct (string_field ''content'') [] (rq_body send_example) = Inr ''hello''" by code_simp
  show ?thesis
    using assms
    by (auto simp: SendMessage_def d server_example_def NewHandler_def fetchCredentialOrRespond_def
        GetConversation_def ListMessages_def CreateMessage_def CreateStreamingMessage_def pg_exec_def
        insert_message_def draw_uuid_def Let_def turn_state_def api_example_def first_row_def msg_roles_def)
qed

lemma only_row_ids: "only_row mid d d' \<Longrightarrow> map msg_id (db_messages d') = map msg_id (db_messages d)"
  by (auto simp: only_row_def same_but_def list_all2_conv_all_nth intro!: nth_equalityI)

theorem next_message_continues_witness:
  "\<exists>resp2 req2 c2 mid2 v v'. SendMessage server_example send_example ''c1'' v = ((resp2, Some (req2, c2, mid2)), v') \<and>
     er_SessionID req2 = ''s1''"
proof -
  obtain resp req w' where send: "SendMessage server_example send_example ''c1'' (turn_state ''u1'' ''a1'' []) =
      ((resp, Some (req, ''c1'', ''a1'')), w')"
    and w': "map msg_id (db_messages w') = [''u1'', ''a1'']" "db_faults w' = []"
      "db_conversations w' = db_conversations api_example"
    using send_from [of "''u1''" "[]" "''a1''"] by auto
  define d1 where "d1 = snd (UpdateConversationStatus ''c1'' ''running'' w')"
  let ?p = "scripted_provider (Inr ''s1'') [text_event ''hi'']"
  have run: "xp_Execute ?p req (snd (UpdateConversationStatus ''c1'' ''running'' w')) =
      Some ((Inr ''s1'', [text_event ''hi'']), d1)"
    by (simp add: scripted_provider_def d1_def)
  have keeps: "db_messages d1 = db_messages w'" "db_faults d1 = []" "\<exists>cr. conv_row ''c1'' d1 = Some cr"
    using w' by (simp_all add: d1_def UpdateConversationStatus_def pg_exec_def conv_statuses_def api_example_def
        conv_row_def update_where_def)
  then obtain cr where cr: "conv_row ''c1'' d1 = Some cr" by blast
  obtain d' where finished: "executeAndPersist ?p req ''c1'' ''a1'' [1] w' = Some d'"
    using run by (simp add: executeAndPersist_def Let_def)
  have ids: "map msg_id (db_messages d') = [''u1'', ''a1'']"
    using only_row_ids [OF only_row_execute [OF run keeps(1) finished]] w'(1) by simp
  then have "msg_id ` set (db_messages d') = {''u1'', ''a1''}" by (metis list.set(1,2) list.set_map)
  then obtain resp2 req2 v' where again: "SendMessage server_example send_example ''c1''
      (turn_state ''u2'' ''a2'' (db_messages d')) = ((resp2, Some (req2, ''c1'', ''a2'')), v')"
    using send_from [of "''u2''" "db_messages d'" "''a2''"] by auto
  have "er_SessionID req2 = ''s1''"
    using next_message_continues [OF _ _ _ _ send run keeps(1,2) cr finished _ again]
    by (simp add: credentials_apart_def server_example_def NewHandler_def turn_state_def api_example_def)
  with again show ?thesis by blast
qed

end
