(* ===== verification/AuthManager.thy ===== *)
theory AuthManager
  imports Http
begin

text \<open>
  The login of cc-remote-agent, \<^verbatim>\<open>apps/cc-remote-agent/internal/auth/manager.go\<close>.

  \<open>auth_state\<close> has the fields of \<^verbatim>\<open>AuthManager\<close>; a login session (its command, its terminal and the
  cancel function of its context) is a number.  A critical section under \<^verbatim>\<open>mu\<close> or
  \<^verbatim>\<open>subscribersMu\<close> is a function on the state.  The methods compose them with the calls of the
  claude CLI and the terminal, which are functions over the world.  The second half is the
  concurrent view: \<open>login_step\<close> interleaves the critical sections of any number of callers and of
  the reader goroutines with what they do outside them - starting, writing to and closing a
  terminal, waiting for the process.
\<close>

section \<open>Status\<close>

record agent_auth_status =
  ag_LoggedIn :: bool
  ag_AuthMethod :: string
  ag_ApiProvider :: string
  ag_Email :: string
  ag_OrgName :: string
  ag_SubscriptionType :: string
  ag_ApiKeySource :: string
  ag_LoginPending :: bool
  ag_LoginUrl :: string

definition zero_agent_status :: agent_auth_status where
  "zero_agent_status = \<lparr>ag_LoggedIn = False, ag_AuthMethod = [], ag_ApiProvider = [], ag_Email = [],
     ag_OrgName = [], ag_SubscriptionType = [], ag_ApiKeySource = [], ag_LoginPending = False, ag_LoginUrl = []\<rparr>"

definition agent_status_field :: "string \<Rightarrow> json \<Rightarrow> agent_auth_status \<Rightarrow> agent_auth_status option" where
  "agent_status_field k v s =
     (if k = ''loggedin'' then map_option (\<lambda>x. s\<lparr>ag_LoggedIn := x\<rparr>) (dec_bool v (ag_LoggedIn s))
      else if k = ''authmethod'' then map_option (\<lambda>x. s\<lparr>ag_AuthMethod := x\<rparr>) (dec_string v (ag_AuthMethod s))
      else if k = ''apiprovider'' then map_option (\<lambda>x. s\<lparr>ag_ApiProvider := x\<rparr>) (dec_string v (ag_ApiProvider s))
      else if k = ''email'' then map_option (\<lambda>x. s\<lparr>ag_Email := x\<rparr>) (dec_string v (ag_Email s))
      else if k = ''orgname'' then map_option (\<lambda>x. s\<lparr>ag_OrgName := x\<rparr>) (dec_string v (ag_OrgName s))
      else if k = ''subscriptiontype'' then
        map_option (\<lambda>x. s\<lparr>ag_SubscriptionType := x\<rparr>) (dec_string v (ag_SubscriptionType s))
      else if k = ''apikeysource'' then map_option (\<lambda>x. s\<lparr>ag_ApiKeySource := x\<rparr>) (dec_string v (ag_ApiKeySource s))
      else if k = ''loginpending'' then map_option (\<lambda>x. s\<lparr>ag_LoginPending := x\<rparr>) (dec_bool v (ag_LoginPending s))
      else if k = ''loginurl'' then map_option (\<lambda>x. s\<lparr>ag_LoginUrl := x\<rparr>) (dec_string v (ag_LoginUrl s))
      else Some s)"

definition agent_status_json :: "agent_auth_status \<Rightarrow> json" where
  "agent_status_json s = JObj (
     [(''loggedIn'', JBool (ag_LoggedIn s)), (''authMethod'', JStr (ag_AuthMethod s))] @
     omit_empty ''apiProvider'' (ag_ApiProvider s) @ omit_empty ''email'' (ag_Email s) @
     omit_empty ''orgName'' (ag_OrgName s) @ omit_empty ''subscriptionType'' (ag_SubscriptionType s) @
     omit_empty ''apiKeySource'' (ag_ApiKeySource s) @
     [(''loginPending'', JBool (ag_LoginPending s))] @ omit_empty ''loginUrl'' (ag_LoginUrl s))"

record agent_login_response =
  al_LoggedIn :: bool
  al_Message :: string

definition agent_login_json :: "agent_login_response \<Rightarrow> json" where
  "agent_login_json r = JObj (
     (if al_LoggedIn r then [(''loggedIn'', JBool True)] else []) @ [(''message'', JStr (al_Message r))])"

section \<open>State and critical sections\<close>

type_synonym login_id = nat

record auth_state =
  am_loginCmd :: "login_id option"
  am_ptyFd :: "login_id option"
  am_loginPending :: bool
  am_cancelFunc :: "login_id option"
  am_subscribers :: "(nat \<times> string list) list"

definition NewAuthManager :: auth_state where
  "NewAuthManager = \<lparr>am_loginCmd = None, am_ptyFd = None, am_loginPending = False, am_cancelFunc = None,
     am_subscribers = []\<rparr>"

definition register_login :: "login_id \<Rightarrow> 'z auth_state_scheme \<Rightarrow> 'z auth_state_scheme" where
  "register_login n s =
     s\<lparr>am_loginCmd := Some n, am_loginPending := True, am_cancelFunc := Some n, am_ptyFd := Some n\<rparr>"

definition end_login :: "'z auth_state_scheme \<Rightarrow> 'z auth_state_scheme" where
  "end_login s = s\<lparr>am_loginPending := False, am_loginCmd := None, am_cancelFunc := None, am_ptyFd := None\<rparr>"

definition clear_login :: "'z auth_state_scheme \<Rightarrow> 'z auth_state_scheme" where
  "clear_login s = s\<lparr>am_loginPending := False, am_cancelFunc := None, am_ptyFd := None\<rparr>"

definition channel_capacity :: nat where
  "channel_capacity = 64"

text \<open>A chunk goes to every subscriber whose buffer has room; for the others it is dropped.\<close>

definition fan_out :: "string \<Rightarrow> 'z auth_state_scheme \<Rightarrow> 'z auth_state_scheme" where
  "fan_out data s = s\<lparr>am_subscribers :=
     map (\<lambda>(ch, buf). (ch, if length buf < channel_capacity then buf @ [data] else buf)) (am_subscribers s)\<rparr>"

definition add_subscriber :: "nat \<Rightarrow> 'z auth_state_scheme \<Rightarrow> 'z auth_state_scheme" where
  "add_subscriber ch s = s\<lparr>am_subscribers := am_subscribers s @ [(ch, [])]\<rparr>"

definition remove_subscriber :: "nat \<Rightarrow> 'z auth_state_scheme \<Rightarrow> 'z auth_state_scheme" where
  "remove_subscriber ch s = s\<lparr>am_subscribers := filter (\<lambda>(c, _). c \<noteq> ch) (am_subscribers s)\<rparr>"

section \<open>Methods\<close>

record 'w auth_env =
  ae_status_cmd :: "'w \<Rightarrow> (http_body \<times> goerr option) \<times> 'w"
  ae_pty_start :: "('w, login_id) call"
  ae_pty_write :: "login_id \<Rightarrow> string \<Rightarrow> ('w, unit) call"
  ae_pty_close :: "login_id \<Rightarrow> 'w \<Rightarrow> 'w"
  ae_wait :: "login_id \<Rightarrow> 'w \<Rightarrow> 'w"
  ae_cancel :: "login_id \<Rightarrow> 'w \<Rightarrow> 'w"
  ae_logout_cmd :: "'w \<Rightarrow> 'w"

definition AM_GetStatus :: "('z auth_state_scheme) auth_env \<Rightarrow> ('z auth_state_scheme, agent_auth_status) call" where
  "AM_GetStatus env w =
     (case ae_status_cmd env w of
        ((out, err), w) \<Rightarrow>
          (case (err, out) of
             (Some e, NoBody) \<Rightarrow> (Inl e, w)
           | (None, NoBody) \<Rightarrow> (Inl (ErrText ''unexpected end of JSON input''), w)
           | _ \<Rightarrow>
               (case decode_struct agent_status_field zero_agent_status out of
                  Inl e \<Rightarrow> (Inl e, w)
                | Inr status \<Rightarrow> (Inr (status\<lparr>ag_LoginPending := am_loginPending w\<rparr>), w))))"

definition AM_StartLogin ::
    "('z auth_state_scheme) auth_env \<Rightarrow> string \<Rightarrow> ('z auth_state_scheme, agent_login_response) call" where
  "AM_StartLogin env meth w =
     (case AM_GetStatus env w of
        (res, w) \<Rightarrow>
          if (case res of Inr status \<Rightarrow> ag_LoggedIn status | Inl _ \<Rightarrow> False)
          then (Inr \<lparr>al_LoggedIn = True, al_Message = ''Already authenticated''\<rparr>, w)
          else if am_loginPending w
          then (Inr \<lparr>al_LoggedIn = False, al_Message = ''Login already in progress''\<rparr>, w)
          else
            (case ae_pty_start env w of
               (Inl err, w) \<Rightarrow> (Inl (errorf ''failed to start pty'' err), w)
             | (Inr n, w) \<Rightarrow>
                 (Inr \<lparr>al_LoggedIn = False, al_Message = ''Login started''\<rparr>, register_login n w)))"

text \<open>The deferred function of the reader goroutine of login \<open>n\<close>, when nothing else happens between
  its steps: it closes the terminal, waits for the process, cancels the context and clears the
  fields.\<close>

definition reader_exit :: "('z auth_state_scheme) auth_env \<Rightarrow> login_id \<Rightarrow> 'z auth_state_scheme \<Rightarrow> 'z auth_state_scheme" where
  "reader_exit env n w = end_login (ae_cancel env n (ae_wait env n (ae_pty_close env n w)))"

text \<open>The goroutine: the chunks it reads, and then its end.\<close>

definition reader_run ::
    "('z auth_state_scheme) auth_env \<Rightarrow> login_id \<Rightarrow> string list \<Rightarrow> 'z auth_state_scheme \<Rightarrow> 'z auth_state_scheme" where
  "reader_run env n chunks w = reader_exit env n (fold fan_out (filter (\<lambda>c. c \<noteq> []) chunks) w)"

definition AM_SubmitInput :: "('z auth_state_scheme) auth_env \<Rightarrow> string \<Rightarrow> ('z auth_state_scheme, unit) call" where
  "AM_SubmitInput env s w =
     (case (am_loginPending w, am_ptyFd w) of
        (True, Some fd) \<Rightarrow> ae_pty_write env fd s w
      | _ \<Rightarrow> (Inl (ErrText ''no login in progress''), w))"

definition AM_CancelLogin :: "('z auth_state_scheme) auth_env \<Rightarrow> 'z auth_state_scheme \<Rightarrow> 'z auth_state_scheme" where
  "AM_CancelLogin env w =
     (let cancel = am_cancelFunc w; fd = am_ptyFd w;
          w = clear_login w;
          w = (case fd of Some n \<Rightarrow> ae_pty_close env n w | None \<Rightarrow> w)
      in case cancel of Some n \<Rightarrow> ae_cancel env n w | None \<Rightarrow> w)"

definition AM_Logout :: "('z auth_state_scheme) auth_env \<Rightarrow> ('z auth_state_scheme, agent_auth_status) call" where
  "AM_Logout env w =
     AM_GetStatus env (ae_logout_cmd env (if am_loginPending w then AM_CancelLogin env w else w))"

section \<open>Interleaving\<close>

text \<open>
  Between its critical sections a goroutine holds what it has copied or made.  \<open>ls_checked\<close> callers of
  \<^verbatim>\<open>StartLogin\<close> have found no login pending and not started one yet; \<open>ls_started\<close> are the logins
  started and not yet entered in the fields.  A reader goroutine reads (\<open>ls_readers\<close>), then closes its
  terminal and waits for the process (\<open>ls_waiting\<close>), and then clears the fields (\<open>ls_waited\<close>).
  \<open>ls_cancelling\<close> are the logins whose fields a \<^verbatim>\<open>CancelLogin\<close> has cleared and whose terminal it
  closes next, \<open>ls_submitting\<close> the inputs whose \<^verbatim>\<open>SubmitInput\<close> has copied the terminal and not written
  yet.  \<open>ls_closed\<close> are the terminals closed, \<open>ls_cancelled\<close> the logins whose context a \<^verbatim>\<open>CancelLogin\<close>
  has cancelled, \<open>ls_written\<close> the inputs that reached a terminal: writing to a closed one fails.
\<close>

record login_sys =
  ls_state :: auth_state
  ls_checked :: nat
  ls_started :: "login_id list"
  ls_readers :: "login_id list"
  ls_waiting :: "login_id list"
  ls_waited :: "login_id list"
  ls_cancelling :: "login_id list"
  ls_submitting :: "(login_id \<times> string) list"
  ls_closed :: "login_id list"
  ls_cancelled :: "login_id list"
  ls_written :: "(login_id \<times> string) list"
  ls_next :: login_id

inductive login_step :: "login_sys \<Rightarrow> login_sys \<Rightarrow> bool" where
  check: "\<not> am_loginPending (ls_state s) \<Longrightarrow> login_step s (s\<lparr>ls_checked := Suc (ls_checked s)\<rparr>)"
| start: "ls_checked s = Suc k \<Longrightarrow>
    login_step s (s\<lparr>ls_checked := k, ls_started := ls_next s # ls_started s, ls_next := Suc (ls_next s)\<rparr>)"
| start_fails: "ls_checked s = Suc k \<Longrightarrow> login_step s (s\<lparr>ls_checked := k\<rparr>)"
| register: "n \<in> set (ls_started s) \<Longrightarrow>
    login_step s (s\<lparr>ls_state := register_login n (ls_state s), ls_started := removeAll n (ls_started s),
      ls_readers := n # ls_readers s\<rparr>)"
| reads: "n \<in> set (ls_readers s) \<Longrightarrow> login_step s (s\<lparr>ls_state := fan_out data (ls_state s)\<rparr>)"
| reader_closes: "n \<in> set (ls_readers s) \<Longrightarrow>
    login_step s (s\<lparr>ls_readers := removeAll n (ls_readers s), ls_waiting := n # ls_waiting s,
      ls_closed := n # ls_closed s\<rparr>)"
| reader_waits: "n \<in> set (ls_waiting s) \<Longrightarrow>
    login_step s (s\<lparr>ls_waiting := removeAll n (ls_waiting s), ls_waited := n # ls_waited s\<rparr>)"
| reader_clears: "n \<in> set (ls_waited s) \<Longrightarrow>
    login_step s (s\<lparr>ls_state := end_login (ls_state s), ls_waited := removeAll n (ls_waited s)\<rparr>)"
| cancel_clears: "login_step s (s\<lparr>ls_state := clear_login (ls_state s),
      ls_cancelling := (case am_ptyFd (ls_state s) of Some n \<Rightarrow> [n] | None \<Rightarrow> []) @ ls_cancelling s\<rparr>)"
| cancel_closes: "n \<in> set (ls_cancelling s) \<Longrightarrow>
    login_step s (s\<lparr>ls_cancelling := remove1 n (ls_cancelling s), ls_closed := n # ls_closed s,
      ls_cancelled := n # ls_cancelled s\<rparr>)"
| submit: "am_loginPending (ls_state s) \<Longrightarrow> am_ptyFd (ls_state s) = Some n \<Longrightarrow>
    login_step s (s\<lparr>ls_submitting := (n, x) # ls_submitting s\<rparr>)"
| writes: "(n, x) \<in> set (ls_submitting s) \<Longrightarrow>
    login_step s (s\<lparr>ls_submitting := remove1 (n, x) (ls_submitting s),
      ls_written := ls_written s @ (if n \<in> set (ls_closed s) then [] else [(n, x)])\<rparr>)"
| subscribe: "login_step s (s\<lparr>ls_state := add_subscriber ch (ls_state s)\<rparr>)"
| unsubscribe: "login_step s (s\<lparr>ls_state := remove_subscriber ch (ls_state s)\<rparr>)"

definition login_start :: login_sys where
  "login_start = \<lparr>ls_state = NewAuthManager, ls_checked = 0, ls_started = [], ls_readers = [],
     ls_waiting = [], ls_waited = [], ls_cancelling = [], ls_submitting = [], ls_closed = [],
     ls_cancelled = [], ls_written = [], ls_next = 0\<rparr>"

inductive login_reach :: "login_sys \<Rightarrow> bool" where
  init: "login_reach login_start"
| step: "login_reach s \<Longrightarrow> login_step s s' \<Longrightarrow> login_reach s'"

inductive_cases login_stepE: "login_step s s'"

lemmas section_defs = register_login_def end_login_def clear_login_def fan_out_def add_subscriber_def
  remove_subscriber_def

text \<open>The goroutines of readers that have not cleared the fields yet.\<close>

definition at_work :: "login_sys \<Rightarrow> login_id set" where
  "at_work s = set (ls_readers s) \<union> set (ls_waiting s) \<union> set (ls_waited s)"

definition login_ok :: "login_sys \<Rightarrow> bool" where
  "login_ok s \<longleftrightarrow>
     (am_loginPending (ls_state s) \<longleftrightarrow> am_ptyFd (ls_state s) \<noteq> None) \<and>
     am_cancelFunc (ls_state s) = am_ptyFd (ls_state s) \<and>
     (\<forall>n. am_ptyFd (ls_state s) = Some n \<longrightarrow> am_loginCmd (ls_state s) = Some n) \<and>
     (\<forall>n. am_loginCmd (ls_state s) = Some n \<longrightarrow> n \<in> at_work s) \<and>
     (\<forall>(ch, buf) \<in> set (am_subscribers (ls_state s)). length buf \<le> channel_capacity)"

lemma login_ok_step: "login_step s s' \<Longrightarrow> login_ok s \<Longrightarrow> login_ok s'"
  by (erule login_stepE) (auto simp: login_ok_def at_work_def section_defs)

lemma login_reach_ok: "login_reach s \<Longrightarrow> login_ok s"
proof (induction rule: login_reach.induct)
  case init
  then show ?case by (simp add: login_ok_def login_start_def NewAuthManager_def)
next
  case (step s s')
  then show ?case using login_ok_step by blast
qed

text \<open>The terminals a goroutine works on or has closed are those of logins that were entered in the
  fields; a login that is entered anew is none of them.\<close>

definition entered :: "login_sys \<Rightarrow> login_id set" where
  "entered s = {n. n < ls_next s \<and> n \<notin> set (ls_started s)}"

definition handled :: "login_sys \<Rightarrow> login_id set" where
  "handled s = at_work s \<union> set (ls_cancelling s) \<union> set (ls_closed s) \<union> set (ls_cancelled s)"

definition known_ok :: "login_sys \<Rightarrow> bool" where
  "known_ok s \<longleftrightarrow> set (ls_started s) \<subseteq> {..<ls_next s} \<and> handled s \<subseteq> entered s \<and>
     (\<forall>n. am_ptyFd (ls_state s) = Some n \<longrightarrow> n \<in> entered s)"

lemmas handled_defs = handled_def at_work_def entered_def section_defs

lemma known_ok_step: "login_step s s' \<Longrightarrow> known_ok s \<Longrightarrow> known_ok s'"
proof (induction rule: login_step.induct)
  case (cancel_closes n s)
  then show ?case using set_remove1_subset [of n "ls_cancelling s"]
    by (auto simp: known_ok_def handled_defs)
next
  case (start s k)
  then show ?case by (simp add: known_ok_def handled_defs) force
next
  case (register n s)
  then show ?case by (simp add: known_ok_def handled_defs) auto
qed (simp_all add: known_ok_def handled_defs, (auto split: option.splits)?)

text \<open>The login in the fields is none that a cancellation has taken out of them, and a terminal that is
  closed while its reader still reads was closed by a cancellation.\<close>

definition closed_ok :: "login_sys \<Rightarrow> bool" where
  "closed_ok s \<longleftrightarrow>
     (\<forall>n. am_ptyFd (ls_state s) = Some n \<longrightarrow> n \<notin> set (ls_cancelling s) \<union> set (ls_cancelled s)) \<and>
     set (ls_readers s) \<inter> set (ls_closed s) \<subseteq> set (ls_cancelled s)"

lemma closed_ok_step: "login_step s s' \<Longrightarrow> known_ok s \<Longrightarrow> closed_ok s \<Longrightarrow> closed_ok s'"
proof (induction rule: login_step.induct)
  case (cancel_closes n s)
  then show ?case using set_remove1_subset [of n "ls_cancelling s"]
    by (auto simp: closed_ok_def)
next
  case (register n s)
  then show ?case by (auto simp: known_ok_def closed_ok_def handled_defs)
qed (auto simp: closed_ok_def section_defs)

lemma login_reach_known: "login_reach s \<Longrightarrow> known_ok s \<and> closed_ok s"
proof (induction rule: login_reach.induct)
  case init
  then show ?case by (simp add: known_ok_def closed_ok_def handled_defs login_start_def NewAuthManager_def)
next
  case (step s s')
  then show ?case using known_ok_step closed_ok_step by blast
qed

text \<open>C32: whatever the interleaving of logins, inputs, cancellations, logouts and readers that end, the
  four fields agree: a login is pending exactly when there is a terminal to write to and a cancel
  function, all of one session, whose reader goroutine has not cleared them yet.  As long as that
  goroutine reads, the terminal is open: only the reader itself closes the terminal of a pending login,
  and then waits for the process before it clears the fields, so that an input submitted meanwhile
  fails.  No subscriber has more than 64 chunks waiting.\<close>

theorem login_fields_agree:
  assumes "login_reach s"
  shows "(if am_loginPending (ls_state s)
     then \<exists>n. am_ptyFd (ls_state s) = Some n \<and> am_cancelFunc (ls_state s) = Some n \<and>
       am_loginCmd (ls_state s) = Some n \<and> n \<in> at_work s \<and> (n \<in> set (ls_readers s) \<longrightarrow> n \<notin> set (ls_closed s))
     else am_ptyFd (ls_state s) = None \<and> am_cancelFunc (ls_state s) = None) \<and>
    (\<forall>(ch, buf) \<in> set (am_subscribers (ls_state s)). length buf \<le> 64)"
  using login_reach_ok [OF assms] login_reach_known [OF assms]
  by (auto simp: login_ok_def closed_ok_def channel_capacity_def)

section \<open>Histories\<close>

lemmas reach_step = login_reach.step

text \<open>From any reachable state where no login is pending and none is being started, a login can be started.\<close>

lemma one_login:
  assumes "login_reach s" and "\<not> am_loginPending (ls_state s)" and "ls_started s = []" and "ls_checked s = 0"
  shows "login_reach (s\<lparr>ls_state := register_login (ls_next s) (ls_state s),
    ls_readers := ls_next s # ls_readers s, ls_next := Suc (ls_next s)\<rparr>)"
proof -
  define s1 where "s1 = s\<lparr>ls_checked := Suc (ls_checked s)\<rparr>"
  define s2 where "s2 = s1\<lparr>ls_checked := 0, ls_started := ls_next s1 # ls_started s1, ls_next := Suc (ls_next s1)\<rparr>"
  have 1: "login_reach s1"
    using reach_step [OF assms(1) login_step.check [OF assms(2)]] by (simp add: s1_def)
  have "login_step s1 s2"
    using login_step.start [of s1 0] assms(4) by (simp add: s1_def s2_def)
  then have 2: "login_reach s2" using reach_step [OF 1] by blast
  show ?thesis
    using reach_step [OF 2 login_step.register [of "ls_next s"]] assms(3,4)
    by (cases s) (simp add: s2_def s1_def)
qed

definition login_running :: login_sys where
  "login_running = login_start\<lparr>ls_state := register_login 0 NewAuthManager, ls_readers := [0], ls_next := 1\<rparr>"

lemma login_running: "login_reach login_running"
  using one_login [OF login_reach.init] by (simp add: login_running_def login_start_def NewAuthManager_def)

theorem login_fields_agree_witness:
  "login_reach login_running \<and> am_loginPending (ls_state login_running) \<and> 0 \<notin> set (ls_closed login_running)"
  using login_running login_fields_agree [OF login_running]
  by (simp add: login_running_def register_login_def)

text \<open>A login can be lost: there is a history after which a login runs that was never cancelled, while
  the fields say that none is pending, so that it can neither be given input nor be cancelled.
  (Start a login, cancel it, start another one; the reader of the first then clears the fields of
  the second.)\<close>

theorem login_can_be_lost:
  "\<exists>s. login_reach s \<and> ls_readers s = [1] \<and> 1 \<notin> set (ls_cancelled s) \<and>
     \<not> am_loginPending (ls_state s) \<and> am_ptyFd (ls_state s) = None \<and> am_cancelFunc (ls_state s) = None"
proof -
  define a where "a = login_running\<lparr>ls_state := clear_login (ls_state login_running), ls_cancelling := [0]\<rparr>"
  define b where "b = a\<lparr>ls_state := register_login 1 (ls_state a), ls_readers := [1, 0], ls_next := 2\<rparr>"
  define c where "c = b\<lparr>ls_readers := [1], ls_waiting := [0], ls_closed := [0]\<rparr>"
  define d where "d = c\<lparr>ls_waiting := [], ls_waited := [0]\<rparr>"
  have "login_step login_running a"
    using login_step.cancel_clears [of login_running]
    by (simp add: a_def login_running_def login_start_def register_login_def)
  then have a: "login_reach a" by (rule reach_step [OF login_running])
  have b: "login_reach b"
    using one_login [OF a]
    by (simp add: b_def a_def login_running_def login_start_def clear_login_def numeral_2_eq_2)
  have "login_step b c"
    using login_step.reader_closes [of 0 b] by (simp add: b_def a_def c_def login_running_def login_start_def)
  then have c: "login_reach c" by (rule reach_step [OF b])
  have "login_step c d"
    using login_step.reader_waits [of 0 c] by (simp add: b_def a_def c_def d_def login_running_def login_start_def)
  then have d: "login_reach d" by (rule reach_step [OF c])
  have "login_reach (d\<lparr>ls_state := end_login (ls_state d), ls_waited := []\<rparr>)"
    using reach_step [OF d login_step.reader_clears [of 0]] by (simp add: d_def)
  then show ?thesis
    by (intro exI [of _ "d\<lparr>ls_state := end_login (ls_state d), ls_waited := []\<rparr>"])
      (simp add: d_def c_def b_def a_def login_running_def login_start_def end_login_def)
qed

text \<open>Input can reach a login that has been cancelled: \<^verbatim>\<open>SubmitInput\<close> copies the terminal under the lock and
  writes after releasing it, so that a cancellation that has cleared the fields and not yet closed
  the terminal does not stop it.\<close>

theorem input_after_cancel:
  "\<exists>s s'. login_reach s \<and> login_step s s' \<and> \<not> am_loginPending (ls_state s) \<and>
     ls_written s = [] \<and> ls_written s' = [(0, x)]"
proof -
  define a where "a = login_running\<lparr>ls_submitting := [(0, x)]\<rparr>"
  define b where "b = a\<lparr>ls_state := clear_login (ls_state a), ls_cancelling := [0]\<rparr>"
  have "login_step login_running a"
    using login_step.submit [of login_running 0 x]
    by (simp add: a_def login_running_def login_start_def register_login_def)
  then have a: "login_reach a" by (rule reach_step [OF login_running])
  have "login_step a b"
    using login_step.cancel_clears [of a]
    by (simp add: b_def a_def login_running_def login_start_def register_login_def)
  then have b: "login_reach b" by (rule reach_step [OF a])
  then show ?thesis
    using login_step.writes [of 0 x b]
    by (intro exI [of _ b] exI [of _ "b\<lparr>ls_submitting := [], ls_written := [(0, x)]\<rparr>"])
      (simp add: b_def a_def login_running_def login_start_def clear_login_def)
qed

end
