(* ===== verification/ClaudeExecutor.thy ===== *)
theory ClaudeExecutor
  imports Http
begin

text \<open>
  cc-remote-agent's executor, \<^verbatim>\<open>apps/cc-remote-agent/internal/claude/executor.go\<close>: the command line of
  the claude CLI, the copy of its output to the response, and the second run that replaces a
  failed resume.

  \<open>'w claude_env\<close> is what it uses of the system: starting the process (creating the pipes
  included), writing to the response, and whether the response can be flushed.  A process is
  what it writes to its standard output and what \<^verbatim>\<open>cmd.Wait\<close> then gives: that depends on whether the
  output was read to its end, because a process whose output nobody reads any more may block on the
  full pipe, and \<^verbatim>\<open>cmd.Wait\<close> then waits for ever (\<open>None\<close>), as it does for a process that never exits.
  The standard error is read after the standard output, and only logged; a process that fills that
  pipe before it closes its output does not end either.

  A stream ends with a result, panics - the code calls a nil function - or waits, until the
  request's context is cancelled from outside.
\<close>

record conversation_msg =
  cv_Role :: string
  cv_Content :: string

record execute_request =
  xq_Prompt :: string
  xq_SessionID :: string
  xq_Model :: string
  xq_SystemPrompt :: string
  xq_ConversationHistory :: "conversation_msg list"
  xq_AllowedTools :: "string list"
  xq_PermissionMode :: string
  xq_MaxBudgetUSD :: rat
  xq_IncludePartialMessages :: bool
  xq_IncludeHookEvents :: bool

record process =
  pr_stdout :: string
  pr_exit :: "bool \<Rightarrow> goerr option option"

datatype 'w stream_end = Ended "unit result" 'w | Panicked 'w | Waiting 'w

record 'w claude_env =
  ce_start :: "string list \<Rightarrow> ('w, process) call"
  ce_write :: "string \<Rightarrow> ('w, unit) call"
  ce_flusher :: bool

section \<open>The command line\<close>

definition buildArgs :: "execute_request \<Rightarrow> bool \<Rightarrow> string list" where
  "buildArgs req isFallback =
     [''-p'', ''--output-format=stream-json'', ''--verbose''] @
     (if xq_SessionID req \<noteq> [] \<and> \<not> isFallback then [''--resume'', xq_SessionID req] else []) @
     (if xq_Model req \<noteq> [] then [''--model'', xq_Model req] else []) @
     (if xq_SystemPrompt req \<noteq> [] then [''--system-prompt'', xq_SystemPrompt req] else []) @
     concat (map (\<lambda>tool. [''--allowedTools'', tool]) (xq_AllowedTools req)) @
     (if xq_PermissionMode req \<noteq> [] then [''--permission-mode'', xq_PermissionMode req] else []) @
     (if xq_IncludePartialMessages req then [''--include-partial-messages''] else []) @
     (if xq_IncludeHookEvents req then [''--include-hook-events''] else []) @
     [''--dangerously-skip-permissions''] @ [''--'', xq_Prompt req]"

definition history_line :: "conversation_msg \<Rightarrow> string" where
  "history_line msg =
     (if cv_Role msg = ''user'' then ''[User]: '' @ cv_Content msg @ [CHR 0x0A]
      else if cv_Role msg = ''assistant'' then ''[Assistant]: '' @ cv_Content msg @ [CHR 0x0A]
      else if cv_Role msg = ''system'' then ''[System]: '' @ cv_Content msg @ [CHR 0x0A]
      else [])"

definition buildFallbackPrompt :: "conversation_msg list \<Rightarrow> string \<Rightarrow> string" where
  "buildFallbackPrompt history currentPrompt =
     ''You are continuing a conversation. Here is the conversation history:'' @ [CHR 0x0A, CHR 0x0A] @
     concat (map history_line history) @
     [CHR 0x0A] @ ''Please respond to the latest user message:'' @ [CHR 0x0A] @ currentPrompt"

section \<open>Resume failures\<close>

definition containsAny :: "string \<Rightarrow> string list \<Rightarrow> bool" where
  "containsAny s substrings =
     list_ex (\<lambda>sub. length sub \<le> length s \<and>
        list_ex (\<lambda>i. take (length sub) (drop i s) = sub) [0..<length s - length sub + 1]) substrings"

definition containsResumeError :: "string \<Rightarrow> bool" where
  "containsResumeError line = containsAny line [''session not found'', ''resume failed'', ''invalid session'']"

section \<open>Streaming\<close>

text \<open>The loop over the lines: the error of a write, or whether a line reported a failed resume.\<close>

fun copy_lines :: "'w claude_env \<Rightarrow> string list \<Rightarrow> ('w, bool) call" where
  "copy_lines env [] w = (Inr False, w)"
| "copy_lines env (line # lines) w =
     (if containsResumeError line then (Inr True, w)
      else
        (case ce_write env line w of
           (Inl err, w) \<Rightarrow> (Inl err, w)
         | (Inr _, w) \<Rightarrow>
             (case ce_write env [CHR 0x0A] w of
                (Inl err, w) \<Rightarrow> (Inl err, w)
              | (Inr _, w) \<Rightarrow> copy_lines env lines w)))"

definition runStream ::
    "'w claude_env \<Rightarrow> string list \<Rightarrow> ('w \<Rightarrow> 'w stream_end) option \<Rightarrow> 'w \<Rightarrow> 'w stream_end" where
  "runStream env args onError w =
     (case ce_start env args w of
        (Inl err, w) \<Rightarrow> Ended (Inl err) w
      | (Inr cmd, w) \<Rightarrow>
          if \<not> ce_flusher env then Ended (Inl (ErrText ''streaming not supported'')) w
          else
            (case scan_text (pr_stdout cmd) of
               (lines, whole) \<Rightarrow>
                 (case copy_lines env lines w of
                    (Inl err, w) \<Rightarrow> Ended (Inl err) w
                  | (Inr resumeFailed, w) \<Rightarrow>
                      (case pr_exit cmd (whole \<and> \<not> resumeFailed) of
                         None \<Rightarrow> Waiting w
                       | Some cmdErr \<Rightarrow>
                           if resumeFailed \<or> (cmdErr \<noteq> None \<and> onError \<noteq> None)
                           then (case onError of None \<Rightarrow> Panicked w | Some f \<Rightarrow> f w)
                           else Ended (case cmdErr of None \<Rightarrow> Inr () | Some err \<Rightarrow> Inl err) w))))"

definition fallback_request :: "execute_request \<Rightarrow> execute_request" where
  "fallback_request req =
     req\<lparr>xq_SessionID := [],
         xq_Prompt := buildFallbackPrompt (xq_ConversationHistory req) (xq_Prompt req)\<rparr>"

definition StreamToWriter :: "'w claude_env \<Rightarrow> execute_request \<Rightarrow> 'w \<Rightarrow> 'w stream_end" where
  "StreamToWriter env req =
     runStream env (buildArgs req False)
       (Some (\<lambda>w.
          if xq_SessionID req \<noteq> [] \<and> length (xq_ConversationHistory req) > 0
          then runStream env (buildArgs (fallback_request req) False) None w
          else Ended (Inl (ErrText ''claude execution failed'')) w))"

section \<open>What a stream does\<close>

lemma take_drop_prefix: "take (length p) (drop i s) = p \<longleftrightarrow> (\<exists>t. drop i s = p @ t)"
  by (metis append_eq_conv_conj append_take_drop_id)

lemma containsAny_iff: "containsAny s subs \<longleftrightarrow> (\<exists>sub \<in> set subs. contains_str s sub)"
proof -
  have "(length sub \<le> length s \<and> list_ex (\<lambda>i. take (length sub) (drop i s) = sub) [0..<length s - length sub + 1])
      \<longleftrightarrow> contains_str s sub" for sub
  proof
    assume "contains_str s sub"
    then obtain u v where s: "s = u @ sub @ v" by (auto simp: contains_str_iff)
    then show "length sub \<le> length s \<and> list_ex (\<lambda>i. take (length sub) (drop i s) = sub) [0..<length s - length sub + 1]"
      by (auto simp: list_ex_iff intro!: bexI [of _ "length u"])
  next
    assume "length sub \<le> length s \<and> list_ex (\<lambda>i. take (length sub) (drop i s) = sub) [0..<length s - length sub + 1]"
    then obtain i t where "drop i s = sub @ t" by (auto simp: list_ex_iff take_drop_prefix)
    then have "s = take i s @ sub @ t" by (metis append_take_drop_id)
    then show "contains_str s sub" by (auto simp: contains_str_iff)
  qed
  then show ?thesis by (simp add: containsAny_def list_ex_iff)
qed

text \<open>The lines that are passed on: those before the first that reports a failed resume.\<close>

definition passed_on :: "string list \<Rightarrow> string list" where
  "passed_on = takeWhile (\<lambda>l. \<not> containsResumeError l)"

text \<open>An environment in which writing appends to \<open>out\<close>, starting a process is remembered in \<open>started\<close>,
  and the process depends on its arguments.\<close>

definition recorded_env ::
    "'w claude_env \<Rightarrow> (string list \<Rightarrow> process) \<Rightarrow> ('w \<Rightarrow> string) \<Rightarrow> ('w \<Rightarrow> string list list) \<Rightarrow> bool" where
  "recorded_env env proc out started \<longleftrightarrow> ce_flusher env \<and>
     (\<forall>s w. \<exists>w'. ce_write env s w = (Inr (), w') \<and> out w' = out w @ s \<and> started w' = started w) \<and>
     (\<forall>args w. \<exists>w'. ce_start env args w = (Inr (proc args), w') \<and> out w' = out w \<and>
        started w' = started w @ [args])"

lemma copy_lines_recorded:
  assumes "recorded_env env proc out started"
  shows "\<exists>w'. copy_lines env ls w = (Inr (list_ex containsResumeError ls), w') \<and>
    out w' = out w @ ndjson (passed_on ls) \<and> started w' = started w"
proof (induction ls arbitrary: w)
  case Nil
  then show ?case by (simp add: ndjson_def passed_on_def)
next
  case (Cons l ls)
  show ?case
  proof (cases "containsResumeError l")
    case True
    then show ?thesis by (simp add: ndjson_def passed_on_def)
  next
    case False
    obtain w1 where 1: "ce_write env l w = (Inr (), w1)" "out w1 = out w @ l" "started w1 = started w"
      using assms unfolding recorded_env_def by blast
    obtain w2 where 2: "ce_write env [CHR 0x0A] w1 = (Inr (), w2)" "out w2 = out w1 @ [CHR 0x0A]" "started w2 = started w1"
      using assms unfolding recorded_env_def by blast
    from Cons.IH [of w2] 1 2 False show ?thesis by (auto simp: ndjson_def passed_on_def)
  qed
qed

text \<open>The lines of a process the scanner delivers, whether one of them reports a failed resume, the result
  of \<^verbatim>\<open>cmd.Wait\<close> after it, and what the client gets of it.\<close>

definition pr_lines :: "process \<Rightarrow> string list" where
  "pr_lines pr = fst (scan_text (pr_stdout pr))"

definition resume_fails :: "process \<Rightarrow> bool" where
  "resume_fails pr \<longleftrightarrow> list_ex containsResumeError (pr_lines pr)"

definition pr_result :: "process \<Rightarrow> goerr option option" where
  "pr_result pr = pr_exit pr (snd (scan_text (pr_stdout pr)) \<and> \<not> resume_fails pr)"

definition shown :: "process \<Rightarrow> string" where
  "shown pr = ndjson (passed_on (pr_lines pr))"

lemma shown_all: "\<not> resume_fails pr \<Longrightarrow> shown pr = ndjson (pr_lines pr)"
  by (simp add: shown_def passed_on_def resume_fails_def list_ex_iff takeWhile_eq_all_conv [THEN iffD2])

lemma runStream_recorded:
  assumes "recorded_env env proc out started"
  obtains w' where "out w' = out w @ shown (proc args)" and "started w' = started w @ [args]"
    and "runStream env args onError w =
      (case pr_result (proc args) of
         None \<Rightarrow> Waiting w'
       | Some cmdErr \<Rightarrow>
           if resume_fails (proc args) \<or> (cmdErr \<noteq> None \<and> onError \<noteq> None)
           then (case onError of None \<Rightarrow> Panicked w' | Some f \<Rightarrow> f w')
           else Ended (case cmdErr of None \<Rightarrow> Inr () | Some err \<Rightarrow> Inl err) w')"
proof -
  obtain w1 where 1: "ce_start env args w = (Inr (proc args), w1)" "out w1 = out w" "started w1 = started w @ [args]"
    using assms unfolding recorded_env_def by blast
  obtain w2 where 2: "copy_lines env (pr_lines (proc args)) w1 = (Inr (resume_fails (proc args)), w2)"
    "out w2 = out w1 @ shown (proc args)" "started w2 = started w1"
    using copy_lines_recorded [OF assms] unfolding resume_fails_def shown_def by blast
  have "ce_flusher env" using assms by (simp add: recorded_env_def)
  with 1 2 show ?thesis
    by (intro that [of w2]) (auto simp: runStream_def pr_lines_def pr_result_def split: prod.split)
qed

definition can_fall_back :: "execute_request \<Rightarrow> bool" where
  "can_fall_back req \<longleftrightarrow> xq_SessionID req \<noteq> [] \<and> xq_ConversationHistory req \<noteq> []"

lemma stream_outcome:
  fixes req :: execute_request and w :: 'w
  assumes env: "recorded_env env proc out started"
  defines "args1 \<equiv> buildArgs req False" and "args2 \<equiv> buildArgs (fallback_request req) True"
  defines "p1 \<equiv> proc args1" and "p2 \<equiv> proc args2"
  shows "\<exists>w'. StreamToWriter env req w =
      (case pr_result p1 of
         None \<Rightarrow> Waiting w'
       | Some err1 \<Rightarrow>
           if \<not> resume_fails p1 \<and> err1 = None then Ended (Inr ()) w'
           else if \<not> can_fall_back req then Ended (Inl (ErrText ''claude execution failed'')) w'
           else (case pr_result p2 of
                   None \<Rightarrow> Waiting w'
                 | Some err2 \<Rightarrow>
                     if resume_fails p2 then Panicked w'
                     else Ended (case err2 of None \<Rightarrow> Inr () | Some err \<Rightarrow> Inl err) w')) \<and>
    (let again = pr_result p1 \<noteq> None \<and> (resume_fails p1 \<or> pr_result p1 \<noteq> Some None) \<and> can_fall_back req in
     out w' = out w @ shown p1 @ (if again then shown p2 else []) \<and>
     started w' = started w @ [args1] @ (if again then [args2] else []))"
proof -
  have a2: "buildArgs (fallback_request req) False = args2"
    by (simp add: args2_def buildArgs_def fallback_request_def)
  let ?on = "\<lambda>w. if xq_SessionID req \<noteq> [] \<and> length (xq_ConversationHistory req) > 0
          then runStream env args2 None w else Ended (Inl (ErrText ''claude execution failed'')) w"
  obtain w1 where w1: "out w1 = out w @ shown p1" "started w1 = started w @ [args1]"
    and r1: "runStream env args1 (Some ?on) w =
      (case pr_result p1 of None \<Rightarrow> Waiting w1
       | Some e \<Rightarrow> if resume_fails p1 \<or> e \<noteq> None then ?on w1 else Ended (Inr ()) w1)"
    by (rule runStream_recorded [OF env, of w args1 "Some ?on"])
      (auto simp: p1_def split: option.split)
  obtain w2 where w2: "out w2 = out w1 @ shown p2" "started w2 = started w1 @ [args2]"
    and r2: "runStream env args2 None w1 =
      (case pr_result p2 of None \<Rightarrow> Waiting w2
       | Some e \<Rightarrow> if resume_fails p2 then Panicked w2 else Ended (case e of None \<Rightarrow> Inr () | Some err \<Rightarrow> Inl err) w2)"
    by (rule runStream_recorded [OF env, of w1 args2 None]) (auto simp: p2_def split: option.split)
  have s: "StreamToWriter env req w = runStream env args1 (Some ?on) w"
    unfolding StreamToWriter_def a2 args1_def ..
  let ?again = "pr_result p1 \<noteq> None \<and> (resume_fails p1 \<or> pr_result p1 \<noteq> Some None) \<and> can_fall_back req"
  show ?thesis
    unfolding s r1
    by (rule exI [of _ "if ?again then w2 else w1"])
      (auto simp: w1 w2 r2 can_fall_back_def Let_def split: option.split)
qed

text \<open>C31: the client gets the output of the CLI line by line, up to the first line of 64 KiB or more: the
  scanner's error is ignored, that line and what follows it are lost, and the process may block on the
  output nobody reads.  When the process has exited with an error or a line reported a failed resume,
  and there is a history, the lines before the failure are followed by the output of exactly one more
  process, which does not resume and whose prompt holds the history; without history the failure is an
  error.  The second run reporting a failed resume as well - any of its lines containing one of the
  phrases - crashes the handler.  A process that does not end leaves the stream waiting.\<close>

theorem stream_with_fallback:
  fixes req :: execute_request and w :: 'w
  assumes env: "recorded_env env proc out started"
  defines "args1 \<equiv> buildArgs req False" and "args2 \<equiv> buildArgs (fallback_request req) True"
  defines "p1 \<equiv> proc args1" and "p2 \<equiv> proc args2"
  shows "(\<exists>w'. StreamToWriter env req w =
      (case pr_result p1 of
         None \<Rightarrow> Waiting w'
       | Some err1 \<Rightarrow>
           if \<not> resume_fails p1 \<and> err1 = None then Ended (Inr ()) w'
           else if \<not> can_fall_back req then Ended (Inl (ErrText ''claude execution failed'')) w'
           else (case pr_result p2 of
                   None \<Rightarrow> Waiting w'
                 | Some err2 \<Rightarrow>
                     if resume_fails p2 then Panicked w'
                     else Ended (case err2 of None \<Rightarrow> Inr () | Some err \<Rightarrow> Inl err) w')) \<and>
      (let again = pr_result p1 \<noteq> None \<and> (resume_fails p1 \<or> pr_result p1 \<noteq> Some None) \<and> can_fall_back req in
       out w' = out w @ shown p1 @ (if again then shown p2 else []) \<and>
       started w' = started w @ [args1] @ (if again then [args2] else []))) \<and>
    (\<forall>p ls b rest. (\<forall>l \<in> set ls. short_line l \<and> \<not> containsResumeError (drop_cr l)) \<longrightarrow>
       CHR 0x0A \<notin> set b \<longrightarrow> 65536 \<le> length b \<longrightarrow> pr_stdout p = ndjson ls @ b @ rest \<longrightarrow>
       shown p = ndjson (map drop_cr ls) \<and> pr_result p = pr_exit p False)"
proof -
  have "shown p = ndjson (map drop_cr ls) \<and> pr_result p = pr_exit p False"
    if "\<forall>l \<in> set ls. short_line l \<and> \<not> containsResumeError (drop_cr l)" "CHR 0x0A \<notin> set b"
      "65536 \<le> length b" "pr_stdout p = ndjson ls @ b @ rest" for p ls b rest
  proof -
    have s: "scan_text (pr_stdout p) = (map drop_cr ls, False)"
      using scan_ndjson_long [OF _ that(2,3)] that(1,4) by simp
    have "\<not> resume_fails p" using that(1) by (auto simp: resume_fails_def pr_lines_def s list_ex_iff)
    then show ?thesis by (simp add: shown_all pr_lines_def pr_result_def s)
  qed
  then show ?thesis
    using stream_outcome [OF env, of req w] unfolding args1_def args2_def p1_def p2_def by blast
qed

section \<open>Witness\<close>

definition script_env :: "(string list \<Rightarrow> process) \<Rightarrow> (string \<times> string list list) claude_env" where
  "script_env proc =
     \<lparr>ce_start = (\<lambda>args w. (Inr (proc args), fst w, snd w @ [args])),
      ce_write = (\<lambda>s w. (Inr (), fst w @ s, snd w)), ce_flusher = True\<rparr>"

lemma script_env_recorded: "recorded_env (script_env proc) proc fst snd"
  by (simp add: recorded_env_def script_env_def)

definition resume_request :: execute_request where
  "resume_request = \<lparr>xq_Prompt = ''go on'', xq_SessionID = ''s1'', xq_Model = [], xq_SystemPrompt = [],
     xq_ConversationHistory = [\<lparr>cv_Role = ''user'', cv_Content = ''hi''\<rparr>], xq_AllowedTools = [],
     xq_PermissionMode = [], xq_MaxBudgetUSD = 0, xq_IncludePartialMessages = False,
     xq_IncludeHookEvents = False\<rparr>"

definition forgetful_cli :: "string list \<Rightarrow> process" where
  "forgetful_cli args =
     (if ''--resume'' \<in> set args
      then \<lparr>pr_stdout = ''session not found'', pr_exit = (\<lambda>whole. Some (Some (ErrText ''exit status 1'')))\<rparr>
      else \<lparr>pr_stdout = ''fine'' @ [CHR 0x0A], pr_exit = (\<lambda>whole. Some None)\<rparr>)"

lemma forgetful_scan:
  "scan_text ''session not found'' = ([''session not found''], True)"
  "scan_text (''fine'' @ [CHR 0x0A]) = ([''fine''], True)"
  by (simp_all add: scan_text.simps(2) MaxScanTokenSize_def drop_cr_def)

lemma forgetful_args:
  "''--resume'' \<in> set (buildArgs resume_request False)"
  "''--resume'' \<notin> set (buildArgs (fallback_request resume_request) True)"
  by code_simp+

lemma forgetful_phrases: "containsResumeError ''session not found''" "\<not> containsResumeError ''fine''"
  by code_simp+

lemma forgetful_runs:
  "resume_fails (forgetful_cli (buildArgs resume_request False))"
  "pr_result (forgetful_cli (buildArgs resume_request False)) \<noteq> None"
  "shown (forgetful_cli (buildArgs resume_request False)) = []"
  "\<not> resume_fails (forgetful_cli (buildArgs (fallback_request resume_request) True))"
  "pr_result (forgetful_cli (buildArgs (fallback_request resume_request) True)) = Some None"
  "shown (forgetful_cli (buildArgs (fallback_request resume_request) True)) = ''fine'' @ [CHR 0x0A]"
  using forgetful_scan forgetful_phrases
  by (simp_all add: forgetful_cli_def forgetful_args resume_fails_def pr_result_def shown_def pr_lines_def
      passed_on_def ndjson_def)

theorem stream_with_fallback_witness:
  "\<exists>w'. StreamToWriter (script_env forgetful_cli) resume_request ([], []) = Ended (Inr ()) w' \<and>
     fst w' = ''fine'' @ [CHR 0x0A] \<and> length (snd w') = 2"
proof -
  have f: "can_fall_back resume_request" by (simp add: can_fall_back_def resume_request_def)
  show ?thesis
    using stream_with_fallback [OF script_env_recorded, of forgetful_cli resume_request "([], [])", THEN conjunct1]
      forgetful_runs f by (auto simp: Let_def split: option.splits)
qed

end
