(* ===== verification/AgentApi.thy ===== *)
theory AgentApi
  imports AuthManager ClaudeExecutor
begin

text \<open>
  cc-remote-agent's HTTP server: \<^verbatim>\<open>apps/cc-remote-agent/internal/api/handler.go\<close> and the routes of
  \<^verbatim>\<open>cmd/cc-remote-agent/main.go\<close>.

  A handler gives its reply and the world.  A reply is a response, or \<open>Streamed\<close> when the handler
  writes to the connection while it runs.  \<^verbatim>\<open>/execute\<close> has no result when it panics or does not return.  The file system
  and the remaining commands are functions of the environment; the home directory is a clean path
  other than the root, for which \<open>join_path\<close> is \<^verbatim>\<open>filepath.Join\<close>.
\<close>

record 'w agent_env = "'w auth_env" +
  ge_home :: "string result"
  ge_mkdir :: "string \<Rightarrow> ('w, unit) call"
  ge_write_file :: "string \<Rightarrow> string \<Rightarrow> ('w, unit) call"
  ge_read_file :: "string \<Rightarrow> ('w, string) call"
  ge_version_cmd :: "('w, string) call"
  ge_claude :: "'w claude_env"

datatype reply = Reply http_response | Streamed

section \<open>Responses\<close>

definition encode_json :: "json \<Rightarrow> http_response" where
  "encode_json v = json_response 200 v"

text \<open>\<^verbatim>\<open>http.Error\<close> with a text that is a JSON object: the body is that JSON value, the type plain text.\<close>

definition json_http_error :: "(string \<times> string) list \<Rightarrow> int \<Rightarrow> http_response" where
  "json_http_error kvs code =
     \<lparr>rs_status = code, rs_content_type = ''text/plain; charset=utf-8'',
      rs_body = JsonBody (JObj (map (\<lambda>(k, v). (k, JStr v)) kvs))\<rparr>"

definition method_not_allowed :: http_response where
  "method_not_allowed = http_error ''method not allowed'' 405"

section \<open>Execution\<close>

definition conversation_msg_field :: "string \<Rightarrow> json \<Rightarrow> conversation_msg \<Rightarrow> conversation_msg option" where
  "conversation_msg_field k v m =
     (if k = ''role'' then map_option (\<lambda>x. m\<lparr>cv_Role := x\<rparr>) (dec_string v (cv_Role m))
      else if k = ''content'' then map_option (\<lambda>x. m\<lparr>cv_Content := x\<rparr>) (dec_string v (cv_Content m))
      else Some m)"

definition zero_conversation_msg :: conversation_msg where
  "zero_conversation_msg = \<lparr>cv_Role = [], cv_Content = []\<rparr>"

definition zero_execute_request :: execute_request where
  "zero_execute_request = \<lparr>xq_Prompt = [], xq_SessionID = [], xq_Model = [], xq_SystemPrompt = [],
     xq_ConversationHistory = [], xq_AllowedTools = [], xq_PermissionMode = [], xq_MaxBudgetUSD = 0,
     xq_IncludePartialMessages = False, xq_IncludeHookEvents = False\<rparr>"

definition execute_request_field :: "string \<Rightarrow> json \<Rightarrow> execute_request \<Rightarrow> execute_request option" where
  "execute_request_field k v r =
     (if k = ''prompt'' then map_option (\<lambda>x. r\<lparr>xq_Prompt := x\<rparr>) (dec_string v (xq_Prompt r))
      else if k = ''session_id'' then map_option (\<lambda>x. r\<lparr>xq_SessionID := x\<rparr>) (dec_string v (xq_SessionID r))
      else if k = ''model'' then map_option (\<lambda>x. r\<lparr>xq_Model := x\<rparr>) (dec_string v (xq_Model r))
      else if k = ''system_prompt'' then
        map_option (\<lambda>x. r\<lparr>xq_SystemPrompt := x\<rparr>) (dec_string v (xq_SystemPrompt r))
      else if k = ''conversation_history'' then
        map_option (\<lambda>x. r\<lparr>xq_ConversationHistory := x\<rparr>)
          (dec_slice (dec_struct conversation_msg_field) zero_conversation_msg v (xq_ConversationHistory r))
      else if k = ''allowed_tools'' then
        map_option (\<lambda>x. r\<lparr>xq_AllowedTools := x\<rparr>) (dec_slice dec_string [] v (xq_AllowedTools r))
      else if k = ''permission_mode'' then
        map_option (\<lambda>x. r\<lparr>xq_PermissionMode := x\<rparr>) (dec_string v (xq_PermissionMode r))
      else if k = ''max_budget_usd'' then
        map_option (\<lambda>x. r\<lparr>xq_MaxBudgetUSD := x\<rparr>) (dec_rat v (xq_MaxBudgetUSD r))
      else if k = ''include_partial_messages'' then
        map_option (\<lambda>x. r\<lparr>xq_IncludePartialMessages := x\<rparr>) (dec_bool v (xq_IncludePartialMessages r))
      else if k = ''include_hook_events'' then
        map_option (\<lambda>x. r\<lparr>xq_IncludeHookEvents := x\<rparr>) (dec_bool v (xq_IncludeHookEvents r))
      else Some r)"

definition Agent_Execute ::
    "('z auth_state_scheme) agent_env \<Rightarrow> http_request \<Rightarrow> 'z auth_state_scheme \<Rightarrow>
     (reply \<times> 'z auth_state_scheme) option" where
  "Agent_Execute env r w =
     (if rq_method r \<noteq> ''POST'' then Some (Reply method_not_allowed, w)
      else
        (case AM_GetStatus (auth_env.truncate env) w of
           (Inl err, w) \<Rightarrow> Some (Reply (json_http_error [(''error'', ''failed to get auth status'')] 500), w)
         | (Inr status, w) \<Rightarrow>
             if \<not> ag_LoggedIn status
             then Some (Reply (json_http_error [(''error'', ''not authenticated'')] 401), w)
             else
               (case decode_struct execute_request_field zero_execute_request (rq_body r) of
                  Inl err \<Rightarrow> Some (Reply (http_error (''invalid request body: '' @ error_string err) 400), w)
                | Inr req \<Rightarrow>
                    if TrimSpace (xq_Prompt req) = [] then Some (Reply (http_error ''prompt is required'' 400), w)
                    else
                      (case StreamToWriter (ge_claude env) req w of
                         Ended _ w \<Rightarrow> Some (Streamed, w)
                       | Panicked w \<Rightarrow> None
                       | Waiting w \<Rightarrow> None))))"

section \<open>Login\<close>

definition Agent_Health ::
    "('z auth_state_scheme) agent_env \<Rightarrow> 'z auth_state_scheme \<Rightarrow> http_response \<times> 'z auth_state_scheme" where
  "Agent_Health env w =
     (case ge_version_cmd env w of
        (res, w) \<Rightarrow>
          (encode_json (JObj [(''claude_version'',
              enc_string (case res of Inr out \<Rightarrow> TrimSpace out | Inl _ \<Rightarrow> ''unavailable'')), (''status'', JStr ''ok'')]), w))"

definition Agent_AuthStatus ::
    "('z auth_state_scheme) agent_env \<Rightarrow> http_request \<Rightarrow> 'z auth_state_scheme \<Rightarrow> http_response \<times> 'z auth_state_scheme" where
  "Agent_AuthStatus env r w =
     (if rq_method r \<noteq> ''GET'' then (method_not_allowed, w)
      else
        (case AM_GetStatus (auth_env.truncate env) w of
           (Inl err, w) \<Rightarrow> (json_http_error [(''error'', ''failed to get auth status'')] 500, w)
         | (Inr status, w) \<Rightarrow> (encode_json (agent_status_json status), w)))"

definition single_string_field :: "string \<Rightarrow> string \<Rightarrow> json \<Rightarrow> string \<Rightarrow> string option" where
  "single_string_field name k v s = (if k = name then dec_string v s else Some s)"

text \<open>A body that does not decode is ignored; what was decoded of it does not matter, because
  \<open>StartLogin\<close> only logs the method.\<close>

definition Agent_AuthLogin ::
    "('z auth_state_scheme) agent_env \<Rightarrow> http_request \<Rightarrow> 'z auth_state_scheme \<Rightarrow> http_response \<times> 'z auth_state_scheme" where
  "Agent_AuthLogin env r w =
     (if rq_method r \<noteq> ''POST'' then (method_not_allowed, w)
      else
        let meth = (case decode_struct (single_string_field ''method'') [] (rq_body r) of Inr m \<Rightarrow> m | Inl _ \<Rightarrow> []);
            meth = (if meth = [] then ''claudeai'' else meth)
        in case AM_StartLogin (auth_env.truncate env) meth w of
             (Inl err, w) \<Rightarrow> (json_http_error [(''error'', ''failed to start login'')] 500, w)
           | (Inr resp, w) \<Rightarrow> (encode_json (agent_login_json resp), w))"

definition Agent_AuthPtyInput ::
    "('z auth_state_scheme) agent_env \<Rightarrow> http_request \<Rightarrow> 'z auth_state_scheme \<Rightarrow> http_response \<times> 'z auth_state_scheme" where
  "Agent_AuthPtyInput env r w =
     (if rq_method r \<noteq> ''POST'' then (method_not_allowed, w)
      else
        (case decode_struct (single_string_field ''input'') [] (rq_body r) of
           Inl err \<Rightarrow> (json_http_error [(''error'', ''invalid request body'')] 400, w)
         | Inr s \<Rightarrow>
             (case AM_SubmitInput (auth_env.truncate env) s w of
                (Inl err, w) \<Rightarrow> (json_http_error [(''error'', ''no login in progress'')] 409, w)
              | (Inr _, w) \<Rightarrow> (encode_json (JObj [(''message'', JStr ''Input submitted'')]), w))))"

definition Agent_AuthCancel ::
    "('z auth_state_scheme) agent_env \<Rightarrow> http_request \<Rightarrow> 'z auth_state_scheme \<Rightarrow> http_response \<times> 'z auth_state_scheme" where
  "Agent_AuthCancel env r w =
     (if rq_method r \<noteq> ''POST'' then (method_not_allowed, w)
      else (encode_json (JObj [(''message'', JStr ''Login cancelled'')]), AM_CancelLogin (auth_env.truncate env) w))"

definition Agent_AuthLogout ::
    "('z auth_state_scheme) agent_env \<Rightarrow> http_request \<Rightarrow> 'z auth_state_scheme \<Rightarrow> http_response \<times> 'z auth_state_scheme" where
  "Agent_AuthLogout env r w =
     (if rq_method r \<noteq> ''POST'' then (method_not_allowed, w)
      else
        (case AM_Logout (auth_env.truncate env) w of
           (Inl err, w) \<Rightarrow> (json_http_error [(''error'', ''logout failed'')] 500, w)
         | (Inr status, w) \<Rightarrow> (encode_json (agent_status_json status), w)))"

section \<open>Credentials\<close>

definition join_path :: "string \<Rightarrow> string \<Rightarrow> string" where
  "join_path dir name = dir @ ''/'' @ name"

definition claude_dir :: "string \<Rightarrow> string" where
  "claude_dir home = join_path home ''.claude''"

definition cred_path :: "string \<Rightarrow> string" where
  "cred_path home = join_path (claude_dir home) ''.credentials.json''"

definition Agent_Init ::
    "('z auth_state_scheme) agent_env \<Rightarrow> http_request \<Rightarrow> 'z auth_state_scheme \<Rightarrow> http_response \<times> 'z auth_state_scheme" where
  "Agent_Init env r w =
     (if rq_method r \<noteq> ''POST'' then (method_not_allowed, w)
      else
        (case decode_struct (single_string_field ''credentialsjson'') [] (rq_body r) of
           Inl err \<Rightarrow> (json_http_error [(''error'', ''invalid request body'')] 400, w)
         | Inr credentialsJSON \<Rightarrow>
             if credentialsJSON = [] then (json_http_error [(''error'', ''credentialsJson is required'')] 400, w)
             else
               (case ge_home env of
                  Inl err \<Rightarrow> (json_http_error [(''error'', ''failed to resolve home directory'')] 500, w)
                | Inr homeDir \<Rightarrow>
                    (case ge_mkdir env (claude_dir homeDir) w of
                       (Inl err, w) \<Rightarrow> (json_http_error [(''error'', ''failed to create .claude directory'')] 500, w)
                     | (Inr _, w) \<Rightarrow>
                         (case ge_write_file env (cred_path homeDir) credentialsJSON w of
                            (Inl err, w) \<Rightarrow>
                              (json_http_error [(''error'', ''failed to write credentials file'')] 500, w)
                          | (Inr _, w) \<Rightarrow>
                              (encode_json (JObj [(''message'', JStr ''credentials initialized'')]), w))))))"

definition Agent_FinalizeCredentials ::
    "('z auth_state_scheme) agent_env \<Rightarrow> http_request \<Rightarrow> 'z auth_state_scheme \<Rightarrow> http_response \<times> 'z auth_state_scheme" where
  "Agent_FinalizeCredentials env r w =
     (if rq_method r \<noteq> ''POST'' then (method_not_allowed, w)
      else
        (case ge_home env of
           Inl err \<Rightarrow> (json_http_error [(''error'', ''failed to resolve home directory'')] 500, w)
         | Inr homeDir \<Rightarrow>
             (case ge_read_file env (cred_path homeDir) w of
                (Inl err, w) \<Rightarrow>
                  if errors_is err ''os.ErrNotExist''
                  then (json_http_error [(''error'', ''credentials file not found''),
                          (''hint'', ''complete /auth/login flow first'')] 404, w)
                  else (json_http_error [(''error'', ''failed to read credentials'')] 500, w)
              | (Inr data, w) \<Rightarrow> (encode_json (JObj [(''credentialsJson'', enc_string data)]), w))))"

section \<open>The terminal as server-sent events\<close>

definition base64_char :: "nat \<Rightarrow> char" where
  "base64_char n =
     (if n < 26 then char_of (65 + n) else if n < 52 then char_of (71 + n)
      else if n < 62 then char_of (n - 4) else if n = 62 then CHR ''+'' else CHR ''/'')"

fun base64_bytes :: "nat list \<Rightarrow> string" where
  "base64_bytes [] = []"
| "base64_bytes [a] = [base64_char (a div 4), base64_char (a mod 4 * 16), CHR ''='', CHR ''='']"
| "base64_bytes [a, b] =
     [base64_char (a div 4), base64_char (a mod 4 * 16 + b div 16), base64_char (b mod 16 * 4), CHR ''='']"
| "base64_bytes (a # b # c # bs) =
     base64_char (a div 4) # base64_char (a mod 4 * 16 + b div 16) # base64_char (b mod 16 * 4 + c div 64) #
     base64_char (c mod 64) # base64_bytes bs"

definition base64_encode :: "string \<Rightarrow> string" where
  "base64_encode s = base64_bytes (map of_char s)"

datatype pty_event = PtyData string | ChannelClosed | KeepAlive | RequestDone

text \<open>The loop of \<open>AuthPtyStream\<close> over the events of its \<^verbatim>\<open>select\<close>: whether it has returned.\<close>

fun sse_loop :: "(string \<Rightarrow> ('w, unit) call) \<Rightarrow> pty_event list \<Rightarrow> 'w \<Rightarrow> bool \<times> 'w" where
  "sse_loop write [] w = (False, w)"
| "sse_loop write (RequestDone # es) w = (True, w)"
| "sse_loop write (ChannelClosed # es) w = (True, w)"
| "sse_loop write (PtyData data # es) w =
     (case write (''data: '' @ base64_encode data @ [CHR 0x0A, CHR 0x0A]) w of
        (Inl _, w) \<Rightarrow> (True, w)
      | (Inr _, w) \<Rightarrow> sse_loop write es w)"
| "sse_loop write (KeepAlive # es) w =
     (case write ('': keepalive'' @ [CHR 0x0A, CHR 0x0A]) w of
        (Inl _, w) \<Rightarrow> (True, w)
      | (Inr _, w) \<Rightarrow> sse_loop write es w)"

text \<open>\<open>ch\<close> is the channel that \<open>Subscribe\<close> makes; it is dropped when the context of the request ends.\<close>

definition Agent_AuthPtyStream ::
    "('z auth_state_scheme) agent_env \<Rightarrow> nat \<Rightarrow> pty_event list \<Rightarrow> 'z auth_state_scheme \<Rightarrow> reply \<times> 'z auth_state_scheme" where
  "Agent_AuthPtyStream env ch events w =
     (if \<not> ce_flusher (ge_claude env) then (Reply (http_error ''streaming unsupported'' 500), w)
      else
        (case sse_loop (ce_write (ge_claude env)) events (add_subscriber ch w) of
           (returned, w) \<Rightarrow> (Streamed, if returned then remove_subscriber ch w else w)))"

section \<open>Routes\<close>

definition agent_http ::
    "('z auth_state_scheme) agent_env \<Rightarrow> nat \<Rightarrow> pty_event list \<Rightarrow> http_request \<Rightarrow> 'z auth_state_scheme \<Rightarrow>
     (reply \<times> 'z auth_state_scheme) option" where
  "agent_http env ch events r w =
     (let p = rq_path r; answer = (\<lambda>(resp, w). Some (Reply resp, w)) in
      if p = [''init''] then answer (Agent_Init env r w)
      else if p = [''execute''] then Agent_Execute env r w
      else if p = [''health''] then answer (Agent_Health env w)
      else if p = [''auth'', ''status''] then answer (Agent_AuthStatus env r w)
      else if p = [''auth'', ''login''] then answer (Agent_AuthLogin env r w)
      else if p = [''auth'', ''logout''] then answer (Agent_AuthLogout env r w)
      else if p = [''auth'', ''pty'', ''input''] then answer (Agent_AuthPtyInput env r w)
      else if p = [''auth'', ''pty'', ''stream''] then Some (Agent_AuthPtyStream env ch events w)
      else if p = [''auth'', ''cancel''] then answer (Agent_AuthCancel env r w)
      else if p = [''auth'', ''finalize-credentials''] then answer (Agent_FinalizeCredentials env r w)
      else Some (Reply (http_error ''404 page not found'' 404), w))"

text \<open>\<^verbatim>\<open>main\<close>: the address the server listens on.\<close>

definition agent_listen_addr :: "(string \<Rightarrow> string) \<Rightarrow> string" where
  "agent_listen_addr env = '':'' @ (if env ''PORT'' = [] then ''9090'' else env ''PORT'')"

end
