(* ===== verification/AgentEndToEnd.thy ===== *)
theory AgentEndToEnd
  imports AgentApi RemoteClient
begin

text \<open>
  cc-tunnel's client of cc-remote-agent (\<open>RemoteClient\<close>) connected to its server (\<open>AgentApi\<close>):
  what one program encodes the other decodes, through the real requests and routes of both.
  \<open>stream_body\<close> turns what a handler wrote between two states into the body of the response;
  a handler that panics or never returns has the connection closed under the client, of which
  only the error is kept here, not the lines that came before it.
\<close>

definition agent_net_of ::
    "('z auth_state_scheme) agent_env \<Rightarrow> nat \<Rightarrow> pty_event list \<Rightarrow>
     ('z auth_state_scheme \<Rightarrow> 'z auth_state_scheme \<Rightarrow> http_body) \<Rightarrow> (http_response \<Rightarrow> string) \<Rightarrow>
     (http_response \<Rightarrow> (nat \<times> json option) list \<times> goerr option) \<Rightarrow> ('z auth_state_scheme) agent_net" where
  "agent_net_of env ch events stream_body body_text lines =
     \<lparr>an_url_error = (\<lambda>u. None),
      an_do = (\<lambda>u r w.
        case agent_http env ch events r w of
          None \<Rightarrow> (Inl (ErrText ''EOF''), w)
        | Some (Reply resp, w') \<Rightarrow> (Inr resp, w')
        | Some (Streamed, w') \<Rightarrow>
            (Inr \<lparr>rs_status = 200, rs_content_type = ''application/x-ndjson'', rs_body = stream_body w w'\<rparr>, w')),
      an_text = body_text, an_lines = lines\<rparr>"

lemma agent_net_sel [simp]:
  "an_url_error (agent_net_of env ch es sb bt ls) u = None"
  "an_text (agent_net_of env ch es sb bt ls) = bt" "an_lines (agent_net_of env ch es sb bt ls) = ls"
  "an_do (agent_net_of env ch es sb bt ls) u r w =
     (case agent_http env ch es r w of
        None \<Rightarrow> (Inl (ErrText ''EOF''), w)
      | Some (Reply resp, w') \<Rightarrow> (Inr resp, w')
      | Some (Streamed, w') \<Rightarrow>
          (Inr \<lparr>rs_status = 200, rs_content_type = ''application/x-ndjson'', rs_body = sb w w'\<rparr>, w'))"
  by (simp_all add: agent_net_of_def)

lemma agent_lower_keys [simp]:
  "ascii_lower ''credentialsJson'' = ''credentialsjson''" "ascii_lower ''loggedIn'' = ''loggedin''"
  "ascii_lower ''authMethod'' = ''authmethod''" "ascii_lower ''apiProvider'' = ''apiprovider''"
  "ascii_lower ''orgName'' = ''orgname''"
  "ascii_lower ''subscriptionType'' = ''subscriptiontype''" "ascii_lower ''apiKeySource'' = ''apikeysource''"
  "ascii_lower ''loginPending'' = ''loginpending''" "ascii_lower ''loginUrl'' = ''loginurl''"
  "ascii_lower ''prompt'' = ''prompt''" "ascii_lower ''session_id'' = ''session_id''"
  "ascii_lower ''conversation_id'' = ''conversation_id''"
  "ascii_lower ''system_prompt'' = ''system_prompt''" "ascii_lower ''conversation_history'' = ''conversation_history''"
  "ascii_lower ''include_partial_messages'' = ''include_partial_messages''"
  "ascii_lower ''include_hook_events'' = ''include_hook_events''"
  "ascii_lower ''model'' = ''model''" "ascii_lower ''email'' = ''email''"
  "ascii_lower ''role'' = ''role''" "ascii_lower ''content'' = ''content''"
  by code_simp+

section \<open>Credentials\<close>

text \<open>A file that has been written is read back, until it is written again.\<close>

definition fs_ok :: "('w, 'z) agent_env_scheme \<Rightarrow> bool" where
  "fs_ok env \<longleftrightarrow> (\<forall>path data w w'. ge_write_file env path data w = (Inr (), w') \<longrightarrow>
     (\<exists>w2. ge_read_file env path w' = (Inr data, w2)))"

lemma decode_single:
  "ascii_lower k = name \<Longrightarrow>
     decode_struct (single_string_field name) [] (JsonBody (JObj [(k, JStr s)])) = Inr s"
  by (simp add: decode_struct_def dec_struct_def single_string_field_def)

lemma init_accepted:
  assumes "RC_InitCredentials (agent_net_of env ch es sb bt ls) url cred w = (Inr (), w1)"
  shows "cred \<noteq> [] \<and> (\<exists>home w0. ge_home env = Inr home \<and>
    ge_write_file env (cred_path home) (utf8_coerce cred) w0 = (Inr (), w1))"
  using assms
  by (auto simp: RC_InitCredentials_def send_request_def agent_http_def Agent_Init_def enc_string_def decode_single
      encode_json_def json_http_error_def split: sum.splits prod.splits if_splits)

lemma coerce_again [simp]: "utf8_coerce (utf8_coerce s) = utf8_coerce s"
  by (rule utf8_valid_coerce [OF utf8_coerce_valid])

text \<open>C30: the credentials cc-tunnel puts into a container are the ones it pulls out: when initialising
  succeeds, finalising right afterwards gives back the same text, byte for byte when it is valid
  UTF-8; otherwise each byte that is not comes back as U+FFFD, because both programs send it as JSON.\<close>

theorem credentials_travel:
  assumes "fs_ok env" and "RC_InitCredentials (agent_net_of env ch es sb bt ls) url cred w = (Inr (), w1)"
  shows "\<exists>w2. RC_FinalizeCredentials (agent_net_of env ch es sb bt ls) url w1 =
    (Inr (if utf8_valid cred then cred else utf8_coerce cred), w2)"
proof -
  obtain home w0 where c: "cred \<noteq> []" and h: "ge_home env = Inr home"
    and wr: "ge_write_file env (cred_path home) (utf8_coerce cred) w0 = (Inr (), w1)"
    using init_accepted [OF assms(2)] by blast
  obtain w2 where rd: "ge_read_file env (cred_path home) w1 = (Inr (utf8_coerce cred), w2)"
    using assms(1) wr unfolding fs_ok_def by blast
  have "decode_struct credentials_json_field [] (JsonBody (JObj [(''credentialsJson'', enc_string (utf8_coerce cred))]))
      = Inr (utf8_coerce cred)"
    by (simp add: decode_struct_def dec_struct_def credentials_json_field_def enc_string_def)
  then show ?thesis
    using c h rd
    by (simp add: RC_FinalizeCredentials_def agent_http_def Agent_FinalizeCredentials_def encode_json_def)
qed

section \<open>Status\<close>

definition non_empty :: "string \<Rightarrow> string option" where
  "non_empty s = (if s = [] then None else Some s)"

definition client_status :: "agent_auth_status \<Rightarrow> auth_status" where
  "client_status s =
     \<lparr>as_loggedIn = ag_LoggedIn s, as_authMethod = ag_AuthMethod s, as_loginPending = ag_LoginPending s,
      as_apiProvider = non_empty (ag_ApiProvider s), as_email = non_empty (ag_Email s),
      as_orgName = non_empty (ag_OrgName s), as_subscriptionType = non_empty (ag_SubscriptionType s),
      as_apiKeySource = non_empty (ag_ApiKeySource s), as_loginUrl = non_empty (ag_LoginUrl s)\<rparr>"

lemma dec_fields_omit_empty:
  "dec_fields field (omit_empty k s) x = (if s = [] then Some x else field (ascii_lower k) (JStr s) x)"
  by (auto simp: omit_empty_def split: option.split)

lemma status_decoded:
  "decode_struct auth_status_field zero_auth_status (JsonBody (agent_status_json s)) = Inr (client_status s)"
  by (simp add: decode_struct_def dec_struct_def agent_status_json_def dec_fields_append dec_fields_omit_empty
      auth_status_field_def zero_auth_status_def client_status_def non_empty_def dec_ptr_def)

text \<open>The login status cc-tunnel sees is the one the agent computed, every member of it.\<close>

theorem status_travels:
  assumes "AM_GetStatus (auth_env.truncate env) w = (Inr s, w')"
  shows "RC_GetAuthStatus (agent_net_of env ch es sb bt ls) url w = (Inr (client_status s), w')"
  using assms
  by (simp add: RC_GetAuthStatus_def send_request_def agent_http_def Agent_AuthStatus_def encode_json_def status_decoded)

section \<open>Execution\<close>

definition received_request :: "exec_request \<Rightarrow> execute_request" where
  "received_request r =
     zero_execute_request\<lparr>xq_Prompt := utf8_coerce (er_Prompt r), xq_SessionID := utf8_coerce (er_SessionID r),
       xq_Model := utf8_coerce (er_Model r), xq_SystemPrompt := utf8_coerce (er_SystemPrompt r),
       xq_ConversationHistory := map (\<lambda>m. \<lparr>cv_Role = utf8_coerce (cm_role m), cv_Content = utf8_coerce (cm_content m)\<rparr>)
         (er_ConversationHistory r),
       xq_IncludePartialMessages := er_IncludePartialMessages r, xq_IncludeHookEvents := er_IncludeHookEvents r\<rparr>"

lemma dec_fields_omit_false:
  "dec_fields field (omit_false k b) x = (if b then field (ascii_lower k) (JBool True) x else Some x)"
  by (auto simp: omit_false_def split: option.split)

lemma history_decoded:
  "dec_elems (dec_struct conversation_msg_field) zero_conversation_msg (map chat_message_json ms) =
     Some (map (\<lambda>m. \<lparr>cv_Role = utf8_coerce (cm_role m), cv_Content = utf8_coerce (cm_content m)\<rparr>) ms)"
  by (induction ms)
    (simp_all add: chat_message_json_def enc_string_def dec_struct_def conversation_msg_field_def zero_conversation_msg_def)

text \<open>What cc-tunnel asks for is what the agent executes: decoding the encoded request gives the
  prompt, the session to resume, the model, the system prompt, the history and the two switches;
  the conversation id and the credentials do not reach the agent this way.  Texts that are not valid
  UTF-8 arrive as JSON has them.\<close>

lemma execute_request_decoded:
  "decode_struct execute_request_field zero_execute_request (JsonBody (exec_request_json r)) = Inr (received_request r)"
  by (simp add: decode_struct_def dec_struct_def exec_request_json_def enc_string_def dec_fields_append dec_fields_omit_empty
      dec_fields_omit_false execute_request_field_def received_request_def zero_execute_request_def
      dec_slice_def history_decoded)

section \<open>Witnesses\<close>

record agent_world = auth_state +
  aw_files :: "string gomap"
  aw_out :: string

definition example_env :: "agent_world agent_env" where
  "example_env =
     \<lparr>ae_status_cmd = (\<lambda>w. ((JsonBody (JObj [(''loggedIn'', JBool True), (''email'', JStr ''a'')]), None), w)),
      ae_pty_start = (\<lambda>w. (Inr 0, w)), ae_pty_write = (\<lambda>n s w. (Inr (), w)), ae_pty_close = (\<lambda>n w. w), ae_wait = (\<lambda>n w. w),
      ae_cancel = (\<lambda>n w. w), ae_logout_cmd = (\<lambda>w. w),
      ge_home = Inr ''/root'', ge_mkdir = (\<lambda>d w. (Inr (), w)),
      ge_write_file = (\<lambda>path data w. (Inr (), w\<lparr>aw_files := gomap_set (aw_files w) path data\<rparr>)),
      ge_read_file = (\<lambda>path w. case gomap_get (aw_files w) path of
         None \<Rightarrow> (Inl (ErrVar ''os.ErrNotExist'' ''no such file''), w) | Some data \<Rightarrow> (Inr data, w)),
      ge_version_cmd = (\<lambda>w. (Inr ''1.0'', w)),
      ge_claude = \<lparr>ce_start = (\<lambda>args w. (Inr \<lparr>pr_stdout = [], pr_exit = (\<lambda>whole. Some None)\<rparr>, w)),
                   ce_write = (\<lambda>s w. (Inr (), w\<lparr>aw_out := aw_out w @ s\<rparr>)), ce_flusher = True\<rparr>\<rparr>"

definition example_world :: agent_world where
  "example_world = \<lparr>am_loginCmd = None, am_ptyFd = None, am_loginPending = True, am_cancelFunc = None,
     am_subscribers = [], aw_files = [], aw_out = []\<rparr>"

lemma example_fs: "fs_ok example_env"
  by (auto simp: fs_ok_def example_env_def)

theorem credentials_travel_witness:
  "\<exists>w1 w2. RC_InitCredentials (agent_net_of example_env 0 [] (\<lambda>v w. NoBody) (\<lambda>r. []) (\<lambda>r. ([], None))) ''u'' ''{}'' example_world
      = (Inr (), w1) \<and>
    RC_FinalizeCredentials (agent_net_of example_env 0 [] (\<lambda>v w. NoBody) (\<lambda>r. []) (\<lambda>r. ([], None))) ''u'' w1 = (Inr ''{}'', w2)"
proof -
  have "\<exists>w1. RC_InitCredentials (agent_net_of example_env 0 [] (\<lambda>v w. NoBody) (\<lambda>r. []) (\<lambda>r. ([], None))) ''u'' ''{}'' example_world
      = (Inr (), w1)"
    by (simp add: RC_InitCredentials_def send_request_def agent_http_def Agent_Init_def decode_single encode_json_def
        example_env_def enc_string_def)
  then obtain w1 where i: "RC_InitCredentials (agent_net_of example_env 0 [] (\<lambda>v w. NoBody) (\<lambda>r. []) (\<lambda>r. ([], None)))
      ''u'' ''{}'' example_world = (Inr (), w1)" by blast
  have "utf8_valid ''{}''" by (rule utf8_valid_ascii) (simp add: byte_def)
  with credentials_travel [OF example_fs i] i show ?thesis by auto
qed

theorem status_travels_witness:
  "\<exists>s w'. RC_GetAuthStatus (agent_net_of example_env 0 [] (\<lambda>v w. NoBody) (\<lambda>r. []) (\<lambda>r. ([], None))) ''u'' example_world
     = (Inr s, w') \<and> as_loginPending s \<and> as_email s = Some ''a''"
proof -
  have m: "AM_GetStatus (auth_env.truncate example_env) example_world =
      (Inr (zero_agent_status\<lparr>ag_LoggedIn := True, ag_Email := ''a'', ag_LoginPending := True\<rparr>), example_world)"
    by (simp add: AM_GetStatus_def example_env_def auth_env.defs decode_struct_def dec_struct_def
        agent_status_field_def zero_agent_status_def example_world_def)
  show ?thesis
    using status_travels [OF m, of 0 "[]" "\<lambda>v w. NoBody" "\<lambda>r. []" "\<lambda>r. ([], None)" "''u''"]
    by (simp add: client_status_def non_empty_def)
qed

end
