(* ===== verification/WholeTurn.thy ===== *)
theory WholeTurn
  imports ConversationTurn AgentEndToEnd EndpointSteps_Props
begin

text \<open>
  One message through all programs: the HTTP request to cc-tunnel, the Compute Engine provider and
  its endpoint, cc-tunnel's client of the agent, the agent's server, the command line of the CLI, its
  output back through both programs, the aggregator, and the row in the database.

  The agents run on worlds of their own; \<open>hosts\<close> says that the network delivers requests for a base
  address to the agent there.  \<open>delivers\<close> says what the client's scanner finds in the body of a
  stream: the lines the agent wrote (\<open>scan_ndjson\<close>), parsed one by one (\<open>parse\<close> is the JSON parser on a line).
\<close>

section \<open>What the provider leaves alone\<close>

definition chat_kept :: "'z pgdb_scheme \<Rightarrow> 'z pgdb_scheme \<Rightarrow> bool" where
  "chat_kept w w' \<longleftrightarrow> db_messages w' = db_messages w \<and> db_conversations w' = db_conversations w \<and>
     (db_faults w = [] \<longrightarrow> db_faults w' = [])"

definition chat_apart :: "('z pgdb_scheme) gce_provider \<Rightarrow> bool" where
  "chat_apart p \<longleftrightarrow>
     (\<forall>w. chat_kept w (snd (gp_new_uuid p w))) \<and>
     (\<forall>req w. chat_kept w (snd (gce_CreateInstance (gp_gce p) req w))) \<and>
     (\<forall>pr z n w. chat_kept w (snd (gce_GetInstance (gp_gce p) pr z n w))) \<and>
     (\<forall>pr z n w. chat_kept w (snd (gce_DeleteInstance (gp_gce p) pr z n w))) \<and>
     (\<forall>u r w. chat_kept w (snd (an_do (gp_net p) u r w))) \<and>
     (\<forall>t w. chat_kept w (snd (ck_select (gp_clock p) t w))) \<and>
     (\<forall>d t w. chat_kept w (snd (ck_select_until (gp_clock p) d t w))) \<and>
     (\<forall>url dcm. gp_newDockerClient p url = Inr dcm \<longrightarrow>
        (\<forall>w. chat_kept w (snd (cm_IsReady dcm w))) \<and> (\<forall>n w. chat_kept w (snd (cm_StopContainer dcm n w))) \<and>
        (\<forall>n w. chat_kept w (snd (cm_RemoveContainer dcm n w))) \<and> (\<forall>req w. chat_kept w (snd (cm_RunAgent dcm req w))))"

lemma chat_kept_refl [simp]: "chat_kept w w"
  by (simp add: chat_kept_def)

lemma chat_kept_trans: "chat_kept w w1 \<Longrightarrow> chat_kept w1 w2 \<Longrightarrow> chat_kept w w2"
  by (simp add: chat_kept_def)

lemma chat_kept_exec:
  assumes "\<And>d. chat_kept d (snd (q d))"
  shows "chat_kept w (snd (pg_exec q w))"
  using assms [of w] assms [of "w\<lparr>db_faults := tl (db_faults w)\<rparr>"]
  by (auto simp: pg_exec_def chat_kept_def split: list.split option.split)

lemma chat_statements:
  "chat_kept w (snd (GetSessionEndpointByConversationID c w))"
  "chat_kept w (snd (GetAvailableVMInstance n w))"
  "chat_kept w (snd (GetSmallestAvailablePortOnVM v lo hi w))"
  "chat_kept w (snd (UpdateVMInstanceStatus i st w))"
  "chat_kept w (snd (UpdateVMInstanceIP i a w))"
  "chat_kept w (snd (CreateVMInstance nm z a w))"
  "chat_kept w (snd (CreateSessionEndpoint c v nm port w))"
  "chat_kept w (snd (IncrementVMActiveContainers i w))"
  "chat_kept w (snd (GetVMInstance i w))"
  "chat_kept w (snd (UpdateSessionEndpointLastActivity c w))"
  unfolding GetSessionEndpointByConversationID_def GetAvailableVMInstance_def GetSmallestAvailablePortOnVM_def
    UpdateVMInstanceStatus_def UpdateVMInstanceIP_def CreateVMInstance_def CreateSessionEndpoint_def
    IncrementVMActiveContainers_def GetVMInstance_def UpdateSessionEndpointLastActivity_def
  by (rule chat_kept_exec; simp add: chat_kept_def draw_uuid_def Let_def split: sum.split)+

text \<open>As rules for a call whose outcome is known.\<close>

lemma chat_call: "chat_kept w (snd (f w)) \<Longrightarrow> f w = (r, w') \<Longrightarrow> chat_kept w w'"
  by simp

lemmas chat_calls = chat_statements [THEN chat_call]

lemma chat_apartD:
  assumes "chat_apart p"
  shows "gp_new_uuid p w = (u, w') \<Longrightarrow> chat_kept w w'"
    and "gce_CreateInstance (gp_gce p) req w = (i, w') \<Longrightarrow> chat_kept w w'"
    and "chat_kept w (snd (gce_GetInstance (gp_gce p) pr z n w))"
    and "chat_kept w (snd (an_do (gp_net p) url r w))"
    and "ck_select (gp_clock p) t w = (s, w') \<Longrightarrow> chat_kept w w'"
    and "chat_kept w (snd (ck_select_until (gp_clock p) d t w))"
    and "gp_newDockerClient p url = Inr dcm \<Longrightarrow> chat_kept w (snd (cm_IsReady dcm w))"
    and "gp_newDockerClient p url = Inr dcm \<Longrightarrow> chat_kept w (snd (cm_RunAgent dcm rr w))"
    and "gp_newDockerClient p url = Inr dcm \<Longrightarrow> chat_kept w (discard_agent dcm n w)"
proof -
  show "chat_kept w (discard_agent dcm n w)" if "gp_newDockerClient p url = Inr dcm"
    unfolding discard_agent_def
    by (rule chat_kept_trans [where ?w1.0 = "snd (cm_StopContainer dcm n w)"])
      (use assms that in \<open>simp_all add: chat_apart_def\<close>)
qed (use assms in \<open>simp_all add: chat_apart_def, (metis snd_conv)+\<close>)

lemma chat_poll:
  assumes "chat_apart p" and "\<And>w. chat_kept w (snd (probe w))"
  shows "chat_kept w (snd (poll_once p until what probe w))"
proof -
  obtain x w1 where x: "probe w = (x, w1)" by (cases "probe w")
  obtain q w2 where q: "ck_select_until (gp_clock p) until (gc_PollInterval (gp_config p)) w1 = (q, w2)"
    by (cases "ck_select_until (gp_clock p) until (gc_PollInterval (gp_config p)) w1")
  have 1: "chat_kept w w1" using assms(2) [of w] x by simp
  have 2: "chat_kept w1 w2"
    using chat_apartD(6) [OF assms(1), of w1 until "gc_PollInterval (gp_config p)"] q by simp
  show ?thesis
    using 1 chat_kept_trans [OF 1 2] by (auto simp: poll_once_def x q split: option.split sum.split)
qed

lemma chat_probes:
  assumes "chat_apart p"
  shows "chat_kept w (snd (probe_running p nm w))"
    and "gp_newDockerClient p url = Inr dcm \<Longrightarrow> chat_kept w (snd (probe_manager dcm w))"
    and "chat_kept w (snd (probe_agent p url w))"
proof -
  show "chat_kept w (snd (probe_running p nm w))"
    using chat_apartD(3) [OF assms]
    by (simp add: probe_running_def split: prod.split sum.split) (metis snd_conv)
  show "chat_kept w (snd (probe_manager dcm w))" if "gp_newDockerClient p url = Inr dcm"
    using chat_apartD(7) [OF assms that] by (simp add: probe_manager_def split: prod.split) (metis snd_conv)
  have "chat_kept w (snd (RC_GetAuthStatus (gp_net p) url w))"
    using chat_apartD(4) [OF assms, of w url "plain_request ''GET'' [''auth'', ''status''] NoBody"]
    by (auto simp: RC_GetAuthStatus_def send_request_def split: prod.split sum.split option.split)
  then show "chat_kept w (snd (probe_agent p url w))"
    by (auto simp: probe_agent_def split: prod.split sum.split)
qed

lemma chat_create:
  assumes "chat_apart p"
  shows "chat_kept w (snd (createGCEVM p w))"
proof -
  obtain u w1 where 1: "gp_new_uuid p w = (u, w1)" by (cases "gp_new_uuid p w")
  obtain q w2 where 2: "gce_CreateInstance (gp_gce p) (vm_create_request (gp_config p) (''cc-tunnel-'' @ take 8 u)) w1 = (q, w2)"
    by (cases "gce_CreateInstance (gp_gce p) (vm_create_request (gp_config p) (''cc-tunnel-'' @ take 8 u)) w1")
  have k: "chat_kept w w2"
    using chat_apartD(1,2) [OF assms] 1 2 by (blast intro: chat_kept_trans)
  show ?thesis
  proof (cases q)
    case (Inl e)
    with 2 k show ?thesis by (simp add: createGCEVM_def 1)
  next
    case (Inr inst)
    with 2 show ?thesis by (simp add: createGCEVM_def 1 chat_kept_trans [OF k chat_statements(6)])
  qed
qed

lemma chat_running_endpoint: "chat_kept w (snd (running_endpoint c w))"
  using chat_statements(1) [of w c] by (auto simp: running_endpoint_def split: prod.split sum.split)

lemma caller_step_chat:
  assumes a: "chat_apart p"
  shows "chat_kept w (snd (caller_step p c x w))"
proof (cases x)
  case (Picking n)
  then show ?thesis
    using chat_statements(2) [of w "gc_MaxContainers (gp_config p)"] by (cases n) (auto split: prod.split sum.split)
next
  case (Checking n vm)
  then show ?thesis
    using chat_apartD(7) [OF a, of "cm_url p (vm_internal_ip vm)" _ w]
    by (auto simp: chat_statements split: sum.split prod.split)
next
  case (Booting vm t)
  have "chat_kept w (snd (poll_once p t (running_timeout (vm_gce_instance_name vm))
      (probe_running p (vm_gce_instance_name vm)) w))"
    by (rule chat_poll [OF a chat_probes(1) [OF a]])
  with Booting show ?thesis by (auto split: prod.split poll_round.split)
next
  case (Marking vm ip)
  then show ?thesis by (auto simp: Let_def chat_statements split: sum.split)
next
  case (Connecting vm t)
  show ?thesis
  proof (cases "gp_newDockerClient p (cm_url p (vm_internal_ip vm))")
    case (Inr dcm)
    with Connecting chat_poll [OF a chat_probes(2) [OF a Inr], of w t "manager_timeout (cm_url p (vm_internal_ip vm))"]
    show ?thesis by (auto split: prod.split poll_round.split)
  qed (simp add: Connecting)
next
  case (Placing vm n)
  then show ?thesis
    using chat_statements(3) [of w "vm_id vm" "gc_PortRangeStart (gp_config p)" "gc_PortRangeEnd (gp_config p)"]
    by (auto split: prod.split sum.split)
next
  case (Allotted vm n port)
  then show ?thesis
    using chat_apartD(8) [OF a, of "cm_url p (vm_internal_ip vm)" _ w "agent_run_request p c (vm_id vm) port"]
    by (auto split: sum.split prod.split)
next
  case (Agent_up vm n port t)
  have "chat_kept w (snd (poll_once p t (''timeout waiting for cc-remote-agent at '' @ http_url (vm_internal_ip vm) port)
      (probe_agent p (http_url (vm_internal_ip vm) port)) w))"
    by (rule chat_poll [OF a chat_probes(3) [OF a]])
  with Agent_up show ?thesis by (auto split: prod.split poll_round.split)
next
  case (Agent_ready vm n port)
  then show ?thesis
    using chat_statements(7) [of w c "vm_id vm" "container_name p c" port] by (auto split: prod.split sum.split)
next
  case (Abandoning vm e)
  then show ?thesis using chat_apartD(9) [OF a] by (auto split: sum.split)
next
  case (Retrying vm n e)
  then show ?thesis using chat_apartD(9) [OF a] by (auto simp: Let_def split: sum.split)
next
  case (Pausing vm n)
  then show ?thesis using chat_apartD(5) [OF a] by (auto split: prod.split sum.split)
next
  case (Row_made v ep)
  then show ?thesis using chat_statements(8) [of w v] by (auto split: prod.split sum.split)
next
  case (Unhealthy n vm)
  then show ?thesis using chat_statements(4) [of w "vm_id vm" "''unhealthy''"] by (auto split: prod.split sum.split)
next
  case (Addressed vm ip)
  then show ?thesis by (simp add: chat_statements)
next
  case Creating
  then show ?thesis using chat_create [OF a, of w] by (auto split: prod.split sum.split)
qed (use chat_running_endpoint [of w c] in \<open>auto split: prod.split option.split\<close>)

lemma goes_to_chat:
  assumes "chat_apart p" and "goes_to p c (x, w) (y, w')"
  shows "chat_kept w w'"
proof -
  have "chat_kept w (snd t)" if "goes_to p c (x, w) t" for t
    using that unfolding goes_to_def
  proof (induction rule: rtranclp_induct)
    case (step s t)
    then show ?case
      using caller_step_chat [OF assms(1), of "snd s" c "fst s"] by (auto intro: chat_kept_trans split: prod.splits)
  qed simp
  from this [OF assms(2)] show ?thesis by simp
qed

lemma getOrCreateEndpoint_chat:
  assumes "chat_apart p" and "getOrCreateEndpoint fuel p c w = Some (r, w')"
  shows "chat_kept w w'"
  using goes_to_chat [OF assms(1) getOrCreate_goes_to [OF assms(2)]] .

section \<open>An agent behind an address\<close>

definition hosts ::
    "('z pgdb_scheme) gce_provider \<Rightarrow> string \<Rightarrow> 'a agent_net \<Rightarrow> ('z \<Rightarrow> 'a) \<Rightarrow> ('a \<Rightarrow> 'z \<Rightarrow> 'z) \<Rightarrow> bool" where
  "hosts p url nt get put \<longleftrightarrow> (\<forall>a z. get (put a z) = a) \<and>
     an_url_error (gp_net p) url = None \<and> an_lines (gp_net p) = an_lines nt \<and>
     (\<forall>r w. an_do (gp_net p) url r w =
        (case an_do nt url r (get (pgdb.more w)) of (resp, a) \<Rightarrow> (resp, pgdb.more_update (put a) w)))"

definition delivers ::
    "('a \<Rightarrow> string) \<Rightarrow> (string \<Rightarrow> json option) \<Rightarrow> ('a \<Rightarrow> 'a \<Rightarrow> http_body) \<Rightarrow>
     (http_response \<Rightarrow> (nat \<times> json option) list \<times> goerr option) \<Rightarrow> bool" where
  "delivers out parse stream_body lines \<longleftrightarrow>
     (\<forall>a a' ls resp. out a' = out a @ ndjson ls \<longrightarrow> (\<forall>l \<in> set ls. short_line l) \<longrightarrow> rs_body resp = stream_body a a' \<longrightarrow>
        lines resp = (map (\<lambda>l. (length l, parse l)) (map drop_cr ls), None))"

text \<open>The agent's CLI is logged in, and asking it changes neither its output nor its processes.\<close>

definition logged_in ::
    "('z auth_state_scheme) agent_env \<Rightarrow> ('z auth_state_scheme \<Rightarrow> string) \<Rightarrow> ('z auth_state_scheme \<Rightarrow> string list list) \<Rightarrow>
     'z auth_state_scheme \<Rightarrow> bool" where
  "logged_in env out started a \<longleftrightarrow>
     (case AM_GetStatus (auth_env.truncate env) a of
        (Inl err, a') \<Rightarrow> False
      | (Inr st, a') \<Rightarrow> ag_LoggedIn st \<and> out a' = out a \<and> started a' = started a)"

section \<open>What the CLI runs and answers\<close>

definition first_run :: "(string list \<Rightarrow> process) \<Rightarrow> execute_request \<Rightarrow> process" where
  "first_run proc req = proc (buildArgs req False)"

definition second_run :: "(string list \<Rightarrow> process) \<Rightarrow> execute_request \<Rightarrow> process" where
  "second_run proc req = proc (buildArgs (fallback_request req) True)"

definition falls_back :: "(string list \<Rightarrow> process) \<Rightarrow> execute_request \<Rightarrow> bool" where
  "falls_back proc req \<longleftrightarrow>
     (resume_fails (first_run proc req) \<or> pr_result (first_run proc req) \<noteq> Some None) \<and> can_fall_back req"

definition cli_runs :: "(string list \<Rightarrow> process) \<Rightarrow> execute_request \<Rightarrow> string list list" where
  "cli_runs proc req = buildArgs req False #
     (if falls_back proc req then [buildArgs (fallback_request req) True] else [])"

definition cli_lines :: "(string list \<Rightarrow> process) \<Rightarrow> execute_request \<Rightarrow> string list" where
  "cli_lines proc req = passed_on (pr_lines (first_run proc req)) @
     (if falls_back proc req then passed_on (pr_lines (second_run proc req)) else [])"

text \<open>The processes end, and the second does not report a failed resume.\<close>

definition cli_ends :: "(string list \<Rightarrow> process) \<Rightarrow> execute_request \<Rightarrow> bool" where
  "cli_ends proc req \<longleftrightarrow> pr_result (first_run proc req) \<noteq> None \<and>
     (falls_back proc req \<longrightarrow> pr_result (second_run proc req) \<noteq> None \<and> \<not> resume_fails (second_run proc req))"

lemma ndjson_append: "ndjson (xs @ ys) = ndjson xs @ ndjson ys"
  by (simp add: ndjson_def)

lemma cli_lines_short: "l \<in> set (cli_lines proc req) \<Longrightarrow> short_line l"
  using scan_text_short by (auto simp: cli_lines_def passed_on_def pr_lines_def dest!: set_takeWhileD split: if_splits)

lemma stream_lines:
  assumes "recorded_env env proc out started" and "cli_ends proc req"
  shows "\<exists>r w'. StreamToWriter env req w = Ended r w' \<and> out w' = out w @ ndjson (cli_lines proc req) \<and>
    started w' = started w @ cli_runs proc req"
proof -
  have again: "(pr_result (first_run proc req) \<noteq> None \<and>
      (resume_fails (first_run proc req) \<or> pr_result (first_run proc req) \<noteq> Some None) \<and> can_fall_back req)
      = falls_back proc req"
    using assms(2) by (auto simp: cli_ends_def falls_back_def)
  obtain w' where o: "StreamToWriter env req w =
      (case pr_result (first_run proc req) of
         None \<Rightarrow> Waiting w'
       | Some err1 \<Rightarrow>
           if \<not> resume_fails (first_run proc req) \<and> err1 = None then Ended (Inr ()) w'
           else if \<not> can_fall_back req then Ended (Inl (ErrText ''claude execution failed'')) w'
           else (case pr_result (second_run proc req) of
                   None \<Rightarrow> Waiting w'
                 | Some err2 \<Rightarrow>
                     if resume_fails (second_run proc req) then Panicked w'
                     else Ended (case err2 of None \<Rightarrow> Inr () | Some err \<Rightarrow> Inl err) w'))"
    and w': "out w' = out w @ shown (first_run proc req) @ (if falls_back proc req then shown (second_run proc req) else [])"
      "started w' = started w @ [buildArgs req False] @
        (if falls_back proc req then [buildArgs (fallback_request req) True] else [])"
    using stream_outcome [OF assms(1), of req w, folded first_run_def second_run_def, unfolded Let_def again] by blast
  have "\<exists>r. StreamToWriter env req w = Ended r w'"
    using assms(2) unfolding o by (auto simp: cli_ends_def falls_back_def split: option.split)
  then show ?thesis
    using w' by (auto simp: cli_lines_def cli_runs_def shown_def ndjson_append ndjson_def [of "[]"])
qed

section \<open>From the request to the events\<close>

definition answer_events :: "(string \<Rightarrow> json option) \<Rightarrow> string list \<Rightarrow> stream_event list" where
  "answer_events parse ls = List.map_filter (\<lambda>l. decode_stream_event (parse (drop_cr l))) ls"

definition answer_session :: "stream_event list \<Rightarrow> string" where
  "answer_session es = (case filter (\<lambda>e. se_Type e = ''result'') (rev es) of [] \<Rightarrow> [] | e # _ \<Rightarrow> se_SessionID e)"

lemma map_filter_lines:
  "List.map_filter (\<lambda>(len, v). decode_stream_event v) (map ((\<lambda>l. (length l, parse l)) \<circ> drop_cr) ls) = answer_events parse ls"
  by (induction ls) (simp_all add: answer_events_def map_filter_simps split: option.split)

lemma agent_answers:
  assumes host: "hosts p url (agent_net_of env ch evs sb bt lines) get put" and lines: "delivers out parse sb lines"
    and rec: "recorded_env (ge_claude env) proc out started"
    and login: "logged_in env out started (get (pgdb.more w))"
    and prompt: "TrimSpace (xq_Prompt (received_request req)) \<noteq> []" and ok: "cli_ends proc (received_request req)"
  shows "\<exists>a. RC_Execute (gp_net p) url req w =
      ((Inr (answer_session (answer_events parse (cli_lines proc (received_request req)))),
        answer_events parse (cli_lines proc (received_request req))), pgdb.more_update (put a) w) \<and>
    started a = started (get (pgdb.more w)) @ cli_runs proc (received_request req)"
proof -
  let ?ls = "cli_lines proc (received_request req)" and ?a = "get (pgdb.more w)"
  obtain st a1 where 1: "AM_GetStatus (auth_env.truncate env) ?a = (Inr st, a1)" "ag_LoggedIn st"
      "out a1 = out ?a" "started a1 = started ?a"
    using login by (auto simp: logged_in_def split: prod.splits sum.splits)
  obtain r a2 where 2: "StreamToWriter (ge_claude env) (received_request req) a1 = Ended r a2"
      "out a2 = out a1 @ ndjson ?ls" "started a2 = started a1 @ cli_runs proc (received_request req)"
    using stream_lines [OF rec ok] by blast
  let ?req = "plain_request ''POST'' [''execute''] (JsonBody (exec_request_json req))"
  let ?resp = "\<lparr>rs_status = 200, rs_content_type = ''application/x-ndjson'', rs_body = sb ?a a2\<rparr>"
  have "Agent_Execute env ?req ?a = Some (Streamed, a2)"
    using 1 2 prompt by (simp add: Agent_Execute_def execute_request_decoded)
  then have "an_do (agent_net_of env ch evs sb bt lines) url ?req ?a = (Inr ?resp, a2)"
    by (simp add: agent_http_def)
  then have do_req: "an_do (gp_net p) url ?req w = (Inr ?resp, pgdb.more_update (put a2) w)"
    using host by (simp add: hosts_def)
  have "lines ?resp = (map (\<lambda>l. (length l, parse l)) (map drop_cr ?ls), None)"
    by (rule lines [unfolded delivers_def, rule_format, of a2 ?a]) (use 1(3) 2(2) in \<open>simp_all add: cli_lines_short\<close>)
  then have ls: "an_lines (gp_net p) ?resp = (map (\<lambda>l. (length l, parse l)) (map drop_cr ?ls), None)"
    using host by (simp add: hosts_def)
  have limit: "length (drop_cr l) < 65536" if "l \<in> set ?ls" for l
    using cli_lines_short [OF that] drop_cr_subset(2) [of l] by (simp add: short_line_def)
  have "RC_Execute (gp_net p) url req w =
      ((Inr (answer_session (answer_events parse ?ls)), answer_events parse ?ls), pgdb.more_update (put a2) w)"
    using RC_Execute_stream [OF _ do_req _ ls] host limit
    by (auto simp: hosts_def map_filter_lines answer_session_def Let_def)
  moreover have "started a2 = started ?a @ cli_runs proc (received_request req)" using 1(4) 2(3) by simp
  ultimately show ?thesis by blast
qed

section \<open>The rows of the run\<close>

lemma run_writes_more:
  "pgdb.more (snd (UpdateMessageContentBlocks i b d)) = pgdb.more d"
  "pgdb.more (snd (MergeMessageData i x d)) = pgdb.more d"
  "pgdb.more (snd (UpdateMessageStatus i st d)) = pgdb.more d"
  "pgdb.more (snd (UpdateConversationStatus c st d)) = pgdb.more d"
  "pgdb.more (snd (UpdateConversationTitle c t d)) = pgdb.more d"
  "pgdb.more (snd (UpdateConversationUpdatedAt c d)) = pgdb.more d"
  "pgdb.more (snd (UpdateSessionEndpointLastActivity c d)) = pgdb.more d"
  "pgdb.more (snd (GetVMInstance i d)) = pgdb.more d"
  unfolding UpdateMessageContentBlocks_def MergeMessageData_def UpdateMessageStatus_def UpdateConversationStatus_def
    UpdateConversationTitle_def UpdateConversationUpdatedAt_def UpdateSessionEndpointLastActivity_def GetVMInstance_def
  by (rule pg_exec_frame; simp split: option.split)+

lemma run_ticks_more: "pgdb.more (run_ticks mid es ticks d) = pgdb.more d"
proof (induction ticks arbitrary: d)
  case (Cons k ticks)
  from Cons.IH [of "batch_tick mid (aggregate (take k es)) d"] show ?case
    by (simp add: run_ticks_def batch_tick_def Snapshot_def run_writes_more)
qed (simp add: run_ticks_def)

lemma execute_more:
  assumes "xp_Execute p req (snd (UpdateConversationStatus cid ''running'' d)) = Some ((Inr sid, es), d1)"
  shows "\<exists>d'. executeAndPersist p req cid mid ticks d = Some d' \<and> pgdb.more d' = pgdb.more d1"
  using assms by (auto simp: executeAndPersist_def final_writes_def Let_def run_writes_more run_ticks_more split: prod.split)

lemma chat_kept_more: "chat_kept w (pgdb.more_update f w)"
  by (simp add: chat_kept_def)

lemma GCE_Execute_answer:
  assumes apart: "chat_apart p"
    and place: "getOrCreateEndpoint fuel p (er_ConversationID req) w = Some (Inr ep, w1)"
    and vm: "GetVMInstance (ep_vm_instance_id ep) w1 = (Inr vm, w2)"
    and host: "hosts p (http_url (vm_internal_ip vm) (ep_port ep)) (agent_net_of env ch evs sb bt lines) get put"
    and agent: "delivers out parse sb lines" "recorded_env (ge_claude env) proc out started"
      "logged_in env out started (get (pgdb.more w1))"
      "TrimSpace (xq_Prompt (received_request req)) \<noteq> []" "cli_ends proc (received_request req)"
  shows "\<exists>d1. GCE_Execute fuel p req w =
      Some ((Inr (answer_session (answer_events parse (cli_lines proc (received_request req)))),
        answer_events parse (cli_lines proc (received_request req))), d1) \<and> chat_kept w d1 \<and>
    started (get (pgdb.more d1)) = started (get (pgdb.more w1)) @ cli_runs proc (received_request req)"
proof -
  have m2: "pgdb.more w2 = pgdb.more w1" using run_writes_more(8) [of "ep_vm_instance_id ep" w1] vm by simp
  from agent_answers [OF host agent(1,2) agent(3) [folded m2] agent(4-5)] obtain a where
    ex: "RC_Execute (gp_net p) (http_url (vm_internal_ip vm) (ep_port ep)) req w2 =
      ((Inr (answer_session (answer_events parse (cli_lines proc (received_request req)))),
        answer_events parse (cli_lines proc (received_request req))), pgdb.more_update (put a) w2)"
    and a: "started a = started (get (pgdb.more w2)) @ cli_runs proc (received_request req)" by blast
  let ?d1 = "snd (UpdateSessionEndpointLastActivity (er_ConversationID req) (pgdb.more_update (put a) w2))"
  have "chat_kept w ?d1"
    using chat_kept_trans [OF getOrCreateEndpoint_chat [OF apart place] chat_kept_trans [OF chat_calls(9) [OF vm]
      chat_kept_trans [OF chat_kept_more chat_statements(10)]]] .
  moreover have "get (pgdb.more ?d1) = a" using host by (simp add: run_writes_more hosts_def)
  ultimately show ?thesis using a by (auto simp: GCE_Execute_def place vm ex m2)
qed

text \<open>C1: a message that is accepted is answered by the CLI, as long as no database statement fails and the
  clock of the database does not run behind its rows: when the provider finds or makes an endpoint for
  the conversation, the agent there is reachable and logged in, the prompt as the agent receives it is
  not blank (\<^verbatim>\<open>SendMessage\<close> itself refuses only the empty text), and the CLI's processes end without the
  executor's panic - a second run that again reports a failed resume -, the run ends, the CLI is started
  with exactly the arguments the stored conversation determines (twice when the session could not be
  resumed), and the conversation's history grows by two messages, the user's prompt and the assistant's
  answer, which is \<open>completed\<close> and holds what the aggregator makes of the lines the CLI printed, up to
  the first of 64 KiB or more.\<close>

theorem whole_turn:
  assumes apart: "credentials_apart h" "chat_apart p" and ready: "db_faults w = []"
    and past: "\<forall>m \<in> set (db_messages w). msg_created_at m \<le> db_now w"
    and send: "SendMessage h r cid w = ((resp, Some (req, c, mid)), w')"
    and place: "getOrCreateEndpoint fuel p cid (snd (UpdateConversationStatus cid ''running'' w')) = Some (Inr ep, w1)"
    and vm: "GetVMInstance (ep_vm_instance_id ep) w1 = (Inr vm, w2)"
    and host: "hosts p (http_url (vm_internal_ip vm) (ep_port ep)) (agent_net_of env ch evs sb bt lines) get put"
    and agent: "delivers out parse sb lines" "recorded_env (ge_claude env) proc out started"
      "logged_in env out started (get (pgdb.more w1))"
      "TrimSpace (xq_Prompt (received_request req)) \<noteq> []" "cli_ends proc (received_request req)"
  shows "\<exists>d' u a. executeAndPersist (DockerGCEProvider fuel p) req c mid ticks w' = Some d' \<and>
    history_of cid (db_messages d') = history_of cid (db_messages w) @ [u, a] \<and>
    history_content u = er_Prompt req \<and> msg_role u = ''user'' \<and> msg_role a = ''assistant'' \<and>
    msg_status a = ''completed'' \<and>
    stored_result (answer_session (answer_events parse (cli_lines proc (received_request req))))
      (aggregate (answer_events parse (cli_lines proc (received_request req)))) (msg_data a) \<and>
    started (get (pgdb.more d')) = started (get (pgdb.more w1)) @ cli_runs proc (received_request req)"
proof -
  let ?es = "answer_events parse (cli_lines proc (received_request req))"
  let ?r = "snd (UpdateConversationStatus cid ''running'' w')"
  have sent: "c = cid" "er_ConversationID req = cid" "db_faults w' = []" "conv_row cid w' \<noteq> None"
    using SendMessage_rows [OF apart(1) ready send] by blast+
  have r: "db_messages ?r = db_messages w'" "db_faults ?r = []" "conv_row cid ?r \<noteq> None"
    using sent by (auto simp: UpdateConversationStatus_def conv_row_def update_where_def find_None_iff)
  obtain d1 where run: "GCE_Execute fuel p req ?r = Some ((Inr (answer_session ?es), ?es), d1)"
    and kept: "chat_kept ?r d1" and cli: "started (get (pgdb.more d1)) = started (get (pgdb.more w1)) @ cli_runs proc (received_request req)"
    using GCE_Execute_answer [OF apart(2) place [folded sent(2)] vm host agent] sent(2) by auto
  have keeps: "db_messages d1 = db_messages w'" "db_faults d1 = []" "conv_row cid d1 \<noteq> None"
    using kept r by (simp_all add: chat_kept_def conv_row_def)
  then obtain cr where cr: "conv_row cid d1 = Some cr" by blast
  have x: "xp_Execute (DockerGCEProvider fuel p) req ?r = Some ((Inr (answer_session ?es), ?es), d1)"
    by (simp add: DockerGCEProvider_def run)
  obtain d' where done_: "executeAndPersist (DockerGCEProvider fuel p) req c mid ticks w' = Some d'" "pgdb.more d' = pgdb.more d1"
    using execute_more [OF x] sent(1) by blast
  from turn_rows [OF apart(1) ready past send x keeps(1,2) cr done_(1)] done_ cli show ?thesis by auto
qed

section \<open>An agent that is not logged in\<close>

lemma logged_out_refuses:
  assumes host: "hosts p url (agent_net_of env ch evs sb bt lines) get put"
    and login: "AM_GetStatus (auth_env.truncate env) (get (pgdb.more w)) = (Inr st, a)" "\<not> ag_LoggedIn st"
  shows "RC_Execute (gp_net p) url req w =
    ((Inl (ErrText (''cc-remote-agent returned '' @ itoa 401)), []), pgdb.more_update (put a) w)"
proof -
  let ?req = "plain_request ''POST'' [''execute''] (JsonBody (exec_request_json req))"
  have "agent_http env ch evs ?req (get (pgdb.more w)) = Some (Reply (json_http_error [(''error'', ''not authenticated'')] 401), a)"
    using login by (simp add: agent_http_def Agent_Execute_def)
  then have "an_do (gp_net p) url ?req w =
      (Inr (json_http_error [(''error'', ''not authenticated'')] 401), pgdb.more_update (put a) w)"
    using host by (simp add: hosts_def)
  moreover have "rs_status (json_http_error [(''error'', ''not authenticated'')] 401) = 401"
    by (simp add: json_http_error_def)
  ultimately show ?thesis
    using host by (simp add: RC_Execute_def send_request_def hosts_def)
qed

text \<open>C35: the Compute Engine provider never hands the stored credentials to the agent: when the agent of
  the conversation is not logged in, an accepted message ends in error and no CLI is started, whatever
  credentials \<^verbatim>\<open>SendMessage\<close> has decrypted and put into the request.\<close>

theorem stored_credentials_unused:
  assumes apart: "credentials_apart h" "chat_apart p" and ready: "db_faults w = []"
    and past: "\<forall>m \<in> set (db_messages w). msg_created_at m \<le> db_now w"
    and send: "SendMessage h r cid w = ((resp, Some (req, c, mid)), w')"
    and place: "getOrCreateEndpoint fuel p cid (snd (UpdateConversationStatus cid ''running'' w')) = Some (Inr ep, w1)"
    and vm: "GetVMInstance (ep_vm_instance_id ep) w1 = (Inr vm, w2)"
    and host: "hosts p (http_url (vm_internal_ip vm) (ep_port ep)) (agent_net_of env ch evs sb bt lines) get put"
    and login: "AM_GetStatus (auth_env.truncate env) (get (pgdb.more w1)) = (Inr st, a)" "\<not> ag_LoggedIn st"
  shows "\<exists>d' u m. executeAndPersist (DockerGCEProvider fuel p) (req\<lparr>er_Credentials := cred\<rparr>) c mid ticks w' = Some d' \<and>
    history_of cid (db_messages d') = history_of cid (db_messages w) @ [u, m] \<and>
    history_content u = er_Prompt req \<and> msg_role m = ''assistant'' \<and> msg_status m = ''error'' \<and>
    get (pgdb.more d') = a"
proof -
  let ?r = "snd (UpdateConversationStatus cid ''running'' w')" and ?req = "req\<lparr>er_Credentials := cred\<rparr>"
  let ?d1 = "pgdb.more_update (put a) w2" and ?err = "errorf ''remote execute'' (ErrText (''cc-remote-agent returned '' @ itoa 401))"
  have m2: "pgdb.more w2 = pgdb.more w1" using run_writes_more(8) [of "ep_vm_instance_id ep" w1] vm by simp
  have sent: "c = cid" "er_ConversationID req = cid" "db_faults w' = []" "conv_row cid w' \<noteq> None"
    using SendMessage_rows [OF apart(1) ready send] by blast+
  have x: "xp_Execute (DockerGCEProvider fuel p) q ?r = Some ((Inl ?err, []), ?d1)" if "er_ConversationID q = cid" for q
    using logged_out_refuses [OF host login [folded m2], of q] that
    by (simp add: DockerGCEProvider_def GCE_Execute_def place vm)
  have r: "db_messages ?r = db_messages w'" "db_faults ?r = []" "conv_row cid ?r \<noteq> None"
    using sent by (auto simp: UpdateConversationStatus_def conv_row_def update_where_def find_None_iff)
  have "chat_kept ?r ?d1"
    using chat_kept_trans [OF getOrCreateEndpoint_chat [OF apart(2) place] chat_kept_trans [OF chat_calls(9) [OF vm] chat_kept_more]] .
  then have keeps: "db_messages ?d1 = db_messages w'" "db_faults ?d1 = []" "conv_row cid ?d1 \<noteq> None"
    using r by (simp_all add: chat_kept_def conv_row_def)
  define d' where "d' = snd (UpdateConversationStatus cid ''completed'' (snd (UpdateMessageStatus mid ''error'' (run_ticks mid [] ticks ?d1))))"
  have run: "executeAndPersist (DockerGCEProvider fuel p) q c mid ticks w' = Some d'" if "er_ConversationID q = cid" for q
    using x [OF that] by (simp add: executeAndPersist_def Let_def sent(1) d'_def)
  from turn_history [OF apart(1) ready past send x [OF sent(2)] keeps(1) run [OF sent(2)]] obtain u m m1 where
    h: "history_of cid (db_messages d') = history_of cid (db_messages w) @ [u, m]" "history_content u = er_Prompt req"
      "msg_role m = ''assistant''" "msg_row mid d' = Some m" and m1: "msg_row mid ?d1 = Some m1" by blast
  obtain cr where cr: "conv_row cid ?d1 = Some cr" using keeps(3) by blast
  from run_failure [OF x [OF sent(2)] keeps(2) m1 cr, of ticks] run [OF sent(2)] h(4)
  have "msg_status m = ''error''" by (auto simp: sent(1))
  moreover have "get (pgdb.more d') = a" using host by (simp add: d'_def run_writes_more run_ticks_more hosts_def)
  ultimately show ?thesis using h run [of ?req] sent(2) by auto
qed

end
