(* ===== verification/Admin.thy ===== *)
theory Admin
  imports Http
begin

text \<open>
  The endpoint that Cloud Scheduler calls, \<^verbatim>\<open>apps/cc-tunnel/internal/admin/reconcile_vms.go\<close>.  The
  validation of a Google ID token is outside the code: \<open>rh_Validator\<close> takes the token and the
  audience and gives the claims of the payload; a missing or non-text e-mail claim reads as the
  empty text.
\<close>

record 'w reconcile_handler =
  rh_Reconciler :: "('w, unit) call"
  rh_Audience :: string
  rh_AllowedEmails :: "string set"
  rh_Validator :: "string \<Rightarrow> string \<Rightarrow> ('w, json gomap) call"

definition NewReconcileVMsHandler ::
    "('w, unit) call \<Rightarrow> string \<Rightarrow> string list \<Rightarrow> (string \<Rightarrow> string \<Rightarrow> ('w, json gomap) call) \<Rightarrow>
     'w reconcile_handler" where
  "NewReconcileVMsHandler r audience allowedEmails validate =
     \<lparr>rh_Reconciler = r, rh_Audience = audience,
      rh_AllowedEmails = set (filter (\<lambda>e. e \<noteq> []) (map TrimSpace allowedEmails)), rh_Validator = validate\<rparr>"

definition admin_bearerToken :: "string \<Rightarrow> string result" where
  "admin_bearerToken h =
     (if h = [] then Inl (ErrText ''missing Authorization header'')
      else if \<not> has_prefix h ''Bearer '' then Inl (ErrText ''expected Bearer scheme'')
      else
        let token = TrimSpace (drop (length ''Bearer '') h) in
        if token = [] then Inl (ErrText ''empty bearer token'') else Inr token)"

definition email_claim :: "json gomap \<Rightarrow> string" where
  "email_claim claims = (case gomap_get claims ''email'' of Some (JStr s) \<Rightarrow> s | _ \<Rightarrow> [])"

definition ReconcileVMs_ServeHTTP :: "'w reconcile_handler \<Rightarrow> http_request \<Rightarrow> 'w \<Rightarrow> http_response \<times> 'w" where
  "ReconcileVMs_ServeHTTP h r w =
     (if rq_method r \<noteq> ''POST'' then (http_error ''method not allowed'' 405, w)
      else
        (case admin_bearerToken (rq_authorization r) of
           Inl err \<Rightarrow> (http_error ''unauthorized'' 401, w)
         | Inr token \<Rightarrow>
             (case rh_Validator h token (rh_Audience h) w of
                (Inl err, w) \<Rightarrow> (http_error ''unauthorized'' 401, w)
              | (Inr claims, w) \<Rightarrow>
                  if email_claim claims \<notin> rh_AllowedEmails h then (http_error ''forbidden'' 403, w)
                  else
                    (case rh_Reconciler h w of
                       (Inl err, w) \<Rightarrow> (http_error ''reconcile failed'' 500, w)
                     | (Inr _, w) \<Rightarrow> (status_response 204, w)))))"

text \<open>Machines are reconciled for the configured callers only: unless the request is a POST with a
  bearer token that validates for the audience and carries an allowed, non-empty e-mail address,
  the reconciler is not called - the world is the one the validation left - and the answer is 405,
  401 or 403.\<close>

theorem reconcile_only_allowed:
  assumes "h = NewReconcileVMsHandler rec audience emails validate"
    and "\<nexists>token claims w1. rq_method r = ''POST'' \<and> admin_bearerToken (rq_authorization r) = Inr token \<and>
      validate token audience w = (Inr claims, w1) \<and> email_claim claims \<noteq> [] \<and>
      email_claim claims \<in> TrimSpace ` set emails"
  shows "rs_status (fst (ReconcileVMs_ServeHTTP h r w)) \<in> {401, 403, 405} \<and>
    snd (ReconcileVMs_ServeHTTP h r w) \<in> insert w {snd (validate token audience w) |token. True}"
proof -
  have v: "rh_Validator h = validate" "rh_Audience h = audience"
    "rh_AllowedEmails h = {e \<in> TrimSpace ` set emails. e \<noteq> []}"
    using assms(1) by (auto simp: NewReconcileVMsHandler_def)
  show ?thesis
  proof (cases "rq_method r = ''POST'' \<and> \<not> is_err (admin_bearerToken (rq_authorization r))")
    case False
    then show ?thesis by (auto simp: ReconcileVMs_ServeHTTP_def is_err_def split: sum.splits)
  next
    case True
    then obtain token where t: "admin_bearerToken (rq_authorization r) = Inr token" by (auto elim: not_is_errE)
    obtain q w1 where q: "validate token audience w = (q, w1)" by (cases "validate token audience w")
    have w1: "w1 \<in> insert w {snd (validate token audience w) |token. True}" using q by (auto intro: exI [of _ token])
    show ?thesis
    proof (cases q)
      case (Inl e)
      with True t q w1 show ?thesis by (simp add: ReconcileVMs_ServeHTTP_def v)
    next
      case (Inr claims)
      with assms(2) True t q have "email_claim claims \<notin> rh_AllowedEmails h" unfolding v by blast
      with True t q Inr w1 show ?thesis by (simp add: ReconcileVMs_ServeHTTP_def v)
    qed
  qed
qed

theorem reconcile_only_allowed_witness:
  "rs_status (fst (ReconcileVMs_ServeHTTP
      (NewReconcileVMsHandler (\<lambda>n. (Inr (), Suc n)) ''aud'' ['' sched@x ''] (\<lambda>t a n. (Inr [(''email'', JStr ''eve@x'')], n)))
      ((plain_request ''POST'' [''internal'', ''reconcile-vms''] NoBody)\<lparr>rq_authorization := ''Bearer tok''\<rparr>) (0::nat)))
     \<in> {401, 403, 405}"
proof -
  have "TrimSpace '' sched@x '' = ''sched@x''" by code_simp
  then have "''eve@x'' \<notin> TrimSpace ` set ['' sched@x '']" by simp
  then show ?thesis
    using reconcile_only_allowed [OF refl, of
      "(plain_request ''POST'' [''internal'', ''reconcile-vms''] NoBody)\<lparr>rq_authorization := ''Bearer tok''\<rparr>"
      "\<lambda>t a n. (Inr [(''email'', JStr ''eve@x'')], n)" "''aud''" "0::nat" "['' sched@x '']" "\<lambda>n. (Inr (), Suc n)"]
    by (auto simp: email_claim_def)
qed

end
