(* ===== verification/CcTunnelMain.thy ===== *)
theory CcTunnelMain
  imports Admin ApiServer DockerGCE
begin

text \<open>
  The start of cc-tunnel, \<^verbatim>\<open>apps/cc-tunnel/cmd/cc-tunnel/main.go\<close>: how the environment selects and
  configures the execution provider, the encryption key, and the root of the HTTP routes.
  \<^verbatim>\<open>os.Getenv\<close> is a function that gives the empty text for an unset variable.
\<close>

type_synonym environment = "string \<Rightarrow> string"

definition getEnvOrDefault :: "environment \<Rightarrow> string \<Rightarrow> string \<Rightarrow> string" where
  "getEnvOrDefault env key defaultVal = (if env key \<noteq> [] then env key else defaultVal)"

definition splitAndTrim :: "string \<Rightarrow> char \<Rightarrow> string list" where
  "splitAndTrim s sep =
     (if s = [] then [] else filter (\<lambda>p. p \<noteq> []) (map TrimSpace (split_byte s sep)))"

definition getEnvIntOrDefault :: "environment \<Rightarrow> string \<Rightarrow> int \<Rightarrow> int" where
  "getEnvIntOrDefault env key defaultVal =
     (if env key \<noteq> [] then (case atoi (env key) of Some n \<Rightarrow> n | None \<Rightarrow> defaultVal) else defaultVal)"

text \<open>\<^verbatim>\<open>time.Duration(n) * time.Second\<close> on 64-bit integers.\<close>

definition duration_of_seconds :: "int \<Rightarrow> int" where
  "duration_of_seconds n = sint (word_of_int n * word_of_int 1000000000 :: 64 word)"

section \<open>The provider\<close>

text \<open>Which runner \<open>newLocalRunner\<close> makes: \<^verbatim>\<open>cmclient.NewClient\<close> and the Docker SDK are tried.\<close>

datatype local_runner = UseCMRunner string int | UseSDKRunner

definition newLocalRunner ::
    "environment \<Rightarrow> (string \<Rightarrow> goerr option) \<Rightarrow> goerr option \<Rightarrow> (local_runner \<times> string) result" where
  "newLocalRunner env new_client new_sdk =
     (if env ''CONTAINER_MANAGER_URL'' \<noteq> [] then
        (case new_client (env ''CONTAINER_MANAGER_URL'') of
           Some err \<Rightarrow> Inl (errorf ''cmclient'' err)
         | None \<Rightarrow>
             let port = getEnvOrDefault env ''CC_REMOTE_AGENT_PORT'' ''9090'' in
             (case atoi port of
                None \<Rightarrow> Inl (errorf ''parse CC_REMOTE_AGENT_PORT''
                          (ErrText (''strconv.Atoi: parsing '' @ quoted port @ '': invalid syntax'')))
              | Some portInt \<Rightarrow> Inr (UseCMRunner (env ''CONTAINER_MANAGER_URL'') portInt, port)))
      else
        (case new_sdk of
           Some err \<Rightarrow> Inl (errorf ''docker runner'' err)
         | None \<Rightarrow> Inr (UseSDKRunner, getEnvOrDefault env ''CC_REMOTE_AGENT_PORT'' ''9091'')))"

datatype provider_choice = LocalDocker local_runner sm_config | CloudRunSandboxMock | DockerOnGCE gce_config

definition required_var :: "string \<Rightarrow> goerr" where
  "required_var key = ErrText (key @ '' environment variable is required for docker_gce provider'')"

definition gce_config_from_env :: "environment \<Rightarrow> gce_config" where
  "gce_config_from_env env =
     \<lparr>gc_ProjectID = env ''GCE_PROJECT_ID'', gc_Zone = getEnvOrDefault env ''GCE_ZONE'' ''us-central1-a'',
      gc_MachineType = getEnvOrDefault env ''GCE_MACHINE_TYPE'' ''e2-medium'',
      gc_VMImage = env ''GCE_VM_IMAGE'', gc_VMServiceAccount = env ''GCE_VM_SERVICE_ACCOUNT'',
      gc_VMSubnetwork = env ''GCE_VM_SUBNETWORK'', gc_AgentImage = env ''CC_REMOTE_AGENT_IMAGE'',
      gc_AgentPort = 9091, gc_IdleTimeout = seconds (15 * 60),
      gc_MaxContainers = getEnvIntOrDefault env ''GCE_MAX_CONTAINERS'' 10,
      gc_IdleCheckInterval = duration_of_seconds (getEnvIntOrDefault env ''GCE_IDLE_CHECK_INTERVAL_SECONDS'' 300),
      gc_ZeroAgentsTimeout = duration_of_seconds (getEnvIntOrDefault env ''GCE_VM_ZERO_AGENTS_TIMEOUT_SECONDS'' 600),
      gc_VMReconcileInterval = duration_of_seconds (getEnvIntOrDefault env ''GCE_VM_RECONCILE_INTERVAL_SECONDS'' 0),
      gc_ContainerManagerProbeTimeout =
        duration_of_seconds (getEnvIntOrDefault env ''GCE_CONTAINER_MANAGER_PROBE_TIMEOUT_SECONDS'' 5),
      gc_VMReadyTimeout = 0, gc_ContainerManagerReadyTimeout = 0, gc_AgentReadyTimeout = 0,
      gc_PollInterval = 0, gc_DockerPingTimeout = 0,
      gc_ContainerNamePrefix = getEnvOrDefault env ''GCE_CONTAINER_NAME_PREFIX'' ''cc-remote-agent'',
      gc_PortRangeStart = getEnvIntOrDefault env ''GCE_AGENT_PORT_RANGE_START'' 61000,
      gc_PortRangeEnd = getEnvIntOrDefault env ''GCE_AGENT_PORT_RANGE_END'' 61999,
      gc_ContainerManagerPort = getEnvIntOrDefault env ''GCE_CONTAINER_MANAGER_PORT'' 9090\<rparr>"

definition newProviderFromEnv ::
    "environment \<Rightarrow> (string \<Rightarrow> goerr option) \<Rightarrow> goerr option \<Rightarrow> goerr option \<Rightarrow> string \<Rightarrow> provider_choice result" where
  "newProviderFromEnv env new_client new_sdk new_gce envVal =
     (if envVal = ''local'' then
        (case newLocalRunner env new_client new_sdk of
           Inl err \<Rightarrow> Inl err
         | Inr (runner, containerPortStr) \<Rightarrow>
             Inr (LocalDocker runner
               \<lparr>smc_Image = getEnvOrDefault env ''CC_REMOTE_AGENT_IMAGE'' ''cc-remote-agent:latest'',
                smc_Network = getEnvOrDefault env ''DOCKER_NETWORK'' ''apps_default'',
                smc_ContainerPort = containerPortStr, smc_IdleTimeout = 0, smc_StartTimeout = 0\<rparr>))
      else if envVal = ''cloud_run_sandbox'' then Inr CloudRunSandboxMock
      else if envVal = ''docker_gce'' then
        (case new_gce of
           Some err \<Rightarrow> Inl (errorf ''GCE client'' err)
         | None \<Rightarrow>
             if env ''GCE_PROJECT_ID'' = [] then Inl (required_var ''GCE_PROJECT_ID'')
             else if env ''CC_REMOTE_AGENT_IMAGE'' = [] then Inl (required_var ''CC_REMOTE_AGENT_IMAGE'')
             else if env ''GCE_VM_IMAGE'' = [] then Inl (required_var ''GCE_VM_IMAGE'')
             else Inr (DockerOnGCE (gce_config_from_env env)))
      else Inl (ErrText (''unknown EXECUTION_PROVIDER: '' @ quoted envVal)))"

section \<open>The encryption key\<close>

text \<open>\<^verbatim>\<open>hex.DecodeString\<close>, without the text of its errors.\<close>

definition hex_value :: "char \<Rightarrow> nat option" where
  "hex_value c =
     (let k = of_char c :: nat in
      if 48 \<le> k \<and> k \<le> 57 then Some (k - 48)
      else if 97 \<le> k \<and> k \<le> 102 then Some (k - 87)
      else if 65 \<le> k \<and> k \<le> 70 then Some (k - 55) else None)"

fun hex_decode :: "string \<Rightarrow> string option" where
  "hex_decode [] = Some []"
| "hex_decode [c] = None"
| "hex_decode (c # d # cs) =
     (case (hex_value c, hex_value d) of
        (Some h, Some l) \<Rightarrow> map_option (\<lambda>bs. char_of (16 * h + l) # bs) (hex_decode cs)
      | _ \<Rightarrow> None)"

text \<open>The part of \<^verbatim>\<open>main\<close> that makes the encryptor; every error ends the process.\<close>

definition startup_encryptor ::
    "environment \<Rightarrow> (string \<Rightarrow> 'b result) \<Rightarrow> ('b \<Rightarrow> aead result) \<Rightarrow> encryptor result" where
  "startup_encryptor env new_cipher new_gcm =
     (if env ''CC_LOGIN_ENCRYPTION_KEY'' = [] then
        Inl (ErrText ''CC_LOGIN_ENCRYPTION_KEY is not set; set a 64-char hex key (32 bytes)'')
      else
        (case hex_decode (env ''CC_LOGIN_ENCRYPTION_KEY'') of
           None \<Rightarrow> Inl (ErrText ''CC_LOGIN_ENCRYPTION_KEY is not valid hex'')
         | Some encKeyBytes \<Rightarrow> NewEncryptor new_cipher new_gcm encKeyBytes 1))"

section \<open>Routes\<close>

text \<open>The reconcile endpoint is served when the provider can reconcile and its audience and callers are
  configured; everything else goes to the API.\<close>

definition reconcile_endpoint ::
    "environment \<Rightarrow> ('w, unit) call option \<Rightarrow> (string \<Rightarrow> string \<Rightarrow> ('w, json gomap) call) \<Rightarrow>
     'w reconcile_handler option" where
  "reconcile_endpoint env reconciler validate =
     (case reconciler of
        None \<Rightarrow> None
      | Some rec \<Rightarrow>
          let aud = env ''RECONCILE_VMS_OIDC_AUDIENCE'';
              emails = splitAndTrim (env ''RECONCILE_VMS_ALLOWED_EMAILS'') (CHR '','')
          in if aud \<noteq> [] \<and> length emails > 0 then Some (NewReconcileVMsHandler rec aud emails validate) else None)"

definition cc_tunnel_http ::
    "('z api_state_scheme) server \<Rightarrow> ('z api_state_scheme) reconcile_handler option \<Rightarrow> http_request \<Rightarrow>
     'z api_state_scheme \<Rightarrow> ((http_response \<times> goroutine option) \<times> 'z api_state_scheme) option" where
  "cc_tunnel_http h admin r w =
     (case admin of
        Some rh \<Rightarrow>
          if rq_path r = [''internal'', ''reconcile-vms''] then plain (ReconcileVMs_ServeHTTP rh r w)
          else api_http h r w
      | None \<Rightarrow> api_http h r w)"

lemma hex_decode_length: "hex_decode s = Some bs \<Longrightarrow> length s = 2 * length bs"
  by (induction s arbitrary: bs rule: hex_decode.induct) (auto split: option.splits)

lemma hex_value_digit: "n < 16 \<Longrightarrow> hex_value (hex_digit n) = Some n"
  by (auto simp: hex_value_def hex_digit_def Let_def)

lemma hex_decode_encode: "hex_decode (hex_encode bs) = Some bs"
proof (induction bs)
  case Nil
  then show ?case by (simp add: hex_encode_def)
next
  case (Cons b bs)
  have "(of_char b :: nat) mod 256 < 256" by (rule mod_less_divisor) simp
  then have byte: "(of_char b :: nat) < 256" by simp
  have d: "(of_char b :: nat) div 16 < 16" "(of_char b :: nat) mod 16 < 16"
    using byte by (simp_all add: less_mult_imp_div_less)
  have "hex_encode (b # bs) = hex_digit (of_char b div 16) # hex_digit (of_char b mod 16) # hex_encode bs"
    by (simp add: hex_encode_def Let_def)
  then show ?case using Cons by (simp add: hex_value_digit d)
qed

text \<open>The process only starts with a usable key: the encryptor exists exactly when the variable holds
  64 hexadecimal digits and the cipher accepts the 32 bytes they stand for.\<close>

theorem encryption_key_checked:
  "(\<exists>e. startup_encryptor env new_cipher new_gcm = Inr e) \<longleftrightarrow>
     (\<exists>key block a. hex_decode (env ''CC_LOGIN_ENCRYPTION_KEY'') = Some key \<and> length key = 32 \<and>
        length (env ''CC_LOGIN_ENCRYPTION_KEY'') = 64 \<and> new_cipher key = Inr block \<and> new_gcm block = Inr a)"
proof -
  have "length s = 64" if "hex_decode s = Some key" "length key = 32" for s key
    using hex_decode_length [OF that(1)] that(2) by simp
  then show ?thesis
    by (auto simp: startup_encryptor_def NewEncryptor_def KeyLength_def split: option.splits sum.splits)
qed

end
