(* ===== verification/GenServer.thy ===== *)
theory GenServer
  imports Http
begin

text \<open>
  What the two generated servers (\<^verbatim>\<open>apps/cc-tunnel/internal/api/gen.go\<close> and
  \<^verbatim>\<open>apps/container-manager/internal/api/gen.go\<close>) have in common: the errors of parameter binding,
  the wrapper around the handlers with its middlewares, and the registration of patterns on a
  \<^verbatim>\<open>http.ServeMux\<close>.

  A handler is a function of the request and the world into \<open>'x\<close>, what serving a request comes to;
  \<open>write\<close> is the plain response as such an outcome (what \<^verbatim>\<open>http.Error\<close> does to the
  \<^verbatim>\<open>ResponseWriter\<close>).  A request carries the values of its path's wildcards and of the context key
  \<^verbatim>\<open>BearerAuthScopes\<close>.  The binding of parameters by \<^verbatim>\<open>oapi-codegen/runtime\<close> is a parameter.
\<close>

record served_request = http_request +
  sq_path_values :: "string gomap"
  sq_scopes :: "string list option"

type_synonym ('w, 'x) http_handler = "served_request \<Rightarrow> 'w \<Rightarrow> 'x"

type_synonym ('w, 'x) middleware = "('w, 'x) http_handler \<Rightarrow> ('w, 'x) http_handler"

section \<open>Errors of parameters\<close>

datatype param_error =
    UnescapedCookieParamError string goerr
  | UnmarshalingParamError string goerr
  | RequiredParamError string
  | RequiredHeaderError string goerr
  | InvalidParamFormatError string goerr
  | TooManyValuesForParamError string int

primrec param_error_text :: "param_error \<Rightarrow> string" where
  "param_error_text (UnescapedCookieParamError name err) = ''error unescaping cookie parameter '' @ [CHR 0x27] @ name @ [CHR 0x27]"
| "param_error_text (UnmarshalingParamError name err) =
     ''Error unmarshaling parameter '' @ name @ '' as JSON: '' @ error_string err"
| "param_error_text (RequiredParamError name) = ''Query argument '' @ name @ '' is required, but not found''"
| "param_error_text (RequiredHeaderError name err) = ''Header parameter '' @ name @ '' is required, but not found''"
| "param_error_text (InvalidParamFormatError name err) =
     ''Invalid format for parameter '' @ name @ '': '' @ error_string err"
| "param_error_text (TooManyValuesForParamError name count) =
     ''Expected one value for '' @ name @ '', got '' @ itoa count"

primrec param_error_unwrap :: "param_error \<Rightarrow> goerr option" where
  "param_error_unwrap (UnescapedCookieParamError name err) = Some err"
| "param_error_unwrap (UnmarshalingParamError name err) = Some err"
| "param_error_unwrap (RequiredParamError name) = None"
| "param_error_unwrap (RequiredHeaderError name err) = Some err"
| "param_error_unwrap (InvalidParamFormatError name err) = Some err"
| "param_error_unwrap (TooManyValuesForParamError name count) = None"

section \<open>The wrapper\<close>

record ('si, 'w, 'x) wrapper =
  siw_Handler :: 'si
  siw_HandlerMiddlewares :: "('w, 'x) middleware list"
  siw_ErrorHandlerFunc :: "served_request \<Rightarrow> param_error \<Rightarrow> 'w \<Rightarrow> 'x"

definition with_middlewares :: "('w, 'x) middleware list \<Rightarrow> ('w, 'x) http_handler \<Rightarrow> ('w, 'x) http_handler" where
  "with_middlewares mws handler = fold (\<lambda>middleware handler. middleware handler) mws handler"

lemma with_no_middlewares [simp]: "with_middlewares [] handler = handler"
  by (simp add: with_middlewares_def)

text \<open>The middleware added last sees the request first.\<close>

lemma with_middlewares_append:
  "with_middlewares (mws @ [m]) handler = m (with_middlewares mws handler)"
  by (simp add: with_middlewares_def)

definition with_scopes :: "served_request \<Rightarrow> served_request" where
  "with_scopes r = r\<lparr>sq_scopes := Some []\<rparr>"

definition query_value :: "served_request \<Rightarrow> string \<Rightarrow> string" where
  "query_value r k = (case map_of (rq_query r) k of Some v \<Rightarrow> v | None \<Rightarrow> [])"

definition path_value :: "served_request \<Rightarrow> string \<Rightarrow> string" where
  "path_value r k = (case gomap_get (sq_path_values r) k of Some v \<Rightarrow> v | None \<Rightarrow> [])"

text \<open>\<^verbatim>\<open>BindQueryParameterWithOptions\<close> and \<^verbatim>\<open>BindStyledParameterWithOptions\<close> for one text parameter.\<close>

record param_binder =
  bd_query :: "string \<Rightarrow> (string \<times> string) list \<Rightarrow> string result"
  bd_path :: "string \<Rightarrow> string \<Rightarrow> string result"

definition required_query ::
    "param_binder \<Rightarrow> ('si, 'w, 'x) wrapper \<Rightarrow> string \<Rightarrow> (string \<Rightarrow> served_request \<Rightarrow> 'w \<Rightarrow> 'x) \<Rightarrow> ('w, 'x) http_handler" where
  "required_query bd siw name k r w =
     (if query_value r name \<noteq> [] then
        (case bd_query bd name (rq_query r) of
           Inl err \<Rightarrow> siw_ErrorHandlerFunc siw r (InvalidParamFormatError name err) w
         | Inr v \<Rightarrow> k v r w)
      else siw_ErrorHandlerFunc siw r (RequiredParamError name) w)"

definition path_param ::
    "param_binder \<Rightarrow> ('si, 'w, 'x) wrapper \<Rightarrow> string \<Rightarrow> (string \<Rightarrow> served_request \<Rightarrow> 'w \<Rightarrow> 'x) \<Rightarrow> ('w, 'x) http_handler" where
  "path_param bd siw name k r w =
     (case bd_path bd name (path_value r name) of
        Inl err \<Rightarrow> siw_ErrorHandlerFunc siw r (InvalidParamFormatError name err) w
      | Inr v \<Rightarrow> k v r w)"

section \<open>The mux\<close>

text \<open>
  A pattern is a method, a blank and a path; a segment in braces is a wildcard for one segment that is
  not empty.  A pattern for \<^verbatim>\<open>GET\<close> also matches \<^verbatim>\<open>HEAD\<close>, one without a method matches any.  Of the
  patterns registered here no two match one request, so the first that matches is the answer; a
  path that only matches under another method is answered 405.
\<close>

type_synonym ('w, 'x) mux = "(string \<times> ('w, 'x) http_handler) list"

definition pattern_method :: "string \<Rightarrow> string" where
  "pattern_method pat = (if CHR '' '' \<in> set pat then takeWhile (\<lambda>c. c \<noteq> CHR '' '') pat else [])"

definition pattern_path :: "string \<Rightarrow> string list" where
  "pattern_path pat = tl (split_byte
     (if CHR '' '' \<in> set pat then tl (dropWhile (\<lambda>c. c \<noteq> CHR '' '') pat) else pat) (CHR ''/''))"

definition wildcard :: "string \<Rightarrow> string option" where
  "wildcard seg = (if seg \<noteq> [] \<and> hd seg = CHR ''{'' \<and> last seg = CHR ''}'' then Some (butlast (tl seg)) else None)"

fun match_path :: "string list \<Rightarrow> string list \<Rightarrow> string gomap option" where
  "match_path [] [] = Some []"
| "match_path (p # ps) (s # ss) =
     (case wildcard p of
        Some name \<Rightarrow> if s = [] then None else map_option (Cons (name, s)) (match_path ps ss)
      | None \<Rightarrow> if p = s then match_path ps ss else None)"
| "match_path _ _ = None"

definition method_matches :: "string \<Rightarrow> string \<Rightarrow> bool" where
  "method_matches pm m = (pm = [] \<or> pm = m \<or> (pm = ''GET'' \<and> m = ''HEAD''))"

definition HandleFunc :: "('w, 'x) mux \<Rightarrow> string \<Rightarrow> ('w, 'x) http_handler \<Rightarrow> ('w, 'x) mux" where
  "HandleFunc m pat handler = m @ [(pat, handler)]"

fun serve_matches ::
    "(http_response \<Rightarrow> 'w \<Rightarrow> 'x) \<Rightarrow> ('w, 'x) mux \<Rightarrow> bool \<Rightarrow> ('w, 'x) http_handler" where
  "serve_matches write [] found r w =
     write (if found then http_error ''Method Not Allowed'' 405 else http_error ''404 page not found'' 404) w"
| "serve_matches write ((pat, handler) # m) found r w =
     (case match_path (pattern_path pat) (rq_path r) of
        None \<Rightarrow> serve_matches write m found r w
      | Some values \<Rightarrow>
          if method_matches (pattern_method pat) (rq_method r)
          then handler (r\<lparr>sq_path_values := values\<rparr>) w
          else serve_matches write m True r w)"

definition mux_serve :: "(http_response \<Rightarrow> 'w \<Rightarrow> 'x) \<Rightarrow> ('w, 'x) mux \<Rightarrow> ('w, 'x) http_handler" where
  "mux_serve write m = serve_matches write m False"

text \<open>
  Before it matches, \<^verbatim>\<open>http.ServeMux\<close> answers a path with an empty inner segment, a dot or two dots with
  a redirection to the path without them; the location and the text of the answer are not kept.
\<close>

definition clean_path :: "string list \<Rightarrow> bool" where
  "clean_path p = (list_all (\<lambda>s. s \<noteq> ''.'' \<and> s \<noteq> ''..'') p \<and> list_all (\<lambda>s. s \<noteq> []) (butlast p))"

definition mux_ServeHTTP :: "(http_response \<Rightarrow> 'w \<Rightarrow> 'x) \<Rightarrow> ('w, 'x) mux \<Rightarrow> ('w, 'x) http_handler" where
  "mux_ServeHTTP write m r w =
     (if clean_path (rq_path r) then mux_serve write m r w else write (status_response 301) w)"

text \<open>\<^verbatim>\<open>http.Request\<close> as the server hands it to the outermost handler.\<close>

definition arriving :: "http_request \<Rightarrow> served_request" where
  "arriving r = http_request.extend r \<lparr>sq_path_values = [], sq_scopes = None\<rparr>"

section \<open>Options\<close>

text \<open>\<^verbatim>\<open>BaseRouter\<close> is the patterns it already has; \<open>None\<close> is \<^verbatim>\<open>nil\<close>.\<close>

record ('w, 'x) std_options =
  so_BaseURL :: string
  so_BaseRouter :: "('w, 'x) mux option"
  so_Middlewares :: "('w, 'x) middleware list"
  so_ErrorHandlerFunc :: "(served_request \<Rightarrow> param_error \<Rightarrow> 'w \<Rightarrow> 'x) option"

definition zero_options :: "('w, 'x) std_options" where
  "zero_options = \<lparr>so_BaseURL = [], so_BaseRouter = None, so_Middlewares = [], so_ErrorHandlerFunc = None\<rparr>"

definition default_error_handler ::
    "(http_response \<Rightarrow> 'w \<Rightarrow> 'x) \<Rightarrow> served_request \<Rightarrow> param_error \<Rightarrow> 'w \<Rightarrow> 'x" where
  "default_error_handler write r err w = write (http_error (param_error_text err) 400) w"

definition wrapper_of ::
    "(http_response \<Rightarrow> 'w \<Rightarrow> 'x) \<Rightarrow> 'si \<Rightarrow> ('w, 'x) std_options \<Rightarrow> ('si, 'w, 'x) wrapper" where
  "wrapper_of write si options =
     \<lparr>siw_Handler = si, siw_HandlerMiddlewares = so_Middlewares options,
      siw_ErrorHandlerFunc = (case so_ErrorHandlerFunc options of
        Some f \<Rightarrow> f | None \<Rightarrow> default_error_handler write)\<rparr>"

definition base_router :: "('w, 'x) std_options \<Rightarrow> ('w, 'x) mux" where
  "base_router options = (case so_BaseRouter options of Some m \<Rightarrow> m | None \<Rightarrow> [])"

lemma wrapper_of_zero [simp]:
  "siw_Handler (wrapper_of write si o') = si"
  "siw_HandlerMiddlewares (wrapper_of write si o') = so_Middlewares o'"
  "so_ErrorHandlerFunc o' = None \<Longrightarrow> siw_ErrorHandlerFunc (wrapper_of write si o') = default_error_handler write"
  by (simp_all add: wrapper_of_def)

lemma arriving_sel [simp]:
  "rq_method (arriving r) = rq_method r" "rq_path (arriving r) = rq_path r" "rq_query (arriving r) = rq_query r"
  "rq_authorization (arriving r) = rq_authorization r" "rq_body (arriving r) = rq_body r"
  "sq_path_values (arriving r) = []" "sq_scopes (arriving r) = None"
  "http_request.truncate (arriving r) = r"
  by (simp_all add: arriving_def http_request.defs)

lemma truncate_served [simp]:
  "http_request.truncate (r\<lparr>sq_path_values := vs\<rparr>) = http_request.truncate (r :: served_request)"
  "http_request.truncate (with_scopes r) = http_request.truncate r"
  "rq_query (with_scopes r) = rq_query r" "sq_path_values (with_scopes r) = sq_path_values r"
  by (simp_all add: http_request.defs with_scopes_def)

end
