(* ===== verification/ApiGen.thy ===== *)
theory ApiGen
  imports GenServer ApiServer
begin

text \<open>
  The server part of \<^verbatim>\<open>apps/cc-tunnel/internal/api/gen.go\<close>: the interface of the handlers, the wrapper
  that binds the parameters of each operation and runs the middlewares, and the routes.
  \<open>api_server_interface\<close> is the program's own \<^verbatim>\<open>Handler\<close> behind that interface.
\<close>

record ('w, 'x) server_interface =
  si_AppAuthLogin :: "('w, 'x) http_handler"
  si_AppAuthLogout :: "('w, 'x) http_handler"
  si_AppAuthGetMe :: "('w, 'x) http_handler"
  si_AppAuthUpdateMe :: "('w, 'x) http_handler"
  si_CancelLogin :: "string \<Rightarrow> ('w, 'x) http_handler"
  si_InitiateLogin :: "('w, 'x) http_handler"
  si_Logout :: "string \<Rightarrow> ('w, 'x) http_handler"
  si_SubmitAuthPtyInput :: "('w, 'x) http_handler"
  si_GetAuthPtyStream :: "string \<Rightarrow> ('w, 'x) http_handler"
  si_GetAuthStatus :: "string \<Rightarrow> ('w, 'x) http_handler"
  si_ListConversations :: "('w, 'x) http_handler"
  si_CreateConversation :: "('w, 'x) http_handler"
  si_DeleteConversation :: "string \<Rightarrow> ('w, 'x) http_handler"
  si_GetConversation :: "string \<Rightarrow> ('w, 'x) http_handler"
  si_SendMessage :: "string \<Rightarrow> ('w, 'x) http_handler"
  si_PostReloginFinalize :: "('w, 'x) http_handler"
  si_PostReloginStart :: "('w, 'x) http_handler"
  si_GetCredentialsStatus :: "('w, 'x) http_handler"

type_synonym ('w, 'x) api_wrapper = "(('w, 'x) server_interface, 'w, 'x) wrapper"

section \<open>The wrapper\<close>

text \<open>The one parameter any operation has is \<^verbatim>\<open>conversationId\<close>, in the query or in the path.  The operations
  that the API description puts behind the bearer token carry its (empty) scopes in their context.\<close>

definition siw_AppAuthLogin :: "('w, 'x) api_wrapper \<Rightarrow> ('w, 'x) http_handler" where
  "siw_AppAuthLogin siw r = with_middlewares (siw_HandlerMiddlewares siw) (si_AppAuthLogin (siw_Handler siw)) r"

definition siw_AppAuthLogout :: "('w, 'x) api_wrapper \<Rightarrow> ('w, 'x) http_handler" where
  "siw_AppAuthLogout siw r = with_middlewares (siw_HandlerMiddlewares siw) (si_AppAuthLogout (siw_Handler siw)) (with_scopes r)"

definition siw_AppAuthGetMe :: "('w, 'x) api_wrapper \<Rightarrow> ('w, 'x) http_handler" where
  "siw_AppAuthGetMe siw r = with_middlewares (siw_HandlerMiddlewares siw) (si_AppAuthGetMe (siw_Handler siw)) (with_scopes r)"

definition siw_AppAuthUpdateMe :: "('w, 'x) api_wrapper \<Rightarrow> ('w, 'x) http_handler" where
  "siw_AppAuthUpdateMe siw r = with_middlewares (siw_HandlerMiddlewares siw) (si_AppAuthUpdateMe (siw_Handler siw)) (with_scopes r)"

definition siw_CancelLogin :: "param_binder \<Rightarrow> ('w, 'x) api_wrapper \<Rightarrow> ('w, 'x) http_handler" where
  "siw_CancelLogin bd siw = required_query bd siw ''conversationId'' (\<lambda>conversationId r.
     with_middlewares (siw_HandlerMiddlewares siw) (si_CancelLogin (siw_Handler siw) conversationId) r)"

definition siw_InitiateLogin :: "('w, 'x) api_wrapper \<Rightarrow> ('w, 'x) http_handler" where
  "siw_InitiateLogin siw r = with_middlewares (siw_HandlerMiddlewares siw) (si_InitiateLogin (siw_Handler siw)) r"

definition siw_Logout :: "param_binder \<Rightarrow> ('w, 'x) api_wrapper \<Rightarrow> ('w, 'x) http_handler" where
  "siw_Logout bd siw = required_query bd siw ''conversationId'' (\<lambda>conversationId r.
     with_middlewares (siw_HandlerMiddlewares siw) (si_Logout (siw_Handler siw) conversationId) r)"

definition siw_SubmitAuthPtyInput :: "('w, 'x) api_wrapper \<Rightarrow> ('w, 'x) http_handler" where
  "siw_SubmitAuthPtyInput siw r = with_middlewares (siw_HandlerMiddlewares siw) (si_SubmitAuthPtyInput (siw_Handler siw)) r"

definition siw_GetAuthPtyStream :: "param_binder \<Rightarrow> ('w, 'x) api_wrapper \<Rightarrow> ('w, 'x) http_handler" where
  "siw_GetAuthPtyStream bd siw = required_query bd siw ''conversationId'' (\<lambda>conversationId r.
     with_middlewares (siw_HandlerMiddlewares siw) (si_GetAuthPtyStream (siw_Handler siw) conversationId) r)"

definition siw_GetAuthStatus :: "param_binder \<Rightarrow> ('w, 'x) api_wrapper \<Rightarrow> ('w, 'x) http_handler" where
  "siw_GetAuthStatus bd siw = required_query bd siw ''conversationId'' (\<lambda>conversationId r.
     with_middlewares (siw_HandlerMiddlewares siw) (si_GetAuthStatus (siw_Handler siw) conversationId) r)"

definition siw_ListConversations :: "('w, 'x) api_wrapper \<Rightarrow> ('w, 'x) http_handler" where
  "siw_ListConversations siw r = with_middlewares (siw_HandlerMiddlewares siw) (si_ListConversations (siw_Handler siw)) (with_scopes r)"

definition siw_CreateConversation :: "('w, 'x) api_wrapper \<Rightarrow> ('w, 'x) http_handler" where
  "siw_CreateConversation siw r = with_middlewares (siw_HandlerMiddlewares siw) (si_CreateConversation (siw_Handler siw)) (with_scopes r)"

definition siw_DeleteConversation :: "param_binder \<Rightarrow> ('w, 'x) api_wrapper \<Rightarrow> ('w, 'x) http_handler" where
  "siw_DeleteConversation bd siw = path_param bd siw ''conversationId'' (\<lambda>conversationId r.
     with_middlewares (siw_HandlerMiddlewares siw) (si_DeleteConversation (siw_Handler siw) conversationId) (with_scopes r))"

definition siw_GetConversation :: "param_binder \<Rightarrow> ('w, 'x) api_wrapper \<Rightarrow> ('w, 'x) http_handler" where
  "siw_GetConversation bd siw = path_param bd siw ''conversationId'' (\<lambda>conversationId r.
     with_middlewares (siw_HandlerMiddlewares siw) (si_GetConversation (siw_Handler siw) conversationId) (with_scopes r))"

definition siw_SendMessage :: "param_binder \<Rightarrow> ('w, 'x) api_wrapper \<Rightarrow> ('w, 'x) http_handler" where
  "siw_SendMessage bd siw = path_param bd siw ''conversationId'' (\<lambda>conversationId r.
     with_middlewares (siw_HandlerMiddlewares siw) (si_SendMessage (siw_Handler siw) conversationId) r)"

definition siw_PostReloginFinalize :: "('w, 'x) api_wrapper \<Rightarrow> ('w, 'x) http_handler" where
  "siw_PostReloginFinalize siw r = with_middlewares (siw_HandlerMiddlewares siw) (si_PostReloginFinalize (siw_Handler siw)) (with_scopes r)"

definition siw_PostReloginStart :: "('w, 'x) api_wrapper \<Rightarrow> ('w, 'x) http_handler" where
  "siw_PostReloginStart siw r = with_middlewares (siw_HandlerMiddlewares siw) (si_PostReloginStart (siw_Handler siw)) (with_scopes r)"

definition siw_GetCredentialsStatus :: "('w, 'x) api_wrapper \<Rightarrow> ('w, 'x) http_handler" where
  "siw_GetCredentialsStatus siw r = with_middlewares (siw_HandlerMiddlewares siw) (si_GetCredentialsStatus (siw_Handler siw)) (with_scopes r)"

section \<open>The routes\<close>

definition api_routes ::
    "param_binder \<Rightarrow> string \<Rightarrow> ('w, 'x) api_wrapper \<Rightarrow> ('w, 'x) mux" where
  "api_routes bd baseURL siw =
    [(''POST'' @ '' '' @ baseURL @ ''/app-auth/login'', siw_AppAuthLogin siw),
     (''POST'' @ '' '' @ baseURL @ ''/app-auth/logout'', siw_AppAuthLogout siw),
     (''GET'' @ '' '' @ baseURL @ ''/app-auth/me'', siw_AppAuthGetMe siw),
     (''PATCH'' @ '' '' @ baseURL @ ''/app-auth/me'', siw_AppAuthUpdateMe siw),
     (''POST'' @ '' '' @ baseURL @ ''/auth/cancel'', siw_CancelLogin bd siw),
     (''POST'' @ '' '' @ baseURL @ ''/auth/login'', siw_InitiateLogin siw),
     (''POST'' @ '' '' @ baseURL @ ''/auth/logout'', siw_Logout bd siw),
     (''POST'' @ '' '' @ baseURL @ ''/auth/pty/input'', siw_SubmitAuthPtyInput siw),
     (''GET'' @ '' '' @ baseURL @ ''/auth/pty/stream'', siw_GetAuthPtyStream bd siw),
     (''GET'' @ '' '' @ baseURL @ ''/auth/status'', siw_GetAuthStatus bd siw),
     (''GET'' @ '' '' @ baseURL @ ''/conversations'', siw_ListConversations siw),
     (''POST'' @ '' '' @ baseURL @ ''/conversations'', siw_CreateConversation siw),
     (''DELETE'' @ '' '' @ baseURL @ ''/conversations/{conversationId}'', siw_DeleteConversation bd siw),
     (''GET'' @ '' '' @ baseURL @ ''/conversations/{conversationId}'', siw_GetConversation bd siw),
     (''POST'' @ '' '' @ baseURL @ ''/conversations/{conversationId}/messages'', siw_SendMessage bd siw),
     (''POST'' @ '' '' @ baseURL @ ''/credentials/relogin/finalize'', siw_PostReloginFinalize siw),
     (''POST'' @ '' '' @ baseURL @ ''/credentials/relogin/start'', siw_PostReloginStart siw),
     (''GET'' @ '' '' @ baseURL @ ''/credentials/status'', siw_GetCredentialsStatus siw)]"

text \<open>\<^verbatim>\<open>HandlerWithOptions\<close> registers its patterns on the mux it is given and returns that mux: \<open>register_api\<close>
  is the mux afterwards.\<close>

definition register_api ::
    "param_binder \<Rightarrow> (http_response \<Rightarrow> 'w \<Rightarrow> 'x) \<Rightarrow> ('w, 'x) server_interface \<Rightarrow> ('w, 'x) std_options \<Rightarrow>
     ('w, 'x) mux" where
  "register_api bd write si options =
     fold (\<lambda>(pat, handler) m. HandleFunc m pat handler)
       (api_routes bd (so_BaseURL options) (wrapper_of write si options)) (base_router options)"

definition HandlerWithOptions ::
    "param_binder \<Rightarrow> (http_response \<Rightarrow> 'w \<Rightarrow> 'x) \<Rightarrow> ('w, 'x) server_interface \<Rightarrow> ('w, 'x) std_options \<Rightarrow>
     ('w, 'x) http_handler" where
  "HandlerWithOptions bd write si options = mux_ServeHTTP write (register_api bd write si options)"

definition HandlerFromMux ::
    "param_binder \<Rightarrow> (http_response \<Rightarrow> 'w \<Rightarrow> 'x) \<Rightarrow> ('w, 'x) server_interface \<Rightarrow> ('w, 'x) mux \<Rightarrow> ('w, 'x) http_handler" where
  "HandlerFromMux bd write si m = HandlerWithOptions bd write si (zero_options\<lparr>so_BaseRouter := Some m\<rparr>)"

definition HandlerFromMuxWithBaseURL ::
    "param_binder \<Rightarrow> (http_response \<Rightarrow> 'w \<Rightarrow> 'x) \<Rightarrow> ('w, 'x) server_interface \<Rightarrow> ('w, 'x) mux \<Rightarrow> string \<Rightarrow>
     ('w, 'x) http_handler" where
  "HandlerFromMuxWithBaseURL bd write si m baseURL =
     HandlerWithOptions bd write si (zero_options\<lparr>so_BaseURL := baseURL, so_BaseRouter := Some m\<rparr>)"

definition api_Handler ::
    "param_binder \<Rightarrow> (http_response \<Rightarrow> 'w \<Rightarrow> 'x) \<Rightarrow> ('w, 'x) server_interface \<Rightarrow> ('w, 'x) http_handler" where
  "api_Handler bd write si = HandlerWithOptions bd write si zero_options"

section \<open>The program's handlers\<close>

type_synonym 'w api_outcome = "((http_response \<times> goroutine option) \<times> 'w) option"

definition api_write :: "http_response \<Rightarrow> 'w \<Rightarrow> 'w api_outcome" where
  "api_write resp w = plain (resp, w)"

definition api_server_interface ::
    "('z api_state_scheme) server \<Rightarrow> ('z api_state_scheme, ('z api_state_scheme) api_outcome) server_interface" where
  "api_server_interface h =
     (let req = http_request.truncate in
      \<lparr>si_AppAuthLogin = (\<lambda>r w. plain (AppAuthLogin h (req r) w)),
       si_AppAuthLogout = (\<lambda>r w. plain (AppAuthLogout (req r) w)),
       si_AppAuthGetMe = (\<lambda>r w. plain (AppAuthGetMe (req r) w)),
       si_AppAuthUpdateMe = (\<lambda>r w. plain (AppAuthUpdateMe (req r) w)),
       si_CancelLogin = (\<lambda>c r w. plain (Server_CancelLogin h c w)),
       si_InitiateLogin = (\<lambda>r w. plain (Server_InitiateLogin h (req r) w)),
       si_Logout = (\<lambda>c r w. plain (Server_Logout h c w)),
       si_SubmitAuthPtyInput = (\<lambda>r w. plain (Server_SubmitAuthPtyInput h (req r) w)),
       si_GetAuthPtyStream = (\<lambda>c r w. plain (Server_GetAuthPtyStream h c w)),
       si_GetAuthStatus = (\<lambda>c r w. plain (Server_GetAuthStatus h c w)),
       si_ListConversations = (\<lambda>r w. plain (Server_ListConversations h (req r) w)),
       si_CreateConversation = (\<lambda>r w. plain (Server_CreateConversation h (req r) w)),
       si_DeleteConversation = (\<lambda>c r w. plain (Server_DeleteConversation h (req r) c w)),
       si_GetConversation = (\<lambda>c r w. plain (Server_GetConversation h (req r) c w)),
       si_SendMessage = (\<lambda>c r w. Some (SendMessage h (req r) c w)),
       si_PostReloginFinalize = (\<lambda>r w. plain (PostReloginFinalize h (req r) w)),
       si_PostReloginStart = (\<lambda>r w. (case PostReloginStart h (req r) w of None \<Rightarrow> None | Some rw \<Rightarrow> plain rw)),
       si_GetCredentialsStatus = (\<lambda>r w. plain (GetCredentialsStatus h (req r) w))\<rparr>)"

text \<open>
  What the program relies on of \<^verbatim>\<open>oapi-codegen/runtime\<close> when a UUID is bound: a query parameter has to
  be given exactly once, the value is parsed as a UUID, and anything else is an error, of whatever
  text.
\<close>

definition binds_uuid :: "'w server \<Rightarrow> param_binder \<Rightarrow> bool" where
  "binds_uuid h bd \<longleftrightarrow>
     (\<forall>name q. case query_values q name of
        [v] \<Rightarrow> (case sv_parse_uuid h v of None \<Rightarrow> is_err (bd_query bd name q) | Some u \<Rightarrow> bd_query bd name q = Inr u)
      | _ \<Rightarrow> is_err (bd_query bd name q)) \<and>
     (\<forall>name v. case sv_parse_uuid h v of None \<Rightarrow> is_err (bd_path bd name v) | Some u \<Rightarrow> bd_path bd name v = Inr u)"

end
