(* ===== verification/ApiGen_Props.thy ===== *)
theory ApiGen_Props
  imports ApiGen ApiServer_Props
begin

text \<open>
  The generated server of cc-tunnel is the flat server \<open>api_http\<close>: the wrapper, its parameter binding
  and the patterns of the mux come to the same decisions.
\<close>

section \<open>Matching\<close>

lemma match_literal:
  "\<forall>p \<in> set ps. wildcard p = None \<Longrightarrow> match_path ps segs = (if segs = ps then Some [] else None)"
  by (induction ps segs rule: match_path.induct) auto

lemma match_two:
  "wildcard a = None \<Longrightarrow> wildcard b = Some name \<Longrightarrow> match_path [a, b] segs =
    (if length segs = 2 \<and> segs ! 0 = a \<and> segs ! 1 \<noteq> [] then Some [(name, segs ! 1)] else None)"
  by (cases segs; cases "tl segs"; cases "tl (tl segs)") auto

lemma match_three:
  "wildcard a = None \<Longrightarrow> wildcard b = Some name \<Longrightarrow> wildcard c = None \<Longrightarrow> match_path [a, b, c] segs =
    (if length segs = 3 \<and> segs ! 0 = a \<and> segs ! 1 \<noteq> [] \<and> segs ! 2 = c then Some [(name, segs ! 1)] else None)"
  by (cases segs; cases "tl segs"; cases "tl (tl segs)"; cases "tl (tl (tl segs))") auto

lemma fold_HandleFunc: "fold (\<lambda>(pat, handler) m. HandleFunc m pat handler) xs m = m @ xs"
  by (induction xs arbitrary: m) (auto simp: HandleFunc_def)

lemma pattern_methods:
  "pattern_method ''POST /app-auth/login'' = ''POST''"
  "pattern_method ''POST /app-auth/logout'' = ''POST''"
  "pattern_method ''GET /app-auth/me'' = ''GET''"
  "pattern_method ''PATCH /app-auth/me'' = ''PATCH''"
  "pattern_method ''POST /auth/cancel'' = ''POST''"
  "pattern_method ''POST /auth/login'' = ''POST''"
  "pattern_method ''POST /auth/logout'' = ''POST''"
  "pattern_method ''POST /auth/pty/input'' = ''POST''"
  "pattern_method ''GET /auth/pty/stream'' = ''GET''"
  "pattern_method ''GET /auth/status'' = ''GET''"
  "pattern_method ''GET /conversations'' = ''GET''"
  "pattern_method ''POST /conversations'' = ''POST''"
  "pattern_method ''DELETE /conversations/{conversationId}'' = ''DELETE''"
  "pattern_method ''GET /conversations/{conversationId}'' = ''GET''"
  "pattern_method ''POST /conversations/{conversationId}/messages'' = ''POST''"
  "pattern_method ''POST /credentials/relogin/finalize'' = ''POST''"
  "pattern_method ''POST /credentials/relogin/start'' = ''POST''"
  "pattern_method ''GET /credentials/status'' = ''GET''"
  by code_simp+

lemma pattern_paths:
  "pattern_path ''POST /app-auth/login'' = [''app-auth'', ''login'']"
  "pattern_path ''POST /app-auth/logout'' = [''app-auth'', ''logout'']"
  "pattern_path ''GET /app-auth/me'' = [''app-auth'', ''me'']"
  "pattern_path ''PATCH /app-auth/me'' = [''app-auth'', ''me'']"
  "pattern_path ''POST /auth/cancel'' = [''auth'', ''cancel'']"
  "pattern_path ''POST /auth/login'' = [''auth'', ''login'']"
  "pattern_path ''POST /auth/logout'' = [''auth'', ''logout'']"
  "pattern_path ''POST /auth/pty/input'' = [''auth'', ''pty'', ''input'']"
  "pattern_path ''GET /auth/pty/stream'' = [''auth'', ''pty'', ''stream'']"
  "pattern_path ''GET /auth/status'' = [''auth'', ''status'']"
  "pattern_path ''GET /conversations'' = [''conversations'']"
  "pattern_path ''POST /conversations'' = [''conversations'']"
  "pattern_path ''DELETE /conversations/{conversationId}'' = [''conversations'', ''{conversationId}'']"
  "pattern_path ''GET /conversations/{conversationId}'' = [''conversations'', ''{conversationId}'']"
  "pattern_path ''POST /conversations/{conversationId}/messages'' = [''conversations'', ''{conversationId}'', ''messages'']"
  "pattern_path ''POST /credentials/relogin/finalize'' = [''credentials'', ''relogin'', ''finalize'']"
  "pattern_path ''POST /credentials/relogin/start'' = [''credentials'', ''relogin'', ''start'']"
  "pattern_path ''GET /credentials/status'' = [''credentials'', ''status'']"
  by code_simp+

lemma wildcards:
  "wildcard ''app-auth'' = None"
  "wildcard ''auth'' = None"
  "wildcard ''cancel'' = None"
  "wildcard ''conversations'' = None"
  "wildcard ''credentials'' = None"
  "wildcard ''finalize'' = None"
  "wildcard ''input'' = None"
  "wildcard ''login'' = None"
  "wildcard ''logout'' = None"
  "wildcard ''me'' = None"
  "wildcard ''messages'' = None"
  "wildcard ''pty'' = None"
  "wildcard ''relogin'' = None"
  "wildcard ''start'' = None"
  "wildcard ''status'' = None"
  "wildcard ''stream'' = None"
  "wildcard ''{conversationId}'' = Some ''conversationId''"
  by code_simp+

section \<open>The wrapper on the program's handlers\<close>

abbreviation "api_siw h \<equiv> wrapper_of api_write (api_server_interface h) zero_options"

lemmas siw_defs = siw_AppAuthLogin_def siw_AppAuthLogout_def siw_AppAuthGetMe_def siw_AppAuthUpdateMe_def
  siw_CancelLogin_def siw_InitiateLogin_def siw_Logout_def siw_SubmitAuthPtyInput_def siw_GetAuthPtyStream_def
  siw_GetAuthStatus_def siw_ListConversations_def siw_CreateConversation_def siw_DeleteConversation_def
  siw_GetConversation_def siw_SendMessage_def siw_PostReloginFinalize_def siw_PostReloginStart_def
  siw_GetCredentialsStatus_def

lemma zero_options_sel [simp]:
  "so_Middlewares zero_options = []" "so_BaseURL zero_options = []" "so_BaseRouter zero_options = None"
  "so_ErrorHandlerFunc zero_options = None"
  by (simp_all add: zero_options_def)

lemma refusals:
  "default_error_handler api_write r (RequiredParamError name) w = plain (required_param name, w)"
  "default_error_handler api_write r (InvalidParamFormatError name (ErrText [])) w = plain (invalid_param name, w)"
  by (simp_all add: default_error_handler_def api_write_def required_param_def invalid_param_def)

lemma siw_plain_operations:
  "siw_AppAuthLogin (api_siw h) r w = plain (AppAuthLogin h (http_request.truncate r) w)"
  "siw_AppAuthLogout (api_siw h) r w = plain (AppAuthLogout (http_request.truncate r) w)"
  "siw_AppAuthGetMe (api_siw h) r w = plain (AppAuthGetMe (http_request.truncate r) w)"
  "siw_AppAuthUpdateMe (api_siw h) r w = plain (AppAuthUpdateMe (http_request.truncate r) w)"
  "siw_InitiateLogin (api_siw h) r w = plain (Server_InitiateLogin h (http_request.truncate r) w)"
  "siw_SubmitAuthPtyInput (api_siw h) r w = plain (Server_SubmitAuthPtyInput h (http_request.truncate r) w)"
  "siw_ListConversations (api_siw h) r w = plain (Server_ListConversations h (http_request.truncate r) w)"
  "siw_CreateConversation (api_siw h) r w = plain (Server_CreateConversation h (http_request.truncate r) w)"
  "siw_PostReloginFinalize (api_siw h) r w = plain (PostReloginFinalize h (http_request.truncate r) w)"
  "siw_PostReloginStart (api_siw h) r w =
     (case PostReloginStart h (http_request.truncate r) w of None \<Rightarrow> None | Some rw \<Rightarrow> plain rw)"
  "siw_GetCredentialsStatus (api_siw h) r w = plain (GetCredentialsStatus h (http_request.truncate r) w)"
  by (simp_all add: siw_defs api_server_interface_def Let_def)

lemma query_get_truncate [simp]: "query_get (http_request.truncate r) k = query_value r k"
  by (simp add: query_get_def query_value_def http_request.defs)

lemma query_get_first: "query_get r k = (case query_values (rq_query r) k of [] \<Rightarrow> [] | v # vs \<Rightarrow> v)"
proof -
  have "(case map_of q k of Some v \<Rightarrow> v | None \<Rightarrow> []) = (case query_values q k of [] \<Rightarrow> [] | v # vs \<Rightarrow> v)" for q
    by (induction q) (auto simp: query_values_def)
  then show ?thesis by (simp add: query_get_def)
qed

lemma query_truncate [simp]: "rq_query (http_request.truncate r) = rq_query r"
  by (simp add: http_request.defs)

lemma query_value_first: "query_value r k = (case query_values (rq_query r) k of [] \<Rightarrow> [] | v # vs \<Rightarrow> v)"
proof -
  have "query_get (http_request.truncate r) k =
      (case query_values (rq_query (http_request.truncate r)) k of [] \<Rightarrow> [] | v # vs \<Rightarrow> v)"
    by (rule query_get_first)
  then show ?thesis by (simp only: query_get_truncate query_truncate)
qed

text \<open>A binder with the texts of the flat server; every other one agrees with it up to the texts of its errors.\<close>

definition uuid_binder :: "'w server \<Rightarrow> param_binder" where
  "uuid_binder h =
     (let parse = (\<lambda>s. case sv_parse_uuid h s of None \<Rightarrow> Inl (ErrText []) | Some u \<Rightarrow> Inr u) in
      \<lparr>bd_query = (\<lambda>name q. case query_values q name of [v] \<Rightarrow> parse v | _ \<Rightarrow> Inl (ErrText [])),
       bd_path = (\<lambda>name v. parse v)\<rparr>)"

lemma uuid_binder_binds: "binds_uuid h (uuid_binder h)"
  by (simp add: binds_uuid_def uuid_binder_def Let_def split: option.split list.split)

lemma siw_query_operations:
  "siw_CancelLogin (uuid_binder h) (api_siw h) r w =
     plain (with_query_conversation h (http_request.truncate r) (Server_CancelLogin h) w)"
  "siw_Logout (uuid_binder h) (api_siw h) r w =
     plain (with_query_conversation h (http_request.truncate r) (Server_Logout h) w)"
  "siw_GetAuthPtyStream (uuid_binder h) (api_siw h) r w =
     plain (with_query_conversation h (http_request.truncate r) (Server_GetAuthPtyStream h) w)"
  "siw_GetAuthStatus (uuid_binder h) (api_siw h) r w =
     plain (with_query_conversation h (http_request.truncate r) (Server_GetAuthStatus h) w)"
  by (simp_all add: siw_defs required_query_def with_query_conversation_def uuid_binder_def Let_def refusals
      query_value_first query_get_first api_server_interface_def split: option.split list.split)

lemma siw_path_operations:
  "siw_DeleteConversation (uuid_binder h) (api_siw h) r w =
     plain (with_path_conversation h (path_value r ''conversationId'')
       (Server_DeleteConversation h (http_request.truncate r)) id w)"
  "siw_GetConversation (uuid_binder h) (api_siw h) r w =
     plain (with_path_conversation h (path_value r ''conversationId'')
       (Server_GetConversation h (http_request.truncate r)) id w)"
  "siw_SendMessage (uuid_binder h) (api_siw h) r w =
     Some (with_path_conversation h (path_value r ''conversationId'')
       (SendMessage h (http_request.truncate r)) (\<lambda>resp. (resp, None)) w)"
  by (simp_all add: siw_defs path_param_def with_path_conversation_def uuid_binder_def Let_def refusals
      api_server_interface_def plain_def split: option.split)

lemmas siw_operations = siw_plain_operations siw_query_operations siw_path_operations

definition literal_paths :: "string list list" where
  "literal_paths = [[''app-auth'', ''login''],
     [''app-auth'', ''logout''],
     [''app-auth'', ''me''],
     [''auth'', ''cancel''],
     [''auth'', ''login''],
     [''auth'', ''logout''],
     [''auth'', ''pty'', ''input''],
     [''auth'', ''pty'', ''stream''],
     [''auth'', ''status''],
     [''conversations''],
     [''credentials'', ''relogin'', ''finalize''],
     [''credentials'', ''relogin'', ''start''],
     [''credentials'', ''status'']]"

lemmas route_simps = pattern_methods pattern_paths match_literal match_two match_three wildcards

lemma method_matches_simps:
  "method_matches ''POST'' m = (m = ''POST'')" "method_matches ''PATCH'' m = (m = ''PATCH'')"
  "method_matches ''DELETE'' m = (m = ''DELETE'')" "method_matches ''GET'' m = (m = ''GET'' \<or> m = ''HEAD'')"
  by (auto simp: method_matches_def)

lemma api_routes_plain:
  "api_Handler bd write si r w =
     (if clean_path (rq_path r) then serve_matches write (api_routes bd [] (wrapper_of write si zero_options)) False r w
      else write (status_response 301) w)"
  by (simp add: api_Handler_def HandlerWithOptions_def register_api_def fold_HandleFunc base_router_def mux_serve_def
      mux_ServeHTTP_def)

lemma generated_literal:
  assumes "rq_path r \<in> set literal_paths"
  shows "serve_matches api_write (api_routes (uuid_binder h) [] (api_siw h)) False (arriving r) w = api_http h r w"
proof -
  have not_found: "api_write resp w = plain (resp, w)" for resp by (simp add: api_write_def)
  from assms consider "rq_path r = [''app-auth'', ''login'']"
    | "rq_path r = [''app-auth'', ''logout'']"
    | "rq_path r = [''app-auth'', ''me'']"
    | "rq_path r = [''auth'', ''cancel'']"
    | "rq_path r = [''auth'', ''login'']"
    | "rq_path r = [''auth'', ''logout'']"
    | "rq_path r = [''auth'', ''pty'', ''input'']"
    | "rq_path r = [''auth'', ''pty'', ''stream'']"
    | "rq_path r = [''auth'', ''status'']"
    | "rq_path r = [''conversations'']"
    | "rq_path r = [''credentials'', ''relogin'', ''finalize'']"
    | "rq_path r = [''credentials'', ''relogin'', ''start'']"
    | "rq_path r = [''credentials'', ''status'']"
    by (auto simp: literal_paths_def)
  then show ?thesis
    by cases (simp_all add: api_routes_def api_http_def Let_def route_simps siw_operations
        method_matches_simps not_found)
qed

lemma generated_wild:
  assumes "rq_path r \<notin> set literal_paths"
  shows "serve_matches api_write (api_routes (uuid_binder h) [] (api_siw h)) False (arriving r) w = api_http h r w"
proof -
  have other: "rq_path r \<noteq> p" if "p \<in> set literal_paths" for p using assms that by blast
  have wr: "api_write resp w = plain (resp, w)" for resp by (simp add: api_write_def)
  have conv: "path_value (arriving r\<lparr>sq_path_values := [(''conversationId'', v)]\<rparr>) ''conversationId'' = v" for v
    by (simp add: path_value_def)
  show ?thesis
    using other unfolding literal_paths_def
    by (simp add: api_routes_def api_http_def Let_def route_simps siw_operations
        method_matches_simps wr conv)
qed

lemma api_routes_flat:
  "serve_matches api_write (api_routes (uuid_binder h) [] (api_siw h)) False (arriving r) w = api_http h r w"
  using generated_literal generated_wild by blast

section \<open>The text of a refusal\<close>

text \<open>Two outcomes are alike when they are equal but for what a refusal of a parameter says after the
  colon.\<close>

definition alike :: "'w api_outcome \<Rightarrow> 'w api_outcome \<Rightarrow> bool" where
  "alike x y \<longleftrightarrow> x = y \<or>
     (\<exists>name e w. x = plain (http_error (''Invalid format for parameter '' @ name @ '': '' @ e) 400, w) \<and>
        y = plain (invalid_param name, w))"

lemma alike_refl [simp]: "alike x x"
  by (simp add: alike_def)

lemma refusal_alike:
  "alike (default_error_handler api_write r (InvalidParamFormatError name err) w)
     (default_error_handler api_write r (InvalidParamFormatError name (ErrText [])) w)"
proof -
  have "default_error_handler api_write r (InvalidParamFormatError name err) w =
      plain (http_error (''Invalid format for parameter '' @ name @ '': '' @ error_string err) 400, w)"
    by (simp add: default_error_handler_def api_write_def)
  then show ?thesis unfolding refusals(2) alike_def by blast
qed

lemma bind_query_alike:
  assumes "binds_uuid h bd"
  shows "alike (required_query bd (api_siw h) name k r w) (required_query (uuid_binder h) (api_siw h) name k r w)"
proof -
  have "bd_query bd name (rq_query r) = bd_query (uuid_binder h) name (rq_query r) \<or>
      is_err (bd_query bd name (rq_query r)) \<and> bd_query (uuid_binder h) name (rq_query r) = Inl (ErrText [])"
    using assms [unfolded binds_uuid_def, THEN conjunct1, rule_format, of name "rq_query r"]
    by (auto simp: uuid_binder_def Let_def split: list.splits option.splits)
  then show ?thesis
    using refusal_alike by (auto simp: required_query_def elim!: is_errE)
qed

lemma bind_path_alike:
  assumes "binds_uuid h bd"
  shows "alike (path_param bd (api_siw h) name k r w) (path_param (uuid_binder h) (api_siw h) name k r w)"
proof -
  have "bd_path bd name v = bd_path (uuid_binder h) name v \<or>
      is_err (bd_path bd name v) \<and> bd_path (uuid_binder h) name v = Inl (ErrText [])" for v
    using assms [unfolded binds_uuid_def, THEN conjunct2, rule_format, of name v]
    by (auto simp: uuid_binder_def Let_def split: option.splits)
  from this [of "path_value r name"] show ?thesis
    using refusal_alike by (auto simp: path_param_def elim!: is_errE)
qed

lemma serve_alike:
  "list_all2 (\<lambda>(p, f) (p', f'). p = p' \<and> (\<forall>r w. alike (f r w) (f' r w))) m m' \<Longrightarrow>
    alike (serve_matches api_write m found r w) (serve_matches api_write m' found r w)"
proof (induction m m' arbitrary: found rule: list_all2_induct)
  case (Cons pf m pf' m')
  then show ?case by (cases pf; cases pf') (auto split: option.split)
qed simp

lemma routes_alike:
  assumes "binds_uuid h bd"
  shows "list_all2 (\<lambda>(p, f) (p', f'). p = p' \<and> (\<forall>r w. alike (f r w) (f' r w)))
    (api_routes bd [] (api_siw h)) (api_routes (uuid_binder h) [] (api_siw h))"
  by (simp add: bind_query_alike [OF assms] bind_path_alike [OF assms] api_routes_def siw_CancelLogin_def siw_Logout_def siw_GetAuthPtyStream_def siw_GetAuthStatus_def
      siw_DeleteConversation_def siw_GetConversation_def siw_SendMessage_def)

text \<open>C22: the server the generator wrote - eighteen patterns on the mux, a wrapper per operation that binds
  its parameter and hands the request on - answers every request with a clean path as the flat server
  does on which the other properties are proved: the same handler, the same refusals, the same
  goroutine, up to what the binding library says about a parameter it refuses.  Of that library it
  needs only that a UUID binds when it is given once and parses, and is an error otherwise.  A path
  with dots or an empty inner segment is redirected before any handler sees it.\<close>

theorem generated_server_is_api_http:
  assumes "binds_uuid h bd"
  shows "if clean_path (rq_path r)
    then alike (api_Handler bd api_write (api_server_interface h) (arriving r) w) (api_http h r w)
    else api_Handler bd api_write (api_server_interface h) (arriving r) w = plain (status_response 301, w)"
  using serve_alike [OF routes_alike [OF assms], where found = False and r = "arriving r" and w = w]
  by (simp add: api_routes_plain api_routes_flat api_write_def)

text \<open>A binder with error texts of its own, as the library has them.\<close>

definition wordy_binder :: "'w server \<Rightarrow> param_binder" where
  "wordy_binder h =
     (let parse = (\<lambda>name s. case sv_parse_uuid h s of
        None \<Rightarrow> Inl (ErrText (''error binding '' @ name)) | Some u \<Rightarrow> Inr u) in
      \<lparr>bd_query = (\<lambda>name q. case query_values q name of
         [v] \<Rightarrow> parse name v | _ \<Rightarrow> Inl (ErrText (''multiple values for single value parameter '' @ name))),
       bd_path = parse\<rparr>)"

lemma wordy_binder_binds: "binds_uuid h (wordy_binder h)"
  by (simp add: binds_uuid_def wordy_binder_def Let_def split: option.split list.split)

definition twice_request :: http_request where
  "twice_request = (plain_request ''GET'' [''auth'', ''status''] NoBody)
     \<lparr>rq_query := [(''conversationId'', ''c1''), (''conversationId'', ''c2'')]\<rparr>"

theorem generated_server_is_api_http_witness:
  "alike (api_Handler (wordy_binder server_example) api_write (api_server_interface server_example) (arriving twice_request) api_example)
     (plain (invalid_param ''conversationId'', api_example))"
proof -
  have "clean_path (rq_path twice_request)" by (simp add: twice_request_def plain_request_def clean_path_def)
  moreover have "api_http server_example twice_request api_example = plain (invalid_param ''conversationId'', api_example)"
    by (simp add: api_http_def Let_def twice_request_def plain_request_def with_query_conversation_def query_get_def
        query_values_def)
  ultimately show ?thesis
    using generated_server_is_api_http [OF wordy_binder_binds, where r = twice_request and w = api_example and h = server_example] by simp
qed

end
