(* ===== verification/CmApiGen.thy ===== *)
theory CmApiGen
  imports GenServer ContainerManagerApi
begin

text \<open>
  The server part of \<^verbatim>\<open>apps/container-manager/internal/api/gen.go\<close>: the wrapper and its routes, and the
  strict handlers between the wrapper and the typed operations, with their middlewares and error
  handlers.  The last section puts the program's operations behind them and shows that the whole
  is \<open>container_manager_http\<close>.

  A strict middleware sees requests and responses as \<^verbatim>\<open>interface{}\<close>: the sums \<open>strict_request\<close> and
  \<open>strict_response\<close>, the latter with the nil interface and values of other types (by the name of
  the type).  A type assertion that fails is a panic, the outcome \<open>None\<close>.
\<close>

type_synonym 'w cm_outcome = "(http_response \<times> 'w) option"

definition cm_write :: "http_response \<Rightarrow> 'w \<Rightarrow> 'w cm_outcome" where
  "cm_write resp w = Some (resp, w)"

section \<open>The wrapper\<close>

record ('w, 'x) cm_server_interface =
  csi_GetHealthz :: "('w, 'x) http_handler"
  csi_ListAgents :: "('w, 'x) http_handler"
  csi_CreateAgent :: "('w, 'x) http_handler"
  csi_RemoveAgent :: "string \<Rightarrow> ('w, 'x) http_handler"
  csi_StopAgent :: "string \<Rightarrow> ('w, 'x) http_handler"

type_synonym ('w, 'x) cm_wrapper = "(('w, 'x) cm_server_interface, 'w, 'x) wrapper"

definition csiw_GetHealthz :: "('w, 'x) cm_wrapper \<Rightarrow> ('w, 'x) http_handler" where
  "csiw_GetHealthz siw r = with_middlewares (siw_HandlerMiddlewares siw) (csi_GetHealthz (siw_Handler siw)) r"

definition csiw_ListAgents :: "('w, 'x) cm_wrapper \<Rightarrow> ('w, 'x) http_handler" where
  "csiw_ListAgents siw r = with_middlewares (siw_HandlerMiddlewares siw) (csi_ListAgents (siw_Handler siw)) r"

definition csiw_CreateAgent :: "('w, 'x) cm_wrapper \<Rightarrow> ('w, 'x) http_handler" where
  "csiw_CreateAgent siw r = with_middlewares (siw_HandlerMiddlewares siw) (csi_CreateAgent (siw_Handler siw)) r"

definition csiw_RemoveAgent :: "param_binder \<Rightarrow> ('w, 'x) cm_wrapper \<Rightarrow> ('w, 'x) http_handler" where
  "csiw_RemoveAgent bd siw = path_param bd siw ''name'' (\<lambda>name r.
     with_middlewares (siw_HandlerMiddlewares siw) (csi_RemoveAgent (siw_Handler siw) name) r)"

definition csiw_StopAgent :: "param_binder \<Rightarrow> ('w, 'x) cm_wrapper \<Rightarrow> ('w, 'x) http_handler" where
  "csiw_StopAgent bd siw = path_param bd siw ''name'' (\<lambda>name r.
     with_middlewares (siw_HandlerMiddlewares siw) (csi_StopAgent (siw_Handler siw) name) r)"

definition cm_routes :: "param_binder \<Rightarrow> string \<Rightarrow> ('w, 'x) cm_wrapper \<Rightarrow> ('w, 'x) mux" where
  "cm_routes bd baseURL siw =
    [(''GET'' @ '' '' @ baseURL @ ''/healthz'', csiw_GetHealthz siw),
     (''GET'' @ '' '' @ baseURL @ ''/v1/agents'', csiw_ListAgents siw),
     (''POST'' @ '' '' @ baseURL @ ''/v1/agents'', csiw_CreateAgent siw),
     (''DELETE'' @ '' '' @ baseURL @ ''/v1/agents/{name}'', csiw_RemoveAgent bd siw),
     (''POST'' @ '' '' @ baseURL @ ''/v1/agents/{name}/stop'', csiw_StopAgent bd siw)]"

definition cm_HandlerWithOptions ::
    "param_binder \<Rightarrow> (http_response \<Rightarrow> 'w \<Rightarrow> 'x) \<Rightarrow> ('w, 'x) cm_server_interface \<Rightarrow> ('w, 'x) std_options \<Rightarrow>
     ('w, 'x) http_handler" where
  "cm_HandlerWithOptions bd write si options =
     mux_serve write (fold (\<lambda>(pat, handler) m. HandleFunc m pat handler)
       (cm_routes bd (so_BaseURL options) (wrapper_of write si options)) (base_router options))"

definition cm_HandlerFromMux ::
    "param_binder \<Rightarrow> (http_response \<Rightarrow> 'w \<Rightarrow> 'x) \<Rightarrow> ('w, 'x) cm_server_interface \<Rightarrow> ('w, 'x) mux \<Rightarrow>
     ('w, 'x) http_handler" where
  "cm_HandlerFromMux bd write si m = cm_HandlerWithOptions bd write si (zero_options\<lparr>so_BaseRouter := Some m\<rparr>)"

definition cm_HandlerFromMuxWithBaseURL ::
    "param_binder \<Rightarrow> (http_response \<Rightarrow> 'w \<Rightarrow> 'x) \<Rightarrow> ('w, 'x) cm_server_interface \<Rightarrow> ('w, 'x) mux \<Rightarrow> string \<Rightarrow>
     ('w, 'x) http_handler" where
  "cm_HandlerFromMuxWithBaseURL bd write si m baseURL =
     cm_HandlerWithOptions bd write si (zero_options\<lparr>so_BaseURL := baseURL, so_BaseRouter := Some m\<rparr>)"

definition cm_Handler ::
    "param_binder \<Rightarrow> (http_response \<Rightarrow> 'w \<Rightarrow> 'x) \<Rightarrow> ('w, 'x) cm_server_interface \<Rightarrow> ('w, 'x) http_handler" where
  "cm_Handler bd write si = cm_HandlerWithOptions bd write si zero_options"

section \<open>Strict handlers\<close>

datatype strict_request =
    GetHealthzRequestObject
  | ListAgentsRequestObject
  | CreateAgentRequestObject "create_agent_request option"
  | RemoveAgentRequestObject string
  | StopAgentRequestObject string

datatype strict_response =
    GetHealthzResponseObject get_healthz_response
  | ListAgentsResponseObject list_agents_response
  | CreateAgentResponseObject create_agent_response
  | RemoveAgentResponseObject remove_agent_response
  | StopAgentResponseObject stop_agent_response
  | NilResponse
  | OtherResponse string

primrec response_type_name :: "strict_response \<Rightarrow> string" where
  "response_type_name (GetHealthzResponseObject r) =
     (case r of GetHealthz200 _ \<Rightarrow> ''api.GetHealthz200JSONResponse'' | GetHealthz503 _ \<Rightarrow> ''api.GetHealthz503JSONResponse'')"
| "response_type_name (ListAgentsResponseObject r) =
     (case r of ListAgents200 _ _ \<Rightarrow> ''api.ListAgents200JSONResponse'' | ListAgents500 _ \<Rightarrow> ''api.ListAgents500JSONResponse'')"
| "response_type_name (CreateAgentResponseObject r) =
     (case r of CreateAgent201 _ \<Rightarrow> ''api.CreateAgent201JSONResponse'' | CreateAgent400 _ \<Rightarrow> ''api.CreateAgent400JSONResponse''
      | CreateAgent500 _ \<Rightarrow> ''api.CreateAgent500JSONResponse'')"
| "response_type_name (RemoveAgentResponseObject r) =
     (case r of RemoveAgent204 \<Rightarrow> ''api.RemoveAgent204Response'' | RemoveAgent404 _ \<Rightarrow> ''api.RemoveAgent404JSONResponse''
      | RemoveAgent500 _ \<Rightarrow> ''api.RemoveAgent500JSONResponse'')"
| "response_type_name (StopAgentResponseObject r) =
     (case r of StopAgent204 \<Rightarrow> ''api.StopAgent204Response'' | StopAgent404 _ \<Rightarrow> ''api.StopAgent404JSONResponse''
      | StopAgent500 _ \<Rightarrow> ''api.StopAgent500JSONResponse'')"
| "response_type_name NilResponse = ''<nil>''"
| "response_type_name (OtherResponse name) = name"

text \<open>\<^verbatim>\<open>StrictServerInterface\<close>: the typed operations, each with a response or an error.\<close>

record 'w strict_server =
  ss_GetHealthz :: "('w, get_healthz_response) call"
  ss_ListAgents :: "('w, list_agents_response) call"
  ss_CreateAgent :: "create_agent_request option \<Rightarrow> ('w, create_agent_response) call"
  ss_RemoveAgent :: "string \<Rightarrow> ('w, remove_agent_response) call"
  ss_StopAgent :: "string \<Rightarrow> ('w, stop_agent_response) call"

type_synonym 'w strict_handler_func =
  "served_request \<Rightarrow> strict_request \<Rightarrow> 'w \<Rightarrow> (strict_response result \<times> 'w) option"

record 'w strict_options =
  sto_RequestErrorHandlerFunc :: "served_request \<Rightarrow> goerr \<Rightarrow> 'w \<Rightarrow> 'w cm_outcome"
  sto_ResponseErrorHandlerFunc :: "served_request \<Rightarrow> goerr \<Rightarrow> 'w \<Rightarrow> 'w cm_outcome"

record 'w strict_handler =
  sh_ssi :: "'w strict_server"
  sh_middlewares :: "('w strict_handler_func \<Rightarrow> string \<Rightarrow> 'w strict_handler_func) list"
  sh_options :: "'w strict_options"

definition NewStrictHandlerWithOptions ::
    "'w strict_server \<Rightarrow> ('w strict_handler_func \<Rightarrow> string \<Rightarrow> 'w strict_handler_func) list \<Rightarrow> 'w strict_options \<Rightarrow>
     'w strict_handler" where
  "NewStrictHandlerWithOptions ssi middlewares options =
     \<lparr>sh_ssi = ssi, sh_middlewares = middlewares, sh_options = options\<rparr>"

definition NewStrictHandler ::
    "'w strict_server \<Rightarrow> ('w strict_handler_func \<Rightarrow> string \<Rightarrow> 'w strict_handler_func) list \<Rightarrow> 'w strict_handler" where
  "NewStrictHandler ssi middlewares = NewStrictHandlerWithOptions ssi middlewares
     \<lparr>sto_RequestErrorHandlerFunc = (\<lambda>r err w. cm_write (http_error (error_string err) 400) w),
      sto_ResponseErrorHandlerFunc = (\<lambda>r err w. cm_write (http_error (error_string err) 500) w)\<rparr>"

definition through_middlewares :: "'w strict_handler \<Rightarrow> string \<Rightarrow> 'w strict_handler_func \<Rightarrow> 'w strict_handler_func" where
  "through_middlewares sh operationID handler =
     fold (\<lambda>middleware handler. middleware handler operationID) (sh_middlewares sh) handler"

text \<open>The end all five handlers share: an error, a response of the operation, no response, or one of
  another type.  A handler that writes nothing is answered 200 with no body.\<close>

definition strict_finish ::
    "'w strict_handler \<Rightarrow> served_request \<Rightarrow> (strict_response \<Rightarrow> http_response option) \<Rightarrow>
     (strict_response result \<times> 'w) option \<Rightarrow> 'w cm_outcome" where
  "strict_finish sh r visit res =
     (case res of
        None \<Rightarrow> None
      | Some (Inl err, w) \<Rightarrow> sto_ResponseErrorHandlerFunc (sh_options sh) r err w
      | Some (Inr response, w) \<Rightarrow>
          (case visit response of
             Some resp \<Rightarrow> cm_write resp w
           | None \<Rightarrow>
               if response \<noteq> NilResponse
               then sto_ResponseErrorHandlerFunc (sh_options sh) r
                      (ErrText (''unexpected response type: '' @ response_type_name response)) w
               else cm_write (status_response 200) w))"

definition map_result :: "('a \<Rightarrow> 'b) \<Rightarrow> 'a result \<Rightarrow> 'b result" where
  "map_result f q = (case q of Inl err \<Rightarrow> Inl err | Inr x \<Rightarrow> Inr (f x))"

definition sh_GetHealthz :: "'w strict_handler \<Rightarrow> ('w, 'w cm_outcome) http_handler" where
  "sh_GetHealthz sh r w =
     (let handler = (\<lambda>r request w.
            case request of
              GetHealthzRequestObject \<Rightarrow>
                (case ss_GetHealthz (sh_ssi sh) w of (q, w) \<Rightarrow> Some (map_result GetHealthzResponseObject q, w))
            | _ \<Rightarrow> None)
      in strict_finish sh r (\<lambda>v. case v of GetHealthzResponseObject x \<Rightarrow> Some (VisitGetHealthzResponse x) | _ \<Rightarrow> None)
           (through_middlewares sh ''GetHealthz'' handler r GetHealthzRequestObject w))"

definition sh_ListAgents :: "'w strict_handler \<Rightarrow> ('w, 'w cm_outcome) http_handler" where
  "sh_ListAgents sh r w =
     (let handler = (\<lambda>r request w.
            case request of
              ListAgentsRequestObject \<Rightarrow>
                (case ss_ListAgents (sh_ssi sh) w of (q, w) \<Rightarrow> Some (map_result ListAgentsResponseObject q, w))
            | _ \<Rightarrow> None)
      in strict_finish sh r (\<lambda>v. case v of ListAgentsResponseObject x \<Rightarrow> Some (VisitListAgentsResponse x) | _ \<Rightarrow> None)
           (through_middlewares sh ''ListAgents'' handler r ListAgentsRequestObject w))"

definition sh_CreateAgent :: "'w strict_handler \<Rightarrow> ('w, 'w cm_outcome) http_handler" where
  "sh_CreateAgent sh r w =
     (case decode_struct create_agent_field zero_create_agent_request (rq_body r) of
        Inl err \<Rightarrow> sto_RequestErrorHandlerFunc (sh_options sh) r (errorf ''can't decode JSON body'' err) w
      | Inr body \<Rightarrow>
          let handler = (\<lambda>r request w.
            case request of
              CreateAgentRequestObject b \<Rightarrow>
                (case ss_CreateAgent (sh_ssi sh) b w of (q, w) \<Rightarrow> Some (map_result CreateAgentResponseObject q, w))
            | _ \<Rightarrow> None)
          in strict_finish sh r (\<lambda>v. case v of CreateAgentResponseObject x \<Rightarrow> Some (VisitCreateAgentResponse x) | _ \<Rightarrow> None)
               (through_middlewares sh ''CreateAgent'' handler r (CreateAgentRequestObject (Some body)) w))"

definition sh_RemoveAgent :: "'w strict_handler \<Rightarrow> string \<Rightarrow> ('w, 'w cm_outcome) http_handler" where
  "sh_RemoveAgent sh name r w =
     (let handler = (\<lambda>r request w.
            case request of
              RemoveAgentRequestObject n \<Rightarrow>
                (case ss_RemoveAgent (sh_ssi sh) n w of (q, w) \<Rightarrow> Some (map_result RemoveAgentResponseObject q, w))
            | _ \<Rightarrow> None)
      in strict_finish sh r (\<lambda>v. case v of RemoveAgentResponseObject x \<Rightarrow> Some (VisitRemoveAgentResponse x) | _ \<Rightarrow> None)
           (through_middlewares sh ''RemoveAgent'' handler r (RemoveAgentRequestObject name) w))"

definition sh_StopAgent :: "'w strict_handler \<Rightarrow> string \<Rightarrow> ('w, 'w cm_outcome) http_handler" where
  "sh_StopAgent sh name r w =
     (let handler = (\<lambda>r request w.
            case request of
              StopAgentRequestObject n \<Rightarrow>
                (case ss_StopAgent (sh_ssi sh) n w of (q, w) \<Rightarrow> Some (map_result StopAgentResponseObject q, w))
            | _ \<Rightarrow> None)
      in strict_finish sh r (\<lambda>v. case v of StopAgentResponseObject x \<Rightarrow> Some (VisitStopAgentResponse x) | _ \<Rightarrow> None)
           (through_middlewares sh ''StopAgent'' handler r (StopAgentRequestObject name) w))"

definition strict_interface :: "'w strict_handler \<Rightarrow> ('w, 'w cm_outcome) cm_server_interface" where
  "strict_interface sh =
     \<lparr>csi_GetHealthz = sh_GetHealthz sh, csi_ListAgents = sh_ListAgents sh, csi_CreateAgent = sh_CreateAgent sh,
      csi_RemoveAgent = sh_RemoveAgent sh, csi_StopAgent = sh_StopAgent sh\<rparr>"

section \<open>The program's operations\<close>

definition no_error :: "'r \<times> 'w \<Rightarrow> 'r result \<times> 'w" where
  "no_error rw = (case rw of (r, w) \<Rightarrow> (Inr r, w))"

definition strict_server_of :: "'w agent_manager \<Rightarrow> 'w strict_server" where
  "strict_server_of h =
     \<lparr>ss_GetHealthz = (\<lambda>w. no_error (Server_GetHealthz h w)),
      ss_ListAgents = (\<lambda>w. no_error (Server_ListAgents h w)),
      ss_CreateAgent = (\<lambda>body w. no_error (Server_CreateAgent h body w)),
      ss_RemoveAgent = (\<lambda>name w. no_error (Server_RemoveAgent h name w)),
      ss_StopAgent = (\<lambda>name w. no_error (Server_StopAgent h name w))\<rparr>"

definition Server_Routes :: "param_binder \<Rightarrow> 'w agent_manager \<Rightarrow> ('w, 'w cm_outcome) http_handler" where
  "Server_Routes bd h =
     cm_HandlerFromMux bd cm_write (strict_interface (NewStrictHandler (strict_server_of h) [])) []"

end
