(* ===== verification/CmApiGen_Props.thy ===== *)
theory CmApiGen_Props
  imports CmApiGen ApiGen_Props
begin

text \<open>
  The generated server of container-manager is the flat server \<open>container_manager_http\<close>.
\<close>

section \<open>The strict handlers without middlewares\<close>

lemma strict_plain:
  assumes "sh = NewStrictHandler (strict_server_of h) []"
  shows "sh_GetHealthz sh r w = Some (strict_GetHealthz h w)"
    and "sh_ListAgents sh r w = Some (strict_ListAgents h w)"
    and "sh_CreateAgent sh r w = Some (strict_CreateAgent h (rq_body r) w)"
    and "sh_RemoveAgent sh name r w = Some (strict_RemoveAgent h name w)"
    and "sh_StopAgent sh name r w = Some (strict_StopAgent h name w)"
  unfolding assms
  by (auto simp: sh_GetHealthz_def sh_ListAgents_def sh_CreateAgent_def sh_RemoveAgent_def sh_StopAgent_def
      strict_GetHealthz_def strict_ListAgents_def strict_CreateAgent_def strict_RemoveAgent_def strict_StopAgent_def
      NewStrictHandler_def NewStrictHandlerWithOptions_def strict_server_of_def through_middlewares_def
      strict_finish_def no_error_def map_result_def cm_write_def Let_def split: sum.split prod.split)

section \<open>Routes\<close>

lemma cm_patterns:
  "pattern_method ''GET /healthz'' = ''GET''" "pattern_path ''GET /healthz'' = [''healthz'']"
  "pattern_method ''GET /v1/agents'' = ''GET''" "pattern_path ''GET /v1/agents'' = [''v1'', ''agents'']"
  "pattern_method ''POST /v1/agents'' = ''POST''" "pattern_path ''POST /v1/agents'' = [''v1'', ''agents'']"
  "pattern_method ''DELETE /v1/agents/{name}'' = ''DELETE''"
  "pattern_path ''DELETE /v1/agents/{name}'' = [''v1'', ''agents'', ''{name}'']"
  "pattern_method ''POST /v1/agents/{name}/stop'' = ''POST''"
  "pattern_path ''POST /v1/agents/{name}/stop'' = [''v1'', ''agents'', ''{name}'', ''stop'']"
  by code_simp+

lemma cm_wildcards:
  "wildcard ''healthz'' = None" "wildcard ''v1'' = None" "wildcard ''agents'' = None" "wildcard ''stop'' = None"
  "wildcard ''{name}'' = Some ''name''"
  by code_simp+

lemma match_last_wild:
  "wildcard a = None \<Longrightarrow> wildcard b = None \<Longrightarrow> wildcard n = Some name \<Longrightarrow> match_path [a, b, n] segs =
    (if length segs = 3 \<and> take 2 segs = [a, b] \<and> segs ! 2 \<noteq> [] then Some [(name, segs ! 2)] else None)"
  by (cases segs; cases "tl segs"; cases "tl (tl segs)"; cases "tl (tl (tl segs))") auto

lemma match_third_wild:
  "wildcard a = None \<Longrightarrow> wildcard b = None \<Longrightarrow> wildcard n = Some name \<Longrightarrow> wildcard c = None \<Longrightarrow>
    match_path [a, b, n, c] segs =
    (if length segs = 4 \<and> take 2 segs = [a, b] \<and> segs ! 2 \<noteq> [] \<and> segs ! 3 = c then Some [(name, segs ! 2)] else None)"
  by (cases segs; cases "tl segs"; cases "tl (tl segs)"; cases "tl (tl (tl segs))"; cases "tl (tl (tl (tl segs)))")
    (auto simp: numeral_3_eq_3)

lemma path_value_name: "path_value (r\<lparr>sq_path_values := [(''name'', v)]\<rparr>) ''name'' = v"
  by (simp add: path_value_def)

lemma server_routes_flat:
  assumes "\<And>v. bd_path bd ''name'' v = Inr v"
  shows "Server_Routes bd h (arriving r) w = Some (container_manager_http h r w)"
proof -
  have wr: "cm_write resp w = Some (resp, w)" for resp by (simp add: cm_write_def)
  let ?sh = "NewStrictHandler (strict_server_of h) []"
  have "Server_Routes bd h (arriving r) w = serve_matches cm_write
      (cm_routes bd [] (wrapper_of cm_write (strict_interface ?sh) zero_options)) False (arriving r) w"
    by (simp add: Server_Routes_def cm_HandlerFromMux_def cm_HandlerWithOptions_def fold_HandleFunc
        base_router_def mux_serve_def wrapper_of_def zero_options_def)
  also have "\<dots> = Some (container_manager_http h r w)"
    by (simp add: cm_routes_def cm_patterns match_literal match_last_wild match_third_wild cm_wildcards
        method_matches_simps csiw_GetHealthz_def csiw_ListAgents_def csiw_CreateAgent_def csiw_RemoveAgent_def
        csiw_StopAgent_def path_param_def path_value_name assms strict_interface_def strict_plain [OF refl] wr
        container_manager_http_def is_get_def method_not_allowed_def not_found_def Let_def)
  finally show ?thesis .
qed

text \<open>The server the generator wrote for container-manager - five patterns, a wrapper per operation, a
  strict handler per operation that decodes the body, calls the typed operation and writes the
  response of its type - answers every request as the flat server does on which the other
  properties are proved, when a name in the path is bound as it stands.\<close>

theorem generated_manager_is_flat:
  assumes "\<And>v. bd_path bd ''name'' v = Inr v"
  shows "Server_Routes bd h (arriving r) w = Some (container_manager_http h r w)"
  using assms by (rule server_routes_flat)

theorem generated_manager_is_flat_witness:
  "Server_Routes \<lparr>bd_query = (\<lambda>name q. Inr []), bd_path = (\<lambda>name v. Inr v)\<rparr> (agent_manager_of recording_manager)
      (arriving (plain_request ''DELETE'' [''v1'', ''agents'', ''a1''] NoBody)) [] =
    Some (container_manager_http (agent_manager_of recording_manager)
      (plain_request ''DELETE'' [''v1'', ''agents'', ''a1''] NoBody) [])"
  by (rule generated_manager_is_flat) simp

end
