(* ===== verification/CrashRecovery.thy ===== *)
theory CrashRecovery
  imports WholeTurn Startup
begin

text \<open>
  A run that is cut off.  \<^verbatim>\<open>main\<close> answers a termination signal with \<^verbatim>\<open>os.Exit\<close> and waits for no run, and a
  process can crash; then the statements of \<^verbatim>\<open>executeAndPersist\<close> stop anywhere.  Here are its statements
  one by one, what each of them leaves in the two rows of the run, and what the next start of the process
  (\<^verbatim>\<open>main\<close>, with \<^verbatim>\<open>cleanupOrphanedStreamingMessages\<close> and \<^verbatim>\<open>CleanupOrphans\<close>) makes of the rows.
\<close>

section \<open>The statements of a run\<close>

type_synonym 'd statement = "'d \<Rightarrow> 'd"

definition perform :: "'d statement list \<Rightarrow> 'd \<Rightarrow> 'd" where
  "perform ss d = fold (\<lambda>s d. s d) ss d"

lemma perform_simps [simp]: "perform [] d = d" "perform (s # ss) d = perform ss (s d)"
  "perform (ss @ ts) d = perform ts (perform ss d)"
  by (simp_all add: perform_def)

definition tick_statements :: "string \<Rightarrow> stream_aggregator \<Rightarrow> 'z pgdb_scheme statement list" where
  "tick_statements mid agg =
     (case Snapshot agg of (blocks, calls) \<Rightarrow>
        [\<lambda>d. snd (UpdateMessageContentBlocks mid blocks d), \<lambda>d. snd (MergeMessageData mid [(''tool_calls'', calls)] d)])"

text \<open>The writes before the status of the message, the status, and the writes after it but for the last.\<close>

definition content_statements ::
    "string \<Rightarrow> nat list \<Rightarrow> string result \<Rightarrow> stream_event list \<Rightarrow> 'z pgdb_scheme statement list" where
  "content_statements mid ticks res es =
     concat (map (\<lambda>k. tick_statements mid (aggregate (take k es))) ticks) @
     (case res of
        Inl err \<Rightarrow> []
      | Inr sid \<Rightarrow>
          (case Finalize (aggregate es) sid of (blocks, extra, assistantText) \<Rightarrow>
             [\<lambda>d. snd (UpdateMessageContentBlocks mid blocks d), \<lambda>d. snd (MergeMessageData mid extra d)]))"

definition outcome_status :: "string result \<Rightarrow> string" where
  "outcome_status res = (case res of Inl err \<Rightarrow> ''error'' | Inr sid \<Rightarrow> ''completed'')"

definition title_statements :: "string \<Rightarrow> string result \<Rightarrow> stream_event list \<Rightarrow> 'z pgdb_scheme statement list" where
  "title_statements cid res es =
     (case res of
        Inl err \<Rightarrow> []
      | Inr sid \<Rightarrow>
          (case Finalize (aggregate es) sid of (blocks, extra, assistantText) \<Rightarrow>
             (if assistantText \<noteq> [] then [\<lambda>d. snd (UpdateConversationTitle cid (generateTitle assistantText) d)] else []) @
             [\<lambda>d. snd (UpdateConversationUpdatedAt cid d)]))"

definition run_statements ::
    "string \<Rightarrow> string \<Rightarrow> nat list \<Rightarrow> string result \<Rightarrow> stream_event list \<Rightarrow> 'z pgdb_scheme statement list" where
  "run_statements cid mid ticks res es =
     content_statements mid ticks res es @ [\<lambda>d. snd (UpdateMessageStatus mid (outcome_status res) d)] @
     title_statements cid res es @ [\<lambda>d. snd (UpdateConversationStatus cid ''completed'' d)]"

lemma perform_ticks:
  "perform (concat (map (\<lambda>k. tick_statements mid (aggregate (take k es))) ticks)) d = run_ticks mid es ticks d"
proof (induction ticks arbitrary: d)
  case (Cons k ticks)
  then show ?case by (simp add: run_ticks_def tick_statements_def batch_tick_def split: prod.split)
qed (simp add: run_ticks_def)

lemma statements_of_run:
  assumes "xp_Execute p req (snd (UpdateConversationStatus cid ''running'' d)) = Some ((res, es), d1)"
  shows "executeAndPersist p req cid mid ticks d = Some (perform (run_statements cid mid ticks res es) d1)"
  using assms
  by (auto simp: executeAndPersist_def run_statements_def content_statements_def title_statements_def perform_ticks
      outcome_status_def final_writes_def Let_def split: sum.split prod.split)

section \<open>What they leave\<close>

definition message_status :: "string \<Rightarrow> 'z pgdb_scheme \<Rightarrow> string option" where
  "message_status mid d = map_option msg_status (msg_row mid d)"

definition message_time :: "string \<Rightarrow> 'z pgdb_scheme \<Rightarrow> int option" where
  "message_time mid d = map_option msg_created_at (msg_row mid d)"

definition conversation_status :: "string \<Rightarrow> 'z pgdb_scheme \<Rightarrow> string option" where
  "conversation_status cid d = map_option conv_status (conv_row cid d)"

definition rows_of :: "string \<Rightarrow> string \<Rightarrow> 'z pgdb_scheme \<Rightarrow> string option \<times> int option \<times> string option" where
  "rows_of cid mid d = (message_status mid d, message_time mid d, conversation_status cid d)"

text \<open>A statement that changes neither status.\<close>

definition quiet_statement :: "string \<Rightarrow> string \<Rightarrow> 'z pgdb_scheme statement \<Rightarrow> bool" where
  "quiet_statement cid mid s \<longleftrightarrow>
     (\<forall>d. db_faults d = [] \<longrightarrow> db_faults (s d) = [] \<and> rows_of cid mid (s d) = rows_of cid mid d)"

lemma quiet_writes:
  "quiet_statement cid mid (\<lambda>d. snd (UpdateMessageContentBlocks i b d))"
  "quiet_statement cid mid (\<lambda>d. snd (MergeMessageData i x d))"
  "quiet_statement cid mid (\<lambda>d. snd (UpdateConversationTitle c t d))"
  "quiet_statement cid mid (\<lambda>d. snd (UpdateConversationUpdatedAt c d))"
  by (simp_all add: quiet_statement_def rows_of_def message_status_def message_time_def conversation_status_def
      row_simps option.map_comp comp_def)

lemma quiet_contents: "\<forall>s \<in> set (content_statements mid ticks res es). quiet_statement cid mid s"
  by (auto simp: content_statements_def tick_statements_def quiet_writes split: sum.splits prod.splits)

lemma quiet_titles: "\<forall>s \<in> set (title_statements cid res es). quiet_statement cid mid s"
  by (auto simp: title_statements_def quiet_writes split: sum.splits prod.splits if_splits)

lemma quiet_perform:
  "db_faults d = [] \<Longrightarrow> \<forall>s \<in> set ss. quiet_statement cid mid s \<Longrightarrow>
    db_faults (perform ss d) = [] \<and> rows_of cid mid (perform ss d) = rows_of cid mid d"
  by (induction ss arbitrary: d) (auto simp: quiet_statement_def)

lemma status_write:
  assumes "db_faults d = []" and "st \<in> set msg_statuses"
  shows "db_faults (snd (UpdateMessageStatus mid st d)) = []"
    and "rows_of cid mid (snd (UpdateMessageStatus mid st d)) =
      (map_option (\<lambda>_. st) (message_status mid d), message_time mid d, conversation_status cid d)"
  using assms
  by (simp_all add: rows_of_def message_status_def message_time_def conversation_status_def row_simps
      option.map_comp comp_def)

lemma last_write:
  assumes "db_faults d = []" and "st \<in> set conv_statuses"
  shows "db_faults (snd (UpdateConversationStatus cid st d)) = []"
    and "rows_of cid mid (snd (UpdateConversationStatus cid st d)) =
      (message_status mid d, message_time mid d, map_option (\<lambda>_. st) (conversation_status cid d))"
  using assms
  by (simp_all add: rows_of_def message_status_def message_time_def conversation_status_def row_simps
      option.map_comp comp_def)

lemma outcome_known: "outcome_status res \<in> set msg_statuses"
  by (simp add: outcome_status_def msg_statuses_def split: sum.split)

lemma outcome_final: "outcome_status res \<noteq> ''streaming''"
  by (simp add: outcome_status_def split: sum.split)

text \<open>A run cut after \<open>k\<close> statements.\<close>

lemma cut_run:
  fixes d :: "'z pgdb_scheme"
  assumes "db_faults d = []" and "rows_of cid mid d = (Some st, Some t, Some ''running'')"
  shows "db_faults (perform (take k (run_statements cid mid ticks res es)) d) = [] \<and>
    rows_of cid mid (perform (take k (run_statements cid mid ticks res es)) d) =
      (Some (if length (content_statements mid ticks res es :: 'z pgdb_scheme statement list) < k
             then outcome_status res else st), Some t,
       Some (if length (run_statements cid mid ticks res es :: 'z pgdb_scheme statement list) \<le> k then ''completed'' else ''running''))"
proof -
  let ?c = "content_statements mid ticks res es :: 'z pgdb_scheme statement list"
    and ?t = "title_statements cid res es :: 'z pgdb_scheme statement list"
  have sub: "db_faults (perform (take j ss) x) = [] \<and> rows_of cid mid (perform (take j ss) x) = rows_of cid mid x"
    if "db_faults x = []" "\<forall>s \<in> set ss. quiet_statement cid mid s" for j ss and x :: "'z pgdb_scheme"
    using quiet_perform [OF that(1), of "take j ss"] that(2) set_take_subset [of j ss] by blast
  let ?d = "perform ?c d" let ?s = "snd (UpdateMessageStatus mid (outcome_status res) ?d)"
  have c: "db_faults ?d = []" "rows_of cid mid ?d = (Some st, Some t, Some ''running'')"
    using quiet_perform [OF assms(1) quiet_contents] assms(2) by simp_all
  have s: "db_faults ?s = []" "rows_of cid mid ?s = (Some (outcome_status res), Some t, Some ''running'')"
    using status_write [OF c(1) outcome_known] c(2) by (simp_all add: rows_of_def)
  have f: "db_faults (perform ?t ?s) = []" "rows_of cid mid (perform ?t ?s) = (Some (outcome_status res), Some t, Some ''running'')"
    using quiet_perform [OF s(1) quiet_titles] s(2) by simp_all
  have done_: "''completed'' \<in> set conv_statuses" by (simp add: conv_statuses_def)
  consider "k \<le> length ?c" | "length ?c < k" "k \<le> length ?c + 1 + length ?t" | "length ?c + 2 + length ?t \<le> k"
    by linarith
  then show ?thesis
  proof cases
    case 1
    then show ?thesis
      using sub [OF assms(1) quiet_contents, of k] assms(2) by (simp add: run_statements_def)
  next
    case 2
    then obtain j where k: "k = length ?c + 1 + j" and j: "j \<le> length ?t" by (intro that [of "k - length ?c - 1"]) simp_all
    have "take k (run_statements cid mid ticks res es) =
        ?c @ [\<lambda>d. snd (UpdateMessageStatus mid (outcome_status res) d)] @ take j ?t"
      using j by (simp add: k run_statements_def)
    then show ?thesis
      using sub [OF s(1) quiet_titles, of j] s(2) k j by (simp add: run_statements_def)
  next
    case 3
    then have "take k (run_statements cid mid ticks res es) = (run_statements cid mid ticks res es :: 'z pgdb_scheme statement list)"
      and "length (run_statements cid mid ticks res es :: 'z pgdb_scheme statement list) \<le> k" and "length ?c < k"
      by (simp_all add: run_statements_def)
    then show ?thesis
      using last_write [OF f(1) done_] f(2) by (simp add: run_statements_def rows_of_def)
  qed
qed

section \<open>A panic\<close>

text \<open>\<^verbatim>\<open>Execute\<close> panics after the events \<open>es\<close>: only the deferred functions run.  The goroutine of the
  ticker is not told to stop: its ticks go on, over the events there were.\<close>

definition panicked_run ::
    "string \<Rightarrow> string \<Rightarrow> stream_event list \<Rightarrow> nat list \<Rightarrow> 'z pgdb_scheme \<Rightarrow> 'z pgdb_scheme" where
  "panicked_run cid mid es ticks d = snd (UpdateConversationStatus cid ''completed'' (run_ticks mid es ticks d))"

lemma quiet_ticks:
  assumes "db_faults d = []"
  shows "db_faults (run_ticks mid es ticks d) = [] \<and> rows_of cid mid (run_ticks mid es ticks d) = rows_of cid mid d"
  unfolding perform_ticks [symmetric]
  by (rule quiet_perform [OF assms]) (auto simp: tick_statements_def quiet_writes split: prod.splits)

text \<open>The conversation is completed, but the message is streaming, however long the ticker goes on.\<close>

lemma panic_leaves_streaming:
  assumes "db_faults d = []" and "rows_of cid mid d = (Some ''streaming'', Some t, Some ''running'')"
  shows "rows_of cid mid (run_ticks mid es later (panicked_run cid mid es ticks d)) =
    (Some ''streaming'', Some t, Some ''completed'')"
proof -
  let ?d = "run_ticks mid es ticks d"
  have d: "db_faults ?d = []" "rows_of cid mid ?d = (Some ''streaming'', Some t, Some ''running'')"
    using quiet_ticks [OF assms(1)] assms(2) by simp_all
  have "''completed'' \<in> set conv_statuses" by (simp add: conv_statuses_def)
  from last_write [OF d(1) this] d(2) quiet_ticks [where d = "panicked_run cid mid es ticks d"] show ?thesis
    by (simp add: panicked_run_def rows_of_def)
qed

section \<open>The next start\<close>

lemma rows_of_kept: "chat_kept d d' \<Longrightarrow> rows_of cid mid d' = rows_of cid mid d"
  by (simp add: chat_kept_def rows_of_def message_status_def message_time_def conversation_status_def msg_row_def conv_row_def)

lemma rows_of_now [simp]: "rows_of cid mid (d\<lparr>db_now := t\<rparr>) = rows_of cid mid d"
  by (simp add: rows_of_def message_status_def message_time_def conversation_status_def msg_row_def conv_row_def)

lemma streaming_cleaned:
  assumes "db_faults d = []" and "rows_of cid mid d = (Some st, Some t, c)"
  shows "rows_of cid mid (cleanupOrphanedStreamingMessages d) =
    (Some (if st = ''streaming'' \<and> t < db_now d - seconds (30 * 60) then ''error'' else st), Some t, c)"
proof -
  obtain m where m: "find (\<lambda>m. msg_id m = mid) (db_messages d) = Some m" "msg_status m = st" "msg_created_at m = t"
    using assms(2) by (auto simp: rows_of_def message_status_def message_time_def msg_row_def)
  have "find (\<lambda>m. msg_id m = mid) (update_where P f ms) = map_option (\<lambda>m. if P m then f m else m) (find (\<lambda>m. msg_id m = mid) ms)"
    if "\<And>m. msg_id (f m) = msg_id m" for P f and ms :: "message list"
    by (induction ms) (simp_all add: update_where_def that)
  then show ?thesis
    using assms m by (simp add: rows_of_def message_status_def message_time_def conversation_status_def msg_row_def conv_row_def
        cleanupOrphanedStreamingMessages_def)
qed

lemma chat_cleanup_statements:
  "chat_kept w (snd (ListIdleSessionEndpoints t w))"
  "chat_kept w (snd (ListIdleVMInstances t w))"
  "chat_kept w (snd (DecrementVMActiveContainers i w))"
  "chat_kept w (snd (DeleteSessionEndpoint c w))"
  "chat_kept w (snd (DeleteVMInstance i w))"
  unfolding ListIdleSessionEndpoints_def ListIdleVMInstances_def DecrementVMActiveContainers_def
    DeleteSessionEndpoint_def DeleteVMInstance_def
  by (rule chat_kept_exec; simp add: chat_kept_def)+

lemma chat_release:
  assumes "chat_apart p"
  shows "chat_kept w (release_container p ep w)"
proof -
  obtain r w1 where g: "GetVMInstance (ep_vm_instance_id ep) w = (r, w1)" by (cases "GetVMInstance (ep_vm_instance_id ep) w")
  have k: "chat_kept w w1" by (rule chat_calls(9) [OF g])
  have "chat_kept w1 (discard_agent dcm n w1)" if "gp_newDockerClient p url = Inr dcm" for url dcm n
    by (rule chat_apartD(9) [OF assms that])
  then show ?thesis
    using k chat_kept_trans [OF k] by (auto simp: release_container_def g split: sum.split)
qed

lemma chat_cleanup_endpoints:
  assumes "chat_apart p"
  shows "chat_kept w (snd (cleanup_endpoints p eps w))"
proof (induction eps arbitrary: w)
  case (Cons ep eps)
  let ?w = "snd (DecrementVMActiveContainers (ep_vm_instance_id ep) (release_container p ep w))"
  obtain r w1 where d: "DeleteSessionEndpoint (ep_id ep) ?w = (r, w1)" by (cases "DeleteSessionEndpoint (ep_id ep) ?w")
  have "chat_kept w ?w"
    by (rule chat_kept_trans [OF chat_release [OF assms] chat_cleanup_statements(3)])
  then have "chat_kept w w1"
    using chat_kept_trans [OF _ chat_cleanup_statements(4), of w ?w "ep_id ep"] d by simp
  then show ?case using chat_kept_trans [OF _ Cons.IH] by (cases r) (simp_all add: d)
qed simp

lemma chat_cleanup_vms:
  assumes "chat_apart p"
  shows "chat_kept w (snd (cleanup_vms p vms w))"
proof (induction vms arbitrary: w)
  case (Cons vm vms)
  let ?w = "snd (gce_DeleteInstance (gp_gce p) (gc_ProjectID (gp_config p)) (gc_Zone (gp_config p)) (vm_gce_instance_name vm) w)"
  obtain r w1 where d: "DeleteVMInstance (vm_id vm) ?w = (r, w1)" by (cases "DeleteVMInstance (vm_id vm) ?w")
  have "chat_kept w ?w" using assms by (simp add: chat_apart_def)
  then have "chat_kept w w1" using chat_kept_trans [OF _ chat_cleanup_statements(5), of w ?w "vm_id vm"] d by simp
  then show ?case using chat_kept_trans [OF _ Cons.IH] by (cases r) (simp_all add: d)
qed simp

lemma CleanupOrphans_chat:
  assumes "chat_apart p"
  shows "chat_kept w (snd (CleanupOrphans p w))"
proof -
  let ?t = "gc_IdleTimeout (gp_config p)"
  obtain r1 w1 where 1: "ListIdleSessionEndpoints ?t w = (r1, w1)" by (cases "ListIdleSessionEndpoints ?t w")
  have k1: "chat_kept w w1" using chat_cleanup_statements(1) [of w ?t] 1 by simp
  have k2: "chat_kept w (snd (cleanup_endpoints p eps w1))" for eps
    by (rule chat_kept_trans [OF k1 chat_cleanup_endpoints [OF assms]])
  have k3: "chat_kept w (snd (ListIdleVMInstances ?t (snd (cleanup_endpoints p eps w1))))" for eps
    by (rule chat_kept_trans [OF k2 chat_cleanup_statements(2)])
  show ?thesis
    using k1 k2 k3 chat_kept_trans [OF k3 chat_cleanup_vms [OF assms]]
    by (auto simp: CleanupOrphans_def 1 split: sum.split prod.split) (metis snd_conv)+
qed

text \<open>The database opens and is migrated, and neither this nor the provider's clean-up touches the chat.\<close>

definition opens_quietly :: "('b, 'z api_state_scheme) tunnel_deps \<Rightarrow> bool" where
  "opens_quietly td \<longleftrightarrow>
     (\<forall>url w. \<exists>w'. td_connect td url w = (Inr (), w') \<and> chat_kept w w' \<and> db_now w' = db_now w) \<and>
     (\<forall>w. \<exists>w'. td_migrate td w = (Inr (), w') \<and> chat_kept w w' \<and> db_now w' = db_now w) \<and>
     (\<forall>choice. case pi_CleanupOrphans (td_impl td choice) of None \<Rightarrow> True
        | Some cleanup \<Rightarrow> (\<forall>w. chat_kept w (snd (cleanup w))))"

lemma boot_rows:
  assumes "opens_quietly td" and "db_faults w = []" and "rows_of cid mid w = (Some st, Some t, c)"
  shows "rows_of cid mid (snd (tunnel_main td w)) =
    (Some (if st = ''streaming'' \<and> t < db_now w - seconds (30 * 60) then ''error'' else st), Some t, c)"
proof -
  obtain w1 where 1: "td_connect td (database_url (td_env td) (td_db_flag td)) w = (Inr (), w1)" "chat_kept w w1" "db_now w1 = db_now w"
    using assms(1) unfolding opens_quietly_def by blast
  obtain w2 where 2: "td_migrate td w1 = (Inr (), w2)" "chat_kept w1 w2" "db_now w2 = db_now w1"
    using assms(1) unfolding opens_quietly_def by blast
  have w2: "db_faults w2 = []" "rows_of cid mid w2 = (Some st, Some t, c)"
    using 1(2) 2(2) assms(2,3) by (simp_all add: rows_of_kept) (simp add: chat_kept_def)
  let ?w3 = "cleanupOrphanedStreamingMessages w2"
  have "chat_kept ?w3 (startup_cleanup (td_impl td choice) ?w3)" for choice
  proof (cases "pi_CleanupOrphans (td_impl td choice)")
    case (Some cleanup)
    then have "chat_kept ?w3 (snd (cleanup ?w3))"
      using assms(1) unfolding opens_quietly_def by (metis (no_types, lifting) option.simps(5))
    with Some show ?thesis by (simp add: startup_cleanup_def)
  qed (simp add: startup_cleanup_def)
  then have "rows_of cid mid (snd (tunnel_main td w)) = rows_of cid mid ?w3"
    by (auto simp: tunnel_main_def NewPool_def 1 2 Let_def rows_of_kept split: sum.split option.split)
  then show ?thesis using streaming_cleaned [OF w2] 1(3) 2(3) by simp
qed

text \<open>C33: what a crash leaves: a run is the provider's execution and then a fixed list of statements, and
  a process that ends anywhere in it and starts again at a time \<open>t\<close> finds the message finished when the
  statement of its status was reached, in error when it was created more than thirty minutes before,
  and streaming otherwise; but unless the very last statement was reached the conversation stays
  \<open>running\<close>, because nothing at start-up resets it.\<close>

theorem crash_recovery:
  fixes d :: "'z api_state_scheme"
  assumes "db_faults d = []" and "msg_row mid d = Some m" and "msg_status m = ''streaming''" and "conv_row cid d = Some r"
    and "chat_kept (snd (UpdateConversationStatus cid ''running'' d)) d1" and "opens_quietly td"
  shows "rows_of cid mid (snd (tunnel_main td ((perform (take k (run_statements cid mid ticks res es)) d1)\<lparr>db_now := t\<rparr>))) =
      (Some (if length (content_statements mid ticks res es :: 'z api_state_scheme statement list) < k then outcome_status res
             else if msg_created_at m < t - seconds (30 * 60) then ''error'' else ''streaming''),
       Some (msg_created_at m),
       Some (if length (run_statements cid mid ticks res es :: 'z api_state_scheme statement list) \<le> k
             then ''completed'' else ''running'')) \<and>
    (xp_Execute p req (snd (UpdateConversationStatus cid ''running'' d)) = Some ((res, es), d1) \<longrightarrow>
      executeAndPersist p req cid mid ticks d = Some (perform (run_statements cid mid ticks res es) d1))"
proof -
  let ?ss = "run_statements cid mid ticks res es :: 'z api_state_scheme statement list"
  let ?w = "(perform (take k ?ss) d1)\<lparr>db_now := t\<rparr>"
  let ?r = "snd (UpdateConversationStatus cid ''running'' d)"
  have "''running'' \<in> set conv_statuses" by (simp add: conv_statuses_def)
  note started = last_write [OF assms(1) this]
  have "db_faults d1 = []" using assms(5) started(1) [of cid] by (simp add: chat_kept_def)
  moreover have "rows_of cid mid ?r = (Some ''streaming'', Some (msg_created_at m), Some ''running'')"
    unfolding started(2) by (simp add: message_status_def message_time_def conversation_status_def assms(2-4))
  ultimately have d1: "db_faults d1 = []" "rows_of cid mid d1 = (Some ''streaming'', Some (msg_created_at m), Some ''running'')"
    by (simp_all only: rows_of_kept [OF assms(5)])
  from cut_run [OF d1, of k ticks res es] have
    "db_faults ?w = []" "rows_of cid mid ?w =
      (Some (if length (content_statements mid ticks res es :: 'z api_state_scheme statement list) < k then outcome_status res
             else ''streaming''), Some (msg_created_at m), Some (if length ?ss \<le> k then ''completed'' else ''running''))"
    by simp_all
  note boot = boot_rows [OF assms(6) this]
  have "rows_of cid mid (snd (tunnel_main td ?w)) =
      (Some (if length (content_statements mid ticks res es :: 'z api_state_scheme statement list) < k then outcome_status res
             else if msg_created_at m < t - seconds (30 * 60) then ''error'' else ''streaming''),
       Some (msg_created_at m), Some (if length ?ss \<le> k then ''completed'' else ''running''))"
    unfolding boot by (rule arg_cong2 [where f = Pair]) (simp_all add: outcome_final)
  moreover have "xp_Execute p req (snd (UpdateConversationStatus cid ''running'' d)) = Some ((res, es), d1) \<longrightarrow>
      executeAndPersist p req cid mid ticks d = Some (perform ?ss d1)"
    by (rule impI) (rule statements_of_run)
  ultimately show ?thesis by (rule conjI)
qed

end
