(* ===== verification/WholeTurn_Examples.thy ===== *)
theory WholeTurn_Examples
  imports WholeTurn EndpointSteps_Examples
begin

text \<open>
  A world with the database and one agent in it, a network that delivers to that agent, and a message
  through both: answered when the agent is logged in, in error when it is not.
\<close>

section \<open>The world\<close>

text \<open>The CLI of the agent answers every prompt with one line.\<close>

record talking_agent = auth_state +
  ta_out :: string
  ta_runs :: "string list list"

record turn_world = api_state +
  tw_agent :: talking_agent

type_synonym turn_rest = "((unit turn_world_ext) api_state_ext) cred_db_ext"

definition with_rest :: "turn_rest \<Rightarrow> turn_world" where
  "with_rest x = \<lparr>db_now = 0, db_uuids = (\<lambda>n. []), db_drawn = 0, db_faults = [], db_conversations = [],
     db_messages = [], db_vms = [], db_endpoints = [], \<dots> = x\<rparr>"

definition agent_of :: "turn_rest \<Rightarrow> talking_agent" where
  "agent_of x = tw_agent (with_rest x)"

definition set_agent :: "talking_agent \<Rightarrow> turn_rest \<Rightarrow> turn_rest" where
  "set_agent a x = pgdb.more ((with_rest x)\<lparr>tw_agent := a\<rparr>)"

lemma with_rest_more: "with_rest (pgdb.more ((with_rest x)\<lparr>tw_agent := a\<rparr>)) = (with_rest x)\<lparr>tw_agent := a\<rparr>"
  by (cases "with_rest x") (auto simp: with_rest_def)

lemma agent_of_set [simp]: "agent_of (set_agent a x) = a"
  unfolding agent_of_def set_agent_def by (subst with_rest_more) simp

lemma agent_of_more [simp]: "agent_of (pgdb.more w) = tw_agent w"
  by (cases w) (simp add: agent_of_def with_rest_def)

definition one_line :: string where
  "one_line = ''fine''"

definition fine_process :: process where
  "fine_process = \<lparr>pr_stdout = one_line @ [CHR 0x0A], pr_exit = (\<lambda>whole. Some None)\<rparr>"

definition talking_env :: "bool \<Rightarrow> talking_agent agent_env" where
  "talking_env logged =
     \<lparr>ae_status_cmd = (\<lambda>w. ((JsonBody (JObj [(''loggedIn'', JBool logged)]), None), w)),
      ae_pty_start = (\<lambda>w. (Inr 0, w)), ae_pty_write = (\<lambda>n s w. (Inr (), w)), ae_pty_close = (\<lambda>n w. w), ae_wait = (\<lambda>n w. w),
      ae_cancel = (\<lambda>n w. w), ae_logout_cmd = (\<lambda>w. w),
      ge_home = Inr ''/root'', ge_mkdir = (\<lambda>d w. (Inr (), w)), ge_write_file = (\<lambda>path data w. (Inr (), w)),
      ge_read_file = (\<lambda>path w. (Inl (ErrText ''no such file''), w)), ge_version_cmd = (\<lambda>w. (Inr ''1.0'', w)),
      ge_claude = \<lparr>ce_start = (\<lambda>args w. (Inr fine_process, w\<lparr>ta_runs := ta_runs w @ [args]\<rparr>)),
                   ce_write = (\<lambda>s w. (Inr (), w\<lparr>ta_out := ta_out w @ s\<rparr>)), ce_flusher = True\<rparr>\<rparr>"

definition parse_fine :: "string \<Rightarrow> json option" where
  "parse_fine l = (if l = one_line then snd result_line else None)"

definition streamed_body :: "talking_agent \<Rightarrow> talking_agent \<Rightarrow> http_body" where
  "streamed_body a a' = TextBody (drop (length (ta_out a)) (ta_out a'))"

definition scanned_lines :: "http_response \<Rightarrow> (nat \<times> json option) list \<times> goerr option" where
  "scanned_lines resp =
     (case rs_body resp of
        TextBody t \<Rightarrow> (map (\<lambda>l. (length l, parse_fine l)) (fst (scan_text t)), None)
      | _ \<Rightarrow> ([], None))"

lemma talking_delivers: "delivers ta_out parse_fine streamed_body scanned_lines"
  by (simp add: delivers_def scanned_lines_def streamed_body_def scan_ndjson)

lemma talking_recorded:
  "recorded_env (ge_claude (talking_env logged)) (\<lambda>args. fine_process) ta_out ta_runs"
  by (simp add: recorded_env_def talking_env_def)

definition talking_net :: "bool \<Rightarrow> turn_world agent_net" where
  "talking_net logged = (let nt = agent_net_of (talking_env logged) 0 [] streamed_body (\<lambda>r. []) scanned_lines in
     \<lparr>an_url_error = (\<lambda>u. None),
      an_do = (\<lambda>u r w. case an_do nt u r (agent_of (pgdb.more w)) of
         (resp, a) \<Rightarrow> (resp, pgdb.more_update (set_agent a) w)),
      an_text = (\<lambda>r. []), an_lines = an_lines nt\<rparr>)"

definition talking_provider :: "bool \<Rightarrow> turn_world gce_provider" where
  "talking_provider logged = NewDockerGCEProvider env_config None (\<lambda>url. Inl (ErrText []))
     \<lparr>gce_CreateInstance = (\<lambda>req w. (Inl (ErrText []), w)), gce_GetInstance = (\<lambda>p z n w. (Inl (ErrText []), w)),
      gce_DeleteInstance = (\<lambda>p z n w. (Inr (), w)), gce_ListInstances = (\<lambda>p z w. (Inr [], w))\<rparr>
     (talking_net logged) \<lparr>ck_now = (\<lambda>w. 0), ck_select = (\<lambda>t w. (Inr (), w)), ck_select_until = (\<lambda>d t w. (Inr (), w))\<rparr>
     (\<lambda>w. (''12345678-0000'', w))"

lemma talking_apart: "chat_apart (talking_provider logged)"
  by (auto simp: chat_apart_def talking_provider_def NewDockerGCEProvider_def Let_def talking_net_def chat_kept_more
      split: prod.split)

lemma talking_hosts:
  "hosts (talking_provider logged) url (agent_net_of (talking_env logged) 0 [] streamed_body (\<lambda>r. []) scanned_lines)
     agent_of set_agent"
  by (simp add: hosts_def talking_provider_def NewDockerGCEProvider_def Let_def talking_net_def agent_net_of_def)

definition turn_server :: "turn_world server" where
  "turn_server = NewHandler (scripted_provider (Inr []) []) (fixed_net (status_response 204)) Some itoa (\<lambda>n. itoa (int n))"

definition turn_endpoint :: session_endpoint where
  "turn_endpoint = \<lparr>ep_id = ''e1'', ep_conversation_id = ''c1'', ep_vm_instance_id = ''v1'', ep_container_name = ''k'',
     ep_port = 61000, ep_status = ''running'', ep_last_activity = 0, ep_created_at = 0\<rparr>"

definition turn_start :: turn_world where
  "turn_start = \<lparr>db_now = 9, db_uuids = (\<lambda>n. if n = 0 then ''u1'' else ''a1''), db_drawn = 0, db_faults = [],
     db_conversations = [conv_named ''c1''], db_messages = [], db_vms = [env_vm None], db_endpoints = [turn_endpoint],
     db_credentials = [], cred_rand = (\<lambda>n k. Inr (replicate k (CHR ''r''))), cred_rand_drawn = 0,
     st_session = [], st_uuids_drawn = 0,
     tw_agent = \<lparr>am_loginCmd = None, am_ptyFd = None, am_loginPending = False, am_cancelFunc = None,
       am_subscribers = [], ta_out = [], ta_runs = []\<rparr>\<rparr>"

lemma turn_sent:
  "\<exists>resp req w'. SendMessage turn_server send_example ''c1'' turn_start = ((resp, Some (req, ''c1'', ''a1'')), w') \<and>
     er_Prompt req = ''hello'' \<and> er_SessionID req = [] \<and>
     db_faults w' = [] \<and> db_vms w' = [env_vm None] \<and> db_endpoints w' = [turn_endpoint] \<and> tw_agent w' = tw_agent turn_start"
proof -
  have d: "decode_struct (string_field ''content'') [] (rq_body send_example) = Inr ''hello''" by code_simp
  have r: "findResumeSessionID [] = []" by (simp add: findResumeSessionID_def)
  show ?thesis
    by (auto simp: SendMessage_def d turn_server_def NewHandler_def fetchCredentialOrRespond_def r
        GetConversation_def ListMessages_def CreateMessage_def CreateStreamingMessage_def pg_exec_def
        insert_message_def draw_uuid_def Let_def turn_start_def first_row_def msg_roles_def conv_named_def
        buildExecuteRequest_def)
qed

lemma turn_placed:
  assumes "db_faults w' = []" and "db_vms w' = [env_vm None]" and "db_endpoints w' = [turn_endpoint]"
  shows "\<exists>w1. getOrCreateEndpoint 0 p ''c1'' (snd (UpdateConversationStatus ''c1'' ''running'' w')) = Some (Inr turn_endpoint, w1) \<and>
    GetVMInstance (ep_vm_instance_id turn_endpoint) w1 = (Inr (env_vm None), w1) \<and> pgdb.more w1 = pgdb.more w'"
  using assms
  by (auto simp: getOrCreateEndpoint_def running_endpoint_def GetSessionEndpointByConversationID_def GetVMInstance_def
      UpdateConversationStatus_def conv_statuses_def turn_endpoint_def env_vm_def first_row_def)

lemma talking_status:
  "AM_GetStatus (auth_env.truncate (talking_env logged)) w =
    (Inr (zero_agent_status\<lparr>ag_LoggedIn := logged, ag_LoginPending := am_loginPending w\<rparr>), w)"
  by (simp add: AM_GetStatus_def talking_env_def auth_env.defs decode_struct_def dec_struct_def
      agent_status_field_def zero_agent_status_def)

lemma turn_from_start:
  "credentials_apart turn_server" "db_faults turn_start = []"
  "\<forall>m \<in> set (db_messages turn_start). msg_created_at m \<le> db_now turn_start"
  by (simp_all add: credentials_apart_def turn_server_def NewHandler_def turn_start_def)

lemma fine_line: "\<not> containsResumeError one_line" "short_line one_line" "drop_cr one_line = one_line"
proof -
  show "\<not> containsResumeError one_line" by code_simp
  show "short_line one_line" by (simp add: short_line_def one_line_def)
  show "drop_cr one_line = one_line" by (simp add: drop_cr_def one_line_def)
qed

lemma fine_scan: "scan_text (pr_stdout fine_process) = ([one_line], True)"
  using scan_ndjson [of "[one_line]"] fine_line(2,3) by (simp add: ndjson_def fine_process_def)

lemma fine_answer:
  defines "proc \<equiv> \<lambda>args. fine_process"
  shows "cli_ends proc req" and "cli_lines proc req = [one_line]" and "cli_runs proc req = [buildArgs req False]"
proof -
  have "\<not> resume_fails fine_process" "pr_result fine_process = Some None" "pr_lines fine_process = [one_line]"
    using fine_scan fine_line(1) by (simp_all add: resume_fails_def pr_result_def pr_lines_def fine_process_def)
  with fine_line(1) show "cli_ends proc req" "cli_lines proc req = [one_line]" "cli_runs proc req = [buildArgs req False]"
    by (simp_all add: cli_ends_def cli_lines_def cli_runs_def falls_back_def first_run_def second_run_def
        proc_def passed_on_def)
qed

lemma start_history: "history_of ''c1'' (db_messages turn_start) = []"
  by (simp add: history_of_def turn_start_def)

section \<open>A message\<close>

theorem whole_turn_witness:
  "\<exists>req w' d' u a. executeAndPersist (DockerGCEProvider 0 (talking_provider True)) req ''c1'' ''a1'' [0] w' = Some d' \<and>
     history_of ''c1'' (db_messages d') = [u, a] \<and> history_content u = ''hello'' \<and> msg_status a = ''completed'' \<and>
     ta_runs (tw_agent d') = [buildArgs (received_request req) False]"
proof -
  from turn_sent obtain resp req w' where send: "SendMessage turn_server send_example ''c1'' turn_start = ((resp, Some (req, ''c1'', ''a1'')), w')"
    and req: "er_Prompt req = ''hello''" and w': "db_faults w' = []" "db_vms w' = [env_vm None]" "db_endpoints w' = [turn_endpoint]"
      "tw_agent w' = tw_agent turn_start" by blast
  from turn_placed [OF w'(1-3)] obtain w1 where
    place: "getOrCreateEndpoint 0 (talking_provider True) ''c1'' (snd (UpdateConversationStatus ''c1'' ''running'' w')) = Some (Inr turn_endpoint, w1)"
    and vm: "GetVMInstance (ep_vm_instance_id turn_endpoint) w1 = (Inr (env_vm None), w1)" and more: "pgdb.more w1 = pgdb.more w'" by blast
  have login: "logged_in (talking_env True) ta_out ta_runs (agent_of (pgdb.more w1))"
    by (simp add: logged_in_def talking_status zero_agent_status_def)
  have "utf8_valid (er_Prompt req)" unfolding req by (rule utf8_valid_ascii) (simp add: byte_def)
  then have "xq_Prompt (received_request req) = ''hello''" by (simp add: received_request_def req)
  moreover have "TrimSpace ''hello'' \<noteq> []" by code_simp
  ultimately have prompt: "TrimSpace (xq_Prompt (received_request req)) \<noteq> []" by simp
  have runs: "ta_runs (agent_of (pgdb.more w1)) = []" unfolding more by (simp add: w'(4) turn_start_def)
  from whole_turn [OF turn_from_start(1) talking_apart turn_from_start(2,3) send place vm talking_hosts talking_delivers
      talking_recorded login prompt fine_answer(1), of "[0]"]
  obtain d' u a where
    "executeAndPersist (DockerGCEProvider 0 (talking_provider True)) req ''c1'' ''a1'' [0] w' = Some d'"
    "history_of ''c1'' (db_messages d') = [u, a]" "history_content u = ''hello''" "msg_status a = ''completed''"
    "ta_runs (tw_agent d') = [buildArgs (received_request req) False]"
    using req fine_line(2) runs by (auto simp: fine_answer start_history)
  then show ?thesis by blast
qed

theorem stored_credentials_unused_witness:
  "\<exists>req w' d' u m. executeAndPersist (DockerGCEProvider 0 (talking_provider False)) (req\<lparr>er_Credentials := ''{}''\<rparr>) ''c1'' ''a1'' [] w' = Some d' \<and>
     history_of ''c1'' (db_messages d') = [u, m] \<and> msg_status m = ''error'' \<and> ta_runs (tw_agent d') = []"
proof -
  from turn_sent obtain resp req w' where send: "SendMessage turn_server send_example ''c1'' turn_start = ((resp, Some (req, ''c1'', ''a1'')), w')"
    and w': "db_faults w' = []" "db_vms w' = [env_vm None]" "db_endpoints w' = [turn_endpoint]"
      "tw_agent w' = tw_agent turn_start" by blast
  from turn_placed [OF w'(1-3)] obtain w1 where
    place: "getOrCreateEndpoint 0 (talking_provider False) ''c1'' (snd (UpdateConversationStatus ''c1'' ''running'' w')) = Some (Inr turn_endpoint, w1)"
    and vm: "GetVMInstance (ep_vm_instance_id turn_endpoint) w1 = (Inr (env_vm None), w1)" and more: "pgdb.more w1 = pgdb.more w'" by blast
  have runs: "ta_runs (agent_of (pgdb.more w1)) = []" unfolding more by (simp add: w'(4) turn_start_def)
  from stored_credentials_unused [OF turn_from_start(1) talking_apart turn_from_start(2,3) send place vm talking_hosts talking_status,
      of "''{}''" "[]"]
  obtain d' u m where
    "executeAndPersist (DockerGCEProvider 0 (talking_provider False)) (req\<lparr>er_Credentials := ''{}''\<rparr>) ''c1'' ''a1'' [] w' = Some d'"
    "history_of ''c1'' (db_messages d') = [u, m]" "msg_status m = ''error''" "ta_runs (tw_agent d') = []"
    using runs by (auto simp: zero_agent_status_def start_history)
  then show ?thesis by blast
qed

end
