(* ===== verification/CrashRecovery_Examples.thy ===== *)
theory CrashRecovery_Examples
  imports CrashRecovery WholeTurn_Examples ApiGen_Props
begin

text \<open>A message that was streaming when the process ended, half an hour before the next start.\<close>

definition cut_message :: message where
  "cut_message = \<lparr>msg_id = ''a1'', msg_conversation_id = ''c1'', msg_role = ''assistant'', msg_data = [],
     msg_status = ''streaming'', msg_created_at = 9, msg_updated_at = 9\<rparr>"

definition cut_state :: turn_world where
  "cut_state = turn_start\<lparr>db_messages := [cut_message]\<rparr>"

definition restarting :: "(unit, turn_world) tunnel_deps" where
  "restarting =
     \<lparr>td_env = (\<lambda>n. []), td_addr_flag = None, td_db_flag = [], td_connect = (\<lambda>url w. (Inr (), w)),
      td_migrate = (\<lambda>w. (Inr (), w)), td_new_client = (\<lambda>u. None), td_new_sdk = None, td_new_gce = None,
      td_impl = (\<lambda>choice. docker_gce_impl 0 (talking_provider True) (\<lambda>w. (Inr (), w))),
      td_new_cipher = (\<lambda>k. Inl (ErrText [])), td_new_gcm = (\<lambda>b. Inl (ErrText [])),
      td_validate = (\<lambda>t a w. (Inl (ErrText []), w)), td_net = talking_net True,
      td_binder = uuid_binder turn_server, td_listen = (\<lambda>addr. None),
      td_parse_uuid = Some, td_time_text = itoa, td_new_uuid = (\<lambda>n. itoa (int n))\<rparr>"

lemma restarting_quiet: "opens_quietly restarting"
  by (simp add: opens_quietly_def restarting_def docker_gce_impl_def CleanupOrphans_chat talking_apart)

theorem crash_recovery_witness:
  "\<exists>d1. rows_of ''c1'' ''a1'' (snd (tunnel_main restarting (d1\<lparr>db_now := seconds 1801\<rparr>))) = (Some ''error'', Some 9, Some ''running'')"
proof -
  have "db_faults cut_state = []" "msg_row ''a1'' cut_state = Some cut_message" "msg_status cut_message = ''streaming''"
    "conv_row ''c1'' cut_state = Some (conv_named ''c1'')"
    by (simp_all add: cut_state_def turn_start_def msg_row_def conv_row_def cut_message_def conv_named_def)
  from crash_recovery [OF this chat_kept_refl restarting_quiet, where k = 0 and t = "seconds 1801" and ticks = "[]"
      and res = "Inr ''s1''" and es = "[]"]
  have "rows_of ''c1'' ''a1'' (snd (tunnel_main restarting
      ((snd (UpdateConversationStatus ''c1'' ''running'' cut_state))\<lparr>db_now := seconds 1801\<rparr>))) =
    (Some ''error'', Some 9, Some ''running'')"
    by (simp add: cut_message_def seconds_def run_statements_def)
  then show ?thesis by blast
qed

end
