(* ===== verification/Shutdown.thy ===== *)
theory Shutdown
  imports DockerGCE_Examples
begin

text \<open>
  The goroutines of cc-tunnel over the docker_gce provider and their end: the \<^verbatim>\<open>IdleChecker\<close> and the
  \<^verbatim>\<open>VMScaler\<close>, each with its stop channel and its \<^verbatim>\<open>WaitGroup\<close>, the goroutine of \<^verbatim>\<open>main\<close> that waits for
  a signal, closes the provider and the pool and ends the process, and the requests, which may do
  anything to the world meanwhile.  The contexts of the loops are \<^verbatim>\<open>context.Background\<close>, which is never
  done.
\<close>

section \<open>A background loop\<close>

datatype loop_at = Not_started | Selecting | Passing | Returned

record background =
  bg_interval :: int
  bg_stopped :: bool
  bg_wg :: int
  bg_at :: loop_at

definition NewIdleChecker :: "int \<Rightarrow> background" where
  "NewIdleChecker interval = \<lparr>bg_interval = interval, bg_stopped = False, bg_wg = 0, bg_at = Not_started\<rparr>"

definition NewVMScaler :: "int \<Rightarrow> background" where
  "NewVMScaler interval = \<lparr>bg_interval = interval, bg_stopped = False, bg_wg = 0, bg_at = Not_started\<rparr>"

definition IdleChecker_Start :: "background \<Rightarrow> background" where
  "IdleChecker_Start c = c\<lparr>bg_wg := bg_wg c + 1, bg_at := Selecting\<rparr>"

definition VMScaler_Start :: "background \<Rightarrow> background" where
  "VMScaler_Start vs = vs\<lparr>bg_wg := bg_wg vs + 1, bg_at := Selecting\<rparr>"

text \<open>\<^verbatim>\<open>close(stopCh)\<close>; closing a closed channel panics.\<close>

definition close_stop :: "background \<Rightarrow> background option" where
  "close_stop b = (if bg_stopped b then None else Some (b\<lparr>bg_stopped := True\<rparr>))"

text \<open>The loop: \<^verbatim>\<open>select\<close> may take a tick even when the channel is closed; a pass is the body.\<close>

inductive loop_step :: "('w, unit) call \<Rightarrow> background \<times> 'w \<Rightarrow> background \<times> 'w \<Rightarrow> bool" for body where
  tick: "bg_at b = Selecting \<Longrightarrow> loop_step body (b, w) (b\<lparr>bg_at := Passing\<rparr>, w)"
| pass: "bg_at b = Passing \<Longrightarrow> loop_step body (b, w) (b\<lparr>bg_at := Selecting\<rparr>, snd (body w))"
| stop: "bg_at b = Selecting \<Longrightarrow> bg_stopped b \<Longrightarrow>
    loop_step body (b, w) (b\<lparr>bg_at := Returned, bg_wg := bg_wg b - 1\<rparr>, w)"

inductive_cases loop_stepE: "loop_step body (b, w) (b', w')"

text \<open>\<open>background_loop\<close>, over the channels a \<^verbatim>\<open>select\<close> sees ready, is a run of these steps.\<close>

lemma background_loop_steps:
  assumes "bg_at b = Selecting" and "bg_stopped b" and "CtxIsDone \<notin> set es"
  shows "\<exists>b'. (loop_step body)\<^sup>*\<^sup>* (b, w) (b', snd (background_loop body es w)) \<and>
    bg_at b' = (if fst (background_loop body es w) then Returned else Selecting)"
  using assms
proof (induction es arbitrary: b w)
  case (Cons e es)
  show ?case
  proof (cases e)
    case Ticker
    let ?b = "b\<lparr>bg_at := Passing\<rparr>\<lparr>bg_at := Selecting\<rparr>"
    obtain b' where "(loop_step body)\<^sup>*\<^sup>* (?b, snd (body w)) (b', snd (background_loop body es (snd (body w))))"
      and at: "bg_at b' = (if fst (background_loop body es (snd (body w))) then Returned else Selecting)"
      using Cons.IH [of ?b "snd (body w)"] Cons.prems by auto
    moreover have "loop_step body (b, w) (b\<lparr>bg_at := Passing\<rparr>, w)" by (rule loop_step.tick [OF Cons.prems(1)])
    moreover have "loop_step body (b\<lparr>bg_at := Passing\<rparr>, w) (?b, snd (body w))" by (rule loop_step.pass) simp
    ultimately have "(loop_step body)\<^sup>*\<^sup>* (b, w) (b', snd (background_loop body es (snd (body w))))"
      by (blast intro: converse_rtranclp_into_rtranclp)
    then show ?thesis using at Ticker by auto
  next
    case StopCh
    have "loop_step body (b, w) (b\<lparr>bg_at := Returned, bg_wg := bg_wg b - 1\<rparr>, w)"
      by (rule loop_step.stop [OF Cons.prems(1,2)])
    then show ?thesis using StopCh by (intro exI [of _ "b\<lparr>bg_at := Returned, bg_wg := bg_wg b - 1\<rparr>"]) auto
  next
    case CtxIsDone
    then show ?thesis using Cons.prems(3) by simp
  qed
qed (auto intro: exI [of _ b])

section \<open>The process\<close>

datatype closer = Awaiting_signal | Stopping_checker | Waiting_checker | Stopping_scaler | Waiting_scaler
  | Closing_pool | Ending | Ended | Panicked

record 'w process_state =
  ps_checker :: "background option"
  ps_scaler :: "background option"
  ps_closer :: closer
  ps_pool_open :: bool
  ps_world :: 'w

text \<open>\<^verbatim>\<open>Close\<close> of the provider, one call after the other, in the goroutine of \<^verbatim>\<open>main\<close>; \<open>None\<close> is a call that
  waits.\<close>

definition closer_step :: "'w process_state \<Rightarrow> 'w process_state option" where
  "closer_step s =
     (case ps_closer s of
        Awaiting_signal \<Rightarrow> Some (s\<lparr>ps_closer := Stopping_checker\<rparr>)
      | Stopping_checker \<Rightarrow>
          Some (case ps_checker s of
             None \<Rightarrow> s\<lparr>ps_closer := Stopping_scaler\<rparr>
           | Some c \<Rightarrow>
               (case close_stop c of
                  None \<Rightarrow> s\<lparr>ps_closer := Panicked\<rparr>
                | Some c \<Rightarrow> s\<lparr>ps_checker := Some c, ps_closer := Waiting_checker\<rparr>))
      | Waiting_checker \<Rightarrow>
          (case ps_checker s of
             None \<Rightarrow> None
           | Some c \<Rightarrow> if bg_wg c = 0 then Some (s\<lparr>ps_closer := Stopping_scaler\<rparr>) else None)
      | Stopping_scaler \<Rightarrow>
          Some (case ps_scaler s of
             None \<Rightarrow> s\<lparr>ps_closer := Closing_pool\<rparr>
           | Some vs \<Rightarrow>
               (case close_stop vs of
                  None \<Rightarrow> s\<lparr>ps_closer := Panicked\<rparr>
                | Some vs \<Rightarrow> s\<lparr>ps_scaler := Some vs, ps_closer := Waiting_scaler\<rparr>))
      | Waiting_scaler \<Rightarrow>
          (case ps_scaler s of
             None \<Rightarrow> None
           | Some vs \<Rightarrow> if bg_wg vs = 0 then Some (s\<lparr>ps_closer := Closing_pool\<rparr>) else None)
      | Closing_pool \<Rightarrow> Some (s\<lparr>ps_pool_open := False, ps_closer := Ending\<rparr>)
      | Ending \<Rightarrow> Some (s\<lparr>ps_closer := Ended\<rparr>)
      | Ended \<Rightarrow> None
      | Panicked \<Rightarrow> None)"

definition alive :: "'w process_state \<Rightarrow> bool" where
  "alive s \<longleftrightarrow> ps_closer s \<noteq> Ended \<and> ps_closer s \<noteq> Panicked"

inductive process_step ::
    "('z pgdb_scheme) gce_provider \<Rightarrow> ('z pgdb_scheme) process_state \<Rightarrow> ('z pgdb_scheme) process_state \<Rightarrow> bool" for p where
  checker: "alive s \<Longrightarrow> ps_checker s = Some c \<Longrightarrow> loop_step (CleanupOrphans p) (c, ps_world s) (c', w') \<Longrightarrow>
    process_step p s (s\<lparr>ps_checker := Some c', ps_world := w'\<rparr>)"
| scaler: "alive s \<Longrightarrow> ps_scaler s = Some vs \<Longrightarrow> loop_step (ReconcileVMs p) (vs, ps_world s) (vs', w') \<Longrightarrow>
    process_step p s (s\<lparr>ps_scaler := Some vs', ps_world := w'\<rparr>)"
| closing: "closer_step s = Some s' \<Longrightarrow> process_step p s s'"
| request: "alive s \<Longrightarrow> process_step p s (s\<lparr>ps_world := w\<rparr>)"

text \<open>The process once the provider is constructed: a loop runs when its interval is positive.\<close>

definition process_start :: "('z pgdb_scheme) gce_provider \<Rightarrow> 'z pgdb_scheme \<Rightarrow> ('z pgdb_scheme) process_state" where
  "process_start p w =
     \<lparr>ps_checker = map_option (\<lambda>i. IdleChecker_Start (NewIdleChecker i)) (gp_idleChecker p),
      ps_scaler = map_option (\<lambda>i. VMScaler_Start (NewVMScaler i)) (gp_vmScaler p),
      ps_closer = Awaiting_signal, ps_pool_open = True, ps_world = w\<rparr>"

definition process_runs ::
    "('z pgdb_scheme) gce_provider \<Rightarrow> ('z pgdb_scheme) process_state \<Rightarrow> ('z pgdb_scheme) process_state \<Rightarrow> bool" where
  "process_runs p = (process_step p)\<^sup>*\<^sup>*"

section \<open>The invariant\<close>

text \<open>A loop: its \<^verbatim>\<open>WaitGroup\<close> counts its goroutine, which returns only after the channel was closed.\<close>

definition loop_ok :: "background \<Rightarrow> bool" where
  "loop_ok b \<longleftrightarrow> bg_at b \<noteq> Not_started \<and> bg_wg b = (if bg_at b = Returned then 0 else 1) \<and>
     (bg_at b = Returned \<longrightarrow> bg_stopped b)"

text \<open>Where the closer is decides which channels are closed and which loops have returned.\<close>

definition checker_stopped_at :: "closer \<Rightarrow> bool" where
  "checker_stopped_at c \<longleftrightarrow> c \<notin> {Awaiting_signal, Stopping_checker}"

definition checker_done_at :: "closer \<Rightarrow> bool" where
  "checker_done_at c \<longleftrightarrow> c \<notin> {Awaiting_signal, Stopping_checker, Waiting_checker}"

definition scaler_stopped_at :: "closer \<Rightarrow> bool" where
  "scaler_stopped_at c \<longleftrightarrow> c \<in> {Waiting_scaler, Closing_pool, Ending, Ended}"

definition scaler_done_at :: "closer \<Rightarrow> bool" where
  "scaler_done_at c \<longleftrightarrow> c \<in> {Closing_pool, Ending, Ended}"

definition loop_matches :: "bool \<Rightarrow> bool \<Rightarrow> background option \<Rightarrow> bool" where
  "loop_matches stopped finished b \<longleftrightarrow>
     (case b of None \<Rightarrow> True
      | Some b \<Rightarrow> loop_ok b \<and> bg_stopped b = stopped \<and> (finished \<longrightarrow> bg_at b = Returned))"

definition process_ok :: "'w process_state \<Rightarrow> bool" where
  "process_ok s \<longleftrightarrow> ps_closer s \<noteq> Panicked \<and>
     loop_matches (checker_stopped_at (ps_closer s)) (checker_done_at (ps_closer s)) (ps_checker s) \<and>
     loop_matches (scaler_stopped_at (ps_closer s)) (scaler_done_at (ps_closer s)) (ps_scaler s) \<and>
     (ps_closer s = Waiting_checker \<longrightarrow> ps_checker s \<noteq> None) \<and> (ps_closer s = Waiting_scaler \<longrightarrow> ps_scaler s \<noteq> None) \<and>
     (ps_pool_open s \<longleftrightarrow> ps_closer s \<notin> {Ending, Ended})"

lemmas process_defs = process_ok_def loop_matches_def loop_ok_def checker_stopped_at_def checker_done_at_def
  scaler_stopped_at_def scaler_done_at_def

lemma process_start_ok: "process_ok (process_start p w)"
  by (simp add: process_defs process_start_def IdleChecker_Start_def NewIdleChecker_def VMScaler_Start_def
      NewVMScaler_def split: option.split)

lemma loop_step_matches:
  "loop_step body (b, w) (b', w') \<Longrightarrow> loop_matches st fin (Some b) \<Longrightarrow> loop_matches st fin (Some b')"
  by (erule loop_stepE) (auto simp: process_defs)

lemma stop_matches:
  "close_stop b = Some b' \<Longrightarrow> loop_matches False fin (Some b) \<Longrightarrow> loop_matches True fin (Some b')"
  "close_stop b = None \<Longrightarrow> \<not> loop_matches False fin (Some b)"
  "bg_wg b = 0 \<Longrightarrow> loop_matches True False (Some b) \<Longrightarrow> loop_matches True True (Some b)"
  by (auto simp: close_stop_def loop_matches_def loop_ok_def split: if_splits)

lemma no_loop [simp]: "loop_matches st fin None"
  by (simp add: loop_matches_def)

lemmas at_simps = checker_stopped_at_def checker_done_at_def scaler_stopped_at_def scaler_done_at_def

lemma closer_step_ok:
  assumes "process_ok s" and "closer_step s = Some s'"
  shows "process_ok s'"
proof (cases "ps_closer s")
  case Stopping_checker
  show ?thesis
  proof (cases "ps_checker s")
    case None
    with assms Stopping_checker show ?thesis by (auto simp: closer_step_def process_ok_def at_simps)
  next
    case (Some c)
    with assms(1) Stopping_checker stop_matches(2) [of c False] obtain c' where "close_stop c = Some c'"
      by (cases "close_stop c") (auto simp: process_ok_def at_simps)
    with assms Stopping_checker Some stop_matches(1) [of c c' False] show ?thesis
      by (auto simp: closer_step_def process_ok_def at_simps)
  qed
next
  case Waiting_checker
  with assms stop_matches(3) show ?thesis
    by (auto simp: closer_step_def process_ok_def at_simps split: option.splits if_splits)
next
  case Stopping_scaler
  show ?thesis
  proof (cases "ps_scaler s")
    case None
    with assms Stopping_scaler show ?thesis by (auto simp: closer_step_def process_ok_def at_simps)
  next
    case (Some c)
    with assms(1) Stopping_scaler stop_matches(2) [of c False] obtain c' where "close_stop c = Some c'"
      by (cases "close_stop c") (auto simp: process_ok_def at_simps)
    with assms Stopping_scaler Some stop_matches(1) [of c c' False] show ?thesis
      by (auto simp: closer_step_def process_ok_def at_simps)
  qed
next
  case Waiting_scaler
  with assms stop_matches(3) show ?thesis
    by (auto simp: closer_step_def process_ok_def at_simps split: option.splits if_splits)
qed (use assms in \<open>auto simp: closer_step_def process_ok_def at_simps\<close>)

lemma process_step_ok: "process_step p s s' \<Longrightarrow> process_ok s \<Longrightarrow> process_ok s'"
proof (induction rule: process_step.induct)
  case (checker s c c' w')
  then show ?case using loop_step_matches [OF checker(3)] by (simp add: process_ok_def)
next
  case (scaler s vs vs' w')
  then show ?case using loop_step_matches [OF scaler(3)] by (simp add: process_ok_def)
next
  case (closing s s')
  then show ?case using closer_step_ok by blast
next
  case (request s w)
  then show ?case by (simp add: process_ok_def)
qed

lemma process_runs_ok: "process_runs p s s' \<Longrightarrow> process_ok s \<Longrightarrow> process_ok s'"
  unfolding process_runs_def by (induction rule: rtranclp_induct) (auto dest: process_step_ok)

lemma pool_closed_late:
  "process_ok s \<Longrightarrow> \<not> ps_pool_open s \<Longrightarrow> checker_done_at (ps_closer s) \<and> scaler_done_at (ps_closer s)"
  by (auto simp: process_ok_def at_simps)

text \<open>Which loops there are does not change.\<close>

lemma loops_stay:
  "process_step p s s' \<Longrightarrow> (ps_checker s' = None) = (ps_checker s = None) \<and> (ps_scaler s' = None) = (ps_scaler s = None)"
proof (induction rule: process_step.induct)
  case (closing s s')
  then show ?case
    by (cases "ps_closer s") (auto simp: closer_step_def split: option.splits if_splits)
qed simp_all

lemma loops_there:
  "process_runs p (process_start p w) s \<Longrightarrow>
    (ps_checker s = None) = (gp_idleChecker p = None) \<and> (ps_scaler s = None) = (gp_vmScaler p = None)"
  unfolding process_runs_def
  by (induction rule: rtranclp_induct) (auto simp: process_start_def dest: loops_stay)

text \<open>C34: on a termination signal the background work ends in order: closing the provider never panics;
  a loop that was configured is there, and its \<^verbatim>\<open>WaitGroup\<close> counts exactly its goroutine; once a \<^verbatim>\<open>Stop\<close>
  has returned its loop has returned and makes no pass any more; and when the pool is closed neither
  loop is in a pass: no clean-up and no reconciliation of the two loops is cut or works on a closed pool. A
  reconciliation that was asked for over HTTP is not among these; it may still meet the closed pool.\<close>

theorem shutdown_orderly:
  assumes "process_runs p (process_start p w) s"
  shows "ps_closer s \<noteq> Panicked \<and>
    (case ps_checker s of None \<Rightarrow> gp_idleChecker p = None
     | Some c \<Rightarrow> bg_wg c = (if bg_at c = Returned then 0 else 1) \<and>
         (checker_done_at (ps_closer s) \<or> \<not> ps_pool_open s \<longrightarrow> bg_at c = Returned)) \<and>
    (case ps_scaler s of None \<Rightarrow> gp_vmScaler p = None
     | Some vs \<Rightarrow> bg_wg vs = (if bg_at vs = Returned then 0 else 1) \<and>
         (scaler_done_at (ps_closer s) \<or> \<not> ps_pool_open s \<longrightarrow> bg_at vs = Returned))"
proof -
  have ok: "process_ok s" by (rule process_runs_ok [OF assms process_start_ok])
  then have "loop_matches (checker_stopped_at (ps_closer s)) (checker_done_at (ps_closer s)) (ps_checker s)"
    and "loop_matches (scaler_stopped_at (ps_closer s)) (scaler_done_at (ps_closer s)) (ps_scaler s)"
    and "ps_closer s \<noteq> Panicked"
    by (simp_all add: process_ok_def)
  with pool_closed_late [OF ok] loops_there [OF assms] show ?thesis
    by (cases "ps_checker s"; cases "ps_scaler s") (simp_all add: loop_matches_def loop_ok_def)
qed

section \<open>It can end\<close>

lemma not_panicked: "process_ok s \<Longrightarrow> ps_closer s \<noteq> Panicked"
  by (simp add: process_ok_def)

definition can_end :: "('z pgdb_scheme) gce_provider \<Rightarrow> ('z pgdb_scheme) process_state \<Rightarrow> bool" where
  "can_end p s \<longleftrightarrow> (\<exists>s'. process_runs p s s' \<and> ps_closer s' = Ended)"

lemma can_end_step: "process_step p s s' \<Longrightarrow> can_end p s' \<Longrightarrow> can_end p s"
  unfolding can_end_def process_runs_def by (blast intro: converse_rtranclp_into_rtranclp)

lemma can_end_closing: "closer_step s = Some s' \<Longrightarrow> can_end p s' \<Longrightarrow> can_end p s"
  by (rule can_end_step [OF process_step.closing])

lemma end_ended: "ps_closer s = Ended \<Longrightarrow> can_end p s"
  by (auto simp: can_end_def process_runs_def)

lemma end_ending: "ps_closer s = Ending \<Longrightarrow> can_end p s"
  by (rule can_end_closing [where s' = "s\<lparr>ps_closer := Ended\<rparr>"]) (simp_all add: closer_step_def end_ended)

lemma end_pool: "ps_closer s = Closing_pool \<Longrightarrow> can_end p s"
  by (rule can_end_closing [where s' = "s\<lparr>ps_pool_open := False, ps_closer := Ending\<rparr>"])
    (simp_all add: closer_step_def end_ending)

text \<open>A loop whose channel is closed can return: it finishes its pass, if it is in one, and takes the
  channel.\<close>

lemma waiting_returns:
  fixes b :: background
  assumes "loop_ok b" and "bg_stopped b"
    and move: "\<And>c c' v v'. loop_step body (c, v) (c', v') \<Longrightarrow> R c' v' \<Longrightarrow> R c v"
    and finished: "\<And>c v. bg_wg c = 0 \<Longrightarrow> loop_ok c \<Longrightarrow> bg_stopped c \<Longrightarrow> bg_at c = Returned \<Longrightarrow> R c v"
  shows "R b v"
proof -
  have sel: "R c v" if "loop_ok c" "bg_stopped c" "bg_at c = Selecting" for c v
    by (rule move [OF loop_step.stop [OF that(3,2)] finished]) (use that in \<open>simp_all add: loop_ok_def\<close>)
  show ?thesis
  proof (cases "bg_at b")
    case Passing
    show ?thesis
      by (rule move [OF loop_step.pass [OF Passing] sel]) (use assms(1,2) Passing in \<open>simp_all add: loop_ok_def\<close>)
  next
    case Returned
    with assms(1,2) finished show ?thesis by (simp add: loop_ok_def)
  qed (use assms(1,2) sel in \<open>simp_all add: loop_ok_def\<close>)
qed

lemma end_waiting_scaler:
  assumes "process_ok s" and "ps_closer s = Waiting_scaler"
  shows "can_end p s"
proof -
  obtain vs where vs: "ps_scaler s = Some vs" "loop_ok vs" "bg_stopped vs"
    using assms by (auto simp: process_ok_def loop_matches_def at_simps)
  have "can_end p (s\<lparr>ps_scaler := Some vs, ps_world := ps_world s\<rparr>)"
  proof (rule waiting_returns [where R = "\<lambda>c v. can_end p (s\<lparr>ps_scaler := Some c, ps_world := v\<rparr>)"
        and body = "ReconcileVMs p", OF vs(2,3)])
    fix c c' v v'
    assume "loop_step (ReconcileVMs p) (c, v) (c', v')" and "can_end p (s\<lparr>ps_scaler := Some c', ps_world := v'\<rparr>)"
    then show "can_end p (s\<lparr>ps_scaler := Some c, ps_world := v\<rparr>)"
      using can_end_step [OF process_step.scaler, of "s\<lparr>ps_scaler := Some c, ps_world := v\<rparr>" c p c' v'] assms(2)
      by (simp add: alive_def)
  next
    fix c :: background and v
    assume c: "bg_wg c = 0"
    have "can_end p (s\<lparr>ps_scaler := Some c, ps_world := v, ps_closer := Closing_pool\<rparr>)"
      by (rule end_pool) simp
    moreover have "closer_step (s\<lparr>ps_scaler := Some c, ps_world := v\<rparr>) =
        Some (s\<lparr>ps_scaler := Some c, ps_world := v, ps_closer := Closing_pool\<rparr>)"
      by (simp add: closer_step_def assms(2) c)
    ultimately show "can_end p (s\<lparr>ps_scaler := Some c, ps_world := v\<rparr>)" by (rule can_end_closing [rotated])
  qed
  then show ?thesis by (simp flip: vs(1))
qed

lemma end_stopping_scaler:
  assumes "process_ok s" and "ps_closer s = Stopping_scaler"
  shows "can_end p s"
proof -
  obtain s' where s': "closer_step s = Some s'" by (simp add: closer_step_def assms(2))
  have "ps_closer s' \<in> {Closing_pool, Waiting_scaler, Panicked}"
    using s' by (auto simp: closer_step_def assms(2) split: option.splits)
  moreover have ok: "process_ok s'" by (rule closer_step_ok [OF assms(1) s'])
  ultimately have "can_end p s'" using end_pool end_waiting_scaler [OF ok] not_panicked [OF ok] by blast
  with s' show ?thesis by (rule can_end_closing)
qed

lemma end_waiting_checker:
  assumes "process_ok s" and "ps_closer s = Waiting_checker"
  shows "can_end p s"
proof -
  obtain b where b: "ps_checker s = Some b" "loop_ok b" "bg_stopped b"
    using assms by (auto simp: process_ok_def loop_matches_def at_simps)
  have scaler: "loop_matches False False (ps_scaler s)" "ps_pool_open s"
    using assms by (auto simp: process_ok_def at_simps)
  have "can_end p (s\<lparr>ps_checker := Some b, ps_world := ps_world s\<rparr>)"
  proof (rule waiting_returns [where R = "\<lambda>c v. can_end p (s\<lparr>ps_checker := Some c, ps_world := v\<rparr>)"
        and body = "CleanupOrphans p", OF b(2,3)])
    fix c c' v v'
    assume "loop_step (CleanupOrphans p) (c, v) (c', v')" and "can_end p (s\<lparr>ps_checker := Some c', ps_world := v'\<rparr>)"
    then show "can_end p (s\<lparr>ps_checker := Some c, ps_world := v\<rparr>)"
      using can_end_step [OF process_step.checker, of "s\<lparr>ps_checker := Some c, ps_world := v\<rparr>" c p c' v'] assms(2)
      by (simp add: alive_def)
  next
    fix c :: background and v
    assume c: "bg_wg c = 0" "loop_ok c" "bg_stopped c" "bg_at c = Returned"
    have here: "loop_matches True True (Some c)" using c by (simp add: loop_matches_def)
    have "process_ok (s\<lparr>ps_checker := Some c, ps_world := v, ps_closer := Stopping_scaler\<rparr>)"
      using scaler here by (simp add: process_ok_def at_simps)
    then have "can_end p (s\<lparr>ps_checker := Some c, ps_world := v, ps_closer := Stopping_scaler\<rparr>)"
      by (rule end_stopping_scaler) simp
    moreover have "closer_step (s\<lparr>ps_checker := Some c, ps_world := v\<rparr>) =
        Some (s\<lparr>ps_checker := Some c, ps_world := v, ps_closer := Stopping_scaler\<rparr>)"
      by (simp add: closer_step_def assms(2) c(1))
    ultimately show "can_end p (s\<lparr>ps_checker := Some c, ps_world := v\<rparr>)" by (rule can_end_closing [rotated])
  qed
  then show ?thesis by (simp flip: b(1))
qed

lemma end_stopping_checker:
  assumes "process_ok s" and "ps_closer s = Stopping_checker"
  shows "can_end p s"
proof -
  obtain s' where s': "closer_step s = Some s'" by (simp add: closer_step_def assms(2))
  have "ps_closer s' \<in> {Stopping_scaler, Waiting_checker, Panicked}"
    using s' by (auto simp: closer_step_def assms(2) split: option.splits)
  moreover have ok: "process_ok s'" by (rule closer_step_ok [OF assms(1) s'])
  ultimately have "can_end p s'" using end_stopping_scaler [OF ok] end_waiting_checker [OF ok] not_panicked [OF ok] by blast
  with s' show ?thesis by (rule can_end_closing)
qed

lemma ok_can_end:
  assumes ok: "process_ok s"
  shows "can_end p s"
proof (cases "ps_closer s")
  case Awaiting_signal
  then have "closer_step s = Some (s\<lparr>ps_closer := Stopping_checker\<rparr>)" by (simp add: closer_step_def)
  from can_end_closing [OF this end_stopping_checker [OF closer_step_ok [OF ok this]]] show ?thesis by simp
qed (use not_panicked [OF ok] end_stopping_checker [OF ok] end_waiting_checker [OF ok] end_stopping_scaler [OF ok]
  end_waiting_scaler [OF ok] end_pool end_ending end_ended in simp_all)

text \<open>And it does end: from every state the process can be in, whatever the loops and the requests are
  doing, there are steps to its end; no wait of \<^verbatim>\<open>Close\<close> is for ever.\<close>

theorem shutdown_possible:
  assumes "process_runs p (process_start p w) s"
  shows "\<exists>s'. process_runs p s s' \<and> ps_closer s' = Ended"
  using ok_can_end [OF process_runs_ok [OF assms process_start_ok]] by (simp add: can_end_def)

section \<open>Witnesses\<close>

definition looping_provider :: "(gce_env pgdb_scheme) gce_provider" where
  "looping_provider = env_provider\<lparr>gp_idleChecker := Some 5, gp_vmScaler := Some 7\<rparr>"

theorem shutdown_possible_witness:
  "\<exists>s. process_runs looping_provider (process_start looping_provider (env_world [])) s \<and> ps_closer s = Ended"
  using shutdown_possible [of looping_provider "env_world []" "process_start looping_provider (env_world [])"]
  by (simp add: process_runs_def)

theorem shutdown_orderly_witness:
  "\<exists>s c vs. process_runs looping_provider (process_start looping_provider (env_world [])) s \<and> ps_closer s = Ended \<and>
     ps_checker s = Some c \<and> bg_at c = Returned \<and> ps_scaler s = Some vs \<and> bg_at vs = Returned"
proof -
  obtain s where s: "process_runs looping_provider (process_start looping_provider (env_world [])) s" "ps_closer s = Ended"
    using ok_can_end [OF process_start_ok, of looping_provider looping_provider "env_world []"] by (auto simp: can_end_def)
  from shutdown_orderly [OF s(1)] s show ?thesis
    by (auto simp: looping_provider_def checker_done_at_def scaler_done_at_def split: option.splits)
qed

end
