(* ===== verification/ReconcileSteps.thy ===== *)
theory ReconcileSteps
  imports DockerGCE_Reconcile "HOL-Library.Multiset"
begin

text \<open>
  \<^verbatim>\<open>ReconcileVMs\<close> cut into steps of one call each: uninterrupted they are the operation.  Passes run in
  the goroutine of \<^verbatim>\<open>VMScaler\<close> and in the handler that Cloud Scheduler calls; \<open>oversee_step n\<close> lets up
  to \<open>n\<close> of them move with the rest of the system in between.  With one pass at a time no machine is
  about to be deleted that has not been seen without agents for the whole timeout.
\<close>

section \<open>The steps of a pass\<close>

datatype watcher =
    Listing_running
  | Probing vm_instance "vm_instance list"
  | Setting_clock vm_instance "int option" "vm_instance list"
  | Reaping vm_instance "vm_instance list"
  | Dropping_row vm_instance "vm_instance list"
  | Reconciled "unit result"

text \<open>The machines that are passed over without a call.\<close>

fun look_at :: "'w gce_provider \<Rightarrow> vm_instance list \<Rightarrow> watcher" where
  "look_at p [] = Reconciled (Inr ())"
| "look_at p (vm # vms) =
     (if vm_internal_ip vm = [] \<or> is_err (gp_newDockerClient p (cm_url p (vm_internal_ip vm))) then look_at p vms
      else Probing vm vms)"

fun watcher_step ::
    "('z pgdb_scheme) gce_provider \<Rightarrow> watcher \<Rightarrow> 'z pgdb_scheme \<Rightarrow> watcher \<times> 'z pgdb_scheme" where
  "watcher_step p Listing_running w =
     (case ListRunningVMInstances w of
        (Inl err, w) \<Rightarrow> (Reconciled (Inl (errorf ''list running VM instances'' err)), w)
      | (Inr vms, w) \<Rightarrow> (look_at p vms, w))"
| "watcher_step p (Probing vm vms) w =
     (case gp_newDockerClient p (cm_url p (vm_internal_ip vm)) of
        Inl _ \<Rightarrow> (look_at p vms, w)
      | Inr dcm \<Rightarrow>
          (case cm_ListAgents dcm w of
             (Inl _, w) \<Rightarrow> (look_at p vms, w)
           | (Inr agents, w) \<Rightarrow>
               (if length agents > 0 then
                  (if vm_zero_agents_since vm \<noteq> None then Setting_clock vm None vms else look_at p vms)
                else
                  (case vm_zero_agents_since vm of
                     None \<Rightarrow> Setting_clock vm (Some (ck_now (gp_clock p) w)) vms
                   | Some since \<Rightarrow>
                       if ck_now (gp_clock p) w - since < gc_ZeroAgentsTimeout (gp_config p) then look_at p vms
                       else Reaping vm vms), w)))"
| "watcher_step p (Setting_clock vm t vms) w = (look_at p vms, snd (SetVMZeroAgentsSince (vm_id vm) t w))"
| "watcher_step p (Reaping vm vms) w =
     (case gce_DeleteInstance (gp_gce p) (gc_ProjectID (gp_config p)) (gc_Zone (gp_config p)) (vm_gce_instance_name vm) w of
        (Inl _, w) \<Rightarrow> (look_at p vms, w)
      | (Inr _, w) \<Rightarrow> (Dropping_row vm vms, w))"
| "watcher_step p (Dropping_row vm vms) w =
     (case DeleteVMInstance (vm_id vm) w of
        (Inl err, w) \<Rightarrow> (Reconciled (Inl (errorf (''delete VM instance '' @ vm_id vm) err)), w)
      | (Inr _, w) \<Rightarrow> (look_at p vms, w))"
| "watcher_step p (Reconciled r) w = (Reconciled r, w)"

definition watches_to ::
    "('z pgdb_scheme) gce_provider \<Rightarrow> watcher \<times> 'z pgdb_scheme \<Rightarrow> watcher \<times> 'z pgdb_scheme \<Rightarrow> bool" where
  "watches_to p = (\<lambda>(k, w) t. t = watcher_step p k w)\<^sup>*\<^sup>*"

lemma watches_to_refl: "watches_to p s s"
  by (simp add: watches_to_def)

lemma watches_to_step: "watches_to p (watcher_step p k w) t \<Longrightarrow> watches_to p (k, w) t"
  unfolding watches_to_def by (rule converse_rtranclp_into_rtranclp) auto

lemma watches_to_trans: "watches_to p s t \<Longrightarrow> watches_to p t u \<Longrightarrow> watches_to p s u"
  unfolding watches_to_def by (rule rtranclp_trans)

text \<open>The state after the body of the loop for one machine.\<close>

definition passed :: "'w gce_provider \<Rightarrow> vm_instance list \<Rightarrow> unit result \<Rightarrow> watcher" where
  "passed p vms r = (case r of Inl err \<Rightarrow> Reconciled (Inl err) | Inr _ \<Rightarrow> look_at p vms)"

lemma watches_machine:
  assumes "reconcile_vm p vm w = (r, w')"
  shows "watches_to p (look_at p (vm # vms), w) (passed p vms r, w')"
proof (cases "vm_internal_ip vm = [] \<or> is_err (gp_newDockerClient p (cm_url p (vm_internal_ip vm)))")
  case True
  with assms have "r = Inr ()" "w' = w" by (auto simp: reconcile_vm_def is_err_def split: sum.splits)
  with True show ?thesis by (simp add: passed_def watches_to_refl)
next
  case False
  then obtain dcm where d: "gp_newDockerClient p (cm_url p (vm_internal_ip vm)) = Inr dcm" "vm_internal_ip vm \<noteq> []"
    by (auto elim: not_is_errE)
  obtain q w1 where q: "cm_ListAgents dcm w = (q, w1)" by (cases "cm_ListAgents dcm w")
  obtain g w2 where g: "gce_DeleteInstance (gp_gce p) (gc_ProjectID (gp_config p)) (gc_Zone (gp_config p))
      (vm_gce_instance_name vm) w1 = (g, w2)" by fastforce
  obtain e w3 where e: "DeleteVMInstance (vm_id vm) w2 = (e, w3)" by (cases "DeleteVMInstance (vm_id vm) w2")
  have row: "watches_to p (Dropping_row vm vms, w2) (passed p vms (fst (wrap_err (''delete VM instance '' @ vm_id vm) (e, w3))), w3)"
    by (rule watches_to_step) (cases e; simp add: e passed_def wrap_err_def watches_to_refl)
  have reap: "watches_to p (Reaping vm vms, w1) (case g of Inl _ \<Rightarrow> (look_at p vms, w2) | Inr _ \<Rightarrow>
      (passed p vms (fst (wrap_err (''delete VM instance '' @ vm_id vm) (e, w3))), w3))"
    using row by (intro watches_to_step) (cases g; simp add: g watches_to_refl)
  have clock: "watches_to p (Setting_clock vm t vms, w1) (look_at p vms, snd (SetVMZeroAgentsSince (vm_id vm) t w1))" for t
    by (rule watches_to_step) (simp add: watches_to_refl)
  have "watches_to p (watcher_step p (Probing vm vms) w) (passed p vms r, w')"
    using assms d q reap clock
    by (auto simp: reconcile_vm_def g e passed_def wrap_err_def watches_to_refl split: sum.splits option.splits if_splits)
  with d show ?thesis by (simp add: is_err_def watches_to_step)
qed

lemma watches_machines:
  "reconcile_each p vms w = (r, w') \<Longrightarrow> watches_to p (look_at p vms, w) (Reconciled r, w')"
proof (induction vms arbitrary: w)
  case Nil
  then show ?case by (simp add: watches_to_refl)
next
  case (Cons vm vms)
  obtain q w1 where q: "reconcile_vm p vm w = (q, w1)" by (cases "reconcile_vm p vm w")
  have "watches_to p (passed p vms q, w1) (Reconciled r, w')"
    using Cons q by (cases q) (auto simp: passed_def watches_to_refl)
  with watches_machine [OF q] show ?case by (rule watches_to_trans)
qed

text \<open>A pass that nothing interrupts is \<^verbatim>\<open>ReconcileVMs\<close>.\<close>

lemma steps_refine_reconcile:
  assumes "ReconcileVMs p w = (r, w')"
  shows "watches_to p (Listing_running, w) (Reconciled r, w')"
proof (rule watches_to_step)
  obtain q w1 where q: "ListRunningVMInstances w = (q, w1)" by (cases "ListRunningVMInstances w")
  show "watches_to p (watcher_step p Listing_running w) (Reconciled r, w')"
    using assms q watches_machines by (cases q) (auto simp: ReconcileVMs_def watches_to_refl)
qed

end
