(* ===== verification/ReconcileSteps_Props.thy ===== *)
theory ReconcileSteps_Props
  imports ReconcileSteps
begin

text \<open>
  \<open>ReconcileVMs\<close> one call at a time, with everything else in between.  With one pass at a time, a
  machine about to be deleted has been without agents, at every answer, for the whole timeout.
\<close>

section \<open>Passes among other operations\<close>

text \<open>The machines a pass still has to do with.\<close>

fun at_hand :: "watcher \<Rightarrow> vm_instance list" where
  "at_hand (Probing vm vms) = vm # vms"
| "at_hand (Setting_clock vm t vms) = vm # vms"
| "at_hand (Reaping vm vms) = vm # vms"
| "at_hand (Dropping_row vm vms) = vm # vms"
| "at_hand _ = []"

text \<open>Between two calls the other operations may add, change and drop machines and their agents, but
  they leave the clock column alone, and a machine that gets an address gets a fresh one.\<close>

definition meanwhile ::
    "('z pgdb_scheme) gce_provider \<Rightarrow> (string \<Rightarrow> string) \<Rightarrow> ('z \<Rightarrow> string \<Rightarrow> observation list) \<Rightarrow>
     vm_instance set \<Rightarrow> 'z pgdb_scheme \<Rightarrow> 'z pgdb_scheme \<Rightarrow> bool" where
  "meanwhile p addr seen hand w w' \<longleftrightarrow> machines_ok addr w' \<and> seen (pgdb.more w') = seen (pgdb.more w) \<and>
     (\<forall>v' \<in> set (db_vms w'). vm_internal_ip v' \<noteq> [] \<longrightarrow>
        (\<exists>v \<in> set (db_vms w). vm_id v = vm_id v' \<and> vm_internal_ip v = vm_internal_ip v' \<and>
           vm_zero_agents_since v = vm_zero_agents_since v') \<or>
        (vm_zero_agents_since v' = None \<and> seen (pgdb.more w) (cm_url p (vm_internal_ip v')) = [] \<and>
           (\<forall>u \<in> hand. vm_internal_ip u \<noteq> [] \<longrightarrow> vm_id u \<noteq> vm_id v' \<and> vm_internal_ip u \<noteq> vm_internal_ip v')))"

inductive oversee_step ::
    "nat \<Rightarrow> ('z pgdb_scheme) gce_provider \<Rightarrow> (string \<Rightarrow> string) \<Rightarrow> ('z \<Rightarrow> string \<Rightarrow> observation list) \<Rightarrow>
     watcher multiset \<times> 'z pgdb_scheme \<Rightarrow> watcher multiset \<times> 'z pgdb_scheme \<Rightarrow> bool"
  for n p addr seen where
  pass_begins: "size R < n \<Longrightarrow> oversee_step n p addr seen (R, w) (add_mset Listing_running R, w)"
| pass_moves: "watcher_step p k w = (k', w') \<Longrightarrow>
    oversee_step n p addr seen (add_mset k R, w) (add_mset k' R, w')"
| pass_ends: "oversee_step n p addr seen (add_mset (Reconciled r) R, w) (R, w)"
| others_move: "meanwhile p addr seen (\<Union>k \<in> set_mset R. set (at_hand k)) w w' \<Longrightarrow>
    oversee_step n p addr seen (R, w) (R, w')"

definition oversees ::
    "nat \<Rightarrow> ('z pgdb_scheme) gce_provider \<Rightarrow> (string \<Rightarrow> string) \<Rightarrow> ('z \<Rightarrow> string \<Rightarrow> observation list) \<Rightarrow>
     watcher multiset \<times> 'z pgdb_scheme \<Rightarrow> watcher multiset \<times> 'z pgdb_scheme \<Rightarrow> bool" where
  "oversees n p addr seen = (oversee_step n p addr seen)\<^sup>*\<^sup>*"

definition unobserved :: "(string \<Rightarrow> string) \<Rightarrow> ('z \<Rightarrow> string \<Rightarrow> observation list) \<Rightarrow> 'z pgdb_scheme \<Rightarrow> bool" where
  "unobserved addr seen w \<longleftrightarrow> machines_ok addr w \<and> (\<forall>v \<in> set (db_vms w). vm_zero_agents_since v = None) \<and>
     (\<forall>u. seen (pgdb.more w) u = [])"

text \<open>The last answers of a container-manager, over at least the timeout, were all that there are no agents.\<close>

definition idle_lately :: "int \<Rightarrow> observation list \<Rightarrow> bool" where
  "idle_lately timeout obs \<longleftrightarrow> (\<exists>pre t c rest d c'. obs = pre @ (t, c) # rest @ [(d, c')] \<and> c \<le> 0 \<and> c' \<le> 0 \<and>
     (\<forall>(n, k) \<in> set rest. k \<le> 0) \<and> timeout \<le> d - t)"

lemma idle_lately_reap:
  assumes "snd (reconcile_observe timeout now n (reconcile.after timeout os None))"
  shows "idle_lately timeout (os @ [(now, n)])"
  using reconcile.reap_sound [OF assms] unfolding idle_lately_def by force

lemma idle_lately_busy:
  assumes "0 < snd x"
  shows "\<not> idle_lately timeout (os @ [x, y])"
proof
  assume "idle_lately timeout (os @ [x, y])"
  then obtain pre t c rest d c' where eq: "os @ [x, y] = pre @ (t, c) # rest @ [(d, c')]" and zero: "c \<le> 0"
    "\<forall>(n, k) \<in> set rest. k \<le> 0" unfolding idle_lately_def by blast
  have "x \<in> set ((t, c) # rest)" using eq by (cases rest rule: rev_cases) auto
  with zero assms show False by auto
qed

section \<open>The invariant of a pass\<close>

abbreviation clock_at :: "('z pgdb_scheme) gce_provider \<Rightarrow> ('z \<Rightarrow> string \<Rightarrow> observation list) \<Rightarrow> 'z pgdb_scheme \<Rightarrow> string \<Rightarrow> int option" where
  "clock_at p seen w ip \<equiv> reconcile.after (gc_ZeroAgentsTimeout (gp_config p)) (seen (pgdb.more w) (cm_url p ip)) None"

text \<open>The clock that a pass is about to store.\<close>

fun stored :: "watcher \<Rightarrow> vm_instance \<Rightarrow> int option" where
  "stored (Setting_clock u t vms) v = (if vm_id u = vm_id v then t else vm_zero_agents_since v)"
| "stored _ v = vm_zero_agents_since v"

fun to_probe :: "watcher \<Rightarrow> vm_instance list" where
  "to_probe (Probing vm vms) = vm # vms"
| "to_probe k = tl (at_hand k)"

definition rows_agree ::
    "('z pgdb_scheme) gce_provider \<Rightarrow> ('z \<Rightarrow> string \<Rightarrow> observation list) \<Rightarrow> watcher \<Rightarrow> 'z pgdb_scheme \<Rightarrow> bool" where
  "rows_agree p seen k w \<longleftrightarrow>
     (\<forall>v \<in> set (db_vms w). vm_internal_ip v \<noteq> [] \<longrightarrow> stored k v = clock_at p seen w (vm_internal_ip v))"

definition hand_ok :: "('z pgdb_scheme) gce_provider \<Rightarrow> ('z \<Rightarrow> string \<Rightarrow> observation list) \<Rightarrow> watcher \<Rightarrow> 'z pgdb_scheme \<Rightarrow> bool" where
  "hand_ok p seen k w \<longleftrightarrow>
     distinct (map vm_internal_ip (filter (\<lambda>v. vm_internal_ip v \<noteq> []) (at_hand k))) \<and>
     (\<forall>u \<in> set (to_probe k). vm_internal_ip u \<noteq> [] \<longrightarrow> vm_zero_agents_since u = clock_at p seen w (vm_internal_ip u)) \<and>
     (\<forall>u \<in> set (at_hand k). vm_internal_ip u \<noteq> [] \<longrightarrow>
        (\<forall>v \<in> set (db_vms w). vm_internal_ip v \<noteq> [] \<longrightarrow> vm_internal_ip v = vm_internal_ip u \<longleftrightarrow> vm_id v = vm_id u))"

definition pass_ok ::
    "('z pgdb_scheme) gce_provider \<Rightarrow> (string \<Rightarrow> string) \<Rightarrow> ('z \<Rightarrow> string \<Rightarrow> observation list) \<Rightarrow> watcher \<Rightarrow>
     'z pgdb_scheme \<Rightarrow> bool" where
  "pass_ok p addr seen k w \<longleftrightarrow> machines_ok addr w \<and> rows_agree p seen k w \<and> hand_ok p seen k w \<and>
     (\<forall>u t vms. k = Setting_clock u t vms \<longrightarrow> vm_internal_ip u \<noteq> []) \<and>
     (\<forall>u vms. k = Probing u vms \<longrightarrow> vm_internal_ip u \<noteq> []) \<and>
     (\<forall>u vms. k = Reaping u vms \<longrightarrow>
        idle_lately (gc_ZeroAgentsTimeout (gp_config p)) (seen (pgdb.more w) (cm_url p (vm_internal_ip u))))"

text \<open>What is left of the list once the machine at its head is done with, or passed over.\<close>

definition rest_ok :: "('z pgdb_scheme) gce_provider \<Rightarrow> ('z \<Rightarrow> string \<Rightarrow> observation list) \<Rightarrow> vm_instance list \<Rightarrow> 'z pgdb_scheme \<Rightarrow> bool" where
  "rest_ok p seen vms w \<longleftrightarrow>
     distinct (map vm_internal_ip (filter (\<lambda>v. vm_internal_ip v \<noteq> []) vms)) \<and>
     (\<forall>u \<in> set vms. vm_internal_ip u \<noteq> [] \<longrightarrow> vm_zero_agents_since u = clock_at p seen w (vm_internal_ip u) \<and>
        (\<forall>v \<in> set (db_vms w). vm_internal_ip v \<noteq> [] \<longrightarrow> vm_internal_ip v = vm_internal_ip u \<longleftrightarrow> vm_id v = vm_id u))"

lemma pass_ok_look_at:
  assumes "machines_ok addr w" and "\<forall>v \<in> set (db_vms w). vm_internal_ip v \<noteq> [] \<longrightarrow>
      vm_zero_agents_since v = clock_at p seen w (vm_internal_ip v)" and "rest_ok p seen vms w"
  shows "pass_ok p addr seen (look_at p vms) w"
  using assms(3)
proof (induction vms)
  case Nil
  then show ?case using assms(1,2) by (simp add: pass_ok_def rows_agree_def hand_ok_def)
next
  case (Cons vm vms)
  have "rest_ok p seen vms w" using Cons.prems by (auto simp: rest_ok_def split: if_splits)
  note ih = Cons.IH [OF this]
  show ?case
  proof (cases "vm_internal_ip vm = [] \<or> is_err (gp_newDockerClient p (cm_url p (vm_internal_ip vm)))")
    case False
    then have "look_at p (vm # vms) = Probing vm vms" "vm_internal_ip vm \<noteq> []" by simp_all
    with assms(1,2) Cons.prems show ?thesis by (auto simp: pass_ok_def rows_agree_def hand_ok_def rest_ok_def)
  qed (use ih in simp)
qed

lemma pass_ok_rest:
  assumes "pass_ok p addr seen k w" and "at_hand k = u # vms"
  shows "rest_ok p seen vms w"
  using assms by (cases k) (auto simp: pass_ok_def hand_ok_def rest_ok_def split: if_splits)

section \<open>Every step keeps it\<close>

lemma machines_ok_address:
  assumes "machines_ok addr w" and "inj addr" and "u \<in> set (db_vms w)" and "v \<in> set (db_vms w)"
    and "vm_internal_ip u \<noteq> []"
  shows "vm_internal_ip v = vm_internal_ip u \<longleftrightarrow> vm_id v = vm_id u"
  using machines_ok_addr [OF assms(1-5)] machines_ok_id [OF assms(1,4,3)] by auto

lemma pass_ok_listing:
  assumes ok: "pass_ok p addr seen Listing_running w" and inj: "inj addr"
    and step: "watcher_step p Listing_running w = (k', w')"
  shows "pass_ok p addr seen k' w'"
proof -
  let ?vms = "sort_key vm_created_at (filter (\<lambda>v. vm_status v = ''running'') (db_vms w))"
  have m: "machines_ok addr w" and rows: "\<forall>v \<in> set (db_vms w). vm_internal_ip v \<noteq> [] \<longrightarrow>
      vm_zero_agents_since v = clock_at p seen w (vm_internal_ip v)"
    using ok by (simp_all add: pass_ok_def rows_agree_def)
  have k': "k' = look_at p ?vms" "w' = w"
    using step m by (auto simp: ListRunningVMInstances_def machines_ok_def)
  have "distinct ?vms" using m by (simp add: machines_ok_def distinct_map)
  moreover have "inj_on vm_internal_ip (set (filter (\<lambda>v. vm_internal_ip v \<noteq> []) ?vms))"
    using machines_ok_addr [OF m inj] by (auto intro!: inj_onI)
  ultimately have "distinct (map vm_internal_ip (filter (\<lambda>v. vm_internal_ip v \<noteq> []) ?vms))"
    by (simp add: distinct_map)
  then have "rest_ok p seen ?vms w"
    using rows machines_ok_address [OF m inj] by (auto simp: rest_ok_def)
  from pass_ok_look_at [OF m rows this] k' show ?thesis by simp
qed

text \<open>An answer is entered in the log of its container-manager; the clocks of the other machines and of the
  rest of the list stay right, that of the machine is what the decision says.\<close>

lemma answer_noted:
  assumes hand: "rest_ok p seen (u # vms) w" and ip: "vm_internal_ip u \<noteq> []"
    and rows: "\<forall>v \<in> set (db_vms w). vm_internal_ip v \<noteq> [] \<longrightarrow> vm_zero_agents_since v = clock_at p seen w (vm_internal_ip v)"
    and vms: "db_vms w1 = db_vms w"
    and seen: "seen (pgdb.more w1) = (seen (pgdb.more w)) (cm_url p (vm_internal_ip u) :=
      seen (pgdb.more w) (cm_url p (vm_internal_ip u)) @ [(now, c)])"
    and obs: "reconcile_observe (gc_ZeroAgentsTimeout (gp_config p)) now c (vm_zero_agents_since u) = (since, reap)"
  shows "rest_ok p seen vms w1"
    and "\<forall>v \<in> set (db_vms w1). vm_internal_ip v \<noteq> [] \<longrightarrow>
      (if vm_id v = vm_id u then since else vm_zero_agents_since v) = clock_at p seen w1 (vm_internal_ip v)"
    and "since = vm_zero_agents_since u \<Longrightarrow> \<forall>v \<in> set (db_vms w1). vm_internal_ip v \<noteq> [] \<longrightarrow>
      vm_zero_agents_since v = clock_at p seen w1 (vm_internal_ip v)"
    and "reap \<Longrightarrow> idle_lately (gc_ZeroAgentsTimeout (gp_config p)) (seen (pgdb.more w1) (cm_url p (vm_internal_ip u)))"
proof -
  let ?T = "gc_ZeroAgentsTimeout (gp_config p)" and ?url = "cm_url p (vm_internal_ip u)"
  have other: "clock_at p seen w1 x = clock_at p seen w x" if "x \<noteq> vm_internal_ip u" for x
    using that by (simp add: seen cm_url_inj)
  have old: "vm_zero_agents_since u = clock_at p seen w (vm_internal_ip u)" using hand ip by (simp add: rest_ok_def)
  have new: "clock_at p seen w1 (vm_internal_ip u) = since" using obs by (simp add: seen reconcile.after_append old)
  show "rest_ok p seen vms w1" using hand ip vms other by (auto simp: rest_ok_def image_iff)
  show all: "\<forall>v \<in> set (db_vms w1). vm_internal_ip v \<noteq> [] \<longrightarrow>
      (if vm_id v = vm_id u then since else vm_zero_agents_since v) = clock_at p seen w1 (vm_internal_ip v)"
    using hand ip rows vms other new by (auto simp: rest_ok_def)
  show "\<forall>v \<in> set (db_vms w1). vm_internal_ip v \<noteq> [] \<longrightarrow> vm_zero_agents_since v = clock_at p seen w1 (vm_internal_ip v)"
    if since: "since = vm_zero_agents_since u"
  proof (intro ballI impI)
    fix v assume v: "v \<in> set (db_vms w1)" "vm_internal_ip v \<noteq> []"
    show "vm_zero_agents_since v = clock_at p seen w1 (vm_internal_ip v)"
      using v rows vms old new since other by (cases "vm_internal_ip v = vm_internal_ip u") simp_all
  qed
  show "idle_lately ?T (seen (pgdb.more w1) ?url)" if reap
    using idle_lately_reap [of ?T now c "seen (pgdb.more w) ?url"] obs that by (simp add: seen old)
qed

text \<open>What the pass does next is what \<open>reconcile_observe\<close> says.\<close>

lemma probing_decides:
  assumes "gp_newDockerClient p (cm_url p (vm_internal_ip u)) = Inr dcm" and "cm_ListAgents dcm w = (Inr agents, w1)"
    and "watcher_step p (Probing u vms) w = (k', w')"
    and "reconcile_observe (gc_ZeroAgentsTimeout (gp_config p)) (ck_now (gp_clock p) w1) (int (length agents))
      (vm_zero_agents_since u) = (since, reap)"
  shows "k' = (if reap then Reaping u vms else if since = vm_zero_agents_since u then look_at p vms
      else Setting_clock u since vms)" and "w' = w1" and "reap \<Longrightarrow> since = vm_zero_agents_since u"
  using assms by (auto simp: reconcile_observe_def split: option.splits if_splits)

lemma pass_ok_answered:
  assumes out: "reconcile_outside p seen deletions" and ok: "pass_ok p addr seen (Probing u vms) w"
    and d: "gp_newDockerClient p (cm_url p (vm_internal_ip u)) = Inr dcm" and l: "cm_ListAgents dcm w = (Inr agents, w1)"
    and step: "watcher_step p (Probing u vms) w = (k', w')"
  shows "pass_ok p addr seen k' w'"
proof -
  have ip: "vm_internal_ip u \<noteq> []" and rows: "\<forall>v \<in> set (db_vms w). vm_internal_ip v \<noteq> [] \<longrightarrow>
      vm_zero_agents_since v = clock_at p seen w (vm_internal_ip v)"
    using ok by (simp_all add: pass_ok_def rows_agree_def)
  have hand: "rest_ok p seen (u # vms) w"
    using ok unfolding pass_ok_def hand_ok_def rest_ok_def at_hand.simps to_probe.simps by blast
  have o: "db_vms w1 = db_vms w" "db_faults w1 = db_faults w"
    "seen (pgdb.more w1) = (seen (pgdb.more w)) (cm_url p (vm_internal_ip u) :=
      seen (pgdb.more w) (cm_url p (vm_internal_ip u)) @ [(ck_now (gp_clock p) w1, int (length agents))])"
    using out d l unfolding reconcile_outside_def by fastforce+
  have m1: "machines_ok addr w1" using ok o by (simp add: pass_ok_def machines_ok_def)
  obtain since reap where obs: "reconcile_observe (gc_ZeroAgentsTimeout (gp_config p)) (ck_now (gp_clock p) w1)
      (int (length agents)) (vm_zero_agents_since u) = (since, reap)" by fastforce
  note k = probing_decides [OF d l step obs] and A = answer_noted [OF hand ip rows o(1,3) obs]
  have hand1: "distinct (map vm_internal_ip (filter (\<lambda>v. vm_internal_ip v \<noteq> []) (u # vms)))"
    "\<forall>x \<in> set (u # vms). vm_internal_ip x \<noteq> [] \<longrightarrow>
      (\<forall>v \<in> set (db_vms w1). vm_internal_ip v \<noteq> [] \<longrightarrow> vm_internal_ip v = vm_internal_ip x \<longleftrightarrow> vm_id v = vm_id x)"
    using hand o(1) unfolding rest_ok_def by simp_all
  consider "reap" | "\<not> reap" "since = vm_zero_agents_since u" | "\<not> reap" "since \<noteq> vm_zero_agents_since u" by blast
  then show ?thesis
  proof cases
    case 1
    have "k' = Reaping u vms" "w' = w1" using k(1,2) 1 by simp_all
    with A(1) A(3) [OF k(3) [OF 1]] A(4) [OF 1] m1 hand1 show ?thesis
      by (simp add: pass_ok_def rows_agree_def hand_ok_def rest_ok_def)
  next
    case 2
    with k pass_ok_look_at [OF m1 A(3) A(1)] show ?thesis by simp
  next
    case 3
    have "k' = Setting_clock u since vms" "w' = w1" using k(1,2) 3 by simp_all
    with A(1,2) m1 hand1 ip show ?thesis by (simp add: pass_ok_def rows_agree_def hand_ok_def rest_ok_def eq_commute)
  qed
qed

lemma pass_ok_probing:
  assumes out: "reconcile_outside p seen deletions" and ok: "pass_ok p addr seen (Probing u vms) w"
    and step: "watcher_step p (Probing u vms) w = (k', w')"
  shows "pass_ok p addr seen k' w'"
proof (cases "\<exists>dcm agents w1. gp_newDockerClient p (cm_url p (vm_internal_ip u)) = Inr dcm \<and> cm_ListAgents dcm w = (Inr agents, w1)")
  case True
  then show ?thesis using pass_ok_answered [OF out ok _ _ step] by blast
next
  case False
  then have k': "k' = look_at p vms" and "w' = w \<or> (\<exists>dcm e. gp_newDockerClient p (cm_url p (vm_internal_ip u)) = Inr dcm \<and>
      cm_ListAgents dcm w = (Inl e, w'))"
    using step by (auto split: sum.splits prod.splits)
  then have o: "db_vms w' = db_vms w \<and> db_faults w' = db_faults w \<and> seen (pgdb.more w') = seen (pgdb.more w)"
  proof (elim disjE exE conjE)
    fix dcm e
    assume "gp_newDockerClient p (cm_url p (vm_internal_ip u)) = Inr dcm" and "cm_ListAgents dcm w = (Inl e, w')"
    with out show ?thesis unfolding reconcile_outside_def by fastforce
  qed simp
  have "rest_ok p seen vms w'" using pass_ok_rest [OF ok] o by (simp add: rest_ok_def)
  moreover have "machines_ok addr w'" "\<forall>v \<in> set (db_vms w'). vm_internal_ip v \<noteq> [] \<longrightarrow>
      vm_zero_agents_since v = clock_at p seen w' (vm_internal_ip v)"
    using ok o by (simp_all add: pass_ok_def rows_agree_def machines_ok_def)
  ultimately show ?thesis unfolding k' by (intro pass_ok_look_at)
qed

lemma rest_ok_kept:
  assumes "rest_ok p seen vms w" and "seen (pgdb.more w') = seen (pgdb.more w)"
    and rows: "\<And>v'. v' \<in> set (db_vms w') \<Longrightarrow> \<exists>v \<in> set (db_vms w). vm_id v = vm_id v' \<and> vm_internal_ip v = vm_internal_ip v'"
  shows "rest_ok p seen vms w'"
proof -
  have "vm_internal_ip v' = vm_internal_ip u \<longleftrightarrow> vm_id v' = vm_id u"
    if "u \<in> set vms" "vm_internal_ip u \<noteq> []" "v' \<in> set (db_vms w')" "vm_internal_ip v' \<noteq> []" for u v'
  proof -
    from rows [OF that(3)] obtain v where "v \<in> set (db_vms w)" "vm_id v = vm_id v'" "vm_internal_ip v = vm_internal_ip v'"
      by blast
    with assms(1) that(1,2,4) show ?thesis by (simp add: rest_ok_def) (metis (no_types))
  qed
  with assms(1,2) show ?thesis by (simp add: rest_ok_def)
qed

lemma pass_ok_setting:
  assumes ok: "pass_ok p addr seen (Setting_clock u t vms) w"
    and step: "watcher_step p (Setting_clock u t vms) w = (k', w')"
  shows "pass_ok p addr seen k' w'"
proof -
  let ?f = "\<lambda>v. if vm_id v = vm_id u then v\<lparr>vm_zero_agents_since := t\<rparr> else v"
  have m: "machines_ok addr w" and rows: "\<forall>v \<in> set (db_vms w). vm_internal_ip v \<noteq> [] \<longrightarrow>
      (if vm_id u = vm_id v then t else vm_zero_agents_since v) = clock_at p seen w (vm_internal_ip v)"
    using ok by (simp_all add: pass_ok_def rows_agree_def)
  have rest: "rest_ok p seen vms w" using pass_ok_rest [OF ok] by simp
  have k': "k' = look_at p vms" and w': "w' = w\<lparr>db_vms := map ?f (db_vms w)\<rparr>"
    using step m by (auto simp: SetVMZeroAgentsSince_def machines_ok_def update_where_def)
  have face: "map vm_id (map ?f vs) = map vm_id vs" "map vm_gce_instance_name (map ?f vs) = map vm_gce_instance_name vs" for vs
    by simp_all
  have "machines_ok addr w'" using m by (auto simp: machines_ok_def w' face simp del: map_map)
  moreover have "\<forall>v \<in> set (db_vms w'). vm_internal_ip v \<noteq> [] \<longrightarrow> vm_zero_agents_since v = clock_at p seen w' (vm_internal_ip v)"
    using rows by (auto simp: w')
  moreover have "rest_ok p seen vms w'" by (rule rest_ok_kept [OF rest]) (auto simp: w')
  ultimately show ?thesis unfolding k' by (rule pass_ok_look_at)
qed

lemma pass_ok_reaping:
  assumes out: "reconcile_outside p seen deletions" and ok: "pass_ok p addr seen (Reaping u vms) w"
    and step: "watcher_step p (Reaping u vms) w = (k', w')"
  shows "pass_ok p addr seen k' w'"
proof -
  obtain g w1 where g: "gce_DeleteInstance (gp_gce p) (gc_ProjectID (gp_config p)) (gc_Zone (gp_config p))
      (vm_gce_instance_name u) w = (g, w1)" by fastforce
  have o: "db_vms w1 = db_vms w" "db_faults w1 = db_faults w" "seen (pgdb.more w1) = seen (pgdb.more w)"
    using out g unfolding reconcile_outside_def by blast+
  have k': "w' = w1" "k' = look_at p vms \<or> k' = Dropping_row u vms" using step g by (auto split: sum.splits)
  have rest: "rest_ok p seen vms w1" using pass_ok_rest [OF ok] o by (simp add: rest_ok_def)
  have "machines_ok addr w1" "\<forall>v \<in> set (db_vms w1). vm_internal_ip v \<noteq> [] \<longrightarrow>
      vm_zero_agents_since v = clock_at p seen w1 (vm_internal_ip v)"
    using ok o by (simp_all add: pass_ok_def rows_agree_def machines_ok_def)
  note next_ok = pass_ok_look_at [OF this rest]
  have "hand_ok p seen (Dropping_row u vms) w1"
    using ok o unfolding pass_ok_def hand_ok_def at_hand.simps to_probe.simps by simp
  with \<open>machines_ok addr w1\<close> ok o(1,3) have "pass_ok p addr seen (Dropping_row u vms) w1"
    by (simp add: pass_ok_def rows_agree_def)
  with next_ok k' show ?thesis by blast
qed

lemma pass_ok_dropping:
  assumes ok: "pass_ok p addr seen (Dropping_row u vms) w"
    and step: "watcher_step p (Dropping_row u vms) w = (k', w')"
  shows "pass_ok p addr seen k' w'"
proof -
  obtain q w1 where q: "DeleteVMInstance (vm_id u) w = (q, w1)" by (cases "DeleteVMInstance (vm_id u) w")
  have m: "machines_ok addr w" using ok by (simp add: pass_ok_def)
  note d = DeleteVMInstance_rows [OF m q]
  have k': "w' = w1" "k' = look_at p vms \<or> (\<exists>err. k' = Reconciled (Inl err))" using step q by (auto split: sum.splits)
  have rest: "rest_ok p seen vms w1" using pass_ok_rest [OF ok] d by (auto simp: rest_ok_def)
  have rows: "\<forall>v \<in> set (db_vms w1). vm_internal_ip v \<noteq> [] \<longrightarrow>
      vm_zero_agents_since v = clock_at p seen w1 (vm_internal_ip v)"
    using ok d by (auto simp: pass_ok_def rows_agree_def)
  have m1: "machines_ok addr w1" using d by simp
  from pass_ok_look_at [OF m1 rows rest] k' m1 rows show ?thesis
    by (auto simp: pass_ok_def rows_agree_def hand_ok_def)
qed

lemma pass_ok_step:
  assumes "reconcile_outside p seen deletions" and "inj addr" and "pass_ok p addr seen k w"
    and "watcher_step p k w = (k', w')"
  shows "pass_ok p addr seen k' w'"
  using assms(3,4)
  by (cases k) (auto dest: pass_ok_listing [OF _ assms(2)] pass_ok_probing [OF assms(1)] pass_ok_reaping [OF assms(1)]
      pass_ok_dropping pass_ok_setting simp del: watcher_step.simps(1-5))

lemma stored_cases: "stored k v = (case k of Setting_clock u t vms \<Rightarrow> if vm_id u = vm_id v then t else vm_zero_agents_since v
    | _ \<Rightarrow> vm_zero_agents_since v)"
  by (cases k) simp_all

lemma pass_ok_meanwhile:
  assumes ok: "pass_ok p addr seen k w" and others: "meanwhile p addr seen (set (at_hand k)) w w'"
  shows "pass_ok p addr seen k w'"
proof -
  have m: "machines_ok addr w'" and seen: "seen (pgdb.more w') = seen (pgdb.more w)"
    using others by (simp_all add: meanwhile_def)
  have cases: "(\<exists>v \<in> set (db_vms w). vm_id v = vm_id v' \<and> vm_internal_ip v = vm_internal_ip v' \<and>
      vm_zero_agents_since v = vm_zero_agents_since v') \<or>
      (vm_zero_agents_since v' = None \<and> seen (pgdb.more w) (cm_url p (vm_internal_ip v')) = [] \<and>
       (\<forall>u \<in> set (at_hand k). vm_internal_ip u \<noteq> [] \<longrightarrow> vm_id u \<noteq> vm_id v' \<and> vm_internal_ip u \<noteq> vm_internal_ip v'))"
    if "v' \<in> set (db_vms w')" "vm_internal_ip v' \<noteq> []" for v'
    using others that unfolding meanwhile_def by blast
  have "stored k v' = clock_at p seen w' (vm_internal_ip v')" if v': "v' \<in> set (db_vms w')" "vm_internal_ip v' \<noteq> []" for v'
    using cases [OF v']
  proof
    assume "\<exists>v \<in> set (db_vms w). vm_id v = vm_id v' \<and> vm_internal_ip v = vm_internal_ip v' \<and>
      vm_zero_agents_since v = vm_zero_agents_since v'"
    then obtain v where v: "v \<in> set (db_vms w)" "vm_id v = vm_id v'" "vm_internal_ip v = vm_internal_ip v'"
      "vm_zero_agents_since v = vm_zero_agents_since v'" by blast
    have "stored k v' = stored k v" using v(2,4) by (simp add: stored_cases split: watcher.split)
    with ok v v' show ?thesis by (simp add: pass_ok_def rows_agree_def seen)
  next
    assume new: "vm_zero_agents_since v' = None \<and> seen (pgdb.more w) (cm_url p (vm_internal_ip v')) = [] \<and>
       (\<forall>u \<in> set (at_hand k). vm_internal_ip u \<noteq> [] \<longrightarrow> vm_id u \<noteq> vm_id v' \<and> vm_internal_ip u \<noteq> vm_internal_ip v')"
    then have "stored k v' = None" using ok by (cases k) (auto simp: pass_ok_def)
    with new show ?thesis by (simp add: seen)
  qed
  then have rows: "rows_agree p seen k w'" by (simp add: rows_agree_def)
  have "vm_internal_ip v' = vm_internal_ip u \<longleftrightarrow> vm_id v' = vm_id u"
    if "u \<in> set (at_hand k)" "vm_internal_ip u \<noteq> []" "v' \<in> set (db_vms w')" "vm_internal_ip v' \<noteq> []" for u v'
    using cases [OF that(3,4)] ok that(1,2,4) by (auto simp: pass_ok_def hand_ok_def) (metis (no_types))+
  then have "hand_ok p seen k w'" using ok by (simp add: pass_ok_def hand_ok_def seen)
  with m rows ok show ?thesis by (simp add: pass_ok_def seen)
qed

section \<open>The others\<close>

text \<open>The statements of requests, of the clean-up and of deletions of conversations are such moves.\<close>

definition vm_key :: "vm_instance \<Rightarrow> string \<times> string \<times> string \<times> int option" where
  "vm_key v = (vm_id v, vm_gce_instance_name v, vm_internal_ip v, vm_zero_agents_since v)"

lemma meanwhile_kept:
  assumes ok: "machines_ok addr w" and "db_faults w' = []" and "pgdb.more w' = pgdb.more w"
    and vms: "map vm_key (db_vms w') = map vm_key (db_vms w)"
  shows "meanwhile p addr seen hand w w'"
proof -
  have "map vm_id (db_vms w') = map vm_id (db_vms w) \<and> map vm_gce_instance_name (db_vms w') = map vm_gce_instance_name (db_vms w)"
    using arg_cong [OF vms, of "map fst"] arg_cong [OF vms, of "map (fst \<circ> snd)"] by (simp add: vm_key_def comp_def)
  moreover have row: "\<exists>v \<in> set (db_vms w). vm_key v = vm_key v'" if "v' \<in> set (db_vms w')" for v'
  proof -
    have "vm_key v' \<in> set (map vm_key (db_vms w'))" using that by simp
    then have "vm_key v' \<in> set (map vm_key (db_vms w))" by (simp only: vms)
    then show ?thesis by auto
  qed
  ultimately have m: "machines_ok addr w'"
    using assms(1,2) row unfolding machines_ok_def vm_key_def by (simp only:) fastforce
  have "\<exists>v \<in> set (db_vms w). vm_id v = vm_id v' \<and> vm_internal_ip v = vm_internal_ip v' \<and>
      vm_zero_agents_since v = vm_zero_agents_since v'" if "v' \<in> set (db_vms w')" for v'
    using row [OF that] by (auto simp: vm_key_def)
  with m assms(3) show ?thesis by (simp add: meanwhile_def)
qed

lemma update_where_key: "(\<And>v. vm_key (f v) = vm_key v) \<Longrightarrow> map vm_key (update_where P f vs) = map vm_key vs"
  by (simp add: update_where_def)

lemma statements_meanwhile:
  assumes "machines_ok addr w"
  shows "meanwhile p addr seen hand w (snd (IncrementVMActiveContainers i w))"
    and "meanwhile p addr seen hand w (snd (DecrementVMActiveContainers i w))"
    and "meanwhile p addr seen hand w (snd (UpdateVMInstanceStatus i status w))"
    and "meanwhile p addr seen hand w (snd (CreateSessionEndpoint c i name port w))"
    and "meanwhile p addr seen hand w (snd (DeleteSessionEndpoint e w))"
    and "meanwhile p addr seen hand w (snd (DeleteConversation c w))"
  using assms
  by (auto intro!: meanwhile_kept update_where_key simp: machines_ok_def IncrementVMActiveContainers_def
      DecrementVMActiveContainers_def UpdateVMInstanceStatus_def CreateSessionEndpoint_def DeleteSessionEndpoint_def
      DeleteConversation_def draw_uuid_def vm_key_def Let_def)

lemma machine_statements_meanwhile:
  assumes ok: "machines_ok addr w"
  shows "meanwhile p addr seen hand w (snd (CreateVMInstance n zone [] w))"
    and "meanwhile p addr seen hand w (snd (DeleteVMInstance i w))"
proof -
  show "meanwhile p addr seen hand w (snd (CreateVMInstance n zone [] w))"
    using ok by (auto simp: CreateVMInstance_def meanwhile_def machines_ok_def draw_uuid_def Let_def)
  obtain r w' where d: "DeleteVMInstance i w = (r, w')" by (cases "DeleteVMInstance i w")
  from DeleteVMInstance_rows [OF ok d] d show "meanwhile p addr seen hand w (snd (DeleteVMInstance i w))"
    by (auto simp: meanwhile_def)
qed

section \<open>One pass at a time\<close>

definition overseen_ok ::
    "('z pgdb_scheme) gce_provider \<Rightarrow> (string \<Rightarrow> string) \<Rightarrow> ('z \<Rightarrow> string \<Rightarrow> observation list) \<Rightarrow>
     watcher multiset \<times> 'z pgdb_scheme \<Rightarrow> bool" where
  "overseen_ok p addr seen = (\<lambda>(R, w). \<exists>k. (R = {#k#} \<or> R = {#} \<and> at_hand k = []) \<and> pass_ok p addr seen k w)"

lemma pass_ok_between:
  assumes "pass_ok p addr seen k w" and "at_hand k = []" and "at_hand k' = []"
  shows "pass_ok p addr seen k' w"
  using assms by (cases k; cases k'; simp add: pass_ok_def rows_agree_def hand_ok_def)

lemma overseen_ok_step:
  assumes out: "reconcile_outside p seen deletions" and inj: "inj addr" and ok: "overseen_ok p addr seen S"
    and step: "oversee_step 1 p addr seen S S'"
  shows "overseen_ok p addr seen S'"
  using step
proof (cases rule: oversee_step.cases)
  case (pass_begins R w)
  with ok obtain k where "at_hand k = []" "pass_ok p addr seen k w" "R = {#}" by (auto simp: overseen_ok_def)
  with pass_begins pass_ok_between [of p addr seen k w Listing_running] show ?thesis by (auto simp: overseen_ok_def)
next
  case (pass_moves k w k' w' R)
  with ok have "pass_ok p addr seen k w" "R = {#}" by (auto simp: overseen_ok_def)
  with pass_moves pass_ok_step [OF out inj] show ?thesis by (auto simp: overseen_ok_def)
next
  case (pass_ends r R w)
  with ok have "pass_ok p addr seen (Reconciled r) w" "R = {#}" by (auto simp: overseen_ok_def)
  with pass_ends show ?thesis by (auto simp: overseen_ok_def intro!: exI [of _ "Reconciled r"])
next
  case (others_move R w w')
  with ok obtain k where "R = {#k#} \<or> R = {#} \<and> at_hand k = []" "pass_ok p addr seen k w"
    by (auto simp: overseen_ok_def)
  with others_move pass_ok_meanwhile [of p addr seen k w w'] show ?thesis by (auto simp: overseen_ok_def)
qed

lemma overseen_ok_start: "unobserved addr seen w \<Longrightarrow> overseen_ok p addr seen ({#}, w)"
  by (auto simp: unobserved_def overseen_ok_def pass_ok_def rows_agree_def hand_ok_def intro!: exI [of _ Listing_running])

lemma overseen_ok_oversees:
  assumes "reconcile_outside p seen deletions" and "inj addr" and "unobserved addr seen w0"
    and "oversees 1 p addr seen ({#}, w0) S"
  shows "overseen_ok p addr seen S"
  using assms(4) unfolding oversees_def
  by (induction rule: rtranclp_induct) (auto intro: overseen_ok_start assms(3) overseen_ok_step [OF assms(1,2)])

text \<open>C9: as long as no statement of the database is lost, and with one pass of reconciliation at a time,
  call by call among operations that leave the clock column alone and give a machine an address of its own
  that no container-manager has answered at, a pass that is about to ask the Compute API to delete a machine
  has the answers for it: the last ones of its container-manager, over at least the timeout and up to the
  present moment, were all that there are no agents. All three conditions are needed: the error of
  clearing the clock is only logged, and the old clock then survives the sighting of an agent
  (\<open>lost_clear_reaps_early\<close> in ReconcileSteps_Examples), and a pass that overlaps with another trusts
  the clock it has read.\<close>

theorem reap_call_justified:
  assumes "reconcile_outside p seen deletions" and "inj addr" and "unobserved addr seen w0"
    and "oversees 1 p addr seen ({#}, w0) ({#Reaping v vms#}, w)"
  shows "idle_lately (gc_ZeroAgentsTimeout (gp_config p)) (seen (pgdb.more w) (cm_url p (vm_internal_ip v)))"
  using overseen_ok_oversees [OF assms] by (auto simp: overseen_ok_def pass_ok_def)

end
