(* ===== verification/ReconcileSteps_Examples.thy ===== *)
theory ReconcileSteps_Examples
  imports ReconcileSteps_Props DockerGCE_Examples
begin

text \<open>
  Runs of the steps of \<open>ReconcileVMs\<close>: one pass after another up to a deletion, and two passes that
  overlap, of which the slower one deletes a machine that has just had an agent.
\<close>

section \<open>A machine and its answers\<close>

text \<open>A container-manager whose machine runs one agent or none; an answer takes a second.\<close>

definition watched_manager :: "string \<Rightarrow> (gce_env pgdb_scheme) container_manager" where
  "watched_manager url = (env_manager url)\<lparr>cm_ListAgents := (\<lambda>w.
     let agents = (if ge_live (pgdb.more w) = {} then [] else [''session-c1'']) in
     (Inr agents, env_map (\<lambda>z. z\<lparr>ge_now := ge_now z + seconds 1,
        ge_seen := (ge_seen z)(url := ge_seen z url @ [(ge_now z + seconds 1, int (length agents))])\<rparr>) w))\<rparr>"

definition watched_provider :: "(gce_env pgdb_scheme) gce_provider" where
  "watched_provider = env_provider\<lparr>gp_newDockerClient := (\<lambda>url. Inr (watched_manager url))\<rparr>"

lemma watched_provider_sel [simp]:
  "gp_newDockerClient watched_provider = (\<lambda>url. Inr (watched_manager url))"
  "gp_config watched_provider = gp_config env_provider" "gp_clock watched_provider = env_clock"
  "gp_gce watched_provider = env_gce" "cm_url watched_provider = cm_url env_provider"
  by (simp_all add: watched_provider_def cm_url_def fun_eq_iff)

lemma watched_outside: "reconcile_outside watched_provider ge_seen ge_deleted"
  by (auto simp: reconcile_outside_def watched_manager_def env_gce_def env_clock_def Let_def)

definition watched_url :: string where
  "watched_url = cm_url env_provider ''10.0.0.2''"

text \<open>The world at a time, with an agent or not, the answers so far and the stored clock.\<close>

definition watched :: "int \<Rightarrow> bool \<Rightarrow> observation list \<Rightarrow> int option \<Rightarrow> gce_env pgdb_scheme" where
  "watched t busy obs since =
     \<lparr>db_now = 9, db_uuids = (\<lambda>n. itoa (int n)), db_drawn = 0, db_faults = [], db_conversations = [],
      db_messages = [], db_vms = [env_vm since], db_endpoints = [],
      \<dots> = \<lparr>ge_now = t, ge_live = (if busy then {(watched_url, ''session-c1'')} else {}),
             ge_seen = (\<lambda>u. if u = watched_url then obs else []), ge_deleted = []\<rparr>\<rparr>"

lemma watched_sel [simp]:
  "db_vms (watched t busy obs since) = [env_vm since]" "db_faults (watched t busy obs since) = []"
  "ge_now (pgdb.more (watched t busy obs since)) = t"
  "ge_seen (pgdb.more (watched t busy obs since)) = (\<lambda>u. if u = watched_url then obs else [])"
  by (simp_all add: watched_def)

lemma env_vm_sel [simp]:
  "vm_id (env_vm since) = ''v1''" "vm_internal_ip (env_vm since) = ''10.0.0.2''" "vm_status (env_vm since) = ''running''"
  "vm_zero_agents_since (env_vm since) = since" "vm_gce_instance_name (env_vm since) = ''vm-1''"
  by (simp_all add: env_vm_def)

lemma watched_machines: "machines_ok env_addr (watched t busy obs since)"
  by (simp add: machines_ok_def env_addr_def)

lemma watched_unobserved: "unobserved env_addr ge_seen (watched t busy [] None)"
  by (simp add: unobserved_def watched_machines)

text \<open>The steps of a pass there.\<close>

lemma watched_lists:
  "watcher_step watched_provider Listing_running (watched t busy obs since) =
     (Probing (env_vm since) [], watched t busy obs since)"
  by (simp add: ListRunningVMInstances_def is_err_def)

lemma watched_answers:
  "cm_ListAgents (watched_manager watched_url) (watched t busy obs since) =
     (Inr (if busy then [''session-c1''] else []),
      watched (t + seconds 1) busy (obs @ [(t + seconds 1, if busy then 1 else 0)]) since)"
  by (simp add: watched_manager_def watched_def env_map_def fun_eq_iff)

lemma watched_probes:
  "watcher_step watched_provider (Probing (env_vm listed) []) (watched t busy obs since) =
     ((if busy then (if listed \<noteq> None then Setting_clock (env_vm listed) None [] else Reconciled (Inr ()))
       else case listed of
              None \<Rightarrow> Setting_clock (env_vm listed) (Some (t + seconds 1)) []
            | Some s \<Rightarrow> if t + seconds 1 - s < 600000000000 then Reconciled (Inr ()) else Reaping (env_vm listed) []),
      watched (t + seconds 1) busy (obs @ [(t + seconds 1, if busy then 1 else 0)]) since)"
  using watched_answers [of t busy obs since]
  by (simp add: watched_url_def [symmetric] env_clock_def split: option.split)

lemma watched_sets:
  "watcher_step watched_provider (Setting_clock (env_vm listed) x []) (watched t busy obs since) =
     (Reconciled (Inr ()), watched t busy obs x)"
  by (simp add: SetVMZeroAgentsSince_def update_where_def) (simp add: watched_def env_vm_def)

section \<open>Letting the passes move\<close>

abbreviation (input) reach where
  "reach n \<equiv> oversees n watched_provider env_addr ge_seen"

lemma reach_trans: "reach n S T \<Longrightarrow> reach n T U \<Longrightarrow> reach n S U"
  unfolding oversees_def by (rule rtranclp_trans)

lemma reach_begin: "size R < n \<Longrightarrow> reach n (R, w) (add_mset Listing_running R, w)"
  unfolding oversees_def by (intro r_into_rtranclp oversee_step.pass_begins)

lemma reach_move: "watcher_step watched_provider k w = (k', w') \<Longrightarrow> reach n (add_mset k R, w) (add_mset k' R, w')"
  unfolding oversees_def by (intro r_into_rtranclp oversee_step.pass_moves)

lemma reach_end: "reach n (add_mset (Reconciled r) R, w) (R, w)"
  unfolding oversees_def by (intro r_into_rtranclp oversee_step.pass_ends)

text \<open>Time passes, an agent starts or ends.\<close>

lemma reach_others: "reach n (R, watched t busy obs since) (R, watched t' busy' obs since)"
  unfolding oversees_def
  by (intro r_into_rtranclp oversee_step.others_move) (simp add: meanwhile_def watched_machines)

lemma reach_pass:
  assumes "watcher_step watched_provider (Probing (env_vm since) []) (watched t busy obs since) =
      (Setting_clock (env_vm since) x [], watched t' busy obs' since)" and "size R < n"
  shows "reach n (R, watched t busy obs since) (R, watched t' busy obs' x)"
  using reach_begin [OF assms(2)] reach_move [OF watched_lists] reach_move [OF assms(1)] reach_move [OF watched_sets] reach_end
  by (meson reach_trans)

text \<open>The first pass finds no agent and starts the clock.\<close>

lemma reach_clock_started:
  "0 < n \<Longrightarrow> reach n ({#}, watched 0 False [] None) ({#}, watched (seconds 1) False [(seconds 1, 0)] (Some (seconds 1)))"
  by (rule reach_pass) (simp_all add: watched_probes del: watcher_step.simps)

section \<open>Two passes that overlap\<close>

text \<open>C39: passes that overlap can delete a machine that has just had an agent: one pass reads the clock
  with its list of machines; the agent starts, another pass - of the goroutine or of the scheduler's
  request - sees it and clears the clock; the agent ends, and the first pass, when it gets to the
  machine, finds no agent and trusts the clock it has read, although a second before the
  container-manager answered that an agent runs.\<close>

theorem overlapping_passes_reap_early:
  "\<exists>w0 w v obs. unobserved env_addr ge_seen w0 \<and> oversees 2 watched_provider env_addr ge_seen ({#}, w0) ({#Reaping v []#}, w) \<and>
     ge_seen (pgdb.more w) (cm_url watched_provider (vm_internal_ip v)) = obs @ [(seconds 701, 1), (seconds 702, 0)] \<and>
     \<not> idle_lately (gc_ZeroAgentsTimeout (gp_config watched_provider))
         (ge_seen (pgdb.more w) (cm_url watched_provider (vm_internal_ip v)))"
proof -
  let ?s = "Some (seconds 1)" and ?one = "[(seconds 1, 0)]" and ?two = "[(seconds 1, 0), (seconds 701, 1)]"
  let ?A = "Probing (env_vm ?s) []"
  have 1: "reach 2 ({#}, watched 0 False [] None) ({#}, watched (seconds 700) True ?one ?s)"
    by (rule reach_trans [OF reach_clock_started reach_others]) simp
  have 2: "reach 2 ({#}, watched (seconds 700) True ?one ?s) ({#?A#}, watched (seconds 700) True ?one ?s)"
    by (rule reach_trans [OF reach_begin reach_move [OF watched_lists]]) simp
  have "watcher_step watched_provider ?A (watched (seconds 700) True ?one ?s) =
      (Setting_clock (env_vm ?s) None [], watched (seconds 701) True ?two ?s)"
    by (simp add: watched_probes seconds_def del: watcher_step.simps)
  then have 3: "reach 2 ({#?A#}, watched (seconds 700) True ?one ?s) ({#?A#}, watched (seconds 701) True ?two None)"
    by (rule reach_pass) simp
  have "watcher_step watched_provider ?A (watched (seconds 701) False ?two None) =
      (Reaping (env_vm ?s) [], watched (seconds 702) False (?two @ [(seconds 702, 0)]) None)"
    by (simp add: watched_probes seconds_def del: watcher_step.simps)
  then have 4: "reach 2 ({#?A#}, watched (seconds 701) True ?two None)
      ({#Reaping (env_vm ?s) []#}, watched (seconds 702) False (?two @ [(seconds 702, 0)]) None)"
    by (rule reach_trans [OF reach_others reach_move])
  let ?obs = "?two @ [(seconds 702, 0)]"
  have "\<not> idle_lately 600000000000 ?obs"
    using idle_lately_busy [of "(seconds 701, 1)" _ ?one "(seconds 702, 0)"] by simp
  then show ?thesis
    using watched_unobserved reach_trans [OF reach_trans [OF 1 2] reach_trans [OF 3 4]]
    by (intro exI [of _ "watched 0 False [] None"] exI [of _ "watched (seconds 702) False ?obs None"]
        exI [of _ "env_vm ?s"] exI [of _ ?one] conjI)
      (simp_all add: watched_url_def [symmetric])
qed

section \<open>A lost statement\<close>

text \<open>A single pass sees an agent, but the connection is lost when it clears the clock. The pass succeeds,
  the old clock stays, and the next pass that finds no agent deletes the machine a second after the agent
  was seen.\<close>

lemma lost_clear_keeps_clock:
  "watches_to watched_provider
     (Listing_running, (watched (seconds 700) True obs (Some s))\<lparr>db_faults := [None, Some e]\<rparr>)
     (Reconciled (Inr ()), watched (seconds 701) True (obs @ [(seconds 701, 1)]) (Some s))"
proof -
  let ?w = "\<lambda>fs. (watched (seconds 700) True obs (Some s))\<lparr>db_faults := fs\<rparr>"
  let ?v = "\<lambda>fs. (watched (seconds 701) True (obs @ [(seconds 701, 1)]) (Some s))\<lparr>db_faults := fs\<rparr>"
  have 1: "watcher_step watched_provider Listing_running (?w [None, Some e]) = (Probing (env_vm (Some s)) [], ?w [Some e])"
    by (simp add: ListRunningVMInstances_def pg_exec_def is_err_def)
  have "cm_ListAgents (watched_manager watched_url) (?w [Some e]) = (Inr [''session-c1''], ?v [Some e])"
    by (simp add: watched_manager_def watched_def env_map_def fun_eq_iff seconds_def)
  then have 2: "watcher_step watched_provider (Probing (env_vm (Some s)) []) (?w [Some e]) =
      (Setting_clock (env_vm (Some s)) None [], ?v [Some e])"
    by (simp add: watched_url_def [symmetric])
  have 3: "watcher_step watched_provider (Setting_clock (env_vm (Some s)) None []) (?v [Some e]) =
      (Reconciled (Inr ()), watched (seconds 701) True (obs @ [(seconds 701, 1)]) (Some s))"
    by (simp add: SetVMZeroAgentsSince_def pg_exec_def) (simp add: watched_def)
  show ?thesis
    by (rule watches_to_step, unfold 1, rule watches_to_step, unfold 2, rule watches_to_step, unfold 3,
        rule watches_to_refl)
qed

lemma lost_clear_reaps_early:
  "watches_to watched_provider
     (Listing_running, watched (seconds 701) False [(seconds 1, 0), (seconds 701, 1)] (Some (seconds 1)))
     (Reaping (env_vm (Some (seconds 1))) [],
      watched (seconds 702) False [(seconds 1, 0), (seconds 701, 1), (seconds 702, 0)] (Some (seconds 1)))"
  "\<not> idle_lately (gc_ZeroAgentsTimeout (gp_config watched_provider))
     [(seconds 1, 0), (seconds 701, 1), (seconds 702, 0)]"
proof -
  have "watcher_step watched_provider (Probing (env_vm (Some (seconds 1))) [])
        (watched (seconds 701) False [(seconds 1, 0), (seconds 701, 1)] (Some (seconds 1))) =
      (Reaping (env_vm (Some (seconds 1))) [],
       watched (seconds 702) False [(seconds 1, 0), (seconds 701, 1), (seconds 702, 0)] (Some (seconds 1)))"
    by (simp add: watched_probes seconds_def del: watcher_step.simps)
  then show "watches_to watched_provider
     (Listing_running, watched (seconds 701) False [(seconds 1, 0), (seconds 701, 1)] (Some (seconds 1)))
     (Reaping (env_vm (Some (seconds 1))) [],
      watched (seconds 702) False [(seconds 1, 0), (seconds 701, 1), (seconds 702, 0)] (Some (seconds 1)))"
    using watches_to_refl by (metis watched_lists watches_to_step)
  show "\<not> idle_lately (gc_ZeroAgentsTimeout (gp_config watched_provider))
      [(seconds 1, 0), (seconds 701, 1), (seconds 702, 0)]"
    using idle_lately_busy [of "(seconds 701, 1)" _ "[(seconds 1, 0)]" "(seconds 702, 0)"] by simp
qed

section \<open>Witness\<close>

theorem reap_call_justified_witness:
  "\<exists>w. oversees 1 watched_provider env_addr ge_seen ({#}, watched 0 False [] None) ({#Reaping (env_vm (Some (seconds 1))) []#}, w) \<and>
     idle_lately 600000000000 (ge_seen (pgdb.more w) watched_url)"
proof -
  let ?s = "Some (seconds 1)" and ?one = "[(seconds 1, 0)]"
  have 1: "reach 1 ({#}, watched 0 False [] None) ({#}, watched (seconds 700) False ?one ?s)"
    by (rule reach_trans [OF reach_clock_started reach_others]) simp
  have 2: "reach 1 ({#}, watched (seconds 700) False ?one ?s) ({#Probing (env_vm ?s) []#}, watched (seconds 700) False ?one ?s)"
    by (rule reach_trans [OF reach_begin reach_move [OF watched_lists]]) simp
  have "watcher_step watched_provider (Probing (env_vm ?s) []) (watched (seconds 700) False ?one ?s) =
      (Reaping (env_vm ?s) [], watched (seconds 701) False (?one @ [(seconds 701, 0)]) ?s)"
    by (simp add: watched_probes seconds_def del: watcher_step.simps)
  note run = reach_trans [OF reach_trans [OF 1 2] reach_move [OF this]]
  from reap_call_justified [OF watched_outside env_addr_inj watched_unobserved run] run show ?thesis
    by (auto simp: watched_url_def)
qed

end
