(* ===== verification/OverlappingRuns.thy ===== *)
theory OverlappingRuns
  imports CrashRecovery
begin

text \<open>
  Runs that overlap.  \<^verbatim>\<open>SendMessage\<close> does not look whether a run of the conversation is under way, and
  runs of different conversations share the database in any case: the statements of several runs
  come in any order.  Each run leaves its message as it would alone; what the runs of one conversation
  share, the session and the status, they do not keep apart.
\<close>

section \<open>Schedules\<close>

text \<open>A statement together with the message whose run issues it; those of other operations carry the
  identifier of no run.\<close>

type_synonym 'd schedule = "(string \<times> 'd statement) list"

definition execute_statements ::
    "string \<Rightarrow> string \<Rightarrow> nat list \<Rightarrow> string result \<Rightarrow> stream_event list \<Rightarrow> 'z pgdb_scheme statement list" where
  "execute_statements cid mid ticks res es =
     (\<lambda>d. snd (UpdateConversationStatus cid ''running'' d)) # run_statements cid mid ticks res es"

definition issued_by :: "string \<Rightarrow> 'd schedule \<Rightarrow> 'd statement list" where
  "issued_by mid sched = map snd (filter (\<lambda>x. fst x = mid) sched)"

definition message_content :: "string \<Rightarrow> 'z pgdb_scheme \<Rightarrow> (json gomap \<times> string) option" where
  "message_content mid d = map_option (\<lambda>m. (msg_data m, msg_status m)) (msg_row mid d)"

text \<open>A statement that leaves a message alone; one whose effect on it depends on nothing else.\<close>

definition spares :: "string \<Rightarrow> 'z pgdb_scheme statement \<Rightarrow> bool" where
  "spares mid s \<longleftrightarrow> (\<forall>d. db_faults d = [] \<longrightarrow> db_faults (s d) = [] \<and> message_content mid (s d) = message_content mid d)"

definition only_reads :: "string \<Rightarrow> 'z pgdb_scheme statement \<Rightarrow> bool" where
  "only_reads mid s \<longleftrightarrow> (\<forall>d. db_faults d = [] \<longrightarrow> db_faults (s d) = []) \<and>
     (\<forall>d d'. db_faults d = [] \<longrightarrow> db_faults d' = [] \<longrightarrow> message_content mid d = message_content mid d' \<longrightarrow>
        message_content mid (s d) = message_content mid (s d'))"

lemma spares_chat_kept: "(\<And>d. chat_kept d (s d)) \<Longrightarrow> spares mid s"
  by (auto simp: spares_def chat_kept_def message_content_def msg_row_def)

lemma message_writes:
  "only_reads mid (\<lambda>d. snd (UpdateMessageContentBlocks mid b d))" "only_reads mid (\<lambda>d. snd (MergeMessageData mid x d))"
  "st \<in> set msg_statuses \<Longrightarrow> only_reads mid (\<lambda>d. snd (UpdateMessageStatus mid st d))"
  "only_reads mid (\<lambda>d. snd (UpdateConversationTitle c t d))" "only_reads mid (\<lambda>d. snd (UpdateConversationUpdatedAt c d))"
  "only_reads mid (\<lambda>d. snd (UpdateConversationStatus c cst d))"
  by (auto simp: only_reads_def message_content_def row_simps option.map_comp comp_def map_option_case split: option.splits)

lemma other_writes:
  assumes "i \<noteq> mid"
  shows "spares mid (\<lambda>d. snd (UpdateMessageContentBlocks i b d))" "spares mid (\<lambda>d. snd (MergeMessageData i x d))"
    "st \<in> set msg_statuses \<Longrightarrow> spares mid (\<lambda>d. snd (UpdateMessageStatus i st d))"
  using assms by (simp_all add: spares_def message_content_def row_simps)

lemma conversation_writes:
  "spares mid (\<lambda>d. snd (UpdateConversationTitle c t d))" "spares mid (\<lambda>d. snd (UpdateConversationUpdatedAt c d))"
  "spares mid (\<lambda>d. snd (UpdateConversationStatus c cst d))"
  by (simp_all add: spares_def message_content_def row_simps)

lemmas statement_lists = execute_statements_def run_statements_def content_statements_def title_statements_def
  tick_statements_def

lemma own_statements: "s \<in> set (execute_statements cid mid ticks res es) \<Longrightarrow> only_reads mid s"
  by (auto simp: statement_lists message_writes outcome_known split: sum.splits prod.splits if_splits)

lemma other_statements:
  "s \<in> set (execute_statements cid i ticks res es) \<Longrightarrow> i \<noteq> mid \<Longrightarrow> spares mid s"
  by (auto simp: statement_lists other_writes conversation_writes outcome_known split: sum.splits prod.splits if_splits)

section \<open>Each message as if its run were alone\<close>

lemma schedule_isolated:
  assumes "\<forall>(i, s) \<in> set sched. if i = mid then only_reads mid s else spares mid s"
    and "db_faults d = []" and "db_faults e = []" and "message_content mid d = message_content mid e"
  shows "message_content mid (perform (map snd sched) d) = message_content mid (perform (issued_by mid sched) e)"
  using assms
proof (induction sched arbitrary: d e)
  case (Cons x sched)
  obtain i s where x: "x = (i, s)" by (cases x)
  have rest: "\<forall>(i, s) \<in> set sched. if i = mid then only_reads mid s else spares mid s" using Cons.prems(1) by simp
  show ?case
  proof (cases "i = mid")
    case True
    then have "only_reads mid s" using Cons.prems(1) x by simp
    then have "db_faults (s d) = []" "db_faults (s e) = []" "message_content mid (s d) = message_content mid (s e)"
      using Cons.prems(2-4) unfolding only_reads_def by blast+
    from Cons.IH [OF rest this] x True show ?thesis by (simp add: issued_by_def)
  next
    case False
    then have "spares mid s" using Cons.prems(1) x by simp
    then have "db_faults (s d) = []" "message_content mid (s d) = message_content mid e"
      using Cons.prems(2,4) unfolding spares_def by auto
    from Cons.IH [OF rest this(1) Cons.prems(3) this(2)] x False show ?thesis by (simp add: issued_by_def)
  qed
qed (simp add: issued_by_def)

record agent_run =
  ar_conversation :: string
  ar_message :: string
  ar_ticks :: "nat list"
  ar_result :: "string result"
  ar_events :: "stream_event list"

definition statements_of :: "agent_run \<Rightarrow> 'z pgdb_scheme statement list" where
  "statements_of r = execute_statements (ar_conversation r) (ar_message r) (ar_ticks r) (ar_result r) (ar_events r)"

text \<open>All statements of the runs, each run's in their order, and anything else that leaves the messages of
  the runs alone.\<close>

definition interleaves :: "agent_run list \<Rightarrow> 'z pgdb_scheme schedule \<Rightarrow> bool" where
  "interleaves runs sched \<longleftrightarrow> distinct (map ar_message runs) \<and>
     (\<forall>r \<in> set runs. issued_by (ar_message r) sched = statements_of r) \<and>
     (\<forall>(i, s) \<in> set sched. i \<in> ar_message ` set runs \<or> (\<forall>r \<in> set runs. spares (ar_message r) s))"

lemma interleaved_statement:
  assumes "interleaves runs sched" and "r \<in> set runs" and "(i, s) \<in> set sched"
  shows "if i = ar_message r then only_reads (ar_message r) s else spares (ar_message r) s"
proof -
  consider q where "q \<in> set runs" "i = ar_message q" | "i \<notin> ar_message ` set runs" by blast
  then show ?thesis
  proof cases
    case (1 q)
    then have "s \<in> set (issued_by i sched)" using assms(3) by (force simp: issued_by_def)
    then have "s \<in> set (statements_of q)" using assms(1) 1 by (simp add: interleaves_def)
    then show ?thesis
      unfolding statements_of_def using 1(2) own_statements other_statements by (cases "i = ar_message r") simp_all
  next
    case 2
    with assms show ?thesis by (auto simp: interleaves_def)
  qed
qed

text \<open>C16: runs that overlap do not disturb each other's messages: whatever the order in which the statements
  of any number of runs - of one conversation or of several - reach the database, with anything in between that
  leaves their messages alone, every message ends with the data and the status it has
  when its run is the only one.\<close>

theorem overlapping_runs_isolated:
  fixes d :: "'z pgdb_scheme"
  assumes "interleaves runs sched" and "db_faults d = []" and "r \<in> set runs"
  shows "message_content (ar_message r) (perform (map snd sched) d) =
    message_content (ar_message r) (perform (statements_of r) d)"
proof -
  have "\<forall>(i, s) \<in> set sched. if i = ar_message r then only_reads (ar_message r) s else spares (ar_message r) s"
    using interleaved_statement [OF assms(1,3)] by blast
  from schedule_isolated [OF this assms(2,2) refl] assms(1,3) show ?thesis by (simp add: interleaves_def)
qed

section \<open>What overlapping runs of a conversation share\<close>

text \<open>The conversation is completed as soon as one of its runs has ended, while the message of another is
  streaming.\<close>

lemma message_status_content: "message_status mid d = map_option snd (message_content mid d)"
  by (simp add: message_status_def message_content_def option.map_comp comp_def)

lemma spares_status:
  assumes "spares mid s" and "db_faults d = []"
  shows "db_faults (s d) = [] \<and> message_status mid (s d) = message_status mid d"
  using assms by (simp add: spares_def message_status_content)

lemma perform_spares:
  "\<forall>s \<in> set ss. spares mid s \<Longrightarrow> db_faults d = [] \<Longrightarrow>
    db_faults (perform ss d) = [] \<and> message_content mid (perform ss d) = message_content mid d"
  by (induction ss arbitrary: d) (auto simp: spares_def)

text \<open>A statement that leaves the status of a message and the existence of a conversation alone.\<close>

definition passes_by :: "string \<Rightarrow> string \<Rightarrow> 'z pgdb_scheme statement \<Rightarrow> bool" where
  "passes_by cid mid s \<longleftrightarrow> (\<forall>d. db_faults d = [] \<longrightarrow> db_faults (s d) = [] \<and>
     message_status mid (s d) = message_status mid d \<and> (conversation_status cid (s d) = None \<longleftrightarrow> conversation_status cid d = None))"

lemma statements_pass_by:
  "i \<noteq> mid \<Longrightarrow> s \<in> set (execute_statements c i ticks res es) \<Longrightarrow> passes_by cid mid s"
  "s \<in> set (content_statements mid ticks res es) \<Longrightarrow> passes_by cid mid s"
  "passes_by cid mid (\<lambda>d. snd (UpdateConversationStatus c ''running'' d))"
proof -
  have run: "st \<in> set conv_statuses" if "st = ''running'' \<or> st = ''completed''" for st
    using that by (auto simp: conv_statuses_def)
  have w: "passes_by cid mid (\<lambda>d. snd (UpdateMessageContentBlocks i b d))" "passes_by cid mid (\<lambda>d. snd (MergeMessageData i x d))"
    "passes_by cid mid (\<lambda>d. snd (UpdateConversationTitle c t d))" "passes_by cid mid (\<lambda>d. snd (UpdateConversationUpdatedAt c d))"
    "st = ''running'' \<or> st = ''completed'' \<Longrightarrow> passes_by cid mid (\<lambda>d. snd (UpdateConversationStatus c st d))"
    "i \<noteq> mid \<Longrightarrow> st \<in> set msg_statuses \<Longrightarrow> passes_by cid mid (\<lambda>d. snd (UpdateMessageStatus i st d))" for i b x c t st
    using run by (simp_all add: passes_by_def message_status_def conversation_status_def row_simps option.map_comp comp_def)
  show "i \<noteq> mid \<Longrightarrow> s \<in> set (execute_statements c i ticks res es) \<Longrightarrow> passes_by cid mid s"
    by (auto simp: statement_lists w outcome_known split: sum.splits prod.splits if_splits)
  show "s \<in> set (content_statements mid ticks res es) \<Longrightarrow> passes_by cid mid s"
    by (auto simp: content_statements_def tick_statements_def w split: sum.splits prod.splits)
  show "passes_by cid mid (\<lambda>d. snd (UpdateConversationStatus c ''running'' d))" by (simp add: w)
qed

lemma perform_passes_by:
  assumes "\<forall>s \<in> set ss. passes_by cid mid s" and "db_faults d = []"
  shows "db_faults (perform ss d) = [] \<and> message_status mid (perform ss d) = message_status mid d \<and>
    (conversation_status cid (perform ss d) = None \<longleftrightarrow> conversation_status cid d = None)"
  using assms by (induction ss arbitrary: d) (auto simp: passes_by_def)

lemma first_end_completes:
  fixes d :: "'z pgdb_scheme"
  assumes other: "ar_message q \<noteq> ar_message r" and same: "ar_conversation q = ar_conversation r"
    and d: "db_faults d = []" "conversation_status (ar_conversation r) d \<noteq> None"
      "message_status (ar_message r) d = Some ''streaming''"
    and before: "\<forall>s \<in> set ss. s \<in> set (statements_of q) \<or>
      s \<in> set (take (Suc (length (content_statements (ar_message r) (ar_ticks r) (ar_result r) (ar_events r) ::
        'z pgdb_scheme statement list))) (statements_of r))"
  shows "conversation_status (ar_conversation r) (perform (ss @ [last (statements_of q)]) d) = Some ''completed''"
    and "message_status (ar_message r) (perform (ss @ [last (statements_of q)]) d) = Some ''streaming''"
proof -
  let ?m = "ar_message r" and ?c = "ar_conversation r"
  have "passes_by ?c ?m s" if "s \<in> set ss" for s
  proof -
    have "s \<in> set (statements_of q) \<or> s = (\<lambda>d. snd (UpdateConversationStatus ?c ''running'' d)) \<or>
        s \<in> set (content_statements ?m (ar_ticks r) (ar_result r) (ar_events r))"
      using before that by (auto simp: statements_of_def execute_statements_def run_statements_def)
    then show ?thesis using statements_pass_by other by (auto simp: statements_of_def)
  qed
  then have p: "db_faults (perform ss d) = []" "message_status ?m (perform ss d) = Some ''streaming''"
    "conversation_status ?c (perform ss d) \<noteq> None"
    using perform_passes_by [of ss ?c ?m d] d by simp_all
  have "(last (statements_of q) :: 'z pgdb_scheme statement) = (\<lambda>d. snd (UpdateConversationStatus ?c ''completed'' d))"
    by (simp add: statements_of_def execute_statements_def run_statements_def same)
  moreover have "''completed'' \<in> set conv_statuses" by (simp add: conv_statuses_def)
  ultimately show "conversation_status ?c (perform (ss @ [last (statements_of q)]) d) = Some ''completed''"
    and "message_status ?m (perform (ss @ [last (statements_of q)]) d) = Some ''streaming''"
    using last_write [OF p(1)] p(2,3) by (auto simp: rows_of_def)
qed

text \<open>A message that is sent while the run before it has not ended resumes the session that one resumed:
  its row has no session yet.\<close>

lemma resume_skips_streaming:
  assumes "msg_role u = ''user''" and "msg_data a = []"
  shows "findResumeSessionID (hs @ [u, a]) = findResumeSessionID hs"
  using assms by (simp add: findResumeSessionID_def gomap_get_def)

lemma overlapping_sends_fork:
  assumes apart: "credentials_apart h" "credentials_apart h2" and ready: "db_faults w = []" "db_faults w1 = []"
    and past: "\<forall>m \<in> set (db_messages w). msg_created_at m \<le> db_now w"
    and first: "SendMessage h r cid w = ((resp, Some (req, c, mid)), w')" and between: "db_messages w1 = db_messages w'"
    and second: "SendMessage h2 r2 cid w1 = ((resp2, Some (req2, c2, mid2)), w2)"
  shows "er_SessionID req2 = er_SessionID req" and "c2 = c" and "mid2 \<noteq> mid" and "message_status mid w' = Some ''streaming''"
proof -
  obtain u a where 1: "db_messages w' = db_messages w @ [u, a]" "msg_id a = mid" "msg_id u \<noteq> mid" "mid \<notin> msg_id ` set (db_messages w)"
    "msg_conversation_id u = cid" "msg_conversation_id a = cid" "msg_role u = ''user''" "msg_data a = []" "msg_status a = ''streaming''"
    "msg_created_at u = db_now w" "msg_created_at a = db_now w" "c = cid"
    "er_SessionID req = findResumeSessionID (history_of cid (db_messages w))"
    using SendMessage_rows [OF apart(1) ready(1) first] by blast
  have 2: "c2 = cid" "mid2 \<notin> msg_id ` set (db_messages w1)"
    "er_SessionID req2 = findResumeSessionID (history_of cid (db_messages w1))"
    using SendMessage_rows [OF apart(2) ready(2) second] by blast+
  have "history_of cid (db_messages w @ [u]) = history_of cid (db_messages w) @ [u]"
    by (rule history_of_latest) (use past 1 in simp_all)
  moreover have "history_of cid ((db_messages w @ [u]) @ [a]) = history_of cid (db_messages w @ [u]) @ [a]"
    by (rule history_of_latest) (use past 1 in auto)
  ultimately have "history_of cid (db_messages w1) = history_of cid (db_messages w) @ [u, a]"
    using between 1(1) by simp
  with 1(13) 2(3) resume_skips_streaming [OF 1(7,8)] show "er_SessionID req2 = er_SessionID req" by simp
  show "c2 = c" using 1 2 by simp
  show "mid2 \<noteq> mid" using 2(2) between 1(1,2) by auto
  have "find (\<lambda>m. msg_id m = mid) (ms @ [u, a]) = Some a" if "mid \<notin> msg_id ` set ms" for ms
    using that 1(2,3) by (induction ms) auto
  with 1(1,4,9) show "message_status mid w' = Some ''streaming''" by (simp add: message_status_def msg_row_def)
qed

section \<open>Witness\<close>

text \<open>Two messages of one conversation, both runs at work, their statements in turns.\<close>

definition streaming_message :: "string \<Rightarrow> message" where
  "streaming_message i = \<lparr>msg_id = i, msg_conversation_id = ''c1'', msg_role = ''assistant'', msg_data = [],
     msg_status = ''streaming'', msg_created_at = 9, msg_updated_at = 9\<rparr>"

definition two_streaming :: pgdb where
  "two_streaming =
     \<lparr>db_now = 9, db_uuids = (\<lambda>n. itoa (int n)), db_drawn = 0, db_faults = [], db_conversations = [],
      db_messages = [streaming_message ''a1'', streaming_message ''a2''], db_vms = [], db_endpoints = []\<rparr>"

definition ended_run :: "string \<Rightarrow> string \<Rightarrow> agent_run" where
  "ended_run mid sid = \<lparr>ar_conversation = ''c1'', ar_message = mid, ar_ticks = [0], ar_result = Inr sid, ar_events = []\<rparr>"

definition in_turns :: "string \<Rightarrow> string \<Rightarrow> 'd statement list \<Rightarrow> 'd statement list \<Rightarrow> 'd schedule" where
  "in_turns i j ss ts = concat (map (\<lambda>(s, t). [(i, s), (j, t)]) (zip ss ts))"

lemma issued_in_turns:
  assumes "i \<noteq> j" and "length ss = length ts"
  shows "issued_by i (in_turns i j ss ts) = ss" and "issued_by j (in_turns i j ss ts) = ts"
  using assms(2) assms(1) by (induction rule: list_induct2) (simp_all add: in_turns_def issued_by_def)

lemma ended_statements:
  "statements_of (ended_run mid sid) =
     [\<lambda>d. snd (UpdateConversationStatus ''c1'' ''running'' d),
      \<lambda>d. snd (UpdateMessageContentBlocks mid JNull d), \<lambda>d. snd (MergeMessageData mid [(''tool_calls'', JNull)] d),
      \<lambda>d. snd (UpdateMessageContentBlocks mid JNull d), \<lambda>d. snd (MergeMessageData mid [(''session_id'', JStr sid)] d),
      \<lambda>d. snd (UpdateMessageStatus mid ''completed'' d), \<lambda>d. snd (UpdateConversationUpdatedAt ''c1'' d),
      \<lambda>d. snd (UpdateConversationStatus ''c1'' ''completed'' d)]"
  by (simp add: statements_of_def statement_lists ended_run_def outcome_status_def aggregate_def new_aggregator_def
      Snapshot_def Finalize_def blocks_json_def calls_json_def slice_json_def)

theorem overlapping_runs_isolated_witness:
  "\<exists>sched. interleaves [ended_run ''a1'' ''s1'', ended_run ''a2'' ''s2''] sched \<and> length sched = 16 \<and>
     message_content ''a1'' (perform (map snd sched) two_streaming) =
       Some ([(''content_blocks'', JNull), (''tool_calls'', JNull), (''session_id'', JStr ''s1'')], ''completed'')"
proof -
  let ?r = "ended_run ''a1'' ''s1''" and ?q = "ended_run ''a2'' ''s2''"
  let ?sched = "in_turns ''a1'' ''a2'' (statements_of ?r) (statements_of ?q) :: pgdb schedule"
  have m: "ar_message ?r = ''a1''" "ar_message ?q = ''a2''" by (simp_all add: ended_run_def)
  have len: "length (statements_of ?r :: pgdb statement list) = length (statements_of ?q :: pgdb statement list)"
    by (simp add: ended_statements)
  have i: "interleaves [?r, ?q] ?sched"
    using issued_in_turns [OF _ len, of "''a1''" "''a2''"]
    by (auto simp: interleaves_def m) (auto simp: in_turns_def)
  have "db_faults two_streaming = []" by (simp add: two_streaming_def)
  from overlapping_runs_isolated [OF i this, of ?r]
  have "message_content ''a1'' (perform (map snd ?sched) two_streaming) =
      message_content ''a1'' (perform (statements_of ?r) two_streaming)" by (simp add: m)
  also have "\<dots> = Some ([(''content_blocks'', JNull), (''tool_calls'', JNull), (''session_id'', JStr ''s1'')], ''completed'')"
    unfolding ended_statements
    by (simp add: message_content_def msg_row_def two_streaming_def streaming_message_def update_where_def
        jsonb_concat_def UpdateConversationStatus_def UpdateMessageContentBlocks_def MergeMessageData_def
        UpdateMessageStatus_def UpdateConversationUpdatedAt_def conv_statuses_def msg_statuses_def)
  finally show ?thesis using i by (intro exI [of _ ?sched]) (simp add: in_turns_def ended_statements)
qed

end
