(* ===== verification/AggregatorHeap.thy ===== *)
theory AggregatorHeap
  imports MessageService_Props
begin

text \<open>
  The aggregator in memory.  \<open>MessageService\<close> treats the blocks and the tool calls of the aggregator as
  values; in Go they are slices over shared arrays, maps and string pointers, \<^verbatim>\<open>Handle\<close> writes into them
  in place, and the ticker's goroutine encodes what \<^verbatim>\<open>Snapshot\<close> returned while \<^verbatim>\<open>Handle\<close> goes on.  Here
  is a memory with the arrays, maps and strings, \<^verbatim>\<open>append\<close> with its reuse of spare capacity, the in-place
  writes and the two clone functions.  It is shown that this memory holds the values of the model and
  that a snapshot, read at any later time, is the value of the moment it was taken.  The other fields
  are strings and numbers, or are not in a snapshot; they are as in \<open>MessageService\<close>.
\<close>

section \<open>Memory\<close>

type_synonym addr = nat

record call_cell =
  cc_ToolUseId :: string
  cc_ToolName :: string
  cc_InputJson :: string
  cc_Result :: "addr option"

text \<open>A slice that is not nil; the capacity is the length of its array.\<close>

record slice =
  sl_array :: addr
  sl_len :: nat

record memory =
  mm_calls :: "addr \<Rightarrow> call_cell list"
  mm_blocks :: "addr \<Rightarrow> addr list"
  mm_maps :: "addr \<Rightarrow> json gomap"
  mm_strings :: "addr \<Rightarrow> string"
  mm_next :: addr

record heap_aggregator =
  ha_contentBlocks :: "slice option"
  ha_toolCalls :: "slice option"

definition zero_cell :: call_cell where
  "zero_cell = \<lparr>cc_ToolUseId = [], cc_ToolName = [], cc_InputJson = [], cc_Result = None\<rparr>"

definition new_map :: "json gomap \<Rightarrow> memory \<Rightarrow> addr \<times> memory" where
  "new_map kvs m = (mm_next m, m\<lparr>mm_maps := (mm_maps m)(mm_next m := kvs), mm_next := Suc (mm_next m)\<rparr>)"

definition new_string :: "string \<Rightarrow> memory \<Rightarrow> addr \<times> memory" where
  "new_string s m = (mm_next m, m\<lparr>mm_strings := (mm_strings m)(mm_next m := s), mm_next := Suc (mm_next m)\<rparr>)"

definition new_calls :: "call_cell list \<Rightarrow> memory \<Rightarrow> addr \<times> memory" where
  "new_calls arr m = (mm_next m, m\<lparr>mm_calls := (mm_calls m)(mm_next m := arr), mm_next := Suc (mm_next m)\<rparr>)"

definition new_blocks :: "addr list \<Rightarrow> memory \<Rightarrow> addr \<times> memory" where
  "new_blocks arr m = (mm_next m, m\<lparr>mm_blocks := (mm_blocks m)(mm_next m := arr), mm_next := Suc (mm_next m)\<rparr>)"

text \<open>\<^verbatim>\<open>append\<close> of one element: into the array when it has room, else into a new array with \<open>grow\<close> spare
  cells; how many these are is up to the runtime.\<close>

definition append_call :: "(nat \<Rightarrow> nat) \<Rightarrow> call_cell \<Rightarrow> slice option \<Rightarrow> memory \<Rightarrow> slice \<times> memory" where
  "append_call grow c s m =
     (case s of
        None \<Rightarrow> (case new_calls (c # replicate (grow 0) zero_cell) m of (a, m) \<Rightarrow> (\<lparr>sl_array = a, sl_len = 1\<rparr>, m))
      | Some sl \<Rightarrow>
          let arr = mm_calls m (sl_array sl); n = sl_len sl in
          if n < length arr
          then (\<lparr>sl_array = sl_array sl, sl_len = n + 1\<rparr>, m\<lparr>mm_calls := (mm_calls m)(sl_array sl := arr[n := c])\<rparr>)
          else (case new_calls (arr @ c # replicate (grow n) zero_cell) m of (a, m) \<Rightarrow> (\<lparr>sl_array = a, sl_len = n + 1\<rparr>, m)))"

definition append_block :: "(nat \<Rightarrow> nat) \<Rightarrow> addr \<Rightarrow> slice option \<Rightarrow> memory \<Rightarrow> slice \<times> memory" where
  "append_block grow b s m =
     (case s of
        None \<Rightarrow> (case new_blocks (b # replicate (grow 0) 0) m of (a, m) \<Rightarrow> (\<lparr>sl_array = a, sl_len = 1\<rparr>, m))
      | Some sl \<Rightarrow>
          let arr = mm_blocks m (sl_array sl); n = sl_len sl in
          if n < length arr
          then (\<lparr>sl_array = sl_array sl, sl_len = n + 1\<rparr>, m\<lparr>mm_blocks := (mm_blocks m)(sl_array sl := arr[n := b])\<rparr>)
          else (case new_blocks (arr @ b # replicate (grow n) 0) m of (a, m) \<Rightarrow> (\<lparr>sl_array = a, sl_len = n + 1\<rparr>, m)))"

text \<open>\<^verbatim>\<open>a.toolCalls[i].f = ...\<close>\<close>

definition write_cell :: "slice \<Rightarrow> nat \<Rightarrow> (call_cell \<Rightarrow> call_cell) \<Rightarrow> memory \<Rightarrow> memory" where
  "write_cell sl i f m =
     m\<lparr>mm_calls := (mm_calls m)(sl_array sl := (mm_calls m (sl_array sl))[i := f (mm_calls m (sl_array sl) ! i)])\<rparr>"

section \<open>What an event writes\<close>

datatype agg_write =
    Append_block "json gomap"
  | Append_call string string
  | Extend_last string
  | Attach string string

definition attach_write :: "content_block \<Rightarrow> nat \<Rightarrow> agg_write" where
  "attach_write block maxLen = Attach (cb_ToolUseID block) (truncate_result maxLen (result_text (cb_Content block)))"

definition block_writes :: "content_block \<Rightarrow> agg_write list" where
  "block_writes block =
     (if cb_Type block = ''thinking'' \<and> cb_Thinking block \<noteq> []
      then [Append_block [(''type'', JStr ''thinking''), (''content'', JStr (cb_Thinking block))]]
      else if cb_Type block = ''text'' \<and> cb_Text block \<noteq> []
      then [Append_block [(''type'', JStr ''text''), (''content'', JStr (cb_Text block))]]
      else if cb_Type block = ''tool_use'' \<and> cb_ID block \<noteq> []
      then [Append_block [(''type'', JStr ''tool_use''), (''tool_use_id'', JStr (cb_ID block))]]
      else if cb_Type block = ''tool_result'' then [attach_write block 1000]
      else [])"

definition user_block_writes :: "content_block \<Rightarrow> agg_write list" where
  "user_block_writes block = (if cb_Type block = ''tool_result'' then [attach_write block 2000] else [])"

definition stream_event_writes :: "stream_event \<Rightarrow> agg_write list" where
  "stream_event_writes event =
     (case Option.bind (se_Event event) (\<lambda>v. dec_struct inner_event_field v zero_inner_event) of
        None \<Rightarrow> []
      | Some inner \<Rightarrow>
          if ie_Type inner = ''content_block_start'' then
            (case Option.bind (ie_ContentBlock inner)
                    (\<lambda>v. dec_struct cb_inner_field v \<lparr>ci_Type = [], ci_ID = [], ci_Name = []\<rparr>) of
               None \<Rightarrow> []
             | Some cb \<Rightarrow>
                 if ci_Type cb = ''tool_use'' \<and> ci_Name cb \<noteq> [] then [Append_call (ci_ID cb) (ci_Name cb)] else [])
          else if ie_Type inner = ''content_block_delta'' then
            (case Option.bind (ie_Delta inner) (\<lambda>v. dec_map dec_string [] v []) of
               None \<Rightarrow> []
             | Some delta \<Rightarrow>
                 if map_index delta ''type'' = ''input_json_delta'' \<and> map_index delta ''partial_json'' \<noteq> []
                 then [Extend_last (map_index delta ''partial_json'')] else [])
          else [])"

definition writes_of :: "stream_event \<Rightarrow> agg_write list" where
  "writes_of event =
     (if se_Type event = ''assistant'' then
        (case se_Message event of None \<Rightarrow> [] | Some blocks \<Rightarrow> concat (map block_writes blocks))
      else if se_Type event = ''user'' then
        (case se_Message event of None \<Rightarrow> [] | Some blocks \<Rightarrow> concat (map user_block_writes blocks))
      else if se_Type event = ''stream_event'' then stream_event_writes event
      else [])"

text \<open>The writes on values, and that they are what \<^verbatim>\<open>Handle\<close> does to the two fields.\<close>

type_synonym agg_value = "json gomap list \<times> tool_call list"

fun value_write :: "agg_write \<Rightarrow> agg_value \<Rightarrow> agg_value" where
  "value_write (Append_block kvs) (bs, cs) = (bs @ [kvs], cs)"
| "value_write (Append_call i n) (bs, cs) =
     (bs, cs @ [\<lparr>tc_ToolUseId = i, tc_ToolName = n, tc_InputJson = [], tc_Result = None\<rparr>])"
| "value_write (Extend_last s) (bs, cs) =
     (bs, if cs = [] then cs else butlast cs @ [(last cs)\<lparr>tc_InputJson := tc_InputJson (last cs) @ s\<rparr>])"
| "value_write (Attach i text) (bs, cs) = (bs, set_result i text cs)"

definition agg_values :: "stream_aggregator \<Rightarrow> agg_value" where
  "agg_values a = (sa_contentBlocks a, sa_toolCalls a)"

lemma handle_block_writes: "agg_values (handle_block b a) = fold value_write (block_writes b) (agg_values a)"
  by (simp add: agg_values_def handle_block_def block_writes_def attach_write_def attachToolResult_def)

lemma handle_user_block_writes:
  "agg_values (handle_user_block b a) = fold value_write (user_block_writes b) (agg_values a)"
  by (simp add: agg_values_def handle_user_block_def user_block_writes_def attach_write_def attachToolResult_def)

lemma handleStreamEvent_writes:
  "agg_values (handleStreamEvent e a) = fold value_write (stream_event_writes e) (agg_values a)"
  by (auto simp: agg_values_def handleStreamEvent_def stream_event_writes_def split: option.split)

lemma fold_block_writes:
  assumes "\<And>b a. agg_values (f b a) = fold value_write (g b) (agg_values a)"
  shows "agg_values (fold f bs a) = fold value_write (concat (map g bs)) (agg_values a)"
  by (induction bs arbitrary: a) (simp_all add: assms)

lemma Handle_writes: "agg_values (Handle e a) = fold value_write (writes_of e) (agg_values a)"
  using fold_block_writes [OF handle_block_writes] fold_block_writes [OF handle_user_block_writes]
  by (auto simp: Handle_def writes_of_def handleStreamEvent_writes split: option.split)
    (simp_all add: agg_values_def)

section \<open>The writes in memory\<close>

text \<open>The loop of \<^verbatim>\<open>attachToolResult\<close>: the first call with the id.\<close>

fun first_call :: "string \<Rightarrow> call_cell list \<Rightarrow> nat option" where
  "first_call i [] = None"
| "first_call i (c # cs) = (if cc_ToolUseId c = i then Some 0 else map_option Suc (first_call i cs))"

definition slice_calls :: "memory \<Rightarrow> slice option \<Rightarrow> call_cell list" where
  "slice_calls m s = (case s of None \<Rightarrow> [] | Some sl \<Rightarrow> take (sl_len sl) (mm_calls m (sl_array sl)))"

definition slice_blocks :: "memory \<Rightarrow> slice option \<Rightarrow> addr list" where
  "slice_blocks m s = (case s of None \<Rightarrow> [] | Some sl \<Rightarrow> take (sl_len sl) (mm_blocks m (sl_array sl)))"

fun heap_write :: "(nat \<Rightarrow> nat) \<Rightarrow> agg_write \<Rightarrow> heap_aggregator \<times> memory \<Rightarrow> heap_aggregator \<times> memory" where
  "heap_write grow (Append_block kvs) (ha, m) =
     (case new_map kvs m of
        (b, m) \<Rightarrow> (case append_block grow b (ha_contentBlocks ha) m of (s, m) \<Rightarrow> (ha\<lparr>ha_contentBlocks := Some s\<rparr>, m)))"
| "heap_write grow (Append_call i n) (ha, m) =
     (case append_call grow (zero_cell\<lparr>cc_ToolUseId := i, cc_ToolName := n\<rparr>) (ha_toolCalls ha) m of
        (s, m) \<Rightarrow> (ha\<lparr>ha_toolCalls := Some s\<rparr>, m))"
| "heap_write grow (Extend_last s) (ha, m) =
     (case ha_toolCalls ha of
        None \<Rightarrow> (ha, m)
      | Some sl \<Rightarrow>
          if sl_len sl > 0
          then (ha, write_cell sl (sl_len sl - 1) (\<lambda>c. c\<lparr>cc_InputJson := cc_InputJson c @ s\<rparr>) m)
          else (ha, m))"
| "heap_write grow (Attach i text) (ha, m) =
     (case ha_toolCalls ha of
        None \<Rightarrow> (ha, m)
      | Some sl \<Rightarrow>
          (case first_call i (slice_calls m (Some sl)) of
             None \<Rightarrow> (ha, m)
           | Some k \<Rightarrow> (case new_string text m of (a, m) \<Rightarrow> (ha, write_cell sl k (\<lambda>c. c\<lparr>cc_Result := Some a\<rparr>) m))))"

definition heap_Handle :: "(nat \<Rightarrow> nat) \<Rightarrow> stream_event \<Rightarrow> heap_aggregator \<times> memory \<Rightarrow> heap_aggregator \<times> memory" where
  "heap_Handle grow e = fold (heap_write grow) (writes_of e)"

text \<open>\<^verbatim>\<open>cloneToolCalls\<close> copies the array, \<^verbatim>\<open>cloneBlocks\<close> the array and every map.\<close>

definition cloneToolCalls :: "slice option \<Rightarrow> memory \<Rightarrow> slice option \<times> memory" where
  "cloneToolCalls s m =
     (case s of
        None \<Rightarrow> (None, m)
      | Some sl \<Rightarrow> (case new_calls (slice_calls m s) m of (a, m) \<Rightarrow> (Some \<lparr>sl_array = a, sl_len = sl_len sl\<rparr>, m)))"

fun clone_maps :: "addr list \<Rightarrow> memory \<Rightarrow> addr list \<times> memory" where
  "clone_maps [] m = ([], m)"
| "clone_maps (b # bs) m =
     (case new_map (mm_maps m b) m of (b', m) \<Rightarrow> (case clone_maps bs m of (bs', m) \<Rightarrow> (b' # bs', m)))"

definition cloneBlocks :: "slice option \<Rightarrow> memory \<Rightarrow> slice option \<times> memory" where
  "cloneBlocks s m =
     (case s of
        None \<Rightarrow> (None, m)
      | Some sl \<Rightarrow>
          (case clone_maps (slice_blocks m s) m of
             (bs, m) \<Rightarrow> (case new_blocks bs m of (a, m) \<Rightarrow> (Some \<lparr>sl_array = a, sl_len = sl_len sl\<rparr>, m))))"

definition heap_Snapshot :: "heap_aggregator \<times> memory \<Rightarrow> (slice option \<times> slice option) \<times> memory" where
  "heap_Snapshot st =
     (case st of (ha, m) \<Rightarrow>
        (case cloneBlocks (ha_contentBlocks ha) m of
           (bs, m) \<Rightarrow> (case cloneToolCalls (ha_toolCalls ha) m of (cs, m) \<Rightarrow> ((bs, cs), m))))"

section \<open>What the memory holds\<close>

definition cell_value :: "memory \<Rightarrow> call_cell \<Rightarrow> tool_call" where
  "cell_value m c = \<lparr>tc_ToolUseId = cc_ToolUseId c, tc_ToolName = cc_ToolName c, tc_InputJson = cc_InputJson c,
     tc_Result = map_option (mm_strings m) (cc_Result c)\<rparr>"

definition slices_value :: "memory \<Rightarrow> slice option \<Rightarrow> slice option \<Rightarrow> agg_value" where
  "slices_value m bs cs = (map (mm_maps m) (slice_blocks m bs), map (cell_value m) (slice_calls m cs))"

definition heap_value :: "heap_aggregator \<times> memory \<Rightarrow> agg_value" where
  "heap_value st = slices_value (snd st) (ha_contentBlocks (fst st)) (ha_toolCalls (fst st))"

text \<open>Slices are within their arrays, and everything reachable is allocated.\<close>

definition blocks_ok :: "memory \<Rightarrow> slice option \<Rightarrow> bool" where
  "blocks_ok m s \<longleftrightarrow>
     (case s of None \<Rightarrow> True
      | Some sl \<Rightarrow> sl_array sl < mm_next m \<and> sl_len sl \<le> length (mm_blocks m (sl_array sl)) \<and>
          (\<forall>b \<in> set (slice_blocks m s). b < mm_next m))"

definition cell_ok :: "addr \<Rightarrow> call_cell \<Rightarrow> bool" where
  "cell_ok n c \<longleftrightarrow> (case cc_Result c of None \<Rightarrow> True | Some a \<Rightarrow> a < n)"

lemma cell_ok_simps [simp]:
  "cell_ok n (c\<lparr>cc_InputJson := s\<rparr>) = cell_ok n c" "cell_ok n (c\<lparr>cc_Result := Some a\<rparr>) \<longleftrightarrow> a < n"
  "cc_Result c = None \<Longrightarrow> cell_ok n c"
  by (simp_all add: cell_ok_def)

lemma cell_ok_mono: "cell_ok n c \<Longrightarrow> n \<le> n' \<Longrightarrow> cell_ok n' c"
  by (auto simp: cell_ok_def split: option.splits)

lemma cell_ok_Suc [intro]: "cell_ok n c \<Longrightarrow> cell_ok (Suc n) c"
  by (auto simp: cell_ok_def split: option.splits)

definition calls_ok :: "memory \<Rightarrow> slice option \<Rightarrow> bool" where
  "calls_ok m s \<longleftrightarrow>
     (case s of None \<Rightarrow> True
      | Some sl \<Rightarrow> sl_array sl < mm_next m \<and> sl_len sl \<le> length (mm_calls m (sl_array sl)) \<and>
          (\<forall>c \<in> set (slice_calls m s). cell_ok (mm_next m) c))"

definition heap_ok :: "heap_aggregator \<times> memory \<Rightarrow> bool" where
  "heap_ok st \<longleftrightarrow> blocks_ok (snd st) (ha_contentBlocks (fst st)) \<and> calls_ok (snd st) (ha_toolCalls (fst st))"

definition array_of :: "slice option \<Rightarrow> addr option" where
  "array_of s = map_option sl_array s"

text \<open>What the operations of an aggregator leave alone: everything that was allocated except its own two
  arrays, and an array it moves to is a new one.\<close>

definition untouched :: "heap_aggregator \<times> memory \<Rightarrow> heap_aggregator \<times> memory \<Rightarrow> bool" where
  "untouched st st' \<longleftrightarrow> (case st of (ha, m) \<Rightarrow> case st' of (ha', m') \<Rightarrow>
     mm_next m \<le> mm_next m' \<and>
     (\<forall>a < mm_next m. mm_maps m' a = mm_maps m a \<and> mm_strings m' a = mm_strings m a \<and>
        (array_of (ha_toolCalls ha) \<noteq> Some a \<longrightarrow> mm_calls m' a = mm_calls m a \<and> array_of (ha_toolCalls ha') \<noteq> Some a) \<and>
        (array_of (ha_contentBlocks ha) \<noteq> Some a \<longrightarrow> mm_blocks m' a = mm_blocks m a \<and> array_of (ha_contentBlocks ha') \<noteq> Some a)))"

lemma untouched_refl [simp]: "untouched st st"
  by (auto simp: untouched_def split: prod.split)

lemma untouched_trans: "untouched st st1 \<Longrightarrow> untouched st1 st2 \<Longrightarrow> untouched st st2"
  by (cases st; cases st1; cases st2) (simp add: untouched_def)

lemmas heap_alloc = new_map_def new_string_def new_calls_def new_blocks_def

lemma heap_write_untouched:
  assumes "heap_ok st"
  shows "untouched st (heap_write grow wr st)"
  using assms
  by (cases st; cases wr)
    (auto simp: untouched_def heap_ok_def blocks_ok_def calls_ok_def array_of_def heap_alloc append_block_def append_call_def
      write_cell_def Let_def split: option.splits)

section \<open>The memory holds the values\<close>

lemma append_block_value:
  assumes "blocks_ok m s" and "b < mm_next m" and "append_block grow b s m = (sl, m')"
  shows "slice_blocks m' (Some sl) = slice_blocks m s @ [b]" and "blocks_ok m' (Some sl)"
    and "mm_maps m' = mm_maps m" and "mm_strings m' = mm_strings m" and "mm_calls m' = mm_calls m" and "mm_next m \<le> mm_next m'"
proof -
  show 1: "slice_blocks m' (Some sl) = slice_blocks m s @ [b]"
    using assms
    by (auto simp: append_block_def slice_blocks_def blocks_ok_def new_blocks_def Let_def take_Suc_conv_app_nth
        split: option.splits if_splits)
  show "mm_maps m' = mm_maps m" "mm_strings m' = mm_strings m" "mm_calls m' = mm_calls m" "mm_next m \<le> mm_next m'"
    using assms(3) by (auto simp: append_block_def new_blocks_def Let_def split: option.splits if_splits)
  then show "blocks_ok m' (Some sl)"
    using assms 1 unfolding blocks_ok_def
    by (auto simp: append_block_def new_blocks_def Let_def slice_blocks_def split: option.splits if_splits)
qed

lemma append_call_value:
  assumes "calls_ok m s" and "cc_Result c = None" and "append_call grow c s m = (sl, m')"
  shows "slice_calls m' (Some sl) = slice_calls m s @ [c]" and "calls_ok m' (Some sl)"
    and "mm_maps m' = mm_maps m" and "mm_strings m' = mm_strings m" and "mm_blocks m' = mm_blocks m" and "mm_next m \<le> mm_next m'"
proof -
  show 1: "slice_calls m' (Some sl) = slice_calls m s @ [c]"
    using assms
    by (auto simp: append_call_def slice_calls_def calls_ok_def new_calls_def Let_def take_Suc_conv_app_nth
        split: option.splits if_splits)
  show n: "mm_maps m' = mm_maps m" "mm_strings m' = mm_strings m" "mm_blocks m' = mm_blocks m" "mm_next m \<le> mm_next m'"
    using assms(3) by (auto simp: append_call_def new_calls_def Let_def split: option.splits if_splits)
  have "\<forall>c \<in> set (slice_calls m s). cell_ok (mm_next m) c"
    using assms(1) by (auto simp: calls_ok_def slice_calls_def split: option.splits)
  then have "\<forall>c \<in> set (slice_calls m' (Some sl)). cell_ok (mm_next m') c"
    unfolding 1 using assms(2) n(4) by (auto intro: cell_ok_mono)
  then show "calls_ok m' (Some sl)"
    using assms unfolding calls_ok_def
    by (auto simp: append_call_def new_calls_def Let_def split: option.splits if_splits)
qed

lemma write_cell_calls:
  assumes "k < sl_len sl"
  shows "slice_calls (write_cell sl k f m) (Some sl) = (slice_calls m (Some sl))[k := f (slice_calls m (Some sl) ! k)]"
  using assms by (simp add: slice_calls_def write_cell_def take_update_swap)

lemma first_call_lt: "first_call i cs = Some k \<Longrightarrow> k < length cs"
  by (induction cs arbitrary: k) (auto split: if_splits)

lemma set_result_map:
  assumes "\<And>c. tc_ToolUseId (g c) = cc_ToolUseId c"
  shows "set_result i text (map g cs) =
    (case first_call i cs of None \<Rightarrow> map g cs | Some k \<Rightarrow> (map g cs)[k := (g (cs ! k))\<lparr>tc_Result := Some text\<rparr>])"
  by (induction cs) (auto simp: assms split: option.split)

lemma heap_value_same:
  assumes "heap_ok (ha, m)" and "\<forall>a < mm_next m. mm_maps m' a = mm_maps m a \<and> mm_strings m' a = mm_strings m a"
  shows "map (mm_maps m') (slice_blocks m (ha_contentBlocks ha)) = map (mm_maps m) (slice_blocks m (ha_contentBlocks ha))"
    and "map (cell_value m') (slice_calls m (ha_toolCalls ha)) = map (cell_value m) (slice_calls m (ha_toolCalls ha))"
proof -
  show "map (mm_maps m') (slice_blocks m (ha_contentBlocks ha)) = map (mm_maps m) (slice_blocks m (ha_contentBlocks ha))"
    using assms(1,2) by (auto simp: heap_ok_def blocks_ok_def slice_blocks_def split: option.splits)
  have "cell_value m' c = cell_value m c" if "c \<in> set (slice_calls m (ha_toolCalls ha))" for c
    using that assms(1,2) by (cases "cc_Result c") (auto simp: cell_value_def heap_ok_def calls_ok_def cell_ok_def slice_calls_def split: option.splits)
  then show "map (cell_value m') (slice_calls m (ha_toolCalls ha)) = map (cell_value m) (slice_calls m (ha_toolCalls ha))"
    by simp
qed

lemma write_block_value:
  assumes ok: "heap_ok (ha, m)"
  shows "heap_value (heap_write grow (Append_block kvs) (ha, m)) = value_write (Append_block kvs) (heap_value (ha, m)) \<and>
    heap_ok (heap_write grow (Append_block kvs) (ha, m))"
proof -
  let ?b = "mm_next m" and ?m = "m\<lparr>mm_maps := (mm_maps m)(mm_next m := kvs), mm_next := Suc (mm_next m)\<rparr>"
  have old: "\<forall>a < mm_next m. mm_maps ?m a = mm_maps m a \<and> mm_strings ?m a = mm_strings m a" by simp
  note same = heap_value_same [OF ok old]
  have sl: "slice_blocks ?m (ha_contentBlocks ha) = slice_blocks m (ha_contentBlocks ha)"
    "slice_calls ?m (ha_toolCalls ha) = slice_calls m (ha_toolCalls ha)"
    by (simp_all add: slice_blocks_def slice_calls_def split: option.split)
  have okb: "blocks_ok ?m (ha_contentBlocks ha)" and okc: "calls_ok ?m (ha_toolCalls ha)"
    using ok by (auto simp: heap_ok_def blocks_ok_def calls_ok_def slice_blocks_def slice_calls_def split: option.splits)
  obtain s m' where a: "append_block grow ?b (ha_contentBlocks ha) ?m = (s, m')" by (cases "append_block grow ?b (ha_contentBlocks ha) ?m")
  have "?b < mm_next ?m" by simp
  note A = append_block_value [OF okb this a]
  have c: "slice_calls m' (ha_toolCalls ha) = slice_calls m (ha_toolCalls ha)"
    using A(5) by (simp add: slice_calls_def split: option.split)
  have "cell_value m' = cell_value ?m" by (rule ext) (simp add: cell_value_def A(4))
  moreover have "calls_ok m' (ha_toolCalls ha)"
    using okc A(5,6) c sl(2) by (auto simp: calls_ok_def intro: cell_ok_mono split: option.splits)
  ultimately show ?thesis
    using A(1-3) same sl c by (simp add: new_map_def a heap_value_def slices_value_def heap_ok_def)
qed

lemma write_call_value:
  assumes ok: "heap_ok (ha, m)"
  shows "heap_value (heap_write grow (Append_call i n) (ha, m)) = value_write (Append_call i n) (heap_value (ha, m)) \<and>
    heap_ok (heap_write grow (Append_call i n) (ha, m))"
proof -
  define c where "c = zero_cell\<lparr>cc_ToolUseId := i, cc_ToolName := n\<rparr>"
  have c: "cc_Result c = None"
    "cell_value m c = \<lparr>tc_ToolUseId = i, tc_ToolName = n, tc_InputJson = [], tc_Result = None\<rparr>"
    by (simp_all add: c_def zero_cell_def cell_value_def)
  obtain s m' where a: "append_call grow c (ha_toolCalls ha) m = (s, m')" by (cases "append_call grow c (ha_toolCalls ha) m")
  have okb: "blocks_ok m (ha_contentBlocks ha)" and okc: "calls_ok m (ha_toolCalls ha)"
    using ok by (simp_all add: heap_ok_def)
  note A = append_call_value [OF okc c(1) a]
  have b: "slice_blocks m' (ha_contentBlocks ha) = slice_blocks m (ha_contentBlocks ha)"
    using A(5) by (simp add: slice_blocks_def split: option.split)
  have "cell_value m' = cell_value m" by (rule ext) (simp add: cell_value_def A(4))
  moreover have "blocks_ok m' (ha_contentBlocks ha)"
    using okb A(5,6) b by (auto simp: blocks_ok_def split: option.splits)
  ultimately show ?thesis
    using A(1-3) b c(2) by (simp flip: c_def) (simp add: a heap_value_def slices_value_def heap_ok_def)
qed

lemma write_cell_keeps:
  shows "slice_blocks (write_cell sl k f m) s = slice_blocks m s" and "mm_maps (write_cell sl k f m) = mm_maps m"
    and "mm_strings (write_cell sl k f m) = mm_strings m" and "mm_next (write_cell sl k f m) = mm_next m"
    and "mm_blocks (write_cell sl k f m) = mm_blocks m"
    and "length (mm_calls (write_cell sl k f m) a) = length (mm_calls m a)"
    and "blocks_ok (write_cell sl k f m) s = blocks_ok m s"
  by (simp_all add: write_cell_def slice_blocks_def blocks_ok_def split: option.split)

lemma write_extend_value:
  assumes ok: "heap_ok (ha, m)"
  shows "heap_value (heap_write grow (Extend_last s) (ha, m)) = value_write (Extend_last s) (heap_value (ha, m)) \<and>
    heap_ok (heap_write grow (Extend_last s) (ha, m))"
proof (cases "ha_toolCalls ha")
  case None
  with ok show ?thesis by (simp add: heap_value_def slices_value_def slice_calls_def)
next
  case (Some sl)
  let ?f = "\<lambda>c. c\<lparr>cc_InputJson := cc_InputJson c @ s\<rparr>"
  let ?m = "write_cell sl (sl_len sl - 1) ?f m" and ?cs = "slice_calls m (Some sl)"
  have len: "length ?cs = sl_len sl"
    using ok Some by (simp add: heap_ok_def calls_ok_def slice_calls_def)
  show ?thesis
  proof (cases "sl_len sl > 0")
    case False
    with ok Some len show ?thesis by (simp add: heap_value_def slices_value_def)
  next
    case True
    have "cell_value ?m = cell_value m" by (simp add: cell_value_def write_cell_keeps fun_eq_iff)
    moreover have new: "slice_calls ?m (Some sl) = ?cs[sl_len sl - 1 := ?f (?cs ! (sl_len sl - 1))]"
      using True by (simp add: write_cell_calls)
    moreover have ne: "?cs \<noteq> []" using len True by auto
    then have "?cs[sl_len sl - 1 := ?f (?cs ! (sl_len sl - 1))] = butlast ?cs @ [?f (last ?cs)]"
      unfolding len [symmetric] by (simp add: last_conv_nth list_update_length butlast_conv_take upd_conv_take_nth_drop)
    moreover have "calls_ok ?m (Some sl)"
    proof -
      have "\<forall>c \<in> set ?cs. cell_ok (mm_next m) c"
        using ok Some by (simp add: heap_ok_def calls_ok_def)
      then have "\<forall>c \<in> set (butlast ?cs @ [?f (last ?cs)]). cell_ok (mm_next m) c"
        using ne by (auto dest: in_set_butlastD)
      then show ?thesis
        using ok Some calculation by (simp add: heap_ok_def calls_ok_def write_cell_keeps)
    qed
    moreover have "cell_value m (?f c) = (cell_value m c)\<lparr>tc_InputJson := tc_InputJson (cell_value m c) @ s\<rparr>" for c
      by (simp add: cell_value_def)
    ultimately show ?thesis
      using ok Some True ne
      by (simp add: heap_value_def slices_value_def heap_ok_def write_cell_keeps map_butlast last_map)
  qed
qed

lemma write_attach_value:
  assumes ok: "heap_ok (ha, m)"
  shows "heap_value (heap_write grow (Attach i text) (ha, m)) = value_write (Attach i text) (heap_value (ha, m)) \<and>
    heap_ok (heap_write grow (Attach i text) (ha, m))"
proof (cases "ha_toolCalls ha")
  case None
  with ok show ?thesis by (simp add: heap_value_def slices_value_def slice_calls_def)
next
  case (Some sl)
  let ?cs = "slice_calls m (Some sl)"
  have set: "set_result i text (map (cell_value m) ?cs) = (case first_call i ?cs of None \<Rightarrow> map (cell_value m) ?cs
      | Some k \<Rightarrow> (map (cell_value m) ?cs)[k := (cell_value m (?cs ! k))\<lparr>tc_Result := Some text\<rparr>])"
    by (rule set_result_map) (simp add: cell_value_def)
  show ?thesis
  proof (cases "first_call i ?cs")
    case None
    with ok Some set show ?thesis by (simp add: heap_value_def slices_value_def)
  next
    case k: (Some k)
    let ?a = "mm_next m" and ?m = "m\<lparr>mm_strings := (mm_strings m)(mm_next m := text), mm_next := Suc (mm_next m)\<rparr>"
    let ?f = "\<lambda>c. c\<lparr>cc_Result := Some (mm_next m)\<rparr>"
    let ?m' = "write_cell sl k ?f ?m"
    have lt: "k < length ?cs" by (rule first_call_lt [OF k])
    then have ksl: "k < sl_len sl" by (simp add: slice_calls_def)
    have old: "\<forall>a < mm_next m. mm_maps ?m a = mm_maps m a \<and> mm_strings ?m a = mm_strings m a" by simp
    note same = heap_value_same [OF ok old]
    have sl: "slice_blocks ?m (ha_contentBlocks ha) = slice_blocks m (ha_contentBlocks ha)" "slice_calls ?m (Some sl) = ?cs"
      by (simp_all add: slice_blocks_def slice_calls_def split: option.split)
    have new: "slice_calls ?m' (Some sl) = ?cs[k := ?f (?cs ! k)]" by (simp add: write_cell_calls [OF ksl] sl(2))
    have cell: "cell_value ?m' = cell_value ?m" by (rule ext) (simp add: cell_value_def write_cell_keeps)
    have "\<forall>c \<in> set ?cs. cell_ok (mm_next m) c" using ok Some by (simp add: heap_ok_def calls_ok_def)
    then have "\<forall>c \<in> set (?cs[k := ?f (?cs ! k)]). cell_ok (Suc (mm_next m)) c"
      using set_update_subset_insert [of ?cs k "?f (?cs ! k)"] by fastforce
    then have okc: "calls_ok ?m' (Some sl)"
      using ok Some new by (simp add: heap_ok_def calls_ok_def write_cell_keeps)
    have okb: "blocks_ok ?m' (ha_contentBlocks ha)"
      using ok by (auto simp: heap_ok_def write_cell_keeps blocks_ok_def slice_blocks_def split: option.splits)
    have attached: "cell_value ?m (?f c) = (cell_value m c)\<lparr>tc_Result := Some text\<rparr>" for c
      by (simp add: cell_value_def)
    have "map (cell_value ?m) (?cs[k := ?f (?cs ! k)]) =
        (map (cell_value m) ?cs)[k := (cell_value m (?cs ! k))\<lparr>tc_Result := Some text\<rparr>]"
      by (simp only: map_update attached same(2) [unfolded Some])
    then show ?thesis
      using Some k set new cell same(1) sl(1) okb okc
      by (simp add: new_string_def heap_value_def slices_value_def heap_ok_def write_cell_keeps)
  qed
qed

lemma heap_write_value:
  assumes "heap_ok st"
  shows "heap_value (heap_write grow wr st) = value_write wr (heap_value st)" and "heap_ok (heap_write grow wr st)"
  using assms write_block_value write_call_value write_extend_value write_attach_value
  by (cases st; cases wr; simp)+

lemma heap_writes_value:
  assumes "heap_ok st"
  shows "heap_value (fold (heap_write grow) wrs st) = fold value_write wrs (heap_value st) \<and>
    heap_ok (fold (heap_write grow) wrs st) \<and> untouched st (fold (heap_write grow) wrs st)"
  using assms
proof (induction wrs arbitrary: st)
  case (Cons wr wrs)
  note w = heap_write_value [OF Cons.prems, of grow wr]
  note rest = Cons.IH [OF w(2)]
  have "untouched st (fold (heap_write grow) wrs (heap_write grow wr st))"
    by (rule untouched_trans [OF heap_write_untouched [OF Cons.prems, of grow wr]]) (use rest in simp)
  with w(1) rest show ?case by simp
qed simp

lemma heap_events_value:
  assumes "heap_ok st" and "heap_value st = agg_values a"
  shows "heap_value (fold (heap_Handle grow) es st) = agg_values (fold Handle es a) \<and>
    heap_ok (fold (heap_Handle grow) es st) \<and> untouched st (fold (heap_Handle grow) es st)"
  using assms
proof (induction es arbitrary: st a)
  case (Cons e es)
  have w: "heap_value (heap_Handle grow e st) = agg_values (Handle e a)" "heap_ok (heap_Handle grow e st)"
    "untouched st (heap_Handle grow e st)"
    using heap_writes_value [OF Cons.prems(1)] Cons.prems(2) by (simp_all add: heap_Handle_def Handle_writes)
  note rest = Cons.IH [OF w(2,1)]
  have "untouched st (fold (heap_Handle grow) es (heap_Handle grow e st))"
    by (rule untouched_trans [OF w(3)]) (use rest in simp)
  with rest show ?case by simp
qed simp

section \<open>A snapshot does not change\<close>

lemma clone_maps_value:
  assumes "clone_maps bs m = (bs', m')" and "\<forall>b \<in> set bs. b < mm_next m"
  shows "map (mm_maps m') bs' = map (mm_maps m) bs \<and> length bs' = length bs \<and> (\<forall>b \<in> set bs'. b < mm_next m') \<and>
    mm_next m \<le> mm_next m' \<and> (\<forall>a < mm_next m. mm_maps m' a = mm_maps m a) \<and>
    mm_strings m' = mm_strings m \<and> mm_calls m' = mm_calls m \<and> mm_blocks m' = mm_blocks m"
  using assms
proof (induction bs arbitrary: m bs')
  case (Cons b bs)
  let ?m = "m\<lparr>mm_maps := (mm_maps m)(mm_next m := mm_maps m b), mm_next := Suc (mm_next m)\<rparr>"
  obtain cs where rest: "clone_maps bs ?m = (cs, m')" and bs': "bs' = mm_next m # cs"
    using Cons.prems(1) by (auto simp: new_map_def split: prod.splits)
  have "\<forall>b \<in> set bs. b < mm_next ?m" using Cons.prems(2) by auto
  note ih = Cons.IH [OF rest this]
  have "map (mm_maps ?m) bs = map (mm_maps m) bs" using Cons.prems(2) by auto
  with ih bs' show ?case by auto
qed simp

text \<open>A clone is allocated after everything else, and has the value of its original.\<close>

definition kept :: "memory \<Rightarrow> memory \<Rightarrow> bool" where
  "kept m m' \<longleftrightarrow> mm_next m \<le> mm_next m' \<and> (\<forall>a < mm_next m. mm_maps m' a = mm_maps m a \<and>
     mm_strings m' a = mm_strings m a \<and> mm_calls m' a = mm_calls m a \<and> mm_blocks m' a = mm_blocks m a)"

definition fresh :: "memory \<Rightarrow> slice option \<Rightarrow> bool" where
  "fresh m s \<longleftrightarrow> (case s of None \<Rightarrow> True | Some sl \<Rightarrow> mm_next m \<le> sl_array sl)"

definition cloned :: "memory \<Rightarrow> slice option \<Rightarrow> memory \<Rightarrow> bool" where
  "cloned m s m' \<longleftrightarrow> kept m m' \<and> fresh m s"

lemmas cloned_defs = cloned_def kept_def fresh_def

lemma kept_trans: "kept m m1 \<Longrightarrow> kept m1 m2 \<Longrightarrow> kept m m2"
  by (simp add: kept_def)

lemma kept_untouched: "kept m m' \<Longrightarrow> untouched (ha, m) (ha, m')"
  by (simp add: kept_def untouched_def)

lemma kept_blocks:
  assumes "kept m m'" and "blocks_ok m s"
  shows "blocks_ok m' s \<and> map (mm_maps m') (slice_blocks m' s) = map (mm_maps m) (slice_blocks m s)"
proof (cases s)
  case (Some sl)
  with assms have arr: "mm_blocks m' (sl_array sl) = mm_blocks m (sl_array sl)" "mm_next m \<le> mm_next m'"
    by (simp_all add: kept_def blocks_ok_def)
  have maps: "\<forall>b \<in> set (slice_blocks m s). b < mm_next m \<and> mm_maps m' b = mm_maps m b"
    using assms Some by (simp add: kept_def blocks_ok_def)
  have same: "slice_blocks m' s = slice_blocks m s" using Some arr by (simp add: slice_blocks_def)
  show ?thesis using assms(2) Some maps arr by (auto simp: same) (auto simp: blocks_ok_def slice_blocks_def)
qed (simp add: blocks_ok_def slice_blocks_def)

lemma kept_calls:
  assumes "kept m m'" and "calls_ok m s"
  shows "calls_ok m' s \<and> map (cell_value m') (slice_calls m' s) = map (cell_value m) (slice_calls m s)"
proof (cases s)
  case (Some sl)
  with assms have arr: "mm_calls m' (sl_array sl) = mm_calls m (sl_array sl)" "mm_next m \<le> mm_next m'"
    by (simp_all add: kept_def calls_ok_def)
  have ok: "\<forall>c \<in> set (slice_calls m s). cell_ok (mm_next m) c" using assms(2) Some by (simp add: calls_ok_def)
  have cell: "cell_value m' c = cell_value m c" if "cell_ok (mm_next m) c" for c
    using that assms(1) by (cases "cc_Result c") (simp_all add: cell_value_def cell_ok_def kept_def)
  have same: "slice_calls m' s = slice_calls m s" using Some arr by (simp add: slice_calls_def)
  have "\<forall>c \<in> set (slice_calls m s). cell_ok (mm_next m') c" using ok cell_ok_mono [OF _ arr(2)] by blast
  moreover have "map (cell_value m') (slice_calls m s) = map (cell_value m) (slice_calls m s)" using ok cell by simp
  ultimately show ?thesis using assms(2) Some arr same by (simp add: calls_ok_def)
qed (simp add: calls_ok_def slice_calls_def)

lemma cloneToolCalls_value:
  assumes "calls_ok m s" and "cloneToolCalls s m = (s', m')"
  shows "slice_calls m' s' = slice_calls m s" and "calls_ok m' s'" and "cloned m s' m'"
    and "mm_maps m' = mm_maps m" and "mm_strings m' = mm_strings m" and "mm_blocks m' = mm_blocks m"
  using assms
  by (auto simp: cloneToolCalls_def calls_ok_def slice_calls_def new_calls_def cloned_defs cell_ok_Suc
      split: option.splits)

lemma cloneBlocks_value:
  assumes ok: "blocks_ok m s" and clone: "cloneBlocks s m = (s', m')"
  shows "map (mm_maps m') (slice_blocks m' s') = map (mm_maps m) (slice_blocks m s)" and "blocks_ok m' s'" and "cloned m s' m'"
    and "mm_strings m' = mm_strings m" and "mm_calls m' = mm_calls m"
proof -
  have "map (mm_maps m') (slice_blocks m' s') = map (mm_maps m) (slice_blocks m s) \<and> blocks_ok m' s' \<and> cloned m s' m' \<and>
    mm_strings m' = mm_strings m \<and> mm_calls m' = mm_calls m"
  proof (cases s)
    case None
    with clone show ?thesis by (simp add: cloneBlocks_def slice_blocks_def blocks_ok_def cloned_defs)
  next
    case (Some sl)
    obtain bs m1 where c: "clone_maps (slice_blocks m s) m = (bs, m1)" by (cases "clone_maps (slice_blocks m s) m")
    have "\<forall>b \<in> set (slice_blocks m s). b < mm_next m" using ok Some by (simp add: blocks_ok_def)
    note v = clone_maps_value [OF c this]
    have len: "length bs = sl_len sl" using ok Some v by (simp add: blocks_ok_def slice_blocks_def)
    have s': "s' = Some \<lparr>sl_array = mm_next m1, sl_len = sl_len sl\<rparr>"
      and m': "m' = m1\<lparr>mm_blocks := (mm_blocks m1)(mm_next m1 := bs), mm_next := Suc (mm_next m1)\<rparr>"
      using clone c Some by (simp_all add: cloneBlocks_def new_blocks_def)
    have sb: "slice_blocks m' s' = bs" using len by (simp add: s' m' slice_blocks_def)
    have "blocks_ok m' s'" using v len sb by (simp add: blocks_ok_def s') (auto simp: m')
    moreover have "cloned m s' m'" using v by (auto simp: cloned_defs s' m')
    ultimately show ?thesis using v sb by (auto simp: m')
  qed
  then show "map (mm_maps m') (slice_blocks m' s') = map (mm_maps m) (slice_blocks m s)" "blocks_ok m' s'" "cloned m s' m'"
    "mm_strings m' = mm_strings m" "mm_calls m' = mm_calls m" by blast+
qed

text \<open>Slices that share no array with the aggregator keep their value while it goes on.\<close>

definition apart :: "slice option \<Rightarrow> slice option \<Rightarrow> bool" where
  "apart own s \<longleftrightarrow> (case s of None \<Rightarrow> True | Some sl \<Rightarrow> array_of own \<noteq> Some (sl_array sl))"

definition detached :: "heap_aggregator \<times> memory \<Rightarrow> slice option \<times> slice option \<Rightarrow> bool" where
  "detached st sn \<longleftrightarrow> blocks_ok (snd st) (fst sn) \<and> calls_ok (snd st) (snd sn) \<and>
     apart (ha_contentBlocks (fst st)) (fst sn) \<and> apart (ha_toolCalls (fst st)) (snd sn)"

lemma untouched_blocks:
  assumes "untouched (ha, m) (ha', m')" and "blocks_ok m s" and "apart (ha_contentBlocks ha) s"
  shows "slice_blocks m' s = slice_blocks m s \<and> blocks_ok m' s \<and> apart (ha_contentBlocks ha') s"
proof (cases s)
  case (Some sl)
  with assms(2,3) have "sl_array sl < mm_next m" "array_of (ha_contentBlocks ha) \<noteq> Some (sl_array sl)"
    by (simp_all add: blocks_ok_def apart_def)
  with assms(1) have "mm_blocks m' (sl_array sl) = mm_blocks m (sl_array sl)" "mm_next m \<le> mm_next m'"
      "array_of (ha_contentBlocks ha') \<noteq> Some (sl_array sl)"
    by (simp_all add: untouched_def)
  with assms(2) Some show ?thesis by (auto simp: slice_blocks_def blocks_ok_def apart_def)
qed (simp add: slice_blocks_def blocks_ok_def apart_def)

lemma untouched_calls:
  assumes "untouched (ha, m) (ha', m')" and "calls_ok m s" and "apart (ha_toolCalls ha) s"
  shows "slice_calls m' s = slice_calls m s \<and> calls_ok m' s \<and> apart (ha_toolCalls ha') s"
proof (cases s)
  case (Some sl)
  with assms(2,3) have "sl_array sl < mm_next m" "array_of (ha_toolCalls ha) \<noteq> Some (sl_array sl)"
    by (simp_all add: calls_ok_def apart_def)
  with assms(1) have same: "mm_calls m' (sl_array sl) = mm_calls m (sl_array sl)" and n: "mm_next m \<le> mm_next m'"
      and "array_of (ha_toolCalls ha') \<noteq> Some (sl_array sl)"
    by (simp_all add: untouched_def)
  with assms(2) Some show ?thesis by (auto simp: slice_calls_def calls_ok_def apart_def intro: cell_ok_mono [OF _ n])
qed (simp add: slice_calls_def calls_ok_def apart_def)

lemma value_later:
  assumes later: "untouched st st'" and detached: "detached st sn"
  shows "slices_value (snd st') (fst sn) (snd sn) = slices_value (snd st) (fst sn) (snd sn)" and "detached st' sn"
proof -
  obtain ha m ha' m' where st: "st = (ha, m)" "st' = (ha', m')" by (cases st, cases st') blast
  let ?ha = "\<lparr>ha_contentBlocks = fst sn, ha_toolCalls = snd sn\<rparr>"
  have "\<forall>a < mm_next m. mm_maps m' a = mm_maps m a \<and> mm_strings m' a = mm_strings m a"
    using later st by (simp add: untouched_def)
  moreover have "heap_ok (?ha, m)" using detached st by (simp add: heap_ok_def detached_def)
  ultimately have same: "map (mm_maps m') (slice_blocks m (fst sn)) = map (mm_maps m) (slice_blocks m (fst sn))"
    "map (cell_value m') (slice_calls m (snd sn)) = map (cell_value m) (slice_calls m (snd sn))"
    using heap_value_same [of ?ha m m'] by (simp_all del: map_eq_conv)
  have b: "slice_blocks m' (fst sn) = slice_blocks m (fst sn) \<and> blocks_ok m' (fst sn) \<and> apart (ha_contentBlocks ha') (fst sn)"
    using later detached st by (intro untouched_blocks [of ha m]) (simp_all add: detached_def)
  have c: "slice_calls m' (snd sn) = slice_calls m (snd sn) \<and> calls_ok m' (snd sn) \<and> apart (ha_toolCalls ha') (snd sn)"
    using later detached st by (intro untouched_calls [of ha m]) (simp_all add: detached_def)
  show "slices_value (snd st') (fst sn) (snd sn) = slices_value (snd st) (fst sn) (snd sn)"
    using b c same st by (simp add: slices_value_def del: map_eq_conv)
  show "detached st' sn" using b c st by (simp add: detached_def)
qed

lemma fresh_apart: "fresh m s \<Longrightarrow> blocks_ok m own \<Longrightarrow> apart own s" "fresh m s \<Longrightarrow> calls_ok m own \<Longrightarrow> apart own s"
  by (auto simp: fresh_def apart_def blocks_ok_def calls_ok_def array_of_def split: option.splits)

lemma heap_Snapshot_value:
  assumes ok: "heap_ok (ha, m)" and snap: "heap_Snapshot (ha, m) = (sn, m')"
  shows "untouched (ha, m) (ha, m')" and "heap_ok (ha, m')" and "heap_value (ha, m') = heap_value (ha, m)"
    and "detached (ha, m') sn" and "slices_value m' (fst sn) (snd sn) = heap_value (ha, m)"
proof -
  let ?bs = "ha_contentBlocks ha" and ?cs = "ha_toolCalls ha"
  obtain bs m1 where b: "cloneBlocks ?bs m = (bs, m1)" by (cases "cloneBlocks ?bs m")
  then obtain cs where c: "cloneToolCalls ?cs m1 = (cs, m')" and sn: "sn = (bs, cs)"
    using snap by (auto simp: heap_Snapshot_def split: prod.splits)
  have okb: "blocks_ok m ?bs" and okc: "calls_ok m ?cs" using ok by (simp_all add: heap_ok_def)
  note B = cloneBlocks_value [OF okb b]
  have k1: "kept m m1" and f1: "fresh m bs" using B(3) by (simp_all add: cloned_def)
  note c1 = kept_calls [OF k1 okc] and b1 = kept_blocks [OF k1 okb]
  note C = cloneToolCalls_value [OF conjunct1 [OF c1] c]
  have k2: "kept m1 m'" and f2: "fresh m1 cs" using C(3) by (simp_all add: cloned_def)
  note k = kept_trans [OF k1 k2]
  note c2 = kept_calls [OF k okc] and b2 = kept_blocks [OF k okb] and bs2 = kept_blocks [OF k2 B(2)]
  show "untouched (ha, m) (ha, m')" by (rule kept_untouched [OF k])
  show "heap_ok (ha, m')" using b2 c2 by (simp add: heap_ok_def)
  show "heap_value (ha, m') = heap_value (ha, m)"
    using b2 c2 by (simp add: heap_value_def slices_value_def del: map_eq_conv)
  show "detached (ha, m') sn"
    using bs2 C(2) fresh_apart(1) [OF f1 okb] fresh_apart(2) [OF f2 conjunct1 [OF c1]] by (simp add: detached_def sn)
  have "cell_value m' = cell_value m1" by (rule ext) (simp add: cell_value_def C(5))
  then show "slices_value m' (fst sn) (snd sn) = heap_value (ha, m)"
    using bs2 B(1) C(1) c1 by (simp add: heap_value_def slices_value_def sn del: map_eq_conv)
qed

section \<open>Events and ticks, interleaved\<close>

text \<open>The mutex makes each \<^verbatim>\<open>Handle\<close> and each \<^verbatim>\<open>Snapshot\<close> one step; the encoding of the snapshots happens
  outside it, at any later time.\<close>

datatype agg_step = Handled stream_event | Snapped

type_synonym agg_run = "(slice option \<times> slice option) list \<times> heap_aggregator \<times> memory"

fun heap_step :: "(nat \<Rightarrow> nat) \<Rightarrow> agg_step \<Rightarrow> agg_run \<Rightarrow> agg_run" where
  "heap_step grow (Handled e) (snaps, st) = (snaps, heap_Handle grow e st)"
| "heap_step grow Snapped (snaps, ha, m) = (case heap_Snapshot (ha, m) of (sn, m) \<Rightarrow> (snaps @ [sn], ha, m))"

definition empty_aggregator :: heap_aggregator where
  "empty_aggregator = \<lparr>ha_contentBlocks = None, ha_toolCalls = None\<rparr>"

fun events_of :: "agg_step list \<Rightarrow> stream_event list" where
  "events_of [] = []"
| "events_of (Handled e # ss) = e # events_of ss"
| "events_of (Snapped # ss) = events_of ss"

text \<open>The schedule of \<open>run_ticks\<close>: how many events each snapshot came after.\<close>

fun ticks_of :: "nat \<Rightarrow> agg_step list \<Rightarrow> nat list" where
  "ticks_of n [] = []"
| "ticks_of n (Handled e # ss) = ticks_of (Suc n) ss"
| "ticks_of n (Snapped # ss) = n # ticks_of n ss"

text \<open>What \<^verbatim>\<open>json.Marshal\<close> makes of a snapshot when the memory is \<open>m\<close>.\<close>

definition marshal_snapshot :: "memory \<Rightarrow> slice option \<times> slice option \<Rightarrow> json \<times> json" where
  "marshal_snapshot m sn = (case slices_value m (fst sn) (snd sn) of (bs, cs) \<Rightarrow> (blocks_json bs, calls_json cs))"

lemma marshal_snapshot_agg:
  "slices_value m (fst sn) (snd sn) = agg_values a \<Longrightarrow> marshal_snapshot m sn = Snapshot a"
  by (simp add: marshal_snapshot_def agg_values_def Snapshot_def)

lemma events_of_append [simp]: "events_of (ss @ ss') = events_of ss @ events_of ss'"
  by (induction ss rule: events_of.induct) simp_all

lemma ticks_of_append [simp]: "ticks_of n (ss @ ss') = ticks_of n ss @ ticks_of (n + length (events_of ss)) ss'"
  by (induction n ss rule: ticks_of.induct) simp_all

lemma ticks_of_bound: "k \<in> set (ticks_of n ss) \<Longrightarrow> k \<le> n + length (events_of ss)"
  by (induction n ss rule: ticks_of.induct) auto

definition holds_snapshots :: "agg_run \<Rightarrow> stream_event list \<Rightarrow> nat list \<Rightarrow> bool" where
  "holds_snapshots r es ks \<longleftrightarrow> heap_ok (snd r) \<and> heap_value (snd r) = agg_values (aggregate es) \<and>
     list_all2 (\<lambda>sn k. detached (snd r) sn \<and>
       slices_value (snd (snd r)) (fst sn) (snd sn) = agg_values (aggregate (take k es))) (fst r) ks"

lemma heap_step_holds:
  assumes "holds_snapshots r (events_of ss) (ticks_of 0 ss)"
  shows "holds_snapshots (heap_step grow s r) (events_of (ss @ [s])) (ticks_of 0 (ss @ [s]))"
proof -
  let ?es = "events_of ss" and ?ks = "ticks_of 0 ss"
  obtain snaps ha m where r: "r = (snaps, ha, m)" by (cases r)
  have ok: "heap_ok (ha, m)" and val: "heap_value (ha, m) = agg_values (aggregate ?es)"
    and all: "list_all2 (\<lambda>sn k. detached (ha, m) sn \<and>
       slices_value m (fst sn) (snd sn) = agg_values (aggregate (take k ?es))) snaps ?ks"
    using assms r by (simp_all add: holds_snapshots_def)
  have later: "list_all2 (\<lambda>sn k. detached st sn \<and>
       slices_value (snd st) (fst sn) (snd sn) = agg_values (aggregate (take k ?es))) snaps ?ks"
    if "untouched (ha, m) st" for st
    by (rule list_all2_mono [OF all]) (use value_later [OF that] in simp)
  show ?thesis
  proof (cases s)
    case (Handled e)
    have h: "heap_value (heap_Handle grow e (ha, m)) = agg_values (aggregate (?es @ [e]))"
      "heap_ok (heap_Handle grow e (ha, m))" "untouched (ha, m) (heap_Handle grow e (ha, m))"
      using heap_events_value [OF ok val, of grow "[e]"] by (simp_all add: aggregate_def)
    have "take k (?es @ [e]) = take k ?es" if "k \<in> set ?ks" for k
      using ticks_of_bound [OF that] by simp
    then have "list_all2 (\<lambda>sn k. detached (heap_Handle grow e (ha, m)) sn \<and>
        slices_value (snd (heap_Handle grow e (ha, m))) (fst sn) (snd sn) =
          agg_values (aggregate (take k (?es @ [e])))) snaps ?ks"
      using later [OF h(3)] by (auto simp: list_all2_conv_all_nth)
    with h r Handled show ?thesis by (simp add: holds_snapshots_def)
  next
    case Snapped
    obtain sn m' where snap: "heap_Snapshot (ha, m) = (sn, m')" by (cases "heap_Snapshot (ha, m)")
    note S = heap_Snapshot_value [OF ok snap]
    show ?thesis
      using later [OF S(1)] S val r Snapped snap by (simp add: holds_snapshots_def list_all2_appendI)
  qed
qed

lemma heap_steps_hold:
  "holds_snapshots (fold (heap_step grow) ss ([], empty_aggregator, m)) (events_of ss) (ticks_of 0 ss)"
proof (induction ss rule: rev_induct)
  case Nil
  show ?case
    by (simp add: holds_snapshots_def empty_aggregator_def heap_ok_def blocks_ok_def calls_ok_def heap_value_def
        slices_value_def slice_blocks_def slice_calls_def aggregate_def agg_values_def new_aggregator_def)
next
  case (snoc s ss)
  from heap_step_holds [OF this, of grow s] show ?case by simp
qed

text \<open>The clones are needed: slices handed out as they are show what is written later.\<close>

lemma shared_slice_changes:
  assumes "heap_write grow (Append_call i n) (empty_aggregator, m) = (ha, m1)" and "s \<noteq> []"
    and "heap_write grow (Extend_last s) (ha, m1) = (ha', m2)"
  shows "slices_value m2 (ha_contentBlocks ha) (ha_toolCalls ha) \<noteq> slices_value m1 (ha_contentBlocks ha) (ha_toolCalls ha)"
  using assms
  by (auto simp: empty_aggregator_def append_call_def new_calls_def write_cell_def slices_value_def slice_calls_def
      slice_blocks_def cell_value_def)

text \<open>C17: whatever the events are and whenever the batch ticker takes its snapshots, each snapshot that is
  encoded at any later moment, with the aggregator by then appending to its slices (in place where the
  array has room), extending the input of its last call and attaching results in place, encodes the blocks and calls
  of the events that were handled when it was taken; and the aggregator in memory holds the blocks and
  calls of the model's aggregator.  So \<open>run_ticks\<close>, which reads \<open>Snapshot\<close> as a value, is what runs.\<close>

theorem snapshots_isolated:
  "case fold (heap_step grow) ss ([], empty_aggregator, m) of (snaps, ha, m') \<Rightarrow>
     map (marshal_snapshot m') snaps = map (\<lambda>k. Snapshot (aggregate (take k (events_of ss)))) (ticks_of 0 ss) \<and>
     heap_value (ha, m') = agg_values (aggregate (events_of ss))"
proof -
  obtain snaps ha m' where r: "fold (heap_step grow) ss ([], empty_aggregator, m) = (snaps, ha, m')"
    by (cases "fold (heap_step grow) ss ([], empty_aggregator, m)")
  have h: "holds_snapshots (snaps, ha, m') (events_of ss) (ticks_of 0 ss)" using heap_steps_hold [of grow ss m] r by simp
  then have "list_all2 (\<lambda>sn k. marshal_snapshot m' sn = Snapshot (aggregate (take k (events_of ss)))) snaps (ticks_of 0 ss)"
    by (auto simp: holds_snapshots_def marshal_snapshot_agg elim!: list_all2_mono)
  then have "map (marshal_snapshot m') snaps = map (\<lambda>k. Snapshot (aggregate (take k (events_of ss)))) (ticks_of 0 ss)"
    by (simp add: list_eq_iff_nth_eq list_all2_conv_all_nth)
  with h r show ?thesis by (simp add: holds_snapshots_def)
qed

end
