(* ===== verification/ApiTypes.thy ===== *)
theory ApiTypes
  imports ApiGen Repository_Props
begin

text \<open>
  The types of \<^verbatim>\<open>apps/cc-tunnel/internal/api/gen.go\<close>: the enumerations with their \<^verbatim>\<open>Valid\<close> methods,
  the structs with their JSON tags, and which of them each operation answers with according to
  \<^verbatim>\<open>apps/openapi/openapi.yaml\<close>.  \<open>conforms\<close> says that a JSON value is the encoding of a value of a type;
  the texts of UUIDs and times are only required to be strings.
\<close>

section \<open>Enumerations\<close>

definition AuthStatusAuthMethod_Valid :: "string \<Rightarrow> bool" where
  "AuthStatusAuthMethod_Valid e = (e = ''api_key'' \<or> e = ''claude.ai'' \<or> e = ''none'')"

definition ConversationStatus_Valid :: "string \<Rightarrow> bool" where
  "ConversationStatus_Valid e = (e = ''completed'' \<or> e = ''idle'' \<or> e = ''running'')"

definition ConversationDetailStatus_Valid :: "string \<Rightarrow> bool" where
  "ConversationDetailStatus_Valid e = (e = ''completed'' \<or> e = ''idle'' \<or> e = ''running'')"

definition CreateConversationRequestExecutionMode_Valid :: "string \<Rightarrow> bool" where
  "CreateConversationRequestExecutionMode_Valid e =
     (e = ''cloud_run_sandbox'' \<or> e = ''docker_gce'' \<or> e = ''local'')"

definition LoginRequestMethod_Valid :: "string \<Rightarrow> bool" where
  "LoginRequestMethod_Valid e = (e = ''claudeai'' \<or> e = ''console'')"

definition MessageRole_Valid :: "string \<Rightarrow> bool" where
  "MessageRole_Valid e = (e = ''assistant'' \<or> e = ''system'' \<or> e = ''user'')"

definition MessageStatus_Valid :: "string \<Rightarrow> bool" where
  "MessageStatus_Valid e = (e = ''completed'' \<or> e = ''error'' \<or> e = ''streaming'')"

section \<open>Types\<close>

text \<open>A field has its name, whether it is left out when nil (\<^verbatim>\<open>omitempty\<close>), and its type.\<close>

datatype json_type =
    TString
  | TBool
  | TUuid
  | TTime
  | TEnum "string \<Rightarrow> bool"
  | TObject
  | TList json_type
  | TStruct "(string \<times> bool \<times> json_type) list"

fun conforms :: "json_type \<Rightarrow> json \<Rightarrow> bool" where
  "conforms TString v = (case v of JStr s \<Rightarrow> True | _ \<Rightarrow> False)"
| "conforms TBool v = (case v of JBool b \<Rightarrow> True | _ \<Rightarrow> False)"
| "conforms TUuid v = (case v of JStr s \<Rightarrow> True | _ \<Rightarrow> False)"
| "conforms TTime v = (case v of JStr s \<Rightarrow> True | _ \<Rightarrow> False)"
| "conforms (TEnum valid) v = (case v of JStr s \<Rightarrow> valid s | _ \<Rightarrow> False)"
| "conforms TObject v = (case v of JObj kvs \<Rightarrow> True | _ \<Rightarrow> False)"
| "conforms (TList t) v = (case v of JArr vs \<Rightarrow> list_all (conforms t) vs | _ \<Rightarrow> False)"
| "conforms (TStruct fs) v =
     (case v of
        JObj kvs \<Rightarrow>
          distinct (map fst kvs) \<and> list_all (\<lambda>k. k \<in> fst ` set fs) (map fst kvs) \<and>
          list_all (\<lambda>(name, omit, t). case map_of kvs name of None \<Rightarrow> omit | Some x \<Rightarrow> conforms t x) fs
      | _ \<Rightarrow> False)"

definition type_AppAuthError :: json_type where
  "type_AppAuthError = TStruct [(''message'', False, TString)]"

definition type_AppUser :: json_type where
  "type_AppUser = TStruct [(''id'', False, TString), (''name'', False, TString)]"

definition type_AppAuthLoginRequest :: json_type where
  "type_AppAuthLoginRequest = TStruct [(''username'', False, TString)]"

definition type_AppAuthLoginResponse :: json_type where
  "type_AppAuthLoginResponse = TStruct [(''token'', False, TString), (''user'', False, type_AppUser)]"

definition type_AppAuthMeResponse :: json_type where
  "type_AppAuthMeResponse = TStruct [(''user'', False, type_AppUser)]"

definition type_AppAuthUpdateMeRequest :: json_type where
  "type_AppAuthUpdateMeRequest = TStruct [(''nickname'', False, TString)]"

definition type_AuthCancelResponse :: json_type where
  "type_AuthCancelResponse = TStruct [(''message'', False, TString)]"

definition type_AuthInputRequest :: json_type where
  "type_AuthInputRequest = TStruct [(''conversationId'', False, TUuid), (''input'', False, TString)]"

definition type_AuthInputResponse :: json_type where
  "type_AuthInputResponse = TStruct [(''message'', False, TString)]"

definition type_AuthStatus :: json_type where
  "type_AuthStatus = TStruct
     [(''apiKeySource'', True, TString), (''apiProvider'', True, TString),
      (''authMethod'', False, TEnum AuthStatusAuthMethod_Valid), (''email'', True, TString),
      (''loggedIn'', False, TBool), (''loginPending'', False, TBool), (''loginUrl'', True, TString),
      (''orgName'', True, TString), (''subscriptionType'', True, TString)]"

definition type_Conversation :: json_type where
  "type_Conversation = TStruct
     [(''created_at'', False, TTime), (''id'', False, TUuid), (''model'', False, TString),
      (''status'', False, TEnum ConversationStatus_Valid), (''system_prompt'', True, TString),
      (''title'', False, TString), (''updated_at'', False, TTime)]"

definition type_Message :: json_type where
  "type_Message = TStruct
     [(''conversation_id'', False, TUuid), (''created_at'', False, TTime), (''id'', False, TUuid),
      (''message_data'', True, TObject), (''role'', False, TEnum MessageRole_Valid),
      (''status'', True, TEnum MessageStatus_Valid), (''updated_at'', True, TTime)]"

definition type_ConversationDetail :: json_type where
  "type_ConversationDetail = TStruct
     [(''created_at'', False, TTime), (''id'', False, TUuid), (''messages'', False, TList type_Message),
      (''model'', False, TString), (''status'', False, TEnum ConversationDetailStatus_Valid),
      (''system_prompt'', True, TString), (''title'', False, TString), (''updated_at'', False, TTime)]"

definition type_CreateConversationRequest :: json_type where
  "type_CreateConversationRequest = TStruct
     [(''execution_mode'', True, TEnum CreateConversationRequestExecutionMode_Valid), (''model'', True, TString),
      (''system_prompt'', True, TString), (''title'', True, TString)]"

definition type_CredentialsStatusResponse :: json_type where
  "type_CredentialsStatusResponse = TStruct [(''isValid'', False, TBool), (''registered'', False, TBool)]"

definition type_Error :: json_type where
  "type_Error = TStruct [(''error'', False, TString)]"

definition type_LoginRequest :: json_type where
  "type_LoginRequest = TStruct
     [(''conversationId'', False, TUuid), (''method'', True, TEnum LoginRequestMethod_Valid)]"

definition type_LoginResponse :: json_type where
  "type_LoginResponse = TStruct
     [(''loggedIn'', True, TBool), (''loginUrl'', True, TString), (''message'', False, TString)]"

definition type_ReloginFinalizeRequest :: json_type where
  "type_ReloginFinalizeRequest = TStruct [(''conversationId'', False, TUuid)]"

definition type_ReloginFinalizeResponse :: json_type where
  "type_ReloginFinalizeResponse = TStruct [(''isValid'', False, TBool), (''registered'', False, TBool)]"

definition type_ReloginStartRequest :: json_type where
  "type_ReloginStartRequest = TStruct [(''conversationId'', False, TUuid)]"

definition type_ReloginStartResponse :: json_type where
  "type_ReloginStartResponse = TStruct [(''ready'', False, TBool)]"

definition type_SendMessageRequest :: json_type where
  "type_SendMessageRequest = TStruct [(''content'', False, TString)]"

definition type_SendMessageResponse :: json_type where
  "type_SendMessageResponse = TStruct [(''message_id'', False, TUuid)]"

definition type_StatusResponse :: json_type where
  "type_StatusResponse = TStruct [(''status'', False, TString)]"

section \<open>What the description promises\<close>

text \<open>The operations, and the JSON responses documented for each.\<close>

datatype api_operation =
    Op_AppAuthLogin
  | Op_AppAuthLogout
  | Op_AppAuthGetMe
  | Op_AppAuthUpdateMe
  | Op_CancelLogin
  | Op_InitiateLogin
  | Op_Logout
  | Op_SubmitAuthPtyInput
  | Op_GetAuthPtyStream
  | Op_GetAuthStatus
  | Op_ListConversations
  | Op_CreateConversation
  | Op_DeleteConversation
  | Op_GetConversation
  | Op_SendMessage
  | Op_PostReloginFinalize
  | Op_PostReloginStart
  | Op_GetCredentialsStatus

definition documented_responses :: "api_operation \<Rightarrow> (int \<times> json_type) list" where
  "documented_responses op =
     (case op of
        Op_AppAuthLogin \<Rightarrow> [(200, type_AppAuthLoginResponse)]
      | Op_AppAuthLogout \<Rightarrow> []
      | Op_AppAuthGetMe \<Rightarrow> [(200, type_AppAuthMeResponse), (401, type_AppAuthError)]
      | Op_AppAuthUpdateMe \<Rightarrow> [(200, type_AppAuthMeResponse), (401, type_AppAuthError)]
      | Op_CancelLogin \<Rightarrow> [(200, type_AuthCancelResponse)]
      | Op_InitiateLogin \<Rightarrow> [(200, type_LoginResponse)]
      | Op_Logout \<Rightarrow> [(200, type_AuthStatus)]
      | Op_SubmitAuthPtyInput \<Rightarrow> [(200, type_AuthInputResponse)]
      | Op_GetAuthPtyStream \<Rightarrow> []
      | Op_GetAuthStatus \<Rightarrow> [(200, type_AuthStatus)]
      | Op_ListConversations \<Rightarrow> [(200, TList type_Conversation)]
      | Op_CreateConversation \<Rightarrow> [(201, type_Conversation), (500, type_Error)]
      | Op_DeleteConversation \<Rightarrow> [(200, type_StatusResponse), (404, type_Error)]
      | Op_GetConversation \<Rightarrow> [(200, type_ConversationDetail), (404, type_Error)]
      | Op_SendMessage \<Rightarrow> [(202, type_SendMessageResponse), (400, type_Error), (404, type_Error)]
      | Op_PostReloginFinalize \<Rightarrow> [(200, type_ReloginFinalizeResponse), (400, type_Error), (401, type_Error), (502, type_Error)]
      | Op_PostReloginStart \<Rightarrow> [(200, type_ReloginStartResponse), (400, type_Error), (401, type_Error), (500, type_Error)]
      | Op_GetCredentialsStatus \<Rightarrow> [(200, type_CredentialsStatusResponse), (401, type_Error)])"

definition documented :: "api_operation \<Rightarrow> int \<Rightarrow> json_type option" where
  "documented op st = map_of (documented_responses op) st"

text \<open>The operation that serves a request.\<close>

definition operation :: "http_request \<Rightarrow> api_operation option" where
  "operation r =
     (let m = rq_method r; p = rq_path r; get = (m = ''GET'' \<or> m = ''HEAD'') in
      if p = [''app-auth'', ''login''] \<and> m = ''POST'' then Some Op_AppAuthLogin
      else if p = [''app-auth'', ''logout''] \<and> m = ''POST'' then Some Op_AppAuthLogout
      else if p = [''app-auth'', ''me''] \<and> get then Some Op_AppAuthGetMe
      else if p = [''app-auth'', ''me''] \<and> m = ''PATCH'' then Some Op_AppAuthUpdateMe
      else if p = [''auth'', ''cancel''] \<and> m = ''POST'' then Some Op_CancelLogin
      else if p = [''auth'', ''login''] \<and> m = ''POST'' then Some Op_InitiateLogin
      else if p = [''auth'', ''logout''] \<and> m = ''POST'' then Some Op_Logout
      else if p = [''auth'', ''pty'', ''input''] \<and> m = ''POST'' then Some Op_SubmitAuthPtyInput
      else if p = [''auth'', ''pty'', ''stream''] \<and> get then Some Op_GetAuthPtyStream
      else if p = [''auth'', ''status''] \<and> get then Some Op_GetAuthStatus
      else if p = [''conversations''] \<and> get then Some Op_ListConversations
      else if p = [''conversations''] \<and> m = ''POST'' then Some Op_CreateConversation
      else if length p = 2 \<and> p ! 0 = ''conversations'' \<and> p ! 1 \<noteq> [] \<and> m = ''DELETE'' then Some Op_DeleteConversation
      else if length p = 2 \<and> p ! 0 = ''conversations'' \<and> p ! 1 \<noteq> [] \<and> get then Some Op_GetConversation
      else if length p = 3 \<and> p ! 0 = ''conversations'' \<and> p ! 1 \<noteq> [] \<and> p ! 2 = ''messages'' \<and> m = ''POST''
      then Some Op_SendMessage
      else if p = [''credentials'', ''relogin'', ''finalize''] \<and> m = ''POST'' then Some Op_PostReloginFinalize
      else if p = [''credentials'', ''relogin'', ''start''] \<and> m = ''POST'' then Some Op_PostReloginStart
      else if p = [''credentials'', ''status''] \<and> get then Some Op_GetCredentialsStatus
      else None)"

end
