(* ===== verification/ApiTypes_Props.thy ===== *)
theory ApiTypes_Props
  imports ApiTypes ApiGen_Props ApiServer_Props
begin

text \<open>
  Every JSON body the API sends has the type its description promises.
\<close>

section \<open>Values of the types\<close>

lemmas api_types = type_AppAuthError_def type_AppUser_def type_AppAuthLoginResponse_def
  type_AppAuthMeResponse_def type_AuthCancelResponse_def type_AuthInputResponse_def
  type_CredentialsStatusResponse_def type_Error_def type_LoginResponse_def type_ReloginFinalizeResponse_def
  type_ReloginStartResponse_def type_SendMessageResponse_def type_StatusResponse_def

lemma conforms_Error [simp]: "conforms type_Error (JObj [(''error'', JStr m)])"
  by (simp add: api_types)

lemma conforms_AppAuthError [simp]: "conforms type_AppAuthError (JObj [(''message'', JStr m)])"
  by (simp add: api_types)

lemma conforms_AppUser [simp]: "conforms type_AppUser (app_user_json u)"
  by (simp add: api_types app_user_json_def)

lemma conforms_Conversation:
  "conv_status c \<in> set conv_statuses \<Longrightarrow> conforms type_Conversation (newConversation h c)"
  by (auto simp: newConversation_def type_Conversation_def omit_nil_def conv_statuses_def ConversationStatus_Valid_def
      split: option.split)

lemma conforms_Message:
  "msg_status m \<in> set msg_statuses \<Longrightarrow> msg_role m \<in> set msg_roles \<Longrightarrow> conforms type_Message (newMessage h m)"
  by (auto simp: newMessage_def type_Message_def msg_statuses_def msg_roles_def MessageRole_Valid_def MessageStatus_Valid_def)

lemma conforms_ConversationDetail:
  assumes "conv_status c \<in> set conv_statuses"
    and "\<forall>m \<in> set ms. msg_status m \<in> set msg_statuses \<and> msg_role m \<in> set msg_roles"
  shows "conforms type_ConversationDetail (newConversationDetail h c ms)"
proof -
  have "list_all (conforms type_Message) (map (newMessage h) ms)"
    using assms(2) by (simp add: list_all_iff conforms_Message)
  then show ?thesis
    using assms(1)
    by (auto simp: newConversationDetail_def type_ConversationDetail_def omit_nil_def conv_statuses_def
        ConversationDetailStatus_Valid_def split: option.split)
qed

lemma conforms_LoginResponse [simp]: "conforms type_LoginResponse (login_response_json r)"
  by (auto simp: api_types login_response_json_def omit_nil_def split: option.split)

lemma conforms_AuthStatus:
  "AuthStatusAuthMethod_Valid (as_authMethod s) \<Longrightarrow> conforms type_AuthStatus (auth_status_json s)"
  by (auto simp: type_AuthStatus_def auth_status_json_def omit_nil_def split: option.split)

lemma conforms_small [simp]:
  "conforms type_AppAuthLoginResponse (JObj [(''token'', JStr t), (''user'', app_user_json u)])"
  "conforms type_AppAuthMeResponse (JObj [(''user'', app_user_json u)])"
  "conforms type_AuthCancelResponse (message_json m)" "conforms type_AuthInputResponse (message_json m)"
  "conforms type_StatusResponse (JObj [(''status'', JStr s)])"
  "conforms type_SendMessageResponse (JObj [(''message_id'', JStr s)])"
  "conforms type_ReloginStartResponse (JObj [(''ready'', JBool b)])"
  "conforms type_CredentialsStatusResponse (credentials_status_json b1 b2)"
  "conforms type_ReloginFinalizeResponse (credentials_status_json b1 b2)"
  by (simp_all add: api_types message_json_def credentials_status_json_def app_user_json_def)

section \<open>Each handler\<close>

definition well_typed :: "api_operation \<Rightarrow> http_response \<Rightarrow> bool" where
  "well_typed op resp \<longleftrightarrow>
     (case rs_body resp of
        JsonBody v \<Rightarrow> (case documented op (rs_status resp) of Some t \<Rightarrow> conforms t v | None \<Rightarrow> True)
      | _ \<Rightarrow> True)"

lemma well_typed_json:
  "well_typed op (writeJSON c v) \<longleftrightarrow> (case documented op c of Some t \<Rightarrow> conforms t v | None \<Rightarrow> True)"
  "well_typed op (writeError c m) \<longleftrightarrow>
     (case documented op c of Some t \<Rightarrow> conforms t (JObj [(''error'', JStr m)]) | None \<Rightarrow> True)"
  "well_typed op app_auth_error \<longleftrightarrow>
     (case documented op 401 of Some t \<Rightarrow> conforms t (JObj [(''message'', JStr ''unauthorized'')]) | None \<Rightarrow> True)"
  by (simp_all add: well_typed_def writeError_def writeJSON_def app_auth_error_def)

lemma well_typed_undocumented: "documented op (rs_status resp) = None \<Longrightarrow> well_typed op resp"
  by (simp add: well_typed_def split: http_body.split)

lemmas typing = well_typed_json documented_def documented_responses_def

lemma well_typed_text [simp]:
  "well_typed op (http_error m c)" "well_typed op (required_param name)" "well_typed op (invalid_param name)"
  "well_typed op (status_response c)"
  by (simp_all add: well_typed_def http_error_def required_param_def invalid_param_def status_response_def)

lemma typed_app_auth:
  "well_typed Op_AppAuthLogin (fst (AppAuthLogin h r w))"
  "well_typed Op_AppAuthLogout (fst (AppAuthLogout r w))"
  "well_typed Op_AppAuthGetMe (fst (AppAuthGetMe r w))"
  "well_typed Op_AppAuthUpdateMe (fst (AppAuthUpdateMe r w))"
  by (auto simp: AppAuthLogin_def AppAuthLogout_def AppAuthGetMe_def update_me_defs typing Let_def
      split: sum.split prod.split option.split)

lemma typed_refusal:
  "requireAppAuthIfEnabled h r w = Inl resp \<Longrightarrow> documented op 401 = None \<Longrightarrow> well_typed op resp"
  by (auto simp: requireAppAuthIfEnabled_def well_typed_json split: option.splits if_splits)

lemma ListConversations_rows:
  "ListConversations w = (Inr cs, w') \<Longrightarrow> set cs \<subseteq> set (db_conversations w)"
  by (auto simp: ListConversations_def pg_exec_def split: list.splits option.splits)

lemma GetConversation_row:
  "GetConversation i w = (Inr c, w') \<Longrightarrow> c \<in> set (db_conversations w) \<and> db_messages w' = db_messages w"
  by (auto simp: GetConversation_def pg_exec_def dest!: first_row_Inr split: list.splits option.splits)

lemma ListMessages_rows:
  "ListMessages i w = (Inr ms, w') \<Longrightarrow> set ms \<subseteq> set (db_messages w)"
  by (auto simp: ListMessages_def pg_exec_def split: list.splits option.splits)

lemma CreateConversation_row:
  "CreateConversation t m sp w = (Inr c, w') \<Longrightarrow> conv_status c \<in> set conv_statuses"
  by (auto simp: CreateConversation_def pg_exec_def draw_uuid_def Let_def conv_statuses_def
      split: list.splits option.splits if_splits)

lemma typed_conversations:
  assumes "pg_ok w"
  shows "well_typed Op_ListConversations (fst (Server_ListConversations h r w))"
    and "well_typed Op_CreateConversation (fst (Server_CreateConversation h r w))"
    and "well_typed Op_GetConversation (fst (Server_GetConversation h r i w))"
    and "well_typed Op_DeleteConversation (fst (Server_DeleteConversation h r i w))"
proof -
  note none = typed_refusal [of h r w]
  have doc: "documented Op_ListConversations 401 = None" "documented Op_CreateConversation 401 = None"
    "documented Op_GetConversation 401 = None" "documented Op_DeleteConversation 401 = None"
    by (simp_all add: typing)
  show "well_typed Op_ListConversations (fst (Server_ListConversations h r w))"
    using pg_ok_rows(1) [OF assms] none [OF _ doc(1)]
    by (auto simp: Server_ListConversations_def typing list_all_iff intro!: conforms_Conversation
        dest!: ListConversations_rows split: sum.split prod.split)
  show "well_typed Op_CreateConversation (fst (Server_CreateConversation h r w))"
    using none [OF _ doc(2)]
    by (auto simp: Server_CreateConversation_def typing Let_def intro!: conforms_Conversation
        dest!: CreateConversation_row split: sum.split prod.split)
  show "well_typed Op_GetConversation (fst (Server_GetConversation h r i w))"
  proof (cases "requireAppAuthIfEnabled h r w")
    case (Inl resp)
    with none [OF _ doc(3)] show ?thesis by (simp add: Server_GetConversation_def)
  next
    case auth: (Inr u)
    obtain q w1 where q: "GetConversation i w = (q, w1)" by (cases "GetConversation i w")
    obtain q2 w2 where q2: "ListMessages i w1 = (q2, w2)" by (cases "ListMessages i w1")
    have "conforms type_ConversationDetail (newConversationDetail h c ms)" if "q = Inr c" "q2 = Inr ms" for c ms
      using q q2 that GetConversation_row [of i w c w1] ListMessages_rows [of i w1 ms w2] assms
      by (intro conforms_ConversationDetail) (auto simp: pg_ok_defs)
    with auth q q2 show ?thesis
      by (auto simp: Server_GetConversation_def typing split: sum.split)
  qed
  show "well_typed Op_DeleteConversation (fst (Server_DeleteConversation h r i w))"
    using none [OF _ doc(4)]
    by (auto simp: Server_DeleteConversation_def typing split: sum.split prod.split)
qed

lemma typed_send: "well_typed Op_SendMessage (fst (fst (SendMessage h r i w)))"
proof -
  have "rs_status resp \<in> {401, 500}" if "fetchCredentialOrRespond h r i w = (Inl resp, w')" for resp w'
    using that
    by (auto simp: fetchCredentialOrRespond_def writeError_def writeJSON_def app_auth_error_def
        split: option.splits sum.splits prod.splits if_splits)
  then have "well_typed Op_SendMessage resp" if "fetchCredentialOrRespond h r i w = (Inl resp, w')" for resp w'
    using that by (intro well_typed_undocumented) (fastforce simp: documented_def documented_responses_def)
  then show ?thesis
    by (auto simp: SendMessage_def typing split: sum.split prod.split)
qed

lemma typed_credentials:
  "rs_status (fst (GetCredentialsStatus h r w)) \<noteq> 401 \<Longrightarrow>
     well_typed Op_GetCredentialsStatus (fst (GetCredentialsStatus h r w))"
  "well_typed Op_PostReloginFinalize (fst (PostReloginFinalize h r w))"
  "PostReloginStart h r w = Some (resp, w') \<Longrightarrow> well_typed Op_PostReloginStart resp"
proof -
  have "rs_status resp = 401" if "requireAppAuthIfEnabled h r w = Inl resp" for resp
    using that by (auto simp: requireAppAuthIfEnabled_def writeError_def writeJSON_def app_auth_error_def
        split: option.splits if_splits)
  then show "well_typed Op_GetCredentialsStatus (fst (GetCredentialsStatus h r w))"
    if "rs_status (fst (GetCredentialsStatus h r w)) \<noteq> 401"
    using that
    by (auto simp: GetCredentialsStatus_def typing split: option.splits sum.splits prod.split)
  show "well_typed Op_PostReloginFinalize (fst (PostReloginFinalize h r w))"
    by (auto simp: PostReloginFinalize_def typing split: option.split sum.split prod.split)
  show "well_typed Op_PostReloginStart resp" if "PostReloginStart h r w = Some (resp, w')"
    using that by (auto simp: PostReloginStart_def typing split: option.splits sum.splits if_splits)
qed

lemma typed_proxy:
  assumes "\<And>x. well_typed op (answer x)" and "\<forall>s \<in> {404, 500, 502}. documented op s = None"
  shows "well_typed op (fst (proxy_call h c f answer w))"
  using assms
  by (auto simp: proxy_call_def getSessionClientOrRespond_def well_typed_json split: sum.split prod.split)

lemma typed_auth:
  "well_typed Op_CancelLogin (fst (Server_CancelLogin h c w))"
  "well_typed Op_InitiateLogin (fst (Server_InitiateLogin h r w))"
  "well_typed Op_SubmitAuthPtyInput (fst (Server_SubmitAuthPtyInput h r w))"
proof -
  have doc: "documented op s = None"
    if "op \<in> {Op_CancelLogin, Op_InitiateLogin, Op_SubmitAuthPtyInput}" "s \<noteq> 200" for op s
    using that by (auto simp: documented_def documented_responses_def)
  show "well_typed Op_CancelLogin (fst (Server_CancelLogin h c w))"
    unfolding Server_CancelLogin_def by (rule typed_proxy) (simp_all add: typing)
  show "well_typed Op_InitiateLogin (fst (Server_InitiateLogin h r w))"
    by (auto simp: Server_InitiateLogin_def typing intro!: typed_proxy split: sum.split)
  show "well_typed Op_SubmitAuthPtyInput (fst (Server_SubmitAuthPtyInput h r w))"
    by (auto simp: Server_SubmitAuthPtyInput_def typing intro!: typed_proxy split: sum.split)
qed

section \<open>The server\<close>

lemma typed_params:
  "(\<And>u. well_typed op (fst (f u w))) \<Longrightarrow> well_typed op (fst (with_query_conversation h r f w))"
  "(\<And>u. well_typed op (fst (f u w))) \<Longrightarrow> well_typed op (fst (with_path_conversation h seg f id w))"
  by (auto simp: with_query_conversation_def with_path_conversation_def split: option.split)

lemma plain_fst: "plain rw = Some ((resp, g), w') \<Longrightarrow> resp = fst rw"
  by (auto simp: plain_def split: prod.splits)

definition served_by ::
    "('z api_state_scheme) server \<Rightarrow> http_request \<Rightarrow> 'z api_state_scheme \<Rightarrow> api_operation \<Rightarrow>
     ((http_response \<times> goroutine option) \<times> 'z api_state_scheme) option" where
  "served_by h r w op =
     (case op of
        Op_AppAuthLogin \<Rightarrow> plain (AppAuthLogin h r w)
      | Op_AppAuthLogout \<Rightarrow> plain (AppAuthLogout r w)
      | Op_AppAuthGetMe \<Rightarrow> plain (AppAuthGetMe r w)
      | Op_AppAuthUpdateMe \<Rightarrow> plain (AppAuthUpdateMe r w)
      | Op_CancelLogin \<Rightarrow> plain (with_query_conversation h r (Server_CancelLogin h) w)
      | Op_InitiateLogin \<Rightarrow> plain (Server_InitiateLogin h r w)
      | Op_SubmitAuthPtyInput \<Rightarrow> plain (Server_SubmitAuthPtyInput h r w)
      | Op_ListConversations \<Rightarrow> plain (Server_ListConversations h r w)
      | Op_CreateConversation \<Rightarrow> plain (Server_CreateConversation h r w)
      | Op_DeleteConversation \<Rightarrow> plain (with_path_conversation h (rq_path r ! 1) (Server_DeleteConversation h r) id w)
      | Op_GetConversation \<Rightarrow> plain (with_path_conversation h (rq_path r ! 1) (Server_GetConversation h r) id w)
      | Op_PostReloginFinalize \<Rightarrow> plain (PostReloginFinalize h r w)
      | Op_GetCredentialsStatus \<Rightarrow> plain (GetCredentialsStatus h r w)
      | Op_SendMessage \<Rightarrow> Some (with_path_conversation h (rq_path r ! 1) (SendMessage h r) (\<lambda>resp. (resp, None)) w)
      | Op_PostReloginStart \<Rightarrow> (case PostReloginStart h r w of None \<Rightarrow> None | Some rw \<Rightarrow> plain rw)
      | Op_Logout \<Rightarrow> plain (with_query_conversation h r (Server_Logout h) w)
      | Op_GetAuthPtyStream \<Rightarrow> plain (with_query_conversation h r (Server_GetAuthPtyStream h) w)
      | Op_GetAuthStatus \<Rightarrow> plain (with_query_conversation h r (Server_GetAuthStatus h) w))"

lemma dispatch:
  assumes "operation r = Some op"
  shows "api_http h r w = served_by h r w op"
proof (cases "rq_path r \<in> set literal_paths")
  case True
  then consider "rq_path r = [''app-auth'', ''login'']"
    | "rq_path r = [''app-auth'', ''logout'']"
    | "rq_path r = [''app-auth'', ''me'']"
    | "rq_path r = [''auth'', ''cancel'']"
    | "rq_path r = [''auth'', ''login'']"
    | "rq_path r = [''auth'', ''logout'']"
    | "rq_path r = [''auth'', ''pty'', ''input'']"
    | "rq_path r = [''auth'', ''pty'', ''stream'']"
    | "rq_path r = [''auth'', ''status'']"
    | "rq_path r = [''conversations'']"
    | "rq_path r = [''credentials'', ''relogin'', ''finalize'']"
    | "rq_path r = [''credentials'', ''relogin'', ''start'']"
    | "rq_path r = [''credentials'', ''status'']"
    by (auto simp: literal_paths_def)
  then show ?thesis
    using assms by cases (auto simp: operation_def api_http_def served_by_def Let_def split: if_splits)
next
  case False
  then have "rq_path r \<noteq> p" if "p \<in> set literal_paths" for p using that by blast
  then show ?thesis
    using assms unfolding literal_paths_def
    by (auto simp: operation_def api_http_def served_by_def Let_def split: if_splits)
qed

text \<open>C23: every JSON body the API sends is of the type that its description gives for the operation and
  the status - the fields with their names and types, the optional ones only if they have a value,
  each status and role one of its enumeration - as long as the database keeps its constraints.
  The relayed login status is the agent's, and the refusal of \<^verbatim>\<open>GetCredentialsStatus\<close> is not of its
  type.\<close>

theorem responses_well_typed:
  assumes "pg_ok w" and "operation r = Some op" and "api_http h r w = Some ((resp, g), w')"
    and "op \<notin> {Op_GetAuthStatus, Op_Logout}" and "\<not> (op = Op_GetCredentialsStatus \<and> rs_status resp = 401)"
  shows "well_typed op resp"
proof -
  have D: "served_by h r w op = Some ((resp, g), w')" using dispatch [OF assms(2), of h w] assms(3) by simp
  note typed = typed_app_auth typed_auth typed_params typed_conversations [OF assms(1)] typed_credentials(2)
  show ?thesis
  proof (cases op)
    case Op_GetCredentialsStatus
    with D assms(5) typed_credentials(1) show ?thesis by (auto simp: served_by_def dest!: plain_fst)
  next
    case Op_SendMessage
    with D typed_send [of h r _ w] show ?thesis
      by (auto simp: served_by_def with_path_conversation_def split: option.splits) (metis fst_conv)
  next
    case Op_PostReloginStart
    with D show ?thesis
      by (auto simp: served_by_def plain_def intro: typed_credentials(3) split: option.splits prod.splits)
  next
    case Op_GetAuthPtyStream
    then show ?thesis by (intro well_typed_undocumented) (simp add: documented_def documented_responses_def)
  qed (use D assms(4) in \<open>auto simp: served_by_def typed dest!: plain_fst\<close>)
qed

text \<open>The exception: for a token that no session has, \<^verbatim>\<open>GetCredentialsStatus\<close> answers 401 with the
  body of \<^verbatim>\<open>AppAuthError\<close>, where the description promises \<^verbatim>\<open>Error\<close>.\<close>

theorem credentials_status_refusal_untyped:
  assumes "sv_credService h \<noteq> None" and "bearerToken r = Some t" and "session_get t w = None"
  shows "GetCredentialsStatus h r w = (app_auth_error, w) \<and> rs_status app_auth_error = 401 \<and>
    \<not> well_typed Op_GetCredentialsStatus app_auth_error"
  using assms
  by (auto simp: GetCredentialsStatus_def requireAppAuthIfEnabled_def typing type_Error_def)
    (simp add: app_auth_error_def writeJSON_def)

section \<open>Witnesses\<close>

lemma api_example_ok: "pg_ok api_example"
  by (simp add: pg_ok_defs api_example_def conv_statuses_def)

theorem responses_well_typed_witness:
  "\<exists>resp w'. api_http server_example (plain_request ''GET'' [''conversations''] NoBody) api_example = Some ((resp, None), w') \<and>
     rs_status resp = 200 \<and> well_typed Op_ListConversations resp"
proof -
  obtain resp w' where a: "api_http server_example (plain_request ''GET'' [''conversations''] NoBody) api_example =
      Some ((resp, None), w')" "rs_status resp = 200"
    by (simp add: api_http_def plain_def Server_ListConversations_def requireAppAuthIfEnabled_def server_example_def
        NewHandler_def ListConversations_def pg_exec_def api_example_def writeJSON_def Let_def)
  have "operation (plain_request ''GET'' [''conversations''] NoBody) = Some Op_ListConversations"
    by (simp add: operation_def Let_def)
  from responses_well_typed [OF api_example_ok this a(1)] a show ?thesis by auto
qed

theorem credentials_status_refusal_untyped_witness:
  "GetCredentialsStatus locked_server (send_example\<lparr>rq_authorization := ''Bearer x''\<rparr>) api_example = (app_auth_error, api_example)"
  using credentials_status_refusal_untyped [of locked_server "send_example\<lparr>rq_authorization := ''Bearer x''\<rparr>" "''x''" api_example]
  by (simp add: locked_server_def bearerToken_def cut_prefix_def has_prefix_def session_get_def api_example_def)

end
