(* ===== verification/GenClient.thy ===== *)
theory GenClient
  imports CMClient CmApiGen
begin

text \<open>
  The client \<^verbatim>\<open>internal/cmclient/genclient/gen.go\<close> generates: construction with its options, the
  request builders with their base address, request editors, the five operations and the parsers of
  their responses.

  \<open>'u net_lib\<close> is what it uses of \<^verbatim>\<open>net/url\<close>, \<^verbatim>\<open>net/http\<close> and \<^verbatim>\<open>oapi-codegen/runtime\<close>: parsing, printing
  and resolving addresses, the decoded path segments of an address, the default client and the
  encoding of a path parameter.  A nil \<^verbatim>\<open>HttpRequestDoer\<close> that is called is a panic, the outcome
  \<open>None\<close>; \<^verbatim>\<open>NewClient\<close> never leaves it nil.
\<close>

section \<open>Requests and clients\<close>

record client_request = http_request +
  cq_url :: string
  cq_content_type :: string

type_synonym 'w request_editor = "client_request \<Rightarrow> ('w, client_request) call"

type_synonym 'w request_doer = "client_request \<Rightarrow> ('w, http_response) call"

record ('u, 'w) net_lib =
  nl_parse :: "string \<Rightarrow> 'u result"
  nl_string :: "'u \<Rightarrow> string"
  nl_resolve :: "'u \<Rightarrow> string \<Rightarrow> 'u result"
  nl_path :: "'u \<Rightarrow> string list"
  nl_style_path :: "string \<Rightarrow> string \<Rightarrow> string result"
  nl_default_client :: "'w request_doer"

record 'w gen_client =
  gn_Server :: string
  gn_Client :: "'w request_doer option"
  gn_RequestEditors :: "'w request_editor list"

type_synonym 'w client_option = "'w gen_client \<Rightarrow> 'w gen_client result"

fun apply_options :: "'w client_option list \<Rightarrow> 'w gen_client \<Rightarrow> 'w gen_client result" where
  "apply_options [] c = Inr c"
| "apply_options (opt # opts) c = (case opt c of Inl err \<Rightarrow> Inl err | Inr c \<Rightarrow> apply_options opts c)"

definition with_slash :: "string \<Rightarrow> string" where
  "with_slash s = (if has_suffix s ''/'' then s else s @ ''/'')"

definition gen_NewClient ::
    "('u, 'w) net_lib \<Rightarrow> string \<Rightarrow> 'w client_option list \<Rightarrow> 'w gen_client result" where
  "gen_NewClient lib server opts =
     (case apply_options opts \<lparr>gn_Server = server, gn_Client = None, gn_RequestEditors = []\<rparr> of
        Inl err \<Rightarrow> Inl err
      | Inr c \<Rightarrow>
          let c = c\<lparr>gn_Server := with_slash (gn_Server c)\<rparr> in
          Inr (if gn_Client c = None then c\<lparr>gn_Client := Some (nl_default_client lib)\<rparr> else c))"

definition WithHTTPClient :: "'w request_doer \<Rightarrow> 'w client_option" where
  "WithHTTPClient doer c = Inr (c\<lparr>gn_Client := Some doer\<rparr>)"

definition WithRequestEditorFn :: "'w request_editor \<Rightarrow> 'w client_option" where
  "WithRequestEditorFn fn c = Inr (c\<lparr>gn_RequestEditors := gn_RequestEditors c @ [fn]\<rparr>)"

definition WithBaseURL :: "('u, 'w) net_lib \<Rightarrow> string \<Rightarrow> 'w client_option" where
  "WithBaseURL lib baseURL c =
     (case nl_parse lib baseURL of
        Inl err \<Rightarrow> Inl err
      | Inr newBaseURL \<Rightarrow> Inr (c\<lparr>gn_Server := nl_string lib newBaseURL\<rparr>))"

section \<open>Building requests\<close>

text \<open>\<^verbatim>\<open>http.NewRequest\<close> with a constant method.\<close>

definition new_request :: "('u, 'w) net_lib \<Rightarrow> string \<Rightarrow> string \<Rightarrow> http_body \<Rightarrow> client_request result" where
  "new_request lib meth url body =
     (case nl_parse lib url of
        Inl err \<Rightarrow> Inl err
      | Inr u \<Rightarrow> Inr (http_request.extend (plain_request meth (nl_path lib u) body)
                       \<lparr>cq_url = url, cq_content_type = []\<rparr>))"

definition operation_request ::
    "('u, 'w) net_lib \<Rightarrow> string \<Rightarrow> string \<Rightarrow> string \<Rightarrow> http_body \<Rightarrow> client_request result" where
  "operation_request lib meth server operationPath body =
     (case nl_parse lib server of
        Inl err \<Rightarrow> Inl err
      | Inr serverURL \<Rightarrow>
          (case nl_resolve lib serverURL
                  (if hd operationPath = CHR ''/'' then ''.'' @ operationPath else operationPath) of
             Inl err \<Rightarrow> Inl err
           | Inr queryURL \<Rightarrow> new_request lib meth (nl_string lib queryURL) body))"

definition gen_NewGetHealthzRequest :: "('u, 'w) net_lib \<Rightarrow> string \<Rightarrow> client_request result" where
  "gen_NewGetHealthzRequest lib server = operation_request lib ''GET'' server ''/healthz'' NoBody"

definition gen_NewListAgentsRequest :: "('u, 'w) net_lib \<Rightarrow> string \<Rightarrow> client_request result" where
  "gen_NewListAgentsRequest lib server = operation_request lib ''GET'' server ''/v1/agents'' NoBody"

definition gen_NewCreateAgentRequestWithBody ::
    "('u, 'w) net_lib \<Rightarrow> string \<Rightarrow> string \<Rightarrow> http_body \<Rightarrow> client_request result" where
  "gen_NewCreateAgentRequestWithBody lib server contentType body =
     (case operation_request lib ''POST'' server ''/v1/agents'' body of
        Inl err \<Rightarrow> Inl err
      | Inr req \<Rightarrow> Inr (req\<lparr>cq_content_type := contentType\<rparr>))"

definition gen_NewCreateAgentRequest ::
    "('u, 'w) net_lib \<Rightarrow> string \<Rightarrow> create_agent_request \<Rightarrow> client_request result" where
  "gen_NewCreateAgentRequest lib server body =
     gen_NewCreateAgentRequestWithBody lib server ''application/json'' (JsonBody (create_agent_json body))"

definition gen_NewRemoveAgentRequest :: "('u, 'w) net_lib \<Rightarrow> string \<Rightarrow> string \<Rightarrow> client_request result" where
  "gen_NewRemoveAgentRequest lib server name =
     (case nl_style_path lib ''name'' name of
        Inl err \<Rightarrow> Inl err
      | Inr pathParam0 \<Rightarrow> operation_request lib ''DELETE'' server (''/v1/agents/'' @ pathParam0) NoBody)"

definition gen_NewStopAgentRequest :: "('u, 'w) net_lib \<Rightarrow> string \<Rightarrow> string \<Rightarrow> client_request result" where
  "gen_NewStopAgentRequest lib server name =
     (case nl_style_path lib ''name'' name of
        Inl err \<Rightarrow> Inl err
      | Inr pathParam0 \<Rightarrow> operation_request lib ''POST'' server (''/v1/agents/'' @ pathParam0 @ ''/stop'') NoBody)"

section \<open>Operations\<close>

fun run_editors :: "'w request_editor list \<Rightarrow> client_request \<Rightarrow> ('w, client_request) call" where
  "run_editors [] req w = (Inr req, w)"
| "run_editors (r # rs) req w =
     (case r req w of (Inl err, w) \<Rightarrow> (Inl err, w) | (Inr req, w) \<Rightarrow> run_editors rs req w)"

definition applyEditors ::
    "'w gen_client \<Rightarrow> client_request \<Rightarrow> 'w request_editor list \<Rightarrow> ('w, client_request) call" where
  "applyEditors c req additionalEditors w =
     (case run_editors (gn_RequestEditors c) req w of
        (Inl err, w) \<Rightarrow> (Inl err, w)
      | (Inr req, w) \<Rightarrow> run_editors additionalEditors req w)"

type_synonym 'w sent = "(http_response result \<times> 'w) option"

text \<open>The body all operations share after building their request.\<close>

definition send ::
    "'w gen_client \<Rightarrow> client_request result \<Rightarrow> 'w request_editor list \<Rightarrow> 'w \<Rightarrow> 'w sent" where
  "send c built reqEditors w =
     (case built of
        Inl err \<Rightarrow> Some (Inl err, w)
      | Inr req \<Rightarrow>
          (case applyEditors c req reqEditors w of
             (Inl err, w) \<Rightarrow> Some (Inl err, w)
           | (Inr req, w) \<Rightarrow> (case gn_Client c of None \<Rightarrow> None | Some doer \<Rightarrow> Some (doer req w))))"

definition gen_GetHealthz ::
    "('u, 'w) net_lib \<Rightarrow> 'w gen_client \<Rightarrow> 'w request_editor list \<Rightarrow> 'w \<Rightarrow> 'w sent" where
  "gen_GetHealthz lib c = send c (gen_NewGetHealthzRequest lib (gn_Server c))"

definition gen_ListAgents ::
    "('u, 'w) net_lib \<Rightarrow> 'w gen_client \<Rightarrow> 'w request_editor list \<Rightarrow> 'w \<Rightarrow> 'w sent" where
  "gen_ListAgents lib c = send c (gen_NewListAgentsRequest lib (gn_Server c))"

definition gen_CreateAgentWithBody ::
    "('u, 'w) net_lib \<Rightarrow> 'w gen_client \<Rightarrow> string \<Rightarrow> http_body \<Rightarrow> 'w request_editor list \<Rightarrow> 'w \<Rightarrow> 'w sent" where
  "gen_CreateAgentWithBody lib c contentType body =
     send c (gen_NewCreateAgentRequestWithBody lib (gn_Server c) contentType body)"

definition gen_CreateAgent ::
    "('u, 'w) net_lib \<Rightarrow> 'w gen_client \<Rightarrow> create_agent_request \<Rightarrow> 'w request_editor list \<Rightarrow> 'w \<Rightarrow> 'w sent" where
  "gen_CreateAgent lib c body = send c (gen_NewCreateAgentRequest lib (gn_Server c) body)"

definition gen_RemoveAgent ::
    "('u, 'w) net_lib \<Rightarrow> 'w gen_client \<Rightarrow> string \<Rightarrow> 'w request_editor list \<Rightarrow> 'w \<Rightarrow> 'w sent" where
  "gen_RemoveAgent lib c name = send c (gen_NewRemoveAgentRequest lib (gn_Server c) name)"

definition gen_StopAgent ::
    "('u, 'w) net_lib \<Rightarrow> 'w gen_client \<Rightarrow> string \<Rightarrow> 'w request_editor list \<Rightarrow> 'w \<Rightarrow> 'w sent" where
  "gen_StopAgent lib c name = send c (gen_NewStopAgentRequest lib (gn_Server c) name)"

section \<open>Responses\<close>

text \<open>
  What the five response types share; their two methods are the same text five times.
  \<open>status_line\<close> is the field \<^verbatim>\<open>Status\<close> of \<^verbatim>\<open>http.Response\<close>; \<^verbatim>\<open>http.StatusText(0)\<close> is empty.
\<close>

record parsed_response =
  pr_Body :: http_body
  pr_HTTPResponse :: "http_response option"

definition parsed_Status :: "(http_response \<Rightarrow> string) \<Rightarrow> 'p parsed_response_scheme \<Rightarrow> string" where
  "parsed_Status status_line r = (case pr_HTTPResponse r of Some rsp \<Rightarrow> status_line rsp | None \<Rightarrow> [])"

definition parsed_StatusCode :: "'p parsed_response_scheme \<Rightarrow> int" where
  "parsed_StatusCode r = (case pr_HTTPResponse r of Some rsp \<Rightarrow> rs_status rsp | None \<Rightarrow> 0)"

record get_healthz_parsed = parsed_response +
  gh_JSON200 :: "string option"
  gh_JSON503 :: "string option"

record list_agents_full = parsed_response +
  lf_JSON200 :: "list_agents_result option"
  lf_JSON500 :: "string option"

record create_agent_parsed = parsed_response +
  cp_JSON201 :: "string option"
  cp_JSON400 :: "string option"
  cp_JSON500 :: "string option"

record remove_agent_parsed = parsed_response +
  rp_JSON404 :: "string option"
  rp_JSON500 :: "string option"

record stop_agent_parsed = parsed_response +
  sp_JSON404 :: "string option"
  sp_JSON500 :: "string option"

definition health_status_field :: "string \<Rightarrow> json \<Rightarrow> string \<Rightarrow> string option" where
  "health_status_field k v m = (if k = ''status'' then dec_string v m else Some m)"

definition create_agent_result_field :: "string \<Rightarrow> json \<Rightarrow> string \<Rightarrow> string option" where
  "create_agent_result_field k v m = (if k = ''id'' then dec_string v m else Some m)"

text \<open>The cases of the switch: a status code, the type decoded into, and the field that is set.\<close>

definition json_case ::
    "int \<Rightarrow> (string \<Rightarrow> json \<Rightarrow> 's \<Rightarrow> 's option) \<Rightarrow> 's \<Rightarrow> ('s \<Rightarrow> 'p \<Rightarrow> 'p) \<Rightarrow> http_response \<Rightarrow> ('p \<Rightarrow> 'p result) \<Rightarrow> 'p \<Rightarrow> 'p result" where
  "json_case code field zero set_field rsp otherwise p =
     (if contains_str (rs_content_type rsp) ''json'' \<and> rs_status rsp = code then
        (case unmarshal field zero (rs_body rsp) of Inl err \<Rightarrow> Inl err | Inr dest \<Rightarrow> Inr (set_field dest p))
      else otherwise p)"

definition read_body :: "http_response \<Rightarrow> 'p result \<Rightarrow> 'p result" where
  "read_body rsp k = (case read_error (rs_body rsp) of Some err \<Rightarrow> Inl err | None \<Rightarrow> k)"

definition ParseGetHealthzResponse :: "http_response \<Rightarrow> get_healthz_parsed result" where
  "ParseGetHealthzResponse rsp = read_body rsp
     (json_case 200 health_status_field [] (\<lambda>d. gh_JSON200_update (\<lambda>_. Some d)) rsp
     (json_case 503 error_field [] (\<lambda>d. gh_JSON503_update (\<lambda>_. Some d)) rsp Inr)
     \<lparr>pr_Body = rs_body rsp, pr_HTTPResponse = Some rsp, gh_JSON200 = None, gh_JSON503 = None\<rparr>)"

definition full_ParseListAgentsResponse :: "http_response \<Rightarrow> list_agents_full result" where
  "full_ParseListAgentsResponse rsp = read_body rsp
     (json_case 200 list_agents_field \<lparr>la_agents = [], la_count = 0\<rparr> (\<lambda>d. lf_JSON200_update (\<lambda>_. Some d)) rsp
     (json_case 500 error_field [] (\<lambda>d. lf_JSON500_update (\<lambda>_. Some d)) rsp Inr)
     \<lparr>pr_Body = rs_body rsp, pr_HTTPResponse = Some rsp, lf_JSON200 = None, lf_JSON500 = None\<rparr>)"

definition ParseCreateAgentResponse :: "http_response \<Rightarrow> create_agent_parsed result" where
  "ParseCreateAgentResponse rsp = read_body rsp
     (json_case 201 create_agent_result_field [] (\<lambda>d. cp_JSON201_update (\<lambda>_. Some d)) rsp
     (json_case 400 error_field [] (\<lambda>d. cp_JSON400_update (\<lambda>_. Some d)) rsp
     (json_case 500 error_field [] (\<lambda>d. cp_JSON500_update (\<lambda>_. Some d)) rsp Inr))
     \<lparr>pr_Body = rs_body rsp, pr_HTTPResponse = Some rsp, cp_JSON201 = None, cp_JSON400 = None, cp_JSON500 = None\<rparr>)"

definition ParseRemoveAgentResponse :: "http_response \<Rightarrow> remove_agent_parsed result" where
  "ParseRemoveAgentResponse rsp = read_body rsp
     (json_case 404 error_field [] (\<lambda>d. rp_JSON404_update (\<lambda>_. Some d)) rsp
     (json_case 500 error_field [] (\<lambda>d. rp_JSON500_update (\<lambda>_. Some d)) rsp Inr)
     \<lparr>pr_Body = rs_body rsp, pr_HTTPResponse = Some rsp, rp_JSON404 = None, rp_JSON500 = None\<rparr>)"

definition ParseStopAgentResponse :: "http_response \<Rightarrow> stop_agent_parsed result" where
  "ParseStopAgentResponse rsp = read_body rsp
     (json_case 404 error_field [] (\<lambda>d. sp_JSON404_update (\<lambda>_. Some d)) rsp
     (json_case 500 error_field [] (\<lambda>d. sp_JSON500_update (\<lambda>_. Some d)) rsp Inr)
     \<lparr>pr_Body = rs_body rsp, pr_HTTPResponse = Some rsp, sp_JSON404 = None, sp_JSON500 = None\<rparr>)"

text \<open>The operations that also parse.\<close>

definition with_response :: "(http_response \<Rightarrow> 'p result) \<Rightarrow> 'w sent \<Rightarrow> ('p result \<times> 'w) option" where
  "with_response parse rsp =
     (case rsp of
        None \<Rightarrow> None
      | Some (Inl err, w) \<Rightarrow> Some (Inl err, w)
      | Some (Inr resp, w) \<Rightarrow> Some (parse resp, w))"

definition GetHealthzWithResponse ::
    "('u, 'w) net_lib \<Rightarrow> 'w gen_client \<Rightarrow> 'w request_editor list \<Rightarrow> 'w \<Rightarrow> (get_healthz_parsed result \<times> 'w) option" where
  "GetHealthzWithResponse lib c eds w = with_response ParseGetHealthzResponse (gen_GetHealthz lib c eds w)"

definition ListAgentsWithResponse ::
    "('u, 'w) net_lib \<Rightarrow> 'w gen_client \<Rightarrow> 'w request_editor list \<Rightarrow> 'w \<Rightarrow> (list_agents_full result \<times> 'w) option" where
  "ListAgentsWithResponse lib c eds w = with_response full_ParseListAgentsResponse (gen_ListAgents lib c eds w)"

definition CreateAgentWithBodyWithResponse ::
    "('u, 'w) net_lib \<Rightarrow> 'w gen_client \<Rightarrow> string \<Rightarrow> http_body \<Rightarrow> 'w request_editor list \<Rightarrow> 'w \<Rightarrow>
     (create_agent_parsed result \<times> 'w) option" where
  "CreateAgentWithBodyWithResponse lib c contentType body eds w =
     with_response ParseCreateAgentResponse (gen_CreateAgentWithBody lib c contentType body eds w)"

definition CreateAgentWithResponse ::
    "('u, 'w) net_lib \<Rightarrow> 'w gen_client \<Rightarrow> create_agent_request \<Rightarrow> 'w request_editor list \<Rightarrow> 'w \<Rightarrow>
     (create_agent_parsed result \<times> 'w) option" where
  "CreateAgentWithResponse lib c body eds w = with_response ParseCreateAgentResponse (gen_CreateAgent lib c body eds w)"

definition RemoveAgentWithResponse ::
    "('u, 'w) net_lib \<Rightarrow> 'w gen_client \<Rightarrow> string \<Rightarrow> 'w request_editor list \<Rightarrow> 'w \<Rightarrow> (remove_agent_parsed result \<times> 'w) option" where
  "RemoveAgentWithResponse lib c name eds w = with_response ParseRemoveAgentResponse (gen_RemoveAgent lib c name eds w)"

definition StopAgentWithResponse ::
    "('u, 'w) net_lib \<Rightarrow> 'w gen_client \<Rightarrow> string \<Rightarrow> 'w request_editor list \<Rightarrow> 'w \<Rightarrow> (stop_agent_parsed result \<times> 'w) option" where
  "StopAgentWithResponse lib c name eds w = with_response ParseStopAgentResponse (gen_StopAgent lib c name eds w)"

end
