(* ===== verification/GenClient_Props.thy ===== *)
theory GenClient_Props
  imports GenClient CMClient_Props CmApiGen_Props
begin

text \<open>
  The generated client against the generated server: a typed call of the client is the typed
  operation of the server, for every operation and every outcome.
\<close>

section \<open>Addresses\<close>

text \<open>What is needed of \<^verbatim>\<open>net/url\<close> for one server address: the paths the client resolves against it
  come out as the segments the server sees, with the styled name decoded again.\<close>

definition routes_to :: "('u, 'w) net_lib \<Rightarrow> string \<Rightarrow> string \<Rightarrow> string list \<Rightarrow> bool" where
  "routes_to lib server path segs \<longleftrightarrow>
     (case nl_parse lib server of
        Inl err \<Rightarrow> False
      | Inr u \<Rightarrow>
          (case nl_resolve lib u path of
             Inl err \<Rightarrow> False
           | Inr q \<Rightarrow> (case nl_parse lib (nl_string lib q) of Inl err \<Rightarrow> False | Inr q' \<Rightarrow> nl_path lib q' = segs)))"

definition reaches_name :: "('u, 'w) net_lib \<Rightarrow> string \<Rightarrow> string \<Rightarrow> bool" where
  "reaches_name lib server name \<longleftrightarrow>
     (case nl_style_path lib ''name'' name of
        Inl err \<Rightarrow> False
      | Inr s \<Rightarrow> routes_to lib server (''./v1/agents/'' @ s) [''v1'', ''agents'', name] \<and>
          routes_to lib server (''./v1/agents/'' @ s @ ''/stop'') [''v1'', ''agents'', name, ''stop''])"

definition reaches :: "('u, 'w) net_lib \<Rightarrow> string \<Rightarrow> bool" where
  "reaches lib server \<longleftrightarrow>
     routes_to lib server ''./healthz'' [''healthz''] \<and> routes_to lib server ''./v1/agents'' [''v1'', ''agents'']"

lemma routes_toE:
  assumes "routes_to lib server path segs"
  obtains u q q' where "nl_parse lib server = Inr u" "nl_resolve lib u path = Inr q"
    "nl_parse lib (nl_string lib q) = Inr q'" "nl_path lib q' = segs"
  using assms by (auto simp: routes_to_def split: sum.splits)

lemma operation_request_routed:
  assumes "routes_to lib server (CHR ''.'' # CHR ''/'' # path) segs"
  obtains req where "operation_request lib meth server (CHR ''/'' # path) body = Inr req"
    "http_request.truncate req = plain_request meth segs body"
  using assms
  by (elim routes_toE) (simp add: operation_request_def new_request_def http_request.defs plain_request_def)

lemma truncate_content_type [simp]:
  "http_request.truncate (req\<lparr>cq_content_type := t\<rparr>) = http_request.truncate (req :: client_request)"
  by (simp add: http_request.defs)

section \<open>The client without editors\<close>

text \<open>The hand-written client gives its transport the requests themselves.\<close>

definition plain_doer :: "'w http_doer \<Rightarrow> 'w request_doer" where
  "plain_doer d req = hd_do d (http_request.truncate req)"

lemma send_plain:
  assumes "gn_Client c = Some (plain_doer d)" and "gn_RequestEditors c = []"
    and "built = Inr req" and "http_request.truncate req = r"
  shows "send c built [] w = Some (hd_do d r w)"
  using assms by (simp add: send_def applyEditors_def plain_doer_def)

lemma new_client:
  "gen_NewClient lib server [WithHTTPClient doer] =
     Inr \<lparr>gn_Server = with_slash server, gn_Client = Some doer, gn_RequestEditors = []\<rparr>"
  by (simp add: gen_NewClient_def WithHTTPClient_def)

lemma generated_calls:
  assumes c: "gen_NewClient lib server [WithHTTPClient (plain_doer d)] = Inr c"
    and reach: "reaches lib (with_slash server)"
  shows "gen_GetHealthz lib c [] w = Some (hd_do d NewGetHealthzRequest w)"
    and "gen_ListAgents lib c [] w = Some (hd_do d NewListAgentsRequest w)"
    and "gen_CreateAgent lib c b [] w = Some (hd_do d (NewCreateAgentRequest b) w)"
    and "reaches_name lib (with_slash server) name \<Longrightarrow>
      gen_RemoveAgent lib c name [] w = Some (hd_do d (NewRemoveAgentRequest name) w)"
    and "reaches_name lib (with_slash server) name \<Longrightarrow>
      gen_StopAgent lib c name [] w = Some (hd_do d (NewStopAgentRequest name) w)"
proof -
  note c' = c [unfolded new_client, simplified, symmetric]
  have cl: "gn_Client c = Some (plain_doer d)" "gn_RequestEditors c = []" "gn_Server c = with_slash server"
    by (simp_all add: c')
  note s = send_plain [OF cl(1,2)]
  from reach have r1: "routes_to lib (with_slash server) ''./healthz'' [''healthz'']"
    and r2: "routes_to lib (with_slash server) ''./v1/agents'' [''v1'', ''agents'']"
    by (simp_all add: reaches_def)
  show "gen_GetHealthz lib c [] w = Some (hd_do d NewGetHealthzRequest w)"
    by (rule operation_request_routed [OF r1, of "''GET''" NoBody])
      (simp add: gen_GetHealthz_def gen_NewGetHealthzRequest_def cl(3) NewGetHealthzRequest_def s)
  show "gen_ListAgents lib c [] w = Some (hd_do d NewListAgentsRequest w)"
    by (rule operation_request_routed [OF r2, of "''GET''" NoBody])
      (simp add: gen_ListAgents_def gen_NewListAgentsRequest_def cl(3) NewListAgentsRequest_def s)
  show "gen_CreateAgent lib c b [] w = Some (hd_do d (NewCreateAgentRequest b) w)"
    by (rule operation_request_routed [OF r2, of "''POST''" "JsonBody (create_agent_json b)"])
      (simp add: gen_CreateAgent_def gen_NewCreateAgentRequest_def gen_NewCreateAgentRequestWithBody_def cl(3)
        NewCreateAgentRequest_def s)
  assume "reaches_name lib (with_slash server) name"
  then obtain t where t: "nl_style_path lib ''name'' name = Inr t"
    and r3: "routes_to lib (with_slash server) (''./v1/agents/'' @ t) [''v1'', ''agents'', name]"
    and r4: "routes_to lib (with_slash server) (''./v1/agents/'' @ t @ ''/stop'') [''v1'', ''agents'', name, ''stop'']"
    by (auto simp: reaches_name_def split: sum.splits)
  show "gen_RemoveAgent lib c name [] w = Some (hd_do d (NewRemoveAgentRequest name) w)"
    by (rule operation_request_routed [OF r3 [simplified], of "''DELETE''" NoBody])
      (simp add: gen_RemoveAgent_def gen_NewRemoveAgentRequest_def t cl(3) NewRemoveAgentRequest_def s)
  show "gen_StopAgent lib c name [] w = Some (hd_do d (NewStopAgentRequest name) w)"
    by (rule operation_request_routed [OF r4 [simplified], of "''POST''" NoBody])
      (simp add: gen_StopAgent_def gen_NewStopAgentRequest_def t cl(3) NewStopAgentRequest_def s)
qed

section \<open>Typed responses\<close>

text \<open>The typed response a parsed one stands for, if any.\<close>

definition view_GetHealthz :: "get_healthz_parsed \<Rightarrow> strict_response option" where
  "view_GetHealthz p = (case (gh_JSON200 p, gh_JSON503 p) of
     (Some st, None) \<Rightarrow> Some (GetHealthzResponseObject (GetHealthz200 st))
   | (None, Some m) \<Rightarrow> Some (GetHealthzResponseObject (GetHealthz503 m)) | _ \<Rightarrow> None)"

definition view_ListAgents :: "list_agents_full \<Rightarrow> strict_response option" where
  "view_ListAgents p = (case (lf_JSON200 p, lf_JSON500 p) of
     (Some r, None) \<Rightarrow> Some (ListAgentsResponseObject (ListAgents200 (la_agents r) (la_count r)))
   | (None, Some m) \<Rightarrow> Some (ListAgentsResponseObject (ListAgents500 m)) | _ \<Rightarrow> None)"

definition view_CreateAgent :: "create_agent_parsed \<Rightarrow> strict_response option" where
  "view_CreateAgent p = (case (cp_JSON201 p, cp_JSON400 p, cp_JSON500 p) of
     (Some i, None, None) \<Rightarrow> Some (CreateAgentResponseObject (CreateAgent201 i))
   | (None, Some m, None) \<Rightarrow> Some (CreateAgentResponseObject (CreateAgent400 m))
   | (None, None, Some m) \<Rightarrow> Some (CreateAgentResponseObject (CreateAgent500 m)) | _ \<Rightarrow> None)"

definition view_RemoveAgent :: "remove_agent_parsed \<Rightarrow> strict_response option" where
  "view_RemoveAgent p = (case (rp_JSON404 p, rp_JSON500 p) of
     (Some m, None) \<Rightarrow> Some (RemoveAgentResponseObject (RemoveAgent404 m))
   | (None, Some m) \<Rightarrow> Some (RemoveAgentResponseObject (RemoveAgent500 m))
   | (None, None) \<Rightarrow> if parsed_StatusCode p = 204 then Some (RemoveAgentResponseObject RemoveAgent204) else None
   | _ \<Rightarrow> None)"

definition view_StopAgent :: "stop_agent_parsed \<Rightarrow> strict_response option" where
  "view_StopAgent p = (case (sp_JSON404 p, sp_JSON500 p) of
     (Some m, None) \<Rightarrow> Some (StopAgentResponseObject (StopAgent404 m))
   | (None, Some m) \<Rightarrow> Some (StopAgentResponseObject (StopAgent500 m))
   | (None, None) \<Rightarrow> if parsed_StatusCode p = 204 then Some (StopAgentResponseObject StopAgent204) else None
   | _ \<Rightarrow> None)"

lemma json_case_json:
  "json_case code field zero upd (json_response st v) k p =
     (if st = code then (case decode_struct field zero (JsonBody v) of Inl err \<Rightarrow> Inl err | Inr dest \<Rightarrow> Inr (upd dest p))
      else k p)"
proof -
  have "contains_str ''application/json'' ''json''" by code_simp
  then show ?thesis by (simp only: json_case_def response_sel unmarshal_json simp_thms)
qed

lemma json_case_status: "json_case code field zero upd (status_response st) k p = k p"
proof -
  have "\<not> contains_str [] ''json''" by code_simp
  then show ?thesis by (simp add: json_case_def status_response_def)
qed

lemma lower_status [simp]: "ascii_lower ''status'' = ''status''" "ascii_lower ''id'' = ''id''"
  by code_simp+

lemma decode_error: "decode_struct error_field [] (JsonBody (error_json m)) = Inr m"
  by (simp add: decode_struct_def dec_struct_def error_json_def error_field_def)

lemma decode_agents:
  "decode_struct list_agents_field \<lparr>la_agents = [], la_count = 0\<rparr>
     (JsonBody (JObj [(''agents'', JArr (map agent_info_json ns)), (''count'', enc_int n)])) =
   Inr \<lparr>la_agents = ns, la_count = n\<rparr>"
proof -
  have "dec_slice (dec_struct agent_info_field) [] (JArr (map agent_info_json ns)) [] = Some ns"
    by (rule dec_slice_map) (simp add: dec_struct_def agent_info_json_def agent_info_field_def)
  then show ?thesis by (simp add: decode_struct_def dec_struct_def list_agents_field_def)
qed

lemmas parse_defs = read_body_def json_case_json json_case_status decode_error decode_agents decode_struct_def [of health_status_field]
  decode_struct_def [of create_agent_result_field] dec_struct_def health_status_field_def create_agent_result_field_def
  parsed_StatusCode_def

lemma parse_visit:
  "map_result view_GetHealthz (ParseGetHealthzResponse (VisitGetHealthzResponse a)) = Inr (Some (GetHealthzResponseObject a))"
  "map_result view_ListAgents (full_ParseListAgentsResponse (VisitListAgentsResponse b)) = Inr (Some (ListAgentsResponseObject b))"
  "map_result view_CreateAgent (ParseCreateAgentResponse (VisitCreateAgentResponse c)) = Inr (Some (CreateAgentResponseObject c))"
  "map_result view_RemoveAgent (ParseRemoveAgentResponse (VisitRemoveAgentResponse d)) = Inr (Some (RemoveAgentResponseObject d))"
  "map_result view_StopAgent (ParseStopAgentResponse (VisitStopAgentResponse e)) = Inr (Some (StopAgentResponseObject e))"
proof -
  show "map_result view_GetHealthz (ParseGetHealthzResponse (VisitGetHealthzResponse a)) = Inr (Some (GetHealthzResponseObject a))"
    by (cases a) (simp_all add: ParseGetHealthzResponse_def view_GetHealthz_def map_result_def parse_defs)
  show "map_result view_ListAgents (full_ParseListAgentsResponse (VisitListAgentsResponse b)) = Inr (Some (ListAgentsResponseObject b))"
    by (cases b) (simp_all add: full_ParseListAgentsResponse_def view_ListAgents_def map_result_def parse_defs)
  show "map_result view_CreateAgent (ParseCreateAgentResponse (VisitCreateAgentResponse c)) = Inr (Some (CreateAgentResponseObject c))"
    by (cases c) (simp_all add: ParseCreateAgentResponse_def view_CreateAgent_def map_result_def parse_defs)
  show "map_result view_RemoveAgent (ParseRemoveAgentResponse (VisitRemoveAgentResponse d)) = Inr (Some (RemoveAgentResponseObject d))"
    by (cases d) (simp_all add: ParseRemoveAgentResponse_def view_RemoveAgent_def map_result_def parse_defs)
  show "map_result view_StopAgent (ParseStopAgentResponse (VisitStopAgentResponse e)) = Inr (Some (StopAgentResponseObject e))"
    by (cases e) (simp_all add: ParseStopAgentResponse_def view_StopAgent_def map_result_def parse_defs)
qed

section \<open>A remote call is a local call\<close>

text \<open>The transport to the generated server; a panic of a handler is a broken connection.\<close>

definition to_server :: "param_binder \<Rightarrow> 'w agent_manager \<Rightarrow> 'w http_doer" where
  "to_server bd h =
     \<lparr>hd_do = (\<lambda>r w. case Server_Routes bd h (arriving r) w of Some (resp, w) \<Rightarrow> (Inr resp, w) | None \<Rightarrow> (Inl (ErrText ''EOF''), w)),
      hd_status = (\<lambda>r. itoa (rs_status r)), hd_body = (\<lambda>r. [])\<rparr>"

datatype manager_call =
    CallHealthz
  | CallList
  | CallCreate create_agent_request
  | CallRemove string
  | CallStop string

definition viewed :: "('p \<Rightarrow> strict_response option) \<Rightarrow> ('p result \<times> 'w) option \<Rightarrow> (strict_response option result \<times> 'w) option" where
  "viewed view out = map_option (map_prod (map_result view) id) out"

primrec remote_call ::
    "('u, 'w) net_lib \<Rightarrow> 'w gen_client \<Rightarrow> manager_call \<Rightarrow> 'w \<Rightarrow> (strict_response option result \<times> 'w) option" where
  "remote_call lib c CallHealthz w = viewed view_GetHealthz (GetHealthzWithResponse lib c [] w)"
| "remote_call lib c CallList w = viewed view_ListAgents (ListAgentsWithResponse lib c [] w)"
| "remote_call lib c (CallCreate b) w = viewed view_CreateAgent (CreateAgentWithResponse lib c b [] w)"
| "remote_call lib c (CallRemove name) w = viewed view_RemoveAgent (RemoveAgentWithResponse lib c name [] w)"
| "remote_call lib c (CallStop name) w = viewed view_StopAgent (StopAgentWithResponse lib c name [] w)"

primrec local_call :: "'w agent_manager \<Rightarrow> manager_call \<Rightarrow> 'w \<Rightarrow> strict_response \<times> 'w" where
  "local_call h CallHealthz w = map_prod GetHealthzResponseObject id (Server_GetHealthz h w)"
| "local_call h CallList w = map_prod ListAgentsResponseObject id (Server_ListAgents h w)"
| "local_call h (CallCreate b) w = map_prod CreateAgentResponseObject id (Server_CreateAgent h (Some b) w)"
| "local_call h (CallRemove name) w = map_prod RemoveAgentResponseObject id (Server_RemoveAgent h name w)"
| "local_call h (CallStop name) w = map_prod StopAgentResponseObject id (Server_StopAgent h name w)"

text \<open>A call whose arguments survive the wire: the name is a path segment, the labels are a Go map.\<close>

definition sendable :: "('u, 'w) net_lib \<Rightarrow> string \<Rightarrow> manager_call \<Rightarrow> bool" where
  "sendable lib server m \<longleftrightarrow>
     (case m of
        CallCreate b \<Rightarrow> (case ca_labels b of Some ls \<Rightarrow> gomap_ok ls | None \<Rightarrow> True)
      | CallRemove name \<Rightarrow> name \<noteq> [] \<and> reaches_name lib server name
      | CallStop name \<Rightarrow> name \<noteq> [] \<and> reaches_name lib server name
      | _ \<Rightarrow> True)"

lemma to_server_do:
  "(\<And>v. bd_path bd ''name'' v = Inr v) \<Longrightarrow>
   hd_do (to_server bd h) r w = (Inr (fst (container_manager_http h r w)), snd (container_manager_http h r w))"
  by (simp add: to_server_def server_routes_flat split: prod.split)

lemma answered_call:
  assumes "sent = Some (hd_do (to_server bd h) r w)" and "\<And>v. bd_path bd ''name'' v = Inr v"
    and "container_manager_http h r w = map_prod visit id rw"
    and "\<And>x. map_result view (parse (visit x)) = Inr (Some (obj x))"
  shows "viewed view (with_response parse sent) = Some (map_prod (\<lambda>x. Inr (Some (obj x))) id rw)"
  using assms(1,3,4) by (cases rw) (simp add: viewed_def with_response_def to_server_do [OF assms(2)])

lemma flat_calls:
  "container_manager_http h NewGetHealthzRequest w = map_prod VisitGetHealthzResponse id (Server_GetHealthz h w)"
  "container_manager_http h NewListAgentsRequest w = map_prod VisitListAgentsResponse id (Server_ListAgents h w)"
  "\<forall>m. ca_labels b = Some m \<longrightarrow> gomap_ok m \<Longrightarrow>
    container_manager_http h (NewCreateAgentRequest b) w = map_prod VisitCreateAgentResponse id (Server_CreateAgent h (Some b) w)"
  "name \<noteq> [] \<Longrightarrow>
    container_manager_http h (NewRemoveAgentRequest name) w = map_prod VisitRemoveAgentResponse id (Server_RemoveAgent h name w)"
  "name \<noteq> [] \<Longrightarrow>
    container_manager_http h (NewStopAgentRequest name) w = map_prod VisitStopAgentResponse id (Server_StopAgent h name w)"
  by (simp_all add: container_manager_http_def is_get_def NewGetHealthzRequest_def NewListAgentsRequest_def
      NewCreateAgentRequest_def NewRemoveAgentRequest_def NewStopAgentRequest_def strict_GetHealthz_def
      strict_ListAgents_def strict_CreateAgent_def strict_RemoveAgent_def strict_StopAgent_def
      decode_create_agent split: prod.split)

text \<open>C24: a typed call of the generated client, through request building, transport, mux, wrapper, strict
  handler, response writing and parsing, returns exactly the typed response that the operation of
  the server returns when it is called locally, and leaves the machine as that call does: for each
  of the five operations and each of its outcomes, errors included.\<close>

theorem remote_call_is_local_call:
  assumes "gen_NewClient lib server [WithHTTPClient (plain_doer (to_server bd h))] = Inr c"
    and "reaches lib (with_slash server)" and "sendable lib (with_slash server) m"
    and "\<And>v. bd_path bd ''name'' v = Inr v"
  shows "remote_call lib c m w = Some (map_prod (\<lambda>resp. Inr (Some resp)) id (local_call h m w))"
proof -
  note g = generated_calls [OF assms(1,2)]
  note a = answered_call [OF _ assms(4)]
  show ?thesis
  proof (cases m)
    case CallHealthz
    have "viewed view_GetHealthz (with_response ParseGetHealthzResponse (gen_GetHealthz lib c [] w)) =
        Some (map_prod (\<lambda>x. Inr (Some (GetHealthzResponseObject x))) id (Server_GetHealthz h w))"
      by (rule a [OF g(1) flat_calls(1)]) (rule parse_visit)
    then show ?thesis by (simp add: CallHealthz GetHealthzWithResponse_def prod.map_comp comp_def id_def)
  next
    case CallList
    have "viewed view_ListAgents (with_response full_ParseListAgentsResponse (gen_ListAgents lib c [] w)) =
        Some (map_prod (\<lambda>x. Inr (Some (ListAgentsResponseObject x))) id (Server_ListAgents h w))"
      by (rule a [OF g(2) flat_calls(2)]) (rule parse_visit)
    then show ?thesis by (simp add: CallList ListAgentsWithResponse_def prod.map_comp comp_def id_def)
  next
    case (CallCreate b)
    then have ok: "\<forall>m. ca_labels b = Some m \<longrightarrow> gomap_ok m" using assms(3) by (auto simp: sendable_def)
    have "viewed view_CreateAgent (with_response ParseCreateAgentResponse (gen_CreateAgent lib c b [] w)) =
        Some (map_prod (\<lambda>x. Inr (Some (CreateAgentResponseObject x))) id (Server_CreateAgent h (Some b) w))"
      by (rule a [OF g(3) flat_calls(3) [OF ok]]) (rule parse_visit)
    then show ?thesis by (simp add: CallCreate CreateAgentWithResponse_def prod.map_comp comp_def id_def)
  next
    case (CallRemove name)
    then have n: "name \<noteq> []" "reaches_name lib (with_slash server) name" using assms(3) by (auto simp: sendable_def)
    have "viewed view_RemoveAgent (with_response ParseRemoveAgentResponse (gen_RemoveAgent lib c name [] w)) =
        Some (map_prod (\<lambda>x. Inr (Some (RemoveAgentResponseObject x))) id (Server_RemoveAgent h name w))"
      by (rule a [OF g(4) [OF n(2)] flat_calls(4) [OF n(1)]]) (rule parse_visit)
    then show ?thesis by (simp add: CallRemove RemoveAgentWithResponse_def prod.map_comp comp_def id_def)
  next
    case (CallStop name)
    then have n: "name \<noteq> []" "reaches_name lib (with_slash server) name" using assms(3) by (auto simp: sendable_def)
    have "viewed view_StopAgent (with_response ParseStopAgentResponse (gen_StopAgent lib c name [] w)) =
        Some (map_prod (\<lambda>x. Inr (Some (StopAgentResponseObject x))) id (Server_StopAgent h name w))"
      by (rule a [OF g(5) [OF n(2)] flat_calls(5) [OF n(1)]]) (rule parse_visit)
    then show ?thesis by (simp add: CallStop StopAgentWithResponse_def prod.map_comp comp_def id_def)
  qed
qed

text \<open>Addresses that are lists of segments, and names without a slash.\<close>

definition segment_lib :: "(string list, 'w) net_lib" where
  "segment_lib =
     \<lparr>nl_parse = (\<lambda>s. Inr (split_byte s (CHR ''/''))),
      nl_string = (\<lambda>u. concat (map (\<lambda>s. s @ ''/'') (butlast u)) @ last u),
      nl_resolve = (\<lambda>u p. Inr (butlast u @ tl (split_byte p (CHR ''/'')))),
      nl_path = (\<lambda>u. drop 3 u), nl_style_path = (\<lambda>k v. Inr v),
      nl_default_client = (\<lambda>req w. (Inl (ErrText ''no route to host''), w))\<rparr>"

theorem remote_call_is_local_call_witness:
  "\<exists>c. gen_NewClient segment_lib ''http://10.0.0.2:9090''
        [WithHTTPClient (plain_doer (to_server \<lparr>bd_query = (\<lambda>name q. Inr []), bd_path = (\<lambda>name v. Inr v)\<rparr>
           (agent_manager_of recording_manager)))] = Inr c \<and>
     remote_call segment_lib c (CallRemove ''a1'') [] =
       Some (map_prod (\<lambda>resp. Inr (Some resp)) id (local_call (agent_manager_of recording_manager) (CallRemove ''a1'') []))"
proof -
  let ?bd = "\<lparr>bd_query = (\<lambda>name q. Inr []), bd_path = (\<lambda>name v. Inr v)\<rparr> :: param_binder"
  let ?h = "agent_manager_of recording_manager"
  have "reaches segment_lib (with_slash ''http://10.0.0.2:9090'')"
    "sendable segment_lib (with_slash ''http://10.0.0.2:9090'') (CallRemove ''a1'')"
    by code_simp+
  from remote_call_is_local_call [OF new_client this, of ?bd ?h "[]"] new_client show ?thesis by fastforce
qed

end
