(* ===== verification/RequestLog.thy ===== *)
theory RequestLog
  imports Http
begin

text \<open>
  The request-logging middleware of the three programs: \<^verbatim>\<open>internal/api/helpers.go\<close> of cc-tunnel, and
  the same text in \<^verbatim>\<open>cmd/container-manager/main.go\<close> and \<^verbatim>\<open>cmd/cc-remote-agent/main.go\<close>.

  Here a handler is the sequence of calls it makes on its \<^verbatim>\<open>ResponseWriter\<close>.  \<open>net_op\<close> is the writer of
  \<^verbatim>\<open>net/http\<close>: the first \<^verbatim>\<open>WriteHeader\<close> decides the status and later ones are ignored; data or a flush
  before it sends 200.
\<close>

datatype writer_op = WriteHeader int | WriteData string | Flush

record http_writer =
  hw_status :: "int option"
  hw_data :: string
  hw_flushes :: nat

definition send_header :: "int \<Rightarrow> http_writer \<Rightarrow> http_writer" where
  "send_header c hw = (if hw_status hw = None then hw\<lparr>hw_status := Some c\<rparr> else hw)"

fun net_op :: "writer_op \<Rightarrow> http_writer \<Rightarrow> http_writer" where
  "net_op (WriteHeader c) hw = send_header c hw"
| "net_op (WriteData s) hw = (let hw = send_header 200 hw in hw\<lparr>hw_data := hw_data hw @ s\<rparr>)"
| "net_op Flush hw = (let hw = send_header 200 hw in hw\<lparr>hw_flushes := hw_flushes hw + 1\<rparr>)"

text \<open>What the client sees: a handler that never writes is answered 200.\<close>

definition client_status :: "http_writer \<Rightarrow> int" where
  "client_status hw = (case hw_status hw of Some c \<Rightarrow> c | None \<Rightarrow> 200)"

section \<open>The wrapped writer\<close>

record response_writer =
  rw_ResponseWriter :: http_writer
  rw_statusCode :: int

definition rw_WriteHeader :: "int \<Rightarrow> response_writer \<Rightarrow> response_writer" where
  "rw_WriteHeader code rw =
     rw\<lparr>rw_statusCode := code, rw_ResponseWriter := net_op (WriteHeader code) (rw_ResponseWriter rw)\<rparr>"

definition rw_Flush :: "response_writer \<Rightarrow> response_writer" where
  "rw_Flush rw = rw\<lparr>rw_ResponseWriter := net_op Flush (rw_ResponseWriter rw)\<rparr>"

text \<open>\<^verbatim>\<open>Write\<close> is the method of the embedded writer.\<close>

fun rw_op :: "writer_op \<Rightarrow> response_writer \<Rightarrow> response_writer" where
  "rw_op (WriteHeader code) rw = rw_WriteHeader code rw"
| "rw_op (WriteData s) rw = rw\<lparr>rw_ResponseWriter := net_op (WriteData s) (rw_ResponseWriter rw)\<rparr>"
| "rw_op Flush rw = rw_Flush rw"

record request_log =
  lg_method :: string
  lg_path :: "string list"
  lg_status :: int
  lg_duration_ms :: int

definition LoggingMiddleware ::
    "('w \<Rightarrow> int) \<Rightarrow> (request_log \<Rightarrow> 'w \<Rightarrow> 'w) \<Rightarrow> (http_request \<Rightarrow> 'w \<Rightarrow> writer_op list \<times> 'w) \<Rightarrow> http_request \<Rightarrow>
     http_writer \<Rightarrow> 'w \<Rightarrow> http_writer \<times> 'w" where
  "LoggingMiddleware now slog_info next_handler r hw w =
     (let start = now w in
      case next_handler r w of
        (ops, w) \<Rightarrow>
          let rw = fold rw_op ops \<lparr>rw_ResponseWriter = hw, rw_statusCode = 200\<rparr>
          in (rw_ResponseWriter rw,
              slog_info \<lparr>lg_method = rq_method r, lg_path = rq_path r, lg_status = rw_statusCode rw,
                         lg_duration_ms = (now w - start) div 1000000\<rparr> w))"

section \<open>The log tells the truth\<close>

definition last_code :: "writer_op list \<Rightarrow> int" where
  "last_code ops = fold (\<lambda>op c. case op of WriteHeader code \<Rightarrow> code | _ \<Rightarrow> c) ops 200"

definition is_header :: "writer_op \<Rightarrow> bool" where
  "is_header op = (case op of WriteHeader c \<Rightarrow> True | _ \<Rightarrow> False)"

lemma is_header_simps [simp]: "is_header (WriteHeader c)" "\<not> is_header (WriteData s)" "\<not> is_header Flush"
  by (simp_all add: is_header_def)

lemma run_wrapped:
  "fold rw_op ops \<lparr>rw_ResponseWriter = hw, rw_statusCode = c\<rparr> =
     \<lparr>rw_ResponseWriter = fold net_op ops hw,
      rw_statusCode = fold (\<lambda>op c. case op of WriteHeader code \<Rightarrow> code | _ \<Rightarrow> c) ops c\<rparr>"
proof (induction ops arbitrary: hw c)
  case (Cons op ops)
  then show ?case by (cases op) (simp_all add: rw_WriteHeader_def rw_Flush_def)
qed simp

lemma no_header_code: "\<forall>op \<in> set ops. \<not> is_header op \<Longrightarrow>
    fold (\<lambda>op c. case op of WriteHeader code \<Rightarrow> code | _ \<Rightarrow> c) ops c = c"
  by (induction ops) (auto split: writer_op.splits)

lemma net_keeps_status: "hw_status hw = Some c \<Longrightarrow> hw_status (fold net_op ops hw) = Some c"
proof (induction ops arbitrary: hw)
  case (Cons op ops)
  then show ?case by (cases op) (simp_all add: send_header_def)
qed simp

lemma plain_status: "\<forall>op \<in> set ops. \<not> is_header op \<Longrightarrow> hw_status hw = None \<Longrightarrow> client_status (fold net_op ops hw) = 200"
proof (cases ops)
  case (Cons op rest)
  assume a: "\<forall>op \<in> set ops. \<not> is_header op" "hw_status hw = None"
  then have "hw_status (net_op op hw) = Some 200"
    by (cases op) (auto simp: Cons send_header_def)
  then show ?thesis by (simp add: Cons client_status_def net_keeps_status)
qed (simp add: client_status_def)

text \<open>The status of the log line is the one the client got, for a handler that calls \<^verbatim>\<open>WriteHeader\<close> first
  or not at all.\<close>

definition header_first :: "writer_op list \<Rightarrow> bool" where
  "header_first ops = (\<forall>op \<in> set (tl ops). \<not> is_header op)"

lemma logged_code:
  assumes "header_first ops" and "hw_status hw = None"
  shows "last_code ops = client_status (fold net_op ops hw)"
proof (cases ops)
  case Nil
  then show ?thesis using assms by (simp add: last_code_def client_status_def)
next
  case (Cons op rest)
  have rest: "\<forall>op \<in> set rest. \<not> is_header op" using assms(1) by (simp add: header_first_def Cons)
  show ?thesis
  proof (cases "is_header op")
    case True
    then obtain c where op: "op = WriteHeader c" by (cases op) auto
    have "hw_status (net_op op hw) = Some c" using assms(2) by (simp add: op send_header_def)
    then show ?thesis
      by (simp add: Cons last_code_def no_header_code [OF rest] op client_status_def net_keeps_status)
  next
    case False
    with rest have all: "\<forall>op \<in> set ops. \<not> is_header op" by (simp add: Cons)
    have "last_code ops = 200" unfolding last_code_def by (rule no_header_code [OF all])
    then show ?thesis using plain_status [OF all assms(2)] by simp
  qed
qed

text \<open>The logging middleware changes nothing of what a handler writes and adds one line to the log after
  it, with the request's method and path; the status in that line is the one the client received,
  for every handler that sends its header first.\<close>

theorem logging_transparent:
  assumes "header_first (fst (next_handler r w))" and "hw_status hw = None"
  shows "\<exists>ms. LoggingMiddleware now slog_info next_handler r hw w =
    (let hw' = fold net_op (fst (next_handler r w)) hw in
     (hw', slog_info \<lparr>lg_method = rq_method r, lg_path = rq_path r, lg_status = client_status hw', lg_duration_ms = ms\<rparr>
             (snd (next_handler r w))))"
proof (cases "next_handler r w")
  case (Pair ops w')
  then have "fold (\<lambda>op c. case op of WriteHeader code \<Rightarrow> code | _ \<Rightarrow> c) ops 200 = client_status (fold net_op ops hw)"
    using logged_code [OF assms] by (simp add: last_code_def)
  then show ?thesis by (auto simp: LoggingMiddleware_def run_wrapped Let_def Pair)
qed

theorem logging_transparent_witness:
  "LoggingMiddleware (\<lambda>w. 0) (#) (\<lambda>r w. ([WriteHeader 404, WriteData ''no''], w)) (plain_request ''GET'' [''x''] NoBody)
     \<lparr>hw_status = None, hw_data = [], hw_flushes = 0\<rparr> [] =
   (\<lparr>hw_status = Some 404, hw_data = ''no'', hw_flushes = 0\<rparr>,
    [\<lparr>lg_method = ''GET'', lg_path = [''x''], lg_status = 404, lg_duration_ms = 0\<rparr>])"
proof -
  have "\<exists>ms. LoggingMiddleware (\<lambda>w. 0) (#) (\<lambda>r w. ([WriteHeader 404, WriteData ''no''], w)) (plain_request ''GET'' [''x''] NoBody)
     \<lparr>hw_status = None, hw_data = [], hw_flushes = 0\<rparr> [] =
   (\<lparr>hw_status = Some 404, hw_data = ''no'', hw_flushes = 0\<rparr>,
    [\<lparr>lg_method = ''GET'', lg_path = [''x''], lg_status = 404, lg_duration_ms = ms\<rparr>])"
    using logging_transparent [of "\<lambda>r w. ([WriteHeader 404, WriteData ''no''], w)" "plain_request ''GET'' [''x''] NoBody" "[]"
        "\<lparr>hw_status = None, hw_data = [], hw_flushes = 0\<rparr>" "\<lambda>w. 0" "(#)"]
    by (simp add: header_first_def send_header_def client_status_def Let_def)
  then show ?thesis by (simp add: LoggingMiddleware_def)
qed

text \<open>A handler that sends a second header is logged with that one, which the client never saw.\<close>

lemma second_header_logged:
  "snd (LoggingMiddleware (\<lambda>w. 0) (#) (\<lambda>r w. ([WriteHeader 200, WriteHeader 500], w)) r
     \<lparr>hw_status = None, hw_data = [], hw_flushes = 0\<rparr> []) =
   [\<lparr>lg_method = rq_method r, lg_path = rq_path r, lg_status = 500, lg_duration_ms = 0\<rparr>]"
  by (simp add: LoggingMiddleware_def rw_WriteHeader_def)

end
