(* ===== verification/Logging.thy ===== *)
theory Logging
  imports Http
begin

text \<open>
  The \<^verbatim>\<open>internal/logging\<close> packages: the handler that adds a call stack to records with an error, and the
  JSON handler with the field names of Cloud Logging.  The package of cc-tunnel is modelled;
  container-manager has the same text twice over, cc-remote-agent its \<^verbatim>\<open>ErrorStackHandler\<close>.

  A \<^verbatim>\<open>slog.Handler\<close> gives handlers from handlers, so it is a codatatype: what \<^verbatim>\<open>Enabled\<close> and \<^verbatim>\<open>Handle\<close>
  do, and the handlers \<^verbatim>\<open>WithAttrs\<close> and \<^verbatim>\<open>WithGroup\<close> return.  \<open>JSONHandler\<close> is \<^verbatim>\<open>slog.NewJSONHandler\<close>
  for values that are no groups (the programs log none): one JSON object per record, the attributes
  of open groups nested.
\<close>

section \<open>Records\<close>

datatype level = Level (level_int: int)

instantiation level :: linorder
begin

definition less_eq_level :: "level \<Rightarrow> level \<Rightarrow> bool" where
  "less_eq_level a b \<longleftrightarrow> level_int a \<le> level_int b"

definition less_level :: "level \<Rightarrow> level \<Rightarrow> bool" where
  "less_level a b \<longleftrightarrow> level_int a < level_int b"

instance
  by standard (auto simp: less_eq_level_def less_level_def intro: level.expand)

end

definition LevelInfo :: level where
  "LevelInfo = Level 0"

definition level_string :: "level \<Rightarrow> string" where
  "level_string l =
     (let str = (\<lambda>base v. if v = 0 then base else base @ (if v > 0 then ''+'' else []) @ itoa v); n = level_int l in
      if n < 0 then str ''DEBUG'' (n + 4) else if n < 4 then str ''INFO'' n
      else if n < 8 then str ''WARN'' (n - 4) else str ''ERROR'' (n - 8))"

datatype attr_value =
    StringValue string
  | IntValue int
  | ErrorValue goerr
  | StackValue "string list"
  | LevelValue level
  | TimeValue int

type_synonym attr = "string \<times> attr_value"

record slog_record =
  rec_time :: "int option"
  rec_level :: level
  rec_message :: string
  rec_attrs :: "attr list"

codatatype 'w slog_handler =
  SlogHandler (sl_Enabled: "level \<Rightarrow> bool") (sl_Handle: "slog_record \<Rightarrow> ('w, unit) call")
    (sl_WithAttrs: "attr list \<Rightarrow> 'w slog_handler") (sl_WithGroup: "string \<Rightarrow> 'w slog_handler")

section \<open>The call stack\<close>

text \<open>\<open>callers\<close> are the frames of the goroutine, innermost first, starting with \<^verbatim>\<open>runtime.Callers\<close> itself.\<close>

record frame =
  fr_File :: string
  fr_Line :: int

definition frame_text :: "frame \<Rightarrow> string" where
  "frame_text f = fr_File f @ '':'' @ itoa (fr_Line f)"

fun collect_frames :: "frame list \<Rightarrow> string list \<Rightarrow> string list" where
  "collect_frames [] stack = stack"
| "collect_frames (f # fs) stack =
     (let stack = (if fr_File f \<noteq> [] then stack @ [frame_text f] else stack)
      in if fs = [] \<or> length stack \<ge> 8 then stack else collect_frames fs stack)"

definition extractStack :: "frame list \<Rightarrow> string list" where
  "extractStack callers =
     (let pcs = take 32 (drop 3 callers) in if length pcs = 0 then [] else collect_frames pcs [])"

section \<open>ErrorStackHandler\<close>

fun has_error :: "attr list \<Rightarrow> bool" where
  "has_error [] = False"
| "has_error ((k, v) # attrs) = (case v of ErrorValue e \<Rightarrow> True | _ \<Rightarrow> has_error attrs)"

definition with_stack :: "frame list \<Rightarrow> slog_record \<Rightarrow> slog_record" where
  "with_stack callers r =
     (if has_error (rec_attrs r)
      then r\<lparr>rec_attrs := rec_attrs r @ [(''stack'', StackValue (extractStack callers))]\<rparr> else r)"

primcorec ErrorStackHandler :: "frame list \<Rightarrow> 'w slog_handler \<Rightarrow> 'w slog_handler" where
  "sl_Enabled (ErrorStackHandler callers nxt) = sl_Enabled nxt"
| "sl_Handle (ErrorStackHandler callers nxt) = (\<lambda>r. sl_Handle nxt (with_stack callers r))"
| "sl_WithAttrs (ErrorStackHandler callers nxt) = (\<lambda>attrs. ErrorStackHandler callers (sl_WithAttrs nxt attrs))"
| "sl_WithGroup (ErrorStackHandler callers nxt) = (\<lambda>name. ErrorStackHandler callers (sl_WithGroup nxt name))"

section \<open>The JSON handler\<close>

type_synonym replace_attr = "string list \<Rightarrow> attr \<Rightarrow> attr"

record handler_options =
  ho_Level :: level
  ho_ReplaceAttr :: "replace_attr option"

definition value_text :: "(int \<Rightarrow> string) \<Rightarrow> attr_value \<Rightarrow> string" where
  "value_text time_text v =
     (case v of StringValue s \<Rightarrow> s | IntValue n \<Rightarrow> itoa n | ErrorValue e \<Rightarrow> error_string e
      | StackValue ss \<Rightarrow> ''['' @ join ss '' '' @ '']'' | LevelValue l \<Rightarrow> level_string l | TimeValue t \<Rightarrow> time_text t)"

definition value_json :: "(int \<Rightarrow> string) \<Rightarrow> attr_value \<Rightarrow> json" where
  "value_json time_text v =
     (case v of IntValue n \<Rightarrow> JNum (of_int n) | StackValue ss \<Rightarrow> enc_strings ss | _ \<Rightarrow> JStr (value_text time_text v))"

definition replaced :: "handler_options \<Rightarrow> replace_attr" where
  "replaced opts groups a = (case ho_ReplaceAttr opts of None \<Rightarrow> a | Some f \<Rightarrow> f groups a)"

definition attr_json :: "(int \<Rightarrow> string) \<Rightarrow> handler_options \<Rightarrow> string list \<Rightarrow> attr \<Rightarrow> string \<times> json" where
  "attr_json time_text opts groups a = (case replaced opts groups a of (k, v) \<Rightarrow> (k, value_json time_text v))"

definition built_ins :: "slog_record \<Rightarrow> attr list" where
  "built_ins r = (case rec_time r of None \<Rightarrow> [] | Some t \<Rightarrow> [(''time'', TimeValue t)]) @
     [(''level'', LevelValue (rec_level r)), (''msg'', StringValue (rec_message r))]"

text \<open>Attributes with the number of groups open when they were added, nested below those groups; an empty
  group is left out.\<close>

fun nest_groups :: "string list \<Rightarrow> (nat \<times> string \<times> json) list \<Rightarrow> json gomap" where
  "nest_groups [] es = map snd es"
| "nest_groups (g # gs) es =
     map snd (filter (\<lambda>(n, kv). n = 0) es) @
     (let inner = nest_groups gs (map (\<lambda>(n, kv). (n - 1, kv)) (filter (\<lambda>(n, kv). n \<noteq> 0) es))
      in if inner = [] then [] else [(g, JObj inner)])"

definition json_line ::
    "(int \<Rightarrow> string) \<Rightarrow> handler_options \<Rightarrow> string list \<Rightarrow> (nat \<times> attr) list \<Rightarrow> slog_record \<Rightarrow> json gomap" where
  "json_line time_text opts groups pre r =
     map (attr_json time_text opts []) (built_ins r) @
     nest_groups groups (map (\<lambda>(n, a). (n, attr_json time_text opts (take n groups) a))
       (pre @ map (Pair (length groups)) (rec_attrs r)))"

primcorec JSONHandler ::
    "(int \<Rightarrow> string) \<Rightarrow> (json \<Rightarrow> ('w, unit) call) \<Rightarrow> handler_options \<Rightarrow> string list \<Rightarrow> (nat \<times> attr) list \<Rightarrow> 'w slog_handler" where
  "sl_Enabled (JSONHandler time_text emit opts groups pre) = (\<lambda>l. ho_Level opts \<le> l)"
| "sl_Handle (JSONHandler time_text emit opts groups pre) =
     (\<lambda>r. emit (JObj (json_line time_text opts groups pre r)))"
| "sl_WithAttrs (JSONHandler time_text emit opts groups pre) =
     (\<lambda>attrs. JSONHandler time_text emit opts groups (pre @ map (Pair (length groups)) attrs))"
| "sl_WithGroup (JSONHandler time_text emit opts groups pre) =
     (\<lambda>name. JSONHandler time_text emit opts (if name = [] then groups else groups @ [name]) pre)"

section \<open>Cloud Logging\<close>

definition to_upper :: "string \<Rightarrow> string" where
  "to_upper s = map (\<lambda>c. let k = of_char c :: nat in if 97 \<le> k \<and> k \<le> 122 then char_of (k - 32) else c) s"

definition cloud_replace :: "(int \<Rightarrow> string) \<Rightarrow> replace_attr option \<Rightarrow> replace_attr" where
  "cloud_replace time_text prev groups a =
     (let (k, v) = a; otherwise = (case prev of Some f \<Rightarrow> f groups a | None \<Rightarrow> a) in
      if groups = [] then
        if k = ''level'' then (''severity'', StringValue (to_upper (value_text time_text v)))
        else if k = ''msg'' then (''message'', v)
        else if k = ''time'' then (''timestamp'', v)
        else otherwise
      else otherwise)"

definition NewCloudLoggingHandler ::
    "(int \<Rightarrow> string) \<Rightarrow> frame list \<Rightarrow> (json \<Rightarrow> ('w, unit) call) \<Rightarrow> handler_options option \<Rightarrow> 'w slog_handler" where
  "NewCloudLoggingHandler time_text callers emit opts =
     (let base = (case opts of Some o' \<Rightarrow> o' | None \<Rightarrow> \<lparr>ho_Level = LevelInfo, ho_ReplaceAttr = None\<rparr>)
      in ErrorStackHandler callers (JSONHandler time_text emit
           (base\<lparr>ho_ReplaceAttr := Some (cloud_replace time_text (ho_ReplaceAttr base))\<rparr>) [] []))"

section \<open>Derived handlers\<close>

datatype derivation = With "attr list" | WithGroup string

fun derive :: "derivation list \<Rightarrow> 'w slog_handler \<Rightarrow> 'w slog_handler" where
  "derive [] h = h"
| "derive (With attrs # ds) h = derive ds (sl_WithAttrs h attrs)"
| "derive (WithGroup name # ds) h = derive ds (sl_WithGroup h name)"

lemma derive_stack: "derive ds (ErrorStackHandler callers nxt) = ErrorStackHandler callers (derive ds nxt)"
  by (induction ds nxt rule: derive.induct) simp_all

fun derive_json :: "derivation list \<Rightarrow> string list \<Rightarrow> (nat \<times> attr) list \<Rightarrow> string list \<times> (nat \<times> attr) list" where
  "derive_json [] groups pre = (groups, pre)"
| "derive_json (With attrs # ds) groups pre = derive_json ds groups (pre @ map (Pair (length groups)) attrs)"
| "derive_json (WithGroup name # ds) groups pre = derive_json ds (if name = [] then groups else groups @ [name]) pre"

lemma derive_JSONHandler:
  "derive ds (JSONHandler time_text emit opts groups pre) =
     (case derive_json ds groups pre of (groups', pre') \<Rightarrow> JSONHandler time_text emit opts groups' pre')"
  by (induction ds groups pre rule: derive_json.induct) auto

lemma nest_groups_avoid:
  assumes "\<And>n k v. (n, k, v) \<in> set es \<Longrightarrow> n = 0 \<or> gs = [] \<Longrightarrow> k \<notin> S"
  shows "fst ` set (nest_groups gs es) \<inter> S \<subseteq> set gs"
  using assms by (cases gs) (fastforce simp: Let_def split: if_splits)+

lemma cloud_keys:
  assumes "ho_ReplaceAttr opts = Some (cloud_replace time_text None)"
  shows "fst (attr_json time_text opts [] a) \<notin> {''level'', ''msg'', ''time''}"
  by (cases a) (auto simp: attr_json_def replaced_def assms cloud_replace_def)

lemma derived_groups:
  "set (fst (derive_json ds groups pre)) \<subseteq> set groups \<union> {g. WithGroup g \<in> set ds}"
  by (induction ds groups pre rule: derive_json.induct) (auto split: if_splits)

lemma nested_attr:
  assumes "(m, k, v) \<in> set (map (\<lambda>(n, a). (n, attr_json tt opts (take n groups) a)) xs)"
  shows "\<exists>a. k = fst (attr_json tt opts (take m groups) a)"
proof -
  from assms obtain n a where "(m, k, v) = (n, attr_json tt opts (take n groups) a)" by auto
  then have "k = fst (attr_json tt opts (take m groups) a)" by (metis Pair_inject fst_conv)
  then show ?thesis ..
qed

lemma map_avoid: "(\<And>a. fst (f a) \<notin> S) \<Longrightarrow> fst ` set (map f xs) \<inter> S = {}"
  by (induction xs) auto

lemma cloud_line_keys:
  assumes o': "ho_ReplaceAttr opts = Some (cloud_replace time_text None)"
  shows "fst ` set (json_line time_text opts groups pre r) \<inter> {''level'', ''msg'', ''time''} \<subseteq> set groups"
proof -
  note ck = cloud_keys [OF o']
  have "fst ` set (nest_groups groups (map (\<lambda>(n, a). (n, attr_json time_text opts (take n groups) a)) xs)) \<inter>
      {''level'', ''msg'', ''time''} \<subseteq> set groups" for xs
  proof (rule nest_groups_avoid)
    fix n k v
    assume "(n, k, v) \<in> set (map (\<lambda>(n, a). (n, attr_json time_text opts (take n groups) a)) xs)" "n = 0 \<or> groups = []"
    from nested_attr [OF this(1)] this(2) ck show "k \<notin> {''level'', ''msg'', ''time''}" by auto
  qed
  moreover have "fst ` set (map (attr_json time_text opts []) (built_ins r)) \<inter> {''level'', ''msg'', ''time''} = {}"
    by (rule map_avoid) (rule ck)
  ultimately show ?thesis unfolding json_line_def set_append image_Un by blast
qed

text \<open>Every record that a logger of the program writes, whatever attributes and groups were attached to
  the logger, becomes one JSON object that has its level in upper case under "severity" and its text
  under "message"; "level", "msg" and "time" never appear at the top of it, unless a group has that
  name; and a record with an error among its own attributes is written as the same record with the
  call stack added.\<close>

theorem cloud_log_line:
  "\<exists>line groups. sl_Handle (derive ds (NewCloudLoggingHandler time_text callers emit None)) r w = emit (JObj line) w \<and>
     (''severity'', JStr (to_upper (level_string (rec_level r)))) \<in> set line \<and>
     (''message'', JStr (rec_message r)) \<in> set line \<and>
     fst ` set line \<inter> {''level'', ''msg'', ''time''} \<subseteq> {g. WithGroup g \<in> set ds} \<and>
     line = (case derive_json ds [] [] of (gs, pre) \<Rightarrow> json_line time_text
       \<lparr>ho_Level = LevelInfo, ho_ReplaceAttr = Some (cloud_replace time_text None)\<rparr> gs pre (with_stack callers r))"
proof -
  define opts where "opts = \<lparr>ho_Level = LevelInfo, ho_ReplaceAttr = Some (cloud_replace time_text None)\<rparr>"
  obtain gs pre where d: "derive_json ds [] [] = (gs, pre)" by (cases "derive_json ds [] []")
  define line where "line = json_line time_text opts gs pre (with_stack callers r)"
  have handle: "sl_Handle (derive ds (NewCloudLoggingHandler time_text callers emit None)) r w = emit (JObj line) w"
    by (simp add: NewCloudLoggingHandler_def derive_stack derive_JSONHandler d line_def opts_def)
  have gs: "set gs \<subseteq> {g. WithGroup g \<in> set ds}" using derived_groups [of ds "[]" "[]"] by (simp add: d)
  have keys: "fst ` set line \<inter> {''level'', ''msg'', ''time''} \<subseteq> {g. WithGroup g \<in> set ds}"
    using cloud_line_keys [of opts time_text gs pre "with_stack callers r"] gs by (simp add: opts_def line_def)
  have rec: "rec_level (with_stack callers r) = rec_level r" "rec_message (with_stack callers r) = rec_message r"
    by (simp_all add: with_stack_def)
  have "(''severity'', JStr (to_upper (level_string (rec_level r)))) \<in> set line"
    "(''message'', JStr (rec_message r)) \<in> set line"
    by (simp_all add: line_def json_line_def built_ins_def attr_json_def replaced_def opts_def cloud_replace_def rec
        value_json_def value_text_def)
  with handle keys show ?thesis by (auto simp: d line_def opts_def)
qed

text \<open>The frames between the program and \<^verbatim>\<open>runtime.Callers\<close>: the closure in \<^verbatim>\<open>Handle\<close>, \<^verbatim>\<open>Record.Attrs\<close> and
  \<^verbatim>\<open>Handle\<close> itself.  Three of them are skipped, so that the stack begins inside \<^verbatim>\<open>log/slog\<close> and the
  handler.\<close>

lemma stack_begins_in_handler:
  "extractStack (c0 # c1 # c2 # \<lparr>fr_File = ''log/slog/record.go'', fr_Line = m\<rparr> #
       \<lparr>fr_File = ''logging/handler.go'', fr_Line = n\<rparr> # rest) =
     (''log/slog/record.go:'' @ itoa m) # (''logging/handler.go:'' @ itoa n) #
     (if rest = [] then [] else drop 2 (collect_frames (take 30 rest)
        [''log/slog/record.go:'' @ itoa m, ''logging/handler.go:'' @ itoa n]))"
proof -
  have "take 2 (collect_frames fs [a, b]) = [a, b]" for fs and a b :: string
  proof -
    have "\<exists>s'. collect_frames fs s = s @ s'" for s by (induction fs s rule: collect_frames.induct) (auto simp: Let_def)
    then obtain s' where "collect_frames fs [a, b] = [a, b] @ s'" by blast
    then show ?thesis by simp
  qed
  then have "collect_frames fs [a, b] = a # b # drop 2 (collect_frames fs [a, b])" for fs and a b :: string
    by (metis append_take_drop_id append_Cons append_Nil)
  then show ?thesis by (simp add: extractStack_def frame_text_def Let_def)
qed

end
