(* ===== verification/Spec2Isabelle.thy ===== *)
theory Spec2Isabelle
  imports SelfReaper_Props CMClient_Props CleanupSteps_Examples SessionTimers CrashRecovery_Examples Shutdown
    ReconcileSteps_Examples OverlappingRuns AggregatorHeap ApiTypes_Props GenClient_Props RequestLog Logging
begin

text \<open>
  A model of cc-tunnel and the properties that make it correct.

  \<^bold>\<open>The system.\<close>  Three Go programs let a user talk to Claude Code through a browser.
  cc-tunnel (\<^verbatim>\<open>src/apps/cc-tunnel\<close>) serves the HTTP API, keeps conversations, messages, machines
  and encrypted credentials in PostgreSQL, and runs one agent container per conversation through an
  execution provider: on the local Docker host, or on Compute Engine machines it creates.
  container-manager (\<^verbatim>\<open>src/apps/container-manager\<close>) runs on every machine, starts and removes agent
  containers on its Docker daemon, and deletes its own machine when no agent has run for a while.
  cc-remote-agent (\<^verbatim>\<open>src/apps/cc-remote-agent\<close>) runs in the container, drives the Claude CLI and its
  login, and streams the CLI's events back.

  A message goes from \<^verbatim>\<open>SendMessage\<close> to \<^verbatim>\<open>executeAndPersist\<close>, from there to the provider, to the
  agent's \<^verbatim>\<open>/execute\<close>, to the CLI; the events come back through \<^verbatim>\<open>remoteclient\<close> and the
  aggregator into the message's row.

  \<^bold>\<open>How code becomes definitions.\<close>  A Go function is a definition of the same name (with a prefix
  where two packages or HOL have the name) that takes and returns the state it changes.  The type
  \<open>('w, 'a) call\<close> is a call on a world \<open>'w\<close> with a Go result: \<open>Inl\<close> an error, \<open>Inr\<close> a value.  The world
  is polymorphic where the code only uses an interface; the interface is then a record of functions
  (the Docker and Compute SDKs, the network, the clock, the CLI), a parameter of every definition
  that uses it.  What a property needs of such a parameter is a named hypothesis and has an instance
  at which it holds.  Strings are byte strings; times are integers in nanoseconds and a zero time or
  nil pointer is \<open>None\<close>; sized integers are words where the code computes with them or decodes them;
  a Go map is an association list (\<open>gomap\<close>) with lookup, update and deletion.  Loops over lists are
  structural recursion.  Loops that wait have fuel, and running out of it is the value \<open>None\<close>, which the
  termination properties exclude.

  \<^bold>\<open>Theories.\<close>
  \<^item> \<open>Prelude\<close>, \<open>JsonValue\<close>, \<open>Http\<close>: Go errors, the string functions used, maps, JSON values,
    \<^verbatim>\<open>encoding/json\<close> decoding into structs, requests and responses.
  \<^item> \<open>Repository\<close>: the tables, the constraints of \<^verbatim>\<open>internal/db/migrations\<close> and every query of
    \<^verbatim>\<open>internal/db/repository.go\<close>; any statement may fail.  \<open>Repository_Props\<close>: integrity under all
    statements, port and machine selection.
  \<^item> \<open>DockerManager\<close> (\<^verbatim>\<open>container-manager/internal/docker\<close>), \<open>ContainerManagerApi\<close>
    (\<^verbatim>\<open>container-manager/internal/api\<close>), \<open>SelfReaper\<close> (\<^verbatim>\<open>internal/selfreaper\<close>): the daemon operations,
    the HTTP server, the self-termination loop; \<open>SelfReaper_Props\<close>: when the machine is deleted.
  \<^item> \<open>CMClient\<close>, \<open>CMClient_Props\<close>: cc-tunnel's client of container-manager (\<^verbatim>\<open>internal/cmclient\<close>) and
    both ends together.
  \<^item> The generated code: \<open>GenServer\<close> is what the two generated servers share (parameter errors, wrapper,
    middlewares, mux, options); \<open>ApiGen\<close> and \<open>CmApiGen\<close> are the rest of the two files \<^verbatim>\<open>gen.go\<close> (wrapper
    methods, routes, strict handlers), \<open>ApiGen_Props\<close> and \<open>CmApiGen_Props\<close> show that they are the flat
    servers \<open>api_http\<close> and \<open>container_manager_http\<close> on which the other properties rest.  \<open>GenClient\<close> is
    \<^verbatim>\<open>internal/cmclient/genclient\<close>; \<open>GenClient_Props\<close> shows that its typed calls against the generated
    server are the server's typed operations.  \<open>ApiTypes\<close>, \<open>ApiTypes_Props\<close>: the structs as types of
    JSON, what \<^verbatim>\<open>openapi.yaml\<close> documents, and that the responses have the documented types.
  \<^item> \<open>RemoteClient\<close>: cc-tunnel's client of the agent (\<^verbatim>\<open>internal/remoteclient\<close>).
  \<^item> \<open>GceClient\<close>, \<open>DockerGCE\<close>: \<^verbatim>\<open>internal/gce\<close> and the Compute Engine provider
    (\<^verbatim>\<open>internal/provider/dockergce\<close>).  \<open>DockerGCE_Props\<close>: what \<^verbatim>\<open>getOrCreateEndpoint\<close> promises, that no
    container is orphaned, that it returns; \<open>DockerGCE_Reconcile\<close>: \<^verbatim>\<open>ReconcileVMs\<close> over whole
    histories; \<open>DockerGCE_Examples\<close>: concrete worlds; \<open>DockerGCE_Cleanup\<close>: what \<^verbatim>\<open>CleanupOrphans\<close> spares
    and takes.  \<open>CleanupSteps\<close>, \<open>CleanupSteps_Props\<close>, \<open>CleanupSteps_Examples\<close>: the clean-up as steps of one
    call each between the steps of the requests; that they are the operation, that the counters stay at
    least the number of rows, and how the clean-up can take the machine of a new agent.  \<open>EndpointSteps\<close>, \<open>EndpointSteps_Props\<close>,
    \<open>EndpointSteps_Examples\<close>: the same operation as steps of one call each, the requests of several
    conversations interleaved; that the steps are the operation, what survives the interleaving
    (counters, no forgotten container) and what does not (the capacity of a machine).  \<open>ReconcileSteps\<close>,
    \<open>ReconcileSteps_Props\<close>, \<open>ReconcileSteps_Examples\<close>: \<^verbatim>\<open>ReconcileVMs\<close> call by call among the other
    operations; that with one pass at a time a deletion is justified, and that passes which overlap can
    delete too early.  \<open>Shutdown\<close>: the background loops, closing the provider and the end of the process.
  \<^item> \<open>SessionManager\<close>, \<open>SessionManager_Props\<close>: \<^verbatim>\<open>internal/docker\<close> and the local, single-client and
    mock providers.  \<open>SessionTimers\<close>: the idle timers as a step relation.
  \<^item> \<open>Credential\<close>, \<open>Credential_Props\<close>: \<^verbatim>\<open>internal/credential\<close>.
  \<^item> \<open>Title\<close>, \<open>MessageService\<close>, \<open>MessageService_Props\<close>, \<open>ApiServer\<close>, \<open>ApiServer_Props\<close>: titles, stream
    aggregation and persistence, the handlers and routes of \<^verbatim>\<open>internal/api\<close>.  \<open>AggregatorHeap\<close>: the
    aggregator's slices, maps and pointers in an explicit memory, and that its snapshots do not change
    afterwards.  \<open>ConversationTurn\<close>: two
    messages of a conversation in a row, over handler, provider, aggregator and database.
    \<open>WholeTurn\<close>, \<open>WholeTurn_Examples\<close>: one message through all programs, from the handler to the arguments
    of the CLI and from its output lines to the row.  \<open>CrashRecovery\<close>, \<open>CrashRecovery_Examples\<close>: the
    statements of a run one by one, cut anywhere, and the next start.  \<open>OverlappingRuns\<close>: the statements
    of several runs in any order.
  \<^item> \<open>Admin\<close>, \<open>CcTunnelMain\<close>, \<open>Startup\<close>: the reconcile endpoint, the configuration and the \<^verbatim>\<open>main\<close> functions of
    cc-tunnel and container-manager.  \<open>RequestLog\<close>, \<open>Logging\<close>: the logging middleware and the handlers
    of \<^verbatim>\<open>internal/logging\<close>.
  \<^item> \<open>ClaudeExecutor\<close>, \<open>AuthManager\<close>, \<open>AgentApi\<close>: cc-remote-agent; \<open>AgentEndToEnd\<close> connects it to
    \<open>RemoteClient\<close>.

  \<^bold>\<open>Contracts.\<close>  \<open>ReapClock\<close> states, as a locale, the decision both machine reapers make on an
  observation of the agent count; it is interpreted on the self-reaper's tick and on the per-machine
  step of \<^verbatim>\<open>ReconcileVMs\<close>, and both safety properties rest on its history lemmas.
  \<open>KeyedStore\<close> states what a lookup gives after a put or a deletion; it is interpreted on Go maps, on
  the application sessions and on the credentials table.  \<open>pg_ok\<close> is the integrity invariant of the
  database; \<open>gce_outside\<close>, \<open>manager_contract\<close> and \<open>gce_time\<close> state what the Compute Engine provider
  relies on; \<open>runner_tracks\<close> and \<open>clock_ok\<close> do so for the session manager.

  \<^bold>\<open>Bounds.\<close>  \<open>pickHealthyAvailableVM\<close> makes 5 attempts and the port loop 3, as in the code.  The fuel of the
  polls of the Compute Engine provider is enough when it exceeds the largest timeout divided by the
  poll interval by 2 (\<open>fuel_enough\<close>), that of the session manager by \<open>waitForReady_returns\<close> when it
  exceeds the start timeout divided by 500 ms likewise.

  \<^bold>\<open>Not modelled.\<close>  The embedded, compressed OpenAPI documents and their decoding (nothing serves them),
  opening connections, the text of migrations beyond the constraints, flag parsing: input
  and output the rest does not depend on.  Log lines are not part of the worlds; the logging code
  itself is \<open>RequestLog\<close> and \<open>Logging\<close>.  Operations that hold a mutex or a singleflight key are single
  steps; interleavings are explicit where the code allows them and a property depends on them: the
  batch ticker against the stream, the runs of several messages, the login operations of the agent,
  endpoint requests against each other, idle timers against the session manager, the reapers against
  all others.
\<close>

end
